(* ===== verification/Rubrica_Prelude.thy ===== *)
theory Rubrica_Prelude
  imports Complex_Main "HOL-Library.AList" "HOL-Library.Sublist"
begin

text \<open>
  Shared vocabulary of the development: the Python values the services exchange
  (UUIDs, timestamps, JSON, exceptions), dictionaries with Python's insertion order,
  the string methods the services call, and the collections of lemmas the component
  theories use.

  \<^item> A UUID is its integer value (\<open>UUID.int\<close>); \<open>uuid4()\<close> draws the next number of a
    supply kept in the state that calls it, so draws never collide.
  \<^item> A \<open>datetime\<close> is an integer number of microseconds in UTC. Every
    \<open>DateTimeService.utc_now()\<close> of one operation is the operation's argument \<open>now\<close>.
  \<^item> Text is \<open>string\<close> with ASCII case mapping and white space; bytes are \<open>string\<close> too
    (a \<open>char\<close> is one byte), and \<open>str.encode()\<close> is the identity on ASCII text.
\<close>

section \<open>Collections of lemmas\<close>

named_theorems op_defs \<open>definitions of the operations of a service\<close>
named_theorems dict_simps \<open>lookup laws of dictionaries\<close>
named_theorems inv_defs \<open>definitions of the invariants of a service\<close>

section \<open>Python values\<close>

type_synonym uuid = nat
type_synonym datetime = int
type_synonym bytes = string

text \<open>\<open>timedelta(seconds=n)\<close> and \<open>timedelta(days=n)\<close> in microseconds.\<close>

definition seconds :: "int \<Rightarrow> int" where
  "seconds n = n * 1000000"

definition days :: "int \<Rightarrow> int" where
  "days n = n * 86400 * 1000000"

lemma seconds_pos [simp]: "0 < seconds n \<longleftrightarrow> 0 < n"
  by (simp add: seconds_def)

lemma days_pos [simp]: "0 < days n \<longleftrightarrow> 0 < n"
  by (simp add: days_def)

text \<open>
  JSON values as the services build them. \<open>JUuid\<close> is the text \<open>str(uuid)\<close> and
  \<open>JTime\<close> the text \<open>datetime.isoformat()\<close>: both renderings are injective.
\<close>

datatype json =
    JNull
  | JBool bool
  | JInt int
  | JFloat rat
  | JStr string
  | JUuid uuid
  | JTime datetime
  | JList "json list"
  | JObj "(string \<times> json) list"

text \<open>
  The exceptions the modelled code raises. \<open>WorkflowError message status_code code context\<close>
  is \<open>core_api.modules.signature_request.workflow_service.WorkflowError\<close>; \<open>HttpError\<close> is a failed call
  of a client, with the status of the answer when there was one.
\<close>

datatype exn =
    WorkflowError string int "string option" "(string \<times> json) list"
  | FileNotFoundError string
  | FileExistsError string
  | KeyError
  | ValueError string
  | IntegrityError
  | ClientError string "int option"
  | AttributeError
  | RuntimeError string
  | MfaError string
  | AccountConflictError
  | InvalidAccountTokenError
  | BillingProviderError string
  | InvalidWebhookSignatureError
  | BillingEmailDeliveryError
  | PdfReadError string
  | TypeError string
  | RecursionError
  | AssertionError
  | IndexError
  | HttpError "int option"
  | HTTPException int string
  | LookupError string
  | JSONDecodeError
  | ValidationError string
  | MetaConfigurationError string
  | MetaRequestError string
  | MetaPhoneConflictError
  | RelationalDomainError string

abbreviation workflow_error :: "string \<Rightarrow> int \<Rightarrow> exn" where
  "workflow_error message status \<equiv> WorkflowError message status None []"

type_synonym 'a result = "exn + 'a"

section \<open>Dictionaries\<close>

text \<open>
  A Python \<open>dict\<close> keeps insertion order and replaces a value in place, which is what
  \<open>AList.update\<close> does; \<open>del d[k]\<close> is \<open>AList.delete\<close>; \<open>d.get(k)\<close> is \<open>map_of d k\<close>.
\<close>

type_synonym ('k, 'v) dict = "('k \<times> 'v) list"

abbreviation dict_get :: "('k, 'v) dict \<Rightarrow> 'k \<Rightarrow> 'v option" where
  "dict_get d k \<equiv> map_of d k"

abbreviation dict_set :: "'k \<Rightarrow> 'v \<Rightarrow> ('k, 'v) dict \<Rightarrow> ('k, 'v) dict" where
  "dict_set k v d \<equiv> AList.update k v d"

abbreviation dict_del :: "'k \<Rightarrow> ('k, 'v) dict \<Rightarrow> ('k, 'v) dict" where
  "dict_del k d \<equiv> AList.delete k d"

definition dict_values :: "('k, 'v) dict \<Rightarrow> 'v list" where
  "dict_values d = map snd d"

text \<open>\<open>d.get(k, default)\<close>.\<close>

definition dict_get_or :: "('k, 'v) dict \<Rightarrow> 'k \<Rightarrow> 'v \<Rightarrow> 'v" where
  "dict_get_or d k v = (case map_of d k of None \<Rightarrow> v | Some w \<Rightarrow> w)"

lemma dict_get_set [dict_simps, simp]:
  "map_of (AList.update k v d) k' = (if k' = k then Some v else map_of d k')"
  by (simp add: AList.update_conv')

lemma dict_get_del [dict_simps, simp]:
  "map_of (AList.delete k d) k' = (if k' = k then None else map_of d k')"
  by (simp add: AList.delete_conv')

lemma dict_get_or_set [dict_simps, simp]:
  "dict_get_or (AList.update k v d) k' w = (if k' = k then v else dict_get_or d k' w)"
  by (simp add: dict_get_or_def)

lemma dict_get_in_values: "map_of d k = Some v \<Longrightarrow> v \<in> set (dict_values d)"
  by (force simp: dict_values_def dest: map_of_SomeD)

lemma dict_values_iff:
  "distinct (map fst d) \<Longrightarrow> v \<in> set (dict_values d) \<longleftrightarrow> (\<exists>k. map_of d k = Some v)"
  by (force simp: dict_values_def dest: map_of_SomeD map_of_is_SomeI)

lemma dict_values_set_subset:
  "set (dict_values (AList.update k v d)) \<subseteq> insert v (set (dict_values d))"
  by (induction d) (auto simp: dict_values_def)

text \<open>
  The interface the services rely on, with the laws of a map. Both the dictionaries here
  and the tables of the databases provide it.
\<close>

locale key_value_store =
  fixes get :: "'m \<Rightarrow> 'k \<Rightarrow> 'v option"
    and put :: "'k \<Rightarrow> 'v \<Rightarrow> 'm \<Rightarrow> 'm"
    and del :: "'k \<Rightarrow> 'm \<Rightarrow> 'm"
    and empty :: "'m"
  assumes get_empty: "get empty k = None"
    and get_put: "get (put k v m) k' = (if k' = k then Some v else get m k')"
    and get_del: "get (del k m) k' = (if k' = k then None else get m k')"
begin

lemma put_overwrites: "get (put k v (put k w m)) k' = get (put k v m) k'"
  by (simp add: get_put)

lemma put_commutes: "k \<noteq> l \<Longrightarrow> get (put k v (put l w m)) j = get (put l w (put k v m)) j"
  by (simp add: get_put)

lemma del_put: "get (del k (put k v m)) j = get (del k m) j"
  by (simp add: get_put get_del)

lemma put_same_absent: "get m k = None \<Longrightarrow> get (del k (put k v m)) j = get m j"
  by (simp add: get_put get_del)

lemma put_all_get:
  "get (fold (\<lambda>k m. put k (f k) m) ks m) j = (if j \<in> set ks then Some (f j) else get m j)"
  by (induction ks arbitrary: m) (auto simp: get_put)

end

interpretation dict: key_value_store "\<lambda>d k. map_of d k" AList.update AList.delete "[]"
  by unfold_locales simp_all

text \<open>
  Comprehensions over keys: \<open>[f x for x in xs]\<close> where \<open>f\<close> may raise, and the short-circuiting
  \<open>any(p d[k] for k in ks)\<close> and \<open>all(p d[k] for k in ks)\<close>, which raise \<open>KeyError\<close> at the
  first missing key they reach.
\<close>

fun map_result :: "('a \<Rightarrow> 'b result) \<Rightarrow> 'a list \<Rightarrow> 'b list result" where
  "map_result f [] = Inr []"
| "map_result f (x # xs) =
     (case f x of Inl e \<Rightarrow> Inl e
      | Inr y \<Rightarrow> (case map_result f xs of Inl e \<Rightarrow> Inl e | Inr ys \<Rightarrow> Inr (y # ys)))"

definition dict_index :: "('k, 'v) dict \<Rightarrow> 'k \<Rightarrow> 'v result" where
  "dict_index d k = (case dict_get d k of None \<Rightarrow> Inl KeyError | Some v \<Rightarrow> Inr v)"

fun any_index :: "('k, 'v) dict \<Rightarrow> ('v \<Rightarrow> bool) \<Rightarrow> 'k list \<Rightarrow> bool result" where
  "any_index d p [] = Inr False"
| "any_index d p (k # ks) =
     (case dict_get d k of None \<Rightarrow> Inl KeyError
      | Some v \<Rightarrow> if p v then Inr True else any_index d p ks)"

fun all_index :: "('k, 'v) dict \<Rightarrow> ('v \<Rightarrow> bool) \<Rightarrow> 'k list \<Rightarrow> bool result" where
  "all_index d p [] = Inr True"
| "all_index d p (k # ks) =
     (case dict_get d k of None \<Rightarrow> Inl KeyError
      | Some v \<Rightarrow> if p v then all_index d p ks else Inr False)"

lemma map_result_Inr: "map_result f xs = Inr ys \<longleftrightarrow> map f xs = map Inr ys"
  by (induction xs arbitrary: ys) (auto split: sum.splits dest: sym, blast)

lemma map_index_Inr: "map_result (dict_index d) ks = Inr vs \<longleftrightarrow> map (map_of d) ks = map Some vs"
  by (induction ks arbitrary: vs) (auto simp: dict_index_def split: option.splits sum.splits dest: sym, blast)

lemma map_result_total: "(\<And>x. x \<in> set xs \<Longrightarrow> \<exists>y. f x = Inr y) \<Longrightarrow> \<exists>ys. map_result f xs = Inr ys"
  by (induction xs) (fastforce split: sum.splits)+

lemma any_index_Inr_False: "any_index d p ks = Inr False \<longleftrightarrow> (\<forall>k\<in>set ks. \<exists>v. dict_get d k = Some v \<and> \<not> p v)"
  by (induction ks) (auto split: option.splits)

lemma all_index_Inr_True: "all_index d p ks = Inr True \<longleftrightarrow> (\<forall>k\<in>set ks. \<exists>v. dict_get d k = Some v \<and> p v)"
  by (induction ks) (auto split: option.splits)

lemma any_index_total: "\<forall>k\<in>set ks. dict_get d k \<noteq> None \<Longrightarrow> any_index d p ks \<noteq> Inl e"
  by (induction ks) (auto split: option.splits)

lemma all_index_total: "\<forall>k\<in>set ks. dict_get d k \<noteq> None \<Longrightarrow> all_index d p ks \<noteq> Inl e"
  by (induction ks) (auto split: option.splits)

section \<open>Tables\<close>

text \<open>
  A database table is the list of its rows. \<open>table_update p f\<close> is the effect of assigning to
  the attributes of the rows that satisfy \<open>p\<close>; \<open>List.find p\<close> is a select with \<open>limit(1)\<close>.
\<close>

definition table_update :: "('a \<Rightarrow> bool) \<Rightarrow> ('a \<Rightarrow> 'a) \<Rightarrow> 'a list \<Rightarrow> 'a list" where
  "table_update p f rows = map (\<lambda>x. if p x then f x else x) rows"

lemma length_table_update [simp]: "length (table_update p f rows) = length rows"
  by (simp add: table_update_def)

lemma set_table_update: "set (table_update p f rows) = (\<lambda>x. if p x then f x else x) ` set rows"
  by (simp add: table_update_def)

lemma map_table_update: "(\<And>x. g (f x) = g x) \<Longrightarrow> map g (table_update p f rows) = map g rows"
  by (simp add: table_update_def)

lemma table_update_id: "(\<And>x. x \<in> set rows \<Longrightarrow> \<not> p x) \<Longrightarrow> table_update p f rows = rows"
  unfolding table_update_def by (rule map_idI) simp

lemma find_table_update:
  "(\<And>x. q (f x) = q x) \<Longrightarrow>
   List.find q (table_update p f rows) = map_option (\<lambda>x. if p x then f x else x) (List.find q rows)"
  by (induction rows) (auto simp: table_update_def)

lemma filter_table_update:
  "(\<And>x. q (f x) = q x) \<Longrightarrow> filter q (table_update p f rows) = table_update p f (filter q rows)"
  by (induction rows) (auto simp: table_update_def)

lemma find_append: "List.find p (xs @ ys) = (case List.find p xs of None \<Rightarrow> List.find p ys | Some x \<Rightarrow> Some x)"
  by (induction xs) auto

lemma find_by_key:
  "distinct (map k xs) \<Longrightarrow> x \<in> set xs \<Longrightarrow> List.find (\<lambda>y. k y = k x) xs = Some x"
  by (induction xs) (auto simp: image_iff)

section \<open>Strings\<close>

definition char_lower :: "char \<Rightarrow> char" where
  "char_lower c = (let n = of_char c :: nat in if 65 \<le> n \<and> n \<le> 90 then char_of (n + 32) else c)"

definition char_upper :: "char \<Rightarrow> char" where
  "char_upper c = (let n = of_char c :: nat in if 97 \<le> n \<and> n \<le> 122 then char_of (n - 32) else c)"

definition is_space :: "char \<Rightarrow> bool" where
  "is_space c = (let n = of_char c :: nat in (9 \<le> n \<and> n \<le> 13) \<or> (28 \<le> n \<and> n \<le> 32))"

definition is_digit :: "char \<Rightarrow> bool" where
  "is_digit c = (let n = of_char c :: nat in 48 \<le> n \<and> n \<le> 57)"

definition is_upper :: "char \<Rightarrow> bool" where
  "is_upper c = (let n = of_char c :: nat in 65 \<le> n \<and> n \<le> 90)"

definition is_lower :: "char \<Rightarrow> bool" where
  "is_lower c = (let n = of_char c :: nat in 97 \<le> n \<and> n \<le> 122)"

definition is_alpha :: "char \<Rightarrow> bool" where
  "is_alpha c = (is_upper c \<or> is_lower c)"

definition is_alnum :: "char \<Rightarrow> bool" where
  "is_alnum c = (is_alpha c \<or> is_digit c)"

definition lower :: "string \<Rightarrow> string" where
  "lower s = map char_lower s"

definition upper :: "string \<Rightarrow> string" where
  "upper s = map char_upper s"

text \<open>\<open>str.strip()\<close> and \<open>str.strip(ch)\<close>, \<open>str.rstrip(ch)\<close>.\<close>

definition strip_by :: "(char \<Rightarrow> bool) \<Rightarrow> string \<Rightarrow> string" where
  "strip_by p s = rev (dropWhile p (rev (dropWhile p s)))"

definition rstrip_by :: "(char \<Rightarrow> bool) \<Rightarrow> string \<Rightarrow> string" where
  "rstrip_by p s = rev (dropWhile p (rev s))"

definition strip :: "string \<Rightarrow> string" where
  "strip s = strip_by is_space s"

fun join :: "string \<Rightarrow> string list \<Rightarrow> string" where
  "join sep [] = []"
| "join sep [x] = x"
| "join sep (x # y # ys) = x @ sep @ join sep (y # ys)"

text \<open>\<open>str(n)\<close>.\<close>

fun decimal :: "nat \<Rightarrow> string" where
  "decimal n = (if n < 10 then [char_of (48 + n)] else decimal (n div 10) @ [char_of (48 + n mod 10)])"

declare decimal.simps [simp del]

definition int_text :: "int \<Rightarrow> string" where
  "int_text n = (if n < 0 then ''-'' @ decimal (nat (- n)) else decimal (nat n))"

definition char_digit :: "char \<Rightarrow> int" where
  "char_digit c = int (of_char c) - 48"

text \<open>The same functions on integers, which evaluate faster.\<close>

lemma of_char_int: "(of_char c :: int) = int (of_char c)"
  by (simp only: of_nat_of_char)

lemma char_code [code]:
  "char_lower c = (let n = of_char c :: int in if 65 \<le> n \<and> n \<le> 90 then char_of (n + 32) else c)"
  "char_upper c = (let n = of_char c :: int in if 97 \<le> n \<and> n \<le> 122 then char_of (n - 32) else c)"
  "is_space c = (let n = of_char c :: int in (9 \<le> n \<and> n \<le> 13) \<or> (28 \<le> n \<and> n \<le> 32))"
  "is_digit c = (let n = of_char c :: int in 48 \<le> n \<and> n \<le> 57)"
  "is_upper c = (let n = of_char c :: int in 65 \<le> n \<and> n \<le> 90)"
  "is_lower c = (let n = of_char c :: int in 97 \<le> n \<and> n \<le> 122)"
proof -
  have up: "(char_of (int n + 32) :: char) = char_of (n + 32)" for n :: nat
    by (metis char_of_nat of_nat_add of_nat_numeral)
  have down: "(char_of (int n - 32) :: char) = char_of (n - 32)" if "97 \<le> n" for n :: nat
  proof -
    have "int n - 32 = int (n - 32)" using that by simp
    then show ?thesis by (simp only: char_of_nat)
  qed
  show "char_lower c = (let n = of_char c :: int in if 65 \<le> n \<and> n \<le> 90 then char_of (n + 32) else c)"
    unfolding char_lower_def Let_def of_char_int up by simp
  show "char_upper c = (let n = of_char c :: int in if 97 \<le> n \<and> n \<le> 122 then char_of (n - 32) else c)"
    unfolding char_upper_def Let_def of_char_int using down by simp
qed (simp_all add: is_space_def is_digit_def is_upper_def is_lower_def Let_def of_char_int)

lemma char_lower_idem [simp]: "char_lower (char_lower c) = char_lower c"
  by (auto simp: char_lower_def Let_def)

lemma char_upper_idem [simp]: "char_upper (char_upper c) = char_upper c"
  by (auto simp: char_upper_def Let_def)

lemma lower_idem [simp]: "lower (lower s) = lower s"
  by (simp add: lower_def)

lemma upper_idem [simp]: "upper (upper s) = upper s"
  by (simp add: upper_def)

lemma length_lower [simp]: "length (lower s) = length s"
  by (simp add: lower_def)

lemma length_upper [simp]: "length (upper s) = length s"
  by (simp add: upper_def)

lemma lower_eq_Nil [simp]: "lower s = [] \<longleftrightarrow> s = []"
  by (simp add: lower_def)

lemma is_space_char_lower [simp]: "is_space (char_lower c) = is_space c"
  by (auto simp: is_space_def char_lower_def Let_def)

lemma is_space_char_upper [simp]: "is_space (char_upper c) = is_space c"
  by (auto simp: is_space_def char_upper_def Let_def)

lemma dropWhile_map_eq: "(\<And>x. p (f x) = p x) \<Longrightarrow> dropWhile p (map f xs) = map f (dropWhile p xs)"
  by (induction xs) auto

lemma strip_lower: "strip (lower s) = lower (strip s)"
  by (simp add: strip_def strip_by_def lower_def dropWhile_map_eq rev_map)

lemma strip_upper: "strip (upper s) = upper (strip s)"
  by (simp add: strip_def strip_by_def upper_def dropWhile_map_eq rev_map)

lemma dropWhile_idem_rev:
  "dropWhile p (rev (dropWhile p (rev (dropWhile p s)))) = rev (dropWhile p (rev (dropWhile p s)))"
proof (cases "dropWhile p (rev (dropWhile p s))")
  case (Cons a as)
  let ?d = "dropWhile p s"
  have "suffix (a # as) (rev ?d)" by (metis Cons suffix_dropWhile)
  then obtain pre where pre: "?d = rev (a # as) @ rev pre"
    by (metis rev_append rev_rev_ident suffix_def)
  have ne: "rev (a # as) \<noteq> []" by simp
  then have "hd ?d = hd (rev (a # as))" using pre by (metis hd_append2)
  moreover have "?d \<noteq> []" using pre by auto
  ultimately have "\<not> p (hd (rev (a # as)))" by (metis hd_dropWhile)
  then show ?thesis using Cons ne by (metis dropWhile_eq_self_iff)
next
  case Nil
  then show ?thesis by (simp only: Nil) simp
qed

lemma strip_by_idem [simp]: "strip_by p (strip_by p s) = strip_by p s"
  by (simp add: strip_by_def dropWhile_idem_rev)

lemma strip_idem [simp]: "strip (strip s) = strip s"
  by (simp add: strip_def)

section \<open>Rendering of UUIDs\<close>

text \<open>\<open>UUID.hex\<close>: 32 lower-case hexadecimal digits; \<open>str(UUID)\<close> groups them 8-4-4-4-12.\<close>

definition hex_digit :: "nat \<Rightarrow> char" where
  "hex_digit d = (if d < 10 then char_of (48 + d) else char_of (87 + d))"

fun hex_digits :: "nat \<Rightarrow> nat \<Rightarrow> string" where
  "hex_digits 0 n = []"
| "hex_digits (Suc k) n = hex_digits k (n div 16) @ [hex_digit (n mod 16)]"

definition uuid_hex :: "uuid \<Rightarrow> string" where
  "uuid_hex u = hex_digits 32 u"

text \<open>An equation for evaluation that only unfolds on a number.\<close>

lemma uuid_hex_code [code]:
  "uuid_hex u = (case u of 0 \<Rightarrow> hex_digits 32 0 | Suc n \<Rightarrow> hex_digits 32 (Suc n))"
  by (simp add: uuid_hex_def split: nat.split)

definition uuid_str :: "uuid \<Rightarrow> string" where
  "uuid_str u = (let h = uuid_hex u in
     take 8 h @ ''-'' @ take 4 (drop 8 h) @ ''-'' @ take 4 (drop 12 h) @ ''-'' @
     take 4 (drop 16 h) @ ''-'' @ drop 20 h)"

text \<open>The range of \<open>UUID.int\<close>.\<close>

definition uuid_range :: "uuid \<Rightarrow> bool" where
  "uuid_range u \<longleftrightarrow> u < 16 ^ 32"

lemma hex_digit_code [code]:
  "hex_digit d = (if d < 16 then ''0123456789abcdef'' ! d else char_of (87 + d))"
proof -
  have "list_all (\<lambda>e. hex_digit e = ''0123456789abcdef'' ! e) [0..<16]" by code_simp
  then show ?thesis unfolding list_all_iff by (auto simp: hex_digit_def)
qed

lemma length_hex_digits [simp]: "length (hex_digits k n) = k"
  by (induction k arbitrary: n) auto

lemma length_uuid_hex [simp]: "length (uuid_hex u) = 32"
  by (simp add: uuid_hex_def)

lemma uuid_hex_neq_Nil [simp]: "uuid_hex u \<noteq> []"
  using length_uuid_hex[of u] by (metis list.size(3) zero_neq_numeral)

lemma length_uuid_str [simp]: "length (uuid_str u) = 36"
  by (simp add: uuid_str_def Let_def)

lemma of_char_hex_digit: "d < 16 \<Longrightarrow> of_char (hex_digit d) = (if d < 10 then 48 + d else 87 + d)"
  by (simp add: hex_digit_def)

lemma hex_digit_inj:
  assumes "d < 16" "e < 16" "hex_digit d = hex_digit e"
  shows "d = e"
proof -
  have "(if d < 10 then 48 + d else 87 + d) = (if e < 10 then 48 + e else 87 + e)"
    using assms by (metis of_char_hex_digit)
  then show ?thesis by (auto split: if_splits)
qed

lemma hex_digits_inj:
  "m < 16 ^ k \<Longrightarrow> n < 16 ^ k \<Longrightarrow> hex_digits k m = hex_digits k n \<Longrightarrow> m = n"
proof (induction k arbitrary: m n)
  case (Suc k)
  then have "hex_digits k (m div 16) = hex_digits k (n div 16)"
    and dig: "hex_digit (m mod 16) = hex_digit (n mod 16)" by simp_all
  moreover have "m div 16 < 16 ^ k" "n div 16 < 16 ^ k"
    using Suc.prems by (auto simp: less_mult_imp_div_less mult.commute)
  ultimately have "m div 16 = n div 16" using Suc.IH by blast
  moreover have "m mod 16 = n mod 16" using dig by (intro hex_digit_inj) auto
  ultimately show ?case by (metis div_mult_mod_eq)
qed simp

lemma uuid_hex_inj: "uuid_range u \<Longrightarrow> uuid_range v \<Longrightarrow> uuid_hex u = uuid_hex v \<Longrightarrow> u = v"
  unfolding uuid_range_def uuid_hex_def by (rule hex_digits_inj)

section \<open>Lists\<close>

text \<open>\<open>next((x for x in xs if p x), None)\<close> is \<open>List.find\<close>.\<close>

lemma find_Some_iff_hd: "List.find p xs = Some x \<Longrightarrow> x \<in> set xs \<and> p x"
  by (auto simp: find_Some_iff)

lemma find_None_conv: "List.find p xs = None \<longleftrightarrow> (\<forall>x\<in>set xs. \<not> p x)"
  by (auto simp: find_None_iff)

lemma prefix_snoc_self [simp]: "prefix xs (xs @ ys)"
  by (simp add: prefix_def)

lemma find_unique:
  assumes "x \<in> set xs" "p x" "\<And>y. y \<in> set xs \<Longrightarrow> p y \<Longrightarrow> y = x"
  shows "List.find p xs = Some x"
proof (cases "List.find p xs")
  case None
  then show ?thesis using assms(1,2) by (simp add: find_None_conv)
next
  case (Some y)
  then show ?thesis using assms(3) find_Some_iff_hd[OF Some] by simp
qed

end
