(* ===== verification/Workflow_Schema.thy ===== *)
theory Workflow_Schema
  imports Rubrica_Prelude
begin

text \<open>
  The data of the signature workflow: \<open>signature_request/workflow_schema.py\<close> and
  \<open>document/document_schema.py\<close>. Enumerations are datatypes, pydantic models are records
  (one field per attribute, prefixed with the model), and the constraints pydantic checks
  on input models are boolean functions.
\<close>

section \<open>Enumerations\<close>

datatype document_status = DocDraft | DocReady | DocArchived

datatype request_status = ReqDraft | ReqOpen | ReqCompleted | ReqExpired | ReqCancelled

datatype signer_status = SgnPending | SgnViewed | SgnSigned | SgnDeclined | SgnExpired

datatype participant_role = PersonalSigner | ExternalSigner | CompanyRepresentative | CorporateSeal

datatype signature_mode = ModeEvidence | ModeSerproTimestamp | ModeSerproid

datatype locale_code = PtBR | En | Es | JaJP

section \<open>Documents\<close>

record document_create =
  dc_organization_id :: string
  dc_title :: string
  dc_original_filename :: string
  dc_content_type :: string
  dc_created_by :: string

record document_read =
  doc_id :: uuid
  doc_organization_id :: string
  doc_title :: string
  doc_original_filename :: string
  doc_content_type :: string
  doc_sha256 :: string
  doc_version :: int
  doc_status :: document_status
  doc_created_by :: string
  doc_created_at :: datetime
  doc_updated_at :: datetime
  doc_size_bytes :: "nat option"
  doc_signature_request_count :: nat
  doc_completed_signature_count :: nat

record document_version_read =
  ver_document_id :: uuid
  ver_version :: int
  ver_original_filename :: string
  ver_content_type :: string
  ver_sha256 :: string
  ver_size_bytes :: nat
  ver_created_by :: string
  ver_created_at :: datetime

section \<open>Signature requests and signers\<close>

record signature_request_create =
  rc_document_id :: uuid
  rc_expires_at :: datetime
  rc_created_by :: string

record signature_request_read =
  req_id :: uuid
  req_document_id :: uuid
  req_document_version :: int
  req_document_sha256 :: string
  req_status :: request_status
  req_expires_at :: datetime
  req_created_by :: string
  req_created_at :: datetime
  req_completed_at :: "datetime option"
  req_signer_count :: nat
  req_signed_count :: nat
  req_document_title :: string
  req_original_filename :: string
  req_signature_mode :: signature_mode
  req_issuer_snapshot :: "(string \<times> json) list option"

record signer_create =
  sc_name :: string
  sc_email :: string
  sc_preferred_locale :: locale_code
  sc_token_ttl_seconds :: int
  sc_participant_role :: participant_role
  sc_represented_tenant_id :: "uuid option"

record signer_read =
  sgn_id :: uuid
  sgn_signature_request_id :: uuid
  sgn_auth_user_id :: string
  sgn_name :: string
  sgn_email :: string
  sgn_preferred_locale :: locale_code
  sgn_status :: signer_status
  sgn_token_expires_at :: datetime
  sgn_link_revoked_at :: "datetime option"
  sgn_signed_at :: "datetime option"
  sgn_identity_document_type :: "string option"
  sgn_identity_document_country :: "string option"
  sgn_identity_document_masked :: "string option"
  sgn_participant_role :: participant_role
  sgn_represented_tenant_id :: "uuid option"
  sgn_representation_snapshot :: "(string \<times> json) list option"

datatype stamp_template = TemplateBR | TemplateJP | TemplateINTL

record stamp_position =
  st_page :: int
  st_x :: rat
  st_y :: rat
  st_template :: stamp_template
  st_country_code :: "string option"
  st_show_flag :: bool
  st_template_version :: string
  st_locale :: locale_code
  st_timezone :: string

record signing_read =
  sr_request :: signature_request_read
  sr_signer :: signer_read
  sr_document_title :: string
  sr_original_filename :: string
  sr_account_country :: "string option"
  sr_stamp :: "stamp_position option"
  sr_viewer_mode :: string
  sr_issuer_snapshot :: "(string \<times> json) list option"

record audit_event_read =
  ae_id :: uuid
  ae_occurred_at :: datetime
  ae_actor_type :: string
  ae_actor_id :: string
  ae_action :: string
  ae_entity_type :: string
  ae_entity_id :: uuid
  ae_correlation_id :: uuid
  ae_metadata_sanitized :: "(string \<times> json) list"

section \<open>Input constraints\<close>

text \<open>\<open>^[^@\s]+@[^@\s]+\.[^@\s]+$\<close>\<close>

definition email_char :: "char \<Rightarrow> bool" where
  "email_char c = (c \<noteq> CHR ''@'' \<and> \<not> is_space c)"

definition domain_match :: "string \<Rightarrow> bool" where
  "domain_match d = (list_all email_char d \<and>
     list_ex (\<lambda>j. d ! j = CHR ''.'') [1..<length d - 1])"

definition email_match :: "string \<Rightarrow> bool" where
  "email_match s =
     (let local_part = takeWhile (\<lambda>c. c \<noteq> CHR ''@'') s;
          rest = dropWhile (\<lambda>c. c \<noteq> CHR ''@'') s
      in local_part \<noteq> [] \<and> list_all email_char local_part \<and> rest \<noteq> [] \<and> domain_match (tl rest))"

definition represents_company :: "participant_role \<Rightarrow> bool" where
  "represents_company role = (role = CompanyRepresentative \<or> role = CorporateSeal)"

text \<open>\<open>SignerCreate\<close> with its field bounds and the model validator \<open>validate_representation\<close>.\<close>

definition signer_create_valid :: "signer_create \<Rightarrow> bool" where
  "signer_create_valid p =
     (1 \<le> length (sc_name p) \<and> length (sc_name p) \<le> 180 \<and>
      3 \<le> length (sc_email p) \<and> length (sc_email p) \<le> 254 \<and> email_match (sc_email p) \<and>
      300 \<le> sc_token_ttl_seconds p \<and> sc_token_ttl_seconds p \<le> 2592000 \<and>
      represents_company (sc_participant_role p) = (sc_represented_tenant_id p \<noteq> None))"

definition stamp_position_valid :: "stamp_position \<Rightarrow> bool" where
  "stamp_position_valid p =
     (1 \<le> st_page p \<and> 0 \<le> st_x p \<and> st_x p \<le> 1 \<and> 0 \<le> st_y p \<and> st_y p \<le> 1 \<and>
      (case st_country_code p of None \<Rightarrow> True
       | Some c \<Rightarrow> length c = 2 \<and> list_all is_upper c) \<and>
      st_template_version p = ''rubrica-stamp-v2'' \<and>
      1 \<le> length (st_timezone p) \<and> length (st_timezone p) \<le> 80)"

section \<open>Values as JSON\<close>

fun locale_str :: "locale_code \<Rightarrow> string" where
  "locale_str PtBR = ''pt-BR''"
| "locale_str En = ''en''"
| "locale_str Es = ''es''"
| "locale_str JaJP = ''ja-JP''"

fun stamp_template_str :: "stamp_template \<Rightarrow> string" where
  "stamp_template_str TemplateBR = ''BR''"
| "stamp_template_str TemplateJP = ''JP''"
| "stamp_template_str TemplateINTL = ''INTL''"

fun signature_mode_str :: "signature_mode \<Rightarrow> string" where
  "signature_mode_str ModeEvidence = ''evidence''"
| "signature_mode_str ModeSerproTimestamp = ''serpro_timestamp''"
| "signature_mode_str ModeSerproid = ''serproid''"

fun participant_role_str :: "participant_role \<Rightarrow> string" where
  "participant_role_str PersonalSigner = ''personal_signer''"
| "participant_role_str ExternalSigner = ''external_signer''"
| "participant_role_str CompanyRepresentative = ''company_representative''"
| "participant_role_str CorporateSeal = ''corporate_seal''"

definition json_opt_str :: "string option \<Rightarrow> json" where
  "json_opt_str v = (case v of None \<Rightarrow> JNull | Some t \<Rightarrow> JStr t)"

text \<open>\<open>StampPosition.model_dump()\<close>.\<close>

definition stamp_dump :: "stamp_position \<Rightarrow> (string \<times> json) list" where
  "stamp_dump p =
     [(''page'', JInt (st_page p)), (''x'', JFloat (st_x p)), (''y'', JFloat (st_y p)),
      (''template'', JStr (stamp_template_str (st_template p))),
      (''country_code'', json_opt_str (st_country_code p)), (''show_flag'', JBool (st_show_flag p)),
      (''template_version'', JStr (st_template_version p)),
      (''locale'', JStr (locale_str (st_locale p))), (''timezone'', JStr (st_timezone p))]"

lemma list_ex_upt_iff: "list_ex P [a..<b] \<longleftrightarrow> (\<exists>j. a \<le> j \<and> j < b \<and> P j)"
  by (auto simp: list_ex_iff)

text \<open>The executable match accepts exactly the strings of the pattern.\<close>

lemma domain_match_iff:
  "domain_match d \<longleftrightarrow> (\<exists>u v. d = u @ ''.'' @ v \<and> u \<noteq> [] \<and> v \<noteq> [] \<and> list_all email_char (u @ v))"
proof
  assume "domain_match d"
  then obtain j where all: "list_all email_char d" and j: "1 \<le> j" "j < length d - 1" "d ! j = CHR ''.''"
    unfolding domain_match_def list_ex_upt_iff by blast
  have "d = take j d @ d ! j # drop (Suc j) d" using j by (intro id_take_nth_drop) simp
  moreover have "list_all email_char (take j d @ drop (Suc j) d)"
    using all by (metis append_take_drop_id list_all_append)
  moreover have "take j d \<noteq> []" "drop (Suc j) d \<noteq> []" using j by auto
  ultimately show "\<exists>u v. d = u @ ''.'' @ v \<and> u \<noteq> [] \<and> v \<noteq> [] \<and> list_all email_char (u @ v)"
    using j(3) by (intro exI[of _ "take j d"] exI[of _ "drop (Suc j) d"]) auto
next
  assume "\<exists>u v. d = u @ ''.'' @ v \<and> u \<noteq> [] \<and> v \<noteq> [] \<and> list_all email_char (u @ v)"
  then obtain u v where d: "d = u @ ''.'' @ v" "u \<noteq> []" "v \<noteq> []" "list_all email_char (u @ v)" by blast
  have "email_char CHR ''.''" by (simp add: email_char_def is_space_def)
  moreover have "1 \<le> length u" "length u < length d - 1" "d ! length u = CHR ''.''"
    using d by (auto simp: Suc_le_eq)
  ultimately show "domain_match d" unfolding domain_match_def list_ex_upt_iff using d(1,4) by auto
qed

lemma email_match_iff:
  "email_match s \<longleftrightarrow> (\<exists>l d. s = l @ ''@'' @ d \<and> l \<noteq> [] \<and> list_all email_char l \<and> domain_match d)"
proof
  assume m: "email_match s"
  let ?l = "takeWhile (\<lambda>c. c \<noteq> CHR ''@'') s" and ?r = "dropWhile (\<lambda>c. c \<noteq> CHR ''@'') s"
  from m have r: "?r \<noteq> []" by (simp add: email_match_def Let_def)
  then have "?r = CHR ''@'' # tl ?r" using hd_dropWhile[OF r] by (cases ?r) auto
  then have "s = ?l @ ''@'' @ tl ?r" by (metis append_Cons append_Nil takeWhile_dropWhile_id)
  with m show "\<exists>l d. s = l @ ''@'' @ d \<and> l \<noteq> [] \<and> list_all email_char l \<and> domain_match d"
    unfolding email_match_def Let_def by blast
next
  assume "\<exists>l d. s = l @ ''@'' @ d \<and> l \<noteq> [] \<and> list_all email_char l \<and> domain_match d"
  then obtain l d where s: "s = l @ ''@'' @ d" "l \<noteq> []" "list_all email_char l" "domain_match d" by blast
  have "\<forall>c\<in>set l. c \<noteq> CHR ''@''" using s(3) by (auto simp: list_all_iff email_char_def)
  then have "takeWhile (\<lambda>c. c \<noteq> CHR ''@'') s = l" "dropWhile (\<lambda>c. c \<noteq> CHR ''@'') s = CHR ''@'' # d"
    using s(1) by simp_all
  then show "email_match s" using s by (simp add: email_match_def)
qed

end
