(* ===== verification/Document_Storage.thy ===== *)
theory Document_Storage
  imports Rubrica_Prelude
begin

text \<open>
  \<open>core_api/modules/document/storage.py\<close>: the object store that holds document binaries.
  \<open>LocalDocumentStorage\<close> is a dictionary from storage keys to bytes (directories are
  implicit in the keys); \<open>R2DocumentStorage\<close> wraps an S3 client, whose operations are
  parameters. The interface \<open>document_store\<close> states what the workflow services rely on:
  an object that was stored is never overwritten and reads back unchanged.
\<close>

section \<open>Storage keys\<close>

definition key_char :: "char \<Rightarrow> bool" where
  "key_char c = (is_alnum c \<or> c = CHR ''_'' \<or> c = CHR ''-'')"

text \<open>
  \<open>_STORAGE_KEY.fullmatch\<close> for \<open>^[A-Za-z0-9_-]+(?:/[A-Za-z0-9_-]+)*$\<close>, read from left to
  right; the flag says whether the current path segment has a character yet.
\<close>

fun storage_key_match :: "bool \<Rightarrow> string \<Rightarrow> bool" where
  "storage_key_match seen [] = seen"
| "storage_key_match seen (c # cs) =
     (if key_char c then storage_key_match True cs
      else if c = CHR ''/'' \<and> seen then storage_key_match False cs
      else False)"

definition validate_storage_key :: "string \<Rightarrow> unit result" where
  "validate_storage_key key =
     (if 240 < length key \<or> \<not> storage_key_match False key then Inl (FileNotFoundError key) else Inr ())"

definition document_storage_scope :: "uuid \<Rightarrow> uuid \<Rightarrow> string" where
  "document_storage_scope tenant_id account_id =
     ''tenants/'' @ uuid_str tenant_id @ ''/accounts/'' @ uuid_str account_id @ ''/files''"

text \<open>The key both backends build: \<open>scope.strip('/') + '/' + uuid4().hex\<close>, or the bare hex.\<close>

definition new_storage_key :: "uuid \<Rightarrow> string option \<Rightarrow> string" where
  "new_storage_key u scope =
     (case scope of
        None \<Rightarrow> uuid_hex u
      | Some sc \<Rightarrow> if sc = [] then uuid_hex u
                  else strip_by (\<lambda>c. c = CHR ''/'') sc @ ''/'' @ uuid_hex u)"

section \<open>The local backend\<close>

definition chunk_size :: nat where
  "chunk_size = 1024 * 1024"

text \<open>\<open>while chunk := stream.read(1024 * 1024)\<close>: the loop copies the stream and counts bytes.\<close>

function copy_chunks :: "bytes \<Rightarrow> nat \<Rightarrow> bytes \<Rightarrow> nat \<times> bytes" where
  "copy_chunks stream sz written =
     (let chunk = take chunk_size stream in
      if chunk = [] then (sz, written)
      else copy_chunks (drop chunk_size stream) (sz + length chunk) (written @ chunk))"
  by pat_completeness auto
termination
  by (relation "measure (\<lambda>(stream, sz, written). length stream)") (auto simp: chunk_size_def)

declare copy_chunks.simps [simp del]

definition local_put ::
  "uuid \<Rightarrow> string option \<Rightarrow> bytes \<Rightarrow> (string, bytes) dict \<Rightarrow> (string \<times> nat) result \<times> (string, bytes) dict"
where
  "local_put u scope stream objects =
     (let key = new_storage_key u scope in
      case validate_storage_key key of
        Inl e \<Rightarrow> (Inl e, objects)
      | Inr _ \<Rightarrow>
          if dict_get objects key \<noteq> None then (Inl (FileExistsError key), objects)
          else let (sz, written) = copy_chunks stream 0 [] in
               (Inr (key, sz), dict_set key written objects))"

definition local_get :: "string \<Rightarrow> (string, bytes) dict \<Rightarrow> bytes result" where
  "local_get key objects =
     (case validate_storage_key key of
        Inl e \<Rightarrow> Inl e
      | Inr _ \<Rightarrow> (case dict_get objects key of
                   None \<Rightarrow> Inl (FileNotFoundError key)
                 | Some content \<Rightarrow> Inr content))"

definition local_discard_uncommitted ::
  "string \<Rightarrow> (string, bytes) dict \<Rightarrow> unit result \<times> (string, bytes) dict"
where
  "local_discard_uncommitted key objects =
     (case validate_storage_key key of
        Inl e \<Rightarrow> (Inl e, objects)
      | Inr _ \<Rightarrow> (Inr (), dict_del key objects))"

section \<open>The Cloudflare R2 backend\<close>

text \<open>
  The boto3 client is a parameter: \<open>put_object key body metadata\<close>, \<open>get_object key\<close> and
  \<open>delete_object key\<close> act on the bucket's state and answer with a \<open>ClientError\<close>
  (its code and HTTP status) or a result. Puts carry \<open>IfNoneMatch: *\<close>.
\<close>

definition r2_object_key :: "string \<Rightarrow> string \<Rightarrow> string" where
  "r2_object_key pre key = (if pre \<noteq> [] then pre @ ''/'' @ key else key)"

definition r2_put_existing ::
  "(string \<Rightarrow> bytes \<Rightarrow> string option \<Rightarrow> 'b \<Rightarrow> ((string \<times> int option) + unit) \<times> 'b) \<Rightarrow>
   string \<Rightarrow> string \<Rightarrow> bytes \<Rightarrow> string option \<Rightarrow> 'b \<Rightarrow> nat result \<times> 'b"
where
  "r2_put_existing put_object pre key content digest bucket =
     (case validate_storage_key key of
        Inl e \<Rightarrow> (Inl e, bucket)
      | Inr _ \<Rightarrow>
          (case put_object (r2_object_key pre key) content (if digest = Some [] then None else digest) bucket of
             (Inl (code, status), bucket') \<Rightarrow>
               (if code \<in> {''PreconditionFailed'', ''412''} \<or> status = Some 412
                then Inl (FileExistsError key) else Inl (ClientError code status), bucket')
           | (Inr _, bucket') \<Rightarrow> (Inr (length content), bucket')))"

definition r2_put ::
  "(string \<Rightarrow> bytes \<Rightarrow> string option \<Rightarrow> 'b \<Rightarrow> ((string \<times> int option) + unit) \<times> 'b) \<Rightarrow>
   string \<Rightarrow> uuid \<Rightarrow> string option \<Rightarrow> bytes \<Rightarrow> string option \<Rightarrow> 'b \<Rightarrow> (string \<times> nat) result \<times> 'b"
where
  "r2_put put_object pre u scope content digest bucket =
     (let key = new_storage_key u scope in
      case r2_put_existing put_object pre key content digest bucket of
        (Inl e, bucket') \<Rightarrow> (Inl e, bucket')
      | (Inr sz, bucket') \<Rightarrow> (Inr (key, sz), bucket'))"

definition r2_get ::
  "(string \<Rightarrow> 'b \<Rightarrow> (string \<times> int option) + bytes) \<Rightarrow> string \<Rightarrow> string \<Rightarrow> 'b \<Rightarrow> bytes result"
where
  "r2_get get_object pre key bucket =
     (case validate_storage_key key of
        Inl e \<Rightarrow> Inl e
      | Inr _ \<Rightarrow>
          (case get_object (r2_object_key pre key) bucket of
             Inl (code, status) \<Rightarrow>
               if code \<in> {''NoSuchKey'', ''404'', ''NotFound''} then Inl (FileNotFoundError key)
               else Inl (ClientError code status)
           | Inr body \<Rightarrow> Inr body))"

definition r2_discard_uncommitted ::
  "(string \<Rightarrow> 'b \<Rightarrow> ((string \<times> int option) + unit) \<times> 'b) \<Rightarrow> string \<Rightarrow> string \<Rightarrow> 'b \<Rightarrow> unit result \<times> 'b"
where
  "r2_discard_uncommitted delete_object pre key bucket =
     (case validate_storage_key key of
        Inl e \<Rightarrow> (Inl e, bucket)
      | Inr _ \<Rightarrow>
          (case delete_object (r2_object_key pre key) bucket of
             (Inl (code, status), bucket') \<Rightarrow>
               (if code \<in> {''AccessDenied'', ''InvalidRequest'', ''403''} \<or> status = Some 403
                then Inr () else Inl (ClientError code status), bucket')
           | (Inr _, bucket') \<Rightarrow> (Inr (), bucket')))"

section \<open>Lemmas about keys and the copy loop\<close>

lemma copy_chunks_result [code]: "copy_chunks stream sz written = (sz + length stream, written @ stream)"
proof (induction stream sz written rule: copy_chunks.induct)
  case (1 stream sz written)
  show ?case
  proof (cases "take chunk_size stream = []")
    case True
    then have "stream = []" by (simp add: chunk_size_def)
    then show ?thesis by (subst copy_chunks.simps) simp
  next
    case False
    then have "copy_chunks stream sz written
        = copy_chunks (drop chunk_size stream) (sz + length (take chunk_size stream))
            (written @ take chunk_size stream)"
      by (simp add: copy_chunks.simps[of stream] Let_def)
    also have "\<dots> = (sz + length (take chunk_size stream) + length (drop chunk_size stream),
                    (written @ take chunk_size stream) @ drop chunk_size stream)"
      using "1.IH"[OF refl] False by simp
    also have "length (take chunk_size stream) + length (drop chunk_size stream) = length stream"
      by (metis append_take_drop_id length_append)
    then have "(sz + length (take chunk_size stream) + length (drop chunk_size stream),
                    (written @ take chunk_size stream) @ drop chunk_size stream)
        = (sz + length stream, written @ stream)" by simp
    finally show ?thesis .
  qed
qed

lemma storage_key_match_seg:
  "list_all key_char xs \<Longrightarrow> storage_key_match seen (xs @ ys) = storage_key_match (seen \<or> xs \<noteq> []) ys"
  by (induction xs arbitrary: seen) auto

lemma storage_key_match_chars:
  "storage_key_match seen key \<Longrightarrow> c \<in> set key \<Longrightarrow> key_char c \<or> c = CHR ''/''"
  by (induction seen key rule: storage_key_match.induct) (auto split: if_splits)

lemma key_char_slash [simp]: "\<not> key_char CHR ''/''"
  by (simp add: key_char_def is_alnum_def is_alpha_def is_upper_def is_lower_def is_digit_def)

lemma key_char_minus [simp]: "key_char CHR ''-''"
  by (simp add: key_char_def)

lemma key_char_dot [simp]: "\<not> key_char CHR ''.''"
  by (simp add: key_char_def is_alnum_def is_alpha_def is_upper_def is_lower_def is_digit_def)

lemma hex_digit_key_char: "d < 16 \<Longrightarrow> key_char (hex_digit d)"
  by (auto simp: key_char_def is_alnum_def is_alpha_def is_lower_def is_digit_def of_char_hex_digit)

lemma hex_digits_key_char: "list_all key_char (hex_digits k n)"
  by (induction k arbitrary: n) (auto simp: hex_digit_key_char)

lemma uuid_hex_key_char [simp]: "list_all key_char (uuid_hex u)"
  by (simp add: uuid_hex_def hex_digits_key_char)

lemma list_all_take_drop: "list_all p xs \<Longrightarrow> list_all p (take n xs) \<and> list_all p (drop n xs)"
  by (metis append_take_drop_id list_all_append)

lemma uuid_str_key_char [simp]: "list_all key_char (uuid_str u)"
  by (simp add: uuid_str_def Let_def list_all_take_drop)

text \<open>Every key the services generate is accepted, with and without a tenant scope.\<close>

lemma strip_slash_scope:
  "strip_by (\<lambda>c. c = CHR ''/'') (document_storage_scope t a) = document_storage_scope t a"
  by (simp add: strip_by_def document_storage_scope_def)

lemma validate_uuid_hex [simp]: "validate_storage_key (uuid_hex u) = Inr ()"
  using storage_key_match_seg[of "uuid_hex u" False "[]"]
  by (auto simp: validate_storage_key_def)

lemma length_scoped_key:
  "length (document_storage_scope t a @ ''/'' @ uuid_hex u) = 129"
  by (simp add: document_storage_scope_def)

lemma key_char_literals [simp]:
  "list_all key_char ''tenants''" "list_all key_char ''accounts''" "list_all key_char ''files''"
  by code_simp+

lemma match_scoped_key:
  "storage_key_match False (document_storage_scope t a @ ''/'' @ uuid_hex u)"
proof -
  have seg: "storage_key_match False (xs @ CHR ''/'' # ys) = storage_key_match False ys"
    if "list_all key_char xs" "xs \<noteq> []" for xs ys
    using storage_key_match_seg[OF that(1), of False "CHR ''/'' # ys"] that(2) by simp
  have ne: "uuid_str v \<noteq> []" for v by (metis length_uuid_str list.size(3) zero_neq_numeral)
  have hex: "storage_key_match False (uuid_hex u)"
    using storage_key_match_seg[of "uuid_hex u" False "[]"] by auto
  have shape: "document_storage_scope t a @ ''/'' @ uuid_hex u
      = ''tenants'' @ CHR ''/'' # uuid_str t @ CHR ''/'' # ''accounts'' @ CHR ''/'' # uuid_str a
        @ CHR ''/'' # ''files'' @ CHR ''/'' # uuid_hex u"
    by (simp add: document_storage_scope_def)
  show ?thesis unfolding shape
    by (simp only: seg key_char_literals uuid_str_key_char ne hex list.distinct not_False_eq_True)
qed

lemma validate_scoped_key [simp]:
  "validate_storage_key (new_storage_key u (Some (document_storage_scope t a))) = Inr ()"
proof -
  have "new_storage_key u (Some (document_storage_scope t a)) = document_storage_scope t a @ ''/'' @ uuid_hex u"
    by (simp add: new_storage_key_def strip_slash_scope) (simp add: document_storage_scope_def)
  then show ?thesis
    using match_scoped_key[of t a u] length_scoped_key[of t a u] by (simp only: validate_storage_key_def) simp
qed

section \<open>The interface of an object store\<close>

locale document_store =
  fixes store_put :: "uuid \<Rightarrow> string option \<Rightarrow> bytes \<Rightarrow> 'st \<Rightarrow> (string \<times> nat) result \<times> 'st"
    and store_get :: "string \<Rightarrow> 'st \<Rightarrow> bytes result"
    and store_discard :: "string \<Rightarrow> 'st \<Rightarrow> unit result \<times> 'st"
  assumes put_reads_back: "store_put u sc b st = (Inr (k, n), st') \<Longrightarrow> store_get k st' = Inr b \<and> n = length b"
    and put_frame: "store_put u sc b st = (Inr (k, n), st') \<Longrightarrow> k' \<noteq> k \<Longrightarrow> store_get k' st' = store_get k' st"
    and put_new: "store_put u sc b st = (Inr (k, n), st') \<Longrightarrow> store_get k st = Inl (FileNotFoundError k)"
    and put_error: "store_put u sc b st = (Inl e, st') \<Longrightarrow> st' = st"
    and discard_removes: "store_discard k st = (Inr (), st') \<Longrightarrow> store_get k st' = Inl (FileNotFoundError k)"
    and discard_frame: "store_discard k st = (Inr (), st') \<Longrightarrow> k' \<noteq> k \<Longrightarrow> store_get k' st' = store_get k' st"
begin

text \<open>A stored object is immutable: no later put changes what it reads.\<close>

lemma put_keeps:
  assumes "store_put u sc b st = (r, st')" "store_get k st = Inr c"
  shows "store_get k st' = Inr c"
proof (cases r)
  case (Inr kn)
  obtain k' n where kn: "kn = (k', n)" by fastforce
  then have "k \<noteq> k'" using put_new[of u sc b st k' n st'] assms Inr by auto
  then show ?thesis using put_frame[of u sc b st k' n st' k] assms Inr kn by simp
next
  case (Inl e)
  then show ?thesis using put_error[of u sc b st e st'] assms by simp
qed

text \<open>Discarding the object of an aborted transaction restores every reading.\<close>

lemma put_then_discard:
  assumes "store_put u sc b st = (Inr (k, n), st')" "store_discard k st' = (Inr (), st'')"
  shows "store_get k' st'' = store_get k' st"
  using assms put_new discard_removes put_frame discard_frame by (cases "k' = k") force+

end

interpretation local_store: document_store local_put local_get local_discard_uncommitted
proof unfold_locales
  fix u sc b st k n st' k' e
  show "local_put u sc b st = (Inr (k, n), st') \<Longrightarrow> local_get k st' = Inr b \<and> n = length b"
    by (auto simp: local_put_def local_get_def copy_chunks_result Let_def split: sum.splits if_splits)
  show "local_put u sc b st = (Inr (k, n), st') \<Longrightarrow> k' \<noteq> k \<Longrightarrow> local_get k' st' = local_get k' st"
    by (auto simp: local_put_def local_get_def copy_chunks_result Let_def split: sum.splits if_splits)
  show "local_put u sc b st = (Inr (k, n), st') \<Longrightarrow> local_get k st = Inl (FileNotFoundError k)"
    by (auto simp: local_put_def local_get_def copy_chunks_result Let_def split: sum.splits if_splits)
  show "local_put u sc b st = (Inl e, st') \<Longrightarrow> st' = st"
    by (auto simp: local_put_def copy_chunks_result Let_def split: sum.splits if_splits)
  show "local_discard_uncommitted k st = (Inr (), st') \<Longrightarrow> local_get k st' = Inl (FileNotFoundError k)"
    by (auto simp: local_discard_uncommitted_def local_get_def validate_storage_key_def
        split: sum.splits if_splits)
  show "local_discard_uncommitted k st = (Inr (), st') \<Longrightarrow> k' \<noteq> k \<Longrightarrow> local_get k' st' = local_get k' st"
    by (auto simp: local_discard_uncommitted_def local_get_def split: sum.splits if_splits)
qed

lemma local_put_fresh:
  "dict_get objs (new_storage_key u sc) = None \<Longrightarrow> validate_storage_key (new_storage_key u sc) = Inr () \<Longrightarrow>
   local_put u sc b objs = (Inr (new_storage_key u sc, length b), dict_set (new_storage_key u sc) b objs)"
  by (simp add: local_put_def copy_chunks_result Let_def)

lemma new_storage_key_None [simp]: "new_storage_key u None = uuid_hex u"
  by (simp add: new_storage_key_def)

end
