(* ===== verification/Workflow_Service.thy ===== *)
theory Workflow_Service
  imports Workflow_Schema Document_Storage
begin

text \<open>
  \<open>signature_request/workflow_service.py\<close>: \<open>SignatureWorkflowService\<close>, the workflow over
  dictionaries and an object store. The state is the service object; every method is a
  function from the state to a result (\<open>Inl\<close> an exception) and the state it leaves, because
  a method that raises keeps the mutations it made before. The lock makes a method one
  step. \<open>H\<close> is the text \<open>sha256(...).hexdigest()\<close>, \<open>now\<close> the clock.
\<close>

section \<open>State\<close>

record stored_version =
  sv_read :: document_version_read
  sv_storage_key :: string

record workflow =
  wf_storage :: "(string, bytes) dict"
  wf_documents :: "(uuid, document_read) dict"
  wf_versions :: "(uuid, stored_version list) dict"
  wf_requests :: "(uuid, signature_request_read) dict"
  wf_signers :: "(uuid, signer_read) dict"
  wf_request_signers :: "(uuid, uuid list) dict"
  wf_request_token_index :: "(string, uuid) dict"
  wf_signatures :: "(uuid \<times> uuid) set"
  wf_signature_evidence :: "(uuid \<times> uuid, stamp_position) dict"
  wf_audit :: "(uuid, audit_event_read list) dict"
  wf_next :: nat

definition init_workflow :: workflow where
  "init_workflow =
     \<lparr>wf_storage = [], wf_documents = [], wf_versions = [], wf_requests = [], wf_signers = [],
      wf_request_signers = [], wf_request_token_index = [], wf_signatures = {},
      wf_signature_evidence = [], wf_audit = [], wf_next = 0\<rparr>"

type_synonym hash = "string \<Rightarrow> string"
type_synonym 'a wf_result = "'a result \<times> workflow"

section \<open>Private helpers\<close>

text \<open>\<open>_audit\<close>: the event draws an id and a correlation id and is appended to its scope.\<close>

definition audit_record ::
  "datetime \<Rightarrow> uuid \<Rightarrow> string \<Rightarrow> string \<Rightarrow> string \<Rightarrow> uuid \<Rightarrow> (string \<times> json) list \<Rightarrow> workflow \<Rightarrow> workflow"
where
  "audit_record now scope_id actor_id action entity_type entity_id metadata s =
     s\<lparr>wf_audit := dict_set scope_id
         (dict_get_or (wf_audit s) scope_id [] @
          [\<lparr>ae_id = wf_next s, ae_occurred_at = now, ae_actor_type = ''user'', ae_actor_id = actor_id,
            ae_action = action, ae_entity_type = entity_type, ae_entity_id = entity_id,
            ae_correlation_id = wf_next s + 1, ae_metadata_sanitized = metadata\<rparr>]) (wf_audit s),
       wf_next := wf_next s + 2\<rparr>"

definition document_of :: "workflow \<Rightarrow> uuid \<Rightarrow> document_read result" where
  "document_of s document_id =
     (case dict_get (wf_documents s) document_id of
        None \<Rightarrow> Inl (workflow_error ''Document not found'' 404)
      | Some d \<Rightarrow> Inr d)"

definition request_of :: "workflow \<Rightarrow> uuid \<Rightarrow> signature_request_read result" where
  "request_of s request_id =
     (case dict_get (wf_requests s) request_id of
        None \<Rightarrow> Inl (workflow_error ''Signature request not found'' 404)
      | Some r \<Rightarrow> Inr r)"

definition signers_of :: "workflow \<Rightarrow> uuid list \<Rightarrow> signer_read list result" where
  "signers_of s sids = map_result (dict_index (wf_signers s)) sids"

definition counts :: "workflow \<Rightarrow> signature_request_read \<Rightarrow> signature_request_read result" where
  "counts s request =
     (case signers_of s (dict_get_or (wf_request_signers s) (req_id request) []) of
        Inl e \<Rightarrow> Inl e
      | Inr signers \<Rightarrow>
          Inr (request\<lparr>req_signer_count := length signers,
                       req_signed_count := length (filter (\<lambda>g. sgn_status g = SgnSigned) signers)\<rparr>))"

definition signing_url :: "string \<Rightarrow> string \<Rightarrow> string" where
  "signing_url app_url token = rstrip_by (\<lambda>c. c = CHR ''/'') app_url @ ''/'' @ token"

section \<open>Documents\<close>

definition create_document ::
  "hash \<Rightarrow> datetime \<Rightarrow> document_create \<Rightarrow> bytes \<Rightarrow> workflow \<Rightarrow> document_read wf_result"
where
  "create_document H now payload content s =
     (if content = [] then (Inl (workflow_error ''Document content cannot be empty'' 400), s)
      else
        let document_id = wf_next s; digest = H content in
        case local_put (wf_next s + 1) None content (wf_storage s) of
          (Inl e, objects) \<Rightarrow> (Inl e, s\<lparr>wf_storage := objects, wf_next := wf_next s + 2\<rparr>)
        | (Inr (key, sz), objects) \<Rightarrow>
            let item = \<lparr>doc_id = document_id, doc_organization_id = dc_organization_id payload,
                  doc_title = dc_title payload, doc_original_filename = dc_original_filename payload,
                  doc_content_type = dc_content_type payload, doc_sha256 = digest, doc_version = 1,
                  doc_status = DocReady, doc_created_by = dc_created_by payload, doc_created_at = now,
                  doc_updated_at = now, doc_size_bytes = None, doc_signature_request_count = 0,
                  doc_completed_signature_count = 0\<rparr>;
                version = \<lparr>ver_document_id = document_id, ver_version = 1,
                  ver_original_filename = dc_original_filename payload,
                  ver_content_type = dc_content_type payload, ver_sha256 = digest, ver_size_bytes = sz,
                  ver_created_by = dc_created_by payload, ver_created_at = now\<rparr>;
                s1 = s\<lparr>wf_storage := objects, wf_next := wf_next s + 2,
                       wf_documents := dict_set document_id item (wf_documents s),
                       wf_versions := dict_set document_id
                         [\<lparr>sv_read = version, sv_storage_key = key\<rparr>] (wf_versions s)\<rparr>
            in (Inr item,
                audit_record now document_id (dc_created_by payload) ''document.uploaded'' ''document''
                  document_id [(''version'', JInt 1), (''sha256'', JStr digest)] s1))"

definition frozen_by :: "uuid \<Rightarrow> signature_request_read \<Rightarrow> bool" where
  "frozen_by document_id r = (req_document_id r = document_id \<and> req_status r \<in> {ReqOpen, ReqCompleted})"

definition add_version ::
  "hash \<Rightarrow> datetime \<Rightarrow> uuid \<Rightarrow> string \<Rightarrow> string \<Rightarrow> string \<Rightarrow> bytes \<Rightarrow> workflow \<Rightarrow> document_read wf_result"
where
  "add_version H now document_id filename content_type actor_id content s =
     (if content = [] then (Inl (workflow_error ''Document content cannot be empty'' 400), s)
      else (case document_of s document_id of
        Inl e \<Rightarrow> (Inl e, s)
      | Inr current \<Rightarrow>
          if list_ex (frozen_by document_id) (dict_values (wf_requests s))
          then (Inl (workflow_error ''A frozen document cannot receive a new version'' 409), s)
          else
            let number = doc_version current + 1; digest = H content in
            (case local_put (wf_next s) None content (wf_storage s) of
              (Inl e, objects) \<Rightarrow> (Inl e, s\<lparr>wf_storage := objects, wf_next := wf_next s + 1\<rparr>)
            | (Inr (key, sz), objects) \<Rightarrow>
                let version = \<lparr>ver_document_id = document_id, ver_version = number,
                      ver_original_filename = filename, ver_content_type = content_type,
                      ver_sha256 = digest, ver_size_bytes = sz, ver_created_by = actor_id,
                      ver_created_at = now\<rparr>;
                    updated = current\<lparr>doc_original_filename := filename, doc_content_type := content_type,
                      doc_sha256 := digest, doc_version := number, doc_updated_at := now\<rparr>;
                    s1 = s\<lparr>wf_storage := objects, wf_next := wf_next s + 1\<rparr>
                in (case dict_get (wf_versions s) document_id of
                     None \<Rightarrow> (Inl KeyError, s1)
                   | Some stored \<Rightarrow>
                       (Inr updated,
                        audit_record now document_id actor_id ''document.version_created'' ''document''
                          document_id [(''version'', JInt number), (''sha256'', JStr digest)]
                          (s1\<lparr>wf_versions := dict_set document_id
                                (stored @ [\<lparr>sv_read = version, sv_storage_key = key\<rparr>]) (wf_versions s),
                              wf_documents := dict_set document_id updated (wf_documents s)\<rparr>))))))"

definition list_documents :: "workflow \<Rightarrow> document_read list" where
  "list_documents s = dict_values (wf_documents s)"

definition active_for :: "uuid \<Rightarrow> signature_request_read \<Rightarrow> bool" where
  "active_for document_id r = (req_document_id r = document_id \<and> req_status r \<in> {ReqDraft, ReqOpen})"

definition cancel_for_deletion ::
  "datetime \<Rightarrow> string \<Rightarrow> signature_request_read \<Rightarrow> workflow \<Rightarrow> workflow"
where
  "cancel_for_deletion now actor_id r s =
     audit_record now (req_id r) actor_id ''signature_request.cancelled'' ''signature_request'' (req_id r)
       [(''reason'', JStr ''document_deleted'')]
       (s\<lparr>wf_requests := dict_set (req_id r) (r\<lparr>req_status := ReqCancelled\<rparr>) (wf_requests s)\<rparr>)"

definition delete_document ::
  "datetime \<Rightarrow> uuid \<Rightarrow> string \<Rightarrow> bool \<Rightarrow> workflow \<Rightarrow> unit wf_result"
where
  "delete_document now document_id actor_id force s =
     (case document_of s document_id of
        Inl e \<Rightarrow> (Inl e, s)
      | Inr _ \<Rightarrow>
          let active = filter (active_for document_id) (dict_values (wf_requests s)) in
          if active \<noteq> [] \<and> \<not> force
          then (Inl (WorkflowError ''Document has signature requests in progress'' 409
                  (Some ''document_has_active_requests'')
                  [(''active_request_count'', JInt (int (length active)))]), s)
          else
            let s1 = fold (cancel_for_deletion now actor_id) active s;
                s2 = s1\<lparr>wf_documents := dict_del document_id (wf_documents s1)\<rparr>
            in (Inr (),
                audit_record now document_id actor_id ''document.deleted'' ''document'' document_id
                  [(''cancelled_request_count'', JInt (int (length active)))] s2))"

definition get_content ::
  "hash \<Rightarrow> uuid \<Rightarrow> int option \<Rightarrow> workflow \<Rightarrow> (document_version_read \<times> bytes) result"
where
  "get_content H document_id version s =
     (case document_of s document_id of
        Inl e \<Rightarrow> Inl e
      | Inr current \<Rightarrow>
          let target = (case version of None \<Rightarrow> doc_version current
                        | Some v \<Rightarrow> if v = 0 then doc_version current else v) in
          (case dict_get (wf_versions s) document_id of
             None \<Rightarrow> Inl KeyError
           | Some items \<Rightarrow>
               (case List.find (\<lambda>i. ver_version (sv_read i) = target) items of
                  None \<Rightarrow> Inl (workflow_error ''Document version not found'' 404)
                | Some stored \<Rightarrow>
                    (case local_get (sv_storage_key stored) (wf_storage s) of
                       Inl e \<Rightarrow> Inl e
                     | Inr content \<Rightarrow>
                         if H content \<noteq> ver_sha256 (sv_read stored)
                         then Inl (workflow_error ''Stored document integrity check failed'' 409)
                         else Inr (sv_read stored, content)))))"

section \<open>Signature requests\<close>

definition create_request ::
  "datetime \<Rightarrow> signature_request_create \<Rightarrow> workflow \<Rightarrow> signature_request_read wf_result"
where
  "create_request now payload s =
     (case document_of s (rc_document_id payload) of
        Inl e \<Rightarrow> (Inl e, s)
      | Inr document \<Rightarrow>
          if rc_expires_at payload \<le> now
          then (Inl (workflow_error ''Expiration must be in the future'' 400), s)
          else
            let rid = wf_next s;
                item = \<lparr>req_id = rid, req_document_id = doc_id document,
                  req_document_version = doc_version document, req_document_sha256 = doc_sha256 document,
                  req_status = ReqDraft, req_expires_at = rc_expires_at payload,
                  req_created_by = rc_created_by payload, req_created_at = now, req_completed_at = None,
                  req_signer_count = 0, req_signed_count = 0, req_document_title = '''',
                  req_original_filename = '''', req_signature_mode = ModeEvidence,
                  req_issuer_snapshot = None\<rparr>;
                s1 = s\<lparr>wf_next := rid + 1, wf_requests := dict_set rid item (wf_requests s),
                       wf_request_signers := dict_set rid [] (wf_request_signers s),
                       wf_audit := dict_set rid [] (wf_audit s)\<rparr>
            in (Inr item,
                audit_record now rid (rc_created_by payload) ''signature_request.created''
                  ''signature_request'' rid
                  [(''document_version'', JInt (doc_version document)),
                   (''document_sha256'', JStr (doc_sha256 document))] s1))"

definition list_requests :: "workflow \<Rightarrow> signature_request_read list result" where
  "list_requests s =
     map_result (counts s)
       (filter (\<lambda>r. dict_get (wf_documents s) (req_document_id r) \<noteq> None) (dict_values (wf_requests s)))"

definition get_request :: "uuid \<Rightarrow> workflow \<Rightarrow> signature_request_read result" where
  "get_request request_id s =
     (case request_of s request_id of Inl e \<Rightarrow> Inl e | Inr r \<Rightarrow> counts s r)"

definition add_signer ::
  "datetime \<Rightarrow> uuid \<Rightarrow> signer_create \<Rightarrow> string \<Rightarrow> workflow \<Rightarrow> signer_read wf_result"
where
  "add_signer now request_id payload actor_id s =
     (case request_of s request_id of
        Inl e \<Rightarrow> (Inl e, s)
      | Inr request \<Rightarrow>
          if req_status request \<noteq> ReqDraft
          then (Inl (workflow_error ''Signers can only be added to a draft request'' 409), s)
          else
            let email = lower (sc_email payload) in
            (case dict_get (wf_request_signers s) request_id of
              None \<Rightarrow> (Inl KeyError, s)
            | Some sids \<Rightarrow>
                (case any_index (wf_signers s) (\<lambda>g. sgn_auth_user_id g = email) sids of
                   Inl e \<Rightarrow> (Inl e, s)
                 | Inr True \<Rightarrow> (Inl (workflow_error ''This authenticated user is already a signer'' 409), s)
                 | Inr False \<Rightarrow>
                     let sid = wf_next s;
                         signer = \<lparr>sgn_id = sid, sgn_signature_request_id = req_id request,
                           sgn_auth_user_id = email, sgn_name = sc_name payload, sgn_email = email,
                           sgn_preferred_locale = sc_preferred_locale payload, sgn_status = SgnPending,
                           sgn_token_expires_at = now + seconds (sc_token_ttl_seconds payload),
                           sgn_link_revoked_at = None, sgn_signed_at = None,
                           sgn_identity_document_type = None, sgn_identity_document_country = None,
                           sgn_identity_document_masked = None, sgn_participant_role = ExternalSigner,
                           sgn_represented_tenant_id = None, sgn_representation_snapshot = None\<rparr>;
                         s1 = s\<lparr>wf_next := sid + 1, wf_signers := dict_set sid signer (wf_signers s),
                                wf_request_signers :=
                                  dict_set request_id (sids @ [sid]) (wf_request_signers s)\<rparr>
                     in (Inr signer,
                         audit_record now request_id actor_id ''signer.link_created'' ''signer'' sid
                           [(''token_expires_at'', JTime (sgn_token_expires_at signer))] s1))))"

definition create_signing_link ::
  "hash \<Rightarrow> string \<Rightarrow> datetime \<Rightarrow> string \<Rightarrow> uuid \<Rightarrow> string \<Rightarrow> workflow \<Rightarrow> string wf_result"
where
  "create_signing_link H app_url now token request_id actor_id s =
     (case request_of s request_id of
        Inl e \<Rightarrow> (Inl e, s)
      | Inr request \<Rightarrow>
          if req_status request \<noteq> ReqOpen
          then (Inl (workflow_error ''Only an open request can receive a signing link'' 409), s)
          else
            (Inr (signing_url app_url token),
             audit_record now (req_id request) actor_id ''signature_request.link_created''
               ''signature_request'' (req_id request) []
               (s\<lparr>wf_request_token_index :=
                    dict_set (H token) (req_id request) (wf_request_token_index s)\<rparr>)))"

definition list_signers :: "uuid \<Rightarrow> workflow \<Rightarrow> signer_read list result" where
  "list_signers request_id s =
     (case request_of s request_id of
        Inl e \<Rightarrow> Inl e
      | Inr _ \<Rightarrow> (case dict_get (wf_request_signers s) request_id of
                   None \<Rightarrow> Inl KeyError
                 | Some sids \<Rightarrow> signers_of s sids))"

definition revoke_signer_link ::
  "datetime \<Rightarrow> uuid \<Rightarrow> uuid \<Rightarrow> string \<Rightarrow> workflow \<Rightarrow> signer_read wf_result"
where
  "revoke_signer_link now request_id signer_id actor_id s =
     (case request_of s request_id of
        Inl e \<Rightarrow> (Inl e, s)
      | Inr request \<Rightarrow>
          (case dict_get (wf_signers s) signer_id of
             None \<Rightarrow> (Inl (workflow_error ''Signer not found'' 404), s)
           | Some signer \<Rightarrow>
               if sgn_signature_request_id signer \<noteq> req_id request
               then (Inl (workflow_error ''Signer not found'' 404), s)
               else if sgn_status signer = SgnSigned
               then (Inl (workflow_error ''A completed signature link cannot be revoked'' 409), s)
               else if sgn_link_revoked_at signer = None
               then let signer' = signer\<lparr>sgn_link_revoked_at := Some now\<rparr> in
                    (Inr signer',
                     audit_record now (req_id request) actor_id ''signer.link_revoked'' ''signer''
                       (sgn_id signer') []
                       (s\<lparr>wf_signers := dict_set (sgn_id signer') signer' (wf_signers s)\<rparr>))
               else (Inr signer, s)))"

definition open_request ::
  "datetime \<Rightarrow> uuid \<Rightarrow> string \<Rightarrow> signature_mode \<Rightarrow> workflow \<Rightarrow> signature_request_read wf_result"
where
  "open_request now request_id actor_id mode s =
     (case request_of s request_id of
        Inl e \<Rightarrow> (Inl e, s)
      | Inr request \<Rightarrow>
          if req_status request \<noteq> ReqDraft
          then (Inl (workflow_error ''Only a draft request can be opened'' 409), s)
          else (case dict_get (wf_request_signers s) request_id of
            None \<Rightarrow> (Inl KeyError, s)
          | Some sids \<Rightarrow>
              if sids = [] then (Inl (workflow_error ''At least one signer is required'' 409), s)
              else (case document_of s (req_document_id request) of
                Inl e \<Rightarrow> (Inl e, s)
              | Inr document \<Rightarrow>
                  if doc_version document \<noteq> req_document_version request \<or>
                     doc_sha256 document \<noteq> req_document_sha256 request
                  then (Inl (workflow_error ''Document changed after request creation'' 409), s)
                  else
                    let updated = request\<lparr>req_status := ReqOpen, req_signature_mode := mode\<rparr>;
                        s1 = audit_record now request_id actor_id ''signature_request.opened''
                               ''signature_request'' request_id []
                               (s\<lparr>wf_requests := dict_set request_id updated (wf_requests s)\<rparr>)
                    in (counts s1 updated, s1))))"

definition cancel_request ::
  "datetime \<Rightarrow> uuid \<Rightarrow> string \<Rightarrow> workflow \<Rightarrow> signature_request_read wf_result"
where
  "cancel_request now request_id actor_id s =
     (case request_of s request_id of
        Inl e \<Rightarrow> (Inl e, s)
      | Inr request \<Rightarrow>
          if req_status request \<notin> {ReqDraft, ReqOpen}
          then (Inl (workflow_error ''Request cannot be cancelled'' 409), s)
          else
            let updated = request\<lparr>req_status := ReqCancelled\<rparr>;
                s1 = audit_record now request_id actor_id ''signature_request.cancelled''
                       ''signature_request'' request_id []
                       (s\<lparr>wf_requests := dict_set request_id updated (wf_requests s)\<rparr>)
            in (counts s1 updated, s1))"

section \<open>Signing\<close>

definition resolve_request ::
  "hash \<Rightarrow> datetime \<Rightarrow> string \<Rightarrow> string \<Rightarrow> bool \<Rightarrow> workflow \<Rightarrow> (signer_read \<times> signature_request_read) wf_result"
where
  "resolve_request H now token auth_user_id allow_completed s =
     (case dict_get (wf_request_token_index s) (H token) of
        None \<Rightarrow> (Inl (workflow_error ''Signing link is invalid'' 404), s)
      | Some request_id \<Rightarrow>
          (case request_of s request_id of
             Inl e \<Rightarrow> (Inl e, s)
           | Inr request \<Rightarrow>
               (case list_signers (req_id request) s of
                  Inl e \<Rightarrow> (Inl e, s)
                | Inr signers \<Rightarrow>
                    (case List.find (\<lambda>g. sgn_auth_user_id g = lower auth_user_id) signers of
                       None \<Rightarrow>
                         (Inl (workflow_error
                            ''Authenticated user does not match a signer for this request'' 403),
                          audit_record now (req_id request) auth_user_id ''authorization.failed''
                            ''signature_request'' (req_id request) [] s)
                     | Some signer \<Rightarrow>
                         if sgn_link_revoked_at signer \<noteq> None
                         then (Inl (workflow_error ''Signing access has been revoked'' 410), s)
                         else if req_expires_at request \<le> now
                         then (Inl (workflow_error ''Signature request has expired'' 410),
                               if sgn_status signer \<notin> {SgnSigned, SgnDeclined}
                               then s\<lparr>wf_signers := dict_set (sgn_id signer)
                                        (signer\<lparr>sgn_status := SgnExpired\<rparr>) (wf_signers s)\<rparr>
                               else s)
                         else if req_status request \<noteq> ReqOpen \<and>
                                 \<not> (allow_completed \<and> req_status request = ReqCompleted \<and>
                                    sgn_status signer = SgnSigned)
                         then (Inl (workflow_error ''Signature request is not open'' 409), s)
                         else (Inr (signer, request), s)))))"

definition signing_context ::
  "hash \<Rightarrow> datetime \<Rightarrow> string \<Rightarrow> string \<Rightarrow> workflow \<Rightarrow> signing_read wf_result"
where
  "signing_context H now token auth_user_id s =
     (case resolve_request H now token auth_user_id True s of
        (Inl e, s1) \<Rightarrow> (Inl e, s1)
      | (Inr (signer, request), s1) \<Rightarrow>
          (case document_of s1 (req_document_id request) of
             Inl e \<Rightarrow> (Inl e, s1)
           | Inr document \<Rightarrow>
               (case counts s1 request of
                  Inl e \<Rightarrow> (Inl e, s1)
                | Inr request' \<Rightarrow>
                    (Inr \<lparr>sr_request = request', sr_signer = signer, sr_document_title = doc_title document,
                          sr_original_filename = doc_original_filename document, sr_account_country = None,
                          sr_stamp = dict_get (wf_signature_evidence s1) (req_id request, sgn_id signer),
                          sr_viewer_mode = ''signer'', sr_issuer_snapshot = None\<rparr>, s1))))"

definition signing_document ::
  "hash \<Rightarrow> datetime \<Rightarrow> string \<Rightarrow> string \<Rightarrow> workflow \<Rightarrow> (document_version_read \<times> bytes) wf_result"
where
  "signing_document H now token auth_user_id s =
     (case resolve_request H now token auth_user_id True s of
        (Inl e, s1) \<Rightarrow> (Inl e, s1)
      | (Inr (_, request), s1) \<Rightarrow>
          (get_content H (req_document_id request) (Some (req_document_version request)) s1, s1))"

definition view_request ::
  "hash \<Rightarrow> datetime \<Rightarrow> string \<Rightarrow> string \<Rightarrow> workflow \<Rightarrow> signer_read wf_result"
where
  "view_request H now token auth_user_id s =
     (case resolve_request H now token auth_user_id False s of
        (Inl e, s1) \<Rightarrow> (Inl e, s1)
      | (Inr (signer, request), s1) \<Rightarrow>
          if sgn_status signer = SgnPending
          then let signer' = signer\<lparr>sgn_status := SgnViewed\<rparr> in
               (Inr signer',
                audit_record now (req_id request) auth_user_id ''document.viewed'' ''signer'' (sgn_id signer')
                  [] (s1\<lparr>wf_signers := dict_set (sgn_id signer') signer' (wf_signers s1)\<rparr>))
          else (Inr signer, s1))"

definition sign ::
  "hash \<Rightarrow> datetime \<Rightarrow> string \<Rightarrow> string \<Rightarrow> bool \<Rightarrow> stamp_position \<Rightarrow> workflow \<Rightarrow> signer_read wf_result"
where
  "sign H now token auth_user_id consent stamp s =
     (if \<not> consent then (Inl (workflow_error ''Explicit consent is required'' 400), s)
      else (case resolve_request H now token auth_user_id False s of
        (Inl e, s1) \<Rightarrow> (Inl e, s1)
      | (Inr (signer, request), s1) \<Rightarrow>
          if sgn_status signer = SgnSigned \<or> (req_id request, sgn_id signer) \<in> wf_signatures s1
          then (Inl (workflow_error ''Signer has already signed'' 409), s1)
          else (case document_of s1 (req_document_id request) of
            Inl e \<Rightarrow> (Inl e, s1)
          | Inr document \<Rightarrow>
              (case get_content H (doc_id document) (Some (req_document_version request)) s1 of
                 Inl e \<Rightarrow> (Inl e, s1)
               | Inr (_, content) \<Rightarrow>
                   if H content \<noteq> req_document_sha256 request
                   then (Inl (workflow_error ''Document hash does not match the frozen request'' 409), s1)
                   else
                     let signer' = signer\<lparr>sgn_status := SgnSigned, sgn_signed_at := Some now\<rparr>;
                         pair = (req_id request, sgn_id signer');
                         s2 = audit_record now (req_id request) auth_user_id ''signature.completed''
                                ''signer'' (sgn_id signer')
                                [(''document_sha256'', JStr (req_document_sha256 request)),
                                 (''document_version'', JInt (req_document_version request)),
                                 (''stamp'', JObj (stamp_dump stamp))]
                                (s1\<lparr>wf_signatures := insert pair (wf_signatures s1),
                                    wf_signature_evidence :=
                                      dict_set pair stamp (wf_signature_evidence s1),
                                    wf_signers := dict_set (sgn_id signer') signer' (wf_signers s1)\<rparr>)
                     in (case dict_get (wf_request_signers s2) (req_id request) of
                          None \<Rightarrow> (Inl KeyError, s2)
                        | Some sids \<Rightarrow>
                            (case all_index (wf_signers s2) (\<lambda>g. sgn_status g = SgnSigned) sids of
                               Inl e \<Rightarrow> (Inl e, s2)
                             | Inr False \<Rightarrow> (Inr signer', s2)
                             | Inr True \<Rightarrow>
                                 (Inr signer',
                                  audit_record now (req_id request) auth_user_id
                                    ''signature_request.completed'' ''signature_request'' (req_id request) []
                                    (s2\<lparr>wf_requests := dict_set (req_id request)
                                          (request\<lparr>req_status := ReqCompleted,
                                                   req_completed_at := Some now\<rparr>) (wf_requests s2)\<rparr>))))))))"

definition decline ::
  "hash \<Rightarrow> datetime \<Rightarrow> string \<Rightarrow> string \<Rightarrow> workflow \<Rightarrow> signer_read wf_result"
where
  "decline H now token auth_user_id s =
     (case resolve_request H now token auth_user_id False s of
        (Inl e, s1) \<Rightarrow> (Inl e, s1)
      | (Inr (signer, request), s1) \<Rightarrow>
          if sgn_status signer \<in> {SgnSigned, SgnDeclined}
          then (Inl (workflow_error ''Signer already answered'' 409), s1)
          else
            let signer' = signer\<lparr>sgn_status := SgnDeclined\<rparr> in
            (Inr signer',
             audit_record now (req_id request) auth_user_id ''signature.declined'' ''signer''
               (sgn_id signer') []
               (s1\<lparr>wf_signers := dict_set (sgn_id signer') signer' (wf_signers s1)\<rparr>)))"

definition audit_events :: "uuid \<Rightarrow> workflow \<Rightarrow> audit_event_read list result" where
  "audit_events request_id s =
     (case request_of s request_id of
        Inl e \<Rightarrow> Inl e
      | Inr _ \<Rightarrow> dict_index (wf_audit s) request_id)"

end
