(* ===== verification/Signing_Lifecycle.thy ===== *)
theory Signing_Lifecycle
  imports Workflow_Schema
begin

text \<open>
  The abstract specification of the signature workflow: requests and signers with their
  statuses only, and the transitions the product allows. A service is correct for the
  lifecycle when it simulates these transitions (locale \<open>signing_service\<close>); the safety
  properties of the lifecycle then hold of every state the service can reach.
\<close>

section \<open>Abstract state and transitions\<close>

record lifecycle =
  lc_request :: "uuid \<Rightarrow> request_status option"
  lc_signer :: "uuid \<Rightarrow> (uuid \<times> signer_status) option"

definition lc_init :: lifecycle where
  "lc_init = \<lparr>lc_request = (\<lambda>_. None), lc_signer = (\<lambda>_. None)\<rparr>"

text \<open>Every signer of request \<open>r\<close> other than \<open>g\<close> has signed.\<close>

definition others_signed :: "lifecycle \<Rightarrow> uuid \<Rightarrow> uuid \<Rightarrow> bool" where
  "others_signed L r g \<longleftrightarrow> (\<forall>h st. h \<noteq> g \<longrightarrow> lc_signer L h = Some (r, st) \<longrightarrow> st = SgnSigned)"

inductive lc_step :: "lifecycle \<Rightarrow> lifecycle \<Rightarrow> bool" where
  create: "lc_request L r = None \<Longrightarrow>
     lc_step L (L\<lparr>lc_request := (lc_request L)(r \<mapsto> ReqDraft)\<rparr>)"
| add_signer: "lc_request L r = Some ReqDraft \<Longrightarrow> lc_signer L g = None \<Longrightarrow>
     lc_step L (L\<lparr>lc_signer := (lc_signer L)(g \<mapsto> (r, SgnPending))\<rparr>)"
| open_it: "lc_request L r = Some ReqDraft \<Longrightarrow> lc_signer L g = Some (r, st) \<Longrightarrow>
     lc_step L (L\<lparr>lc_request := (lc_request L)(r \<mapsto> ReqOpen)\<rparr>)"
| cancel: "lc_request L r = Some ReqDraft \<or> lc_request L r = Some ReqOpen \<Longrightarrow>
     lc_step L (L\<lparr>lc_request := (lc_request L)(r \<mapsto> ReqCancelled)\<rparr>)"
| view: "lc_request L r = Some ReqOpen \<Longrightarrow> lc_signer L g = Some (r, SgnPending) \<Longrightarrow>
     lc_step L (L\<lparr>lc_signer := (lc_signer L)(g \<mapsto> (r, SgnViewed))\<rparr>)"
| decline: "lc_request L r = Some ReqOpen \<Longrightarrow> lc_signer L g = Some (r, st) \<Longrightarrow>
     st \<noteq> SgnSigned \<Longrightarrow> st \<noteq> SgnDeclined \<Longrightarrow>
     lc_step L (L\<lparr>lc_signer := (lc_signer L)(g \<mapsto> (r, SgnDeclined))\<rparr>)"
| expire: "lc_request L r = Some q \<Longrightarrow> q \<noteq> ReqDraft \<Longrightarrow> lc_signer L g = Some (r, st) \<Longrightarrow>
     st \<noteq> SgnSigned \<Longrightarrow> st \<noteq> SgnDeclined \<Longrightarrow>
     lc_step L (L\<lparr>lc_signer := (lc_signer L)(g \<mapsto> (r, SgnExpired))\<rparr>)"
| sign: "lc_request L r = Some ReqOpen \<Longrightarrow> lc_signer L g = Some (r, st) \<Longrightarrow> st \<noteq> SgnSigned \<Longrightarrow>
     \<not> others_signed L r g \<Longrightarrow>
     lc_step L (L\<lparr>lc_signer := (lc_signer L)(g \<mapsto> (r, SgnSigned))\<rparr>)"
| sign_last: "lc_request L r = Some ReqOpen \<Longrightarrow> lc_signer L g = Some (r, st) \<Longrightarrow> st \<noteq> SgnSigned \<Longrightarrow>
     others_signed L r g \<Longrightarrow>
     lc_step L (L\<lparr>lc_signer := (lc_signer L)(g \<mapsto> (r, SgnSigned)),
                  lc_request := (lc_request L)(r \<mapsto> ReqCompleted)\<rparr>)"

section \<open>Safety of the abstract lifecycle\<close>

text \<open>
  Signers belong to requests; a draft has pending signers only; an open request has a
  signer who has not signed; a completed request has signers and all of them signed; no
  request is ever in the declared but unused status \<open>expired\<close>.
\<close>

definition lc_inv :: "lifecycle \<Rightarrow> bool" where
  "lc_inv L \<longleftrightarrow>
     (\<forall>g r st. lc_signer L g = Some (r, st) \<longrightarrow> lc_request L r \<noteq> None) \<and>
     (\<forall>g r st. lc_signer L g = Some (r, st) \<longrightarrow> lc_request L r = Some ReqDraft \<longrightarrow> st = SgnPending) \<and>
     (\<forall>r. lc_request L r = Some ReqOpen \<longrightarrow> (\<exists>g st. lc_signer L g = Some (r, st) \<and> st \<noteq> SgnSigned)) \<and>
     (\<forall>g r st. lc_signer L g = Some (r, st) \<longrightarrow> lc_request L r = Some ReqCompleted \<longrightarrow> st = SgnSigned) \<and>
     (\<forall>r. lc_request L r = Some ReqCompleted \<longrightarrow> (\<exists>g. lc_signer L g = Some (r, SgnSigned))) \<and>
     (\<forall>r. lc_request L r \<noteq> Some ReqExpired)"

lemma lc_inv_init: "lc_inv lc_init"
  by (simp add: lc_inv_def lc_init_def)

lemma lc_invD:
  assumes "lc_inv L"
  shows lc_inv_request: "lc_signer L g = Some (r, st) \<Longrightarrow> lc_request L r \<noteq> None"
    and lc_inv_draft: "lc_signer L g = Some (r, st) \<Longrightarrow> lc_request L r = Some ReqDraft \<Longrightarrow> st = SgnPending"
    and lc_inv_open: "lc_request L r = Some ReqOpen \<Longrightarrow> \<exists>g st. lc_signer L g = Some (r, st) \<and> st \<noteq> SgnSigned"
    and lc_inv_completed: "lc_signer L g = Some (r, st) \<Longrightarrow> lc_request L r = Some ReqCompleted \<Longrightarrow> st = SgnSigned"
    and lc_inv_nonempty: "lc_request L r = Some ReqCompleted \<Longrightarrow> \<exists>g. lc_signer L g = Some (r, SgnSigned)"
    and lc_inv_expired: "lc_request L r \<noteq> Some ReqExpired"
  using assms unfolding lc_inv_def by blast+

lemma lc_invI:
  assumes "\<And>g r st. lc_signer L g = Some (r, st) \<Longrightarrow> lc_request L r \<noteq> None"
    and "\<And>g r st. lc_signer L g = Some (r, st) \<Longrightarrow> lc_request L r = Some ReqDraft \<Longrightarrow> st = SgnPending"
    and "\<And>r. lc_request L r = Some ReqOpen \<Longrightarrow> \<exists>g st. lc_signer L g = Some (r, st) \<and> st \<noteq> SgnSigned"
    and "\<And>g r st. lc_signer L g = Some (r, st) \<Longrightarrow> lc_request L r = Some ReqCompleted \<Longrightarrow> st = SgnSigned"
    and "\<And>r. lc_request L r = Some ReqCompleted \<Longrightarrow> \<exists>g. lc_signer L g = Some (r, SgnSigned)"
    and "\<And>r. lc_request L r \<noteq> Some ReqExpired"
  shows "lc_inv L"
  using assms unfolding lc_inv_def by blast

lemmas lc_inv_dist = option.distinct option.inject prod.inject signer_status.distinct request_status.distinct

lemma lc_step_inv: "lc_step L L' \<Longrightarrow> lc_inv L \<Longrightarrow> lc_inv L'"
proof (induction rule: lc_step.induct)
  case (create L r)
  have fresh: "lc_signer L g = Some (r', st) \<Longrightarrow> r' \<noteq> r" for g r' st
    using lc_inv_request[OF create(2), of g r' st] create(1) by auto
  show ?case
    by (rule lc_invI) (use create lc_invD[OF create(2)] fresh in \<open>auto split: if_splits; metis lc_inv_dist\<close>)+
next
  case (add_signer L r g)
  show ?case
    by (rule lc_invI) (use add_signer lc_invD[OF add_signer(3)] in \<open>auto split: if_splits; metis lc_inv_dist\<close>)+
next
  case (open_it L r g st)
  have "st = SgnPending" using lc_inv_draft[OF open_it(3) open_it(2,1)] .
  with open_it show ?case
    by (intro lc_invI) (use lc_invD[OF open_it(3)] in \<open>auto split: if_splits; metis lc_inv_dist\<close>)+
next
  case (cancel L r)
  show ?case
    by (rule lc_invI) (use cancel lc_invD[OF cancel(2)] in \<open>auto split: if_splits; metis lc_inv_dist\<close>)+
next
  case (view L r g)
  show ?case
    by (rule lc_invI) (use view lc_invD[OF view(3)] in \<open>auto split: if_splits; metis lc_inv_dist\<close>)+
next
  case (decline L r g st)
  show ?case
    by (rule lc_invI) (use decline lc_invD[OF decline(5)] in \<open>auto split: if_splits; metis lc_inv_dist\<close>)+
next
  case (expire L r q g st)
  then have "lc_request L r \<noteq> Some ReqCompleted" using lc_inv_completed by blast
  with expire show ?case
    by (intro lc_invI) (use lc_invD[OF expire(6)] in \<open>auto split: if_splits; metis lc_inv_dist\<close>)+
next
  case (sign L r g st)
  then obtain h st' where "h \<noteq> g" "lc_signer L h = Some (r, st')" "st' \<noteq> SgnSigned"
    unfolding others_signed_def by blast
  with sign show ?case
    by (intro lc_invI) (use lc_invD[OF sign(5)] in \<open>auto split: if_splits; metis lc_inv_dist\<close>)+
next
  case (sign_last L r g st)
  show ?case
    by (rule lc_invI) (use sign_last lc_invD[OF sign_last(5)] in \<open>auto simp: others_signed_def split: if_splits; metis lc_inv_dist\<close>)+
qed

lemma lc_steps_inv: "lc_step\<^sup>*\<^sup>* L L' \<Longrightarrow> lc_inv L \<Longrightarrow> lc_inv L'"
  by (induction rule: rtranclp_induct) (auto intro: lc_step_inv)

text \<open>Completed and cancelled requests, and given signatures, are final.\<close>

lemma lc_step_final:
  "lc_step L L' \<Longrightarrow> lc_request L r = Some q \<Longrightarrow> q \<in> {ReqCompleted, ReqCancelled} \<Longrightarrow> lc_request L' r = Some q"
  by (induction rule: lc_step.induct) auto

lemma lc_step_signed:
  "lc_step L L' \<Longrightarrow> lc_signer L g = Some (r, SgnSigned) \<Longrightarrow> lc_signer L' g = Some (r, SgnSigned)"
  by (induction rule: lc_step.induct) auto

lemma lc_step_signer_request:
  "lc_step L L' \<Longrightarrow> lc_signer L g = Some (r, st) \<Longrightarrow> \<exists>st'. lc_signer L' g = Some (r, st')"
  by (induction rule: lc_step.induct) auto

text \<open>The order of the request statuses along a run.\<close>

fun request_rank :: "request_status \<Rightarrow> nat" where
  "request_rank ReqDraft = 0"
| "request_rank ReqOpen = 1"
| "request_rank ReqExpired = 2"
| "request_rank ReqCancelled = 2"
| "request_rank ReqCompleted = 2"

lemma lc_step_rank:
  "lc_step L L' \<Longrightarrow> lc_request L r = Some q \<Longrightarrow>
   \<exists>q'. lc_request L' r = Some q' \<and> request_rank q \<le> request_rank q'"
  by (induction rule: lc_step.induct) auto

lemma lc_steps_final:
  "lc_step\<^sup>*\<^sup>* L L' \<Longrightarrow> lc_request L r = Some q \<Longrightarrow> q \<in> {ReqCompleted, ReqCancelled} \<Longrightarrow> lc_request L' r = Some q"
  by (induction rule: rtranclp_induct) (auto dest: lc_step_final)

lemma lc_steps_signed:
  "lc_step\<^sup>*\<^sup>* L L' \<Longrightarrow> lc_signer L g = Some (r, SgnSigned) \<Longrightarrow> lc_signer L' g = Some (r, SgnSigned)"
  by (induction rule: rtranclp_induct) (auto dest: lc_step_signed)

lemma lc_steps_rank:
  "lc_step\<^sup>*\<^sup>* L L' \<Longrightarrow> lc_request L r = Some q \<Longrightarrow>
   \<exists>q'. lc_request L' r = Some q' \<and> request_rank q \<le> request_rank q'"
  by (induction rule: rtranclp_induct) (auto dest: lc_step_rank order_trans)

section \<open>The interface of a signing service\<close>

locale signing_service =
  fixes step :: "'s \<Rightarrow> 's \<Rightarrow> bool"
    and init :: "'s"
    and inv :: "'s \<Rightarrow> bool"
    and abs :: "'s \<Rightarrow> lifecycle"
  assumes inv_init: "inv init"
    and abs_init: "abs init = lc_init"
    and inv_step: "step s t \<Longrightarrow> inv s \<Longrightarrow> inv t"
    and simulates: "step s t \<Longrightarrow> inv s \<Longrightarrow> lc_step\<^sup>*\<^sup>* (abs s) (abs t)"
begin

lemma inv_steps: "step\<^sup>*\<^sup>* s t \<Longrightarrow> inv s \<Longrightarrow> inv t"
  by (induction rule: rtranclp_induct) (auto intro: inv_step)

lemma reachable_inv: "step\<^sup>*\<^sup>* init s \<Longrightarrow> inv s"
  using inv_steps inv_init by blast

lemma simulates_run: "step\<^sup>*\<^sup>* s t \<Longrightarrow> inv s \<Longrightarrow> lc_step\<^sup>*\<^sup>* (abs s) (abs t)"
proof (induction rule: rtranclp_induct)
  case (step t u)
  then have "lc_step\<^sup>*\<^sup>* (abs t) (abs u)" using simulates inv_steps by blast
  with step show ?case by (meson rtranclp_trans)
qed simp

lemma reachable_lifecycle: "step\<^sup>*\<^sup>* init s \<Longrightarrow> lc_inv (abs s)"
  using simulates_run[OF _ inv_init] abs_init lc_steps_inv lc_inv_init by metis

lemma final_status:
  "step\<^sup>*\<^sup>* init s \<Longrightarrow> step\<^sup>*\<^sup>* s t \<Longrightarrow> lc_request (abs s) r = Some q \<Longrightarrow>
   q \<in> {ReqCompleted, ReqCancelled} \<Longrightarrow> lc_request (abs t) r = Some q"
  using simulates_run reachable_inv lc_steps_final by blast

lemma signature_permanent:
  "step\<^sup>*\<^sup>* init s \<Longrightarrow> step\<^sup>*\<^sup>* s t \<Longrightarrow> lc_signer (abs s) g = Some (r, SgnSigned) \<Longrightarrow>
   lc_signer (abs t) g = Some (r, SgnSigned)"
  using simulates_run reachable_inv lc_steps_signed by blast

lemma completed_all_signed:
  "step\<^sup>*\<^sup>* init s \<Longrightarrow> lc_request (abs s) r = Some ReqCompleted \<Longrightarrow>
   lc_signer (abs s) g = Some (r, st) \<Longrightarrow> st = SgnSigned"
  using reachable_lifecycle lc_inv_completed by blast

lemma status_monotone:
  "step\<^sup>*\<^sup>* init s \<Longrightarrow> step\<^sup>*\<^sup>* s t \<Longrightarrow> lc_request (abs s) r = Some q \<Longrightarrow>
   \<exists>q'. lc_request (abs t) r = Some q' \<and> request_rank q \<le> request_rank q'"
  using simulates_run reachable_inv lc_steps_rank by blast

end

end
