(* ===== verification/Workflow_Invariants.thy ===== *)
theory Workflow_Invariants
  imports Workflow_Service Signing_Lifecycle
begin

text \<open>
  The invariant of \<open>SignatureWorkflowService\<close>, split by what it speaks about, and its
  preservation by the elementary updates the methods are made of: recording an audit event,
  replacing a signer, replacing a request, drawing an identifier.
\<close>

section \<open>The invariant\<close>

text \<open>Every object is stored under its own identifier, and no identifier is ahead of the supply.\<close>

definition ids_ok :: "workflow \<Rightarrow> bool" where
  "ids_ok s \<longleftrightarrow> distinct (map fst (wf_requests s)) \<and>
     (\<forall>k d. map_of (wf_documents s) k = Some d \<longrightarrow> doc_id d = k) \<and>
     (\<forall>k q. map_of (wf_requests s) k = Some q \<longrightarrow> req_id q = k) \<and>
     (\<forall>k x. map_of (wf_signers s) k = Some x \<longrightarrow> sgn_id x = k)"

definition fresh_ok :: "workflow \<Rightarrow> bool" where
  "fresh_ok s \<longleftrightarrow> (\<forall>k\<ge>wf_next s.
     map_of (wf_documents s) k = None \<and> map_of (wf_versions s) k = None \<and>
     map_of (wf_requests s) k = None \<and> map_of (wf_signers s) k = None \<and>
     map_of (wf_request_signers s) k = None \<and> map_of (wf_audit s) k = None)"

definition objects_ok :: "workflow \<Rightarrow> bool" where
  "objects_ok s \<longleftrightarrow> (\<forall>key. map_of (wf_storage s) key \<noteq> None \<longrightarrow> (\<exists>k<wf_next s. key = uuid_hex k))"

text \<open>The two directions between requests and signers agree; a request has an audit trail.\<close>

definition has_request :: "workflow \<Rightarrow> uuid \<Rightarrow> bool" where
  "has_request s r \<longleftrightarrow> map_of (wf_requests s) r \<noteq> None"

definition signer_req :: "workflow \<Rightarrow> uuid \<Rightarrow> uuid option" where
  "signer_req s g = map_option sgn_signature_request_id (map_of (wf_signers s) g)"

definition signed_pair :: "workflow \<Rightarrow> uuid \<times> uuid \<Rightarrow> bool" where
  "signed_pair s p \<longleftrightarrow> map_option (\<lambda>x. (sgn_signature_request_id x, sgn_status x))
     (map_of (wf_signers s) (snd p)) = Some (fst p, SgnSigned)"

definition links_ok :: "workflow \<Rightarrow> bool" where
  "links_ok s \<longleftrightarrow>
     (\<forall>r. has_request s r \<longleftrightarrow> map_of (wf_request_signers s) r \<noteq> None) \<and>
     (\<forall>r. has_request s r \<longrightarrow> map_of (wf_audit s) r \<noteq> None) \<and>
     (\<forall>r sids. map_of (wf_request_signers s) r = Some sids \<longrightarrow>
        distinct sids \<and> (\<forall>g. g \<in> set sids \<longleftrightarrow> signer_req s g = Some r)) \<and>
     (\<forall>g r. signer_req s g = Some r \<longrightarrow> has_request s r)"

text \<open>A request has at most one signer per authenticated user, identified in lower case.\<close>

definition signer_key :: "workflow \<Rightarrow> uuid \<Rightarrow> (uuid \<times> string \<times> string) option" where
  "signer_key s g = map_option (\<lambda>x. (sgn_signature_request_id x, sgn_auth_user_id x, sgn_email x))
     (map_of (wf_signers s) g)"

definition emails_ok :: "workflow \<Rightarrow> bool" where
  "emails_ok s \<longleftrightarrow>
     (\<forall>g r u e. signer_key s g = Some (r, u, e) \<longrightarrow> u = lower u \<and> e = u) \<and>
     (\<forall>g h k. signer_key s g = Some k \<longrightarrow> signer_key s h = Some k \<longrightarrow> g = h)"

text \<open>Signing links exist only for requests that were opened.\<close>

definition tokens_ok :: "workflow \<Rightarrow> bool" where
  "tokens_ok s \<longleftrightarrow> (\<forall>t r. map_of (wf_request_token_index s) t = Some r \<longrightarrow>
     (\<exists>q. map_of (wf_requests s) r = Some q \<and> req_status q \<noteq> ReqDraft))"

text \<open>The signature set and the stamp evidence hold exactly the signers in status \<open>signed\<close>.\<close>

definition signatures_ok :: "workflow \<Rightarrow> bool" where
  "signatures_ok s \<longleftrightarrow>
     (\<forall>p. p \<in> wf_signatures s \<longleftrightarrow> signed_pair s p) \<and>
     (\<forall>p. map_of (wf_signature_evidence s) p \<noteq> None \<longleftrightarrow> p \<in> wf_signatures s)"

text \<open>Versions are numbered from 1 and every stored object reads back with its digest and size.\<close>

definition version_stored :: "hash \<Rightarrow> (string, bytes) dict \<Rightarrow> uuid \<Rightarrow> stored_version \<Rightarrow> bool" where
  "version_stored H objects d v \<longleftrightarrow> ver_document_id (sv_read v) = d \<and>
     (\<exists>c. local_get (sv_storage_key v) objects = Inr c \<and> H c = ver_sha256 (sv_read v) \<and>
          ver_size_bytes (sv_read v) = length c)"

definition versions_ok :: "hash \<Rightarrow> workflow \<Rightarrow> bool" where
  "versions_ok H s \<longleftrightarrow> (\<forall>d vs. map_of (wf_versions s) d = Some vs \<longrightarrow>
     (\<forall>i<length vs. ver_version (sv_read (vs ! i)) = int i + 1) \<and>
     (\<forall>v\<in>set vs. version_stored H (wf_storage s) d v))"

definition documents_ok :: "workflow \<Rightarrow> bool" where
  "documents_ok s \<longleftrightarrow> (\<forall>d x. map_of (wf_documents s) d = Some x \<longrightarrow>
     (\<exists>vs. map_of (wf_versions s) d = Some vs \<and> vs \<noteq> [] \<and> doc_version x = int (length vs) \<and>
           doc_sha256 x = ver_sha256 (sv_read (last vs))))"

text \<open>
  A request is a snapshot of a version that is still stored; while it is open or completed the
  document, unless deleted, is at that version; a document with an active request exists.
\<close>

definition snapshots_ok :: "workflow \<Rightarrow> bool" where
  "snapshots_ok s \<longleftrightarrow> (\<forall>r q. map_of (wf_requests s) r = Some q \<longrightarrow>
     (\<exists>vs v. map_of (wf_versions s) (req_document_id q) = Some vs \<and> v \<in> set vs \<and>
        ver_version (sv_read v) = req_document_version q \<and>
        ver_sha256 (sv_read v) = req_document_sha256 q))"

definition frozen_ok :: "workflow \<Rightarrow> bool" where
  "frozen_ok s \<longleftrightarrow> (\<forall>r q. map_of (wf_requests s) r = Some q \<longrightarrow>
     (\<forall>d. req_status q \<in> {ReqOpen, ReqCompleted} \<longrightarrow>
        map_of (wf_documents s) (req_document_id q) = Some d \<longrightarrow>
        doc_version d = req_document_version q \<and> doc_sha256 d = req_document_sha256 q) \<and>
     (req_status q \<in> {ReqDraft, ReqOpen} \<longrightarrow> map_of (wf_documents s) (req_document_id q) \<noteq> None))"

definition wf_inv :: "hash \<Rightarrow> workflow \<Rightarrow> bool" where
  "wf_inv H s \<longleftrightarrow> ids_ok s \<and> fresh_ok s \<and> objects_ok s \<and> links_ok s \<and> emails_ok s \<and> tokens_ok s \<and>
     signatures_ok s \<and> versions_ok H s \<and> documents_ok s \<and> snapshots_ok s \<and> frozen_ok s"

lemmas wf_inv_parts = ids_ok_def fresh_ok_def objects_ok_def links_ok_def emails_ok_def tokens_ok_def
  signatures_ok_def versions_ok_def documents_ok_def snapshots_ok_def frozen_ok_def

lemmas views = has_request_def signer_req_def signer_key_def signed_pair_def

lemma view_cong:
  "wf_requests t = wf_requests s \<Longrightarrow> has_request t = has_request s"
  "wf_signers t = wf_signers s \<Longrightarrow> signer_req t = signer_req s"
  "wf_signers t = wf_signers s \<Longrightarrow> signer_key t = signer_key s"
  "wf_signers t = wf_signers s \<Longrightarrow> signed_pair t = signed_pair s"
  by (simp_all add: views fun_eq_iff)

lemma links_okI:
  assumes "\<And>r. has_request s r \<longleftrightarrow> map_of (wf_request_signers s) r \<noteq> None"
    and "\<And>r. has_request s r \<Longrightarrow> map_of (wf_audit s) r \<noteq> None"
    and "\<And>r sids. map_of (wf_request_signers s) r = Some sids \<Longrightarrow> distinct sids"
    and "\<And>r sids g. map_of (wf_request_signers s) r = Some sids \<Longrightarrow>
      g \<in> set sids \<longleftrightarrow> signer_req s g = Some r"
    and "\<And>g r. signer_req s g = Some r \<Longrightarrow> has_request s r"
  shows "links_ok s"
  unfolding links_ok_def using assms by blast

lemma links_okD:
  assumes "links_ok s"
  shows "has_request s r \<longleftrightarrow> map_of (wf_request_signers s) r \<noteq> None"
    and "has_request s r \<Longrightarrow> map_of (wf_audit s) r \<noteq> None"
    and "map_of (wf_request_signers s) r = Some sids \<Longrightarrow> distinct sids"
    and "map_of (wf_request_signers s) r = Some sids \<Longrightarrow> g \<in> set sids \<longleftrightarrow> signer_req s g = Some r"
    and "signer_req s g = Some r \<Longrightarrow> has_request s r"
  using assms unfolding links_ok_def by blast+

lemma links_ok_cong:
  assumes "\<And>r. has_request t r = has_request s r" "\<And>g. signer_req t g = signer_req s g"
    "wf_request_signers t = wf_request_signers s" "wf_audit t = wf_audit s"
  shows "links_ok t = links_ok s"
  unfolding links_ok_def by (simp only: assms)

lemma wf_inv_init: "wf_inv H init_workflow"
  by (simp add: wf_inv_def init_workflow_def wf_inv_parts views)

lemma wf_invD:
  assumes "wf_inv H s"
  shows "ids_ok s" "fresh_ok s" "objects_ok s" "links_ok s" "emails_ok s" "tokens_ok s"
    "signatures_ok s" "versions_ok H s" "documents_ok s" "snapshots_ok s" "frozen_ok s"
  using assms by (simp_all add: wf_inv_def)

section \<open>The abstraction to the lifecycle\<close>

definition wf_abs :: "workflow \<Rightarrow> lifecycle" where
  "wf_abs s = \<lparr>lc_request = (\<lambda>r. map_option req_status (map_of (wf_requests s) r)),
     lc_signer = (\<lambda>g. map_option (\<lambda>x. (sgn_signature_request_id x, sgn_status x)) (map_of (wf_signers s) g))\<rparr>"

lemma wf_abs_init: "wf_abs init_workflow = lc_init"
  by (simp add: wf_abs_def init_workflow_def lc_init_def)

section \<open>Elementary updates\<close>

lemma audit_record_sel [simp]:
  "wf_storage (audit_record now sc a act et e m s) = wf_storage s"
  "wf_documents (audit_record now sc a act et e m s) = wf_documents s"
  "wf_versions (audit_record now sc a act et e m s) = wf_versions s"
  "wf_requests (audit_record now sc a act et e m s) = wf_requests s"
  "wf_signers (audit_record now sc a act et e m s) = wf_signers s"
  "wf_request_signers (audit_record now sc a act et e m s) = wf_request_signers s"
  "wf_request_token_index (audit_record now sc a act et e m s) = wf_request_token_index s"
  "wf_signatures (audit_record now sc a act et e m s) = wf_signatures s"
  "wf_signature_evidence (audit_record now sc a act et e m s) = wf_signature_evidence s"
  "wf_next (audit_record now sc a act et e m s) = wf_next s + 2"
  by (simp_all add: audit_record_def)

lemma audit_record_abs [simp]: "wf_abs (audit_record now sc a act et e m s) = wf_abs s"
  by (simp add: wf_abs_def)

lemma audit_record_views [simp]:
  "has_request (audit_record now sc a act et e m s) = has_request s"
  "signer_req (audit_record now sc a act et e m s) = signer_req s"
  "signer_key (audit_record now sc a act et e m s) = signer_key s"
  "signed_pair (audit_record now sc a act et e m s) = signed_pair s"
  by (rule view_cong, simp)+

lemma audit_record_audit:
  "map_of (wf_audit (audit_record now sc a act et e m s)) k = None \<longleftrightarrow> k \<noteq> sc \<and> map_of (wf_audit s) k = None"
  by (simp add: audit_record_def)

lemma audit_inv:
  assumes "wf_inv H s" "sc < wf_next s"
  shows "wf_inv H (audit_record now sc a act et e m s)"
proof -
  have "objects_ok (audit_record now sc a act et e m s)"
    using wf_invD(3)[OF assms(1)] unfolding objects_ok_def audit_record_sel
    by (meson less_add_same_cancel1 order.strict_trans zero_less_numeral)
  moreover have "fresh_ok (audit_record now sc a act et e m s)"
    using wf_invD(2)[OF assms(1)] assms(2) by (simp add: fresh_ok_def audit_record_audit)
  moreover have "links_ok (audit_record now sc a act et e m s)"
    using wf_invD(4)[OF assms(1)] unfolding links_ok_def audit_record_sel audit_record_views
    by (simp only: audit_record_audit) blast
  ultimately show ?thesis using wf_invD[OF assms(1)]
    by (simp add: wf_inv_def ids_ok_def emails_ok_def tokens_ok_def signatures_ok_def versions_ok_def
        documents_ok_def snapshots_ok_def frozen_ok_def)
qed

lemma known_below:
  assumes "wf_inv H s"
  shows document_below: "map_of (wf_documents s) d = Some x \<Longrightarrow> d < wf_next s"
    and request_below: "map_of (wf_requests s) r = Some q \<Longrightarrow> r < wf_next s"
    and signer_below: "map_of (wf_signers s) g = Some y \<Longrightarrow> g < wf_next s"
  using wf_invD(2)[OF assms] by (auto simp: fresh_ok_def intro!: leI)

text \<open>Replacing a signer by one with the same identity whose signature status did not change.\<close>

definition same_signer :: "signer_read \<Rightarrow> signer_read \<Rightarrow> bool" where
  "same_signer x y \<longleftrightarrow> sgn_id y = sgn_id x \<and> sgn_auth_user_id y = sgn_auth_user_id x \<and>
     sgn_email y = sgn_email x \<and> sgn_signature_request_id y = sgn_signature_request_id x"

lemma set_signer_views:
  assumes "map_of (wf_signers s) g = Some x" "same_signer x x'"
  shows "signer_req (s\<lparr>wf_signers := dict_set g x' (wf_signers s)\<rparr>) h = signer_req s h"
    and "signer_key (s\<lparr>wf_signers := dict_set g x' (wf_signers s)\<rparr>) h = signer_key s h"
    and "(sgn_status x' = SgnSigned \<longleftrightarrow> sgn_status x = SgnSigned) \<Longrightarrow>
      signed_pair (s\<lparr>wf_signers := dict_set g x' (wf_signers s)\<rparr>) p = signed_pair s p"
  using assms by (auto simp: views same_signer_def)

lemma set_signer_links:
  assumes inv: "wf_inv H s" and x: "map_of (wf_signers s) g = Some x" and same: "same_signer x x'"
    and t: "t = s\<lparr>wf_signers := dict_set g x' (wf_signers s)\<rparr>"
  shows "ids_ok t" "links_ok t" "emails_ok t" "fresh_ok t"
proof -
  have views: "has_request t = has_request s" "signer_req t h = signer_req s h"
    "signer_key t h = signer_key s h" for h
    unfolding t using set_signer_views[OF x same] by (auto intro: view_cong)
  show "ids_ok t"
    using wf_invD(1)[OF inv] x same by (simp add: ids_ok_def same_signer_def t)
  show "links_ok t"
    using wf_invD(4)[OF inv] by (subst links_ok_cong) (simp_all add: views, simp_all add: t)
  show "emails_ok t"
    using wf_invD(5)[OF inv] by (simp only: emails_ok_def views)
  show "fresh_ok t"
    using wf_invD(2)[OF inv] signer_below[OF inv x] by (simp add: fresh_ok_def t)
qed

lemma set_signer_inv:
  assumes inv: "wf_inv H s" and x: "map_of (wf_signers s) g = Some x" and same: "same_signer x x'"
    and st: "sgn_status x' = SgnSigned \<longleftrightarrow> sgn_status x = SgnSigned"
  shows "wf_inv H (s\<lparr>wf_signers := dict_set g x' (wf_signers s)\<rparr>)" (is "wf_inv H ?t")
proof -
  have "signatures_ok ?t"
    using wf_invD(7)[OF inv] by (simp only: signatures_ok_def set_signer_views(3)[OF x same st]) simp
  then show ?thesis using wf_invD[OF inv] set_signer_links[OF inv x same refl]
    by (simp add: wf_inv_def objects_ok_def tokens_ok_def versions_ok_def documents_ok_def
        snapshots_ok_def frozen_ok_def)
qed

lemma set_signer_abs:
  "wf_abs (s\<lparr>wf_signers := dict_set g x' (wf_signers s)\<rparr>) =
   (wf_abs s)\<lparr>lc_signer := (lc_signer (wf_abs s))(g \<mapsto> (sgn_signature_request_id x', sgn_status x'))\<rparr>"
  by (auto simp: wf_abs_def)

text \<open>A signature: the signer becomes \<open>signed\<close>, with its pair and stamp recorded.\<close>

lemma set_signed_inv:
  assumes inv: "wf_inv H s" and x: "map_of (wf_signers s) g = Some x" and same: "same_signer x x'"
    and st: "sgn_status x' = SgnSigned" and pr: "pr = (sgn_signature_request_id x, g)"
  shows "wf_inv H (s\<lparr>wf_signatures := insert pr (wf_signatures s),
    wf_signature_evidence := dict_set pr stamp (wf_signature_evidence s),
    wf_signers := dict_set g x' (wf_signers s)\<rparr>)" (is "wf_inv H ?t")
proof -
  let ?u = "s\<lparr>wf_signers := dict_set g x' (wf_signers s)\<rparr>"
  have "signed_pair ?t p \<longleftrightarrow> p = pr \<or> signed_pair s p" for p
    using x same st by (cases p) (auto simp: signed_pair_def same_signer_def pr)
  moreover have "p \<in> wf_signatures ?t \<longleftrightarrow> p = pr \<or> p \<in> wf_signatures s"
    "map_of (wf_signature_evidence ?t) p \<noteq> None \<longleftrightarrow> p = pr \<or> map_of (wf_signature_evidence s) p \<noteq> None" for p
    by simp_all
  moreover have "signed_pair s p \<longleftrightarrow> p \<in> wf_signatures s"
    "map_of (wf_signature_evidence s) p \<noteq> None \<longleftrightarrow> p \<in> wf_signatures s" for p
    using wf_invD(7)[OF inv] by (simp_all only: signatures_ok_def)
  ultimately have "signatures_ok ?t" by (simp only: signatures_ok_def) simp
  moreover have "ids_ok ?t = ids_ok ?u" "fresh_ok ?t = fresh_ok ?u" by (simp_all add: ids_ok_def fresh_ok_def)
  moreover have "links_ok ?t = links_ok ?u" by (rule links_ok_cong) (simp_all add: views)
  moreover have "emails_ok ?t = emails_ok ?u"
    by (simp add: emails_ok_def view_cong(3)[of ?t ?u])
  ultimately show ?thesis using wf_invD[OF inv] set_signer_links[OF inv x same refl]
    by (simp add: wf_inv_def objects_ok_def tokens_ok_def versions_ok_def documents_ok_def
        snapshots_ok_def frozen_ok_def)
qed

text \<open>Replacing a request by one with the same snapshot that does not go back to draft.\<close>

definition same_request :: "signature_request_read \<Rightarrow> signature_request_read \<Rightarrow> bool" where
  "same_request q q' \<longleftrightarrow> req_id q' = req_id q \<and> req_document_id q' = req_document_id q \<and>
     req_document_version q' = req_document_version q \<and> req_document_sha256 q' = req_document_sha256 q"

lemma set_request_inv:
  assumes inv: "wf_inv H s" and q: "map_of (wf_requests s) r = Some q" and same: "same_request q q'"
    and "req_status q' \<noteq> ReqDraft"
    and frz: "req_status q' = ReqOpen \<or> req_status q' = ReqCompleted \<Longrightarrow>
      \<forall>d. map_of (wf_documents s) (req_document_id q) = Some d \<longrightarrow>
        doc_version d = req_document_version q \<and> doc_sha256 d = req_document_sha256 q"
    and act: "req_status q' = ReqOpen \<Longrightarrow> req_status q = ReqDraft \<or> req_status q = ReqOpen"
  shows "wf_inv H (s\<lparr>wf_requests := dict_set r q' (wf_requests s)\<rparr>)" (is "wf_inv H ?t")
proof -
  have "ids_ok ?t"
    using wf_invD(1)[OF inv] q same by (simp add: ids_ok_def same_request_def distinct_update)
  moreover have "fresh_ok ?t"
    using wf_invD(2)[OF inv] request_below[OF inv q] by (auto simp: fresh_ok_def)
  moreover have "links_ok ?t"
  proof -
    have "has_request ?t k = has_request s k" for k using q by (auto simp: has_request_def)
    moreover have "signer_req ?t = signer_req s" by (rule view_cong) simp
    ultimately show ?thesis using wf_invD(4)[OF inv] by (subst links_ok_cong) simp_all
  qed
  moreover have "tokens_ok ?t"
    using wf_invD(6)[OF inv] assms(4) by (auto simp: tokens_ok_def)
  moreover have "snapshots_ok ?t"
    using wf_invD(10)[OF inv] q same by (auto simp: snapshots_ok_def same_request_def)
  moreover have "frozen_ok ?t"
    using wf_invD(11)[OF inv] q same frz act assms(4) by (auto simp: frozen_ok_def same_request_def)
  moreover have "signer_key ?t = signer_key s" "signed_pair ?t = signed_pair s"
    by (rule view_cong, simp)+
  ultimately show ?thesis using wf_invD[OF inv]
    by (simp add: wf_inv_def objects_ok_def emails_ok_def signatures_ok_def versions_ok_def documents_ok_def)
qed

lemma set_request_abs:
  "wf_abs (s\<lparr>wf_requests := dict_set r q' (wf_requests s)\<rparr>) =
   (wf_abs s)\<lparr>lc_request := (lc_request (wf_abs s))(r \<mapsto> req_status q')\<rparr>"
  by (auto simp: wf_abs_def)

lemma wf_abs_sel:
  "map_of (wf_requests s) r = Some q \<Longrightarrow> lc_request (wf_abs s) r = Some (req_status q)"
  "map_of (wf_signers s) g = Some x \<Longrightarrow>
   lc_signer (wf_abs s) g = Some (sgn_signature_request_id x, sgn_status x)"
  by (simp_all add: wf_abs_def)

end
