(* ===== verification/Workflow_Correctness.thy ===== *)
theory Workflow_Correctness
  imports Workflow_Invariants
begin

text \<open>
  Every method of \<open>SignatureWorkflowService\<close> keeps the invariant and simulates the lifecycle;
  the service is an instance of the locale \<open>signing_service\<close>.
\<close>

section \<open>Good updates\<close>

text \<open>One audit log extends another: every trail of the first is a prefix of the second's.\<close>

definition audit_le ::
  "(uuid, audit_event_read list) dict \<Rightarrow> (uuid, audit_event_read list) dict \<Rightarrow> bool"
where
  "audit_le a b \<longleftrightarrow> (\<forall>k. prefix (dict_get_or a k []) (dict_get_or b k []))"

lemma audit_le_refl [simp]: "audit_le a a"
  by (simp add: audit_le_def)

lemma audit_le_trans: "audit_le a b \<Longrightarrow> audit_le b c \<Longrightarrow> audit_le a c"
  using prefix_order.trans unfolding audit_le_def by blast

lemma audit_le_record: "audit_le a (wf_audit s) \<Longrightarrow> audit_le a (wf_audit (audit_record now sc act x et e m s))"
  by (auto simp: audit_le_def audit_record_def intro: prefix_order.trans)

text \<open>An update is good when it keeps the invariant, simulates the lifecycle and only extends the audit.\<close>

definition good :: "hash \<Rightarrow> workflow \<Rightarrow> workflow \<Rightarrow> bool" where
  "good H s t \<longleftrightarrow> wf_inv H t \<and> lc_step\<^sup>*\<^sup>* (wf_abs s) (wf_abs t) \<and> audit_le (wf_audit s) (wf_audit t)"

lemma good_refl: "wf_inv H s \<Longrightarrow> good H s s"
  by (simp add: good_def)

lemma good_trans: "good H s t \<Longrightarrow> good H t u \<Longrightarrow> good H s u"
  by (auto simp: good_def intro: audit_le_trans)

lemma good_audit: "good H s t \<Longrightarrow> sc < wf_next t \<Longrightarrow> good H s (audit_record now sc a act et e m t)"
  by (simp add: good_def audit_inv audit_le_record)

lemma good_signer:
  assumes "wf_inv H s" "map_of (wf_signers s) g = Some x" "same_signer x x'"
    and "sgn_status x' = SgnSigned \<longleftrightarrow> sgn_status x = SgnSigned"
    and "sgn_status x' = sgn_status x \<or>
      lc_step (wf_abs s) ((wf_abs s)\<lparr>lc_signer := (lc_signer (wf_abs s))
        (g \<mapsto> (sgn_signature_request_id x', sgn_status x'))\<rparr>)"
  shows "good H s (s\<lparr>wf_signers := dict_set g x' (wf_signers s)\<rparr>)"
proof -
  have "lc_signer (wf_abs s) g = Some (sgn_signature_request_id x', sgn_status x)"
    using wf_abs_sel(2)[OF assms(2)] assms(3) by (simp add: same_signer_def)
  then have "sgn_status x' = sgn_status x \<Longrightarrow>
      (lc_signer (wf_abs s))(g \<mapsto> (sgn_signature_request_id x', sgn_status x')) = lc_signer (wf_abs s)"
    by (simp add: fun_upd_idem)
  then show ?thesis
    using set_signer_inv[OF assms(1-4)] assms(5) by (auto simp: good_def set_signer_abs)
qed

lemma good_request:
  assumes "wf_inv H (s\<lparr>wf_requests := dict_set r q' (wf_requests s)\<rparr>)"
    and "lc_step (wf_abs s) ((wf_abs s)\<lparr>lc_request := (lc_request (wf_abs s))(r \<mapsto> req_status q')\<rparr>)"
  shows "good H s (s\<lparr>wf_requests := dict_set r q' (wf_requests s)\<rparr>)"
  using assms by (auto simp: good_def set_request_abs)

lemmas lookup_defs = request_of_def document_of_def

lemma request_of_Inr: "request_of s r = Inr q \<longleftrightarrow> map_of (wf_requests s) r = Some q"
  by (auto simp: request_of_def split: option.splits)

lemma document_of_Inr: "document_of s d = Inr x \<longleftrightarrow> map_of (wf_documents s) d = Some x"
  by (auto simp: document_of_def split: option.splits)

lemma request_id: "wf_inv H s \<Longrightarrow> map_of (wf_requests s) r = Some q \<Longrightarrow> req_id q = r"
  using wf_invD(1) by (simp add: ids_ok_def)

lemma document_id: "wf_inv H s \<Longrightarrow> map_of (wf_documents s) d = Some x \<Longrightarrow> doc_id x = d"
  using wf_invD(1) by (simp add: ids_ok_def)

lemma signer_id: "wf_inv H s \<Longrightarrow> map_of (wf_signers s) g = Some x \<Longrightarrow> sgn_id x = g"
  using wf_invD(1) by (simp add: ids_ok_def)

lemma request_signersD:
  assumes "wf_inv H s" "map_of (wf_request_signers s) r = Some sids"
  shows "distinct sids" "g \<in> set sids \<longleftrightarrow> signer_req s g = Some r"
  using wf_invD(4)[OF assms(1)] assms(2) unfolding links_ok_def by blast+

lemma request_signers_Some:
  "wf_inv H s \<Longrightarrow> map_of (wf_requests s) r = Some q \<Longrightarrow> \<exists>sids. map_of (wf_request_signers s) r = Some sids"
  using wf_invD(4) unfolding links_ok_def has_request_def by blast

section \<open>The signing link\<close>

text \<open>What a successful resolution establishes, and the only changes a failed one makes.\<close>

lemma signers_of_mem:
  "signers_of s sids = Inr xs \<Longrightarrow> x \<in> set xs \<Longrightarrow> \<exists>g\<in>set sids. map_of (wf_signers s) g = Some x"
  by (auto simp: signers_of_def map_index_Inr) (metis imageE image_eqI image_set)

lemma list_signers_mem:
  assumes inv: "wf_inv H s" and xs: "list_signers r s = Inr xs" and x: "x \<in> set xs"
  shows "map_of (wf_signers s) (sgn_id x) = Some x" "sgn_signature_request_id x = r"
proof -
  obtain sids where sids: "map_of (wf_request_signers s) r = Some sids" and "signers_of s sids = Inr xs"
    using xs by (auto simp: list_signers_def split: sum.splits option.splits)
  with x obtain g where g: "g \<in> set sids" "map_of (wf_signers s) g = Some x"
    using signers_of_mem by blast
  then show "map_of (wf_signers s) (sgn_id x) = Some x" using signer_id[OF inv] by simp
  show "sgn_signature_request_id x = r"
    using request_signersD(2)[OF inv sids, of g] g by (simp add: signer_req_def)
qed

definition resolved ::
  "hash \<Rightarrow> datetime \<Rightarrow> string \<Rightarrow> string \<Rightarrow> workflow \<Rightarrow> signer_read \<Rightarrow> signature_request_read \<Rightarrow> bool"
where
  "resolved H now token user s x q \<longleftrightarrow>
     map_of (wf_request_token_index s) (H token) = Some (req_id q) \<and>
     map_of (wf_requests s) (req_id q) = Some q \<and>
     map_of (wf_signers s) (sgn_id x) = Some x \<and> sgn_signature_request_id x = req_id q \<and>
     sgn_auth_user_id x = lower user \<and> sgn_link_revoked_at x = None \<and> now < req_expires_at q"

lemma resolve_request_ok:
  assumes inv: "wf_inv H s" and res: "resolve_request H now token user ac s = (Inr (x, q), t)"
  shows "t = s" "resolved H now token user s x q"
    "req_status q = ReqOpen \<or> (ac \<and> req_status q = ReqCompleted \<and> sgn_status x = SgnSigned)"
proof -
  note unfold = resolve_request_def request_of_def
  obtain r where r: "map_of (wf_request_token_index s) (H token) = Some r"
    using res by (cases "map_of (wf_request_token_index s) (H token)") (auto simp: unfold)
  obtain q' where q': "map_of (wf_requests s) r = Some q'"
    using res r by (cases "map_of (wf_requests s) r") (auto simp: unfold)
  obtain xs where xs': "list_signers (req_id q') s = Inr xs"
    using res r q' by (cases "list_signers (req_id q') s") (auto simp: unfold)
  obtain x' where x': "List.find (\<lambda>g. sgn_auth_user_id g = lower user) xs = Some x'"
    using res r q' xs' by (cases "List.find (\<lambda>g. sgn_auth_user_id g = lower user) xs") (auto simp: unfold)
  have rest: "x' = x" "q' = q" "t = s" "sgn_link_revoked_at x = None" "now < req_expires_at q"
      "req_status q = ReqOpen \<or> (ac \<and> req_status q = ReqCompleted \<and> sgn_status x = SgnSigned)"
    using res r q' xs' x' by (simp_all add: unfold split: if_splits) blast
  note q = q'[unfolded rest] and xs = xs'[unfolded rest] and x = x'[unfolded rest]
  have "req_id q = r" using request_id[OF inv q] .
  moreover have "x \<in> set xs" "sgn_auth_user_id x = lower user" using find_Some_iff_hd[OF x] by auto
  ultimately show "t = s" "resolved H now token user s x q"
    "req_status q = ReqOpen \<or> (ac \<and> req_status q = ReqCompleted \<and> sgn_status x = SgnSigned)"
    using rest r q list_signers_mem[OF inv xs] by (auto simp: resolved_def)
qed

lemma resolve_request_state:
  assumes inv: "wf_inv H s"
  shows "snd (resolve_request H now token user ac s) = s \<or>
    (\<exists>r q. map_of (wf_requests s) r = Some q \<and> snd (resolve_request H now token user ac s) =
       audit_record now r user ''authorization.failed'' ''signature_request'' r [] s) \<or>
    (\<exists>q x. map_of (wf_requests s) (sgn_signature_request_id x) = Some q \<and> req_status q \<noteq> ReqDraft \<and>
       map_of (wf_signers s) (sgn_id x) = Some x \<and> sgn_status x \<notin> {SgnSigned, SgnDeclined} \<and>
       req_expires_at q \<le> now \<and> snd (resolve_request H now token user ac s) =
       s\<lparr>wf_signers := dict_set (sgn_id x) (x\<lparr>sgn_status := SgnExpired\<rparr>) (wf_signers s)\<rparr>)"
proof (cases "map_of (wf_request_token_index s) (H token)")
  case (Some r)
  then obtain q where q: "map_of (wf_requests s) r = Some q" "req_status q \<noteq> ReqDraft"
    using wf_invD(6)[OF inv] by (auto simp: tokens_ok_def)
  have rid: "req_id q = r" using request_id[OF inv q(1)] .
  show ?thesis
  proof (cases "list_signers r s")
    case (Inr xs)
    show ?thesis
    proof (cases "List.find (\<lambda>g. sgn_auth_user_id g = lower user) xs")
      case None
      then show ?thesis using Some q rid Inr by (auto simp: resolve_request_def request_of_def)
    next
      case (Some x)
      then have x: "map_of (wf_signers s) (sgn_id x) = Some x" "sgn_signature_request_id x = r"
        using list_signers_mem[OF inv Inr] find_Some_iff_hd by metis+
      show ?thesis
        using \<open>map_of (wf_request_token_index s) (H token) = Some r\<close> q rid Inr Some x
        by (simp add: resolve_request_def request_of_def) (intro impI disjI2 exI[of _ q] exI[of _ x], simp)
    qed
  qed (use Some q rid in \<open>simp add: resolve_request_def request_of_def\<close>)
qed (simp add: resolve_request_def)

lemma resolve_good:
  assumes inv: "wf_inv H s"
  shows "good H s (snd (resolve_request H now token user ac s))"
  using resolve_request_state[OF inv, of now token user ac]
proof (elim disjE exE conjE)
  fix r q assume "map_of (wf_requests s) r = Some q" "snd (resolve_request H now token user ac s) =
       audit_record now r user ''authorization.failed'' ''signature_request'' r [] s"
  then show ?thesis using good_audit[OF good_refl[OF inv]] request_below[OF inv] by simp
next
  fix q x assume "map_of (wf_requests s) (sgn_signature_request_id x) = Some q" "req_status q \<noteq> ReqDraft"
       "map_of (wf_signers s) (sgn_id x) = Some x" "sgn_status x \<notin> {SgnSigned, SgnDeclined}"
    and "snd (resolve_request H now token user ac s) =
       s\<lparr>wf_signers := dict_set (sgn_id x) (x\<lparr>sgn_status := SgnExpired\<rparr>) (wf_signers s)\<rparr>"
  then show ?thesis
    using good_signer[OF inv, of "sgn_id x" x "x\<lparr>sgn_status := SgnExpired\<rparr>"]
      lc_step.expire[of "wf_abs s" "sgn_signature_request_id x" "req_status q" "sgn_id x" "sgn_status x"]
    by (simp add: same_signer_def wf_abs_sel)
qed (simp add: good_refl[OF inv])

section \<open>Signer actions\<close>

lemma resolvedD:
  assumes "resolved H now token user s x q"
  shows "map_of (wf_request_token_index s) (H token) = Some (req_id q)"
    "map_of (wf_requests s) (req_id q) = Some q" "map_of (wf_signers s) (sgn_id x) = Some x"
    "sgn_signature_request_id x = req_id q" "sgn_auth_user_id x = lower user"
    "sgn_link_revoked_at x = None" "now < req_expires_at q"
  using assms by (simp_all add: resolved_def)

lemma resolved_abs:
  assumes "resolved H now token user s x q"
  shows "lc_request (wf_abs s) (req_id q) = Some (req_status q)"
    "lc_signer (wf_abs s) (sgn_id x) = Some (req_id q, sgn_status x)"
  using wf_abs_sel resolvedD[OF assms] by (metis, metis)

text \<open>Case analysis on the resolution: it fails with a good state, or it identifies an open request.\<close>

lemma resolve_open_cases:
  assumes inv: "wf_inv H s"
  obtains (fail) e t where "resolve_request H now token user False s = (Inl e, t)" "good H s t"
  | (ok) x q where "resolve_request H now token user False s = (Inr (x, q), s)"
      "resolved H now token user s x q" "req_status q = ReqOpen"
proof (cases "resolve_request H now token user False s")
  case (Pair res t)
  show ?thesis
  proof (cases res)
    case (Inl e)
    then show ?thesis using fail Pair resolve_good[OF inv, of now token user False] by simp
  next
    case (Inr p)
    obtain x q where p: "p = (x, q)" by fastforce
    show ?thesis
      using ok[of x q] Pair Inr p resolve_request_ok[OF inv, of now token user False x q t] by simp
  qed
qed

lemma view_good:
  assumes inv: "wf_inv H s"
  shows "good H s (snd (view_request H now token user s))"
proof (rule resolve_open_cases[OF inv, of now token user])
  fix x q assume r: "resolve_request H now token user False s = (Inr (x, q), s)"
    and x: "resolved H now token user s x q" and q: "req_status q = ReqOpen"
  show ?thesis
  proof (cases "sgn_status x = SgnPending")
    case True
    then have "good H s (s\<lparr>wf_signers := dict_set (sgn_id x) (x\<lparr>sgn_status := SgnViewed\<rparr>) (wf_signers s)\<rparr>)"
      using good_signer[OF inv resolvedD(3)[OF x], of "x\<lparr>sgn_status := SgnViewed\<rparr>"]
        lc_step.view[of "wf_abs s" "req_id q" "sgn_id x"] resolved_abs[OF x] resolvedD(4)[OF x] q
      by (simp add: same_signer_def)
    then show ?thesis
      using True r good_audit request_below[OF inv resolvedD(2)[OF x]]
      by (simp add: view_request_def Let_def)
  qed (simp add: view_request_def r good_refl[OF inv])
qed (simp add: view_request_def)

lemma decline_good:
  assumes inv: "wf_inv H s"
  shows "good H s (snd (decline H now token user s))"
proof (rule resolve_open_cases[OF inv, of now token user])
  fix x q assume r: "resolve_request H now token user False s = (Inr (x, q), s)"
    and x: "resolved H now token user s x q" and q: "req_status q = ReqOpen"
  show ?thesis
  proof (cases "sgn_status x \<in> {SgnSigned, SgnDeclined}")
    case False
    then have "good H s (s\<lparr>wf_signers := dict_set (sgn_id x) (x\<lparr>sgn_status := SgnDeclined\<rparr>) (wf_signers s)\<rparr>)"
      using good_signer[OF inv resolvedD(3)[OF x], of "x\<lparr>sgn_status := SgnDeclined\<rparr>"]
        lc_step.decline[of "wf_abs s" "req_id q" "sgn_id x" "sgn_status x"] resolved_abs[OF x] resolvedD(4)[OF x] q
      by (simp add: same_signer_def)
    then show ?thesis
      using False r good_audit request_below[OF inv resolvedD(2)[OF x]]
      by (simp add: decline_def Let_def)
  qed (simp add: decline_def r good_refl[OF inv])
qed (simp add: decline_def)

text \<open>The completion test of \<open>sign\<close> is the abstract condition that all others have signed.\<close>

lemma all_signed_iff_others:
  assumes inv: "wf_inv H s" and sids: "map_of (wf_request_signers s) r = Some sids"
    and st: "sgn_status x' = SgnSigned"
  shows "all_index (dict_set g x' (wf_signers s)) (\<lambda>x. sgn_status x = SgnSigned) sids = Inr True \<longleftrightarrow>
    others_signed (wf_abs s) r g"
proof -
  have "all_index (dict_set g x' (wf_signers s)) (\<lambda>x. sgn_status x = SgnSigned) sids = Inr True \<longleftrightarrow>
      (\<forall>h. signer_req s h = Some r \<longrightarrow> h \<noteq> g \<longrightarrow> (\<exists>y. map_of (wf_signers s) h = Some y \<and> sgn_status y = SgnSigned))"
    using st by (auto simp: all_index_Inr_True request_signersD(2)[OF inv sids])
  also have "\<dots> \<longleftrightarrow> others_signed (wf_abs s) r g"
    by (fastforce simp: others_signed_def wf_abs_def signer_req_def)
  finally show ?thesis .
qed

lemma all_signed_total:
  assumes inv: "wf_inv H s" and sids: "map_of (wf_request_signers s) r = Some sids"
  shows "all_index (dict_set g x' (wf_signers s)) p sids \<noteq> Inl e"
  by (rule all_index_total) (auto simp: request_signersD(2)[OF inv sids] signer_req_def)

text \<open>The state \<open>sign\<close> leaves when every check passes.\<close>

definition signed_state ::
  "datetime \<Rightarrow> string \<Rightarrow> stamp_position \<Rightarrow> signer_read \<Rightarrow> signature_request_read \<Rightarrow> workflow \<Rightarrow> workflow"
where
  "signed_state now user stamp x q s =
     audit_record now (req_id q) user ''signature.completed'' ''signer'' (sgn_id x)
       [(''document_sha256'', JStr (req_document_sha256 q)),
        (''document_version'', JInt (req_document_version q)), (''stamp'', JObj (stamp_dump stamp))]
       (s\<lparr>wf_signatures := insert (req_id q, sgn_id x) (wf_signatures s),
          wf_signature_evidence := dict_set (req_id q, sgn_id x) stamp (wf_signature_evidence s),
          wf_signers := dict_set (sgn_id x) (x\<lparr>sgn_status := SgnSigned, sgn_signed_at := Some now\<rparr>)
            (wf_signers s)\<rparr>)"

definition completed_state :: "datetime \<Rightarrow> string \<Rightarrow> signature_request_read \<Rightarrow> workflow \<Rightarrow> workflow" where
  "completed_state now user q s =
     audit_record now (req_id q) user ''signature_request.completed'' ''signature_request'' (req_id q) []
       (s\<lparr>wf_requests := dict_set (req_id q)
            (q\<lparr>req_status := ReqCompleted, req_completed_at := Some now\<rparr>) (wf_requests s)\<rparr>)"

lemma signed_state_abs:
  "wf_abs (signed_state now user stamp x q s) =
   (wf_abs s)\<lparr>lc_signer := (lc_signer (wf_abs s))(sgn_id x \<mapsto> (sgn_signature_request_id x, SgnSigned))\<rparr>"
  by (auto simp: signed_state_def wf_abs_def)

lemma completed_state_abs:
  "wf_abs (completed_state now user q s) =
   (wf_abs s)\<lparr>lc_request := (lc_request (wf_abs s))(req_id q \<mapsto> ReqCompleted)\<rparr>"
  by (auto simp: completed_state_def wf_abs_def)

lemma signed_state_audit [simp]: "audit_le (wf_audit s) (wf_audit (signed_state now user stamp x q s))"
  unfolding signed_state_def by (rule audit_le_record) simp

lemma completed_state_audit:
  "audit_le a (wf_audit s) \<Longrightarrow> audit_le a (wf_audit (completed_state now user q s))"
  unfolding completed_state_def by (rule audit_le_record) simp

lemma signed_state_inv:
  assumes inv: "wf_inv H s" and x: "resolved H now token user s x q"
  shows "wf_inv H (signed_state now user stamp x q s)"
  unfolding signed_state_def
  by (rule audit_inv, rule set_signed_inv[OF inv resolvedD(3)[OF x]])
    (use resolvedD[OF x] request_below[OF inv] in \<open>auto simp: same_signer_def\<close>)

lemma completed_state_inv:
  assumes inv: "wf_inv H s" and q: "map_of (wf_requests s) (req_id q) = Some q" and st: "req_status q = ReqOpen"
  shows "wf_inv H (completed_state now user q s)"
  unfolding completed_state_def
  by (rule audit_inv, rule set_request_inv[OF inv q])
    (use wf_invD(11)[OF inv] q st request_below[OF inv] in \<open>auto simp: same_request_def frozen_ok_def\<close>)

section \<open>Content and signatures\<close>

lemma find_version:
  assumes "\<forall>i<length vs. ver_version (sv_read (vs ! i)) = int i + 1" "v \<in> set vs"
  shows "List.find (\<lambda>i. ver_version (sv_read i) = ver_version (sv_read v)) vs = Some v"
proof -
  obtain i where i: "i < length vs" "vs ! i = v" using assms(2) by (auto simp: in_set_conv_nth)
  have "\<forall>j<i. ver_version (sv_read (vs ! j)) \<noteq> ver_version (sv_read v)"
    using assms(1) i by fastforce
  then show ?thesis using i by (auto simp: find_Some_iff)
qed

text \<open>A stored version of a document that exists always reads back, with its digest.\<close>

lemma get_content_stored:
  assumes inv: "wf_inv H s" and d: "map_of (wf_documents s) d = Some x"
    and vs: "map_of (wf_versions s) d = Some vs" and v: "v \<in> set vs"
  shows "\<exists>c. get_content H d (Some (ver_version (sv_read v))) s = Inr (sv_read v, c) \<and>
    H c = ver_sha256 (sv_read v) \<and> ver_size_bytes (sv_read v) = length c"
proof -
  have nums: "\<forall>i<length vs. ver_version (sv_read (vs ! i)) = int i + 1"
    and "version_stored H (wf_storage s) d v"
    using wf_invD(8)[OF inv] vs v by (auto simp: versions_ok_def)
  then obtain c where c: "local_get (sv_storage_key v) (wf_storage s) = Inr c"
    "H c = ver_sha256 (sv_read v)" "ver_size_bytes (sv_read v) = length c"
    by (auto simp: version_stored_def)
  have "ver_version (sv_read v) \<noteq> 0" using nums v by (force simp: in_set_conv_nth)
  then show ?thesis using d vs c find_version[OF nums v]
    by (simp add: get_content_def document_of_def Let_def)
qed

lemma snapshot_content:
  assumes inv: "wf_inv H s" and q: "map_of (wf_requests s) r = Some q"
    and d: "map_of (wf_documents s) (req_document_id q) = Some x"
  obtains v c where "get_content H (req_document_id q) (Some (req_document_version q)) s = Inr (v, c)"
    "H c = req_document_sha256 q" "ver_version v = req_document_version q"
    "ver_sha256 v = req_document_sha256 q"
proof -
  obtain vs v where v: "map_of (wf_versions s) (req_document_id q) = Some vs" "v \<in> set vs"
    "ver_version (sv_read v) = req_document_version q" "ver_sha256 (sv_read v) = req_document_sha256 q"
    using wf_invD(10)[OF inv] q by (fastforce simp: snapshots_ok_def)
  then show ?thesis using get_content_stored[OF inv d v(1,2)] that v by metis
qed

lemma active_document:
  assumes "wf_inv H s" "map_of (wf_requests s) r = Some q" "req_status q = ReqDraft \<or> req_status q = ReqOpen"
  obtains d where "map_of (wf_documents s) (req_document_id q) = Some d"
  using wf_invD(11)[OF assms(1)] assms(2,3) unfolding frozen_ok_def by blast

lemma signature_iff:
  assumes "wf_inv H s" "resolved H now token user s x q"
  shows "(req_id q, sgn_id x) \<in> wf_signatures s \<longleftrightarrow> sgn_status x = SgnSigned"
  using wf_invD(7)[OF assms(1)] resolvedD[OF assms(2)] by (auto simp: signatures_ok_def signed_pair_def)

lemma sign_resolved:
  assumes inv: "wf_inv H s" and r: "resolve_request H now token user False s = (Inr (x, q), s)"
    and x: "resolved H now token user s x q" and q: "req_status q = ReqOpen"
    and ns: "sgn_status x \<noteq> SgnSigned"
  shows "sign H now token user True stamp s =
    (Inr (x\<lparr>sgn_status := SgnSigned, sgn_signed_at := Some now\<rparr>),
     if others_signed (wf_abs s) (req_id q) (sgn_id x)
     then completed_state now user q (signed_state now user stamp x q s)
     else signed_state now user stamp x q s)"
proof -
  note rq = resolvedD(2)[OF x]
  obtain d where d: "map_of (wf_documents s) (req_document_id q) = Some d"
    using active_document[OF inv rq] q by blast
  obtain v c where c: "get_content H (req_document_id q) (Some (req_document_version q)) s = Inr (v, c)"
    "H c = req_document_sha256 q"
    using snapshot_content[OF inv rq d] by metis
  obtain sids where sids: "map_of (wf_request_signers s) (req_id q) = Some sids"
    using request_signers_Some[OF inv rq] by blast
  let ?x' = "x\<lparr>sgn_status := SgnSigned, sgn_signed_at := Some now\<rparr>"
  let ?all = "all_index (dict_set (sgn_id x) ?x' (wf_signers s)) (\<lambda>g. sgn_status g = SgnSigned) sids"
  have all: "?all = Inr True \<longleftrightarrow> others_signed (wf_abs s) (req_id q) (sgn_id x)"
    using all_signed_iff_others[OF inv sids, of ?x'] by simp
  have "?all = Inr (others_signed (wf_abs s) (req_id q) (sgn_id x))"
    using all all_signed_total[OF inv sids] by (cases ?all) auto
  then show ?thesis
    using r d c document_id[OF inv d] sids signature_iff[OF inv x] ns
    by (simp add: sign_def document_of_def Let_def signed_state_def completed_state_def)
qed

lemma sign_good:
  assumes inv: "wf_inv H s"
  shows "good H s (snd (sign H now token user consent stamp s))"
proof (cases consent)
  case True
  show ?thesis
  proof (rule resolve_open_cases[OF inv, of now token user])
    fix x q assume r: "resolve_request H now token user False s = (Inr (x, q), s)"
      and x: "resolved H now token user s x q" and q: "req_status q = ReqOpen"
    note out = sign_resolved[OF inv r x q] and abs = resolved_abs[OF x]
    note x_inv = signed_state_inv[OF inv x, of stamp]
    have done_inv: "wf_inv H (completed_state now user q (signed_state now user stamp x q s))"
      by (rule completed_state_inv[OF x_inv]) (use resolvedD(2)[OF x] q in \<open>simp_all add: signed_state_def\<close>)
    show ?thesis
    proof (cases "sgn_status x = SgnSigned")
      case False
      then show ?thesis
        using True out x_inv done_inv abs q resolvedD(4)[OF x]
          lc_step.sign[of "wf_abs s" "req_id q" "sgn_id x" "sgn_status x"]
          lc_step.sign_last[of "wf_abs s" "req_id q" "sgn_id x" "sgn_status x"]
        by (auto simp: good_def signed_state_abs completed_state_abs completed_state_audit)
    qed (use True r inv in \<open>simp add: sign_def good_refl\<close>)
  qed (use True in \<open>simp add: sign_def\<close>)
qed (simp add: sign_def good_refl[OF inv])

lemma signing_context_state:
  "snd (signing_context H now token user s) = snd (resolve_request H now token user True s)"
  by (auto simp: signing_context_def split: prod.splits sum.splits)

lemma signing_document_state:
  "snd (signing_document H now token user s) = snd (resolve_request H now token user True s)"
  by (auto simp: signing_document_def split: prod.splits sum.splits)

section \<open>Requests\<close>

lemma revoke_good:
  assumes inv: "wf_inv H s"
  shows "good H s (snd (revoke_signer_link now r g actor s))"
proof (cases "\<exists>q x. map_of (wf_requests s) r = Some q \<and> map_of (wf_signers s) g = Some x \<and>
    sgn_signature_request_id x = req_id q \<and> sgn_status x \<noteq> SgnSigned \<and> sgn_link_revoked_at x = None")
  case True
  then obtain q x where q: "map_of (wf_requests s) r = Some q" and x: "map_of (wf_signers s) g = Some x"
    and rest: "sgn_signature_request_id x = req_id q" "sgn_status x \<noteq> SgnSigned" "sgn_link_revoked_at x = None"
    by blast
  have "good H s (s\<lparr>wf_signers := dict_set g (x\<lparr>sgn_link_revoked_at := Some now\<rparr>) (wf_signers s)\<rparr>)"
    using good_signer[OF inv x, of "x\<lparr>sgn_link_revoked_at := Some now\<rparr>"] by (simp add: same_signer_def)
  then show ?thesis
    using q x rest signer_id[OF inv x] request_id[OF inv q] request_below[OF inv q] good_audit
    by (simp add: revoke_signer_link_def request_of_def Let_def)
next
  case False
  then have "snd (revoke_signer_link now r g actor s) = s"
    by (auto simp: revoke_signer_link_def request_of_def split: option.splits)
  then show ?thesis using good_refl[OF inv] by simp
qed

lemma cancel_step:
  assumes inv: "wf_inv H s" and q: "map_of (wf_requests s) r = Some q" "req_status q \<in> {ReqDraft, ReqOpen}"
  shows "good H s (s\<lparr>wf_requests := dict_set r (q\<lparr>req_status := ReqCancelled\<rparr>) (wf_requests s)\<rparr>)"
proof (rule good_request)
  show "wf_inv H (s\<lparr>wf_requests := dict_set r (q\<lparr>req_status := ReqCancelled\<rparr>) (wf_requests s)\<rparr>)"
    by (rule set_request_inv[OF inv q(1)]) (simp_all add: same_request_def)
  show "lc_step (wf_abs s) ((wf_abs s)\<lparr>lc_request := (lc_request (wf_abs s))
      (r \<mapsto> req_status (q\<lparr>req_status := ReqCancelled\<rparr>))\<rparr>)"
    using lc_step.cancel[of "wf_abs s" r] wf_abs_sel(1)[OF q(1)] q(2) by auto
qed

lemma cancel_good:
  assumes inv: "wf_inv H s"
  shows "good H s (snd (cancel_request now r actor s))"
proof (cases "\<exists>q. map_of (wf_requests s) r = Some q \<and> req_status q \<in> {ReqDraft, ReqOpen}")
  case True
  then obtain q where q: "map_of (wf_requests s) r = Some q" "req_status q \<in> {ReqDraft, ReqOpen}" by blast
  then show ?thesis
    using good_audit[OF cancel_step[OF inv q]] request_below[OF inv q(1)]
    by (simp add: cancel_request_def request_of_def Let_def)
next
  case False
  then have "snd (cancel_request now r actor s) = s"
    by (auto simp: cancel_request_def request_of_def split: option.splits)
  then show ?thesis using good_refl[OF inv] by simp
qed

lemma open_good:
  assumes inv: "wf_inv H s"
  shows "good H s (snd (open_request now r actor mode s))"
proof (cases "\<exists>q sids d. map_of (wf_requests s) r = Some q \<and> req_status q = ReqDraft \<and>
    map_of (wf_request_signers s) r = Some sids \<and> sids \<noteq> [] \<and>
    map_of (wf_documents s) (req_document_id q) = Some d \<and>
    doc_version d = req_document_version q \<and> doc_sha256 d = req_document_sha256 q")
  case True
  then obtain q sids d where q: "map_of (wf_requests s) r = Some q" "req_status q = ReqDraft"
    and sids: "map_of (wf_request_signers s) r = Some sids" "sids \<noteq> []"
    and d: "map_of (wf_documents s) (req_document_id q) = Some d"
      "doc_version d = req_document_version q" "doc_sha256 d = req_document_sha256 q" by blast
  let ?q' = "q\<lparr>req_status := ReqOpen, req_signature_mode := mode\<rparr>"
  have "signer_req s (hd sids) = Some r" using request_signersD(2)[OF inv sids(1), of "hd sids"] sids(2) by simp
  then obtain st where "lc_signer (wf_abs s) (hd sids) = Some (r, st)"
    by (auto simp: signer_req_def wf_abs_def)
  then have "good H s (s\<lparr>wf_requests := dict_set r ?q' (wf_requests s)\<rparr>)"
    using set_request_inv[OF inv q(1), of ?q'] q d lc_step.open_it[of "wf_abs s" r "hd sids" st]
      wf_abs_sel(1)[OF q(1)]
    by (intro good_request) (simp_all add: same_request_def)
  then show ?thesis
    using q sids d good_audit request_below[OF inv q(1)]
    by (simp add: open_request_def request_of_def document_of_def Let_def)
next
  case False
  then have "snd (open_request now r actor mode s) = s"
    by (auto simp: open_request_def request_of_def document_of_def split: option.splits)
  then show ?thesis using good_refl[OF inv] by simp
qed

lemma set_token_inv:
  assumes inv: "wf_inv H s" and q: "map_of (wf_requests s) r = Some q" "req_status q \<noteq> ReqDraft"
  shows "wf_inv H (s\<lparr>wf_request_token_index := dict_set k r (wf_request_token_index s)\<rparr>)" (is "wf_inv H ?t")
proof -
  have "links_ok ?t = links_ok s" "emails_ok ?t = emails_ok s" "signatures_ok ?t = signatures_ok s"
    by (rule links_ok_cong; simp add: views) (simp_all add: emails_ok_def signatures_ok_def views)
  moreover have "tokens_ok ?t" using wf_invD(6)[OF inv] q by (simp add: tokens_ok_def)
  ultimately show ?thesis using wf_invD[OF inv]
    by (simp add: wf_inv_def ids_ok_def fresh_ok_def objects_ok_def versions_ok_def documents_ok_def
        snapshots_ok_def frozen_ok_def)
qed

lemma signing_link_good:
  assumes inv: "wf_inv H s"
  shows "good H s (snd (create_signing_link H app now token r actor s))"
proof (cases "\<exists>q. map_of (wf_requests s) r = Some q \<and> req_status q = ReqOpen")
  case True
  then obtain q where q: "map_of (wf_requests s) r = Some q" "req_status q = ReqOpen" by blast
  then have "good H s (s\<lparr>wf_request_token_index := dict_set (H token) r (wf_request_token_index s)\<rparr>)"
    using set_token_inv[OF inv q(1)] by (simp add: good_def wf_abs_def)
  then show ?thesis
    using q good_audit request_below[OF inv q(1)] request_id[OF inv q(1)]
    by (simp add: create_signing_link_def request_of_def)
next
  case False
  then have "snd (create_signing_link H app now token r actor s) = s"
    by (auto simp: create_signing_link_def request_of_def split: option.splits)
  then show ?thesis using good_refl[OF inv] by simp
qed

section \<open>Deleting a document\<close>

lemma cancel_for_deletion_good:
  assumes inv: "wf_inv H s" and q: "map_of (wf_requests s) (req_id q) = Some q" "req_status q \<in> {ReqDraft, ReqOpen}"
  shows "good H s (cancel_for_deletion now actor q s)"
  unfolding cancel_for_deletion_def
  by (rule good_audit[OF cancel_step[OF inv q]]) (use request_below[OF inv q(1)] in simp)

lemma cancel_for_deletion_frame:
  "wf_documents (cancel_for_deletion now actor q s) = wf_documents s"
  "map_of (wf_requests (cancel_for_deletion now actor q s)) r =
   (if r = req_id q then Some (q\<lparr>req_status := ReqCancelled\<rparr>) else map_of (wf_requests s) r)"
  by (simp_all add: cancel_for_deletion_def)

lemma cancel_all:
  assumes "wf_inv H s" "distinct (map req_id qs)"
    and "\<And>q. q \<in> set qs \<Longrightarrow> map_of (wf_requests s) (req_id q) = Some q \<and> req_status q \<in> {ReqDraft, ReqOpen}"
  shows "good H s (fold (cancel_for_deletion now actor) qs s) \<and>
    wf_documents (fold (cancel_for_deletion now actor) qs s) = wf_documents s \<and>
    (\<forall>r. map_of (wf_requests (fold (cancel_for_deletion now actor) qs s)) r =
      (if r \<in> req_id ` set qs then map_option (\<lambda>q. q\<lparr>req_status := ReqCancelled\<rparr>) (map_of (wf_requests s) r)
       else map_of (wf_requests s) r))"
  using assms
proof (induction qs arbitrary: s)
  case (Cons q qs)
  let ?t = "cancel_for_deletion now actor q s"
  have q: "map_of (wf_requests s) (req_id q) = Some q" "req_status q \<in> {ReqDraft, ReqOpen}"
    using Cons.prems(3)[of q] by auto
  have g: "good H s ?t" using cancel_for_deletion_good[OF Cons.prems(1) q] .
  have nin: "req_id q \<notin> req_id ` set qs" using Cons.prems(2) by simp
  have "map_of (wf_requests ?t) (req_id p) = Some p \<and> req_status p \<in> {ReqDraft, ReqOpen}"
    if "p \<in> set qs" for p
  proof -
    have "req_id p \<noteq> req_id q" using nin that by (metis image_eqI)
    then show ?thesis using Cons.prems(3)[of p] that by (simp add: cancel_for_deletion_frame)
  qed
  then have IH: "good H ?t (fold (cancel_for_deletion now actor) qs ?t)"
    "wf_documents (fold (cancel_for_deletion now actor) qs ?t) = wf_documents ?t"
    "\<forall>r. map_of (wf_requests (fold (cancel_for_deletion now actor) qs ?t)) r =
      (if r \<in> req_id ` set qs then map_option (\<lambda>q. q\<lparr>req_status := ReqCancelled\<rparr>) (map_of (wf_requests ?t) r)
       else map_of (wf_requests ?t) r)"
    using Cons.IH[of ?t] g Cons.prems(2) by (auto simp: good_def)
  then show ?case using g q nin by (auto simp: cancel_for_deletion_frame intro: good_trans)
qed (simp add: good_refl)

lemma active_requests:
  assumes inv: "wf_inv H s" and qs: "qs = filter (active_for d) (dict_values (wf_requests s))"
  shows "distinct (map req_id qs)"
    and "q \<in> set qs \<longleftrightarrow> map_of (wf_requests s) (req_id q) = Some q \<and> active_for d q"
proof -
  have dist: "distinct (map fst (wf_requests s))" using wf_invD(1)[OF inv] by (simp add: ids_ok_def)
  have mem: "p \<in> set (dict_values (wf_requests s)) \<longleftrightarrow> map_of (wf_requests s) (req_id p) = Some p" for p
    using dict_values_iff[OF dist, of p] request_id[OF inv] by metis
  have "map req_id (dict_values (wf_requests s)) = map fst (wf_requests s)"
    using dist request_id[OF inv] by (auto simp: dict_values_def intro!: map_of_is_SomeI)
  then show "distinct (map req_id qs)" unfolding qs
    using dist by (metis distinct_map_filter)
  show "q \<in> set qs \<longleftrightarrow> map_of (wf_requests s) (req_id q) = Some q \<and> active_for d q"
    unfolding qs using mem by auto
qed

lemma del_document_inv:
  assumes inv: "wf_inv H s" and none: "\<And>r q. map_of (wf_requests s) r = Some q \<Longrightarrow> \<not> active_for d q"
  shows "wf_inv H (s\<lparr>wf_documents := dict_del d (wf_documents s)\<rparr>)" (is "wf_inv H ?t")
proof -
  have "links_ok ?t = links_ok s" "emails_ok ?t = emails_ok s" "signatures_ok ?t = signatures_ok s"
    by (rule links_ok_cong; simp add: views) (simp_all add: emails_ok_def signatures_ok_def views)
  moreover have "frozen_ok ?t"
    using wf_invD(11)[OF inv] none by (auto simp: frozen_ok_def active_for_def)
  ultimately show ?thesis using wf_invD[OF inv]
    by (simp add: wf_inv_def ids_ok_def fresh_ok_def objects_ok_def versions_ok_def documents_ok_def
        snapshots_ok_def tokens_ok_def)
qed

lemma delete_good:
  assumes inv: "wf_inv H s"
  shows "good H s (snd (delete_document now d actor force s))"
proof (cases "\<exists>x. map_of (wf_documents s) d = Some x")
  case True
  then obtain x where d: "map_of (wf_documents s) d = Some x" by blast
  define qs where "qs = filter (active_for d) (dict_values (wf_requests s))"
  define t where "t = fold (cancel_for_deletion now actor) qs s"
  note act = active_requests[OF inv qs_def]
  have t: "good H s t" "wf_documents t = wf_documents s"
    "\<forall>r. map_of (wf_requests t) r =
      (if r \<in> req_id ` set qs then map_option (\<lambda>q. q\<lparr>req_status := ReqCancelled\<rparr>) (map_of (wf_requests s) r)
       else map_of (wf_requests s) r)"
    using cancel_all[OF inv act(1)] act(2) by (auto simp: t_def active_for_def)
  have "\<not> active_for d q" if q: "map_of (wf_requests t) r = Some q" for r q
  proof (cases "r \<in> req_id ` set qs")
    case False
    then have "map_of (wf_requests s) r = Some q" using q t(3) by simp
    then show ?thesis using False act(2)[of q] request_id[OF inv] by (metis image_eqI)
  qed (use q t(3) in \<open>auto simp: active_for_def\<close>)
  then have "wf_inv H (t\<lparr>wf_documents := dict_del d (wf_documents t)\<rparr>)"
    using del_document_inv[of H t d] t(1) by (simp add: good_def)
  then have "good H s (t\<lparr>wf_documents := dict_del d (wf_documents t)\<rparr>)"
    using t(1) by (simp add: good_def wf_abs_def)
  moreover have "d < wf_next t" using document_below[of H t d] d t by (simp add: good_def)
  ultimately have "good H s (audit_record now d actor ''document.deleted'' ''document'' d m
      (t\<lparr>wf_documents := dict_del d (wf_documents t)\<rparr>))" for m
    by (simp add: good_audit)
  then show ?thesis using d good_refl[OF inv]
    unfolding delete_document_def by (simp add: document_of_def Let_def flip: qs_def t_def)
qed (simp add: delete_document_def document_of_def good_refl[OF inv])

section \<open>Creating documents, versions, requests and signers\<close>

text \<open>Drawing identifiers and writing a new object leave everything else as it is.\<close>

lemma grow_inv:
  assumes inv: "wf_inv H s" and put: "local_put u None content (wf_storage s) = (res, objects)"
    and u: "u < n" "wf_next s \<le> n"
  shows "wf_inv H (s\<lparr>wf_storage := objects, wf_next := n\<rparr>)" (is "wf_inv H ?t")
proof -
  have "links_ok ?t = links_ok s" "emails_ok ?t = emails_ok s" "signatures_ok ?t = signatures_ok s"
    by (rule links_ok_cong; simp add: views) (simp_all add: emails_ok_def signatures_ok_def views)
  moreover have "fresh_ok ?t" using wf_invD(2)[OF inv] u(2) by (simp add: fresh_ok_def)
  moreover have "objects_ok ?t"
  proof -
    have "map_of objects key \<noteq> None \<Longrightarrow> key = uuid_hex u \<or> map_of (wf_storage s) key \<noteq> None" for key
      using put by (auto simp: local_put_def Let_def split: if_splits prod.splits)
    then show ?thesis
      using wf_invD(3)[OF inv] u unfolding objects_ok_def by simp (meson order.strict_trans2)
  qed
  moreover have "versions_ok H ?t"
    using wf_invD(8)[OF inv] local_store.put_keeps[OF put]
    by (fastforce simp: versions_ok_def version_stored_def)
  ultimately show ?thesis using wf_invD[OF inv]
    by (simp add: wf_inv_def ids_ok_def documents_ok_def snapshots_ok_def frozen_ok_def tokens_ok_def)
qed

lemma new_document_inv:
  assumes inv: "wf_inv H s" and d: "d < wf_next s" "map_of (wf_versions s) d = None"
    "map_of (wf_documents s) d = None"
    and x: "doc_id x = d" "doc_version x = 1" "doc_sha256 x = ver_sha256 (sv_read v)"
    and v: "ver_version (sv_read v) = 1" "version_stored H (wf_storage s) d v"
  shows "wf_inv H (s\<lparr>wf_documents := dict_set d x (wf_documents s),
    wf_versions := dict_set d [v] (wf_versions s)\<rparr>)" (is "wf_inv H ?t")
proof -
  have views: "links_ok ?t = links_ok s" "emails_ok ?t = emails_ok s" "signatures_ok ?t = signatures_ok s"
    by (rule links_ok_cong; simp add: views) (simp_all add: emails_ok_def signatures_ok_def views)
  have other: "req_document_id q \<noteq> d" if "map_of (wf_requests s) r = Some q" for r q
    using wf_invD(10)[OF inv] that d(2) by (force simp: snapshots_ok_def)
  have "versions_ok H ?t" using wf_invD(8)[OF inv] v by (simp add: versions_ok_def)
  moreover have "documents_ok ?t" using wf_invD(9)[OF inv] x d by (auto simp: documents_ok_def)
  moreover have "snapshots_ok ?t"
    using wf_invD(10)[OF inv] other unfolding snapshots_ok_def by simp
  moreover have "frozen_ok ?t"
    using wf_invD(11)[OF inv] other unfolding frozen_ok_def by simp
  moreover have "ids_ok ?t" using wf_invD(1)[OF inv] x(1) by (simp add: ids_ok_def)
  moreover have "fresh_ok ?t" using wf_invD(2)[OF inv] d(1) by (simp add: fresh_ok_def)
  ultimately show ?thesis using wf_invD[OF inv]
    by (simp add: wf_inv_def views objects_ok_def tokens_ok_def)
qed

lemma put_stored:
  assumes "local_put u None content objs = (Inr (key, n), objects)"
  shows "local_get key objects = Inr content" "n = length content"
  using local_store.put_reads_back[OF assms] by auto

lemma create_document_good:
  assumes inv: "wf_inv H s"
  shows "good H s (snd (create_document H now payload content s))"
proof (cases "content = []")
  case False
  let ?n = "wf_next s"
  obtain res objects where put: "local_put (Suc ?n) None content (wf_storage s) = (res, objects)"
    by fastforce
  have grown: "wf_inv H (s\<lparr>wf_storage := objects, wf_next := Suc (Suc ?n)\<rparr>)"
    using grow_inv[OF inv put] by simp
  have fresh: "map_of (wf_documents s) ?n = None" "map_of (wf_versions s) ?n = None"
    using wf_invD(2)[OF inv] by (simp_all add: fresh_ok_def)
  show ?thesis
  proof (cases res)
    case (Inl e)
    then show ?thesis using False put grown by (simp add: create_document_def Let_def good_def wf_abs_def)
  next
    case (Inr kn)
    obtain key n where kn: "kn = (key, n)" by fastforce
    note stored = put_stored[OF put[unfolded Inr kn]]
    show ?thesis
      using False put Inr kn
      apply (simp add: create_document_def Let_def)
      apply (rule good_audit)
       apply (simp add: good_def)
       apply (intro conjI)
        apply (rule new_document_inv[OF grown, simplified])
      using stored fresh apply (simp_all add: version_stored_def wf_abs_def)
      done
  qed
qed (simp add: create_document_def good_refl[OF inv])

lemma new_version_inv:
  assumes inv: "wf_inv H s" and d: "map_of (wf_documents s) d = Some x" "map_of (wf_versions s) d = Some vs"
    and x': "doc_id x' = d" "doc_version x' = doc_version x + 1" "doc_sha256 x' = ver_sha256 (sv_read v)"
    and v: "ver_version (sv_read v) = doc_version x + 1" "version_stored H (wf_storage s) d v"
    and nf: "\<And>r q. map_of (wf_requests s) r = Some q \<Longrightarrow> \<not> frozen_by d q"
  shows "wf_inv H (s\<lparr>wf_versions := dict_set d (vs @ [v]) (wf_versions s),
    wf_documents := dict_set d x' (wf_documents s)\<rparr>)" (is "wf_inv H ?t")
proof -
  have views: "links_ok ?t = links_ok s" "emails_ok ?t = emails_ok s" "signatures_ok ?t = signatures_ok s"
    by (rule links_ok_cong; simp add: views) (simp_all add: emails_ok_def signatures_ok_def views)
  have num: "doc_version x = int (length vs)"
    using wf_invD(9)[OF inv] d unfolding documents_ok_def by fastforce
  have "versions_ok H ?t"
    using wf_invD(8)[OF inv] v num d(2) by (auto simp: versions_ok_def nth_append)
  moreover have "documents_ok ?t" using wf_invD(9)[OF inv] x' num by (simp add: documents_ok_def)
  moreover have "snapshots_ok ?t"
    using wf_invD(10)[OF inv] d(2) unfolding snapshots_ok_def by fastforce
  moreover have "frozen_ok ?t"
    using wf_invD(11)[OF inv] nf d(1) unfolding frozen_ok_def frozen_by_def by auto
  moreover have "ids_ok ?t" using wf_invD(1)[OF inv] x'(1) by (simp add: ids_ok_def)
  moreover have "fresh_ok ?t"
    using wf_invD(2)[OF inv] document_below[OF inv d(1)] by (simp add: fresh_ok_def)
  ultimately show ?thesis using wf_invD[OF inv]
    by (simp add: wf_inv_def views objects_ok_def tokens_ok_def)
qed

lemma add_version_good:
  assumes inv: "wf_inv H s"
  shows "good H s (snd (add_version H now d filename ctype actor content s))"
proof (cases "content \<noteq> [] \<and> (\<exists>x. map_of (wf_documents s) d = Some x) \<and>
    \<not> list_ex (frozen_by d) (dict_values (wf_requests s))")
  case True
  then obtain x where x: "map_of (wf_documents s) d = Some x" by blast
  then obtain vs where vs: "map_of (wf_versions s) d = Some vs"
    using wf_invD(9)[OF inv] by (auto simp: documents_ok_def)
  have nf: "map_of (wf_requests s) r = Some q \<Longrightarrow> \<not> frozen_by d q" for r q
    using True dict_get_in_values[of "wf_requests s" r q] by (auto simp: list_ex_iff)
  obtain res objects where put: "local_put (wf_next s) None content (wf_storage s) = (res, objects)"
    by fastforce
  have grown: "wf_inv H (s\<lparr>wf_storage := objects, wf_next := Suc (wf_next s)\<rparr>)"
    using grow_inv[OF inv put] by simp
  show ?thesis
  proof (cases res)
    case (Inl e)
    then show ?thesis using True x put grown
      by (simp add: add_version_def document_of_def Let_def good_def wf_abs_def)
  next
    case (Inr kn)
    obtain key n where kn: "kn = (key, n)" by fastforce
    note stored = put_stored[OF put[unfolded Inr kn]]
    show ?thesis
      using True x vs put Inr kn
      apply (simp add: add_version_def document_of_def Let_def)
      apply (rule good_audit)
       apply (simp add: good_def)
       apply (intro conjI)
        apply (rule new_version_inv[OF grown, simplified, OF x vs])
      using stored nf document_id[OF inv x] document_below[OF inv x]
             apply (simp_all add: version_stored_def wf_abs_def)
      done
  qed
next
  case False
  then have "snd (add_version H now d filename ctype actor content s) = s"
    by (auto simp: add_version_def document_of_def split: option.splits)
  then show ?thesis using good_refl[OF inv] by simp
qed

lemma new_request_inv:
  assumes inv: "wf_inv H s" and r: "r = wf_next s" and d: "map_of (wf_documents s) (req_document_id q) = Some x"
    and q: "req_id q = r" "req_status q = ReqDraft" "req_document_version q = doc_version x"
      "req_document_sha256 q = doc_sha256 x"
  shows "wf_inv H (s\<lparr>wf_next := Suc r, wf_requests := dict_set r q (wf_requests s),
    wf_request_signers := dict_set r [] (wf_request_signers s), wf_audit := dict_set r [] (wf_audit s)\<rparr>)"
    (is "wf_inv H ?t")
proof -
  have fr: "\<And>k. k \<ge> r \<Longrightarrow> map_of (wf_requests s) k = None \<and> map_of (wf_request_signers s) k = None"
    using wf_invD(2)[OF inv] by (simp add: fresh_ok_def r)
  have views: "has_request ?t k \<longleftrightarrow> k = r \<or> has_request s k" "signer_req ?t = signer_req s"
    "signer_key ?t = signer_key s" "signed_pair ?t = signed_pair s" for k
    by (auto simp: has_request_def intro: view_cong)
  obtain vs where vs: "map_of (wf_versions s) (req_document_id q) = Some vs" "vs \<noteq> []"
      "doc_version x = int (length vs)" "doc_sha256 x = ver_sha256 (sv_read (last vs))"
    using wf_invD(9)[OF inv] d by (fastforce simp: documents_ok_def)
  have last: "ver_version (sv_read (last vs)) = int (length vs)"
    using wf_invD(8)[OF inv] vs(1,2) spec[of _ "length vs - 1"]
    by (cases vs rule: rev_cases) (fastforce simp: versions_ok_def)+
  have "links_ok ?t"
  proof -
    have L: "links_ok s" "\<not> has_request s r" using wf_invD(4)[OF inv] fr by (auto simp: has_request_def)
    then have no: "signer_req s g \<noteq> Some r" for g using links_okD(5) by blast
    note D = links_okD[OF L(1)]
    show ?thesis
    proof (rule links_okI, unfold views)
      show "k = r \<or> has_request s k \<longleftrightarrow> map_of (wf_request_signers ?t) k \<noteq> None" for k
        using D(1)[of k] by simp
      show "k = r \<or> has_request s k \<Longrightarrow> map_of (wf_audit ?t) k \<noteq> None" for k using D(2)[of k] by auto
      show "map_of (wf_request_signers ?t) k = Some l \<Longrightarrow> distinct l" for k l
        using D(3)[of k l] by (auto split: if_splits)
      show "map_of (wf_request_signers ?t) k = Some l \<Longrightarrow> g \<in> set l \<longleftrightarrow> signer_req s g = Some k" for k l g
        using D(4)[of k l g] no[of g] by (auto split: if_splits)
      show "signer_req s g = Some k \<Longrightarrow> k = r \<or> has_request s k" for g k using D(5)[of g k] by simp
    qed
  qed
  moreover have "snapshots_ok ?t"
    using wf_invD(10)[OF inv] vs last q by (auto simp: snapshots_ok_def intro!: exI[of _ "last vs"])
  moreover have "frozen_ok ?t" using wf_invD(11)[OF inv] d q by (simp add: frozen_ok_def)
  moreover have "tokens_ok ?t" using wf_invD(6)[OF inv] fr by (fastforce simp: tokens_ok_def)
  moreover have "ids_ok ?t" using wf_invD(1)[OF inv] q by (simp add: ids_ok_def distinct_update)
  moreover have "fresh_ok ?t" using wf_invD(2)[OF inv] r by (simp add: fresh_ok_def)
  moreover have "objects_ok ?t"
    using wf_invD(3)[OF inv] unfolding objects_ok_def by (simp add: r) (meson less_SucI)
  ultimately show ?thesis using wf_invD[OF inv]
    by (simp add: wf_inv_def emails_ok_def signatures_ok_def views versions_ok_def documents_ok_def)
qed

lemma create_request_good:
  assumes inv: "wf_inv H s"
  shows "good H s (snd (create_request now payload s))"
proof (cases "\<exists>x. map_of (wf_documents s) (rc_document_id payload) = Some x \<and> now < rc_expires_at payload")
  case True
  then obtain x where x: "map_of (wf_documents s) (rc_document_id payload) = Some x"
    and e: "now < rc_expires_at payload" by blast
  have "lc_step (wf_abs s) ((wf_abs s)\<lparr>lc_request := (lc_request (wf_abs s))(wf_next s \<mapsto> ReqDraft)\<rparr>)"
    using lc_step.create[of "wf_abs s" "wf_next s"] wf_invD(2)[OF inv] by (simp add: wf_abs_def fresh_ok_def)
  moreover have "wf_abs s\<lparr>lc_request := (lc_request (wf_abs s))(wf_next s \<mapsto> ReqDraft)\<rparr> =
      wf_abs (snd (create_request now payload s))"
    using x e by (auto simp: create_request_def document_of_def Let_def wf_abs_def)
  moreover have "wf_inv H (snd (create_request now payload s))"
    using x e
    apply (simp add: create_request_def document_of_def Let_def)
    apply (rule audit_inv, rule new_request_inv[OF inv refl, where x = x])
    using document_id[OF inv x] by simp_all
  moreover have "audit_le (wf_audit s) (dict_set (wf_next s) [] (wf_audit s))"
    using wf_invD(2)[OF inv] by (auto simp: audit_le_def fresh_ok_def dict_get_or_def)
  then have "audit_le (wf_audit s) (wf_audit (snd (create_request now payload s)))"
    using x e by (simp add: create_request_def document_of_def Let_def audit_le_record)
  ultimately show ?thesis by (simp add: good_def r_into_rtranclp)
next
  case False
  then have "snd (create_request now payload s) = s"
    by (auto simp: create_request_def document_of_def split: option.splits)
  then show ?thesis using good_refl[OF inv] by simp
qed

lemma new_signer_inv:
  assumes inv: "wf_inv H s" and g: "g = wf_next s" and q: "map_of (wf_requests s) r = Some q"
    and sids: "map_of (wf_request_signers s) r = Some sids"
    and x: "sgn_id x = g" "sgn_signature_request_id x = r" "sgn_status x \<noteq> SgnSigned"
      "sgn_email x = sgn_auth_user_id x" "lower (sgn_auth_user_id x) = sgn_auth_user_id x"
    and new: "any_index (wf_signers s) (\<lambda>y. sgn_auth_user_id y = sgn_auth_user_id x) sids = Inr False"
  shows "wf_inv H (s\<lparr>wf_next := Suc g, wf_signers := dict_set g x (wf_signers s),
    wf_request_signers := dict_set r (sids @ [g]) (wf_request_signers s)\<rparr>)" (is "wf_inv H ?t")
proof -
  have none: "map_of (wf_signers s) g = None" using wf_invD(2)[OF inv] by (simp add: fresh_ok_def g)
  have views: "has_request ?t = has_request s" "signer_req ?t h = (if h = g then Some r else signer_req s h)"
    "signer_key ?t h = (if h = g then Some (r, sgn_auth_user_id x, sgn_auth_user_id x) else signer_key s h)"
    "signed_pair ?t p = signed_pair s p" for h p
    using x none by (auto simp: views)
  have key: "signer_key s h \<noteq> Some (r, sgn_auth_user_id x, e)" for h e
  proof
    assume "signer_key s h = Some (r, sgn_auth_user_id x, e)"
    then have "signer_req s h = Some r" "\<exists>y. map_of (wf_signers s) h = Some y \<and> sgn_auth_user_id y = sgn_auth_user_id x"
      by (auto simp: signer_key_def signer_req_def)
    then show False using new request_signersD(2)[OF inv sids, of h] by (auto simp: any_index_Inr_False)
  qed
  have no: "signer_req s g \<noteq> Some r'" for r' using none by (simp add: signer_req_def)
  note D = links_okD[OF wf_invD(4)[OF inv]]
  have "links_ok ?t"
  proof (rule links_okI, unfold views)
    show "has_request s k \<longleftrightarrow> map_of (wf_request_signers ?t) k \<noteq> None" for k
      using D(1)[of k] sids by simp
    show "has_request s k \<Longrightarrow> map_of (wf_audit ?t) k \<noteq> None" for k using D(2)[of k] by simp
    show "map_of (wf_request_signers ?t) k = Some l \<Longrightarrow> distinct l" for k l
      using D(3)[of k l] D(3,4)[OF sids] no by (auto split: if_splits)
    show "map_of (wf_request_signers ?t) k = Some l \<Longrightarrow>
        h \<in> set l \<longleftrightarrow> (if h = g then Some r else signer_req s h) = Some k" for k l h
      using D(4)[of k l h] D(4)[OF sids, of h] no[of k] no[of r] by (auto split: if_splits)
    show "(if h = g then Some r else signer_req s h) = Some k \<Longrightarrow> has_request s k" for h k
      using D(5)[of h k] q by (auto simp: has_request_def split: if_splits)
  qed
  moreover have "emails_ok ?t"
    using wf_invD(5)[OF inv] key x(4,5) unfolding emails_ok_def views
    by (simp split: if_splits)
  moreover have "signatures_ok ?t" using wf_invD(7)[OF inv] by (simp only: signatures_ok_def views) simp
  moreover have "ids_ok ?t" using wf_invD(1)[OF inv] x(1) by (simp add: ids_ok_def)
  moreover have "fresh_ok ?t"
    using wf_invD(2)[OF inv] request_below[OF inv q] by (simp add: fresh_ok_def g)
  moreover have "objects_ok ?t"
    using wf_invD(3)[OF inv] unfolding objects_ok_def by (simp add: g) (meson less_SucI)
  ultimately show ?thesis using wf_invD[OF inv]
    by (simp add: wf_inv_def versions_ok_def documents_ok_def snapshots_ok_def frozen_ok_def tokens_ok_def)
qed

lemma add_signer_good:
  assumes inv: "wf_inv H s"
  shows "good H s (snd (add_signer now r payload actor s))"
proof (cases "\<exists>q sids. map_of (wf_requests s) r = Some q \<and> req_status q = ReqDraft \<and>
    map_of (wf_request_signers s) r = Some sids \<and>
    any_index (wf_signers s) (\<lambda>y. sgn_auth_user_id y = lower (sc_email payload)) sids = Inr False")
  case True
  then obtain q sids where q: "map_of (wf_requests s) r = Some q" "req_status q = ReqDraft"
    and sids: "map_of (wf_request_signers s) r = Some sids"
    and new: "any_index (wf_signers s) (\<lambda>y. sgn_auth_user_id y = lower (sc_email payload)) sids = Inr False"
    by blast
  have "lc_step (wf_abs s) ((wf_abs s)\<lparr>lc_signer := (lc_signer (wf_abs s))(wf_next s \<mapsto> (r, SgnPending))\<rparr>)"
    using lc_step.add_signer[of "wf_abs s" r "wf_next s"] wf_abs_sel(1)[OF q(1)] q(2) wf_invD(2)[OF inv]
    by (simp add: wf_abs_def fresh_ok_def)
  moreover have "wf_abs s\<lparr>lc_signer := (lc_signer (wf_abs s))(wf_next s \<mapsto> (r, SgnPending))\<rparr> =
      wf_abs (snd (add_signer now r payload actor s))"
    using q sids new request_id[OF inv q(1)] by (auto simp: add_signer_def request_of_def Let_def wf_abs_def)
  moreover have "wf_inv H (snd (add_signer now r payload actor s))"
    using q sids new request_id[OF inv q(1)]
    apply (simp add: add_signer_def request_of_def Let_def)
    apply (rule audit_inv, rule new_signer_inv[OF inv refl q(1) sids])
    using request_below[OF inv q(1)] by simp_all
  moreover have "audit_le (wf_audit s) (wf_audit (snd (add_signer now r payload actor s)))"
    using q sids new by (simp add: add_signer_def request_of_def Let_def audit_le_record)
  ultimately show ?thesis by (simp add: good_def r_into_rtranclp)
next
  case False
  then have "snd (add_signer now r payload actor s) = s"
    by (auto simp: add_signer_def request_of_def Let_def split: option.splits sum.splits bool.splits)
  then show ?thesis using good_refl[OF inv] by simp
qed

section \<open>The service as a transition system\<close>

inductive wf_step :: "hash \<Rightarrow> workflow \<Rightarrow> workflow \<Rightarrow> bool" for H :: hash where
  create_document: "wf_step H s (snd (create_document H now payload content s))"
| add_version: "wf_step H s (snd (add_version H now d filename ctype actor content s))"
| delete_document: "wf_step H s (snd (delete_document now d actor force s))"
| create_request: "wf_step H s (snd (create_request now rpayload s))"
| add_signer: "wf_step H s (snd (add_signer now r spayload actor s))"
| create_signing_link: "wf_step H s (snd (create_signing_link H app now token r actor s))"
| revoke_signer_link: "wf_step H s (snd (revoke_signer_link now r g actor s))"
| open_request: "wf_step H s (snd (open_request now r actor mode s))"
| cancel_request: "wf_step H s (snd (cancel_request now r actor s))"
| signing_context: "wf_step H s (snd (signing_context H now token user s))"
| signing_document: "wf_step H s (snd (signing_document H now token user s))"
| view: "wf_step H s (snd (view_request H now token user s))"
| sign: "wf_step H s (snd (sign H now token user consent stamp s))"
| decline: "wf_step H s (snd (decline H now token user s))"

lemma wf_step_good: "wf_step H s t \<Longrightarrow> wf_inv H s \<Longrightarrow> good H s t"
  by (induction rule: wf_step.induct)
    (simp_all add: create_document_good add_version_good delete_good create_request_good add_signer_good
      signing_link_good revoke_good open_good cancel_good signing_context_state signing_document_state
      resolve_good view_good sign_good decline_good)

interpretation mem: signing_service "wf_step H" init_workflow "wf_inv H" wf_abs for H
  by unfold_locales (auto simp: wf_inv_init wf_abs_init good_def dest: wf_step_good)

lemma wf_steps_audit: "(wf_step H)\<^sup>*\<^sup>* s t \<Longrightarrow> wf_inv H s \<Longrightarrow> audit_le (wf_audit s) (wf_audit t)"
proof (induction rule: rtranclp_induct)
  case (step t u)
  then have "audit_le (wf_audit t) (wf_audit u)"
    using wf_step_good mem.inv_steps unfolding good_def by blast
  with step show ?case using audit_le_trans by blast
qed simp

end
