(* ===== verification/Workflow_Properties.thy ===== *)
theory Workflow_Properties
  imports Workflow_Correctness
begin

text \<open>
  The properties of \<open>SignatureWorkflowService\<close> over every state it can reach from the empty
  service by any interleaving of its methods, and a concrete run that exercises them.
\<close>

section \<open>A concrete run\<close>

text \<open>
  One document, one request with two signers: Ana signs, Bruno declines and signs later. The
  digest of the run is the content behind a marker.
\<close>

definition demo_hash :: hash where
  "demo_hash c = CHR ''#'' # c"

definition demo_document :: document_create where
  "demo_document = \<lparr>dc_organization_id = ''org'', dc_title = ''Contract'', dc_original_filename = ''c.pdf'',
     dc_content_type = ''application/pdf'', dc_created_by = ''owner''\<rparr>"

definition demo_request :: signature_request_create where
  "demo_request = \<lparr>rc_document_id = 0, rc_expires_at = 1000, rc_created_by = ''owner''\<rparr>"

definition demo_signer :: "string \<Rightarrow> string \<Rightarrow> signer_create" where
  "demo_signer name email = \<lparr>sc_name = name, sc_email = email, sc_preferred_locale = PtBR,
     sc_token_ttl_seconds = 3600, sc_participant_role = ExternalSigner, sc_represented_tenant_id = None\<rparr>"

definition demo_stamp :: stamp_position where
  "demo_stamp = \<lparr>st_page = 1, st_x = 1, st_y = 1, st_template = TemplateBR, st_country_code = None,
     st_show_flag = False, st_template_version = ''1'', st_locale = PtBR, st_timezone = ''UTC''\<rparr>"

definition demo_open :: workflow where
  "demo_open =
     (let s1 = snd (create_document demo_hash 1 demo_document ''%PDF'' init_workflow);
          s2 = snd (create_request 2 demo_request s1);
          s3 = snd (add_signer 3 4 (demo_signer ''Ana'' ''Ana@x'') ''owner'' s2);
          s4 = snd (add_signer 4 4 (demo_signer ''Bruno'' ''bruno@x'') ''owner'' s3);
          s5 = snd (open_request 5 4 ''owner'' ModeEvidence s4)
      in snd (create_signing_link demo_hash ''http://app/'' 6 ''tok'' 4 ''owner'' s5))"

definition demo_declined :: workflow where
  "demo_declined = snd (decline demo_hash 8 ''tok'' ''bruno@x''
     (snd (sign demo_hash 7 ''tok'' ''ANA@x'' True demo_stamp demo_open)))"

definition demo_completed :: workflow where
  "demo_completed = snd (sign demo_hash 9 ''tok'' ''bruno@x'' True demo_stamp demo_declined)"

lemma demo_open_reachable: "(wf_step demo_hash)\<^sup>*\<^sup>* init_workflow demo_open"
  unfolding demo_open_def Let_def
  by (rule rtranclp.intros(2)[OF rtranclp.intros(2)[OF rtranclp.intros(2)[OF rtranclp.intros(2)[OF
        rtranclp.intros(2)[OF rtranclp.intros(2)[OF rtranclp.intros(1)]]]]]]; rule wf_step.intros)

lemma demo_completed_run: "(wf_step demo_hash)\<^sup>*\<^sup>* demo_open demo_completed"
  unfolding demo_completed_def demo_declined_def
  by (rule rtranclp.intros(2)[OF rtranclp.intros(2)[OF rtranclp.intros(2)[OF rtranclp.intros(1)]]];
      rule wf_step.intros)

lemma demo_completed_reachable: "(wf_step demo_hash)\<^sup>*\<^sup>* init_workflow demo_completed"
  using demo_open_reachable demo_completed_run by (rule rtranclp_trans)

section \<open>Refinement, invariant and permanence\<close>

text \<open>C40: every run of the service is a run of the abstract lifecycle of requests and signers.\<close>

theorem mem_refines_lifecycle:
  "(wf_step H)\<^sup>*\<^sup>* init_workflow s \<Longrightarrow> lc_step\<^sup>*\<^sup>* lc_init (wf_abs s)"
  using mem.simulates_run[OF _ wf_inv_init] wf_abs_init by metis

theorem mem_refines_lifecycle_witness: "lc_step\<^sup>*\<^sup>* lc_init (wf_abs demo_completed)"
  by (rule mem_refines_lifecycle[OF demo_completed_reachable])

text \<open>a completed request has only signers who signed; each has a recorded signature and a stamp.\<close>

theorem mem_completed_all_signed:
  assumes "(wf_step H)\<^sup>*\<^sup>* init_workflow s" "map_of (wf_requests s) r = Some q" "req_status q = ReqCompleted"
    and "map_of (wf_signers s) g = Some x" "sgn_signature_request_id x = r"
  shows "sgn_status x = SgnSigned \<and> (r, g) \<in> wf_signatures s \<and>
    (\<exists>stamp. map_of (wf_signature_evidence s) (r, g) = Some stamp)"
proof -
  have "sgn_status x = SgnSigned"
    using mem.completed_all_signed[OF assms(1), of r g "sgn_status x"] wf_abs_sel(1)[OF assms(2)]
      wf_abs_sel(2)[OF assms(4)] assms(3,5) by simp
  moreover have "signatures_ok s" using wf_invD(7) mem.reachable_inv[OF assms(1)] by blast
  ultimately show ?thesis using assms(4,5) by (auto simp: signatures_ok_def signed_pair_def)
qed

theorem mem_completed_all_signed_witness:
  "map_option req_status (map_of (wf_requests demo_completed) 4) = Some ReqCompleted \<and>
   (4, 10) \<in> wf_signatures demo_completed"
proof -
  obtain q where q: "map_of (wf_requests demo_completed) 4 = Some q" "req_status q = ReqCompleted"
  proof -
    have "map_option req_status (map_of (wf_requests demo_completed) 4) = Some ReqCompleted" by code_simp
    then show ?thesis using that by auto
  qed
  obtain x where x: "map_of (wf_signers demo_completed) 10 = Some x" "sgn_signature_request_id x = 4"
  proof -
    have "map_option sgn_signature_request_id (map_of (wf_signers demo_completed) 10) = Some 4" by code_simp
    then show ?thesis using that by auto
  qed
  show ?thesis using mem_completed_all_signed[OF demo_completed_reachable q x] q by simp
qed

text \<open>a completed or cancelled request keeps its status in every later state, and a signature
  given is never withdrawn.\<close>

theorem mem_final_status:
  assumes "(wf_step H)\<^sup>*\<^sup>* init_workflow s" "(wf_step H)\<^sup>*\<^sup>* s t"
  shows "(map_option req_status (map_of (wf_requests s) r) \<in> {Some ReqCompleted, Some ReqCancelled} \<longrightarrow>
      map_option req_status (map_of (wf_requests t) r) = map_option req_status (map_of (wf_requests s) r)) \<and>
    (map_option sgn_status (map_of (wf_signers s) g) = Some SgnSigned \<longrightarrow>
      map_option sgn_status (map_of (wf_signers t) g) = Some SgnSigned)"
proof (intro conjI impI)
  assume "map_option req_status (map_of (wf_requests s) r) \<in> {Some ReqCompleted, Some ReqCancelled}"
  then show "map_option req_status (map_of (wf_requests t) r) = map_option req_status (map_of (wf_requests s) r)"
    using mem.final_status[OF assms, of r] by (auto simp: wf_abs_def)
next
  assume "map_option sgn_status (map_of (wf_signers s) g) = Some SgnSigned"
  then obtain k where "lc_signer (wf_abs s) g = Some (k, SgnSigned)" by (auto simp: wf_abs_def)
  then show "map_option sgn_status (map_of (wf_signers t) g) = Some SgnSigned"
    using mem.signature_permanent[OF assms, of g k] by (auto simp: wf_abs_def)
qed

theorem mem_final_status_witness:
  "map_option req_status (map_of (wf_requests (snd (cancel_request 20 4 ''owner'' demo_completed))) 4) = Some ReqCompleted \<and>
   map_option sgn_status (map_of (wf_signers (snd (cancel_request 20 4 ''owner'' demo_completed))) 7) = Some SgnSigned"
proof -
  have run: "(wf_step demo_hash)\<^sup>*\<^sup>* demo_completed (snd (cancel_request 20 4 ''owner'' demo_completed))"
    by (rule r_into_rtranclp, rule wf_step.intros)
  have "map_option sgn_status (map_of (wf_signers demo_completed) 7) = Some SgnSigned"
    "map_option req_status (map_of (wf_requests demo_completed) 4) = Some ReqCompleted"
    by code_simp+
  then show ?thesis using mem_final_status[OF demo_completed_reachable run, of 4 7] by simp
qed

text \<open>the audit trail is append-only: in every later state each trail extends the earlier one.\<close>

theorem mem_audit_append_only:
  assumes "(wf_step H)\<^sup>*\<^sup>* init_workflow s" "(wf_step H)\<^sup>*\<^sup>* s t"
  shows "prefix (dict_get_or (wf_audit s) k []) (dict_get_or (wf_audit t) k [])"
  using wf_steps_audit[OF assms(2) mem.reachable_inv[OF assms(1)]] by (simp add: audit_le_def)

theorem mem_audit_append_only_witness:
  "prefix (dict_get_or (wf_audit demo_open) 4 []) (dict_get_or (wf_audit demo_completed) 4 [])"
  by (rule mem_audit_append_only[OF demo_open_reachable demo_completed_run])

section \<open>Frozen content\<close>

text \<open>the content a request froze is what is read for it: for an open request, or a completed one
  whose document was not deleted, reading the frozen version succeeds and has the frozen digest.\<close>

theorem mem_frozen_content:
  assumes reach: "(wf_step H)\<^sup>*\<^sup>* init_workflow s" and q: "map_of (wf_requests s) r = Some q"
    and live: "req_status q = ReqOpen \<or> map_of (wf_documents s) (req_document_id q) \<noteq> None"
  shows "\<exists>v c. get_content H (req_document_id q) (Some (req_document_version q)) s = Inr (v, c) \<and>
    H c = req_document_sha256 q \<and> ver_version v = req_document_version q"
proof -
  have inv: "wf_inv H s" using mem.reachable_inv[OF reach] .
  obtain d where "map_of (wf_documents s) (req_document_id q) = Some d"
    using live active_document[OF inv q] by blast
  then show ?thesis using snapshot_content[OF inv q] by metis
qed

theorem mem_frozen_content_witness:
  "\<exists>q v c. map_of (wf_requests demo_open) 4 = Some q \<and>
     get_content demo_hash (req_document_id q) (Some (req_document_version q)) demo_open = Inr (v, c) \<and>
     demo_hash c = req_document_sha256 q"
proof -
  obtain q where q: "map_of (wf_requests demo_open) 4 = Some q" "req_status q = ReqOpen"
  proof -
    have "map_option req_status (map_of (wf_requests demo_open) 4) = Some ReqOpen" by code_simp
    then show ?thesis using that by auto
  qed
  show ?thesis using mem_frozen_content[OF demo_open_reachable q(1)] q by blast
qed

text \<open>uploading and reading back: a non-empty upload succeeds in every reachable state and the new
  document reads back with the same bytes, their digest and their size.\<close>

theorem mem_upload_roundtrip:
  assumes reach: "(wf_step H)\<^sup>*\<^sup>* init_workflow s" and c: "content \<noteq> []" and n: "wf_next s + 1 < 16 ^ 32"
  shows "\<exists>d t v. create_document H now payload content s = (Inr d, t) \<and>
    get_content H (doc_id d) None t = Inr (v, content) \<and>
    ver_sha256 v = H content \<and> doc_sha256 d = H content \<and> ver_size_bytes v = length content \<and> ver_version v = 1"
proof -
  let ?k = "uuid_hex (Suc (wf_next s))"
  have obj: "objects_ok s" using wf_invD(3) mem.reachable_inv[OF reach] by blast
  have fresh: "map_of (wf_storage s) ?k = None"
  proof (rule ccontr)
    assume "map_of (wf_storage s) ?k \<noteq> None"
    then obtain k where "k < wf_next s" "?k = uuid_hex k" using obj unfolding objects_ok_def by blast
    then show False using uuid_hex_inj[of "Suc (wf_next s)" k] n by (simp add: uuid_range_def)
  qed
  have put: "local_put (Suc (wf_next s)) None content (wf_storage s) =
      (Inr (?k, length content), dict_set ?k content (wf_storage s))"
    using local_put_fresh[of "wf_storage s" "Suc (wf_next s)" None content] fresh by simp
  show ?thesis
    using c put
    by (simp add: create_document_def Let_def get_content_def document_of_def local_get_def)
qed

theorem mem_upload_roundtrip_witness:
  "\<exists>d t v. create_document demo_hash 30 demo_document ''abc'' demo_completed = (Inr d, t) \<and>
    get_content demo_hash (doc_id d) None t = Inr (v, ''abc'')"
proof -
  have "wf_next demo_completed + 1 < 16 ^ 32"
  proof -
    have "wf_next demo_completed = 25" by code_simp
    then show ?thesis by simp
  qed
  then show ?thesis using mem_upload_roundtrip[OF demo_completed_reachable, of "''abc''" 30 demo_document] by auto
qed

section \<open>Signing\<close>

text \<open>The signer a link resolves to is unique, so a matching signer is the one that is found.\<close>

lemma signers_of_all:
  assumes "wf_inv H s" "map_of (wf_requests s) r = Some q"
  shows "\<exists>xs. list_signers r s = Inr xs \<and>
    (\<forall>x. x \<in> set xs \<longleftrightarrow> map_of (wf_signers s) (sgn_id x) = Some x \<and> sgn_signature_request_id x = r)"
proof -
  obtain sids where sids: "map_of (wf_request_signers s) r = Some sids"
    using request_signers_Some[OF assms] by blast
  have mem: "g \<in> set sids \<longleftrightarrow> (\<exists>x. map_of (wf_signers s) g = Some x \<and> sgn_signature_request_id x = r)" for g
    using request_signersD(2)[OF assms(1) sids, of g] by (auto simp: signer_req_def)
  then obtain xs where xs: "signers_of s sids = Inr xs"
    using map_result_total[of sids "dict_index (wf_signers s)"]
    by (fastforce simp: signers_of_def dict_index_def)
  then have ls: "list_signers r s = Inr xs" using assms(2) sids by (simp add: list_signers_def request_of_def)
  have "x \<in> set xs" if "map_of (wf_signers s) (sgn_id x) = Some x" "sgn_signature_request_id x = r" for x
  proof -
    have "sgn_id x \<in> set sids" using mem that by blast
    moreover have "map (map_of (wf_signers s)) sids = map Some xs"
      using xs by (simp add: signers_of_def map_index_Inr)
    ultimately have "Some x \<in> set (map Some xs)" using that(1) by (metis image_eqI list.set_map)
    then show ?thesis by auto
  qed
  then show ?thesis using ls list_signers_mem[OF assms(1) ls] by blast
qed

lemma find_signer:
  assumes inv: "wf_inv H s" and q: "map_of (wf_requests s) r = Some q"
    and x: "map_of (wf_signers s) (sgn_id x) = Some x" "sgn_signature_request_id x = r"
      "sgn_auth_user_id x = lower user"
  shows "\<exists>xs. list_signers r s = Inr xs \<and> List.find (\<lambda>g. sgn_auth_user_id g = lower user) xs = Some x"
proof -
  obtain xs where xs: "list_signers r s = Inr xs"
    "\<And>y. y \<in> set xs \<longleftrightarrow> map_of (wf_signers s) (sgn_id y) = Some y \<and> sgn_signature_request_id y = r"
    using signers_of_all[OF inv q] by blast
  have uniq: "y = x" if y: "y \<in> set xs" "sgn_auth_user_id y = lower user" for y
  proof -
    have y': "map_of (wf_signers s) (sgn_id y) = Some y" "sgn_signature_request_id y = r"
      using xs(2)[of y] y(1) by auto
    have keys: "signer_key s (sgn_id y) = Some (r, lower user, sgn_email y)"
      "signer_key s (sgn_id x) = Some (r, lower user, sgn_email x)"
      using x y y' by (simp_all add: signer_key_def)
    have E: "\<And>g r u e. signer_key s g = Some (r, u, e) \<Longrightarrow> e = u"
      "\<And>g h k. signer_key s g = Some k \<Longrightarrow> signer_key s h = Some k \<Longrightarrow> g = h"
      using wf_invD(5)[OF inv] unfolding emails_ok_def by blast+
    have "sgn_id y = sgn_id x" using E(1)[OF keys(1)] E(1)[OF keys(2)] E(2) keys by simp
    then show ?thesis using y'(1) x(1) by (metis option.inject)
  qed
  have "List.find (\<lambda>g. sgn_auth_user_id g = lower user) xs \<noteq> None"
    using xs(2)[of x] x by (auto simp: find_None_conv)
  then show ?thesis using xs(1) uniq find_Some_iff_hd by fastforce
qed

lemma resolve_request_complete:
  assumes inv: "wf_inv H s" and x: "resolved H now token user s x q" and q: "req_status q = ReqOpen"
  shows "resolve_request H now token user ac s = (Inr (x, q), s)"
proof -
  note D = resolvedD[OF x]
  obtain xs where "list_signers (req_id q) s = Inr xs"
    "List.find (\<lambda>g. sgn_auth_user_id g = lower user) xs = Some x"
    using find_signer[OF inv D(2,3,4,5)] by blast
  then show ?thesis using D q by (simp add: resolve_request_def request_of_def)
qed

lemma sign_accepts_iff:
  assumes inv: "wf_inv H s"
  shows "(\<exists>y t. sign H now token user consent stamp s = (Inr y, t)) \<longleftrightarrow>
      consent \<and> (\<exists>x q. resolved H now token user s x q \<and> req_status q = ReqOpen \<and> sgn_status x \<noteq> SgnSigned)"
    (is "?ok \<longleftrightarrow> ?cond")
proof
  { assume c: ?cond
    then obtain x q where x: "resolved H now token user s x q" "req_status q = ReqOpen" "sgn_status x \<noteq> SgnSigned"
      by blast
    show ?ok using c sign_resolved[OF inv resolve_request_complete[OF inv x(1,2)] x] by simp }
  assume ok: ?ok
  then have consent by (auto simp: sign_def split: if_splits)
  show ?cond
  proof (rule resolve_open_cases[OF inv, of now token user])
    fix e t assume "resolve_request H now token user False s = (Inl e, t)"
    then show ?cond using ok by (auto simp: sign_def split: if_splits)
  next
    fix x q assume r: "resolve_request H now token user False s = (Inr (x, q), s)"
      and x: "resolved H now token user s x q" and q: "req_status q = ReqOpen"
    have "sgn_status x \<noteq> SgnSigned" using ok r by (auto simp: sign_def split: if_splits)
    then show ?cond using \<open>consent\<close> x q by blast
  qed
qed

text \<open>exactly when a signature is accepted. In every reachable state \<open>sign\<close> returns a signer iff
  consent is given and the token leads to an open, unexpired request of which the user is a signer
  whose access was not revoked and who has not signed; no other check can fail.\<close>

theorem mem_sign_accepts:
  assumes reach: "(wf_step H)\<^sup>*\<^sup>* init_workflow s"
  shows "(\<exists>y t. sign H now token user consent stamp s = (Inr y, t)) \<longleftrightarrow> consent \<and>
    (\<exists>x q. map_of (wf_request_token_index s) (H token) = Some (req_id q) \<and>
       map_of (wf_requests s) (req_id q) = Some q \<and> req_status q = ReqOpen \<and> now < req_expires_at q \<and>
       map_of (wf_signers s) (sgn_id x) = Some x \<and> sgn_signature_request_id x = req_id q \<and>
       sgn_auth_user_id x = lower user \<and> sgn_link_revoked_at x = None \<and> sgn_status x \<noteq> SgnSigned)"
  using sign_accepts_iff[OF mem.reachable_inv[OF reach]] unfolding resolved_def by blast

theorem mem_sign_accepts_witness:
  "\<exists>x q. map_of (wf_requests demo_open) (req_id q) = Some q \<and> req_status q = ReqOpen \<and>
     map_of (wf_signers demo_open) (sgn_id x) = Some x \<and> sgn_status x \<noteq> SgnSigned"
proof -
  have "case sign demo_hash 7 ''tok'' ''ANA@x'' True demo_stamp demo_open of (Inr y, t) \<Rightarrow> True | _ \<Rightarrow> False"
    by code_simp
  then have "\<exists>y t. sign demo_hash 7 ''tok'' ''ANA@x'' True demo_stamp demo_open = (Inr y, t)"
    by (cases "sign demo_hash 7 ''tok'' ''ANA@x'' True demo_stamp demo_open") (auto split: sum.splits)
  from iffD1[OF mem_sign_accepts[OF demo_open_reachable] this]
  show ?thesis by (elim conjE exE) (intro exI conjI)
qed

text \<open>the effect of an accepted signature: the returned signer is the caller's, signed at that time,
  stored with its stamp; exactly one signature is added; and the request is completed exactly when
  all of its signers have signed.\<close>

theorem mem_sign_effect:
  assumes reach: "(wf_step H)\<^sup>*\<^sup>* init_workflow s" and ok: "sign H now token user consent stamp s = (Inr y, t)"
  shows "sgn_auth_user_id y = lower user \<and> sgn_status y = SgnSigned \<and> sgn_signed_at y = Some now \<and>
    map_of (wf_signers t) (sgn_id y) = Some y \<and>
    wf_signatures t = insert (sgn_signature_request_id y, sgn_id y) (wf_signatures s) \<and>
    (sgn_signature_request_id y, sgn_id y) \<notin> wf_signatures s \<and>
    map_of (wf_signature_evidence t) (sgn_signature_request_id y, sgn_id y) = Some stamp \<and>
    (map_option req_status (map_of (wf_requests t) (sgn_signature_request_id y)) = Some ReqCompleted \<longleftrightarrow>
      (\<forall>g x. map_of (wf_signers t) g = Some x \<longrightarrow> sgn_signature_request_id x = sgn_signature_request_id y \<longrightarrow>
         sgn_status x = SgnSigned))"
proof -
  have inv: "wf_inv H s" using mem.reachable_inv[OF reach] .
  obtain x q where c: consent and x: "resolved H now token user s x q" "req_status q = ReqOpen"
    "sgn_status x \<noteq> SgnSigned"
    using sign_accepts_iff[OF inv, of now token user consent stamp] ok by blast
  note D = resolvedD[OF x(1)] and out = sign_resolved[OF inv resolve_request_complete[OF inv x(1,2)] x, of stamp]
  let ?all = "others_signed (wf_abs s) (req_id q) (sgn_id x)"
  have y: "y = x\<lparr>sgn_status := SgnSigned, sgn_signed_at := Some now\<rparr>"
    and t: "t = (if ?all then completed_state now user q (signed_state now user stamp x q s)
      else signed_state now user stamp x q s)"
    using ok out c by simp_all
  have all: "?all \<longleftrightarrow> (\<forall>g z. map_of (wf_signers t) g = Some z \<longrightarrow> sgn_signature_request_id z = req_id q \<longrightarrow>
         sgn_status z = SgnSigned)"
    unfolding t by (auto simp: others_signed_def wf_abs_def signed_state_def completed_state_def)
  show ?thesis
    unfolding y using D x signature_iff[OF inv x(1)] all
    by (simp add: t signed_state_def completed_state_def)
qed

theorem mem_sign_effect_witness:
  "\<exists>y t. sign demo_hash 9 ''tok'' ''bruno@x'' True demo_stamp demo_declined = (Inr y, t) \<and>
     sgn_status y = SgnSigned \<and> map_of (wf_signers t) (sgn_id y) = Some y"
proof -
  have reach: "(wf_step demo_hash)\<^sup>*\<^sup>* init_workflow demo_declined"
    unfolding demo_declined_def
    by (rule rtranclp.intros(2)[OF rtranclp.intros(2)[OF demo_open_reachable]]; rule wf_step.intros)
  have "case sign demo_hash 9 ''tok'' ''bruno@x'' True demo_stamp demo_declined of (Inr y, t) \<Rightarrow> True | _ \<Rightarrow> False"
    by code_simp
  then obtain y t where "sign demo_hash 9 ''tok'' ''bruno@x'' True demo_stamp demo_declined = (Inr y, t)"
    by (cases "sign demo_hash 9 ''tok'' ''bruno@x'' True demo_stamp demo_declined") (auto split: sum.splits)
  then show ?thesis using mem_sign_effect[OF reach] by blast
qed

lemma revoked_resolve:
  assumes inv: "wf_inv H t" and x: "map_of (wf_signers t) g = Some x" "sgn_signature_request_id x = r"
    "sgn_auth_user_id x = lower user" "sgn_link_revoked_at x \<noteq> None"
    and tok: "map_of (wf_request_token_index t) (H token) = Some r"
  shows "resolve_request H now token user ac t = (Inl (workflow_error ''Signing access has been revoked'' 410), t)"
proof -
  obtain q where q: "map_of (wf_requests t) r = Some q"
    using wf_invD(6)[OF inv] tok by (auto simp: tokens_ok_def)
  obtain xs where "list_signers r t = Inr xs" "List.find (\<lambda>g. sgn_auth_user_id g = lower user) xs = Some x"
    using find_signer[OF inv q, of x user] x signer_id[OF inv x(1)] by blast
  then show ?thesis using q tok x(4) request_id[OF inv q] by (simp add: resolve_request_def request_of_def)
qed

text \<open>a revoked signer is locked out: after a revocation, viewing, signing and declining with any
  link of the request fail for that user with status 410, at any time, and change nothing.\<close>

theorem mem_revoked_locked_out:
  assumes reach: "(wf_step H)\<^sup>*\<^sup>* init_workflow s" and rev: "revoke_signer_link now r g actor s = (Inr x, t)"
    and tok: "map_of (wf_request_token_index t) (H token) = Some r" and user: "lower user = sgn_auth_user_id x"
  shows "let gone = (Inl (workflow_error ''Signing access has been revoked'' 410), t) in
    sign H later token user True stamp t = gone \<and> view_request H later token user t = gone \<and>
    decline H later token user t = gone"
proof -
  have inv: "wf_inv H s" "wf_inv H t"
    using mem.reachable_inv[OF reach] revoke_good[of H s now r g actor] rev by (simp_all add: good_def)
  have x: "map_of (wf_signers t) g = Some x" "sgn_signature_request_id x = r" "sgn_link_revoked_at x \<noteq> None"
  proof -
    obtain q y where y: "map_of (wf_requests s) r = Some q" "map_of (wf_signers s) g = Some y"
      "sgn_signature_request_id y = req_id q"
      using rev by (auto simp: revoke_signer_link_def request_of_def split: option.splits if_splits)
    then show "map_of (wf_signers t) g = Some x" "sgn_signature_request_id x = r" "sgn_link_revoked_at x \<noteq> None"
      using rev request_id[OF inv(1) y(1)] signer_id[OF inv(1) y(2)]
      by (auto simp: revoke_signer_link_def request_of_def Let_def split: if_splits)
  qed
  note gone = revoked_resolve[where ac = False, OF inv(2) x(1,2) user[symmetric] x(3) tok]
  show ?thesis by (simp add: sign_def view_request_def decline_def gone)
qed

theorem mem_revoked_locked_out_witness:
  "\<exists>x t. revoke_signer_link 7 4 10 ''owner'' demo_open = (Inr x, t) \<and>
     decline demo_hash 8 ''tok'' ''Bruno@x'' t = (Inl (workflow_error ''Signing access has been revoked'' 410), t)"
proof -
  have "case revoke_signer_link 7 4 10 ''owner'' demo_open of
      (Inr x, t) \<Rightarrow> map_of (wf_request_token_index t) (demo_hash ''tok'') = Some 4 \<and>
         lower ''Bruno@x'' = sgn_auth_user_id x | _ \<Rightarrow> False" by code_simp
  then obtain x t where "revoke_signer_link 7 4 10 ''owner'' demo_open = (Inr x, t)"
    "map_of (wf_request_token_index t) (demo_hash ''tok'') = Some 4" "lower ''Bruno@x'' = sgn_auth_user_id x"
    by (cases "revoke_signer_link 7 4 10 ''owner'' demo_open") (auto split: sum.splits)
  then show ?thesis using mem_revoked_locked_out[OF demo_open_reachable, of 7 4 10 "''owner''" x t] by (auto simp: Let_def)
qed

text \<open>a decline does not stop a later signature: in the concrete run Bruno declines, which
  \<open>decline\<close> treats as a final answer, and afterwards signs and completes the request.\<close>

theorem mem_declined_signer_can_sign:
  "map_option sgn_status (map_of (wf_signers demo_declined) 10) = Some SgnDeclined \<and>
   fst (decline demo_hash 9 ''tok'' ''bruno@x'' demo_declined) = Inl (workflow_error ''Signer already answered'' 409) \<and>
   demo_completed = snd (sign demo_hash 9 ''tok'' ''bruno@x'' True demo_stamp demo_declined) \<and>
   map_option sgn_status (map_of (wf_signers demo_completed) 10) = Some SgnSigned \<and>
   map_option req_status (map_of (wf_requests demo_completed) 4) = Some ReqCompleted"
proof (intro conjI)
  show "demo_completed = snd (sign demo_hash 9 ''tok'' ''bruno@x'' True demo_stamp demo_declined)"
    by (rule demo_completed_def)
qed code_simp+

section \<open>Queries\<close>

lemma counts_total:
  assumes inv: "wf_inv H s" and q: "map_of (wf_requests s) r = Some q"
  shows "\<exists>q'. counts s q = Inr q' \<and> req_signed_count q' \<le> req_signer_count q' \<and>
    req_status q' = req_status q \<and> req_id q' = r"
proof -
  obtain sids where sids: "map_of (wf_request_signers s) r = Some sids"
    using request_signers_Some[OF inv q] by blast
  obtain xs where "signers_of s sids = Inr xs"
    using signers_of_all[OF inv q] q sids by (auto simp: list_signers_def request_of_def)
  then show ?thesis using sids request_id[OF inv q]
    by (auto simp: counts_def dict_get_or_def intro: length_filter_le)
qed

text \<open>the queries never fail on a state the service can reach: listing requests, reading one
  request, listing its signers and its audit trail answer, with at most as many signatures as signers.\<close>

theorem mem_queries_total:
  assumes reach: "(wf_step H)\<^sup>*\<^sup>* init_workflow s"
  shows "(\<exists>qs. list_requests s = Inr qs \<and> (\<forall>q\<in>set qs. req_signed_count q \<le> req_signer_count q)) \<and>
    (map_of (wf_requests s) r \<noteq> None \<longrightarrow>
       (\<exists>q xs es. get_request r s = Inr q \<and> list_signers r s = Inr xs \<and> audit_events r s = Inr es))"
proof (intro conjI impI)
  have inv: "wf_inv H s" using mem.reachable_inv[OF reach] .
  let ?qs = "filter (\<lambda>r. dict_get (wf_documents s) (req_document_id r) \<noteq> None) (dict_values (wf_requests s))"
  have dist: "distinct (map fst (wf_requests s))" using wf_invD(1)[OF inv] by (simp add: ids_ok_def)
  have one: "\<exists>q'. counts s q = Inr q' \<and> req_signed_count q' \<le> req_signer_count q'" if "q \<in> set ?qs" for q
    using that counts_total[OF inv] by (fastforce simp: dict_values_iff[OF dist])
  then obtain qs where qs: "map_result (counts s) ?qs = Inr qs" using map_result_total[of ?qs "counts s"] by blast
  have "req_signed_count q' \<le> req_signer_count q'" if "q' \<in> set qs" for q'
  proof -
    have "Inr q' \<in> counts s ` set ?qs" using qs that by (metis image_eqI list.set_map map_result_Inr)
    then show ?thesis using one by fastforce
  qed
  then show "\<exists>qs. list_requests s = Inr qs \<and> (\<forall>q\<in>set qs. req_signed_count q \<le> req_signer_count q)"
    using qs by (auto simp: list_requests_def)
  assume "map_of (wf_requests s) r \<noteq> None"
  then obtain q where q: "map_of (wf_requests s) r = Some q" by blast
  have "\<exists>es. map_of (wf_audit s) r = Some es"
    using links_okD(2)[OF wf_invD(4)[OF inv], of r] q by (auto simp: has_request_def)
  then show "\<exists>q xs es. get_request r s = Inr q \<and> list_signers r s = Inr xs \<and> audit_events r s = Inr es"
    using q counts_total[OF inv q] signers_of_all[OF inv q]
    by (auto simp: get_request_def request_of_def audit_events_def dict_index_def)
qed

theorem mem_queries_total_witness:
  "\<exists>q xs es. get_request 4 demo_completed = Inr q \<and> list_signers 4 demo_completed = Inr xs \<and>
     audit_events 4 demo_completed = Inr es"
proof -
  have "map_of (wf_requests demo_completed) 4 \<noteq> None" by code_simp
  then show ?thesis using mem_queries_total[OF demo_completed_reachable, of 4] by blast
qed

end
