(* ===== verification/Identifiers.thy ===== *)
theory Identifiers
  imports Workflow_Schema
begin

text \<open>
  Identity documents and localisation: \<open>users/user_identifier_service.py\<close> of the auth API,
  \<open>tenant/tenant_identity.py\<close> of the core API and \<open>shared_kernel/localization.py\<close>. Both
  subclasses of \<open>ValueError\<close> are \<open>ValueError\<close> with their message. Encryption and the keyed
  digest of a value are parameters.
\<close>

section \<open>Normalisation\<close>

definition identifier_aliases :: "(string, string) dict" where
  "identifier_aliases =
     [(''passport'', ''PASSPORT''), (''national_id'', ''NATIONAL_ID''), (''residence_card'', ''RESIDENCE_CARD''),
      (''driver_license'', ''DRIVER_LICENSE''), (''tax_id'', ''TAX_ID''), (''other'', ''OTHER''),
      (''br_cpf'', ''BR_CPF''), (''br_cnpj'', ''BR_CNPJ''), (''pt_nif'', ''PT_NIF''),
      (''jp_my_number'', ''JP_MY_NUMBER'')]"

definition normalize_identifier_type :: "string \<Rightarrow> string" where
  "normalize_identifier_type v = dict_get_or identifier_aliases (lower (strip v)) (upper (strip v))"

definition normalize_identifier :: "string \<Rightarrow> string" where
  "normalize_identifier v = filter is_alnum (strip (upper v))"

section \<open>Check digits\<close>

definition weighted_sum :: "string \<Rightarrow> int list \<Rightarrow> int" where
  "weighted_sum digits weights = sum_list (map2 (\<lambda>d w. char_digit d * w) digits weights)"

definition cpf_weights :: "nat \<Rightarrow> int list" where
  "cpf_weights sz = rev [2..int sz + 1]"

definition cpf_digit :: "string \<Rightarrow> nat \<Rightarrow> int" where
  "cpf_digit n sz = (weighted_sum (take sz n) (cpf_weights sz) * 10 mod 11) mod 10"

definition valid_cpf :: "string \<Rightarrow> bool" where
  "valid_cpf n = (length n = 11 \<and> list_all is_digit n \<and> n \<noteq> replicate 11 (n ! 0) \<and>
     cpf_digit n 9 = char_digit (n ! 9) \<and> cpf_digit n 10 = char_digit (n ! 10))"

definition cnpj_weights :: "nat \<Rightarrow> int list" where
  "cnpj_weights index =
     (if index = 12 then [5, 4, 3, 2, 9, 8, 7, 6, 5, 4, 3, 2] else [6, 5, 4, 3, 2, 9, 8, 7, 6, 5, 4, 3, 2])"

definition cnpj_digit :: "string \<Rightarrow> nat \<Rightarrow> int" where
  "cnpj_digit n index =
     (let remainder = weighted_sum (take index n) (cnpj_weights index) mod 11 in
      if remainder < 2 then 0 else 11 - remainder)"

definition cnpj_digits_ok :: "string \<Rightarrow> bool" where
  "cnpj_digits_ok n = (cnpj_digit n 12 = char_digit (n ! 12) \<and> cnpj_digit n 13 = char_digit (n ! 13))"

definition validate_identifier :: "bool \<Rightarrow> string \<Rightarrow> string \<Rightarrow> string result" where
  "validate_identifier jp_enabled identifier_type v =
     (let t = normalize_identifier_type identifier_type; n = normalize_identifier v in
      if t = ''JP_MY_NUMBER'' \<and> \<not> jp_enabled then Inl (ValueError ''JP My Number is not enabled'')
      else if t = ''BR_CPF'' then
        (if valid_cpf n then Inr n else Inl (ValueError ''Invalid Brazilian CPF''))
      else if t = ''BR_CNPJ'' then
        (if length n \<noteq> 14 \<or> \<not> list_all is_digit n \<or> n = replicate 14 (n ! 0) \<or> \<not> cnpj_digits_ok n
         then Inl (ValueError ''Invalid Brazilian CNPJ'') else Inr n)
      else if t = ''PT_NIF'' then
        (if length n \<noteq> 9 \<or> \<not> list_all is_digit n then Inl (ValueError ''Invalid Portuguese NIF format'') else Inr n)
      else if length n < 4 \<or> 80 < length n then Inl (ValueError ''Invalid identity document format'')
      else Inr n)"

text \<open>The core API's own check of a company number.\<close>

definition normalize_cnpj :: "string \<Rightarrow> string result" where
  "normalize_cnpj v =
     (let n = filter is_digit v in
      if length n \<noteq> 14 \<or> n = replicate 14 (n ! 0) then Inl (ValueError ''Invalid Brazilian CNPJ'')
      else if \<not> cnpj_digits_ok n then Inl (ValueError ''Invalid Brazilian CNPJ'')
      else Inr n)"

section \<open>Protection\<close>

text \<open>A masked text: \<open>None\<close> is the bullet character.\<close>

type_synonym masked = "char option list"

definition masked_identifier :: "string \<Rightarrow> masked" where
  "masked_identifier v = replicate (max (length v - 4) 4) None @ map Some (drop (length v - 4) v)"

definition masked_cnpj :: "string \<Rightarrow> masked" where
  "masked_cnpj n = replicate 2 None @ [Some CHR ''.''] @ replicate 3 None @ [Some CHR ''.''] @ replicate 3 None @
     [Some CHR ''/''] @ replicate 4 None @ [Some CHR ''-''] @ map Some (drop (length n - 2) n)"

definition protect_cnpj ::
  "(string \<Rightarrow> string) \<Rightarrow> (string \<Rightarrow> string) \<Rightarrow> string \<Rightarrow> (string \<times> string \<times> masked) result"
where
  "protect_cnpj encrypt hmac v =
     (case normalize_cnpj v of Inl e \<Rightarrow> Inl e | Inr n \<Rightarrow> Inr (encrypt n, hmac n, masked_cnpj n))"

record user_identifier =
  uid_user_id :: uuid
  uid_issuing_country :: string
  uid_identifier_type :: string
  uid_normalized_value_encrypted :: "string option"
  uid_lookup_hmac :: "string option"
  uid_masked_display :: masked
  uid_verification_status :: string
  uid_key_version :: int

definition valid_country :: "string \<Rightarrow> bool" where
  "valid_country c = (length c = 2 \<and> list_all (\<lambda>x. of_char x < (128::nat)) c \<and> list_all is_alpha c)"

definition add_identifier ::
  "(string \<Rightarrow> string) \<Rightarrow> (string \<Rightarrow> string) \<Rightarrow> bool \<Rightarrow> uuid \<Rightarrow> string \<Rightarrow> string \<Rightarrow> string \<Rightarrow>
   user_identifier list \<Rightarrow> user_identifier result \<times> user_identifier list"
where
  "add_identifier encrypt hmac jp_enabled user_id issuing_country identifier_type v rows =
     (let country = upper (strip issuing_country) in
      if \<not> valid_country country then (Inl (ValueError ''Invalid issuing country''), rows)
      else let t = normalize_identifier_type identifier_type in
        (case validate_identifier jp_enabled t v of
           Inl e \<Rightarrow> (Inl e, rows)
         | Inr n \<Rightarrow>
             let item = \<lparr>uid_user_id = user_id, uid_issuing_country = country, uid_identifier_type = t,
                   uid_normalized_value_encrypted = Some (encrypt n), uid_lookup_hmac = Some (hmac n),
                   uid_masked_display = masked_identifier n, uid_verification_status = ''format_valid'',
                   uid_key_version = 1\<rparr>
             in (Inr item, rows @ [item])))"

text \<open>The constraints of \<open>UserIdentifierEntity\<close>: what the database accepts on flush.\<close>

definition identifier_key :: "user_identifier \<Rightarrow> string \<times> string \<times> string option" where
  "identifier_key i = (uid_identifier_type i, uid_issuing_country i, uid_lookup_hmac i)"

definition identifiers_unique :: "user_identifier list \<Rightarrow> bool" where
  "identifiers_unique rows = distinct (map identifier_key (filter (\<lambda>i. uid_lookup_hmac i \<noteq> None) rows))"

definition identifier_checks :: "user_identifier \<Rightarrow> bool" where
  "identifier_checks i =
     (((uid_verification_status i = ''legacy'' \<and> uid_normalized_value_encrypted i = None \<and> uid_lookup_hmac i = None) \<or>
       (uid_verification_status i \<noteq> ''legacy'' \<and> uid_normalized_value_encrypted i \<noteq> None \<and> uid_lookup_hmac i \<noteq> None)) \<and>
      length (uid_issuing_country i) = 2 \<and> list_all is_upper (uid_issuing_country i))"

section \<open>Localisation\<close>

text \<open>The argument is \<open>str(value or "")\<close>.\<close>

definition lang_is :: "string \<Rightarrow> string \<Rightarrow> bool" where
  "lang_is lang candidate = (candidate = lang \<or> prefix (lang @ ''-'') candidate)"

definition normalize_locale :: "string \<Rightarrow> locale_code" where
  "normalize_locale v =
     (let candidate = lower (map (\<lambda>c. if c = CHR ''_'' then CHR ''-'' else c) (strip v)) in
      if lang_is ''pt'' candidate then PtBR
      else if lang_is ''ja'' candidate then JaJP
      else if lang_is ''es'' candidate then Es
      else En)"

definition normalize_country_code :: "string \<Rightarrow> string option result" where
  "normalize_country_code v =
     (let candidate = upper (strip v) in
      if candidate = [] then Inr None
      else if \<not> valid_country candidate then Inl (ValueError ''country_code must use ISO 3166-1 alpha-2 format'')
      else Inr (Some candidate))"

definition normalize_currency :: "string \<Rightarrow> string result" where
  "normalize_currency v =
     (let candidate = upper (strip v) in
      if length candidate \<noteq> 3 \<or> \<not> list_all (\<lambda>x. of_char x < (128::nat)) candidate \<or> \<not> list_all is_alpha candidate
      then Inl (ValueError ''currency must use ISO 4217 format'') else Inr candidate)"

text \<open>\<open>known\<close> says which names the time zone database has.\<close>

definition normalize_timezone :: "(string \<Rightarrow> bool) \<Rightarrow> string \<Rightarrow> string result" where
  "normalize_timezone known v =
     (let candidate = strip v in
      if known candidate then Inr candidate else Inl (ValueError ''timezone must be a valid IANA timezone''))"

section \<open>Lemmas\<close>

lemma is_alnum_char_upper [simp]: "is_alnum (char_upper c) = is_alnum c"
  by (auto simp: is_alnum_def is_alpha_def is_upper_def is_lower_def is_digit_def char_upper_def Let_def)

lemma is_digit_alnum: "is_digit c \<Longrightarrow> is_alnum c"
  by (simp add: is_alnum_def)

lemma is_digit_upper: "is_digit c \<Longrightarrow> char_upper c = c"
  by (auto simp: is_digit_def char_upper_def Let_def)

lemma is_digit_char_upper [simp]: "is_digit (char_upper c) = is_digit c"
  by (auto simp: is_digit_def char_upper_def Let_def)

lemma is_space_not_alnum: "is_space c \<Longrightarrow> \<not> is_alnum c"
  by (auto simp: is_space_def is_alnum_def is_alpha_def is_upper_def is_lower_def is_digit_def Let_def)

lemma filter_dropWhile: "(\<And>x. p x \<Longrightarrow> \<not> q x) \<Longrightarrow> filter q (dropWhile p xs) = filter q xs"
  by (induction xs) auto

lemma filter_strip: "(\<And>c. is_space c \<Longrightarrow> \<not> q c) \<Longrightarrow> filter q (strip v) = filter q v"
  by (simp add: strip_def strip_by_def rev_filter[symmetric] filter_dropWhile)

lemma normalize_identifier_eq: "normalize_identifier v = filter is_alnum (map char_upper v)"
  by (simp add: normalize_identifier_def upper_def filter_strip is_space_not_alnum)

lemma filter_eq_self_iff: "filter p xs = xs \<longleftrightarrow> list_all p xs"
  by (metis filter_id_conv list_all_iff)

text \<open>Normalisation is idempotent, so a stored value normalises to itself.\<close>

lemma normalize_identifier_idem: "normalize_identifier (normalize_identifier v) = normalize_identifier v"
proof -
  have "map char_upper (filter is_alnum (map char_upper v)) = filter is_alnum (map char_upper v)"
    by (rule map_idI) auto
  then show ?thesis by (simp add: normalize_identifier_eq)
qed

lemma normalize_digits:
  assumes "list_all is_digit (normalize_identifier v)"
  shows "normalize_identifier v = filter is_digit v"
proof -
  have "normalize_identifier v = filter is_digit (normalize_identifier v)"
    using assms filter_eq_self_iff by metis
  also have "\<dots> = filter is_digit (map char_upper v)"
    unfolding normalize_identifier_eq filter_filter
    by (rule filter_cong) (auto dest: is_digit_alnum)
  also have "\<dots> = map char_upper (filter is_digit v)" by (simp add: filter_map o_def)
  also have "\<dots> = filter is_digit v" by (rule map_idI) (auto dest: is_digit_upper)
  finally show ?thesis .
qed

lemma char_digit_inj: "is_digit c \<Longrightarrow> is_digit d \<Longrightarrow> char_digit c = char_digit d \<Longrightarrow> c = d"
  by (simp add: char_digit_def)

lemma take_Suc_nth: "n < length xs \<Longrightarrow> take (Suc n) xs = take n xs @ [xs ! n]"
  by (rule take_Suc_conv_app_nth)

lemma check_digits_unique:
  assumes len: "length m = Suc (Suc k)" "length n = Suc (Suc k)" and dig: "list_all is_digit m" "list_all is_digit n"
    and pre: "take k m = take k n"
    and f1: "\<And>x. char_digit (x ! k) = f (take k x) \<longleftrightarrow> P x"
    and f2: "\<And>x. char_digit (x ! Suc k) = g (take (Suc k) x) \<longleftrightarrow> Q x"
    and ok: "P m" "P n" "Q m" "Q n"
  shows "m = n"
proof -
  have d: "is_digit (m ! i)" "is_digit (n ! i)" if "i < Suc (Suc k)" for i
    using dig len that by (auto simp: list_all_length)
  have "m ! k = n ! k"
    using f1[of m] f1[of n] ok pre d[of k] char_digit_inj by (metis lessI less_Suc_eq)
  then have pre': "take (Suc k) m = take (Suc k) n" using pre len by (simp add: take_Suc_nth)
  then have "m ! Suc k = n ! Suc k"
    using f2[of m] f2[of n] ok d[of "Suc k"] char_digit_inj by (metis lessI)
  then have "take (Suc (Suc k)) m = take (Suc (Suc k)) n"
    using pre' len take_Suc_nth[of "Suc k" m] take_Suc_nth[of "Suc k" n] by simp
  then show ?thesis using len by (metis order_refl take_all)
qed

lemma cpf_digit_range: "0 \<le> cpf_digit n k \<and> cpf_digit n k < 10"
  by (simp add: cpf_digit_def)

lemma digit_char:
  assumes "0 \<le> d" "d < 10"
  shows "is_digit (char_of (nat (48 + d)))" "char_digit (char_of (nat (48 + d))) = d"
  using assms by (auto simp: is_digit_def char_digit_def of_char_of nat_less_iff Let_def nat_le_iff le_nat_iff)

lemma cpf_digit_take: "cpf_digit n k = cpf_digit (take k n) k"
  by (simp add: cpf_digit_def)

definition cpf_complete :: "string \<Rightarrow> string" where
  "cpf_complete p =
     (let q = p @ [char_of (nat (48 + cpf_digit p 9))] in q @ [char_of (nat (48 + cpf_digit q 10))])"

lemma cpf_complete_valid:
  assumes "length p = 9" "list_all is_digit p" "p \<noteq> replicate 9 (p ! 0)"
  shows "valid_cpf (cpf_complete p)" "take 9 (cpf_complete p) = p"
proof -
  define q where "q = p @ [char_of (nat (48 + cpf_digit p 9))]"
  define n where "n = q @ [char_of (nat (48 + cpf_digit q 10))]"
  have len: "length q = 10" "length n = 11" using assms(1) by (simp_all add: q_def n_def)
  have take: "take 9 n = p" "take 10 n = q" using assms(1) len by (simp_all add: n_def q_def)
  have nth: "n ! 9 = char_of (nat (48 + cpf_digit p 9))" "n ! 10 = char_of (nat (48 + cpf_digit q 10))"
    using assms(1) len by (simp_all add: n_def q_def nth_append)
  have "list_all is_digit n"
    using assms(2) digit_char(1) cpf_digit_range by (simp add: n_def q_def)
  moreover have "n \<noteq> replicate 11 (n ! 0)"
  proof
    assume "n = replicate 11 (n ! 0)"
    then have "take 9 n = take 9 (replicate 11 (n ! 0))" by (rule arg_cong)
    also have "\<dots> = replicate 9 (n ! 0)" by (simp only: take_replicate) simp
    finally have p: "p = replicate 9 (n ! 0)" using take(1) by simp
    then have "p ! 0 = n ! 0" by (simp only: p nth_replicate zero_less_numeral)
    then show False using assms(3) p by simp
  qed
  moreover have "cpf_digit n 9 = char_digit (n ! 9)" "cpf_digit n 10 = char_digit (n ! 10)"
    using digit_char(2) cpf_digit_range take nth by (simp_all add: cpf_digit_take[of n])
  ultimately have "valid_cpf n" using len by (simp add: valid_cpf_def)
  then show "valid_cpf (cpf_complete p)" "take 9 (cpf_complete p) = p"
    using take(1) by (simp_all add: cpf_complete_def Let_def n_def q_def)
qed

lemma valid_cpf_unique:
  assumes "valid_cpf m" "valid_cpf n" "take 9 m = take 9 n"
  shows "m = n"
proof (rule check_digits_unique[where k = 9 and f = "\<lambda>x. cpf_digit x 9" and g = "\<lambda>x. cpf_digit x 10"
      and P = "\<lambda>x. cpf_digit x 9 = char_digit (x ! 9)" and Q = "\<lambda>x. cpf_digit x 10 = char_digit (x ! 10)"])
  show "char_digit (x ! 9) = cpf_digit (take 9 x) 9 \<longleftrightarrow> cpf_digit x 9 = char_digit (x ! 9)" for x
    using cpf_digit_take[of x 9] by auto
  show "char_digit (x ! Suc 9) = cpf_digit (take (Suc 9) x) 10 \<longleftrightarrow> cpf_digit x 10 = char_digit (x ! 10)" for x
    using cpf_digit_take[of x 10] by (auto simp: numeral_eq_Suc)
qed (use assms in \<open>simp_all add: valid_cpf_def\<close>)

lemma normalize_cpf_type [simp]: "normalize_identifier_type ''BR_CPF'' = ''BR_CPF''"
  by code_simp

lemma normalize_cnpj_type [simp]: "normalize_identifier_type ''BR_CNPJ'' = ''BR_CNPJ''"
  by code_simp

lemma digits_normalize: "list_all is_digit n \<Longrightarrow> normalize_identifier n = n"
proof -
  assume d: "list_all is_digit n"
  then have "map char_upper n = n" by (intro map_idI) (auto simp: list_all_iff is_digit_upper)
  moreover have "filter is_alnum n = n" using d by (auto simp: filter_id_conv list_all_iff is_digit_alnum)
  ultimately show ?thesis by (simp add: normalize_identifier_eq)
qed

section \<open>Properties\<close>

text \<open>Brazilian personal numbers are exactly determined by their nine base digits: for every base
  that is not a repeated digit, one and only one eleven-digit value extending it is accepted.\<close>

theorem cpf_check_digits:
  assumes "length p = 9" "list_all is_digit p" "p \<noteq> replicate 9 (p ! 0)"
  shows "\<exists>!n. validate_identifier jp ''BR_CPF'' n = Inr n \<and> take 9 n = p"
proof (rule ex1I[of _ "cpf_complete p"])
  have v: "valid_cpf (cpf_complete p)" using cpf_complete_valid(1)[OF assms] .
  then have "normalize_identifier (cpf_complete p) = cpf_complete p"
    by (simp add: valid_cpf_def digits_normalize)
  then show "validate_identifier jp ''BR_CPF'' (cpf_complete p) = Inr (cpf_complete p) \<and> take 9 (cpf_complete p) = p"
    using v cpf_complete_valid(2)[OF assms] by (simp add: validate_identifier_def)
  fix n assume n: "validate_identifier jp ''BR_CPF'' n = Inr n \<and> take 9 n = p"
  then have "valid_cpf n"
    by (auto simp: validate_identifier_def Let_def split: if_splits)
  then show "n = cpf_complete p"
    using valid_cpf_unique v n cpf_complete_valid(2)[OF assms] by simp
qed

theorem cpf_check_digits_witness:
  "\<exists>!n. validate_identifier False ''BR_CPF'' n = Inr n \<and> take 9 n = ''529982247''"
  by (rule cpf_check_digits) code_simp+

text \<open>the two services agree on company numbers: for a text without letters the auth API's check and
  the core API's check accept the same texts with the same normal form, and whatever the auth API
  accepts the core API accepts.\<close>

theorem cnpj_checks_agree:
  "(validate_identifier jp ''BR_CNPJ'' v = Inr n \<longrightarrow> normalize_cnpj v = Inr n) \<and>
   (list_all (\<lambda>c. \<not> is_alpha c) v \<longrightarrow>
     (validate_identifier jp ''BR_CNPJ'' v = Inr n \<longleftrightarrow> normalize_cnpj v = Inr n))"
proof (intro conjI impI)
  have cnpj: "validate_identifier jp ''BR_CNPJ'' v = Inr n \<longleftrightarrow> n = normalize_identifier v \<and>
      length n = 14 \<and> list_all is_digit n \<and> n \<noteq> replicate 14 (n ! 0) \<and> cnpj_digits_ok n"
    by (auto simp: validate_identifier_def Let_def)
  have core: "normalize_cnpj v = Inr n \<longleftrightarrow> n = filter is_digit v \<and>
      length n = 14 \<and> n \<noteq> replicate 14 (n ! 0) \<and> cnpj_digits_ok n"
    by (auto simp: normalize_cnpj_def Let_def)
  show acc: "validate_identifier jp ''BR_CNPJ'' v = Inr n \<Longrightarrow> normalize_cnpj v = Inr n"
    unfolding cnpj core using normalize_digits by auto
  assume "list_all (\<lambda>c. \<not> is_alpha c) v"
  then have "filter is_alnum (map char_upper v) = map char_upper (filter is_digit v)"
    by (simp only: filter_map o_def is_alnum_char_upper)
      (auto simp: list_all_iff is_alnum_def intro!: filter_cong arg_cong[of _ _ "map char_upper"])
  also have "\<dots> = filter is_digit v" by (rule map_idI) (auto dest: is_digit_upper)
  finally have "normalize_identifier v = filter is_digit v" by (simp add: normalize_identifier_eq)
  moreover have "list_all is_digit (filter is_digit v)" by (simp add: list_all_iff)
  ultimately show "validate_identifier jp ''BR_CNPJ'' v = Inr n \<longleftrightarrow> normalize_cnpj v = Inr n"
    unfolding cnpj core by auto
qed

theorem cnpj_checks_agree_witness:
  "normalize_cnpj ''11.222.333/0001-81'' = Inr ''11222333000181''"
proof -
  have "validate_identifier False ''BR_CNPJ'' ''11.222.333/0001-81'' = Inr ''11222333000181''" by code_simp
  then show ?thesis using cnpj_checks_agree[of False "''11.222.333/0001-81''" "''11222333000181''"] by blast
qed

end
