(* ===== verification/Service_Calls.thy ===== *)
theory Service_Calls
  imports Rubrica_Prelude
begin

text \<open>
  What the services share when they call other services: the Redis commands they use, the encoding
  of queries, and Python's operations on the JSON values that an answer decodes to.
\<close>

section \<open>Redis\<close>

text \<open>
  Keys hold a value and an optional expiry; a key past its expiry is absent. Each family of
  keys (token pointers, session payloads, counters, sets of session ids) has one value type.
\<close>

type_synonym 'v store = "(string, 'v \<times> datetime option) dict"

definition live :: "datetime \<Rightarrow> datetime option \<Rightarrow> bool" where
  "live now e = (case e of None \<Rightarrow> True | Some t \<Rightarrow> now < t)"

definition rd_get :: "datetime \<Rightarrow> 'v store \<Rightarrow> string \<Rightarrow> 'v option" where
  "rd_get now st k =
     (case dict_get st k of None \<Rightarrow> None | Some (v, e) \<Rightarrow> if live now e then Some v else None)"

definition rd_set :: "string \<Rightarrow> 'v \<Rightarrow> datetime option \<Rightarrow> 'v store \<Rightarrow> 'v store" where
  "rd_set k v e st = dict_set k (v, e) st"

definition rd_del :: "string \<Rightarrow> 'v store \<Rightarrow> 'v store" where
  "rd_del k st = dict_del k st"

text \<open>\<open>EXPIRE\<close> on a live key; \<open>INCR\<close> keeps the expiry of a live key and starts an absent one at 1.\<close>

definition rd_expire :: "datetime \<Rightarrow> string \<Rightarrow> int \<Rightarrow> 'v store \<Rightarrow> 'v store" where
  "rd_expire now k ttl st =
     (case rd_get now st k of None \<Rightarrow> st | Some v \<Rightarrow> rd_set k v (Some (now + seconds ttl)) st)"

definition rd_incr :: "datetime \<Rightarrow> string \<Rightarrow> int store \<Rightarrow> int \<times> int store" where
  "rd_incr now k st =
     (case dict_get st k of
        None \<Rightarrow> (1, rd_set k 1 None st)
      | Some (n, e) \<Rightarrow> if live now e then (n + 1, rd_set k (n + 1) e st) else (1, rd_set k 1 None st))"

definition rd_sadd :: "datetime \<Rightarrow> string \<Rightarrow> string \<Rightarrow> string list store \<Rightarrow> string list store" where
  "rd_sadd now k m st =
     (case dict_get st k of
        None \<Rightarrow> rd_set k [m] None st
      | Some (ms, e) \<Rightarrow> if live now e then rd_set k (List.insert m ms) e st else rd_set k [m] None st)"

definition rd_srem :: "datetime \<Rightarrow> string \<Rightarrow> string \<Rightarrow> string list store \<Rightarrow> string list store" where
  "rd_srem now k m st =
     (case dict_get st k of
        None \<Rightarrow> st
      | Some (ms, e) \<Rightarrow> if live now e then rd_set k (filter (\<lambda>x. x \<noteq> m) ms) e st else st)"

definition rd_smembers :: "datetime \<Rightarrow> string list store \<Rightarrow> string \<Rightarrow> string list" where
  "rd_smembers now st k = (case rd_get now st k of None \<Rightarrow> [] | Some ms \<Rightarrow> ms)"

lemma rd_get_set [dict_simps, simp]:
  "rd_get now (rd_set k v e st) k' = (if k' = k then (if live now e then Some v else None) else rd_get now st k')"
  by (simp add: rd_get_def rd_set_def)

lemma rd_get_del [dict_simps, simp]: "rd_get now (rd_del k st) k' = (if k' = k then None else rd_get now st k')"
  by (simp add: rd_get_def rd_del_def)

lemma rd_get_expire [dict_simps, simp]:
  "0 < ttl \<Longrightarrow> rd_get now (rd_expire now k ttl st) k' = rd_get now st k'"
  by (auto simp: rd_expire_def live_def split: option.splits)

lemma rd_get_expire_other [dict_simps, simp]:
  "k' \<noteq> k \<Longrightarrow> rd_get later (rd_expire now k ttl st) k' = rd_get later st k'"
  by (auto simp: rd_expire_def split: option.splits)

lemma live_None [simp]: "live now None"
  by (simp add: live_def)

lemma live_Some [simp]: "live now (Some e) \<longleftrightarrow> now < e"
  by (simp add: live_def)

text \<open>At any instant a store with its writes without expiry is a key-value store.\<close>

interpretation redis_now: key_value_store "\<lambda>st k. rd_get now st k" "\<lambda>k v. rd_set k v None" rd_del "[]" for now
  by unfold_locales (simp_all add: rd_get_def rd_set_def rd_del_def)

text \<open>Expiry is monotone: a key that is absent stays absent as time passes.\<close>

lemma rd_get_mono: "now \<le> later \<Longrightarrow> rd_get later st k = Some v \<Longrightarrow> rd_get now st k = Some v"
  by (auto simp: rd_get_def live_def split: option.splits if_splits)

section \<open>Queries\<close>

text \<open>\<open>quote_plus\<close>: unreserved characters stay, a space is \<open>+\<close>, every other byte is \<open>%XX\<close>.\<close>

definition hex_upper :: "nat \<Rightarrow> char" where
  "hex_upper d = (if d < 10 then char_of (48 + d) else char_of (55 + d))"

definition quote_plus :: "string \<Rightarrow> string" where
  "quote_plus s = concat (map (\<lambda>c.
     if is_alnum c \<or> c \<in> {CHR ''_'', CHR ''.'', CHR ''-'', CHR ''~''} then [c]
     else if c = CHR '' '' then ''+''
     else [CHR ''%'', hex_upper (of_char c div 16), hex_upper (of_char c mod 16)]) s)"

lemma hex_upper_code [code]:
  "hex_upper d = (let n = int d in if n < 10 then char_of (48 + n) else char_of (55 + n))"
proof -
  have "(char_of (48 + int d) :: char) = char_of (48 + d)" "(char_of (55 + int d) :: char) = char_of (55 + d)"
    by (metis char_of_nat of_nat_add of_nat_numeral)+
  then show ?thesis by (simp add: hex_upper_def Let_def)
qed

definition urlencode :: "(string \<times> string) list \<Rightarrow> string" where
  "urlencode kvs = join ''&'' (map (\<lambda>(k, v). quote_plus k @ ''='' @ quote_plus v) kvs)"

section \<open>JSON values\<close>

text \<open>\<open>value.get(key)\<close>, \<open>value[key]\<close>, \<open>len(value)\<close> and \<open>value[0]\<close> of a decoded value.\<close>

definition json_get :: "json \<Rightarrow> string \<Rightarrow> json option result" where
  "json_get v k = (case v of JObj d \<Rightarrow> Inr (dict_get d k) | _ \<Rightarrow> Inl AttributeError)"

definition json_get_or :: "json \<Rightarrow> string \<Rightarrow> json \<Rightarrow> json result" where
  "json_get_or v k missing = map_sum id (\<lambda>x. case x of None \<Rightarrow> missing | Some y \<Rightarrow> y) (json_get v k)"

definition json_item :: "json \<Rightarrow> string \<Rightarrow> json result" where
  "json_item v k =
     (case v of
        JObj d \<Rightarrow> (case dict_get d k of None \<Rightarrow> Inl KeyError | Some x \<Rightarrow> Inr x)
      | _ \<Rightarrow> Inl (TypeError k))"

definition json_len :: "json \<Rightarrow> nat result" where
  "json_len v =
     (case v of
        JList xs \<Rightarrow> Inr (length xs)
      | JObj d \<Rightarrow> Inr (length d)
      | JStr s \<Rightarrow> Inr (length s)
      | _ \<Rightarrow> Inl (TypeError ''len''))"

definition json_first :: "json \<Rightarrow> json result" where
  "json_first v =
     (case v of
        JList (x # _) \<Rightarrow> Inr x
      | JList [] \<Rightarrow> Inl IndexError
      | JStr (c # _) \<Rightarrow> Inr (JStr [c])
      | JStr [] \<Rightarrow> Inl IndexError
      | JObj _ \<Rightarrow> Inl KeyError
      | _ \<Rightarrow> Inl (TypeError ''index''))"

text \<open>A value Python takes as true; \<open>None\<close> is a missing key.\<close>

definition truthy :: "json \<Rightarrow> bool" where
  "truthy v = (case v of
     JNull \<Rightarrow> False | JBool b \<Rightarrow> b | JInt n \<Rightarrow> n \<noteq> 0 | JFloat q \<Rightarrow> q \<noteq> 0 | JStr s \<Rightarrow> s \<noteq> []
   | JUuid _ \<Rightarrow> True | JTime _ \<Rightarrow> True | JList xs \<Rightarrow> xs \<noteq> [] | JObj d \<Rightarrow> d \<noteq> [])"

definition py_true :: "json option \<Rightarrow> bool" where
  "py_true v = (case v of None \<Rightarrow> False | Some x \<Rightarrow> truthy x)"

end
