(* ===== verification/Auth_State.thy ===== *)
theory Auth_State
  imports Identifiers Service_Calls
begin

text \<open>
  The state of the auth API: its tables (\<open>user_entity.py\<close>, \<open>user_identifier_entity.py\<close>)
  and the parameters for the libraries it calls.
\<close>

section \<open>Tables\<close>

record user =
  usr_id :: uuid
  usr_email :: string
  usr_public_slug :: string
  usr_name :: "string option"
  usr_preferred_locale :: string
  usr_email_verified :: bool
  usr_mfa_enabled :: bool
  usr_mfa_exempt :: bool
  usr_mfa_secret_ciphertext :: "string option"
  usr_mfa_pending_secret_ciphertext :: "string option"
  usr_mfa_last_used_step :: "int option"
  usr_password_hash :: string
  usr_token_version :: int
  usr_is_active :: bool
  usr_deleted_at :: "datetime option"

record account_token =
  tok_user_id :: uuid
  tok_purpose :: string
  tok_token_hash :: string
  tok_expires_at :: datetime
  tok_consumed_at :: "datetime option"
  tok_deleted_at :: "datetime option"

record recovery_code =
  rec_id :: uuid
  rec_user_id :: uuid
  rec_code_hash :: string
  rec_consumed_at :: "datetime option"
  rec_deleted_at :: "datetime option"

record mfa_event =
  mev_user_id :: uuid
  mev_action :: string

record auth_db =
  adb_users :: "user list"
  adb_identifiers :: "user_identifier list"
  adb_tokens :: "account_token list"
  adb_recovery :: "recovery_code list"
  adb_events :: "mfa_event list"
  adb_roles :: "(uuid \<times> string) list"
  adb_next :: uuid

text \<open>\<open>database.get(UserEntity, id)\<close> and the assignment to a loaded user.\<close>

definition user_by_id :: "auth_db \<Rightarrow> uuid \<Rightarrow> user option" where
  "user_by_id db uid = List.find (\<lambda>u. usr_id u = uid) (adb_users db)"

definition user_set :: "uuid \<Rightarrow> (user \<Rightarrow> user) \<Rightarrow> auth_db \<Rightarrow> auth_db" where
  "user_set uid f db = db\<lparr>adb_users := table_update (\<lambda>u. usr_id u = uid) f (adb_users db)\<rparr>"

text \<open>Primary keys and the unique columns the database enforces.\<close>

definition auth_keys_ok :: "auth_db \<Rightarrow> bool" where
  "auth_keys_ok db \<longleftrightarrow> distinct (map usr_id (adb_users db)) \<and> distinct (map usr_email (adb_users db)) \<and>
     distinct (map rec_id (adb_recovery db)) \<and> distinct (map tok_token_hash (adb_tokens db))"

section \<open>Libraries\<close>

text \<open>
  The third-party operations: \<open>hashpw\<close>/\<open>checkpw\<close> (bcrypt), Fernet, and \<open>pyotp.TOTP\<close> with
  \<open>valid_window=1\<close>. \<open>lib_digest\<close> is the hexadecimal SHA-256 of a text.
\<close>

record auth_lib =
  lib_digest :: "string \<Rightarrow> string"
  lib_hash_password :: "string \<Rightarrow> string"
  lib_check_password :: "string \<Rightarrow> string \<Rightarrow> bool"
  lib_encrypt :: "string \<Rightarrow> string"
  lib_decrypt :: "string \<Rightarrow> string"
  lib_totp_verify :: "string \<Rightarrow> string \<Rightarrow> datetime \<Rightarrow> bool"
  lib_timecode :: "datetime \<Rightarrow> int"

end
