(* ===== verification/Mfa.thy ===== *)
theory Mfa
  imports Auth_State
begin

text \<open>
  \<open>mfa/mfa_service.py\<close>: enrolment, recovery codes and the verification of codes. A method that
  raises rolls its transaction back. Random secrets and codes are arguments.
\<close>

section \<open>Operations\<close>

definition mfa_user :: "auth_db \<Rightarrow> string \<Rightarrow> user result" where
  "mfa_user db subject =
     (case List.find (\<lambda>u. usr_email u = lower subject \<and> usr_deleted_at u = None) (adb_users db) of
        None \<Rightarrow> Inl (MfaError ''User not found'')
      | Some u \<Rightarrow> Inr u)"

definition mfa_audit :: "uuid \<Rightarrow> string \<Rightarrow> auth_db \<Rightarrow> auth_db" where
  "mfa_audit uid action db = db\<lparr>adb_events := adb_events db @ [\<lparr>mev_user_id = uid, mev_action = action\<rparr>]\<rparr>"

text \<open>\<open>setup\<close> returns the secret; the provisioning URI is built from it by \<open>pyotp\<close>.\<close>

definition mfa_setup :: "auth_lib \<Rightarrow> string \<Rightarrow> string \<Rightarrow> auth_db \<Rightarrow> string result \<times> auth_db" where
  "mfa_setup K secret subject db =
     (case mfa_user db subject of
        Inl e \<Rightarrow> (Inl e, db)
      | Inr u \<Rightarrow>
          (Inr secret, mfa_audit (usr_id u) ''mfa.setup_started''
             (user_set (usr_id u) (\<lambda>x. x\<lparr>usr_mfa_pending_secret_ciphertext := Some (lib_encrypt K secret)\<rparr>) db)))"

definition verify_totp :: "auth_lib \<Rightarrow> datetime \<Rightarrow> string \<Rightarrow> string \<Rightarrow> bool" where
  "verify_totp K now secret code = lib_totp_verify K secret (filter (\<lambda>c. c \<noteq> CHR '' '') code) now"

text \<open>The rows added for new recovery codes, each with a fresh id.\<close>

definition recovery_rows :: "auth_lib \<Rightarrow> uuid \<Rightarrow> uuid \<Rightarrow> string list \<Rightarrow> recovery_code list" where
  "recovery_rows K first uid codes =
     map2 (\<lambda>i code. \<lparr>rec_id = first + i, rec_user_id = uid, rec_code_hash = lib_hash_password K code,
                     rec_consumed_at = None, rec_deleted_at = None\<rparr>) [0..<length codes] codes"

definition replace_recovery :: "auth_lib \<Rightarrow> uuid \<Rightarrow> string list \<Rightarrow> auth_db \<Rightarrow> auth_db" where
  "replace_recovery K uid codes db =
     db\<lparr>adb_recovery := filter (\<lambda>r. rec_user_id r \<noteq> uid) (adb_recovery db) @ recovery_rows K (adb_next db) uid codes,
        adb_next := adb_next db + length codes\<rparr>"

definition mfa_confirm ::
  "auth_lib \<Rightarrow> datetime \<Rightarrow> string list \<Rightarrow> string \<Rightarrow> string \<Rightarrow> auth_db \<Rightarrow> string list result \<times> auth_db"
where
  "mfa_confirm K now codes subject code db =
     (case mfa_user db subject of
        Inl e \<Rightarrow> (Inl e, db)
      | Inr u \<Rightarrow>
          (case usr_mfa_pending_secret_ciphertext u of
             None \<Rightarrow> (Inl (MfaError ''MFA setup has not been started''), db)
           | Some pending \<Rightarrow>
               if pending = [] then (Inl (MfaError ''MFA setup has not been started''), db)
               else if \<not> verify_totp K now (lib_decrypt K pending) code
               then (Inl (MfaError ''MFA code is invalid''), db)
               else
                 (Inr codes, mfa_audit (usr_id u) ''mfa.enabled''
                    (replace_recovery K (usr_id u) codes
                      (user_set (usr_id u) (\<lambda>x. x\<lparr>usr_mfa_secret_ciphertext := Some pending,
                         usr_mfa_pending_secret_ciphertext := None, usr_mfa_enabled := True,
                         usr_mfa_last_used_step := Some (lib_timecode K now)\<rparr>) db)))))"

definition unused_code :: "uuid \<Rightarrow> recovery_code \<Rightarrow> bool" where
  "unused_code uid r = (rec_user_id r = uid \<and> rec_consumed_at r = None \<and> rec_deleted_at r = None)"

definition mfa_status :: "string \<Rightarrow> auth_db \<Rightarrow> (bool \<times> bool \<times> bool \<times> nat) result" where
  "mfa_status subject db =
     (case mfa_user db subject of
        Inl e \<Rightarrow> Inl e
      | Inr u \<Rightarrow> Inr (usr_mfa_enabled u, True, \<not> usr_mfa_enabled u,
                      length (filter (unused_code (usr_id u)) (adb_recovery db))))"

definition normalize_code :: "string \<Rightarrow> string" where
  "normalize_code code = upper (filter (\<lambda>c. c \<noteq> CHR '' '') (filter (\<lambda>c. c \<noteq> CHR ''-'') code))"

text \<open>The recovery codes are tried in turn; the first match is consumed.\<close>

definition use_recovery_code :: "auth_lib \<Rightarrow> datetime \<Rightarrow> uuid \<Rightarrow> string \<Rightarrow> auth_db \<Rightarrow> bool \<times> auth_db" where
  "use_recovery_code K now uid normalized db =
     (case List.find (\<lambda>r. lib_check_password K normalized (rec_code_hash r))
             (filter (unused_code uid) (adb_recovery db)) of
        None \<Rightarrow> (False, db)
      | Some r \<Rightarrow>
          (True, db\<lparr>adb_recovery := table_update (\<lambda>x. rec_id x = rec_id r)
                      (\<lambda>x. x\<lparr>rec_consumed_at := Some now\<rparr>) (adb_recovery db)\<rparr>))"

definition verify_user_code ::
  "auth_lib \<Rightarrow> datetime \<Rightarrow> user \<Rightarrow> string \<Rightarrow> auth_db \<Rightarrow> bool \<times> auth_db"
where
  "verify_user_code K now u code db =
     (let normalized = normalize_code code; step = lib_timecode K now in
      case usr_mfa_secret_ciphertext u of
        Some c \<Rightarrow>
          if c \<noteq> [] \<and> lib_totp_verify K (lib_decrypt K c) normalized now
          then (case usr_mfa_last_used_step u of
                  Some used \<Rightarrow>
                    if step \<le> used then (False, db)
                    else (True, user_set (usr_id u) (\<lambda>x. x\<lparr>usr_mfa_last_used_step := Some step\<rparr>) db)
                | None \<Rightarrow> (True, user_set (usr_id u) (\<lambda>x. x\<lparr>usr_mfa_last_used_step := Some step\<rparr>) db))
          else use_recovery_code K now (usr_id u) normalized db
      | None \<Rightarrow> use_recovery_code K now (usr_id u) normalized db)"

definition mfa_regenerate ::
  "auth_lib \<Rightarrow> datetime \<Rightarrow> string list \<Rightarrow> string \<Rightarrow> string \<Rightarrow> string \<Rightarrow> auth_db \<Rightarrow> string list result \<times> auth_db"
where
  "mfa_regenerate K now codes subject password code db =
     (case mfa_user db subject of
        Inl e \<Rightarrow> (Inl e, db)
      | Inr u \<Rightarrow>
          if \<not> lib_check_password K password (usr_password_hash u)
          then (Inl (MfaError ''Password is invalid''), db)
          else if \<not> usr_mfa_enabled u then (Inl (MfaError ''MFA code is invalid''), db)
          else (case verify_user_code K now u code db of
                  (False, _) \<Rightarrow> (Inl (MfaError ''MFA code is invalid''), db)
                | (True, db1) \<Rightarrow>
                    (Inr codes, mfa_audit (usr_id u) ''mfa.recovery_codes_regenerated''
                       (replace_recovery K (usr_id u) codes db1))))"

definition mfa_disable :: "string \<Rightarrow> string \<Rightarrow> string \<Rightarrow> auth_db \<Rightarrow> unit result \<times> auth_db" where
  "mfa_disable subject password code db = (Inl (MfaError ''MFA is required for every account''), db)"

section \<open>Lemmas\<close>

lemma find_by_Some: "List.find (\<lambda>u. k u = v) xs = Some x \<Longrightarrow> k x = v"
  by (auto simp: find_Some_iff)

lemma user_by_id_set [simp]:
  "(\<And>x. usr_id (f x) = usr_id x) \<Longrightarrow>
   user_by_id (user_set uid f db) v = map_option (\<lambda>x. if v = uid then f x else x) (user_by_id db v)"
proof -
  assume f: "\<And>x. usr_id (f x) = usr_id x"
  show ?thesis
  proof (cases "List.find (\<lambda>u. usr_id u = v) (adb_users db)")
    case (Some u)
    then have "usr_id u = v" by (rule find_by_Some)
    then show ?thesis using f Some by (auto simp: user_by_id_def user_set_def find_table_update)
  qed (simp add: f user_by_id_def user_set_def find_table_update)
qed

lemma user_by_id_cong: "adb_users db' = adb_users db \<Longrightarrow> user_by_id db' v = user_by_id db v"
  by (simp add: user_by_id_def)

lemma unused_after_use:
  assumes "distinct (map rec_id rows)" "r \<in> set rows" "unused_code uid r"
  shows "length (filter (unused_code uid) rows) =
    Suc (length (filter (unused_code uid) (table_update (\<lambda>x. rec_id x = rec_id r) (\<lambda>x. x\<lparr>rec_consumed_at := Some now\<rparr>) rows)))"
  using assms
proof (induction rows)
  case (Cons y rows)
  show ?case
  proof (cases "y = r")
    case True
    then have "table_update (\<lambda>x. rec_id x = rec_id r) (\<lambda>x. x\<lparr>rec_consumed_at := Some now\<rparr>) rows = rows"
      using Cons.prems(1) by (intro table_update_id) (auto simp: rev_image_eqI)
    then show ?thesis using True Cons.prems(3) by (simp add: table_update_def unused_code_def)
  next
    case False
    then have "r \<in> set rows" using Cons.prems(2) by simp
    moreover have "rec_id y \<noteq> rec_id r" using Cons.prems(1) \<open>r \<in> set rows\<close> by (auto simp: rev_image_eqI)
    ultimately show ?thesis using Cons by (simp add: table_update_def)
  qed
qed simp

lemma use_recovery_code_cases:
  assumes "auth_keys_ok db"
  obtains (no) "use_recovery_code K now uid code db = (False, db)"
  | (yes) db' where "use_recovery_code K now uid code db = (True, db')" "adb_users db' = adb_users db"
      "auth_keys_ok db'"
      "length (filter (unused_code uid) (adb_recovery db)) = Suc (length (filter (unused_code uid) (adb_recovery db')))"
proof (cases "List.find (\<lambda>r. lib_check_password K code (rec_code_hash r)) (filter (unused_code uid) (adb_recovery db))")
  case None
  then show thesis using no by (simp add: use_recovery_code_def)
next
  case (Some r)
  let ?db' = "db\<lparr>adb_recovery := table_update (\<lambda>x. rec_id x = rec_id r) (\<lambda>x. x\<lparr>rec_consumed_at := Some now\<rparr>)
                  (adb_recovery db)\<rparr>"
  have r: "r \<in> set (adb_recovery db)" "unused_code uid r" using find_Some_iff_hd[OF Some] by auto
  have "distinct (map rec_id (adb_recovery db))" using assms by (simp add: auth_keys_ok_def)
  note count = unused_after_use[OF this r, of now]
  moreover have "auth_keys_ok ?db'" using assms by (simp add: auth_keys_ok_def map_table_update)
  ultimately show thesis using yes[of ?db'] Some by (simp add: use_recovery_code_def)
qed

lemma user_set_keys:
  assumes "auth_keys_ok db" "\<And>x. usr_id (f x) = usr_id x" "\<And>x. usr_email (f x) = usr_email x"
  shows "auth_keys_ok (user_set uid f db)"
  using assms by (simp add: auth_keys_ok_def user_set_def map_table_update)

text \<open>The three outcomes of a verification.\<close>

lemma verify_outcomes:
  "verify_user_code K now u code db = (False, db) \<or>
   (verify_user_code K now u code db =
      (True, user_set (usr_id u) (\<lambda>x. x\<lparr>usr_mfa_last_used_step := Some (lib_timecode K now)\<rparr>) db) \<and>
    (\<forall>p. usr_mfa_last_used_step u = Some p \<longrightarrow> p < lib_timecode K now)) \<or>
   verify_user_code K now u code db = use_recovery_code K now (usr_id u) (normalize_code code) db"
  by (auto simp: verify_user_code_def Let_def split: option.splits)

lemma verify_cases:
  assumes keys: "auth_keys_ok db" and u: "user_by_id db uid = Some u"
  obtains (reject) "verify_user_code K now u code db = (False, db)"
  | (totp) db' u' where "verify_user_code K now u code db = (True, db')" "auth_keys_ok db'"
      "user_by_id db' uid = Some u'" "usr_mfa_last_used_step u' = Some (lib_timecode K now)"
      "\<And>p. usr_mfa_last_used_step u = Some p \<Longrightarrow> p < lib_timecode K now" "adb_recovery db' = adb_recovery db"
  | (recovery) db' where "verify_user_code K now u code db = (True, db')" "auth_keys_ok db'"
      "adb_users db' = adb_users db"
      "length (filter (unused_code uid) (adb_recovery db)) = Suc (length (filter (unused_code uid) (adb_recovery db')))"
proof -
  have uid: "usr_id u = uid" using find_Some_iff_hd[OF u[unfolded user_by_id_def]] by simp
  let ?rec = "use_recovery_code K now uid (normalize_code code) db"
  let ?db' = "user_set uid (\<lambda>x. x\<lparr>usr_mfa_last_used_step := Some (lib_timecode K now)\<rparr>) db"
  consider (totp_bad) "verify_user_code K now u code db = (False, db)"
    | (totp_good) "verify_user_code K now u code db = (True, ?db')"
        "\<And>p. usr_mfa_last_used_step u = Some p \<Longrightarrow> p < lib_timecode K now"
    | (rec) "verify_user_code K now u code db = ?rec"
    using verify_outcomes[of K now u code db] unfolding uid by blast
  then show thesis
  proof cases
    case totp_bad
    then show thesis by (rule reject)
  next
    case totp_good
    have "auth_keys_ok ?db'" by (rule user_set_keys[OF keys]) simp_all
    moreover have "adb_recovery ?db' = adb_recovery db" by (simp add: user_set_def)
    ultimately show thesis
      using totp_good u by (intro totp[of ?db' "u\<lparr>usr_mfa_last_used_step := Some (lib_timecode K now)\<rparr>"]) simp_all
  next
    case rec
    show thesis
      by (rule use_recovery_code_cases[OF keys, of K now uid "normalize_code code"]) (use rec reject recovery in auto)
  qed
qed

text \<open>A sequence of verifications for one user, each reading the user afresh; the number accepted.\<close>

fun accepted :: "auth_lib \<Rightarrow> uuid \<Rightarrow> (datetime \<times> string) list \<Rightarrow> auth_db \<Rightarrow> nat" where
  "accepted K uid [] db = 0"
| "accepted K uid ((now, code) # attempts) db =
     (case user_by_id db uid of
        None \<Rightarrow> 0
      | Some u \<Rightarrow> (case verify_user_code K now u code db of
                    (ok, db') \<Rightarrow> (if ok then 1 else 0) + accepted K uid attempts db'))"

text \<open>What is left to accept within the time step \<open>k\<close>.\<close>

definition allowance :: "int \<Rightarrow> uuid \<Rightarrow> auth_db \<Rightarrow> nat" where
  "allowance k uid db = length (filter (unused_code uid) (adb_recovery db)) +
     (case user_by_id db uid of None \<Rightarrow> 0
      | Some u \<Rightarrow> (case usr_mfa_last_used_step u of Some p \<Rightarrow> if k \<le> p then 0 else 1 | None \<Rightarrow> 1))"

lemma accepted_le_allowance:
  assumes "auth_keys_ok db" "\<forall>(now, code)\<in>set attempts. lib_timecode K now = k"
  shows "accepted K uid attempts db \<le> allowance k uid db"
  using assms
proof (induction attempts arbitrary: db)
  case (Cons a attempts)
  obtain now code where a: "a = (now, code)" by fastforce
  show ?case
  proof (cases "user_by_id db uid")
    case (Some u)
    have k: "lib_timecode K now = k" using Cons.prems(2) a by simp
    show ?thesis
    proof (rule verify_cases[OF Cons.prems(1) Some, of K now code])
      assume "verify_user_code K now u code db = (False, db)"
      then show ?thesis using Cons a Some by simp
    next
      fix db' u' assume v: "verify_user_code K now u code db = (True, db')" "auth_keys_ok db'"
        "user_by_id db' uid = Some u'" "usr_mfa_last_used_step u' = Some (lib_timecode K now)"
        "\<And>p. usr_mfa_last_used_step u = Some p \<Longrightarrow> p < lib_timecode K now" "adb_recovery db' = adb_recovery db"
      have "allowance k uid db = Suc (allowance k uid db')"
        using v Some k by (auto simp: allowance_def split: option.splits)
      then show ?thesis using Cons.IH[OF v(2)] Cons.prems(2) a Some v(1) by simp
    next
      fix db' assume v: "verify_user_code K now u code db = (True, db')" "auth_keys_ok db'"
        "adb_users db' = adb_users db"
        "length (filter (unused_code uid) (adb_recovery db)) = Suc (length (filter (unused_code uid) (adb_recovery db')))"
      have "allowance k uid db = Suc (allowance k uid db')"
        using v(4) user_by_id_cong[OF v(3)] by (simp add: allowance_def)
      then show ?thesis using Cons.IH[OF v(2)] Cons.prems(2) a Some v(1) by simp
    qed
  qed (simp add: a)
qed simp

section \<open>Properties\<close>

text \<open>A concrete user with one recovery code; codes of the concrete library are the digits of the step.\<close>

definition demo_lib :: auth_lib where
  "demo_lib = \<lparr>lib_digest = (\<lambda>t. CHR ''d'' # t), lib_hash_password = (\<lambda>p. CHR ''h'' # p),
     lib_check_password = (\<lambda>p h. h = CHR ''h'' # p), lib_encrypt = (\<lambda>x. CHR ''e'' # x), lib_decrypt = tl,
     lib_totp_verify = (\<lambda>s c now. let k = now div 30000000 in
        c \<in> {s @ replicate (nat (k - 1)) CHR ''1'', s @ replicate (nat k) CHR ''1'', s @ replicate (nat (k + 1)) CHR ''1''}),
     lib_timecode = (\<lambda>now. now div 30000000)\<rparr>"

definition demo_user :: user where
  "demo_user = \<lparr>usr_id = 0, usr_email = ''ana@x'', usr_public_slug = ''slug'', usr_name = Some ''Ana'',
     usr_preferred_locale = ''en'', usr_email_verified = True, usr_mfa_enabled = True, usr_mfa_exempt = False,
     usr_mfa_secret_ciphertext = Some ''eS'', usr_mfa_pending_secret_ciphertext = None,
     usr_mfa_last_used_step = None, usr_password_hash = ''hpw'', usr_token_version = 1, usr_is_active = True,
     usr_deleted_at = None\<rparr>"

definition demo_db :: auth_db where
  "demo_db = \<lparr>adb_users = [demo_user], adb_identifiers = [], adb_tokens = [],
     adb_recovery = [\<lparr>rec_id = 1, rec_user_id = 0, rec_code_hash = ''hR1'', rec_consumed_at = None, rec_deleted_at = None\<rparr>],
     adb_events = [], adb_roles = [], adb_next = 2\<rparr>"

lemma demo_db_keys: "auth_keys_ok demo_db"
  by code_simp

text \<open>C18: within one TOTP time step at most one authenticator code is accepted for a user, and every
  other acceptance uses up one of the user's unused recovery codes, whatever codes are tried.\<close>

theorem mfa_bounded_acceptance:
  assumes "auth_keys_ok db" "\<forall>(now, code)\<in>set attempts. lib_timecode K now = k"
  shows "accepted K uid attempts db \<le> Suc (length (filter (unused_code uid) (adb_recovery db)))"
proof -
  have "allowance k uid db \<le> Suc (length (filter (unused_code uid) (adb_recovery db)))"
    by (simp add: allowance_def split: option.splits)
  then show ?thesis using accepted_le_allowance[OF assms, of uid] by linarith
qed

theorem mfa_bounded_acceptance_witness:
  "accepted demo_lib 0 [(60000000, ''S11''), (60000001, ''S11''), (60000002, ''r1''), (60000003, ''r1'')] demo_db \<le> Suc 1"
proof -
  have "\<forall>(now, code)\<in>set [(60000000, ''S11''), (60000001, ''S11''), (60000002, ''r1''), (60000003, ''r1'')].
      lib_timecode demo_lib now = 2" by code_simp
  note mfa_bounded_acceptance[OF demo_db_keys this, of 0]
  moreover have "length (filter (unused_code 0) (adb_recovery demo_db)) = 1" by code_simp
  ultimately show ?thesis by simp
qed

text \<open>an authenticator code is accepted twice. The verification accepts the codes of the previous,
  current and next step but records the current step as used, so a code accepted in its own step is
  accepted again in the next one.\<close>

theorem mfa_code_replay:
  assumes window: "\<And>s c now. lib_totp_verify K s c now \<longleftrightarrow>
      (\<exists>d\<in>{-1, 0, 1}. c = otp s (lib_timecode K now + d))"
    and u: "user_by_id db uid = Some u" "usr_mfa_secret_ciphertext u = Some c" "c \<noteq> []"
      "\<And>p. usr_mfa_last_used_step u = Some p \<Longrightarrow> p < k"
    and code: "normalize_code code = otp (lib_decrypt K c) k"
    and steps: "lib_timecode K t1 = k" "lib_timecode K t2 = k + 1"
  shows "accepted K uid [(t1, code), (t2, code)] db = 2"
proof -
  have uid: "usr_id u = uid" using find_Some_iff_hd[OF u(1)[unfolded user_by_id_def]] by simp
  let ?db1 = "user_set uid (\<lambda>x. x\<lparr>usr_mfa_last_used_step := Some k\<rparr>) db"
  have ok: "lib_totp_verify K (lib_decrypt K c) (normalize_code code) t1"
    "lib_totp_verify K (lib_decrypt K c) (normalize_code code) t2"
    unfolding window code steps by (rule bexI[of _ 0], simp, simp) (rule bexI[of _ "-1"], simp, simp)
  have v1: "verify_user_code K t1 u code db = (True, ?db1)"
    using u(2-4) steps ok(1) uid by (cases "usr_mfa_last_used_step u") (simp_all add: verify_user_code_def)
  have u1: "user_by_id ?db1 uid = Some (u\<lparr>usr_mfa_last_used_step := Some k\<rparr>)" using u(1) by simp
  have "\<exists>db2. verify_user_code K t2 (u\<lparr>usr_mfa_last_used_step := Some k\<rparr>) code ?db1 = (True, db2)"
    using u(2,3) steps ok(2) by (simp add: verify_user_code_def)
  then show ?thesis using u(1) v1 u1 by auto
qed

theorem mfa_code_replay_witness:
  "accepted demo_lib 0 [(60000000, ''S11''), (90000000, ''S11'')] demo_db = 2"
proof (rule mfa_code_replay[where otp = "\<lambda>s k. s @ replicate (nat k) CHR ''1''" and u = demo_user and c = "''eS''" and k = 2])
  show "lib_totp_verify demo_lib s c now \<longleftrightarrow>
      (\<exists>d\<in>{-1, 0, 1}. c = s @ replicate (nat (lib_timecode demo_lib now + d)) CHR ''1'')" for s c now
    by (auto simp: demo_lib_def Let_def)
qed (simp_all add: demo_lib_def demo_user_def demo_db_def user_by_id_def normalize_code_def, code_simp)

end
