(* ===== verification/Sessions.thy ===== *)
theory Sessions
  imports Mfa "HOL-Library.List_Lexorder" "HOL-Library.Char_ord"
begin

text \<open>
  \<open>sessions/session_service.py\<close> and \<open>access_control/access_control_service.py\<close>: login with a
  rate limit, MFA challenges, refresh-token rotation with detection of reuse, logout, and the
  context of a session. The random tokens are arguments. A method is one step: the refresh
  script is atomic in Redis, and the other methods are not run concurrently on one session.
\<close>

section \<open>Keys and state\<close>

text \<open>\<open>state["user_id"]\<close> is a UUID text, or a decimal number in sessions stored before the UUIDs.\<close>

datatype user_ref = UserUuid uuid | UserInt nat

fun user_identifier :: "user_ref \<Rightarrow> uuid" where
  "user_identifier (UserUuid u) = u"
| "user_identifier (UserInt n) = n"

fun nat_str :: "nat \<Rightarrow> string" where
  "nat_str n = (if n < 10 then [char_of (48 + n)] else nat_str (n div 10) @ [char_of (48 + n mod 10)])"

declare nat_str.simps [simp del]

record session_state =
  ss_session_id :: string
  ss_user_id :: user_ref
  ss_subject :: string
  ss_token_version :: int
  ss_access_key :: string
  ss_refresh_key :: string

record session_settings =
  cfg_prefix :: string
  cfg_access_ttl :: int
  cfg_session_ttl :: int
  cfg_mfa_ttl :: int

record redis =
  rd_pointers :: "string store"
  rd_payloads :: "session_state store"
  rd_counters :: "int store"
  rd_members :: "string list store"
  rd_challenges :: "user_ref store"

definition session_key :: "session_settings \<Rightarrow> string \<Rightarrow> string" where
  "session_key C sid = cfg_prefix C @ '':session:'' @ sid"

definition user_sessions_key :: "session_settings \<Rightarrow> string \<Rightarrow> string" where
  "user_sessions_key C u = cfg_prefix C @ '':user:'' @ u @ '':sessions''"

definition token_key :: "session_settings \<Rightarrow> auth_lib \<Rightarrow> string \<Rightarrow> string \<Rightarrow> string" where
  "token_key C K kind token = cfg_prefix C @ '':'' @ kind @ '':'' @ lib_digest K token"

definition new_token :: "string \<Rightarrow> string \<Rightarrow> string" where
  "new_token kind random = kind @ ''_'' @ random"

text \<open>The keys of the sets that hold the sessions of the user of a state.\<close>

definition session_set_keys :: "session_settings \<Rightarrow> user_ref \<Rightarrow> string list" where
  "session_set_keys C r =
     user_sessions_key C (uuid_str (user_identifier r)) #
     (case r of UserUuid _ \<Rightarrow> [] | UserInt n \<Rightarrow> [user_sessions_key C (nat_str n)])"

section \<open>Private helpers\<close>

definition load_state :: "session_settings \<Rightarrow> datetime \<Rightarrow> redis \<Rightarrow> string \<Rightarrow> session_state option" where
  "load_state C now r sid = (if sid = [] then None else rd_get now (rd_payloads r) (session_key C sid))"

definition state_for_access ::
  "session_settings \<Rightarrow> auth_lib \<Rightarrow> datetime \<Rightarrow> redis \<Rightarrow> string \<Rightarrow> session_state option"
where
  "state_for_access C K now r token =
     (let key = token_key C K ''access'' token in
      case rd_get now (rd_pointers r) key of
        None \<Rightarrow> None
      | Some sid \<Rightarrow> (case load_state C now r sid of
                       None \<Rightarrow> None
                     | Some st \<Rightarrow> if ss_access_key st = key then Some st else None))"

definition state_for_refresh ::
  "session_settings \<Rightarrow> auth_lib \<Rightarrow> datetime \<Rightarrow> redis \<Rightarrow> string \<Rightarrow> session_state option"
where
  "state_for_refresh C K now r token =
     (let key = token_key C K ''refresh'' token in
      case rd_get now (rd_pointers r) key of
        None \<Rightarrow> None
      | Some sid \<Rightarrow> (case load_state C now r sid of
                       None \<Rightarrow> None
                     | Some st \<Rightarrow> if ss_refresh_key st = key then Some st else None))"

definition revoke_state :: "session_settings \<Rightarrow> datetime \<Rightarrow> session_state \<Rightarrow> redis \<Rightarrow> redis" where
  "revoke_state C now st r =
     r\<lparr>rd_pointers := rd_del (ss_refresh_key st) (rd_del (ss_access_key st) (rd_pointers r)),
       rd_payloads := rd_del (session_key C (ss_session_id st)) (rd_payloads r),
       rd_members := fold (\<lambda>k. rd_srem now k (ss_session_id st)) (session_set_keys C (ss_user_id st)) (rd_members r)\<rparr>"

definition user_is_active :: "auth_db \<Rightarrow> session_state \<Rightarrow> bool" where
  "user_is_active db st =
     (case user_by_id db (user_identifier (ss_user_id st)) of
        None \<Rightarrow> False
      | Some u \<Rightarrow> usr_is_active u \<and> usr_token_version u = ss_token_version st)"

record login_response =
  lr_access_token :: string
  lr_refresh_token :: string
  lr_session_id :: string

text \<open>\<open>_store_session\<close>; \<open>acc\<close> and \<open>ref\<close> are the two random texts.\<close>

definition store_session ::
  "session_settings \<Rightarrow> auth_lib \<Rightarrow> datetime \<Rightarrow> string \<Rightarrow> string \<Rightarrow> string \<Rightarrow> uuid \<Rightarrow> string \<Rightarrow> int \<Rightarrow> redis \<Rightarrow>
   login_response \<times> redis"
where
  "store_session C K now acc ref sid user_id subject version r =
     (let access = new_token ''access'' acc; refresh = new_token ''refresh'' ref;
          st = \<lparr>ss_session_id = sid, ss_user_id = UserUuid user_id, ss_subject = subject,
                ss_token_version = version, ss_access_key = token_key C K ''access'' access,
                ss_refresh_key = token_key C K ''refresh'' refresh\<rparr>;
          set_key = user_sessions_key C (uuid_str user_id);
          long = Some (now + seconds (cfg_session_ttl C)); short = Some (now + seconds (cfg_access_ttl C))
      in (\<lparr>lr_access_token = access, lr_refresh_token = refresh, lr_session_id = sid\<rparr>,
          r\<lparr>rd_payloads := rd_set (session_key C sid) st long (rd_payloads r),
            rd_pointers := rd_set (ss_refresh_key st) sid long (rd_set (ss_access_key st) sid short (rd_pointers r)),
            rd_members := rd_expire now set_key (cfg_session_ttl C) (rd_sadd now set_key sid (rd_members r))\<rparr>))"

definition create_session ::
  "session_settings \<Rightarrow> auth_lib \<Rightarrow> datetime \<Rightarrow> string \<Rightarrow> string \<Rightarrow> string \<Rightarrow> user \<Rightarrow> redis \<Rightarrow> login_response \<times> redis"
where
  "create_session C K now acc ref sid u r =
     store_session C K now acc ref sid (usr_id u) (usr_email u) (usr_token_version u) r"

definition create_mfa_challenge ::
  "session_settings \<Rightarrow> auth_lib \<Rightarrow> datetime \<Rightarrow> string \<Rightarrow> user \<Rightarrow> redis \<Rightarrow> redis"
where
  "create_mfa_challenge C K now ticket u r =
     r\<lparr>rd_challenges := rd_set (token_key C K ''mfa'' ticket) (UserUuid (usr_id u))
         (Some (now + seconds (cfg_mfa_ttl C))) (rd_challenges r)\<rparr>"

section \<open>Login\<close>

datatype login_outcome = LoggedIn login_response | MfaChallenge string int

text \<open>\<open>INCR\<close> followed by \<open>EXPIRE\<close> on the first attempt.\<close>

definition count_attempt :: "datetime \<Rightarrow> string \<Rightarrow> int \<Rightarrow> redis \<Rightarrow> int \<times> redis" where
  "count_attempt now key ttl r =
     (let (n, counters) = rd_incr now key (rd_counters r) in
      (n, r\<lparr>rd_counters := if n = 1 then rd_expire now key ttl counters else counters\<rparr>))"

definition login ::
  "session_settings \<Rightarrow> auth_lib \<Rightarrow> datetime \<Rightarrow> string \<Rightarrow> string \<Rightarrow> string \<Rightarrow> string \<Rightarrow> string \<Rightarrow> string \<Rightarrow>
   auth_db \<Rightarrow> redis \<Rightarrow> login_outcome option \<times> redis"
where
  "login C K now acc ref sid ticket email password db r =
     (let normalized = lower (strip email); rate_key = token_key C K ''login-attempts'' normalized;
          (attempts, r1) = count_attempt now rate_key 300 r
      in if 10 < attempts then (None, r1)
         else case List.find (\<lambda>u. usr_email u = normalized) (adb_users db) of
           None \<Rightarrow> (None, r1)
         | Some u \<Rightarrow>
             if \<not> usr_is_active u \<or> \<not> usr_email_verified u then (None, r1)
             else if \<not> lib_check_password K password (usr_password_hash u) then (None, r1)
             else let r2 = r1\<lparr>rd_counters := rd_del rate_key (rd_counters r1)\<rparr> in
               if usr_mfa_enabled u
               then (Some (MfaChallenge ticket (cfg_mfa_ttl C)), create_mfa_challenge C K now ticket u r2)
               else let (resp, r3) = create_session C K now acc ref sid u r2 in (Some (LoggedIn resp), r3))"

definition drop_challenge :: "string \<Rightarrow> string \<Rightarrow> redis \<Rightarrow> redis" where
  "drop_challenge challenge_key attempt_key r =
     r\<lparr>rd_challenges := rd_del challenge_key (rd_challenges r), rd_counters := rd_del attempt_key (rd_counters r)\<rparr>"

definition complete_mfa_challenge ::
  "session_settings \<Rightarrow> auth_lib \<Rightarrow> datetime \<Rightarrow> string \<Rightarrow> string \<Rightarrow> string \<Rightarrow> string \<Rightarrow> string \<Rightarrow>
   auth_db \<Rightarrow> redis \<Rightarrow> login_response option \<times> auth_db \<times> redis"
where
  "complete_mfa_challenge C K now acc ref sid ticket code db r =
     (let challenge_key = token_key C K ''mfa'' ticket; attempt_key = token_key C K ''mfa-attempts'' ticket;
          (attempts, r1) = count_attempt now attempt_key (cfg_mfa_ttl C) r
      in if 5 < attempts then (None, db, drop_challenge challenge_key attempt_key r1)
         else case rd_get now (rd_challenges r1) challenge_key of
           None \<Rightarrow> (None, db, r1)
         | Some raw \<Rightarrow>
             (case user_by_id db (user_identifier raw) of
                None \<Rightarrow> (None, db, r1)
              | Some u \<Rightarrow>
                  if \<not> usr_is_active u \<or> \<not> usr_email_verified u \<or> \<not> usr_mfa_enabled u then (None, db, r1)
                  else (case verify_user_code K now u code db of
                    (False, db1) \<Rightarrow>
                      (None, mfa_audit (usr_id u) ''mfa.challenge_failed'' db1,
                       if 5 \<le> attempts then drop_challenge challenge_key attempt_key r1 else r1)
                  | (True, db1) \<Rightarrow>
                      let (resp, r3) = create_session C K now acc ref sid u
                            (drop_challenge challenge_key attempt_key r1)
                      in (Some resp, mfa_audit (usr_id u) ''mfa.challenge_succeeded'' db1, r3))))"

section \<open>Refresh\<close>

text \<open>\<open>_ROTATE_REFRESH_SCRIPT\<close>, with its six keys and four arguments in order.\<close>

definition rotate_refresh ::
  "datetime \<Rightarrow> string \<Rightarrow> string \<Rightarrow> string \<Rightarrow> string \<Rightarrow> string \<Rightarrow> string \<Rightarrow> string \<Rightarrow> session_state \<Rightarrow> int \<Rightarrow> int \<Rightarrow>
   redis \<Rightarrow> int \<times> redis"
where
  "rotate_refresh now k1 k2 k3 k4 k5 k6 sid next_state session_ttl access_ttl r =
     (if rd_get now (rd_pointers r) k1 \<noteq> Some sid then (0, r)
      else case rd_get now (rd_payloads r) k2 of
        None \<Rightarrow> (0, r)
      | Some current \<Rightarrow>
          if ss_refresh_key current \<noteq> k1 then (0, r)
          else
            let long = Some (now + seconds session_ttl); short = Some (now + seconds access_ttl) in
            (1, r\<lparr>rd_pointers := rd_set k5 sid long (rd_set k4 sid long (rd_set k3 sid short
                     (rd_del k1 (rd_del (ss_access_key current) (rd_pointers r))))),
                  rd_payloads := rd_set k2 next_state long (rd_payloads r),
                  rd_members := rd_expire now k6 session_ttl (rd_sadd now k6 sid (rd_members r))\<rparr>))"

definition refresh ::
  "session_settings \<Rightarrow> auth_lib \<Rightarrow> datetime \<Rightarrow> string \<Rightarrow> string \<Rightarrow> string \<Rightarrow> auth_db \<Rightarrow> redis \<Rightarrow>
   login_response option \<times> redis"
where
  "refresh C K now acc ref token db r =
     (case state_for_refresh C K now r token of
        None \<Rightarrow>
          (None, (case rd_get now (rd_pointers r) (token_key C K ''used-refresh'' token) of
                    None \<Rightarrow> r
                  | Some used \<Rightarrow>
                      if used = [] then r
                      else (case load_state C now r used of
                              None \<Rightarrow> r
                            | Some reused \<Rightarrow> revoke_state C now reused r)))
      | Some st \<Rightarrow>
          if \<not> user_is_active db st then (None, revoke_state C now st r)
          else
            let access = new_token ''access'' acc; next_refresh = new_token ''refresh'' ref;
                next_state = st\<lparr>ss_access_key := token_key C K ''access'' access,
                                ss_refresh_key := token_key C K ''refresh'' next_refresh\<rparr>;
                (rotated, r1) = rotate_refresh now (ss_refresh_key st) (session_key C (ss_session_id st))
                   (ss_access_key next_state) (ss_refresh_key next_state) (token_key C K ''used-refresh'' token)
                   (user_sessions_key C (uuid_str (user_identifier (ss_user_id st)))) (ss_session_id st)
                   next_state (cfg_session_ttl C) (cfg_access_ttl C) r
            in if rotated \<noteq> 1 then (None, r1)
               else (Some \<lparr>lr_access_token = access, lr_refresh_token = next_refresh,
                           lr_session_id = ss_session_id st\<rparr>, r1))"

section \<open>Sessions\<close>

definition current_session ::
  "session_settings \<Rightarrow> auth_lib \<Rightarrow> datetime \<Rightarrow> string \<Rightarrow> auth_db \<Rightarrow> redis \<Rightarrow> (string \<times> string) option"
where
  "current_session C K now token db r =
     (case state_for_access C K now r token of
        None \<Rightarrow> None
      | Some st \<Rightarrow> if user_is_active db st then Some (ss_session_id st, ss_subject st) else None)"

definition logout :: "session_settings \<Rightarrow> auth_lib \<Rightarrow> datetime \<Rightarrow> string \<Rightarrow> redis \<Rightarrow> bool \<times> redis" where
  "logout C K now token r =
     (case state_for_access C K now r token of
        None \<Rightarrow> (False, r)
      | Some st \<Rightarrow> (True, revoke_state C now st r))"

definition revoke_session_id :: "session_settings \<Rightarrow> datetime \<Rightarrow> string \<Rightarrow> redis \<Rightarrow> redis" where
  "revoke_session_id C now sid r =
     (case load_state C now r sid of None \<Rightarrow> r | Some stored \<Rightarrow> revoke_state C now stored r)"

definition logout_all :: "session_settings \<Rightarrow> auth_lib \<Rightarrow> datetime \<Rightarrow> string \<Rightarrow> redis \<Rightarrow> bool \<times> redis" where
  "logout_all C K now token r =
     (case state_for_access C K now r token of
        None \<Rightarrow> (False, r)
      | Some st \<Rightarrow>
          let keys = session_set_keys C (ss_user_id st);
              sids = remdups (concat (map (rd_smembers now (rd_members r)) keys));
              r1 = fold (revoke_session_id C now) sids r
          in (True, r1\<lparr>rd_members := fold rd_del keys (rd_members r1)\<rparr>))"

definition allow_mfa_operation ::
  "session_settings \<Rightarrow> auth_lib \<Rightarrow> datetime \<Rightarrow> string \<Rightarrow> string \<Rightarrow> int \<Rightarrow> int \<Rightarrow> redis \<Rightarrow> bool \<times> redis"
where
  "allow_mfa_operation C K now subject operation limit ttl r =
     (let key = cfg_prefix C @ '':mfa-rate:'' @ operation @ '':'' @ lib_digest K (lower subject);
          (attempts, r1) = count_attempt now key ttl r
      in (attempts \<le> limit, r1))"

section \<open>Access control and the session's context\<close>

definition role_permissions :: "(string, string list) dict" where
  "role_permissions =
     [(''signature_admin'', [''*'']),
      (''signature_operator'', [''documents:read'', ''documents:write'', ''signature_requests:read'',
         ''signature_requests:write'', ''audit:read'']),
      (''signature_signer'', [''signing:read'', ''signing:write'']),
      (''signature_auditor'', [''documents:read'', ''signature_requests:read'', ''audit:read''])]"

definition context_for_user :: "auth_db \<Rightarrow> uuid \<Rightarrow> string list \<times> string list" where
  "context_for_user db uid =
     (let roles = sort (map snd (filter (\<lambda>(u, _). u = uid) (adb_roles db))) in
      (roles, sort (remdups (concat (map (\<lambda>role. dict_get_or role_permissions role []) roles)))))"

record ui_context =
  ui_subject :: string
  ui_user_id :: uuid
  ui_email :: string
  ui_account_public_slug :: string
  ui_preferred_locale :: string
  ui_mfa_enabled :: bool
  ui_mfa_setup_required :: bool
  ui_roles :: "string list"
  ui_permission_keys :: "string list"
  ui_capability_hash :: string

definition session_ui_context ::
  "session_settings \<Rightarrow> auth_lib \<Rightarrow> datetime \<Rightarrow> string \<Rightarrow> auth_db \<Rightarrow> redis \<Rightarrow> ui_context option result"
where
  "session_ui_context C K now token db r =
     (case current_session C K now token db r of
        None \<Rightarrow> Inr None
      | Some (sid, subject) \<Rightarrow>
          (case state_for_access C K now r token of
             None \<Rightarrow> Inr None
           | Some st \<Rightarrow>
               let uid = user_identifier (ss_user_id st); (roles, perms) = context_for_user db uid in
               (case user_by_id db uid of
                  None \<Rightarrow> Inl AttributeError
                | Some u \<Rightarrow>
                    let setup_required = \<not> (usr_mfa_enabled u \<or> usr_mfa_exempt u) in
                    Inr (Some \<lparr>ui_subject = subject, ui_user_id = usr_id u, ui_email = usr_email u,
                      ui_account_public_slug = usr_public_slug u, ui_preferred_locale = usr_preferred_locale u,
                      ui_mfa_enabled = usr_mfa_enabled u, ui_mfa_setup_required = setup_required,
                      ui_roles = (if setup_required then [] else roles),
                      ui_permission_keys = (if setup_required then [] else perms),
                      ui_capability_hash = lib_digest K (subject @ '':'' @ sid)\<rparr>))))"

end
