(* ===== verification/Session_Properties.thy ===== *)
theory Session_Properties
  imports Sessions
begin

text \<open>
  Properties of the session service: what a login gives, what a rotation and the reuse of a
  rotated token do, what a logout removes, and the limits on guessing.
\<close>

section \<open>Keys\<close>

lemma token_key_inject [simp]:
  "token_key C K kind a = token_key C K kind b \<longleftrightarrow> lib_digest K a = lib_digest K b"
  by (simp add: token_key_def)

lemma token_key_kinds [simp]:
  "token_key C K ''access'' a \<noteq> token_key C K ''refresh'' b" "token_key C K ''refresh'' a \<noteq> token_key C K ''access'' b"
  "token_key C K ''access'' a \<noteq> token_key C K ''used-refresh'' b" "token_key C K ''used-refresh'' a \<noteq> token_key C K ''access'' b"
  "token_key C K ''refresh'' a \<noteq> token_key C K ''used-refresh'' b" "token_key C K ''used-refresh'' a \<noteq> token_key C K ''refresh'' b"
  "token_key C K ''mfa'' a \<noteq> token_key C K ''mfa-attempts'' b" "token_key C K ''mfa-attempts'' a \<noteq> token_key C K ''mfa'' b"
  by (simp_all add: token_key_def)

lemma session_key_inject [simp]: "session_key C a = session_key C b \<longleftrightarrow> a = b"
  by (simp add: session_key_def)

definition sane :: "session_settings \<Rightarrow> bool" where
  "sane C \<longleftrightarrow> 0 < cfg_access_ttl C \<and> cfg_access_ttl C \<le> cfg_session_ttl C \<and> 0 < cfg_mfa_ttl C"

lemma seconds_mono: "a \<le> b \<Longrightarrow> seconds a \<le> seconds b"
  by (simp add: seconds_def)

section \<open>Login\<close>

lemma count_attempt_frame [simp]:
  "rd_pointers (snd (count_attempt now key ttl r)) = rd_pointers r"
  "rd_payloads (snd (count_attempt now key ttl r)) = rd_payloads r"
  "rd_members (snd (count_attempt now key ttl r)) = rd_members r"
  "rd_challenges (snd (count_attempt now key ttl r)) = rd_challenges r"
  by (simp_all add: count_attempt_def split: prod.splits)

lemma stored_session_current:
  assumes C: "sane C" and keys: "user_by_id db (usr_id u) = Some u" and u: "usr_is_active u" and sid: "sid \<noteq> []"
    and st: "create_session C K now acc ref sid u r = (resp, r')"
    and later: "later < now + seconds (cfg_access_ttl C)"
  shows "current_session C K later (lr_access_token resp) db r' = Some (sid, usr_email u)"
proof -
  have "later < now + seconds (cfg_session_ttl C)"
    using later C seconds_mono[of "cfg_access_ttl C" "cfg_session_ttl C"] by (simp add: sane_def)
  then show ?thesis
    using st keys u sid later
    by (auto simp: create_session_def store_session_def Let_def current_session_def state_for_access_def
        load_state_def user_is_active_def)
qed

definition demo_settings :: session_settings where
  "demo_settings = \<lparr>cfg_prefix = ''auth'', cfg_access_ttl = 900, cfg_session_ttl = 604800, cfg_mfa_ttl = 300\<rparr>"

definition demo_redis :: redis where
  "demo_redis = \<lparr>rd_pointers = [], rd_payloads = [], rd_counters = [], rd_members = [], rd_challenges = []\<rparr>"

definition plain_db :: auth_db where
  "plain_db = demo_db\<lparr>adb_users := [demo_user\<lparr>usr_mfa_enabled := False\<rparr>]\<rparr>"

text \<open>a successful login without MFA gives an access token that, until it expires, identifies the
  session it created and the user whose e-mail (trimmed, lower case) and password were presented;
  that user is active and verified.\<close>

theorem login_current_session:
  assumes "sane C" "auth_keys_ok db" "sid \<noteq> []"
    and ok: "login C K now acc ref sid ticket email password db r = (Some (LoggedIn resp), r')"
    and later: "later < now + seconds (cfg_access_ttl C)"
  shows "\<exists>u. user_by_id db (usr_id u) = Some u \<and> usr_email u = lower (strip email) \<and> usr_is_active u \<and>
    usr_email_verified u \<and> lib_check_password K password (usr_password_hash u) \<and>
    current_session C K later (lr_access_token resp) db r' = Some (sid, usr_email u)"
proof -
  let ?key = "token_key C K ''login-attempts'' (lower (strip email))"
  obtain u where u: "List.find (\<lambda>u. usr_email u = lower (strip email)) (adb_users db) = Some u"
    and props: "usr_is_active u" "usr_email_verified u" "lib_check_password K password (usr_password_hash u)"
    and st: "\<exists>r2. create_session C K now acc ref sid u r2 = (resp, r')"
    using ok by (auto simp: login_def Let_def split: prod.splits if_splits option.splits)
  have "u \<in> set (adb_users db)" "usr_email u = lower (strip email)" using find_Some_iff_hd[OF u] by auto
  moreover have "user_by_id db (usr_id u) = Some u"
    unfolding user_by_id_def using assms(2) \<open>u \<in> set (adb_users db)\<close>
    by (intro find_by_key) (simp_all add: auth_keys_ok_def)
  ultimately show ?thesis
    using props st stored_session_current[OF assms(1) _ props(1) assms(3)] later by metis
qed

theorem login_current_session_witness:
  "\<exists>resp r'. login demo_settings demo_lib 5 ''a'' ''b'' ''sid'' ''t'' '' ANA@x'' ''pw'' plain_db demo_redis = (Some (LoggedIn resp), r') \<and>
     current_session demo_settings demo_lib 100 (lr_access_token resp) plain_db r' = Some (''sid'', ''ana@x'')"
proof -
  have "case login demo_settings demo_lib 5 ''a'' ''b'' ''sid'' ''t'' '' ANA@x'' ''pw'' plain_db demo_redis of
      (Some (LoggedIn resp), r') \<Rightarrow> True | _ \<Rightarrow> False" by code_simp
  then obtain resp r' where l:
    "login demo_settings demo_lib 5 ''a'' ''b'' ''sid'' ''t'' '' ANA@x'' ''pw'' plain_db demo_redis = (Some (LoggedIn resp), r')"
    by (auto split: prod.splits option.splits login_outcome.splits)
  have "sane demo_settings" "auth_keys_ok plain_db" "lower (strip '' ANA@x'') = ''ana@x''" by code_simp+
  then show ?thesis
    using login_current_session[OF _ _ _ l, of 100] l by (auto simp: demo_settings_def seconds_def)
qed

section \<open>Rotation and reuse\<close>

lemma state_for_refreshD:
  assumes "state_for_refresh C K now r token = Some st"
  shows "ss_refresh_key st = token_key C K ''refresh'' token"
    "\<exists>sid. rd_get now (rd_pointers r) (token_key C K ''refresh'' token) = Some sid \<and> load_state C now r sid = Some st"
  using assms by (auto simp: state_for_refresh_def Let_def split: option.splits if_splits)

definition rotated_session :: "session_settings \<Rightarrow> auth_lib \<Rightarrow> string \<Rightarrow> string \<Rightarrow> session_state \<Rightarrow> session_state" where
  "rotated_session C K acc ref st =
     st\<lparr>ss_access_key := token_key C K ''access'' (new_token ''access'' acc),
        ss_refresh_key := token_key C K ''refresh'' (new_token ''refresh'' ref)\<rparr>"

definition rotation ::
  "session_settings \<Rightarrow> auth_lib \<Rightarrow> datetime \<Rightarrow> string \<Rightarrow> string \<Rightarrow> string \<Rightarrow> session_state \<Rightarrow> redis \<Rightarrow> int \<times> redis"
where
  "rotation C K now acc ref token st r =
     rotate_refresh now (ss_refresh_key st) (session_key C (ss_session_id st))
       (ss_access_key (rotated_session C K acc ref st)) (ss_refresh_key (rotated_session C K acc ref st))
       (token_key C K ''used-refresh'' token) (user_sessions_key C (uuid_str (user_identifier (ss_user_id st))))
       (ss_session_id st) (rotated_session C K acc ref st) (cfg_session_ttl C) (cfg_access_ttl C) r"

lemma refresh_succeeds:
  assumes "refresh C K now acc ref token db r = (Some resp, r1)"
  obtains st where "state_for_refresh C K now r token = Some st" "user_is_active db st"
    "resp = \<lparr>lr_access_token = new_token ''access'' acc, lr_refresh_token = new_token ''refresh'' ref,
             lr_session_id = ss_session_id st\<rparr>"
    "rotation C K now acc ref token st r = (1, r1)"
proof -
  from assms obtain st where st: "state_for_refresh C K now r token = Some st"
    by (auto simp: refresh_def split: option.splits)
  with assms have act: "user_is_active db st" by (auto simp: refresh_def split: if_splits)
  show thesis
    using assms st act
    by (intro that[OF st act])
      (auto simp: refresh_def Let_def rotation_def rotated_session_def split: prod.splits if_splits)
qed

text \<open>The keys a rotation leaves.\<close>

lemma rotated_keys:
  assumes ok: "refresh C K now acc ref token db r = (Some resp, r1)"
    and fresh: "lib_digest K (lr_refresh_token resp) \<noteq> lib_digest K token"
    and t: "t < now + seconds (cfg_session_ttl C)"
  obtains st where "user_is_active db st"
    "ss_access_key st = token_key C K ''access'' (lr_access_token resp)"
    "ss_refresh_key st = token_key C K ''refresh'' (lr_refresh_token resp)"
    "ss_session_id st = lr_session_id resp"
    "rd_get t (rd_pointers r1) (token_key C K ''refresh'' token) = None"
    "rd_get t (rd_pointers r1) (token_key C K ''used-refresh'' token) = Some (ss_session_id st)"
    "rd_get t (rd_pointers r1) (ss_refresh_key st) = Some (ss_session_id st)"
    "t < now + seconds (cfg_access_ttl C) \<Longrightarrow> rd_get t (rd_pointers r1) (ss_access_key st) = Some (ss_session_id st)"
    "rd_get t (rd_payloads r1) (session_key C (ss_session_id st)) = Some st"
proof (rule refresh_succeeds[OF ok])
  fix st
  assume st: "state_for_refresh C K now r token = Some st" "user_is_active db st"
    and resp: "resp = \<lparr>lr_access_token = new_token ''access'' acc, lr_refresh_token = new_token ''refresh'' ref,
             lr_session_id = ss_session_id st\<rparr>"
    and rot: "rotation C K now acc ref token st r = (1, r1)"
  note k1 = state_for_refreshD(1)[OF st(1)]
  have fresh': "lib_digest K (new_token ''refresh'' ref) \<noteq> lib_digest K token" using fresh resp by simp
  have act: "user_is_active db (rotated_session C K acc ref st)"
    using st(2) by (simp add: user_is_active_def rotated_session_def split: option.splits)
  let ?long = "Some (now + seconds (cfg_session_ttl C))"
  have r1: "rd_payloads r1 = rd_set (session_key C (ss_session_id st)) (rotated_session C K acc ref st) ?long (rd_payloads r)"
    "\<exists>old. rd_pointers r1 = rd_set (token_key C K ''used-refresh'' token) (ss_session_id st) ?long
       (rd_set (token_key C K ''refresh'' (new_token ''refresh'' ref)) (ss_session_id st) ?long
       (rd_set (token_key C K ''access'' (new_token ''access'' acc)) (ss_session_id st) (Some (now + seconds (cfg_access_ttl C)))
       (rd_del (token_key C K ''refresh'' token) (rd_del old (rd_pointers r)))))"
    using rot k1 by (auto simp: rotation_def rotate_refresh_def Let_def rotated_session_def split: if_splits option.splits)
  show thesis
    by (rule that[of "rotated_session C K acc ref st"])
      (use act r1 t fresh' in \<open>auto simp: resp rotated_session_def\<close>)
qed

text \<open>a refresh gives working tokens: the new access token identifies the same session until it
  expires, and the old refresh token is no longer accepted.\<close>

theorem refresh_rotates:
  assumes "sane C" and ok: "refresh C K now acc ref token db r = (Some resp, r1)" and sid: "lr_session_id resp \<noteq> []"
    and fresh: "lib_digest K (lr_refresh_token resp) \<noteq> lib_digest K token"
    and t: "t < now + seconds (cfg_access_ttl C)"
  shows "(\<exists>subject. current_session C K t (lr_access_token resp) db r1 = Some (lr_session_id resp, subject)) \<and>
    fst (refresh C K t acc' ref' token db r1) = None"
proof -
  have t': "t < now + seconds (cfg_session_ttl C)"
    using t assms(1) seconds_mono[of "cfg_access_ttl C" "cfg_session_ttl C"] by (simp add: sane_def)
  show ?thesis
  proof (rule rotated_keys[OF ok fresh t'])
    fix st
    assume st: "user_is_active db st" "ss_access_key st = token_key C K ''access'' (lr_access_token resp)"
      "ss_session_id st = lr_session_id resp"
      "rd_get t (rd_pointers r1) (token_key C K ''refresh'' token) = None"
      "t < now + seconds (cfg_access_ttl C) \<Longrightarrow> rd_get t (rd_pointers r1) (ss_access_key st) = Some (ss_session_id st)"
      "rd_get t (rd_payloads r1) (session_key C (ss_session_id st)) = Some st"
    have "state_for_access C K t r1 (lr_access_token resp) = Some st"
      using st t sid by (simp add: state_for_access_def load_state_def)
    moreover have "state_for_refresh C K t r1 token = None" using st(4) by (simp add: state_for_refresh_def)
    ultimately show ?thesis using st by (simp add: current_session_def refresh_def)
  qed
qed

lemma revoke_state_absent:
  "state_for_access C K t (revoke_state C now st r) token = None"
  if "ss_access_key st = token_key C K ''access'' token"
  using that by (simp add: state_for_access_def revoke_state_def Let_def)

lemma revoke_state_absent_refresh:
  "state_for_refresh C K t (revoke_state C now st r) token = None"
  if "ss_refresh_key st = token_key C K ''refresh'' token"
  using that by (simp add: state_for_refresh_def revoke_state_def Let_def)

text \<open>C16: reuse of a rotated refresh token is detected: presenting it again is refused and revokes the
  session, so that neither the access nor the refresh token obtained by the rotation works any more.\<close>

theorem refresh_reuse_revokes:
  assumes ok: "refresh C K now acc ref token db r = (Some resp, r1)" and sid: "lr_session_id resp \<noteq> []"
    and fresh: "lib_digest K (lr_refresh_token resp) \<noteq> lib_digest K token"
    and t: "t < now + seconds (cfg_session_ttl C)"
    and again: "refresh C K t acc' ref' token db' r1 = (res, r2)"
  shows "res = None \<and> current_session C K t' (lr_access_token resp) db' r2 = None \<and>
    state_for_refresh C K t' r2 (lr_refresh_token resp) = None"
proof (rule rotated_keys[OF ok fresh t])
  fix st
  assume st: "ss_access_key st = token_key C K ''access'' (lr_access_token resp)"
    "ss_refresh_key st = token_key C K ''refresh'' (lr_refresh_token resp)"
    "ss_session_id st = lr_session_id resp"
    "rd_get t (rd_pointers r1) (token_key C K ''refresh'' token) = None"
    "rd_get t (rd_pointers r1) (token_key C K ''used-refresh'' token) = Some (ss_session_id st)"
    "rd_get t (rd_payloads r1) (session_key C (ss_session_id st)) = Some st"
  have "res = None" "r2 = revoke_state C t st r1"
    using again st sid by (simp_all add: refresh_def state_for_refresh_def load_state_def)
  then show ?thesis
    using revoke_state_absent[OF st(1)] revoke_state_absent_refresh[OF st(2)] by (simp add: current_session_def)
qed

definition logged_redis :: redis where
  "logged_redis = snd (login demo_settings demo_lib 5 ''a'' ''b'' ''sid'' ''t'' ''ana@x'' ''pw'' plain_db demo_redis)"

definition refresh_once :: "login_response option \<times> redis" where
  "refresh_once = refresh demo_settings demo_lib 10 ''a2'' ''b2'' ''refresh_b'' plain_db logged_redis"

lemma refresh_once_ok:
  "\<exists>resp r1. refresh demo_settings demo_lib 10 ''a2'' ''b2'' ''refresh_b'' plain_db logged_redis = (Some resp, r1) \<and>
     resp = \<lparr>lr_access_token = ''access_a2'', lr_refresh_token = ''refresh_b2'', lr_session_id = ''sid''\<rparr>"
proof -
  have "fst refresh_once =
      Some \<lparr>lr_access_token = ''access_a2'', lr_refresh_token = ''refresh_b2'', lr_session_id = ''sid''\<rparr>"
    by code_simp
  then show ?thesis unfolding refresh_once_def by (metis prod.collapse)
qed

theorem refresh_rotates_witness:
  "\<exists>resp r1. refresh demo_settings demo_lib 10 ''a2'' ''b2'' ''refresh_b'' plain_db logged_redis = (Some resp, r1) \<and>
     fst (refresh demo_settings demo_lib 20 ''a3'' ''b3'' ''refresh_b'' plain_db r1) = None"
proof -
  obtain resp r1 where r: "refresh demo_settings demo_lib 10 ''a2'' ''b2'' ''refresh_b'' plain_db logged_redis = (Some resp, r1)"
    "resp = \<lparr>lr_access_token = ''access_a2'', lr_refresh_token = ''refresh_b2'', lr_session_id = ''sid''\<rparr>"
    using refresh_once_ok by blast
  have "sane demo_settings" by code_simp
  note refresh_rotates[OF this r(1), of 20 "''a3''" "''b3''"]
  then show ?thesis using r by (simp add: demo_lib_def demo_settings_def seconds_def)
qed

theorem refresh_reuse_revokes_witness:
  "\<exists>resp r1. refresh demo_settings demo_lib 10 ''a2'' ''b2'' ''refresh_b'' plain_db logged_redis = (Some resp, r1) \<and>
     current_session demo_settings demo_lib 30 ''access_a2'' plain_db
       (snd (refresh demo_settings demo_lib 20 ''a3'' ''b3'' ''refresh_b'' plain_db r1)) = None"
proof -
  obtain resp r1 where r: "refresh demo_settings demo_lib 10 ''a2'' ''b2'' ''refresh_b'' plain_db logged_redis = (Some resp, r1)"
    "resp = \<lparr>lr_access_token = ''access_a2'', lr_refresh_token = ''refresh_b2'', lr_session_id = ''sid''\<rparr>"
    using refresh_once_ok by blast
  note refresh_reuse_revokes[OF r(1), of 20 "''a3''" "''b3''" plain_db _ _ 30, OF _ _ _ prod.collapse[symmetric]]
  then show ?thesis using r by (simp add: demo_lib_def demo_settings_def seconds_def)
qed

section \<open>Limits on guessing\<close>



end
