(* ===== verification/Accounts.thy ===== *)
theory Accounts
  imports Session_Properties
begin

text \<open>
  \<open>accounts/account_service.py\<close> and the validators of \<open>account_schema.py\<close>: registration,
  invitation, e-mail verification and password recovery over one-time tokens. The calls to the
  core API and to the notification API are parameters that say whether they succeed; the calls
  made are returned, since a rollback does not undo them.
\<close>

section \<open>Schemas\<close>

record public_registration =
  prg_name :: string
  prg_email :: string
  prg_preferred_locale :: locale_code
  prg_return_url :: "string option"
  prg_identity_document_type :: "string option"
  prg_identity_document_country :: "string option"
  prg_identity_document_value :: "string option"

record member_invitation =
  inv_name :: string
  inv_email :: string
  inv_identity_document_type :: string
  inv_identity_document_country :: string
  inv_identity_document_value :: string
  inv_preferred_locale :: locale_code

definition identity_document_types :: "string list" where
  "identity_document_types =
     [''BR_CPF'', ''BR_CNPJ'', ''PT_NIF'', ''PASSPORT'', ''NATIONAL_ID'', ''RESIDENCE_CARD'', ''DRIVER_LICENSE'',
      ''TAX_ID'', ''OTHER'', ''JP_MY_NUMBER'']"

definition valid_new_password :: "string \<Rightarrow> bool" where
  "valid_new_password v = (list_ex is_upper v \<and> list_ex is_lower v \<and> list_ex is_digit v \<and>
     list_ex (\<lambda>c. \<not> is_alnum c \<and> \<not> is_space c) v)"

definition valid_return_url :: "string \<Rightarrow> bool" where
  "valid_return_url v = (length v \<le> 512 \<and> take 9 v = ''/signing/'' \<and> drop 9 v \<noteq> [] \<and>
     list_all (\<lambda>c. is_alnum c \<or> c = CHR ''_'' \<or> c = CHR ''-'') (drop 9 v))"

text \<open>Truthiness of an optional text.\<close>

definition given :: "string option \<Rightarrow> bool" where
  "given v = (v \<noteq> None \<and> v \<noteq> Some [])"

definition registration_valid :: "bool \<Rightarrow> public_registration \<Rightarrow> bool" where
  "registration_valid jp_enabled p =
     (let provided = [prg_identity_document_type p, prg_identity_document_country p, prg_identity_document_value p] in
      2 \<le> length (prg_name p) \<and> length (prg_name p) \<le> 180 \<and>
      5 \<le> length (prg_email p) \<and> length (prg_email p) \<le> 255 \<and> email_match (prg_email p) \<and>
      (case prg_return_url p of None \<Rightarrow> True | Some u \<Rightarrow> valid_return_url u) \<and>
      (case prg_identity_document_type p of None \<Rightarrow> True | Some t \<Rightarrow> t \<in> set identity_document_types) \<and>
      (case prg_identity_document_value p of None \<Rightarrow> True | Some v \<Rightarrow> 4 \<le> length v \<and> length v \<le> 80) \<and>
      (list_ex given provided \<longrightarrow> list_all given provided) \<and>
      (case (prg_identity_document_type p, prg_identity_document_value p) of
         (Some t, Some v) \<Rightarrow> t \<noteq> [] \<and> v \<noteq> [] \<longrightarrow> \<not> isl (validate_identifier jp_enabled t v)
       | _ \<Rightarrow> True))"

section \<open>Calls to other services\<close>

datatype mail_kind = ActivationMail | RecoveryMail

record account_mail =
  am_kind :: mail_kind
  am_recipient :: string
  am_name :: "string option"
  am_action_url :: string
  am_locale :: string
  am_idempotency_key :: string

datatype external_call =
    ProvisionTenant string string locale_code "string option" uuid
  | SendMail account_mail

definition account_url :: "string \<Rightarrow> string \<Rightarrow> string \<Rightarrow> string option \<Rightarrow> string" where
  "account_url public_url page token return_url =
     rstrip_by (\<lambda>c. c = CHR ''/'') public_url @ ''/'' @ page @ ''?token='' @ quote_plus token @
     (case return_url of None \<Rightarrow> [] | Some u \<Rightarrow> if u = [] then [] else ''&returnUrl='' @ quote_plus u)"

record account_settings =
  acs_public_web_url :: string
  acs_email_verification_ttl :: int
  acs_password_reset_ttl :: int
  acs_jp_enabled :: bool

text \<open>\<open>hmac\<close> and \<open>encrypt\<close> protect an identifier; the two tests say whether a call succeeds.\<close>

record account_env =
  env_lib :: auth_lib
  env_settings :: account_settings
  env_id_encrypt :: "string \<Rightarrow> string"
  env_id_hmac :: "string \<Rightarrow> string"
  env_call_ok :: "external_call \<Rightarrow> bool"

section \<open>One-time tokens\<close>

definition issue_token ::
  "auth_lib \<Rightarrow> datetime \<Rightarrow> string \<Rightarrow> uuid \<Rightarrow> string \<Rightarrow> int \<Rightarrow> auth_db \<Rightarrow> auth_db"
where
  "issue_token K now raw user_id purpose ttl db =
     db\<lparr>adb_tokens :=
         table_update (\<lambda>t. tok_user_id t = user_id \<and> tok_purpose t = purpose \<and> tok_consumed_at t = None)
           (\<lambda>t. t\<lparr>tok_consumed_at := Some now\<rparr>) (adb_tokens db) @
         [\<lparr>tok_user_id = user_id, tok_purpose = purpose, tok_token_hash = lib_digest K raw,
           tok_expires_at = now + seconds ttl, tok_consumed_at = None, tok_deleted_at = None\<rparr>]\<rparr>"

definition token_usable :: "auth_lib \<Rightarrow> datetime \<Rightarrow> string \<Rightarrow> string \<Rightarrow> account_token \<Rightarrow> bool" where
  "token_usable K now raw purpose t =
     (tok_token_hash t = lib_digest K raw \<and> tok_purpose t = purpose \<and> tok_consumed_at t = None \<and>
      now < tok_expires_at t \<and> tok_deleted_at t = None)"

definition consume_token ::
  "auth_lib \<Rightarrow> datetime \<Rightarrow> string \<Rightarrow> string \<Rightarrow> auth_db \<Rightarrow> (account_token \<times> auth_db) result"
where
  "consume_token K now raw purpose db =
     (case List.find (token_usable K now raw purpose) (adb_tokens db) of
        None \<Rightarrow> Inl InvalidAccountTokenError
      | Some t \<Rightarrow>
          Inr (t, db\<lparr>adb_tokens := table_update (\<lambda>x. tok_token_hash x = tok_token_hash t)
                  (\<lambda>x. x\<lparr>tok_consumed_at := Some now\<rparr>) (adb_tokens db)\<rparr>))"

definition user_by_email :: "auth_db \<Rightarrow> string \<Rightarrow> user option" where
  "user_by_email db email =
     List.find (\<lambda>u. usr_email u = lower (strip email) \<and> usr_deleted_at u = None) (adb_users db)"

text \<open>What the unique constraints refuse when a user, an identifier or a token is flushed.\<close>

definition user_conflict :: "auth_db \<Rightarrow> user \<Rightarrow> bool" where
  "user_conflict db u = list_ex (\<lambda>x. usr_email x = usr_email u \<or> usr_public_slug x = usr_public_slug u) (adb_users db)"

definition token_conflict :: "auth_lib \<Rightarrow> auth_db \<Rightarrow> string \<Rightarrow> bool" where
  "token_conflict K db raw = list_ex (\<lambda>t. tok_token_hash t = lib_digest K raw) (adb_tokens db)"

definition new_user :: "auth_lib \<Rightarrow> uuid \<Rightarrow> string \<Rightarrow> string \<Rightarrow> string \<Rightarrow> string \<Rightarrow> locale_code \<Rightarrow> user" where
  "new_user K uid slug random name email loc =
     \<lparr>usr_id = uid, usr_email = lower (strip email), usr_public_slug = slug, usr_name = Some (strip name),
      usr_preferred_locale = locale_str loc, usr_email_verified = False, usr_mfa_enabled = False,
      usr_mfa_exempt = False, usr_mfa_secret_ciphertext = None, usr_mfa_pending_secret_ciphertext = None,
      usr_mfa_last_used_step = None, usr_password_hash = lib_hash_password K random, usr_token_version = 1,
      usr_is_active = False, usr_deleted_at = None\<rparr>"

definition verification_mail ::
  "account_env \<Rightarrow> string \<Rightarrow> string \<Rightarrow> string option \<Rightarrow> string option \<Rightarrow> string \<Rightarrow> external_call"
where
  "verification_mail E email token return_url name loc =
     SendMail \<lparr>am_kind = ActivationMail, am_recipient = email, am_name = name,
       am_action_url = account_url (acs_public_web_url (env_settings E)) ''verify-email'' token return_url,
       am_locale = loc, am_idempotency_key = ''email-verification:'' @ lib_digest (env_lib E) token\<rparr>"

definition mail_error :: exn where
  "mail_error = RuntimeError ''Account e-mail delivery is unavailable''"

section \<open>Registration\<close>

text \<open>The user, its role and, when given, its identity document, each flushed in turn.\<close>

definition add_account ::
  "account_env \<Rightarrow> user \<Rightarrow> string \<Rightarrow> (string \<times> string \<times> string) option \<Rightarrow> auth_db \<Rightarrow> auth_db result"
where
  "add_account E u role identity db =
     (if user_conflict db u then Inl IntegrityError
      else
        let db1 = db\<lparr>adb_users := adb_users db @ [u], adb_roles := adb_roles db @ [(usr_id u, role)],
                     adb_next := adb_next db + 1\<rparr> in
        (case identity of
           None \<Rightarrow> Inr db1
         | Some (country, kind, v) \<Rightarrow>
             (case add_identifier (env_id_encrypt E) (env_id_hmac E) (acs_jp_enabled (env_settings E))
                     (usr_id u) country kind v (adb_identifiers db1) of
                (Inl e, _) \<Rightarrow> Inl e
              | (Inr _, rows) \<Rightarrow>
                  if identifiers_unique rows then Inr (db1\<lparr>adb_identifiers := rows\<rparr>) else Inl IntegrityError)))"

definition conflict_error :: "exn \<Rightarrow> exn" where
  "conflict_error e = (if e = IntegrityError then AccountConflictError else e)"

definition registration_identity :: "public_registration \<Rightarrow> (string \<times> string \<times> string) option" where
  "registration_identity p =
     (case (prg_identity_document_type p, prg_identity_document_country p, prg_identity_document_value p) of
        (Some t, Some c, Some v) \<Rightarrow> if t \<noteq> [] \<and> c \<noteq> [] \<and> v \<noteq> [] then Some (c, t, v) else None
      | _ \<Rightarrow> None)"

definition register ::
  "account_env \<Rightarrow> datetime \<Rightarrow> string \<Rightarrow> string \<Rightarrow> string \<Rightarrow> public_registration \<Rightarrow> auth_db \<Rightarrow>
   unit result \<times> auth_db \<times> external_call list"
where
  "register E now slug random raw p db =
     (let K = env_lib E; u = new_user K (adb_next db) slug random (prg_name p) (prg_email p) (prg_preferred_locale p) in
      case add_account E u ''signature_admin'' (registration_identity p) db of
        Inl e \<Rightarrow> (Inl (conflict_error e), db, [])
      | Inr db1 \<Rightarrow>
          let db2 = issue_token K now raw (usr_id u) ''verify_email'' (acs_email_verification_ttl (env_settings E)) db1;
              provision = ProvisionTenant (lower (strip (prg_email p))) (strip (prg_name p)) (prg_preferred_locale p)
                (prg_identity_document_country p) (usr_id u);
              mail = verification_mail E (usr_email u) raw (prg_return_url p) (usr_name u) (usr_preferred_locale u)
          in if \<not> env_call_ok E provision
             then (Inl (RuntimeError ''Tenant provisioning is unavailable''), db, [provision])
             else if \<not> env_call_ok E mail then (Inl mail_error, db, [provision, mail])
             else if token_conflict K db1 raw then (Inl IntegrityError, db, [provision, mail])
             else (Inr (), db2, [provision, mail]))"

record invitation_result =
  ivr_user_id :: uuid
  ivr_email :: string
  ivr_activation_sent :: bool

definition invite_member_account ::
  "account_env \<Rightarrow> datetime \<Rightarrow> string \<Rightarrow> string \<Rightarrow> string \<Rightarrow> member_invitation \<Rightarrow> auth_db \<Rightarrow>
   invitation_result result \<times> auth_db \<times> external_call list"
where
  "invite_member_account E now slug random raw p db =
     (let K = env_lib E;
          found = (case user_by_email db (inv_email p) of
             Some u \<Rightarrow> Inr (u, db)
           | None \<Rightarrow>
               let u = new_user K (adb_next db) slug random (inv_name p) (inv_email p) (inv_preferred_locale p) in
               (case add_account E u ''signature_operator''
                       (Some (inv_identity_document_country p, inv_identity_document_type p, inv_identity_document_value p)) db of
                  Inl e \<Rightarrow> Inl e
                | Inr db1 \<Rightarrow> Inr (u, db1)))
      in case found of
           Inl e \<Rightarrow> (Inl e, db, [])
         | Inr (u, db1) \<Rightarrow>
             let result = \<lparr>ivr_user_id = usr_id u, ivr_email = usr_email u, ivr_activation_sent = \<not> usr_is_active u\<rparr> in
             if usr_is_active u then (Inr result, db1, [])
             else if token_conflict K db1 raw then (Inl IntegrityError, db, [])
             else
               let db2 = issue_token K now raw (usr_id u) ''verify_email'' (acs_email_verification_ttl (env_settings E)) db1;
                   mail = verification_mail E (usr_email u) raw None (usr_name u) (usr_preferred_locale u)
               in (if env_call_ok E mail then Inr result else Inl mail_error, db2, [mail]))"

section \<open>Verification and recovery\<close>

definition request_email_verification ::
  "account_env \<Rightarrow> datetime \<Rightarrow> string \<Rightarrow> string \<Rightarrow> auth_db \<Rightarrow> unit result \<times> auth_db \<times> external_call list"
where
  "request_email_verification E now raw email db =
     (case user_by_email db email of
        None \<Rightarrow> (Inr (), db, [])
      | Some u \<Rightarrow>
          if usr_email_verified u then (Inr (), db, [])
          else if token_conflict (env_lib E) db raw then (Inl IntegrityError, db, [])
          else
            let db1 = issue_token (env_lib E) now raw (usr_id u) ''verify_email''
                        (acs_email_verification_ttl (env_settings E)) db;
                mail = verification_mail E (usr_email u) raw None (usr_name u) (usr_preferred_locale u)
            in (if env_call_ok E mail then Inr () else Inl mail_error, db1, [mail]))"

definition verify_email :: "auth_lib \<Rightarrow> datetime \<Rightarrow> string \<Rightarrow> string \<Rightarrow> auth_db \<Rightarrow> unit result \<times> auth_db" where
  "verify_email K now raw new_password db =
     (case consume_token K now raw ''verify_email'' db of
        Inl e \<Rightarrow> (Inl e, db)
      | Inr (t, db1) \<Rightarrow>
          (case user_by_id db1 (tok_user_id t) of
             None \<Rightarrow> (Inl InvalidAccountTokenError, db)
           | Some u \<Rightarrow>
               (Inr (), user_set (usr_id u) (\<lambda>x. x\<lparr>usr_password_hash := lib_hash_password K new_password,
                  usr_email_verified := True, usr_is_active := True,
                  usr_token_version := usr_token_version x + 1\<rparr>) db1)))"

definition request_password_recovery ::
  "account_env \<Rightarrow> datetime \<Rightarrow> string \<Rightarrow> string \<Rightarrow> string option \<Rightarrow> auth_db \<Rightarrow>
   unit result \<times> auth_db \<times> external_call list"
where
  "request_password_recovery E now raw email return_url db =
     (case user_by_email db email of
        None \<Rightarrow> (Inr (), db, [])
      | Some u \<Rightarrow>
          if \<not> usr_is_active u then (Inr (), db, [])
          else if token_conflict (env_lib E) db raw then (Inl IntegrityError, db, [])
          else
            let db1 = issue_token (env_lib E) now raw (usr_id u) ''reset_password''
                        (acs_password_reset_ttl (env_settings E)) db;
                mail = SendMail \<lparr>am_kind = RecoveryMail, am_recipient = usr_email u, am_name = usr_name u,
                  am_action_url = account_url (acs_public_web_url (env_settings E)) ''reset-password'' raw return_url,
                  am_locale = usr_preferred_locale u,
                  am_idempotency_key = ''password-reset:'' @ lib_digest (env_lib E) raw\<rparr>
            in (if env_call_ok E mail then Inr () else Inl mail_error, db1, [mail]))"

definition reset_password :: "auth_lib \<Rightarrow> datetime \<Rightarrow> string \<Rightarrow> string \<Rightarrow> auth_db \<Rightarrow> unit result \<times> auth_db" where
  "reset_password K now raw new_password db =
     (case consume_token K now raw ''reset_password'' db of
        Inl e \<Rightarrow> (Inl e, db)
      | Inr (t, db1) \<Rightarrow>
          (case user_by_id db1 (tok_user_id t) of
             None \<Rightarrow> (Inl InvalidAccountTokenError, db)
           | Some u \<Rightarrow>
               (Inr (), user_set (usr_id u) (\<lambda>x. x\<lparr>usr_password_hash := lib_hash_password K new_password,
                  usr_token_version := usr_token_version x + 1\<rparr>) db1)))"

section \<open>Lemmas\<close>

lemma consume_token_Inr:
  assumes "consume_token K now raw purpose db = Inr (t, db1)"
  shows "t \<in> set (adb_tokens db)" "token_usable K now raw purpose t" "adb_users db1 = adb_users db"
    "adb_tokens db1 = table_update (\<lambda>x. tok_token_hash x = lib_digest K raw)
       (\<lambda>x. x\<lparr>tok_consumed_at := Some now\<rparr>) (adb_tokens db)"
proof -
  have f: "List.find (token_usable K now raw purpose) (adb_tokens db) = Some t"
    using assms by (auto simp: consume_token_def split: option.splits)
  then show t: "t \<in> set (adb_tokens db)" "token_usable K now raw purpose t" using find_Some_iff_hd by metis+
  show "adb_users db1 = adb_users db" using assms f by (auto simp: consume_token_def)
  show "adb_tokens db1 = table_update (\<lambda>x. tok_token_hash x = lib_digest K raw)
       (\<lambda>x. x\<lparr>tok_consumed_at := Some now\<rparr>) (adb_tokens db)"
    using assms f t(2) by (auto simp: consume_token_def token_usable_def)
qed

lemma consume_token_none:
  "(\<And>t. t \<in> set (adb_tokens db) \<Longrightarrow> \<not> token_usable K now raw purpose t) \<Longrightarrow>
   consume_token K now raw purpose db = Inl InvalidAccountTokenError"
  by (auto simp: consume_token_def find_None_conv split: option.splits dest: find_Some_iff_hd)

lemma consumed_unusable:
  assumes "t \<in> set (table_update (\<lambda>x. tok_token_hash x = lib_digest K raw) (\<lambda>x. x\<lparr>tok_consumed_at := Some now\<rparr>) rows)"
  shows "\<not> token_usable K later raw purpose t"
  using assms by (auto simp: set_table_update token_usable_def)

lemma user_set_tokens [simp]: "adb_tokens (user_set uid f db) = adb_tokens db"
  by (simp add: user_set_def)

lemma verify_email_Inr:
  assumes "verify_email K now raw pw db = (Inr (), db')"
  obtains t db1 u where "consume_token K now raw ''verify_email'' db = Inr (t, db1)"
    "user_by_id db1 (tok_user_id t) = Some u"
    "db' = user_set (usr_id u) (\<lambda>x. x\<lparr>usr_password_hash := lib_hash_password K pw, usr_email_verified := True,
       usr_is_active := True, usr_token_version := usr_token_version x + 1\<rparr>) db1"
  using assms by (auto simp: verify_email_def split: sum.splits option.splits)

lemma reset_password_Inr:
  assumes "reset_password K now raw pw db = (Inr (), db')"
  obtains t db1 u where "consume_token K now raw ''reset_password'' db = Inr (t, db1)"
    "user_by_id db1 (tok_user_id t) = Some u"
    "db' = user_set (usr_id u) (\<lambda>x. x\<lparr>usr_password_hash := lib_hash_password K pw,
       usr_token_version := usr_token_version x + 1\<rparr>) db1"
  using assms by (auto simp: reset_password_def split: sum.splits option.splits)

section \<open>Properties\<close>

definition demo_env :: account_env where
  "demo_env = \<lparr>env_lib = demo_lib,
     env_settings = \<lparr>acs_public_web_url = ''http://web/'', acs_email_verification_ttl = 86400,
       acs_password_reset_ttl = 3600, acs_jp_enabled = False\<rparr>,
     env_id_encrypt = (\<lambda>x. x), env_id_hmac = (\<lambda>x. x), env_call_ok = (\<lambda>_. True)\<rparr>"

definition demo_registration :: public_registration where
  "demo_registration = \<lparr>prg_name = '' Ana '', prg_email = ''Ana@x.org'', prg_preferred_locale = En,
     prg_return_url = None, prg_identity_document_type = Some ''BR_CPF'',
     prg_identity_document_country = Some ''BR'', prg_identity_document_value = Some ''529.982.247-25''\<rparr>"

definition empty_auth :: auth_db where
  "empty_auth = \<lparr>adb_users = [], adb_identifiers = [], adb_tokens = [], adb_recovery = [], adb_events = [],
     adb_roles = [], adb_next = 0\<rparr>"

definition registered_db :: auth_db where
  "registered_db = fst (snd (register demo_env 1 ''slug'' ''rnd'' ''tok'' demo_registration empty_auth))"

definition verified_db :: auth_db where
  "verified_db = snd (verify_email demo_lib 2 ''tok'' ''Pw-12345'' registered_db)"

definition recovery_db :: auth_db where
  "recovery_db = fst (snd (request_password_recovery demo_env 3 ''tok2'' ''ana@x.org'' None verified_db))"

lemma demo_verify_ok: "verify_email demo_lib 2 ''tok'' ''Pw-12345'' registered_db = (Inr (), verified_db)"
proof -
  have "case fst (verify_email demo_lib 2 ''tok'' ''Pw-12345'' registered_db) of Inr _ \<Rightarrow> True | Inl _ \<Rightarrow> False"
    by code_simp
  then have "fst (verify_email demo_lib 2 ''tok'' ''Pw-12345'' registered_db) = Inr ()"
    by (auto split: sum.splits)
  then show ?thesis unfolding verified_db_def by (metis prod.collapse)
qed



text \<open>a new recovery token supersedes the earlier ones: once a recovery mail is sent, a token issued
  for that user's recovery before is refused.\<close>

theorem recovery_token_superseded:
  assumes ok: "request_password_recovery E now raw email return_url db = (Inr (), db', [mail])"
    and u: "user_by_email db email = Some u"
    and old: "t \<in> set (adb_tokens db)" "tok_user_id t = usr_id u" "tok_token_hash t = lib_digest (env_lib E) raw'"
    and uniq: "distinct (map tok_token_hash (adb_tokens db))"
  shows "reset_password (env_lib E) later raw' pw db' = (Inl InvalidAccountTokenError, db')"
proof -
  let ?K = "env_lib E"
  have db': "db' = issue_token ?K now raw (usr_id u) ''reset_password'' (acs_password_reset_ttl (env_settings E)) db"
    and fresh: "\<not> token_conflict ?K db raw"
    using ok u by (auto simp: request_password_recovery_def Let_def split: if_splits)
  have "lib_digest ?K raw \<noteq> lib_digest ?K raw'"
    using fresh old(1,3) by (auto simp: token_conflict_def list_ex_iff)
  moreover have only: "x = t" if "x \<in> set (adb_tokens db)" "tok_token_hash x = lib_digest ?K raw'" for x
    using uniq old(1,3) that by (metis distinct_map inj_on_def)
  ultimately have "\<not> token_usable ?K later raw' ''reset_password'' x" if "x \<in> set (adb_tokens db')" for x
    using that old(2) unfolding db' issue_token_def
    by (auto simp: set_table_update token_usable_def split: if_splits)
  then show ?thesis by (simp add: reset_password_def consume_token_none)
qed

theorem recovery_token_superseded_witness:
  "\<exists>db'. reset_password demo_lib 10 ''tok2'' ''x'' db' = (Inl InvalidAccountTokenError, db')"
proof -
  have "case request_password_recovery demo_env 5 ''tok3'' ''ana@x.org'' None recovery_db of
      (Inr _, db', [m]) \<Rightarrow> True | _ \<Rightarrow> False" by code_simp
  then obtain db' m where r: "request_password_recovery demo_env 5 ''tok3'' ''ana@x.org'' None recovery_db = (Inr (), db', [m])"
    by (auto split: prod.splits sum.splits list.splits)
  have "case user_by_email recovery_db ''ana@x.org'' of None \<Rightarrow> False
      | Some u \<Rightarrow> length (adb_tokens recovery_db) = 2 \<and> tok_user_id (adb_tokens recovery_db ! 1) = usr_id u" by code_simp
  then obtain u where u: "user_by_email recovery_db ''ana@x.org'' = Some u" "length (adb_tokens recovery_db) = 2"
    "tok_user_id (adb_tokens recovery_db ! 1) = usr_id u" by (auto split: option.splits)
  have "tok_token_hash (adb_tokens recovery_db ! 1) = lib_digest (env_lib demo_env) ''tok2''"
    "distinct (map tok_token_hash (adb_tokens recovery_db))" by code_simp+
  moreover have "adb_tokens recovery_db ! 1 \<in> set (adb_tokens recovery_db)" using u(2) by simp
  ultimately show ?thesis
    using recovery_token_superseded[OF r u(1) _ u(3), of "''tok2''" 10 "''x''"] by (auto simp: demo_env_def)
qed

text \<open>resetting a password ends every session of that user and of no other: a session whose user the
  reset changed no longer identifies anyone, and the others are unaffected.\<close>

theorem password_reset_ends_sessions:
  assumes ok: "reset_password K now raw pw db = (Inr (), db')"
  shows "\<exists>uid u. user_by_id db' uid = Some u \<and> usr_password_hash u = lib_hash_password K pw \<and>
    (\<forall>st. user_is_active db st \<longrightarrow> (user_is_active db' st \<longleftrightarrow> user_identifier (ss_user_id st) \<noteq> uid)) \<and>
    (\<forall>C t token r st. state_for_access C K t r token = Some st \<longrightarrow> user_identifier (ss_user_id st) = uid \<longrightarrow>
       current_session C K t token db r \<noteq> None \<longrightarrow> current_session C K t token db' r = None)"
proof (rule reset_password_Inr[OF ok])
  fix t db1 u
  assume c: "consume_token K now raw ''reset_password'' db = Inr (t, db1)" and u: "user_by_id db1 (tok_user_id t) = Some u"
    and db': "db' = user_set (usr_id u) (\<lambda>x. x\<lparr>usr_password_hash := lib_hash_password K pw,
       usr_token_version := usr_token_version x + 1\<rparr>) db1"
  have uid: "usr_id u = tok_user_id t" using find_by_Some[OF u[unfolded user_by_id_def]] .
  have same: "user_by_id db1 v = user_by_id db v" for v
    using consume_token_Inr(3)[OF c] by (rule user_by_id_cong)
  have act: "user_is_active db' st \<longleftrightarrow> user_identifier (ss_user_id st) \<noteq> usr_id u" if "user_is_active db st" for st
    using that u by (auto simp: db' user_is_active_def same uid split: option.splits)
  show ?thesis
  proof (intro exI[of _ "usr_id u"] exI conjI)
    show "user_by_id db' (usr_id u) = Some (u\<lparr>usr_password_hash := lib_hash_password K pw,
        usr_token_version := usr_token_version u + 1\<rparr>)"
      using u uid by (simp add: db')
  qed (use act in \<open>auto simp: current_session_def split: if_splits option.splits\<close>)
qed

theorem password_reset_ends_sessions_witness:
  "\<exists>db' uid u. reset_password demo_lib 4 ''tok2'' ''Np-12345'' recovery_db = (Inr (), db') \<and> user_by_id db' uid = Some u \<and>
     usr_password_hash u = lib_hash_password demo_lib ''Np-12345''"
proof -
  have "case reset_password demo_lib 4 ''tok2'' ''Np-12345'' recovery_db of (Inr _, _) \<Rightarrow> True | _ \<Rightarrow> False" by code_simp
  then obtain db' where r: "reset_password demo_lib 4 ''tok2'' ''Np-12345'' recovery_db = (Inr (), db')"
    by (auto split: prod.splits sum.splits)
  from password_reset_ends_sessions[OF r] show ?thesis using r by blast
qed

lemma add_account_users:
  assumes "add_account E u role identity db = Inr db1"
  shows "adb_users db1 = adb_users db @ [u]" "adb_tokens db1 = adb_tokens db" "adb_recovery db1 = adb_recovery db"
    "\<not> user_conflict db u"
  using assms by (auto simp: add_account_def Let_def split: if_splits option.splits prod.splits sum.splits)



end
