(* ===== verification/Core_State.thy ===== *)
theory Core_State
  imports Identifiers "HOL-Library.List_Lexorder" "HOL-Library.Char_ord" "HOL-Library.Product_Lexorder"
    "HOL-Library.Option_ord"
begin

text \<open>
  The relational state of the core API: the rows of the tables for tenants, memberships,
  billing accounts, billing events, billing payments and audit events, the session of
  SQLAlchemy that operations run in, and the arguments every operation gets from its
  environment.

  \<^item> A table is the list of its rows in insertion order. A \<open>SELECT\<close> without \<open>ORDER BY\<close> that
    asks for one row takes the first match in this order.
  \<^item> \<open>SessionLocal.begin()\<close> is \<open>transaction\<close>: an exception drops every change, the normal
    end commits. A flush sends the pending rows to the database and raises
    \<open>IntegrityError\<close> when a unique constraint or a foreign key fails.
  \<^item> The session has \<open>autoflush=False\<close>. The one pending change a later query of the same
    transaction can miss is the restoration of a deleted billing account, so the account
    keeps two columns: \<open>ba_deleted_at\<close>, what the session object says, and
    \<open>ba_row_deleted_at\<close>, what a \<open>WHERE\<close> clause sees until the next flush.
  \<^item> \<open>updated_at\<close>, which no operation reads, is left out.
\<close>

section \<open>Rows\<close>

record tenant =
  ten_id :: uuid
  ten_created_at :: datetime
  ten_deleted_at :: "datetime option"
  ten_name :: string
  ten_slug :: string
  ten_status :: string
  ten_default_locale :: string
  ten_country_code :: "string option"
  ten_timezone :: string
  ten_currency :: string
  ten_kind :: string
  ten_legal_name :: "string option"
  ten_registration_country :: "string option"
  ten_registration_type :: "string option"
  ten_registration_value_encrypted :: "string option"
  ten_registration_lookup_hmac :: "string option"
  ten_registration_masked :: "masked option"
  ten_registration_verification_status :: "string option"
  ten_registration_source :: "string option"
  ten_registration_provider_reference :: "string option"

record tenant_member =
  mb_id :: uuid
  mb_created_at :: datetime
  mb_deleted_at :: "datetime option"
  mb_tenant_id :: uuid
  mb_auth_user_id :: string
  mb_auth_user_uuid :: "uuid option"
  mb_role :: string
  mb_status :: string
  mb_joined_at :: "datetime option"

record billing_account =
  ba_id :: uuid
  ba_created_at :: datetime
  ba_deleted_at :: "datetime option"
  ba_row_deleted_at :: "datetime option"
  ba_tenant_id :: uuid
  ba_status :: string
  ba_provider :: "string option"
  ba_provider_customer_id :: "string option"
  ba_provider_subscription_id :: "string option"
  ba_current_product_code :: "string option"
  ba_current_period_ends_at :: "datetime option"
  ba_cancel_at_period_end :: bool
  ba_cancels_at :: "datetime option"
  ba_grace_period_ends_at :: "datetime option"
  ba_last_provider_event_created_at :: "datetime option"
  ba_free_signatures_limit :: int
  ba_signatures_used :: int
  ba_files_uploaded_in_period :: int
  ba_usage_period_starts_at :: "datetime option"
  ba_complimentary_lifetime :: bool

record billing_event =
  be_id :: uuid
  be_tenant_id :: "uuid option"
  be_provider :: string
  be_provider_event_id :: string
  be_event_type :: string
  be_resource_id :: string
  be_payload_hash :: string
  be_payload_sanitized :: json
  be_status :: string
  be_processed_at :: "datetime option"
  be_error_code :: "string option"

record billing_payment =
  bp_id :: uuid
  bp_created_at :: datetime
  bp_deleted_at :: "datetime option"
  bp_tenant_id :: uuid
  bp_provider :: string
  bp_provider_payment_id :: string
  bp_provider_subscription_id :: "string option"
  bp_provider_event_id :: string
  bp_status :: string
  bp_currency :: string
  bp_amount_due_minor :: int
  bp_amount_paid_minor :: int
  bp_period_starts_at :: "datetime option"
  bp_period_ends_at :: "datetime option"
  bp_paid_at :: "datetime option"

record audit_row =
  ar_id :: uuid
  ar_signature_request_id :: "uuid option"
  ar_occurred_at :: datetime
  ar_actor_type :: string
  ar_actor_id :: string
  ar_action :: string
  ar_entity_type :: string
  ar_entity_id :: uuid
  ar_correlation_id :: uuid
  ar_metadata :: json

text \<open>\<open>cdb_next\<close> is the supply of \<open>uuid4\<close> and of the random slugs.\<close>

record core_db =
  cdb_next :: uuid
  cdb_tenants :: "tenant list"
  cdb_members :: "tenant_member list"
  cdb_accounts :: "billing_account list"
  cdb_events :: "billing_event list"
  cdb_payments :: "billing_payment list"
  cdb_audit :: "audit_row list"

section \<open>Constraints, flush and transactions\<close>

definition present :: "('r \<Rightarrow> 'v option) \<Rightarrow> 'r list \<Rightarrow> 'v list" where
  "present f rows = map the (filter (\<lambda>v. v \<noteq> None) (map f rows))"

definition tenants_ok :: "'z core_db_scheme \<Rightarrow> bool" where
  "tenants_ok db \<longleftrightarrow> distinct (map ten_id (cdb_tenants db)) \<and> distinct (map ten_slug (cdb_tenants db))"

definition members_ok :: "'z core_db_scheme \<Rightarrow> bool" where
  "members_ok db \<longleftrightarrow> distinct (map mb_id (cdb_members db)) \<and>
     distinct (map (\<lambda>m. (mb_tenant_id m, mb_auth_user_id m)) (cdb_members db)) \<and>
     distinct (map (\<lambda>m. (mb_tenant_id m, mb_auth_user_uuid m))
       (filter (\<lambda>m. mb_auth_user_uuid m \<noteq> None \<and> mb_deleted_at m = None) (cdb_members db))) \<and>
     list_all (\<lambda>m. mb_tenant_id m \<in> set (map ten_id (cdb_tenants db))) (cdb_members db)"

definition accounts_ok :: "'z core_db_scheme \<Rightarrow> bool" where
  "accounts_ok db \<longleftrightarrow> distinct (map ba_id (cdb_accounts db)) \<and> distinct (map ba_tenant_id (cdb_accounts db)) \<and>
     distinct (present ba_provider_customer_id (cdb_accounts db)) \<and>
     distinct (present ba_provider_subscription_id (cdb_accounts db)) \<and>
     list_all (\<lambda>a. ba_tenant_id a \<in> set (map ten_id (cdb_tenants db))) (cdb_accounts db)"

definition billing_rows_ok :: "'z core_db_scheme \<Rightarrow> bool" where
  "billing_rows_ok db \<longleftrightarrow>
     distinct (map (\<lambda>e. (be_provider e, be_provider_event_id e)) (cdb_events db)) \<and>
     distinct (map (\<lambda>p. (bp_provider p, bp_provider_payment_id p)) (cdb_payments db)) \<and>
     list_all (\<lambda>t. t \<in> set (map ten_id (cdb_tenants db))) (present be_tenant_id (cdb_events db)) \<and>
     list_all (\<lambda>p. bp_tenant_id p \<in> set (map ten_id (cdb_tenants db))) (cdb_payments db)"

definition constraints_ok :: "'z core_db_scheme \<Rightarrow> bool" where
  "constraints_ok db \<longleftrightarrow> tenants_ok db \<and> members_ok db \<and> accounts_ok db \<and> billing_rows_ok db"

definition sync_rows :: "'z core_db_scheme \<Rightarrow> 'z core_db_scheme" where
  "sync_rows db =
     db\<lparr>cdb_accounts := map (\<lambda>a. a\<lparr>ba_row_deleted_at := ba_deleted_at a\<rparr>) (cdb_accounts db)\<rparr>"

definition flush :: "'z core_db_scheme \<Rightarrow> 'z core_db_scheme result" where
  "flush db = (if constraints_ok db then Inr (sync_rows db) else Inl IntegrityError)"

text \<open>A state with nothing left to send: what a transaction starts from and ends in.\<close>

definition committed :: "'z core_db_scheme \<Rightarrow> bool" where
  "committed db \<longleftrightarrow> constraints_ok db \<and> sync_rows db = db"

lemma sync_rows_simps [simp]:
  "cdb_next (sync_rows db) = cdb_next db" "cdb_tenants (sync_rows db) = cdb_tenants db"
  "cdb_members (sync_rows db) = cdb_members db" "cdb_events (sync_rows db) = cdb_events db"
  "cdb_payments (sync_rows db) = cdb_payments db" "cdb_audit (sync_rows db) = cdb_audit db"
  by (simp_all add: sync_rows_def)

lemma sync_rows_idem [simp]: "sync_rows (sync_rows db) = sync_rows db"
  by (simp add: sync_rows_def)

lemma constraints_ok_sync [simp]: "constraints_ok (sync_rows db) = constraints_ok db"
  by (simp add: constraints_ok_def tenants_ok_def members_ok_def accounts_ok_def billing_rows_ok_def
      sync_rows_def present_def list.pred_map comp_def)

text \<open>\<open>with SessionLocal.begin() as db\<close>: the body returns its value and the session's state.\<close>

definition transaction ::
  "('z core_db_scheme \<Rightarrow> ('a \<times> 'z core_db_scheme) result) \<Rightarrow> 'z core_db_scheme \<Rightarrow> 'a result \<times> 'z core_db_scheme"
where
  "transaction body db =
     (case body db of
        Inl e \<Rightarrow> (Inl e, db)
      | Inr (v, db') \<Rightarrow>
          (case flush db' of
             Inl e \<Rightarrow> (Inl e, db)
           | Inr db'' \<Rightarrow> (Inr v, db'')))"

lemma transaction_Inr:
  assumes "transaction body db = (Inr v, db')"
  obtains db1 where "body db = Inr (v, db1)" "constraints_ok db1" "db' = sync_rows db1"
  using assms by (auto simp: transaction_def flush_def split: sum.splits if_splits)

lemma transaction_commits: "transaction body db = (Inr v, db') \<Longrightarrow> committed db'"
  by (auto elim!: transaction_Inr simp: committed_def)

lemma flush_Inr: "flush db = Inr db' \<longleftrightarrow> constraints_ok db \<and> db' = sync_rows db"
  by (auto simp: flush_def)

lemma transaction_Inl [dest]: "transaction body db = (Inl e, db') \<Longrightarrow> db' = db"
  by (auto simp: transaction_def split: sum.splits prod.splits)

section \<open>Environment\<close>

text \<open>
  What the reply of the Auth service to an internal call can be: a body with the field
  \<open>user_id\<close> or without it, an error status with its detail, or no answer.
\<close>

datatype auth_reply = AuthReply "string option" | AuthStatus int string | AuthDown

datatype invitation_call = InvitationCall string string string string string string

text \<open>
  \<open>ce_user_id\<close> is the user id of the active authentication context, \<open>ce_token_urlsafe n\<close> the
  \<open>n\<close>-th random slug, \<open>ce_collate\<close> the sort key of the database's collation,
  \<open>ce_encrypt\<close>/\<open>ce_hmac\<close> the Fernet encryption and HMAC of the tenant identity keys.
\<close>

record core_env =
  ce_now :: datetime
  ce_user_id :: "string option"
  ce_token_urlsafe :: "nat \<Rightarrow> string"
  ce_collate :: "string \<Rightarrow> string"
  ce_encrypt :: "string \<Rightarrow> string"
  ce_hmac :: "string \<Rightarrow> string"
  ce_auth_resolve :: "string \<Rightarrow> auth_reply"
  ce_auth_invite :: "invitation_call \<Rightarrow> auth_reply"

subsection \<open>\<open>UUID(text)\<close>\<close>

definition hex_value :: "char \<Rightarrow> nat option" where
  "hex_value c =
     (if is_digit c then Some (of_char c - 48)
      else if of_char (char_lower c) \<in> {97..102::nat} then Some (of_char (char_lower c) - 87) else None)"

lemma hex_value_code [code]:
  "hex_value c =
     (if is_digit c then Some (nat (of_char c - 48))
      else let n = of_char (char_lower c) :: int in if 97 \<le> n \<and> n \<le> 102 then Some (nat (n - 87)) else None)"
  by (auto simp: hex_value_def of_char_int Let_def nat_diff_distrib' is_digit_def)

text \<open>The digits of \<open>int(text, 16)\<close>, with single underscores between digits.\<close>

fun hex_digits_value :: "bool \<Rightarrow> nat \<Rightarrow> string \<Rightarrow> nat option" where
  "hex_digits_value after n [] = (if after then Some n else None)"
| "hex_digits_value after n (c # cs) =
     (case hex_value c of
        Some d \<Rightarrow> hex_digits_value True (16 * n + d) cs
      | None \<Rightarrow> if c = CHR ''_'' \<and> after then hex_digits_value False n cs else None)"

definition drop_hex_prefix :: "string \<Rightarrow> string" where
  "drop_hex_prefix s =
     (if lower (take 2 s) = ''0x'' then (if take 1 (drop 2 s) = ''_'' then drop 3 s else drop 2 s) else s)"

definition int_base16 :: "string \<Rightarrow> int option" where
  "int_base16 text =
     (let s = strip text in
      if take 1 s = ''-'' then map_option (\<lambda>n. - int n) (hex_digits_value False 0 (drop_hex_prefix (drop 1 s)))
      else if take 1 s = ''+'' then map_option int (hex_digits_value False 0 (drop_hex_prefix (drop 1 s)))
      else map_option int (hex_digits_value False 0 (drop_hex_prefix s)))"

text \<open>\<open>s.replace(pattern, '')\<close>.\<close>

function remove_all :: "string \<Rightarrow> string \<Rightarrow> string" where
  "remove_all pat s =
     (if pat = [] \<or> s = [] then s
      else if prefix pat s then remove_all pat (drop (length pat) s) else hd s # remove_all pat (tl s))"
  by pat_completeness auto
termination
  by (relation "measure (\<lambda>(_, s). length s)") (auto simp: prefix_def)

declare remove_all.simps [simp del]

definition parse_uuid :: "string \<Rightarrow> uuid option" where
  "parse_uuid text =
     (let h = filter (\<lambda>c. c \<noteq> CHR ''-'')
                (strip_by (\<lambda>c. c \<in> set ''{}'') (remove_all ''uuid:'' (remove_all ''urn:'' text)))
      in if length h \<noteq> 32 then None
         else (case int_base16 h of
                 None \<Rightarrow> None
               | Some n \<Rightarrow> if 0 \<le> n \<and> n < 2 ^ 128 then Some (nat n) else None))"

section \<open>Access to rows\<close>

definition tenant_get :: "'z core_db_scheme \<Rightarrow> uuid \<Rightarrow> tenant option" where
  "tenant_get db t = List.find (\<lambda>r. ten_id r = t) (cdb_tenants db)"

definition live_tenant :: "'z core_db_scheme \<Rightarrow> uuid \<Rightarrow> tenant option" where
  "live_tenant db t = List.find (\<lambda>r. ten_id r = t \<and> ten_deleted_at r = None) (cdb_tenants db)"

definition tenant_set :: "uuid \<Rightarrow> (tenant \<Rightarrow> tenant) \<Rightarrow> 'z core_db_scheme \<Rightarrow> 'z core_db_scheme" where
  "tenant_set t f db = db\<lparr>cdb_tenants := table_update (\<lambda>r. ten_id r = t) f (cdb_tenants db)\<rparr>"

definition member_set :: "uuid \<Rightarrow> (tenant_member \<Rightarrow> tenant_member) \<Rightarrow> 'z core_db_scheme \<Rightarrow> 'z core_db_scheme" where
  "member_set i f db = db\<lparr>cdb_members := table_update (\<lambda>r. mb_id r = i) f (cdb_members db)\<rparr>"

definition account_set ::
  "uuid \<Rightarrow> (billing_account \<Rightarrow> billing_account) \<Rightarrow> 'z core_db_scheme \<Rightarrow> 'z core_db_scheme" where
  "account_set t f db = db\<lparr>cdb_accounts := table_update (\<lambda>r. ba_tenant_id r = t) f (cdb_accounts db)\<rparr>"

text \<open>The account of a tenant: any row, and the row a query for undeleted rows finds.\<close>

definition account_of :: "'z core_db_scheme \<Rightarrow> uuid \<Rightarrow> billing_account option" where
  "account_of db t = List.find (\<lambda>a. ba_tenant_id a = t) (cdb_accounts db)"

definition visible_account :: "'z core_db_scheme \<Rightarrow> uuid \<Rightarrow> billing_account option" where
  "visible_account db t =
     List.find (\<lambda>a. ba_tenant_id a = t \<and> ba_row_deleted_at a = None) (cdb_accounts db)"

definition new_account :: "uuid \<Rightarrow> datetime \<Rightarrow> uuid \<Rightarrow> billing_account" where
  "new_account i now t =
     \<lparr>ba_id = i, ba_created_at = now, ba_deleted_at = None, ba_row_deleted_at = None, ba_tenant_id = t,
      ba_status = ''not_configured'', ba_provider = None, ba_provider_customer_id = None,
      ba_provider_subscription_id = None, ba_current_product_code = None, ba_current_period_ends_at = None,
      ba_cancel_at_period_end = False, ba_cancels_at = None, ba_grace_period_ends_at = None,
      ba_last_provider_event_created_at = None, ba_free_signatures_limit = 5, ba_signatures_used = 0,
      ba_files_uploaded_in_period = 0, ba_usage_period_starts_at = None, ba_complimentary_lifetime = False\<rparr>"

text \<open>The active members of a tenant, in table order.\<close>

definition is_active_member :: "uuid \<Rightarrow> tenant_member \<Rightarrow> bool" where
  "is_active_member t m \<longleftrightarrow> mb_tenant_id m = t \<and> mb_deleted_at m = None \<and> mb_status m = ''active''"

definition active_members :: "'z core_db_scheme \<Rightarrow> uuid \<Rightarrow> tenant_member list" where
  "active_members db t = filter (is_active_member t) (cdb_members db)"

definition team_members :: "'z core_db_scheme \<Rightarrow> uuid \<Rightarrow> tenant_member list" where
  "team_members db t = filter (\<lambda>m. mb_tenant_id m = t \<and> mb_deleted_at m = None) (cdb_members db)"

section \<open>The policy of a billing account\<close>

text \<open>\<open>PLAN_FILE_LIMITS\<close>, \<open>BUSINESS_PRODUCT_CODES\<close> and \<open>PLAN_MEMBER_LIMITS\<close>.\<close>

definition plan_file_limits :: "(string, int) dict" where
  "plan_file_limits = [(''rubrica_base'', 20), (''rubrica_intermediate'', 80), (''rubrica_team'', 200)]"

definition business_product_codes :: "string list" where
  "business_product_codes = [''rubrica_intermediate'', ''rubrica_team'']"

definition plan_member_limits :: "(string, int) dict" where
  "plan_member_limits = [(''rubrica_intermediate'', 3), (''rubrica_team'', 10)]"

definition normalize_product_code :: "string option \<Rightarrow> string" where
  "normalize_product_code code =
     (let v = (case code of None \<Rightarrow> ''rubrica_base'' | Some c \<Rightarrow> if c = [] then ''rubrica_base'' else c) in
      if v = ''rubrica_mvp'' then ''rubrica_base'' else v)"

definition paid_access_enabled :: "datetime \<Rightarrow> billing_account \<Rightarrow> bool" where
  "paid_access_enabled now a =
     (if ba_status a = ''active'' then True
      else case ba_grace_period_ends_at a of
             None \<Rightarrow> False
           | Some g \<Rightarrow> ba_status a = ''past_due'' \<and> now < g)"

definition active_plan_file_limit :: "datetime \<Rightarrow> billing_account \<Rightarrow> int option" where
  "active_plan_file_limit now a =
     (if \<not> paid_access_enabled now a then None
      else dict_get plan_file_limits (normalize_product_code (ba_current_product_code a)))"

definition subscription_requires_portal :: "billing_account \<Rightarrow> bool" where
  "subscription_requires_portal a \<longleftrightarrow>
     (case ba_provider_subscription_id a of None \<Rightarrow> False | Some s \<Rightarrow> s \<noteq> []) \<and>
     ba_status a \<in> set [''active'', ''pending'', ''past_due'', ''unpaid'', ''paused'']"

definition account_business_features :: "datetime \<Rightarrow> billing_account \<Rightarrow> bool" where
  "account_business_features now a \<longleftrightarrow> ba_complimentary_lifetime a \<or>
     (normalize_product_code (ba_current_product_code a) \<in> set business_product_codes \<and> paid_access_enabled now a)"

definition business_features_enabled :: "datetime \<Rightarrow> 'z core_db_scheme \<Rightarrow> uuid \<Rightarrow> bool" where
  "business_features_enabled now db t =
     (case visible_account db t of None \<Rightarrow> False | Some a \<Rightarrow> account_business_features now a)"

definition email_invitations_enabled :: "datetime \<Rightarrow> 'z core_db_scheme \<Rightarrow> uuid \<Rightarrow> bool" where
  "email_invitations_enabled now db t =
     (case visible_account db t of None \<Rightarrow> False | Some a \<Rightarrow> account_business_features now a)"

text \<open>\<open>member_limit\<close>: the seats of the current plan, \<open>None\<close> for no limit.\<close>

definition account_member_limit :: "datetime \<Rightarrow> billing_account \<Rightarrow> int option" where
  "account_member_limit now a =
     (if ba_complimentary_lifetime a then None
      else if \<not> paid_access_enabled now a then Some 1
      else Some (case ba_current_product_code a of None \<Rightarrow> 1 | Some c \<Rightarrow> dict_get_or plan_member_limits c 1))"

definition member_limit :: "datetime \<Rightarrow> 'z core_db_scheme \<Rightarrow> uuid \<Rightarrow> int option" where
  "member_limit now db t =
     (case visible_account db t of None \<Rightarrow> Some 1 | Some a \<Rightarrow> account_member_limit now a)"

definition team_over_limit :: "datetime \<Rightarrow> 'z core_db_scheme \<Rightarrow> uuid \<Rightarrow> bool" where
  "team_over_limit now db t =
     (case member_limit now db t of None \<Rightarrow> False | Some l \<Rightarrow> l < int (length (active_members db t)))"

section \<open>Lemmas\<close>

named_theorems row_defs \<open>access to the rows of the core database\<close>

lemmas [row_defs] = tenant_get_def live_tenant_def tenant_set_def member_set_def account_set_def
  account_of_def visible_account_def active_members_def team_members_def is_active_member_def

lemma find_key_and:
  "distinct (map k rows) \<Longrightarrow> List.find (\<lambda>r. k r = x \<and> p r) rows =
     (case List.find (\<lambda>r. k r = x) rows of None \<Rightarrow> None | Some r \<Rightarrow> if p r then Some r else None)"
proof (induction rows)
  case (Cons r rows)
  have "List.find (\<lambda>r. k r = x \<and> p r) rows = None" if "k r = x"
    unfolding find_None_conv using that Cons.prems by (metis distinct.simps(2) image_eqI list.simps(9) set_map)
  then show ?case using Cons by auto
qed simp

lemma visible_account_of:
  "distinct (map ba_tenant_id (cdb_accounts db)) \<Longrightarrow> visible_account db t =
     (case account_of db t of None \<Rightarrow> None | Some a \<Rightarrow> if ba_row_deleted_at a = None then Some a else None)"
  unfolding visible_account_def account_of_def by (rule find_key_and)

lemma find_table_update_key:
  "(\<And>a. k (f a) = k a) \<Longrightarrow> List.find (\<lambda>a. k a = x) (table_update (\<lambda>a. k a = y) f rows) =
     (if x = y then map_option f (List.find (\<lambda>a. k a = x) rows) else List.find (\<lambda>a. k a = x) rows)"
  by (induction rows) (auto simp: table_update_def)

lemma account_of_set:
  "(\<And>a. ba_tenant_id (f a) = ba_tenant_id a) \<Longrightarrow>
   account_of (account_set t f db) t' = (if t' = t then map_option f (account_of db t) else account_of db t')"
  unfolding account_of_def account_set_def by (simp add: find_table_update_key)

end
