(* ===== verification/Tenants.thy ===== *)
theory Tenants
  imports Core_State
begin

text \<open>
  Tenants, memberships and teams: \<open>modules/tenant/tenant_service.py\<close> with its payloads
  (\<open>tenant_schema.py\<close>) and the calls to the Auth service (\<open>user_client.py\<close>). Every
  method is a body on the session's state; the public ones run it in a \<open>transaction\<close>.
  The rows a query locks with \<open>FOR UPDATE\<close> make the operations on one team sequential,
  so one operation is one step.
\<close>

section \<open>Payloads and answers\<close>

record tenant_create =
  tc_name :: string
  tc_default_locale :: string
  tc_country_code :: "string option"
  tc_timezone :: string
  tc_currency :: string

record tenant_provision =
  tp_owner_user_id :: "uuid option"
  tp_owner_email :: string
  tp_name :: string
  tp_default_locale :: string
  tp_country_code :: "string option"

record tenant_preferences_update =
  tu_default_locale :: string
  tu_country_code :: "string option"
  tu_timezone :: string
  tu_currency :: string

record tenant_business_conversion =
  bc_legal_name :: string
  bc_cnpj :: string

record tenant_member_create =
  mc_auth_user_id :: string
  mc_role :: string

record tenant_member_invitation =
  mi_name :: string
  mi_email :: string
  mi_document :: string
  mi_role :: string

record tenant_read =
  tr_tenant :: tenant
  tr_role :: string

record tenant_member_read =
  mr_id :: uuid
  mr_auth_user_id :: string
  mr_role :: string
  mr_status :: string
  mr_joined_at :: "datetime option"

record tenant_team_read =
  tt_members :: "tenant_member_read list"
  tt_member_limit :: "int option"
  tt_active_count :: int
  tt_requires_selection :: bool
  tt_can_manage :: bool
  tt_current_member_id :: uuid

record suspended_tenant_access =
  sa_tenant_id :: uuid
  sa_tenant_name :: string
  sa_tenant_kind :: string
  sa_role :: string
  sa_default_locale :: string
  sa_country_code :: "string option"
  sa_currency :: string

record tenant_access_state =
  as_active_tenant_count :: nat
  as_suspended_tenants :: "suspended_tenant_access list"
  as_can_create_personal_tenant :: bool

text \<open>
  The validators of the payloads. A payload is built from the texts of the request; a
  violated constraint is a \<open>ValueError\<close>. \<open>known\<close> says which time zones exist.
\<close>

definition length_between :: "nat \<Rightarrow> nat \<Rightarrow> string \<Rightarrow> bool" where
  "length_between lo hi s \<longleftrightarrow> lo \<le> length s \<and> length s \<le> hi"

definition tenant_create_of ::
  "(string \<Rightarrow> bool) \<Rightarrow> string \<Rightarrow> string \<Rightarrow> string \<Rightarrow> string \<Rightarrow> string \<Rightarrow> tenant_create result"
where
  "tenant_create_of known name loc country tz currency =
     (if \<not> length_between 1 160 name then Inl (ValueError ''name'')
      else (case (normalize_country_code country, normalize_timezone known tz, normalize_currency currency) of
              (Inr c, Inr z, Inr u) \<Rightarrow>
                Inr \<lparr>tc_name = name, tc_default_locale = locale_str (normalize_locale loc), tc_country_code = c,
                     tc_timezone = z, tc_currency = u\<rparr>
            | _ \<Rightarrow> Inl (ValueError ''tenant'')))"

definition tenant_preferences_of ::
  "(string \<Rightarrow> bool) \<Rightarrow> string \<Rightarrow> string \<Rightarrow> string \<Rightarrow> string \<Rightarrow> tenant_preferences_update result"
where
  "tenant_preferences_of known loc country tz currency =
     (case (normalize_country_code country, normalize_timezone known tz, normalize_currency currency) of
        (Inr c, Inr z, Inr u) \<Rightarrow>
          Inr \<lparr>tu_default_locale = locale_str (normalize_locale loc), tu_country_code = c, tu_timezone = z, tu_currency = u\<rparr>
      | _ \<Rightarrow> Inl (ValueError ''preferences''))"

definition tenant_provision_of ::
  "uuid option \<Rightarrow> string \<Rightarrow> string \<Rightarrow> string \<Rightarrow> string \<Rightarrow> tenant_provision result"
where
  "tenant_provision_of owner email name loc country =
     (if \<not> length_between 5 255 email \<or> \<not> email_match email then Inl (ValueError ''owner_email'')
      else if \<not> length_between 2 180 name then Inl (ValueError ''name'')
      else (case normalize_country_code country of
              Inl e \<Rightarrow> Inl e
            | Inr c \<Rightarrow> Inr \<lparr>tp_owner_user_id = owner, tp_owner_email = email, tp_name = name,
                 tp_default_locale = locale_str (normalize_locale loc), tp_country_code = c\<rparr>))"

definition member_create_valid :: "tenant_member_create \<Rightarrow> bool" where
  "member_create_valid p \<longleftrightarrow>
     length_between 3 255 (mc_auth_user_id p) \<and> mc_role p \<in> set [''admin'', ''member'', ''auditor'']"

definition member_invitation_valid :: "tenant_member_invitation \<Rightarrow> bool" where
  "member_invitation_valid p \<longleftrightarrow> length_between 2 180 (mi_name p) \<and> length_between 5 255 (mi_email p) \<and>
     email_match (mi_email p) \<and> length_between 11 18 (mi_document p) \<and> mi_role p \<in> set [''member'', ''auditor'']"

text \<open>\<open>TenantTeamUpdate.unique_members\<close>.\<close>

definition team_update_valid :: "uuid list \<Rightarrow> bool" where
  "team_update_valid ids \<longleftrightarrow> 1 \<le> length ids \<and> length ids \<le> 1000 \<and> length ids = card (set ids)"

section \<open>The Auth service\<close>

definition auth_unavailable :: exn where
  "auth_unavailable = workflow_error ''Auth service is unavailable'' 503"

definition resolve_auth_user :: "core_env \<Rightarrow> string \<Rightarrow> uuid result" where
  "resolve_auth_user E email =
     (case ce_auth_resolve E email of
        AuthReply body \<Rightarrow>
          (case Option.bind body parse_uuid of None \<Rightarrow> Inl auth_unavailable | Some u \<Rightarrow> Inr u)
      | AuthStatus code detail \<Rightarrow>
          if code = 404 then Inl (workflow_error ''The invited user does not exist or is inactive'' 422)
          else Inl auth_unavailable
      | AuthDown \<Rightarrow> Inl auth_unavailable)"

definition invitation_unavailable :: exn where
  "invitation_unavailable = workflow_error ''Auth invitation service is unavailable'' 503"

definition invite_auth_user ::
  "core_env \<Rightarrow> string \<Rightarrow> string \<Rightarrow> string \<Rightarrow> string \<Rightarrow> string \<Rightarrow> uuid result"
where
  "invite_auth_user E name email document locale country =
     (case ce_auth_invite E (InvitationCall name email
             (if country = ''BR'' then ''BR_CPF'' else ''NATIONAL_ID'') country document locale) of
        AuthReply body \<Rightarrow>
          (case Option.bind body parse_uuid of None \<Rightarrow> Inl invitation_unavailable | Some u \<Rightarrow> Inr u)
      | AuthStatus code detail \<Rightarrow>
          if code \<in> {409, 422}
          then Inl (workflow_error
                 (if detail = [] then ''E-mail or identity document is already registered'' else detail) code)
          else Inl invitation_unavailable
      | AuthDown \<Rightarrow> Inl invitation_unavailable)"

section \<open>Shared steps\<close>

definition euro_country_codes :: "string list" where
  "euro_country_codes =
     [''AD'', ''AT'', ''BE'', ''CY'', ''DE'', ''EE'', ''ES'', ''FI'', ''FR'', ''GR'', ''HR'', ''IE'', ''IT'', ''LT'',
      ''LU'', ''LV'', ''MC'', ''ME'', ''MT'', ''NL'', ''PT'', ''SI'', ''SK'', ''SM'', ''VA'', ''XK'']"

definition billing_currency_for_country :: "string option \<Rightarrow> string" where
  "billing_currency_for_country country_code =
     (let code = upper (case country_code of None \<Rightarrow> [] | Some c \<Rightarrow> c) in
      if code = ''BR'' then ''BRL''
      else if code = ''JP'' then ''JPY''
      else if code \<in> set euro_country_codes then ''EUR''
      else ''USD'')"

definition new_tenant ::
  "uuid \<Rightarrow> datetime \<Rightarrow> string \<Rightarrow> string \<Rightarrow> string \<Rightarrow> string option \<Rightarrow> string \<Rightarrow> string \<Rightarrow> tenant"
where
  "new_tenant i now name slug locale country tz currency =
     \<lparr>ten_id = i, ten_created_at = now, ten_deleted_at = None, ten_name = name, ten_slug = slug,
      ten_status = ''active'', ten_default_locale = locale, ten_country_code = country, ten_timezone = tz,
      ten_currency = currency, ten_kind = ''personal'', ten_legal_name = None, ten_registration_country = None,
      ten_registration_type = None, ten_registration_value_encrypted = None,
      ten_registration_lookup_hmac = None, ten_registration_masked = None,
      ten_registration_verification_status = None, ten_registration_source = None,
      ten_registration_provider_reference = None\<rparr>"

definition new_member ::
  "uuid \<Rightarrow> datetime \<Rightarrow> uuid \<Rightarrow> string \<Rightarrow> uuid option \<Rightarrow> string \<Rightarrow> datetime option \<Rightarrow> tenant_member"
where
  "new_member i now t user user_uuid role joined =
     \<lparr>mb_id = i, mb_created_at = now, mb_deleted_at = None, mb_tenant_id = t, mb_auth_user_id = user,
      mb_auth_user_uuid = user_uuid, mb_role = role, mb_status = ''active'', mb_joined_at = joined\<rparr>"

definition tenant_audit ::
  "datetime \<Rightarrow> uuid \<Rightarrow> string \<Rightarrow> string \<Rightarrow> (string \<times> json) list \<Rightarrow> 'z core_db_scheme \<Rightarrow> 'z core_db_scheme"
where
  "tenant_audit now t actor action metadata db =
     db\<lparr>cdb_next := cdb_next db + 2,
        cdb_audit := cdb_audit db @
          [\<lparr>ar_id = cdb_next db, ar_signature_request_id = None, ar_occurred_at = now, ar_actor_type = ''user'',
            ar_actor_id = actor, ar_action = action, ar_entity_type = ''tenant'', ar_entity_id = t,
            ar_correlation_id = cdb_next db + 1, ar_metadata = JObj metadata\<rparr>]\<rparr>"

definition add_member_row :: "tenant_member \<Rightarrow> 'z core_db_scheme \<Rightarrow> 'z core_db_scheme" where
  "add_member_row m db = db\<lparr>cdb_next := cdb_next db + 1, cdb_members := cdb_members db @ [m]\<rparr>"

text \<open>\<open>db.add(BillingAccountEntity(tenant_id=t, status="not_configured"))\<close>.\<close>

definition add_account_row :: "datetime \<Rightarrow> uuid \<Rightarrow> 'z core_db_scheme \<Rightarrow> 'z core_db_scheme" where
  "add_account_row now t db =
     db\<lparr>cdb_next := cdb_next db + 1, cdb_accounts := cdb_accounts db @ [new_account (cdb_next db) now t]\<rparr>"

text \<open>Two draws of the supply: the id of the tenant and its slug.\<close>

definition add_tenant_row :: "tenant \<Rightarrow> 'z core_db_scheme \<Rightarrow> 'z core_db_scheme" where
  "add_tenant_row r db = db\<lparr>cdb_next := cdb_next db + 2, cdb_tenants := cdb_tenants db @ [r]\<rparr>"

definition resolved_user :: "core_env \<Rightarrow> uuid option \<Rightarrow> uuid option" where
  "resolved_user E user_id =
     (case user_id of
        Some u \<Rightarrow> Some u
      | None \<Rightarrow> (case ce_user_id E of None \<Rightarrow> None | Some s \<Rightarrow> if s = [] then None else parse_uuid s))"

definition membership_identity :: "core_env \<Rightarrow> string \<Rightarrow> uuid option \<Rightarrow> tenant_member \<Rightarrow> bool" where
  "membership_identity E subject user_id m \<longleftrightarrow>
     (let legacy = mb_auth_user_uuid m = None \<and> mb_auth_user_id m = lower subject in
      case resolved_user E user_id of
        None \<Rightarrow> legacy
      | Some u \<Rightarrow> mb_auth_user_uuid m = Some u \<or> legacy)"

definition require_role ::
  "core_env \<Rightarrow> 'z core_db_scheme \<Rightarrow> uuid \<Rightarrow> string \<Rightarrow> string list option \<Rightarrow> bool \<Rightarrow> tenant_member result"
where
  "require_role E db t subject roles allow_over_limit =
     (case List.find (\<lambda>m. mb_tenant_id m = t \<and> membership_identity E subject None m \<and>
             mb_deleted_at m = None \<and> mb_status m = ''active'') (cdb_members db) of
        None \<Rightarrow> Inl (workflow_error ''Tenant access denied'' 403)
      | Some m \<Rightarrow>
          if (case roles of None \<Rightarrow> False | Some rs \<Rightarrow> mb_role m \<notin> set rs)
          then Inl (workflow_error ''Tenant access denied'' 403)
          else if \<not> allow_over_limit \<and> team_over_limit (ce_now E) db t
          then Inl (workflow_error ''Select the active team members for the current plan'' 409)
          else Inr m)"

definition lock_team :: "'z core_db_scheme \<Rightarrow> uuid \<Rightarrow> unit result" where
  "lock_team db t =
     (case visible_account db t of None \<Rightarrow> Inl (workflow_error ''Tenant not found'' 404) | Some a \<Rightarrow> Inr ())"

definition tenant_not_found :: exn where
  "tenant_not_found = workflow_error ''Tenant not found'' 404"

text \<open>\<open>f"The current plan allows up to {limit} tenant members"\<close>.\<close>

definition seats_exhausted :: "int \<Rightarrow> exn" where
  "seats_exhausted l =
     workflow_error (''The current plan allows up to '' @ decimal (nat l) @ '' tenant members'') 409"

text \<open>The key \<open>ORDER BY column\<close> with nulls last, the default of PostgreSQL.\<close>

definition nulls_last :: "datetime option \<Rightarrow> int \<times> datetime" where
  "nulls_last c = (case c of None \<Rightarrow> (1, 0) | Some t \<Rightarrow> (0, t))"

definition member_read :: "tenant_member \<Rightarrow> tenant_member_read" where
  "member_read m = \<lparr>mr_id = mb_id m, mr_auth_user_id = mb_auth_user_id m, mr_role = mb_role m,
     mr_status = mb_status m, mr_joined_at = mb_joined_at m\<rparr>"

definition team_read :: "core_env \<Rightarrow> 'z core_db_scheme \<Rightarrow> uuid \<Rightarrow> tenant_member \<Rightarrow> tenant_team_read" where
  "team_read E db t member =
     (let members = sort_key (\<lambda>m. (ce_collate E (mb_role m), ce_collate E (mb_auth_user_id m), mb_id m))
                      (team_members db t);
          limit = member_limit (ce_now E) db t;
          active_count = int (length (filter (\<lambda>m. mb_status m = ''active'') members))
      in \<lparr>tt_members = map member_read members, tt_member_limit = limit, tt_active_count = active_count,
          tt_requires_selection = (case limit of None \<Rightarrow> False | Some l \<Rightarrow> l < active_count),
          tt_can_manage = (mb_role member = ''admin''), tt_current_member_id = mb_id member\<rparr>)"

text \<open>\<open>reconcile_single_member_plan\<close>: with one seat, only the oldest administrator stays active.\<close>

definition seniority :: "tenant_member \<Rightarrow> (int \<times> datetime) \<times> datetime \<times> uuid" where
  "seniority m = (nulls_last (mb_joined_at m), mb_created_at m, mb_id m)"

definition reconcile_single_member_plan ::
  "core_env \<Rightarrow> uuid \<Rightarrow> 'z core_db_scheme \<Rightarrow> 'z core_db_scheme"
where
  "reconcile_single_member_plan E t db =
     (if member_limit (ce_now E) db t \<noteq> Some 1 then db
      else
        (let actives = sort_key seniority (active_members db t) in
         case List.find (\<lambda>m. mb_role m = ''admin'') actives of
           None \<Rightarrow> db
         | Some administrator \<Rightarrow>
             (let suspended = filter (\<lambda>m. mb_id m \<noteq> mb_id administrator) actives;
                  db1 = db\<lparr>cdb_members := table_update (\<lambda>m. mb_id m \<in> set (map mb_id suspended))
                              (mb_status_update (\<lambda>_. ''suspended'')) (cdb_members db)\<rparr>
              in if suspended = [] then db
                 else tenant_audit (ce_now E) t (mb_auth_user_id administrator)
                        ''tenant.team_reconciled_after_downgrade''
                        [(''active_member_id'', JUuid (mb_id administrator)),
                         (''suspended_member_ids'', JList (map (JUuid \<circ> mb_id) suspended))] db1)))"

section \<open>Creating tenants\<close>

definition owner_memberships ::
  "core_env \<Rightarrow> string \<Rightarrow> uuid option \<Rightarrow> 'z core_db_scheme \<Rightarrow> (tenant \<times> tenant_member) list"
where
  "owner_memberships E owner user_id db =
     concat (map (\<lambda>r. map (Pair r) (filter (\<lambda>m. mb_tenant_id m = ten_id r \<and>
         membership_identity E owner user_id m \<and> mb_role m = ''admin'') (cdb_members db)))
       (filter (\<lambda>r. ten_deleted_at r = None) (cdb_tenants db)))"

definition provision_owner ::
  "core_env \<Rightarrow> tenant_provision \<Rightarrow> 'z core_db_scheme \<Rightarrow> tenant_read result \<times> 'z core_db_scheme"
where
  "provision_owner E p = transaction (\<lambda>db.
     let owner = lower (strip (tp_owner_email p)) in
     (case sort_key (\<lambda>(r, m). ten_created_at r) (owner_memberships E owner (tp_owner_user_id p) db) of
        (r, m) # _ \<Rightarrow>
          (case List.find (\<lambda>m. mb_tenant_id m = ten_id r \<and>
                  membership_identity E owner (tp_owner_user_id p) m) (cdb_members db) of
             Some member \<Rightarrow>
               if mb_auth_user_uuid member = None
               then map_sum id (Pair (tenant_read.make r (mb_role m)))
                      (flush (member_set (mb_id member) (mb_auth_user_uuid_update (\<lambda>_. tp_owner_user_id p)) db))
               else Inr (tenant_read.make r (mb_role m), db)
           | None \<Rightarrow> Inr (tenant_read.make r (mb_role m), db))
      | [] \<Rightarrow>
          let r = new_tenant (cdb_next db) (ce_now E) (strip (tp_name p)) (ce_token_urlsafe E (cdb_next db + 1))
                    (tp_default_locale p) (tp_country_code p) ''UTC''
                    (billing_currency_for_country (tp_country_code p))
          in (case flush (add_tenant_row r db) of
                Inl e \<Rightarrow> Inl e
              | Inr db1 \<Rightarrow>
                  map_sum id (Pair (tenant_read.make r ''admin''))
                    (flush (add_account_row (ce_now E) (ten_id r)
                      (add_member_row (new_member (cdb_next db1) (ce_now E) (ten_id r) owner
                         (tp_owner_user_id p) ''admin'' (Some (ce_now E))) db1))))))"

definition tenant_from_create :: "core_env \<Rightarrow> tenant_create \<Rightarrow> uuid \<Rightarrow> tenant" where
  "tenant_from_create E p i =
     new_tenant i (ce_now E) (strip (tc_name p)) (ce_token_urlsafe E (i + 1)) (tc_default_locale p)
       (tc_country_code p) (tc_timezone p) (tc_currency p)"

definition create_tenant ::
  "core_env \<Rightarrow> tenant_create \<Rightarrow> string \<Rightarrow> 'z core_db_scheme \<Rightarrow> tenant_read result \<times> 'z core_db_scheme"
where
  "create_tenant E p subject = transaction (\<lambda>db.
     let r = tenant_from_create E p (cdb_next db) in
     (case flush (add_tenant_row r db) of
        Inl IntegrityError \<Rightarrow> Inl (workflow_error ''Tenant slug is already in use'' 409)
      | Inl e \<Rightarrow> Inl e
      | Inr db1 \<Rightarrow>
          map_sum id (Pair (tenant_read.make r ''admin''))
            (flush (add_account_row (ce_now E) (ten_id r)
              (add_member_row (new_member (cdb_next db1) (ce_now E) (ten_id r) (lower subject)
                 None ''admin'' None) db1)))))"

definition create_personal_after_suspension ::
  "core_env \<Rightarrow> tenant_create \<Rightarrow> string \<Rightarrow> string option \<Rightarrow> 'z core_db_scheme \<Rightarrow>
     tenant_read result \<times> 'z core_db_scheme"
where
  "create_personal_after_suspension E p subject user_id = transaction (\<lambda>db.
     let memberships = filter (\<lambda>m. membership_identity E subject None m \<and> mb_deleted_at m = None) (cdb_members db) in
     if list_ex (\<lambda>m. mb_status m = ''active'') memberships
     then Inl (workflow_error ''An active workspace already exists'' 409)
     else if \<not> list_ex (\<lambda>m. mb_status m = ''suspended'') memberships
     then Inl (workflow_error ''No suspended workspace access was found'' 409)
     else
       let user_uuid = (case user_id of None \<Rightarrow> None | Some s \<Rightarrow> if s = [] then None else parse_uuid s);
           r = tenant_from_create E p (cdb_next db)
       in (case flush (add_tenant_row r db) of
             Inl e \<Rightarrow> Inl e
           | Inr db1 \<Rightarrow>
               map_sum id (Pair (tenant_read.make r ''admin''))
                 (flush (tenant_audit (ce_now E) (ten_id r) subject ''tenant.personal_created_after_suspension''
                    [(''suspended_membership_count'', JInt (int (length memberships)))]
                    (add_account_row (ce_now E) (ten_id r)
                      (add_member_row (new_member (cdb_next db1) (ce_now E) (ten_id r) (lower subject)
                         user_uuid ''admin'' (Some (ce_now E))) db1))))))"

section \<open>Reading tenants\<close>

definition memberships_of ::
  "core_env \<Rightarrow> string \<Rightarrow> 'z core_db_scheme \<Rightarrow> (tenant \<times> tenant_member) list"
where
  "memberships_of E subject db =
     sort_key (\<lambda>(r, m). ce_collate E (ten_name r))
       (concat (map (\<lambda>r. map (Pair r) (filter (\<lambda>m. mb_tenant_id m = ten_id r \<and>
            membership_identity E subject None m \<and> mb_deleted_at m = None) (cdb_members db)))
          (filter (\<lambda>r. ten_deleted_at r = None) (cdb_tenants db))))"

definition list_for :: "core_env \<Rightarrow> string \<Rightarrow> 'z core_db_scheme \<Rightarrow> tenant_read list" where
  "list_for E subject db =
     map (\<lambda>(r, m). tenant_read.make r (mb_role m))
       (filter (\<lambda>(r, m). mb_status m = ''active'') (memberships_of E subject db))"

definition access_state :: "core_env \<Rightarrow> string \<Rightarrow> 'z core_db_scheme \<Rightarrow> tenant_access_state" where
  "access_state E subject db =
     (let memberships = memberships_of E subject db;
          active_count = length (filter (\<lambda>(r, m). mb_status m = ''active'') memberships);
          suspended = map (\<lambda>(r, m). \<lparr>sa_tenant_id = ten_id r, sa_tenant_name = ten_name r, sa_tenant_kind = ten_kind r,
              sa_role = mb_role m, sa_default_locale = ten_default_locale r, sa_country_code = ten_country_code r,
              sa_currency = ten_currency r\<rparr>) (filter (\<lambda>(r, m). mb_status m = ''suspended'') memberships)
      in \<lparr>as_active_tenant_count = active_count, as_suspended_tenants = suspended,
          as_can_create_personal_tenant = (active_count = 0 \<and> suspended \<noteq> [])\<rparr>)"

definition list_members ::
  "core_env \<Rightarrow> uuid \<Rightarrow> string \<Rightarrow> 'z core_db_scheme \<Rightarrow> tenant_member_read list result"
where
  "list_members E t subject db =
     (case require_role E db t subject (Some [''admin'', ''auditor'']) True of
        Inl e \<Rightarrow> Inl e
      | Inr _ \<Rightarrow> Inr (map member_read (sort_key (\<lambda>m. (nulls_last (mb_joined_at m), mb_created_at m)) (team_members db t))))"

section \<open>Changing teams\<close>

definition plan_required :: exn where
  "plan_required = workflow_error ''A Professional or Team plan is required for business members'' 403"

text \<open>The guards \<open>add_member\<close> and \<open>invite_member\<close> share: the tenant and its active members.\<close>

definition seat_check :: "core_env \<Rightarrow> uuid \<Rightarrow> string \<Rightarrow> 'z core_db_scheme \<Rightarrow> (tenant \<times> int) result" where
  "seat_check E t subject db =
     (case lock_team db t of Inl e \<Rightarrow> Inl e | Inr _ \<Rightarrow>
      (case require_role E db t subject (Some [''admin'']) True of Inl e \<Rightarrow> Inl e | Inr _ \<Rightarrow>
       (case tenant_get db t of
          None \<Rightarrow> Inl tenant_not_found
        | Some r \<Rightarrow>
            if ten_deleted_at r \<noteq> None then Inl tenant_not_found
            else if \<not> business_features_enabled (ce_now E) db t then Inl plan_required
            else
              (let active = int (length (active_members db t)) in
               case member_limit (ce_now E) db t of
                 None \<Rightarrow> Inr (r, active)
               | Some l \<Rightarrow> if l \<le> active then Inl (seats_exhausted l) else Inr (r, active)))))"

definition add_member ::
  "core_env \<Rightarrow> uuid \<Rightarrow> tenant_member_create \<Rightarrow> string \<Rightarrow> 'z core_db_scheme \<Rightarrow> unit result \<times> 'z core_db_scheme"
where
  "add_member E t p subject = transaction (\<lambda>db.
     case seat_check E t subject db of Inl e \<Rightarrow> Inl e | Inr (r, active) \<Rightarrow>
     (case resolve_auth_user E (lower (mc_auth_user_id p)) of Inl e \<Rightarrow> Inl e | Inr user_uuid \<Rightarrow>
      (case flush (add_member_row (new_member (cdb_next db) (ce_now E) t (lower (mc_auth_user_id p))
               (Some user_uuid) (mc_role p) (Some (ce_now E))) db) of
         Inl IntegrityError \<Rightarrow> Inl (workflow_error ''User is already a tenant member'' 409)
       | Inl e \<Rightarrow> Inl e
       | Inr db1 \<Rightarrow> Inr ((), tenant_audit (ce_now E) t subject ''tenant.member_added''
             [(''member_role'', JStr (mc_role p)), (''member_count'', JInt (active + 1))] db1))))"

definition invite_member ::
  "core_env \<Rightarrow> uuid \<Rightarrow> tenant_member_invitation \<Rightarrow> string \<Rightarrow> 'z core_db_scheme \<Rightarrow> unit result \<times> 'z core_db_scheme"
where
  "invite_member E t p subject = transaction (\<lambda>db.
     case seat_check E t subject db of Inl e \<Rightarrow> Inl e | Inr (r, active) \<Rightarrow>
     (let email = lower (strip (mi_email p)) in
      if list_ex (\<lambda>m. mb_tenant_id m = t \<and> mb_auth_user_id m = email \<and> mb_deleted_at m = None) (cdb_members db)
      then Inl (workflow_error ''User is already a tenant member'' 409)
      else
        (case invite_auth_user E (strip (mi_name p)) email (mi_document p) (ten_default_locale r)
                (case ten_country_code r of None \<Rightarrow> ''BR'' | Some c \<Rightarrow> if c = [] then ''BR'' else c) of
           Inl e \<Rightarrow> Inl e
         | Inr user_uuid \<Rightarrow>
             Inr ((), tenant_audit (ce_now E) t subject ''tenant.member_invited''
               [(''member_role'', JStr (mi_role p)), (''member_count'', JInt (active + 1))]
               (add_member_row (new_member (cdb_next db) (ce_now E) t email (Some user_uuid) (mi_role p)
                  (Some (ce_now E))) db)))))"

definition team ::
  "core_env \<Rightarrow> uuid \<Rightarrow> string \<Rightarrow> 'z core_db_scheme \<Rightarrow> tenant_team_read result \<times> 'z core_db_scheme"
where
  "team E t subject = transaction (\<lambda>db.
     case require_role E db t subject (Some [''admin'']) True of Inl e \<Rightarrow> Inl e | Inr member \<Rightarrow>
     (let db1 = reconcile_single_member_plan E t db in Inr (team_read E db1 t member, db1)))"

definition selected_status :: "uuid list \<Rightarrow> tenant_member \<Rightarrow> string" where
  "selected_status selected m = (if mb_id m \<in> set selected then ''active'' else ''suspended'')"

definition team_change :: "uuid list \<Rightarrow> tenant_member \<Rightarrow> json" where
  "team_change selected m = JObj [(''member_id'', JUuid (mb_id m)), (''previous_status'', JStr (mb_status m)),
     (''status'', JStr (selected_status selected m))]"

definition json_limit :: "int option \<Rightarrow> json" where
  "json_limit l = (case l of None \<Rightarrow> JNull | Some n \<Rightarrow> JInt n)"

definition update_team ::
  "core_env \<Rightarrow> uuid \<Rightarrow> uuid list \<Rightarrow> string \<Rightarrow> 'z core_db_scheme \<Rightarrow> tenant_team_read result \<times> 'z core_db_scheme"
where
  "update_team E t selected subject = transaction (\<lambda>db.
     case lock_team db t of Inl e \<Rightarrow> Inl e | Inr _ \<Rightarrow>
     (case require_role E db t subject (Some [''admin'']) True of Inl e \<Rightarrow> Inl e | Inr actor \<Rightarrow>
      (let members = team_members db t; limit = member_limit (ce_now E) db t in
       if \<not> set selected \<subseteq> set (map mb_id members)
       then Inl (workflow_error ''Member does not belong to this tenant'' 422)
       else if mb_id actor \<notin> set selected
       then Inl (workflow_error ''Keep your administrator account active'' 409)
       else if (case limit of None \<Rightarrow> False | Some l \<Rightarrow> l < int (length (remdups selected)))
       then Inl (seats_exhausted (the limit))
       else
         let changed = filter (\<lambda>m. mb_status m \<noteq> selected_status selected m) members;
             db1 = db\<lparr>cdb_members := table_update (\<lambda>m. mb_tenant_id m = t \<and> mb_deleted_at m = None)
                      (\<lambda>m. m\<lparr>mb_status := selected_status selected m\<rparr>) (cdb_members db)\<rparr>;
             db2 = (if changed = [] then db1
                    else tenant_audit (ce_now E) t subject ''tenant.team_updated''
                      [(''changes'', JList (map (team_change selected) changed)),
                       (''member_limit'', json_limit limit)] db1)
         in (case flush db2 of Inl e \<Rightarrow> Inl e | Inr db3 \<Rightarrow> Inr (team_read E db3 t actor, db3)))))"

definition update_member_role ::
  "core_env \<Rightarrow> uuid \<Rightarrow> uuid \<Rightarrow> string \<Rightarrow> string \<Rightarrow> 'z core_db_scheme \<Rightarrow> tenant_team_read result \<times> 'z core_db_scheme"
where
  "update_member_role E t member_id role subject = transaction (\<lambda>db.
     case lock_team db t of Inl e \<Rightarrow> Inl e | Inr _ \<Rightarrow>
     (case require_role E db t subject (Some [''admin'']) True of Inl e \<Rightarrow> Inl e | Inr actor \<Rightarrow>
      (case List.find (\<lambda>m. mb_id m = member_id) (team_members db t) of
         None \<Rightarrow> Inl (workflow_error ''Member does not belong to this tenant'' 404)
       | Some member \<Rightarrow>
           if mb_id member = mb_id actor \<or> mb_role member = ''admin''
           then Inl (workflow_error ''The tenant administrator role cannot be changed'' 409)
           else
             let db1 = member_set member_id (mb_role_update (\<lambda>_. role)) db;
                 db2 = (if mb_role member = role then db1
                        else tenant_audit (ce_now E) t subject ''tenant.member_role_updated''
                          [(''member_id'', JUuid (mb_id member)), (''previous_role'', JStr (mb_role member)),
                           (''role'', JStr role)] db1)
             in (case flush db2 of Inl e \<Rightarrow> Inl e | Inr db3 \<Rightarrow> Inr (team_read E db3 t actor, db3)))))"

section \<open>The identity of a business\<close>

text \<open>The masked number as text, with the bullet as the character 149.\<close>

definition masked_text :: "masked \<Rightarrow> string" where
  "masked_text m = map (\<lambda>c. case c of None \<Rightarrow> char_of (149 :: nat) | Some d \<Rightarrow> d) m"

definition identity_conflict :: "string \<Rightarrow> uuid \<Rightarrow> 'z core_db_scheme \<Rightarrow> bool" where
  "identity_conflict lookup t db \<longleftrightarrow>
     list_ex (\<lambda>r. ten_registration_lookup_hmac r = Some lookup \<and> ten_deleted_at r = None \<and> ten_id r \<noteq> t)
       (cdb_tenants db)"

definition set_business :: "string \<Rightarrow> string \<Rightarrow> string \<Rightarrow> masked \<Rightarrow> string \<Rightarrow> tenant \<Rightarrow> tenant" where
  "set_business name encrypted lookup masked status r = r\<lparr>ten_kind := ''business'', ten_name := name,
     ten_legal_name := Some name, ten_registration_country := Some ''BR'',
     ten_registration_type := Some ''BR_CNPJ'', ten_registration_value_encrypted := Some encrypted,
     ten_registration_lookup_hmac := Some lookup, ten_registration_masked := Some masked,
     ten_registration_verification_status := Some status\<rparr>"

definition convert_to_business ::
  "core_env \<Rightarrow> uuid \<Rightarrow> tenant_business_conversion \<Rightarrow> string \<Rightarrow> 'z core_db_scheme \<Rightarrow>
     tenant_read result \<times> 'z core_db_scheme"
where
  "convert_to_business E t p subject = transaction (\<lambda>db.
     case require_role E db t subject (Some [''admin'']) False of Inl e \<Rightarrow> Inl e | Inr member \<Rightarrow>
     (case live_tenant db t of
        None \<Rightarrow> Inl tenant_not_found
      | Some r \<Rightarrow>
          if ten_kind r = ''business'' then Inl (workflow_error ''Tenant is already a business tenant'' 409)
          else if \<not> business_features_enabled (ce_now E) db t
          then Inl (workflow_error ''A Professional or Team plan is required for a business tenant'' 403)
          else
            (case protect_cnpj (ce_encrypt E) (ce_hmac E) (bc_cnpj p) of
               Inl (ValueError m) \<Rightarrow> Inl (workflow_error m 422)
             | Inl e \<Rightarrow> Inl e
             | Inr (encrypted, lookup, masked) \<Rightarrow>
                 if identity_conflict lookup t db
                 then Inl (workflow_error ''This CNPJ is already associated with another tenant'' 409)
                 else
                   let r1 = set_business (strip (bc_legal_name p)) encrypted lookup masked ''format_valid'' r in
                   (case flush (tenant_set t (\<lambda>_. r1) db) of
                      Inl e \<Rightarrow> Inl e
                    | Inr db1 \<Rightarrow>
                        Inr (tenant_read.make r1 (mb_role member),
                          tenant_audit (ce_now E) (ten_id r) subject ''tenant.converted_to_business''
                            [(''registration_country'', JStr ''BR''), (''registration_type'', JStr ''BR_CNPJ''),
                             (''registration_masked'', JStr (masked_text masked)),
                             (''verification_status'', JStr ''format_valid'')] db1)))))"

text \<open>
  \<open>apply_billing_business_identity\<close>: the identity the payment provider reports. The answer
  is the verification status, and a refused identity leaves the rest of the tenant alone.
\<close>

definition apply_billing_business_identity ::
  "core_env \<Rightarrow> uuid \<Rightarrow> string option \<Rightarrow> string option \<Rightarrow> string option \<Rightarrow> 'z core_db_scheme \<Rightarrow>
     (string \<times> 'z core_db_scheme) result"
where
  "apply_billing_business_identity E t legal_name cnpj provider_reference db =
     (case live_tenant db t of
        None \<Rightarrow> Inl tenant_not_found
      | Some r0 \<Rightarrow>
          let r = r0\<lparr>ten_registration_source := Some ''stripe'',
                      ten_registration_provider_reference := provider_reference\<rparr>;
              refuse = (\<lambda>status. Inr (status,
                tenant_set t (\<lambda>_. r\<lparr>ten_registration_verification_status := Some status\<rparr>) db))
          in
          if cnpj = None \<or> cnpj = Some [] then refuse ''stripe_cnpj_required''
          else
            (case protect_cnpj (ce_encrypt E) (ce_hmac E) (the cnpj) of
               Inl _ \<Rightarrow> refuse ''stripe_cnpj_invalid''
             | Inr (encrypted, lookup, masked) \<Rightarrow>
                 let name = strip (case legal_name of None \<Rightarrow> [] | Some n \<Rightarrow> n) in
                 if ten_kind r = ''business'' \<and> ten_registration_lookup_hmac r \<noteq> Some lookup
                 then refuse ''stripe_cnpj_mismatch''
                 else if identity_conflict lookup t db then refuse ''stripe_cnpj_conflict''
                 else if name = [] then refuse ''stripe_name_required''
                 else
                   let db1 = tenant_set t (\<lambda>_. set_business name encrypted lookup masked ''stripe_format_valid'' r) db
                   in Inr (''stripe_format_valid'',
                        if ten_kind r = ''personal''
                        then tenant_audit (ce_now E) (ten_id r) ''stripe'' ''tenant.converted_to_business_from_billing''
                          [(''registration_country'', JStr ''BR''), (''registration_type'', JStr ''BR_CNPJ''),
                           (''registration_masked'', JStr (masked_text masked)),
                           (''verification_status'', JStr ''stripe_format_valid''),
                           (''provider_reference'', case provider_reference of None \<Rightarrow> JNull | Some s \<Rightarrow> JStr s)] db1
                        else db1)))"

definition json_text :: "string option \<Rightarrow> json" where
  "json_text s = (case s of None \<Rightarrow> JNull | Some v \<Rightarrow> JStr v)"

definition issuer_snapshot :: "tenant \<Rightarrow> (string \<times> json) list" where
  "issuer_snapshot r =
     [(''tenant_id'', JUuid (ten_id r)), (''tenant_kind'', JStr (ten_kind r)), (''display_name'', JStr (ten_name r)),
      (''legal_name'', json_text (ten_legal_name r)),
      (''registration_country'', json_text (ten_registration_country r)),
      (''registration_type'', json_text (ten_registration_type r)),
      (''registration_masked'', json_text (map_option masked_text (ten_registration_masked r))),
      (''registration_verification_status'', json_text (ten_registration_verification_status r))]"

definition update_preferences ::
  "core_env \<Rightarrow> uuid \<Rightarrow> tenant_preferences_update \<Rightarrow> string \<Rightarrow> 'z core_db_scheme \<Rightarrow>
     tenant_read result \<times> 'z core_db_scheme"
where
  "update_preferences E t p subject = transaction (\<lambda>db.
     case require_role E db t subject (Some [''admin'']) False of Inl e \<Rightarrow> Inl e | Inr member \<Rightarrow>
     (case tenant_get db t of
        None \<Rightarrow> Inl tenant_not_found
      | Some r \<Rightarrow>
          if ten_deleted_at r \<noteq> None then Inl tenant_not_found
          else
            let r1 = r\<lparr>ten_default_locale := tu_default_locale p, ten_country_code := tu_country_code p,
                       ten_timezone := tu_timezone p, ten_currency := tu_currency p\<rparr>
            in map_sum id (Pair (tenant_read.make r1 (mb_role member))) (flush (tenant_set t (\<lambda>_. r1) db))))"

end
