(* ===== verification/Billing.thy ===== *)
theory Billing
  imports Tenants
begin

text \<open>
  Billing: \<open>modules/billing/billing_service.py\<close>. The payment provider is a parameter of the
  operations (\<open>bv_\<dots>\<close> of \<open>billing_env\<close>): what it answers is a function of the call. Its
  objects are records with the fields the service reads, typed as the provider documents
  them: a timestamp is a number of seconds, an absent field and \<open>null\<close> are \<open>None\<close>.
  The text of the e-mails is symbolic: the catalogue, the message and its arguments.
\<close>

section \<open>The objects of the provider\<close>

record stripe_item =
  it_price :: "string option"
  it_plan :: "string option"
  it_current_period_start :: "int option"
  it_current_period_end :: "int option"

record stripe_line =
  ln_start :: "int option"
  ln_end :: "int option"

text \<open>\<open>rs_metadata = None\<close> is the value \<open>null\<close>; absent metadata is \<open>Some []\<close>.\<close>

record stripe_resource =
  rs_id :: "string option"
  rs_customer :: "string option"
  rs_subscription :: "string option"
  rs_status :: "string option"
  rs_cancel_at_period_end :: "bool option"
  rs_cancel_at :: "int option"
  rs_metadata :: "(string, string) dict option"
  rs_client_reference_id :: "string option"
  rs_items :: "stripe_item list"
  rs_current_period_start :: "int option"
  rs_current_period_end :: "int option"
  rs_period_start :: "int option"
  rs_period_end :: "int option"
  rs_billing_reason :: "string option"
  rs_paid_at :: "int option"
  rs_parent_subscription :: "string option"
  rs_currency :: "string option"
  rs_amount_due :: "int option"
  rs_amount_paid :: "int option"
  rs_lines :: "stripe_line list"

record stripe_event =
  se_id :: string
  se_type :: string
  se_created :: "int option"
  se_object :: stripe_resource

record provider_tax_id =
  tx_id :: string
  tx_type :: string
  tx_value :: string

record business_identity =
  bi_name :: "string option"
  bi_tax_ids :: "provider_tax_id list"

text \<open>
  A message: the catalogue of a locale, the key of the text and, for a change of plan, the
  previous plan, the current plan and the new limit.
\<close>

datatype billing_message =
    PlainMessage string string
  | PlanChanged string string string int

record billing_mail =
  bm_recipient :: string
  bm_message :: billing_message
  bm_tenant_name :: string
  bm_idempotency_key :: string

record checkout_call =
  ck_customer_id :: string
  ck_price_id :: string
  ck_product_code :: string
  ck_tenant_id :: uuid
  ck_success_url :: string
  ck_cancel_url :: string

record portal_call =
  pc_customer_id :: string
  pc_return_url :: string
  pc_subscription_id :: "string option"
  pc_completion_url :: "string option"
  pc_price_id :: "string option"

text \<open>
  \<open>bv_price plan interval currency\<close> is the setting \<open>STRIPE_PRICE_\<dots>\<close>; \<open>bv_provider_error\<close> is
  the error of selecting the provider, if any; \<open>bv_send\<close> says whether the notification
  service accepts an e-mail.
\<close>

record billing_env =
  bv_core :: core_env
  bv_price :: "string \<Rightarrow> string \<Rightarrow> string \<Rightarrow> string option"
  bv_grace_period_days :: int
  bv_provider_name :: string
  bv_public_web_url :: string
  bv_sha256 :: "string \<Rightarrow> string"
  bv_send :: "billing_mail \<Rightarrow> bool"
  bv_provider_error :: "string option"
  bv_create_customer :: "string \<Rightarrow> string \<Rightarrow> uuid \<Rightarrow> string result"
  bv_create_checkout :: "checkout_call \<Rightarrow> string result"
  bv_create_portal :: "portal_call \<Rightarrow> string result"
  bv_retrieve_subscription :: "string \<Rightarrow> stripe_resource result"
  bv_retrieve_identity :: "string \<Rightarrow> business_identity result"
  bv_construct_event :: "bytes \<Rightarrow> string \<Rightarrow> stripe_event result"

abbreviation bv_now :: "billing_env \<Rightarrow> datetime" where
  "bv_now V \<equiv> ce_now (bv_core V)"

section \<open>Reading the objects\<close>

text \<open>A value Python takes as true: \<open>v or None\<close>.\<close>

definition nonempty :: "string option \<Rightarrow> string option" where
  "nonempty s = (if s = Some [] then None else s)"

definition nonzero :: "int option \<Rightarrow> int option" where
  "nonzero n = (if n = Some 0 then None else n)"

definition or_else :: "'a option \<Rightarrow> 'a option \<Rightarrow> 'a option" where
  "or_else a b = (case a of None \<Rightarrow> b | Some v \<Rightarrow> Some v)"

definition timestamp :: "int option \<Rightarrow> datetime option" where
  "timestamp v = map_option seconds (nonzero v)"

definition event_created_at :: "datetime \<Rightarrow> stripe_event \<Rightarrow> datetime" where
  "event_created_at now ev = (case se_created ev of None \<Rightarrow> now | Some n \<Rightarrow> seconds n)"

definition invoice_service_period :: "stripe_resource \<Rightarrow> datetime option \<times> datetime option" where
  "invoice_service_period r =
     (case List.find (\<lambda>l. nonzero (ln_start l) \<noteq> None \<and> nonzero (ln_end l) \<noteq> None) (rs_lines r) of
        Some l \<Rightarrow> (timestamp (ln_start l), timestamp (ln_end l))
      | None \<Rightarrow> (timestamp (rs_period_start r), timestamp (rs_period_end r)))"

definition subscription_period :: "stripe_resource \<Rightarrow> datetime option \<times> datetime option" where
  "subscription_period r =
     (let start = nonzero (rs_current_period_start r); end = nonzero (rs_current_period_end r) in
      case rs_items r of
        [] \<Rightarrow> (timestamp start, timestamp end)
      | i # _ \<Rightarrow> (timestamp (or_else start (it_current_period_start i)), timestamp (or_else end (it_current_period_end i))))"

fun first_price :: "stripe_item list \<Rightarrow> string option" where
  "first_price [] = None"
| "first_price (i # items) =
     (case nonempty (or_else (it_price i) (it_plan i)) of None \<Rightarrow> first_price items | Some p \<Rightarrow> Some p)"

definition subscription_price_id :: "stripe_resource \<Rightarrow> string option" where
  "subscription_price_id r = first_price (rs_items r)"

definition plan_settings :: "(string \<times> string) list" where
  "plan_settings = [(''rubrica_base'', ''ESSENTIAL''), (''rubrica_intermediate'', ''PROFESSIONAL''), (''rubrica_team'', ''TEAM'')]"

text \<open>
  The dictionary from price to product of \<open>_product_code\<close>: with one price configured twice
  the last entry counts, so the list of its entries is reversed.
\<close>

definition price_products :: "billing_env \<Rightarrow> (string, string) dict" where
  "price_products V =
     rev (concat (map (\<lambda>(product, plan).
       map (\<lambda>p. (p, product)) (map the (filter (\<lambda>p. nonempty p \<noteq> None)
         (concat (map (\<lambda>interval. map (bv_price V plan interval) [''BRL'', ''USD'', ''EUR'', ''JPY'']) [''MONTHLY'', ''ANNUAL''])))))
       plan_settings))"

definition product_code :: "billing_env \<Rightarrow> stripe_resource \<Rightarrow> string" where
  "product_code V r =
     (case Option.bind (subscription_price_id r) (dict_get (price_products V)) of
        Some product \<Rightarrow> product
      | None \<Rightarrow>
          (let code = normalize_product_code (Option.bind (rs_metadata r) (\<lambda>m. dict_get m ''product_code'')) in
           if dict_get plan_file_limits code \<noteq> None then code else ''rubrica_base''))"

definition configured_prices :: "billing_env \<Rightarrow> string \<Rightarrow> string \<Rightarrow> (string, string option) dict" where
  "configured_prices V plan interval =
     map (\<lambda>currency. (currency, bv_price V plan interval currency)) [''BRL'', ''USD'', ''EUR'', ''JPY'']"

definition price_for_currency :: "billing_env \<Rightarrow> string \<Rightarrow> string \<Rightarrow> string \<Rightarrow> string result" where
  "price_for_currency V currency product interval =
     (let configured =
        (case (dict_get plan_settings product,
               dict_get [(''month'', ''MONTHLY''), (''year'', ''ANNUAL'')] interval) of
           (Some plan, Some i) \<Rightarrow> configured_prices V plan i
         | _ \<Rightarrow> []) in
      case nonempty (Option.bind (dict_get configured (upper currency)) id) of
        None \<Rightarrow> Inl (workflow_error (''Stripe price is not configured for '' @ product @ '' in '' @ currency) 503)
      | Some p \<Rightarrow> Inr p)"

definition subscription_status :: "string \<Rightarrow> string" where
  "subscription_status s =
     (if s \<in> set [''active'', ''trialing''] then ''active''
      else if s \<in> set [''past_due'', ''incomplete''] then ''past_due''
      else if s = ''unpaid'' then ''unpaid''
      else if s \<in> set [''canceled'', ''incomplete_expired''] then ''cancelled''
      else if s = ''paused'' then ''paused''
      else ''not_configured'')"

text \<open>\<open>_tenant_id\<close> calls \<open>.get\<close> on the metadata, which \<open>null\<close> does not have.\<close>

definition resource_tenant_id :: "stripe_resource \<Rightarrow> uuid option result" where
  "resource_tenant_id r =
     (case rs_metadata r of
        None \<Rightarrow> Inl AttributeError
      | Some m \<Rightarrow>
          Inr (Option.bind (nonempty (or_else (nonempty (dict_get m ''tenant_id'')) (rs_client_reference_id r))) parse_uuid))"

section \<open>The account\<close>

definition account_entity ::
  "datetime \<Rightarrow> uuid \<Rightarrow> 'z core_db_scheme \<Rightarrow> (billing_account \<times> 'z core_db_scheme) result"
where
  "account_entity now t db =
     (case account_of db t of
        None \<Rightarrow> map_sum id (Pair (new_account (cdb_next db) now t)) (flush (add_account_row now t db))
      | Some a \<Rightarrow>
          if ba_deleted_at a \<noteq> None
          then (let a' = a\<lparr>ba_deleted_at := None\<rparr> in Inr (a', account_set t (\<lambda>_. a') db))
          else Inr (a, db))"

text \<open>The quota of signatures, then of documents: an error, or the account with the use counted.\<close>

definition charge_signature :: "datetime \<Rightarrow> billing_account \<Rightarrow> billing_account result" where
  "charge_signature now a =
     (if ba_complimentary_lifetime a \<or> paid_access_enabled now a then Inr a
      else if ba_free_signatures_limit a \<le> ba_signatures_used a
      then Inl (workflow_error ''Free signature allowance exhausted. An active subscription is required'' 402)
      else Inr (a\<lparr>ba_signatures_used := ba_signatures_used a + 1\<rparr>))"

definition charge_document :: "datetime \<Rightarrow> billing_account \<Rightarrow> billing_account result" where
  "charge_document now a =
     (if ba_complimentary_lifetime a then Inr a
      else case active_plan_file_limit now a of
             None \<Rightarrow> Inr a
           | Some limit \<Rightarrow>
               if limit \<le> ba_files_uploaded_in_period a
               then Inl (workflow_error
                 ''Monthly file allowance exhausted. Wait for the next billing period or change plan'' 402)
               else Inr (a\<lparr>ba_files_uploaded_in_period := ba_files_uploaded_in_period a + 1\<rparr>))"

definition consume_signature :: "datetime \<Rightarrow> uuid \<Rightarrow> 'z core_db_scheme \<Rightarrow> 'z core_db_scheme result" where
  "consume_signature now t db =
     (case account_entity now t db of Inl e \<Rightarrow> Inl e | Inr (a, db1) \<Rightarrow>
      (case charge_signature now a of Inl e \<Rightarrow> Inl e | Inr a' \<Rightarrow> Inr (account_set t (\<lambda>_. a') db1)))"

definition consume_document :: "datetime \<Rightarrow> uuid \<Rightarrow> 'z core_db_scheme \<Rightarrow> 'z core_db_scheme result" where
  "consume_document now t db =
     (case account_entity now t db of Inl e \<Rightarrow> Inl e | Inr (a, db1) \<Rightarrow>
      (case charge_document now a of Inl e \<Rightarrow> Inl e | Inr a' \<Rightarrow> Inr (account_set t (\<lambda>_. a') db1)))"

section \<open>Applying an event\<close>

definition sync_usage_period ::
  "datetime option \<Rightarrow> datetime option \<Rightarrow> bool \<Rightarrow> billing_account \<Rightarrow> billing_account"
where
  "sync_usage_period period_start period_end reset_usage a =
     (let a1 = (case period_end of None \<Rightarrow> a | Some e \<Rightarrow> a\<lparr>ba_current_period_ends_at := Some e\<rparr>) in
      case period_start of
        None \<Rightarrow> a1
      | Some start \<Rightarrow>
          (let later = (case ba_usage_period_starts_at a1 of None \<Rightarrow> False | Some c \<Rightarrow> reset_usage \<and> c < start);
               a2 = (if later then a1\<lparr>ba_files_uploaded_in_period := 0\<rparr> else a1)
           in if ba_usage_period_starts_at a1 = None \<or> later
              then a2\<lparr>ba_usage_period_starts_at := Some start\<rparr> else a2))"

definition apply_business_identity ::
  "billing_env \<Rightarrow> uuid \<Rightarrow> string option \<Rightarrow> business_identity option \<Rightarrow> 'z core_db_scheme \<Rightarrow> 'z core_db_scheme result"
where
  "apply_business_identity V t product identity db =
     (case identity of
        None \<Rightarrow> Inr db
      | Some i \<Rightarrow>
          if normalize_product_code product \<notin> set business_product_codes then Inr db
          else
            (let cnpj = List.find (\<lambda>x. tx_type x = ''br_cnpj'') (bi_tax_ids i) in
             map_sum id snd (apply_billing_business_identity (bv_core V) t (bi_name i)
               (map_option tx_value cnpj) (map_option tx_id cnpj) db)))"

definition new_payment :: "uuid \<Rightarrow> datetime \<Rightarrow> uuid \<Rightarrow> string \<Rightarrow> string \<Rightarrow> billing_payment" where
  "new_payment i now t payment_id event_id =
     \<lparr>bp_id = i, bp_created_at = now, bp_deleted_at = None, bp_tenant_id = t, bp_provider = ''stripe'',
      bp_provider_payment_id = payment_id, bp_provider_subscription_id = None, bp_provider_event_id = event_id,
      bp_status = ''pending'', bp_currency = ''USD'', bp_amount_due_minor = 0, bp_amount_paid_minor = 0,
      bp_period_starts_at = None, bp_period_ends_at = None, bp_paid_at = None\<rparr>"

definition payment_from_invoice ::
  "string \<Rightarrow> stripe_resource \<Rightarrow> string \<Rightarrow> billing_payment \<Rightarrow> billing_payment"
where
  "payment_from_invoice event_type r event_id p =
     p\<lparr>bp_provider_subscription_id := nonempty (or_else (nonempty (rs_subscription r)) (rs_parent_subscription r)),
       bp_provider_event_id := event_id,
       bp_status := (if event_type = ''invoice.payment_succeeded'' then ''paid'' else ''failed''),
       bp_currency := upper (case rs_currency r of None \<Rightarrow> ''USD'' | Some c \<Rightarrow> c),
       bp_amount_due_minor := (case rs_amount_due r of None \<Rightarrow> 0 | Some n \<Rightarrow> n),
       bp_amount_paid_minor := (case rs_amount_paid r of None \<Rightarrow> 0 | Some n \<Rightarrow> n),
       bp_period_starts_at := fst (invoice_service_period r),
       bp_period_ends_at := snd (invoice_service_period r),
       bp_paid_at := timestamp (rs_paid_at r)\<rparr>"

definition is_payment :: "string \<Rightarrow> billing_payment \<Rightarrow> bool" where
  "is_payment payment_id p \<longleftrightarrow> bp_provider p = ''stripe'' \<and> bp_provider_payment_id p = payment_id"

definition record_payment ::
  "datetime \<Rightarrow> uuid \<Rightarrow> string \<Rightarrow> stripe_resource \<Rightarrow> string \<Rightarrow> 'z core_db_scheme \<Rightarrow> 'z core_db_scheme result"
where
  "record_payment now t event_type r provider_event_id db =
     (let payment_id = (case rs_id r of None \<Rightarrow> [] | Some i \<Rightarrow> i);
          event_id = (if provider_event_id = [] then event_type else provider_event_id) in
      if payment_id = [] then Inl (workflow_error ''Stripe invoice does not include an id'' 422)
      else
        (case List.find (is_payment payment_id) (cdb_payments db) of
           Some p \<Rightarrow>
             Inr (db\<lparr>cdb_payments := table_update (is_payment payment_id) (payment_from_invoice event_type r event_id) (cdb_payments db)\<rparr>)
         | None \<Rightarrow>
             Inr (db\<lparr>cdb_next := cdb_next db + 1,
                     cdb_payments := cdb_payments db @
                       [payment_from_invoice event_type r event_id (new_payment (cdb_next db) now t payment_id event_id)]\<rparr>)))"

definition grace_end :: "billing_env \<Rightarrow> datetime" where
  "grace_end V = bv_now V + days (bv_grace_period_days V)"

text \<open>The account after an invoice event, and after a subscription event.\<close>

definition invoice_account :: "billing_env \<Rightarrow> string \<Rightarrow> stripe_resource \<Rightarrow> billing_account \<Rightarrow> billing_account" where
  "invoice_account V event_type r a =
     (if event_type = ''invoice.payment_succeeded''
      then (case invoice_service_period r of (period_start, period_end) \<Rightarrow>
              sync_usage_period period_start period_end (rs_billing_reason r = Some ''subscription_cycle'')
                (a\<lparr>ba_status := ''active'', ba_grace_period_ends_at := None\<rparr>))
      else if ba_status a \<noteq> ''past_due'' \<or> ba_grace_period_ends_at a = None
      then a\<lparr>ba_status := ''past_due'', ba_grace_period_ends_at := Some (grace_end V)\<rparr>
      else a)"

definition subscription_grace :: "billing_env \<Rightarrow> billing_account \<Rightarrow> billing_account" where
  "subscription_grace V a =
     (if ba_status a = ''past_due'' \<and> ba_grace_period_ends_at a = None
      then a\<lparr>ba_grace_period_ends_at := Some (grace_end V)\<rparr>
      else if ba_status a \<in> set [''active'', ''cancelled'', ''unpaid'', ''paused'']
      then a\<lparr>ba_grace_period_ends_at := None\<rparr> else a)"

definition subscription_account ::
  "billing_env \<Rightarrow> stripe_resource \<Rightarrow> datetime option \<Rightarrow> billing_account \<Rightarrow> billing_account"
where
  "subscription_account V r created a =
     (case subscription_period r of (period_start, period_end) \<Rightarrow>
       (let a1 = a\<lparr>ba_provider_subscription_id := Some (case rs_id r of None \<Rightarrow> ''None'' | Some i \<Rightarrow> i),
                   ba_current_product_code := Some (product_code V r),
                   ba_status := subscription_status (case rs_status r of None \<Rightarrow> [] | Some s \<Rightarrow> s)\<rparr>;
            a2 = subscription_grace V a1;
            a3 = (case created of None \<Rightarrow> a2 | Some c \<Rightarrow> a2\<lparr>ba_last_provider_event_created_at := Some c\<rparr>);
            cancelling = (rs_cancel_at_period_end r = Some True);
            a4 = a3\<lparr>ba_cancel_at_period_end := cancelling,
                    ba_cancels_at := (if cancelling then or_else (timestamp (rs_cancel_at r)) period_end else None)\<rparr>
        in if ba_status a4 = ''active'' then sync_usage_period period_start period_end False a4
           else case period_end of None \<Rightarrow> a4 | Some e \<Rightarrow> a4\<lparr>ba_current_period_ends_at := Some e\<rparr>))"

definition stale :: "datetime option \<Rightarrow> billing_account \<Rightarrow> bool" where
  "stale created a =
     (case (created, ba_last_provider_event_created_at a) of (Some c, Some l) \<Rightarrow> c < l | _ \<Rightarrow> False)"

definition apply_event ::
  "billing_env \<Rightarrow> string \<Rightarrow> stripe_resource \<Rightarrow> uuid option \<Rightarrow> datetime option \<Rightarrow> string \<Rightarrow>
     business_identity option \<Rightarrow> 'z core_db_scheme \<Rightarrow> (bool \<times> 'z core_db_scheme) result"
where
  "apply_event V event_type r tenant_id created event_id identity db =
     (case tenant_id of None \<Rightarrow> Inr (True, db) | Some t \<Rightarrow>
     (case account_entity (bv_now V) t db of Inl e \<Rightarrow> Inl e | Inr (a0, db0) \<Rightarrow>
      (let a = a0\<lparr>ba_provider := Some ''stripe'',
                  ba_provider_customer_id := or_else (nonempty (rs_customer r)) (ba_provider_customer_id a0)\<rparr> in
       if event_type = ''checkout.session.completed'' then
         (let a1 = a\<lparr>ba_provider_subscription_id := nonempty (rs_subscription r),
                     ba_current_product_code := Some (product_code V r),
                     ba_status := (if ba_status a \<noteq> ''active'' then ''pending'' else ba_status a)\<rparr> in
          map_sum id (Pair True)
            (apply_business_identity V t (ba_current_product_code a1) identity (account_set t (\<lambda>_. a1) db0)))
       else if event_type \<in> set [''invoice.payment_succeeded'', ''invoice.payment_failed''] then
         map_sum id (Pair True)
           (record_payment (bv_now V) t event_type r event_id (account_set t (\<lambda>_. invoice_account V event_type r a) db0))
       else if prefix ''customer.subscription.'' event_type then
         (if stale created a then Inr (False, account_set t (\<lambda>_. a) db0)
          else
            (let a1 = subscription_account V r created a in
             (case apply_business_identity V t (ba_current_product_code a1) identity (account_set t (\<lambda>_. a1) db0) of
                Inl e \<Rightarrow> Inl e
              | Inr db1 \<Rightarrow> Inr (True, reconcile_single_member_plan (bv_core V) t db1))))
       else Inr (True, account_set t (\<lambda>_. a) db0))))"

section \<open>Notifications\<close>

definition billing_key :: "string \<Rightarrow> string \<Rightarrow> string option \<Rightarrow> string option \<Rightarrow> string \<Rightarrow> string option" where
  "billing_key event_type provider_status previous_status previous_product current_product =
     (if prefix ''customer.subscription.'' event_type then
        (let mapped = subscription_status provider_status;
             product_changed = (event_type = ''customer.subscription.updated'' \<and> nonempty previous_product \<noteq> None \<and>
               current_product \<noteq> [] \<and> previous_product \<noteq> Some current_product)
         in if product_changed then Some ''plan_changed''
            else if event_type \<noteq> ''customer.subscription.created'' \<and> previous_status = Some mapped then None
            else dict_get [(''active'', ''active''), (''past_due'', ''failed''), (''unpaid'', ''failed''),
                           (''cancelled'', ''cancelled''), (''paused'', ''paused'')] mapped)
      else dict_get [(''checkout.session.completed'', ''checkout''), (''invoice.payment_succeeded'', ''paid''),
                     (''invoice.payment_failed'', ''failed'')] event_type)"

definition billing_message ::
  "string \<Rightarrow> string \<Rightarrow> string \<Rightarrow> string option \<Rightarrow> string option \<Rightarrow> string \<Rightarrow> billing_message option"
where
  "billing_message loc event_type provider_status previous_status previous_product current_product =
     (let catalogue = (if loc \<in> set [''en'', ''pt-BR'', ''ja-JP'', ''es''] then loc else ''en'');
          previous = normalize_product_code previous_product;
          current = normalize_product_code (Some current_product) in
      case billing_key event_type provider_status previous_status previous_product current_product of
        None \<Rightarrow> None
      | Some key \<Rightarrow>
          Some (if key \<noteq> ''plan_changed'' then PlainMessage catalogue key
                else PlanChanged catalogue previous current (dict_get_or plan_file_limits current 0)))"

text \<open>The e-mails sent in order, and whether the last request was refused.\<close>

fun send_all :: "(billing_mail \<Rightarrow> bool) \<Rightarrow> billing_mail list \<Rightarrow> billing_mail list \<times> bool" where
  "send_all send [] = ([], False)"
| "send_all send (m # ms) =
     (if send m then (case send_all send ms of (sent, failed) \<Rightarrow> (m # sent, failed)) else ([], True))"

definition notify_billing_event ::
  "billing_env \<Rightarrow> 'z core_db_scheme \<Rightarrow> string \<Rightarrow> string \<Rightarrow> uuid option \<Rightarrow> stripe_resource \<Rightarrow>
     string option \<Rightarrow> string option \<Rightarrow> billing_mail list \<times> bool"
where
  "notify_billing_event V db event_id event_type tenant_id r previous_status previous_product =
     (case Option.bind tenant_id (tenant_get db) of
        None \<Rightarrow> ([], False)
      | Some ten \<Rightarrow>
          (case billing_message (ten_default_locale ten) event_type (case rs_status r of None \<Rightarrow> [] | Some s \<Rightarrow> s)
                  previous_status previous_product (product_code V r) of
             None \<Rightarrow> ([], False)
           | Some msg \<Rightarrow>
               (let recipients = map mb_auth_user_id (filter (\<lambda>m. mb_tenant_id m = ten_id ten \<and> mb_role m = ''admin'' \<and>
                                    mb_deleted_at m = None) (cdb_members db))
                in send_all (bv_send V) (map (\<lambda>recipient.
                     \<lparr>bm_recipient = recipient, bm_message = msg, bm_tenant_name = ten_name ten,
                      bm_idempotency_key = ''stripe:'' @ event_id @ '':'' @ take 16 (bv_sha256 V recipient)\<rparr>) recipients))))"

section \<open>Webhooks\<close>

definition exn_name :: "exn \<Rightarrow> string" where
  "exn_name e =
     (case e of
        WorkflowError _ _ _ _ \<Rightarrow> ''WorkflowError'' | FileNotFoundError _ \<Rightarrow> ''FileNotFoundError''
      | FileExistsError _ \<Rightarrow> ''FileExistsError'' | KeyError \<Rightarrow> ''KeyError'' | ValueError _ \<Rightarrow> ''ValueError''
      | IntegrityError \<Rightarrow> ''IntegrityError'' | ClientError _ _ \<Rightarrow> ''ClientError''
      | AttributeError \<Rightarrow> ''AttributeError'' | RuntimeError _ \<Rightarrow> ''RuntimeError'' | MfaError _ \<Rightarrow> ''MfaError''
      | AccountConflictError \<Rightarrow> ''AccountConflictError'' | InvalidAccountTokenError \<Rightarrow> ''InvalidAccountTokenError''
      | BillingProviderError _ \<Rightarrow> ''BillingProviderError''
      | InvalidWebhookSignatureError \<Rightarrow> ''InvalidWebhookSignatureError''
      | BillingEmailDeliveryError \<Rightarrow> ''BillingEmailDeliveryError'')"

text \<open>\<open>except BillingProviderError as exc: raise WorkflowError(str(exc), status)\<close>.\<close>

definition provider_failure :: "int \<Rightarrow> exn \<Rightarrow> exn" where
  "provider_failure status e =
     (case e of BillingProviderError m \<Rightarrow> workflow_error m status
      | InvalidWebhookSignatureError \<Rightarrow> workflow_error [] status | _ \<Rightarrow> e)"

definition get_provider :: "billing_env \<Rightarrow> unit result" where
  "get_provider V = (case bv_provider_error V of None \<Rightarrow> Inr () | Some m \<Rightarrow> Inl (workflow_error m 503))"

definition is_event :: "string \<Rightarrow> billing_event \<Rightarrow> bool" where
  "is_event event_id e \<longleftrightarrow> be_provider e = ''stripe'' \<and> be_provider_event_id e = event_id"

definition event_of :: "'z core_db_scheme \<Rightarrow> string \<Rightarrow> billing_event option" where
  "event_of db event_id = List.find (is_event event_id) (cdb_events db)"

definition event_set :: "string \<Rightarrow> (billing_event \<Rightarrow> billing_event) \<Rightarrow> 'z core_db_scheme \<Rightarrow> 'z core_db_scheme" where
  "event_set event_id f db = db\<lparr>cdb_events := table_update (is_event event_id) f (cdb_events db)\<rparr>"

definition event_done :: "string \<Rightarrow> bool" where
  "event_done status \<longleftrightarrow> status \<in> set [''processed'', ''ignored_stale'']"

definition json_opt :: "('a \<Rightarrow> json) \<Rightarrow> 'a option \<Rightarrow> json" where
  "json_opt f v = (case v of None \<Rightarrow> JNull | Some x \<Rightarrow> f x)"

definition sanitized_payload :: "stripe_event \<Rightarrow> uuid option \<Rightarrow> datetime \<Rightarrow> json" where
  "sanitized_payload ev t created =
     (let r = se_object ev in
      JObj [(''type'', JStr (se_type ev)),
            (''resource_id'', JStr (case rs_id r of None \<Rightarrow> ''unknown'' | Some i \<Rightarrow> i)),
            (''tenant_id'', json_opt JUuid t),
            (''customer_id'', json_text (rs_customer r)), (''subscription_id'', json_text (rs_subscription r)),
            (''status'', json_text (rs_status r)),
            (''cancel_at_period_end'', json_opt JBool (rs_cancel_at_period_end r)),
            (''cancel_at'', json_opt JInt (rs_cancel_at r)),
            (''price_id'', json_text (subscription_price_id r)),
            (''event_created_at'', JTime created)])"

definition received_event :: "billing_env \<Rightarrow> uuid \<Rightarrow> bytes \<Rightarrow> stripe_event \<Rightarrow> uuid option \<Rightarrow> billing_event" where
  "received_event V i payload ev t =
     \<lparr>be_id = i, be_tenant_id = t, be_provider = ''stripe'', be_provider_event_id = se_id ev,
      be_event_type = se_type ev,
      be_resource_id = (case rs_id (se_object ev) of None \<Rightarrow> ''unknown'' | Some r \<Rightarrow> r),
      be_payload_hash = bv_sha256 V payload,
      be_payload_sanitized = sanitized_payload ev t (event_created_at (bv_now V) ev),
      be_status = ''received'', be_processed_at = None, be_error_code = None\<rparr>"

text \<open>The tenant of an event: named by the object, else the one with its customer.\<close>

definition event_tenant :: "stripe_resource \<Rightarrow> 'z core_db_scheme \<Rightarrow> uuid option result" where
  "event_tenant r db =
     map_sum id (\<lambda>t. case (t, nonempty (rs_customer r)) of
         (None, Some c) \<Rightarrow> map_option ba_tenant_id (List.find (\<lambda>a. ba_provider_customer_id a = Some c) (cdb_accounts db))
       | _ \<Rightarrow> t) (resource_tenant_id r)"

definition event_identity :: "billing_env \<Rightarrow> stripe_event \<Rightarrow> uuid option \<Rightarrow> business_identity option result" where
  "event_identity V ev t =
     (case (t, nonempty (rs_customer (se_object ev))) of
        (Some _, Some c) \<Rightarrow>
          if se_type ev \<in> set [''checkout.session.completed'', ''customer.subscription.created'', ''customer.subscription.updated'']
             \<and> product_code V (se_object ev) \<in> set business_product_codes
          then map_sum (provider_failure 503) Some (bv_retrieve_identity V c)
          else Inr None
      | _ \<Rightarrow> Inr None)"

text \<open>
  The transaction that processes a stored event. The value is whether it had been done
  already, with the e-mails sent.
\<close>

definition process_event ::
  "billing_env \<Rightarrow> stripe_event \<Rightarrow> uuid option \<Rightarrow> business_identity option \<Rightarrow> 'z core_db_scheme \<Rightarrow>
     ((bool \<times> billing_mail list) \<times> 'z core_db_scheme) result"
where
  "process_event V ev t identity db =
     (case event_of db (se_id ev) of
        None \<Rightarrow> Inl (workflow_error ''Persisted billing event was not found'' 500)
      | Some e \<Rightarrow>
          if event_done (be_status e) then Inr ((True, []), db)
          else
            (case (case t of None \<Rightarrow> Inr (None, db)
                   | Some u \<Rightarrow> map_sum id (map_prod Some id) (account_entity (bv_now V) u db)) of
               Inl x \<Rightarrow> Inl x
             | Inr (previous, db0) \<Rightarrow>
                 (case apply_event V (se_type ev) (se_object ev) t (Some (event_created_at (bv_now V) ev)) (se_id ev)
                         identity db0 of
                    Inl x \<Rightarrow> Inl x
                  | Inr (applied, db1) \<Rightarrow>
                      (let mails = (if applied
                             then fst (notify_billing_event V db1 (se_id ev) (se_type ev) t (se_object ev)
                               (map_option ba_status previous)
                               (map_option (normalize_product_code \<circ> ba_current_product_code) previous))
                             else [])
                       in Inr ((False, mails), event_set (se_id ev) (\<lambda>e. e\<lparr>
                            be_status := (if applied then ''processed'' else ''ignored_stale''),
                            be_processed_at := Some (bv_now V), be_error_code := None\<rparr>) db1)))))"

definition mark_failed :: "string \<Rightarrow> exn \<Rightarrow> 'z core_db_scheme \<Rightarrow> 'z core_db_scheme" where
  "mark_failed event_id e db =
     event_set event_id (\<lambda>ev. ev\<lparr>be_status := ''failed'', be_error_code := Some (take 120 (exn_name e))\<rparr>) db"

text \<open>The answer is \<open>duplicate\<close>; the e-mails sent stay sent when the transaction fails.\<close>

definition receive_webhook ::
  "billing_env \<Rightarrow> bytes \<Rightarrow> string \<Rightarrow> 'z core_db_scheme \<Rightarrow> bool result \<times> billing_mail list \<times> 'z core_db_scheme"
where
  "receive_webhook V payload signature db =
     (case get_provider V of Inl e \<Rightarrow> (Inl e, [], db) | Inr _ \<Rightarrow>
     (case bv_construct_event V payload signature of
        Inl e \<Rightarrow> (Inl (if e = InvalidWebhookSignatureError then workflow_error ''Invalid Stripe webhook signature'' 400
                       else provider_failure 503 e), [], db)
      | Inr ev \<Rightarrow>
          (let existing_status = map_option be_status (event_of db (se_id ev)) in
           if (case existing_status of None \<Rightarrow> False | Some s \<Rightarrow> event_done s) then (Inr True, [], db)
           else
             (case event_tenant (se_object ev) db of Inl e \<Rightarrow> (Inl e, [], db) | Inr t \<Rightarrow>
             (case event_identity V ev t of Inl e \<Rightarrow> (Inl e, [], db) | Inr identity \<Rightarrow>
             (case (if existing_status \<noteq> None then (Inr (), db)
                    else transaction (\<lambda>db. Inr ((), db\<lparr>cdb_next := cdb_next db + 1,
                           cdb_events := cdb_events db @ [received_event V (cdb_next db) payload ev t]\<rparr>)) db) of
                (Inl e, db1) \<Rightarrow> (Inr True, [], db1)
              | (Inr _, db1) \<Rightarrow>
                  (case process_event V ev t identity db1 of
                     Inl e \<Rightarrow> (Inl e, [], mark_failed (se_id ev) e db1)
                   | Inr ((duplicate, mails), db2) \<Rightarrow>
                       (case flush db2 of
                          Inl e \<Rightarrow> (Inl e, mails, mark_failed (se_id ev) e db1)
                        | Inr db3 \<Rightarrow> (Inr duplicate, mails, db3)))))))))"

section \<open>The operations of the account\<close>

record billing_account_read =
  br_account :: billing_account
  br_signatures_remaining :: "int option"
  br_unlimited_signatures :: bool
  br_files_limit :: "int option"
  br_files_remaining :: "int option"
  br_unlimited_files :: bool
  br_email_invitations_enabled :: bool

definition account_read :: "datetime \<Rightarrow> billing_account \<Rightarrow> billing_account_read" where
  "account_read now a =
     (let unlimited = ba_complimentary_lifetime a; files_limit = active_plan_file_limit now a in
      \<lparr>br_account = a,
       br_signatures_remaining = (if unlimited \<or> paid_access_enabled now a then None
          else Some (max (ba_free_signatures_limit a - ba_signatures_used a) 0)),
       br_unlimited_signatures = unlimited,
       br_files_limit = files_limit,
       br_files_remaining = (if unlimited then None
          else map_option (\<lambda>l. max (l - ba_files_uploaded_in_period a) 0) files_limit),
       br_unlimited_files = unlimited,
       br_email_invitations_enabled = account_business_features now a\<rparr>)"

definition billing_account_for ::
  "billing_env \<Rightarrow> uuid \<Rightarrow> string \<Rightarrow> string list \<Rightarrow> 'z core_db_scheme \<Rightarrow> billing_account_read result \<times> 'z core_db_scheme"
where
  "billing_account_for V t subject roles = transaction (\<lambda>db.
     case require_role (bv_core V) db t subject (Some roles) True of Inl e \<Rightarrow> Inl e | Inr _ \<Rightarrow>
     (case account_entity (bv_now V) t db of Inl e \<Rightarrow> Inl e | Inr (a, db1) \<Rightarrow> Inr (account_read (bv_now V) a, db1)))"

definition account ::
  "billing_env \<Rightarrow> uuid \<Rightarrow> string \<Rightarrow> 'z core_db_scheme \<Rightarrow> billing_account_read result \<times> 'z core_db_scheme"
where
  "account V t subject = billing_account_for V t subject [''admin'', ''auditor'']"

definition initialize_account ::
  "billing_env \<Rightarrow> uuid \<Rightarrow> string \<Rightarrow> 'z core_db_scheme \<Rightarrow> billing_account_read result \<times> 'z core_db_scheme"
where
  "initialize_account V t subject = billing_account_for V t subject [''admin'']"

definition payments ::
  "billing_env \<Rightarrow> uuid \<Rightarrow> string \<Rightarrow> 'z core_db_scheme \<Rightarrow> billing_payment list result"
where
  "payments V t subject db =
     (case require_role (bv_core V) db t subject (Some [''admin'', ''auditor'']) True of Inl e \<Rightarrow> Inl e | Inr _ \<Rightarrow>
      Inr (sort_key (\<lambda>p. - bp_created_at p) (filter (\<lambda>p. bp_tenant_id p = t \<and> bp_deleted_at p = None) (cdb_payments db))))"

definition plan_url :: "billing_env \<Rightarrow> string" where
  "plan_url V = rstrip_by (\<lambda>c. c = CHR ''/'') (bv_public_web_url V) @ ''/plan''"

definition create_checkout ::
  "billing_env \<Rightarrow> uuid \<Rightarrow> string \<Rightarrow> string \<Rightarrow> string \<Rightarrow> 'z core_db_scheme \<Rightarrow> string result \<times> 'z core_db_scheme"
where
  "create_checkout V t subject product interval db =
     (case get_provider V of Inl e \<Rightarrow> (Inl e, db) | Inr _ \<Rightarrow> transaction (\<lambda>db.
       case require_role (bv_core V) db t subject (Some [''admin'']) True of Inl e \<Rightarrow> Inl e | Inr _ \<Rightarrow>
       (case tenant_get db t of None \<Rightarrow> Inl tenant_not_found | Some ten \<Rightarrow>
        if ten_deleted_at ten \<noteq> None then Inl tenant_not_found else
        (case account_entity (bv_now V) t db of Inl e \<Rightarrow> Inl e | Inr (a, db1) \<Rightarrow>
         if ba_complimentary_lifetime a
         then Inl (workflow_error ''This account already has complimentary lifetime access'' 409)
         else if subscription_requires_portal a
         then Inl (workflow_error ''Use the billing portal to change the existing subscription'' 409)
         else if ba_status a = ''active'' \<and>
              normalize_product_code (Some product) = normalize_product_code (ba_current_product_code a)
         then Inl (workflow_error ''The selected plan is already active'' 409)
         else
           (case price_for_currency V (ten_currency ten) product interval of Inl e \<Rightarrow> Inl e | Inr price \<Rightarrow>
           (case (case nonempty (ba_provider_customer_id a) of
                    Some c \<Rightarrow> Inr (c, db1)
                  | None \<Rightarrow> map_sum (provider_failure 502) (\<lambda>c. (c, account_set t (\<lambda>_. a\<lparr>
                        ba_provider := Some (bv_provider_name V), ba_provider_customer_id := Some c\<rparr>) db1))
                      (bv_create_customer V subject (ten_name ten) (ten_id ten))) of
              Inl e \<Rightarrow> Inl e
            | Inr (customer, db2) \<Rightarrow>
                map_sum (provider_failure 502) (\<lambda>url. (url, db2))
                  (bv_create_checkout V \<lparr>ck_customer_id = customer, ck_price_id = price, ck_product_code = product,
                     ck_tenant_id = ten_id ten, ck_success_url = plan_url V @ ''?checkout=success'',
                     ck_cancel_url = plan_url V @ ''?checkout=cancelled''\<rparr>)))))) db)"

definition create_portal ::
  "billing_env \<Rightarrow> uuid \<Rightarrow> string \<Rightarrow> string \<Rightarrow> string \<Rightarrow> 'z core_db_scheme \<Rightarrow> string result \<times> 'z core_db_scheme"
where
  "create_portal V t subject product interval db =
     (case get_provider V of Inl e \<Rightarrow> (Inl e, db) | Inr _ \<Rightarrow> transaction (\<lambda>db.
       case require_role (bv_core V) db t subject (Some [''admin'']) True of Inl e \<Rightarrow> Inl e | Inr _ \<Rightarrow>
       (case account_entity (bv_now V) t db of Inl e \<Rightarrow> Inl e | Inr (a, db1) \<Rightarrow>
        (case nonempty (ba_provider_customer_id a) of
           None \<Rightarrow> Inl (workflow_error ''Stripe customer is not configured'' 409)
         | Some customer \<Rightarrow>
             if normalize_product_code (ba_current_product_code a) = normalize_product_code (Some product)
             then Inl (workflow_error ''The selected plan is already active'' 409)
             else
               (case tenant_get db1 t of None \<Rightarrow> Inl tenant_not_found | Some ten \<Rightarrow>
                if ten_deleted_at ten \<noteq> None then Inl tenant_not_found else
                (case price_for_currency V (ten_currency ten) product interval of Inl e \<Rightarrow> Inl e | Inr price \<Rightarrow>
                 map_sum (provider_failure 502) (\<lambda>url. (url, db1))
                   (bv_create_portal V \<lparr>pc_customer_id = customer, pc_return_url = plan_url V,
                      pc_subscription_id = (if ba_status a = ''active'' then ba_provider_subscription_id a else None),
                      pc_completion_url = Some (plan_url V @ ''?billing=updated&from_plan='' @
                         normalize_product_code (ba_current_product_code a)),
                      pc_price_id = Some price\<rparr>)))))) db)"

text \<open>
  \<open>synchronize_account\<close>: the first transaction gives the change of product to announce,
  with the state before it; then the e-mails, then the account is read again.
\<close>

definition synchronize_body ::
  "billing_env \<Rightarrow> uuid \<Rightarrow> string \<Rightarrow> 'z core_db_scheme \<Rightarrow>
     ((string \<times> stripe_resource \<times> string \<times> string) option \<times> 'z core_db_scheme) result"
where
  "synchronize_body V t subject db =
     (case require_role (bv_core V) db t subject (Some [''admin'']) True of Inl e \<Rightarrow> Inl e | Inr _ \<Rightarrow>
     (case account_entity (bv_now V) t db of Inl e \<Rightarrow> Inl e | Inr (a, db1) \<Rightarrow>
     (case nonempty (ba_provider_subscription_id a) of
        None \<Rightarrow> Inl (workflow_error ''Stripe subscription is not configured'' 409)
      | Some sub \<Rightarrow>
          (let previous_product = normalize_product_code (ba_current_product_code a) in
           case bv_retrieve_subscription V sub of Inl e \<Rightarrow> Inl (provider_failure 502 e) | Inr r \<Rightarrow>
           (case (case nonempty (ba_provider_customer_id a) of
                    None \<Rightarrow> Inr None
                  | Some c \<Rightarrow> if product_code V r \<in> set business_product_codes
                              then map_sum (provider_failure 502) Some (bv_retrieve_identity V c) else Inr None) of
              Inl e \<Rightarrow> Inl e
            | Inr identity \<Rightarrow>
                (case apply_event V ''customer.subscription.updated'' r (Some t) None [] identity db1 of
                   Inl e \<Rightarrow> Inl e
                 | Inr (_, db2) \<Rightarrow>
                     (let after = the (account_of db2 t);
                          current_product = normalize_product_code (ba_current_product_code after)
                      in Inr (if current_product = previous_product then None
                              else Some (''sync:'' @ (case ba_provider_subscription_id after of None \<Rightarrow> ''None'' | Some s \<Rightarrow> s) @
                                     '':'' @ current_product, r, ba_status a, previous_product), db2))))))))"

definition synchronize_account ::
  "billing_env \<Rightarrow> uuid \<Rightarrow> string \<Rightarrow> 'z core_db_scheme \<Rightarrow>
     billing_account_read result \<times> billing_mail list \<times> 'z core_db_scheme"
where
  "synchronize_account V t subject db =
     (case get_provider V of Inl e \<Rightarrow> (Inl e, [], db) | Inr _ \<Rightarrow>
     (case transaction (synchronize_body V t subject) db of
        (Inl e, db1) \<Rightarrow> (Inl e, [], db1)
      | (Inr notification, db1) \<Rightarrow>
          (let mails = (case notification of None \<Rightarrow> []
                 | Some (event_id, r, previous_status, previous_product) \<Rightarrow>
                     fst (notify_billing_event V db1 event_id ''customer.subscription.updated'' (Some t) r
                       (Some previous_status) (Some previous_product)))
           in case billing_account_for V t subject [''admin''] db1 of (result, db2) \<Rightarrow> (result, mails, db2))))"

end
