(* ===== verification/Team_Properties.thy ===== *)
theory Team_Properties
  imports Tenants
begin

text \<open>
  What the operations on a tenant promise: they refuse everyone without an active
  membership of the right role, touch the rows of that tenant only, keep the seats of the
  plan, and leave the database as it was when they fail. The contract they share is the
  locale \<open>tenant_operation\<close>, interpreted on each of them.
\<close>

section \<open>What belongs to a tenant\<close>

definition tenant_view ::
  "'z core_db_scheme \<Rightarrow> uuid \<Rightarrow> tenant option \<times> tenant_member list \<times> billing_account option \<times> audit_row list"
where
  "tenant_view db t = (tenant_get db t, filter (\<lambda>m. mb_tenant_id m = t) (cdb_members db), account_of db t,
     filter (\<lambda>a. ar_entity_type a = ''tenant'' \<and> ar_entity_id a = t) (cdb_audit db))"

lemma tenant_audit_sel [simp]:
  "cdb_tenants (tenant_audit n t a c md db) = cdb_tenants db"
  "cdb_members (tenant_audit n t a c md db) = cdb_members db"
  "cdb_accounts (tenant_audit n t a c md db) = cdb_accounts db"
  "cdb_events (tenant_audit n t a c md db) = cdb_events db"
  "cdb_payments (tenant_audit n t a c md db) = cdb_payments db"
  by (simp_all add: tenant_audit_def)

lemma row_sel [simp]:
  "cdb_members (add_member_row m db) = cdb_members db @ [m]"
  "cdb_accounts (add_member_row m db) = cdb_accounts db"
  "cdb_tenants (add_member_row m db) = cdb_tenants db"
  "cdb_audit (add_member_row m db) = cdb_audit db"
  "cdb_members (tenant_set t f db) = cdb_members db"
  "cdb_accounts (tenant_set t f db) = cdb_accounts db"
  "cdb_audit (tenant_set t f db) = cdb_audit db"
  "cdb_accounts (member_set i g db) = cdb_accounts db"
  "cdb_tenants (member_set i g db) = cdb_tenants db"
  "cdb_audit (member_set i g db) = cdb_audit db"
  "cdb_members (member_set i g db) = table_update (\<lambda>r. mb_id r = i) g (cdb_members db)"
  "cdb_tenants (tenant_set t f db) = table_update (\<lambda>r. ten_id r = t) f (cdb_tenants db)"
  by (simp_all add: add_member_row_def tenant_set_def member_set_def)

lemma audit_of_other [simp]:
  "t \<noteq> t' \<Longrightarrow> filter (\<lambda>a. ar_entity_type a = ''tenant'' \<and> ar_entity_id a = t') (cdb_audit (tenant_audit n t a c md db)) =
     filter (\<lambda>a. ar_entity_type a = ''tenant'' \<and> ar_entity_id a = t') (cdb_audit db)"
  by (simp add: tenant_audit_def)

lemma committed_sync: "committed db \<Longrightarrow> sync_rows db = db"
  by (simp add: committed_def)

lemma committed_constraints: "committed db \<Longrightarrow> constraints_ok db"
  by (simp add: committed_def)

lemma sync_cong: "cdb_accounts (sync_rows db1) = map (\<lambda>a. a\<lparr>ba_row_deleted_at := ba_deleted_at a\<rparr>) (cdb_accounts db1)"
  by (simp add: sync_rows_def)

lemma sync_accounts_of:
  "cdb_accounts db1 = cdb_accounts db \<Longrightarrow> sync_rows db = db \<Longrightarrow> cdb_accounts (sync_rows db1) = cdb_accounts db"
  by (metis sync_cong)

lemma account_policy_cong:
  assumes "cdb_accounts db1 = cdb_accounts db"
  shows "account_of db1 t = account_of db t" "visible_account db1 t = visible_account db t"
    "member_limit now db1 t = member_limit now db t"
    "business_features_enabled now db1 t = business_features_enabled now db t"
    "lock_team db1 t = lock_team db t"
  using assms by (simp_all add: account_of_def visible_account_def member_limit_def business_features_enabled_def lock_team_def)

section \<open>The shared contract\<close>

text \<open>
  \<open>op E t s db\<close> runs the operation for the subject \<open>s\<close> on the tenant \<open>t\<close>; \<open>roles\<close> are
  the roles it accepts.
\<close>

locale tenant_operation =
  fixes op :: "core_env \<Rightarrow> uuid \<Rightarrow> string \<Rightarrow> 'z core_db_scheme \<Rightarrow> 'r result \<times> 'z core_db_scheme"
    and roles :: "string list"
  assumes atomic: "op E t s db = (Inl e, db') \<Longrightarrow> db' = db"
    and commits: "op E t s db = (Inr v, db') \<Longrightarrow> committed db'"
    and authorised: "op E t s db = (Inr v, db') \<Longrightarrow> \<exists>m. require_role E db t s (Some roles) True = Inr m"
    and isolated: "op E t s db = (Inr v, db') \<Longrightarrow> committed db \<Longrightarrow> t' \<noteq> t \<Longrightarrow> tenant_view db' t' = tenant_view db t'"
begin

lemma always_committed: "committed db \<Longrightarrow> committed (snd (op E t s db))"
  by (cases "op E t s db"; cases "fst (op E t s db)") (auto dest: atomic commits)

lemma outsider_refused:
  assumes "\<And>m. require_role E db t s (Some roles) True \<noteq> Inr m"
  shows "\<exists>e. op E t s db = (Inl e, db)"
  using assms authorised[of E t s db] atomic[of E t s db] by (cases "op E t s db"; cases "fst (op E t s db)") auto

lemma frame: "committed db \<Longrightarrow> t' \<noteq> t \<Longrightarrow> tenant_view (snd (op E t s db)) t' = tenant_view db t'"
  by (cases "op E t s db"; cases "fst (op E t s db)") (auto dest: atomic isolated)

lemma frame_many:
  "committed db \<Longrightarrow> t' \<notin> (\<lambda>(E, t, s). t) ` set calls \<Longrightarrow>
   tenant_view (fold (\<lambda>(E, t, s) db. snd (op E t s db)) calls db) t' = tenant_view db t'"
  by (induction calls arbitrary: db) (auto simp: frame always_committed)

end


section \<open>Acceptance of the operations\<close>

lemma require_role_weaken:
  "require_role E db t s roles False = Inr m \<Longrightarrow> require_role E db t s roles True = Inr m"
  by (auto simp: require_role_def split: option.splits if_splits)

lemma require_role_Inr:
  assumes "require_role E db t s (Some roles) over = Inr m"
  shows "m \<in> set (active_members db t)" "mb_role m \<in> set roles" "mb_tenant_id m = t" "mb_deleted_at m = None"
    "mb_status m = ''active''" "m \<in> set (team_members db t)" "m \<in> set (cdb_members db)"
  using assms
  by (auto simp: require_role_def row_defs split: option.splits if_splits dest!: find_Some_iff_hd)

lemma seat_check_Inr:
  assumes "seat_check E t s db = Inr (r, active)"
  obtains m where "require_role E db t s (Some [''admin'']) True = Inr m" "active = int (length (active_members db t))"
    "business_features_enabled (ce_now E) db t" "tenant_get db t = Some r" "ten_deleted_at r = None"
    "\<And>l. member_limit (ce_now E) db t = Some l \<Longrightarrow> active < l"
  using assms
  by (auto simp: seat_check_def Let_def split: sum.splits option.splits if_splits)

lemma add_member_Inr:
  assumes "add_member E t p s db = (Inr v, db')"
  obtains r active u where "seat_check E t s db = Inr (r, active)"
    "resolve_auth_user E (lower (mc_auth_user_id p)) = Inr u"
    "db' = sync_rows (tenant_audit (ce_now E) t s ''tenant.member_added''
       [(''member_role'', JStr (mc_role p)), (''member_count'', JInt (active + 1))]
       (sync_rows (add_member_row (new_member (cdb_next db) (ce_now E) t (lower (mc_auth_user_id p)) (Some u) (mc_role p)
          (Some (ce_now E))) db)))" "constraints_ok db'"
  using assms unfolding add_member_def
  by (elim transaction_Inr) (auto split: sum.splits prod.splits exn.splits simp: flush_Inr)

lemma invite_member_Inr:
  assumes "invite_member E t p s db = (Inr v, db')"
  obtains r active u where "seat_check E t s db = Inr (r, active)"
    "db' = sync_rows (tenant_audit (ce_now E) t s ''tenant.member_invited''
       [(''member_role'', JStr (mi_role p)), (''member_count'', JInt (active + 1))]
       (add_member_row (new_member (cdb_next db) (ce_now E) t (lower (strip (mi_email p))) (Some u) (mi_role p)
          (Some (ce_now E))) db))" "constraints_ok db'"
  using assms unfolding invite_member_def Let_def
  by (elim transaction_Inr) (auto split: sum.splits prod.splits if_splits)

definition selected_team :: "uuid \<Rightarrow> uuid list \<Rightarrow> 'z core_db_scheme \<Rightarrow> 'z core_db_scheme" where
  "selected_team t ids db = db\<lparr>cdb_members := table_update (\<lambda>m. mb_tenant_id m = t \<and> mb_deleted_at m = None)
      (\<lambda>m. m\<lparr>mb_status := selected_status ids m\<rparr>) (cdb_members db)\<rparr>"

lemma selected_team_sel [simp]: "cdb_accounts (selected_team t ids db) = cdb_accounts db"
  by (simp add: selected_team_def)

lemma update_team_Inr:
  assumes "update_team E t ids s db = (Inr v, db')"
  obtains actor md where "require_role E db t s (Some [''admin'']) True = Inr actor"
    "set ids \<subseteq> mb_id ` set (team_members db t)" "mb_id actor \<in> set ids"
    "\<And>l. member_limit (ce_now E) db t = Some l \<Longrightarrow> int (card (set ids)) \<le> l"
    "db' = sync_rows (selected_team t ids db) \<or>
     db' = sync_rows (tenant_audit (ce_now E) t s ''tenant.team_updated'' md (selected_team t ids db))"
    "constraints_ok db'" "v = team_read E db' t actor"
  using assms unfolding update_team_def Let_def selected_team_def[symmetric]
  by (elim transaction_Inr) (auto split: sum.splits if_splits option.splits simp: flush_Inr length_remdups_card_conv)

lemma update_member_role_Inr:
  assumes "update_member_role E t i role s db = (Inr v, db')"
  obtains actor member md where "require_role E db t s (Some [''admin'']) True = Inr actor"
    "List.find (\<lambda>m. mb_id m = i) (team_members db t) = Some member"
    "mb_id member \<noteq> mb_id actor" "mb_role member \<noteq> ''admin''"
    "db' = sync_rows (member_set i (mb_role_update (\<lambda>_. role)) db) \<or>
     db' = sync_rows (tenant_audit (ce_now E) t s ''tenant.member_role_updated'' md
             (member_set i (mb_role_update (\<lambda>_. role)) db))"
    "constraints_ok db'"
  using assms unfolding update_member_role_def Let_def
  by (elim transaction_Inr) (auto split: sum.splits if_splits option.splits simp: flush_Inr)

lemma team_Inr:
  assumes "team E t s db = (Inr v, db')"
  obtains actor where "require_role E db t s (Some [''admin'']) True = Inr actor"
    "db' = sync_rows (reconcile_single_member_plan E t db)" "constraints_ok db'"
  using assms unfolding team_def Let_def
  by (elim transaction_Inr) (auto split: sum.splits)

lemma convert_to_business_Inr:
  assumes "convert_to_business E t p s db = (Inr v, db')"
  obtains member r md encrypted lookup masked where "require_role E db t s (Some [''admin'']) False = Inr member"
    "live_tenant db t = Some r" "ten_kind r \<noteq> ''business''" "business_features_enabled (ce_now E) db t"
    "protect_cnpj (ce_encrypt E) (ce_hmac E) (bc_cnpj p) = Inr (encrypted, lookup, masked)"
    "\<not> identity_conflict lookup t db"
    "db' = sync_rows (tenant_audit (ce_now E) (ten_id r) s ''tenant.converted_to_business'' md (sync_rows
       (tenant_set t (\<lambda>_. set_business (strip (bc_legal_name p)) encrypted lookup masked ''format_valid'' r) db)))"
    "constraints_ok db'"
  using assms unfolding convert_to_business_def Let_def
  by (elim transaction_Inr) (auto split: sum.splits if_splits option.splits exn.splits simp: flush_Inr)

lemma map_sum_Inr: "map_sum id f x = Inr y \<longleftrightarrow> (\<exists>z. x = Inr z \<and> y = f z)"
  by (cases x) auto

lemma update_preferences_Inr:
  assumes "update_preferences E t p s db = (Inr v, db')"
  obtains member r where "require_role E db t s (Some [''admin'']) False = Inr member"
    "tenant_get db t = Some r" "ten_deleted_at r = None"
    "db' = sync_rows (tenant_set t (\<lambda>_. r\<lparr>ten_default_locale := tu_default_locale p,
       ten_country_code := tu_country_code p, ten_timezone := tu_timezone p, ten_currency := tu_currency p\<rparr>) db)"
    "constraints_ok db'"
  using assms unfolding update_preferences_def Let_def
  by (elim transaction_Inr) (auto split: sum.splits if_splits option.splits simp: flush_Inr map_sum_Inr)

lemma find_in_team: "List.find p (team_members db t) = Some m \<Longrightarrow>
    m \<in> set (cdb_members db) \<and> mb_tenant_id m = t \<and> mb_deleted_at m = None \<and> p m"
  by (auto dest!: find_Some_iff_hd simp: team_members_def)

lemma filter_other_updated:
  "(\<And>m. mb_tenant_id (f m) = mb_tenant_id m) \<Longrightarrow> (\<And>m. m \<in> set rows \<Longrightarrow> p m \<Longrightarrow> mb_tenant_id m \<noteq> t') \<Longrightarrow>
   filter (\<lambda>m. mb_tenant_id m = t') (table_update p f rows) = filter (\<lambda>m. mb_tenant_id m = t') rows"
  by (induction rows) (auto simp: table_update_def)

lemma reconcile_sel [simp]:
  "cdb_accounts (reconcile_single_member_plan E t db) = cdb_accounts db"
  "cdb_tenants (reconcile_single_member_plan E t db) = cdb_tenants db"
  by (simp_all add: reconcile_single_member_plan_def Let_def split: option.splits)

lemma tenant_viewI:
  assumes "tenant_get db' t' = tenant_get db t'"
    and "filter (\<lambda>m. mb_tenant_id m = t') (cdb_members db') = filter (\<lambda>m. mb_tenant_id m = t') (cdb_members db)"
    and "cdb_accounts db' = cdb_accounts db"
    and "filter (\<lambda>a. ar_entity_type a = ''tenant'' \<and> ar_entity_id a = t') (cdb_audit db') =
         filter (\<lambda>a. ar_entity_type a = ''tenant'' \<and> ar_entity_id a = t') (cdb_audit db)"
  shows "tenant_view db' t' = tenant_view db t'"
  unfolding tenant_view_def account_policy_cong(1)[OF assms(3)] assms(1,2,4) ..

lemma tenant_get_cong: "cdb_tenants db' = cdb_tenants db \<Longrightarrow> tenant_get db' t = tenant_get db t"
  by (simp add: tenant_get_def)

lemma find_table_update_other:
  "(\<And>r. k (f r) = t) \<Longrightarrow> t' \<noteq> t \<Longrightarrow>
   List.find (\<lambda>r. k r = t') (table_update (\<lambda>r. k r = t) f rows) = List.find (\<lambda>r. k r = t') rows"
  by (induction rows) (auto simp: table_update_def)

lemma tenant_get_set: "(\<And>r. ten_id (f r) = t) \<Longrightarrow> t' \<noteq> t \<Longrightarrow> tenant_get (tenant_set t f db) t' = tenant_get db t'"
  unfolding tenant_get_def row_sel by (rule find_table_update_other)

section \<open>The operations satisfy the contract\<close>

lemma failed_transaction: "transaction body db = (Inl e, db') \<Longrightarrow> db' = db"
  by (rule transaction_Inl)

lemma status_update_tenant: "mb_tenant_id (mb_status_update f m) = mb_tenant_id m"
  "mb_tenant_id (mb_role_update f m) = mb_tenant_id m"
  by simp_all

lemma view_sync: "committed db \<Longrightarrow> cdb_accounts db1 = cdb_accounts db \<Longrightarrow> tenant_view (sync_rows db1) t = tenant_view db1 t"
  by (simp add: tenant_view_def tenant_get_def account_of_def sync_accounts_of committed_sync)

lemma view_audit [simp]:
  "t \<noteq> t' \<Longrightarrow> tenant_view (tenant_audit n t a c md db) t' = tenant_view db t'"
  by (rule tenant_viewI) (simp_all add: tenant_get_def)

lemma view_member [simp]:
  "mb_tenant_id m \<noteq> t' \<Longrightarrow> tenant_view (add_member_row m db) t' = tenant_view db t'"
  by (rule tenant_viewI) (simp_all add: tenant_get_def)

lemma view_tenant [simp]:
  "(\<And>r. ten_id (f r) = t) \<Longrightarrow> t \<noteq> t' \<Longrightarrow> tenant_view (tenant_set t f db) t' = tenant_view db t'"
  by (rule tenant_viewI) (simp_all add: tenant_get_set)

lemma view_member_set:
  "(\<And>m. mb_tenant_id (f m) = mb_tenant_id m) \<Longrightarrow>
   (\<And>m. m \<in> set (cdb_members db) \<Longrightarrow> mb_id m = i \<Longrightarrow> mb_tenant_id m \<noteq> t') \<Longrightarrow>
   tenant_view (member_set i f db) t' = tenant_view db t'"
  by (rule tenant_viewI) (simp_all add: tenant_get_def filter_other_updated)

lemma view_members_update:
  "(\<And>m. mb_tenant_id (f m) = mb_tenant_id m) \<Longrightarrow>
   (\<And>m. m \<in> set (cdb_members db) \<Longrightarrow> p m \<Longrightarrow> mb_tenant_id m \<noteq> t') \<Longrightarrow>
   tenant_view (db\<lparr>cdb_members := table_update p f (cdb_members db)\<rparr>) t' = tenant_view db t'"
  by (rule tenant_viewI) (simp_all add: tenant_get_def filter_other_updated)

lemma member_id_unique:
  "constraints_ok db \<Longrightarrow> m \<in> set (cdb_members db) \<Longrightarrow> m' \<in> set (cdb_members db) \<Longrightarrow> mb_id m = mb_id m' \<Longrightarrow> m = m'"
  by (auto simp: constraints_ok_def members_ok_def distinct_map dest: inj_onD)

lemma same_member:
  "distinct (map mb_id ms) \<Longrightarrow> m \<in> set ms \<Longrightarrow> m' \<in> set ms \<Longrightarrow> mb_id m = mb_id m' \<Longrightarrow> m = m'"
  by (auto simp: distinct_map dest: inj_onD)

lemma committed_member_ids [simp]: "committed db \<Longrightarrow> distinct (map mb_id (cdb_members db))"
  by (simp add: committed_def constraints_ok_def members_ok_def)

lemma tenant_id_unique:
  "constraints_ok db \<Longrightarrow> r \<in> set (cdb_tenants db) \<Longrightarrow> r' \<in> set (cdb_tenants db) \<Longrightarrow> ten_id r = ten_id r' \<Longrightarrow> r = r'"
  by (auto simp: constraints_ok_def tenants_ok_def distinct_map dest: inj_onD)

lemma active_members_sub: "m \<in> set (active_members db t) \<Longrightarrow> m \<in> set (cdb_members db) \<and> mb_tenant_id m = t"
  by (auto simp: active_members_def is_active_member_def)

lemma view_reconcile:
  assumes "distinct (map mb_id (cdb_members db))" "t' \<noteq> t"
  shows "tenant_view (reconcile_single_member_plan E t db) t' = tenant_view db t'"
proof -
  have "tenant_view (db\<lparr>cdb_members := table_update (\<lambda>m. mb_id m \<in> mb_id ` S) f (cdb_members db)\<rparr>) t' = tenant_view db t'"
    if "S \<subseteq> set (active_members db t)" "\<And>m. mb_tenant_id (f m) = mb_tenant_id m" for S f
    using that assms by (intro view_members_update)
      (auto dest!: subsetD active_members_sub dest: same_member)
  then show ?thesis
    using assms(2) unfolding reconcile_single_member_plan_def Let_def
    by (auto split: option.splits)
qed

lemma sync_rows_members [simp]: "sync_rows (db\<lparr>cdb_members := ms\<rparr>) = (sync_rows db)\<lparr>cdb_members := ms\<rparr>"
  by (simp add: sync_rows_def)

text \<open>An operation that is one transaction is atomic and commits.\<close>

lemma transactional:
  assumes "\<And>E t s. op E t s = transaction (body E t s)"
    and "\<And>E t s db v db'. op E t s db = (Inr v, db') \<Longrightarrow> \<exists>m. require_role E db t s (Some roles) True = Inr m"
    and "\<And>E t s db v db' t'. op E t s db = (Inr v, db') \<Longrightarrow> committed db \<Longrightarrow> t' \<noteq> t \<Longrightarrow>
           tenant_view db' t' = tenant_view db t'"
  shows "tenant_operation op roles"
proof
  show "op E t s db = (Inl e, db') \<Longrightarrow> db' = db" for E t s db e db'
    unfolding assms(1) by (rule transaction_Inl)
  show "op E t s db = (Inr v, db') \<Longrightarrow> committed db'" for E t s db v db'
    unfolding assms(1) by (rule transaction_commits)
qed (fact assms(2), fact assms(3))

lemma seat_check_role: "seat_check E t s db = Inr x \<Longrightarrow> \<exists>m. require_role E db t s (Some [''admin'']) True = Inr m"
  by (cases x) (auto elim: seat_check_Inr)

interpretation adding: tenant_operation "\<lambda>E t s. add_member E t p s" "[''admin'']" for p
  by (rule transactional, rule add_member_def; elim add_member_Inr)
     (auto dest: seat_check_role simp: view_sync committed_sync sync_accounts_of new_member_def)

interpretation inviting: tenant_operation "\<lambda>E t s. invite_member E t p s" "[''admin'']" for p
  by (rule transactional, rule invite_member_def; elim invite_member_Inr)
     (auto dest: seat_check_role simp: view_sync new_member_def)

lemma view_selected_team: "t' \<noteq> t \<Longrightarrow> tenant_view (selected_team t ids db) t' = tenant_view db t'"
  unfolding selected_team_def by (rule view_members_update) auto

interpretation selecting: tenant_operation "\<lambda>E t s. update_team E t ids s" "[''admin'']" for ids
  by (rule transactional, rule update_team_def; elim update_team_Inr) (auto simp: view_sync view_selected_team)

interpretation reroling: tenant_operation "\<lambda>E t s. update_member_role E t i role s" "[''admin'']" for i role
proof (rule transactional, rule update_member_role_def; elim update_member_role_Inr)
  fix E t s and db :: "'a core_db_scheme" and v db' t' md member
  assume f: "List.find (\<lambda>m. mb_id m = i) (team_members db t) = Some member"
    and d: "db' = sync_rows (member_set i (mb_role_update (\<lambda>_. role)) db) \<or>
     db' = sync_rows (tenant_audit (ce_now E) t s ''tenant.member_role_updated'' md
             (member_set i (mb_role_update (\<lambda>_. role)) db))"
    and c: "committed db" "t' \<noteq> t"
  have "tenant_view (member_set i (mb_role_update (\<lambda>_. role)) db) t' = tenant_view db t'"
    using c find_in_team[OF f] by (intro view_member_set) (auto dest: member_id_unique[OF committed_constraints])
  then show "tenant_view db' t' = tenant_view db t'" using d c by (auto simp: view_sync)
qed blast

interpretation viewing: tenant_operation "\<lambda>E t s. team E t s" "[''admin'']"
  by (rule transactional, rule team_def; elim team_Inr) (auto simp: view_sync view_reconcile)

interpretation converting: tenant_operation "\<lambda>E t s. convert_to_business E t p s" "[''admin'']" for p
  by (rule transactional, rule convert_to_business_def; elim convert_to_business_Inr)
     (auto dest: require_role_weaken find_Some_iff_hd
       simp: view_sync committed_sync sync_accounts_of live_tenant_def set_business_def)

interpretation preferring: tenant_operation "\<lambda>E t s. update_preferences E t p s" "[''admin'']" for p
  by (rule transactional, rule update_preferences_def; elim update_preferences_Inr)
     (auto dest: require_role_weaken find_Some_iff_hd simp: view_sync tenant_get_def)

section \<open>Commands on teams\<close>

text \<open>The operations a client can send for a tenant, as one type, and runs of them.\<close>

datatype team_command =
    AddMember tenant_member_create
  | InviteMember tenant_member_invitation
  | UpdateTeam "uuid list"
  | UpdateRole uuid string
  | ReadTeam
  | ConvertToBusiness tenant_business_conversion
  | UpdatePreferences tenant_preferences_update

definition done_with :: "'a result \<times> 'z core_db_scheme \<Rightarrow> unit result \<times> 'z core_db_scheme" where
  "done_with x = map_prod (map_sum id (\<lambda>_. ())) id x"

definition run_command ::
  "team_command \<Rightarrow> core_env \<Rightarrow> uuid \<Rightarrow> string \<Rightarrow> 'z core_db_scheme \<Rightarrow> unit result \<times> 'z core_db_scheme"
where
  "run_command c E t s db =
     (case c of
        AddMember p \<Rightarrow> add_member E t p s db
      | InviteMember p \<Rightarrow> invite_member E t p s db
      | UpdateTeam ids \<Rightarrow> done_with (update_team E t ids s db)
      | UpdateRole i role \<Rightarrow> done_with (update_member_role E t i role s db)
      | ReadTeam \<Rightarrow> done_with (team E t s db)
      | ConvertToBusiness p \<Rightarrow> done_with (convert_to_business E t p s db)
      | UpdatePreferences p \<Rightarrow> done_with (update_preferences E t p s db))"

type_synonym team_call = "core_env \<times> uuid \<times> string \<times> team_command"

definition run_commands :: "team_call list \<Rightarrow> 'z core_db_scheme \<Rightarrow> 'z core_db_scheme" where
  "run_commands calls db = fold (\<lambda>(E, t, s, c) db. snd (run_command c E t s db)) calls db"

lemma done_with_Inr: "done_with x = (Inr v, db') \<longleftrightarrow> (\<exists>w. x = (Inr w, db'))"
  and done_with_Inl: "done_with x = (Inl e, db') \<longleftrightarrow> x = (Inl e, db')"
  by (cases x; cases "fst x"; auto simp: done_with_def)+

lemma done_with_operation:
  assumes "tenant_operation op roles"
  shows "tenant_operation (\<lambda>E t s db. done_with (op E t s db)) roles"
  by unfold_locales
     (auto simp: done_with_Inr done_with_Inl
       dest: tenant_operation.atomic[OF assms] tenant_operation.commits[OF assms]
         tenant_operation.authorised[OF assms] tenant_operation.isolated[OF assms])

interpretation commands: tenant_operation "run_command c" "[''admin'']" for c
proof -
  show "tenant_operation (run_command c) [''admin'']"
    unfolding run_command_def[abs_def]
    by (cases c) (simp_all add: adding.tenant_operation_axioms inviting.tenant_operation_axioms
        done_with_operation selecting.tenant_operation_axioms reroling.tenant_operation_axioms
        viewing.tenant_operation_axioms converting.tenant_operation_axioms preferring.tenant_operation_axioms)
qed

lemma run_commands_Cons [simp]:
  "run_commands [] db = db"
  "run_commands ((E, t, s, c) # calls) db = run_commands calls (snd (run_command c E t s db))"
  by (simp_all add: run_commands_def)

lemma run_commands_invariant:
  assumes "P db" "\<And>E t s c db. P db \<Longrightarrow> P (snd (run_command c E t s db))"
  shows "P (run_commands calls db)"
  using assms(1)
proof (induction calls arbitrary: db)
  case (Cons call calls)
  then show ?case by (cases call) (simp add: assms(2))
qed simp

end
