(* ===== verification/Team_Claims.thy ===== *)
theory Team_Claims
  imports Team_Properties
begin

text \<open>
  The properties of teams and tenants: isolation, seats of the plan, the administrator
  that always stays, the reconciliation after a downgrade and the unique business identity.
\<close>

section \<open>The members after a command\<close>

lemma active_members_append [simp]:
  "cdb_members db' = cdb_members db @ [m] \<Longrightarrow>
   active_members db' t = active_members db t @ (if is_active_member t m then [m] else [])"
  by (simp add: active_members_def)

lemma active_members_cong: "cdb_members db' = cdb_members db \<Longrightarrow> active_members db' t = active_members db t"
  by (simp add: active_members_def)

lemma active_new_member [simp]: "is_active_member t (new_member i now t u uu role j)"
  by (simp add: is_active_member_def new_member_def)

lemma active_of_view: "active_members db t = filter (is_active_member t) (fst (snd (tenant_view db t)))"
  by (simp add: active_members_def tenant_view_def is_active_member_def[abs_def] conj_commute cong: conj_cong)

lemma active_members_view: "tenant_view db' t = tenant_view db t \<Longrightarrow> active_members db' t = active_members db t"
  by (simp add: active_of_view)

lemma length_filter_table_update:
  "(\<And>x. x \<in> set rows \<Longrightarrow> p x \<Longrightarrow> q (f x) = q x) \<Longrightarrow>
   length (filter q (table_update p f rows)) = length (filter q rows)"
  by (induction rows) (auto simp: table_update_def)

lemma filter_selected_team:
  "map mb_id (active_members (selected_team t ids db) t) = map mb_id (filter (\<lambda>m. mb_id m \<in> set ids) (team_members db t))"
proof -
  have "map mb_id (filter (is_active_member t) (table_update (\<lambda>m. mb_tenant_id m = t \<and> mb_deleted_at m = None)
          (\<lambda>m. m\<lparr>mb_status := selected_status ids m\<rparr>) rows)) =
        map mb_id (filter (\<lambda>m. mb_id m \<in> set ids) (filter (\<lambda>m. mb_tenant_id m = t \<and> mb_deleted_at m = None) rows))"
    for rows
    by (induction rows) (auto simp: table_update_def is_active_member_def selected_status_def)
  then show ?thesis by (simp add: active_members_def selected_team_def team_members_def)
qed

lemma team_ids_distinct: "constraints_ok db \<Longrightarrow> distinct (map mb_id (team_members db t))"
  by (simp add: constraints_ok_def members_ok_def team_members_def distinct_map_filter)

lemma selected_ids:
  assumes "constraints_ok db" "set ids \<subseteq> mb_id ` set (team_members db t)"
  shows "set (map mb_id (active_members (selected_team t ids db) t)) = set ids"
    and "length (active_members (selected_team t ids db) t) = card (set ids)"
proof -
  show s: "set (map mb_id (active_members (selected_team t ids db) t)) = set ids"
    unfolding filter_selected_team using assms(2) by auto
  have "distinct (map mb_id (active_members (selected_team t ids db) t))"
    unfolding filter_selected_team using team_ids_distinct[OF assms(1)] by (rule distinct_map_filter)
  then show "length (active_members (selected_team t ids db) t) = card (set ids)"
    using s distinct_card by fastforce
qed

section \<open>The reconciliation\<close>

lemma find_sorted_min:
  "List.find p (sort_key k xs) = Some m \<Longrightarrow> m \<in> set xs \<and> p m \<and> (\<forall>x\<in>set xs. p x \<longrightarrow> k m \<le> k x)"
proof -
  have "sorted (map k ys) \<Longrightarrow> List.find p ys = Some m \<Longrightarrow> m \<in> set ys \<and> p m \<and> (\<forall>x\<in>set ys. p x \<longrightarrow> k m \<le> k x)" for ys
    by (induction ys) (auto split: if_splits)
  from this[of "sort_key k xs"] show "List.find p (sort_key k xs) = Some m \<Longrightarrow>
      m \<in> set xs \<and> p m \<and> (\<forall>x\<in>set xs. p x \<longrightarrow> k m \<le> k x)" by simp
qed

lemma filter_table_update_drop:
  "(\<And>x. \<not> q (f x)) \<Longrightarrow> filter q (table_update p f rows) = filter (\<lambda>x. q x \<and> \<not> p x) rows"
  by (induction rows) (auto simp: table_update_def)

lemma filter_eq_single: "distinct xs \<Longrightarrow> x \<in> set xs \<Longrightarrow> filter (\<lambda>y. y = x) xs = [x]"
  by (induction xs) (auto simp: filter_empty_conv)

text \<open>With one seat and an active administrator, the most senior one is left alone.\<close>

lemma reconcile_single:
  assumes ok: "distinct (map mb_id (cdb_members db))" and one: "member_limit (ce_now E) db t = Some 1"
    and f: "List.find (\<lambda>m. mb_role m = ''admin'') (sort_key seniority (active_members db t)) = Some m"
  shows "active_members (reconcile_single_member_plan E t db) t = [m]"
proof -
  let ?ids = "mb_id ` {x \<in> set (active_members db t). mb_id x \<noteq> mb_id m}"
  let ?p = "\<lambda>x. mb_id x \<in> ?ids"
  have m: "m \<in> set (active_members db t)" using find_sorted_min[OF f] by blast
  have "is_active_member t x \<and> \<not> ?p x \<longleftrightarrow> x = m" if "x \<in> set (cdb_members db)" for x
    using that m same_member[OF ok that] by (auto simp: active_members_def)
  then have "filter (\<lambda>x. is_active_member t x \<and> \<not> ?p x) (cdb_members db) = filter (\<lambda>x. x = m) (cdb_members db)"
    by (rule filter_cong[OF refl])
  also have "\<dots> = [m]"
    using ok m by (intro filter_eq_single)
      (auto simp: active_members_def distinct_map)
  finally have act: "filter (is_active_member t) (table_update ?p (mb_status_update (\<lambda>_. ''suspended'')) (cdb_members db)) = [m]"
    by (subst filter_table_update_drop) (auto simp: is_active_member_def)
  have "cdb_members (reconcile_single_member_plan E t db) =
      table_update ?p (mb_status_update (\<lambda>_. ''suspended'')) (cdb_members db)"
  proof (cases "filter (\<lambda>x. mb_id x \<noteq> mb_id m) (sort_key seniority (active_members db t)) = []")
    case True
    then have "table_update ?p (mb_status_update (\<lambda>_. ''suspended'')) (cdb_members db) = cdb_members db"
      by (intro table_update_id) (auto simp: filter_empty_conv)
    with True show ?thesis by (simp add: reconcile_single_member_plan_def one f)
  next
    case False
    then show ?thesis by (simp add: reconcile_single_member_plan_def one f Let_def)
  qed
  then show ?thesis using act by (simp only: active_members_def)
qed

lemma reconcile_keep:
  assumes "member_limit (ce_now E) db t \<noteq> Some 1 \<or> \<not> (\<exists>m\<in>set (active_members db t). mb_role m = ''admin'')"
  shows "reconcile_single_member_plan E t db = db"
proof -
  have "List.find (\<lambda>m. mb_role m = ''admin'') (sort_key seniority (active_members db t)) = None"
    if "\<not> (\<exists>m\<in>set (active_members db t). mb_role m = ''admin'')" using that by (auto simp: find_None_conv)
  with assms show ?thesis by (auto simp: reconcile_single_member_plan_def)
qed

lemma admin_found:
  "(\<exists>m\<in>set xs. mb_role m = ''admin'') \<Longrightarrow> \<exists>m. List.find (\<lambda>m. mb_role m = ''admin'') (sort_key seniority xs) = Some m"
  by (cases "List.find (\<lambda>m. mb_role m = ''admin'') (sort_key seniority xs)") (auto simp: find_None_conv)

text \<open>The number of active members never grows, and an administrator stays.\<close>

lemma reconcile_shrinks:
  assumes "distinct (map mb_id (cdb_members db))"
  shows "length (active_members (reconcile_single_member_plan E t db) t) \<le> length (active_members db t)"
    and "\<exists>m\<in>set (active_members db t). mb_role m = ''admin'' \<Longrightarrow>
      \<exists>m\<in>set (active_members (reconcile_single_member_plan E t db) t). mb_role m = ''admin''"
proof -
  consider (keep) "reconcile_single_member_plan E t db = db"
    | (one) m where "member_limit (ce_now E) db t = Some 1"
        "List.find (\<lambda>m. mb_role m = ''admin'') (sort_key seniority (active_members db t)) = Some m"
    using reconcile_keep admin_found by metis
  then have "length (active_members (reconcile_single_member_plan E t db) t) \<le> length (active_members db t) \<and>
    ((\<exists>m\<in>set (active_members db t). mb_role m = ''admin'') \<longrightarrow>
      (\<exists>m\<in>set (active_members (reconcile_single_member_plan E t db) t). mb_role m = ''admin''))"
  proof cases
    case (one m)
    then have "m \<in> set (active_members db t) \<and> mb_role m = ''admin''" by (auto dest: find_sorted_min)
    with reconcile_single[OF assms one] show ?thesis by (auto simp: Suc_le_eq length_pos_if_in_set)
  qed simp
  then show "length (active_members (reconcile_single_member_plan E t db) t) \<le> length (active_members db t)"
    and "\<exists>m\<in>set (active_members db t). mb_role m = ''admin'' \<Longrightarrow>
      \<exists>m\<in>set (active_members (reconcile_single_member_plan E t db) t). mb_role m = ''admin''" by blast+
qed


section \<open>Active members after a command\<close>

lemma sync_active [simp]: "active_members (sync_rows db) t = active_members db t"
  by (simp add: active_members_def)

lemma audit_active [simp]: "active_members (tenant_audit n u a c md db) t = active_members db t"
  by (simp add: active_members_def)

lemma tenant_set_active [simp]: "active_members (tenant_set u f db) t = active_members db t"
  by (simp add: active_members_def)

lemma add_row_active [simp]:
  "active_members (add_member_row m db) t = active_members db t @ (if is_active_member t m then [m] else [])"
  by (simp add: active_members_def)

lemma role_active:
  "active_members (member_set i (mb_role_update (\<lambda>_. role)) db) t =
     table_update (\<lambda>m. mb_id m = i) (mb_role_update (\<lambda>_. role)) (active_members db t)"
  by (simp add: active_members_def filter_table_update is_active_member_def)

text \<open>Seats: what a command may do to the number of active members.\<close>

definition seats_ok :: "core_env \<Rightarrow> 'z core_db_scheme \<Rightarrow> uuid \<Rightarrow> bool" where
  "seats_ok E db t \<longleftrightarrow>
     (case member_limit (ce_now E) db t of None \<Rightarrow> True | Some l \<Rightarrow> int (length (active_members db t)) \<le> l)"

lemma seats_added:
  assumes "seat_check E t s db = Inr (r, active)" "cdb_accounts db' = cdb_accounts db"
    and "active_members db' t = active_members db t @ [m]"
  shows "seats_ok E db' t"
  using assms(1) by (elim seat_check_Inr) (force simp: seats_ok_def assms(3) account_policy_cong[OF assms(2)] split: option.split)

lemma command_seats:
  assumes "run_command c E t s db = (Inr v, db')" "committed db"
  shows "seats_ok E db' t \<or> length (active_members db' t) \<le> length (active_members db t)"
proof (cases c)
  case (AddMember p)
  with assms(1) have "add_member E t p s db = (Inr v, db')" by (simp add: run_command_def)
  then show ?thesis
    by (elim add_member_Inr, intro disjI1, elim seats_added)
       (simp_all add: sync_accounts_of committed_sync assms(2))
next
  case (InviteMember p)
  with assms(1) have "invite_member E t p s db = (Inr v, db')" by (simp add: run_command_def)
  then show ?thesis
    by (elim invite_member_Inr, intro disjI1, elim seats_added)
       (simp_all add: sync_accounts_of committed_sync assms(2))
next
  case (UpdateTeam ids)
  with assms(1) obtain w where "update_team E t ids s db = (Inr w, db')" by (auto simp: run_command_def done_with_Inr)
  then show ?thesis
  proof (rule update_team_Inr)
    fix actor md
    assume ids: "set ids \<subseteq> mb_id ` set (team_members db t)"
      and l: "\<And>l. member_limit (ce_now E) db t = Some l \<Longrightarrow> int (card (set ids)) \<le> l"
      and d: "db' = sync_rows (selected_team t ids db) \<or>
         db' = sync_rows (tenant_audit (ce_now E) t s ''tenant.team_updated'' md (selected_team t ids db))"
    have a: "cdb_accounts db' = cdb_accounts db"
      using d assms(2) by (auto simp: sync_accounts_of committed_sync)
    have "length (active_members db' t) = card (set ids)"
      using d selected_ids[OF committed_constraints[OF assms(2)] ids] by auto
    then show ?thesis using l by (auto simp: seats_ok_def account_policy_cong(3)[OF a] split: option.split)
  qed
next
  case (UpdateRole i role)
  with assms(1) obtain w where "update_member_role E t i role s db = (Inr w, db')"
    by (auto simp: run_command_def done_with_Inr)
  then show ?thesis by (elim update_member_role_Inr) (auto simp: role_active)
next
  case ReadTeam
  with assms(1) obtain w where "team E t s db = (Inr w, db')" by (auto simp: run_command_def done_with_Inr)
  then show ?thesis
    by (elim team_Inr) (auto intro: reconcile_shrinks committed_member_ids[OF assms(2)])
next
  case (ConvertToBusiness p)
  with assms(1) obtain w where "convert_to_business E t p s db = (Inr w, db')"
    by (auto simp: run_command_def done_with_Inr)
  then show ?thesis by (elim convert_to_business_Inr) simp
next
  case (UpdatePreferences p)
  with assms(1) obtain w where "update_preferences E t p s db = (Inr w, db')"
    by (auto simp: run_command_def done_with_Inr)
  then show ?thesis by (elim update_preferences_Inr) simp
qed

text \<open>An administrator stays active.\<close>

definition has_admin :: "'z core_db_scheme \<Rightarrow> uuid \<Rightarrow> bool" where
  "has_admin db t \<longleftrightarrow> list_ex (\<lambda>m. mb_role m = ''admin'') (active_members db t)"

lemma actor_admin: "require_role E db t s (Some [''admin'']) over = Inr m \<Longrightarrow> m \<in> set (active_members db t) \<and> mb_role m = ''admin''"
  using require_role_Inr by fastforce

lemma selected_admin:
  assumes "m \<in> set (active_members db t)" "mb_id m \<in> set ids" "mb_role m = ''admin''"
  shows "has_admin (selected_team t ids db) t"
proof -
  have "m\<lparr>mb_status := selected_status ids m\<rparr> \<in> set (active_members (selected_team t ids db) t)"
    using assms by (auto simp: active_members_def selected_team_def set_table_update is_active_member_def
      selected_status_def intro!: image_eqI[of _ _ m])
  then show ?thesis
    unfolding has_admin_def list_ex_iff using assms(3) by (intro bexI[of _ "m\<lparr>mb_status := selected_status ids m\<rparr>"]) simp_all
qed

lemma command_admin:
  assumes "run_command c E t s db = (Inr v, db')" "committed db"
  shows "has_admin db' t"
proof -
  obtain m where m: "require_role E db t s (Some [''admin'']) True = Inr m"
    using commands.authorised[OF assms(1)] by blast
  note m' = actor_admin[OF this]
  then have old: "has_admin db t" by (auto simp: has_admin_def list_ex_iff)
  show ?thesis
  proof (cases c)
    case (UpdateTeam ids)
    with assms(1) obtain w where "update_team E t ids s db = (Inr w, db')" by (auto simp: run_command_def done_with_Inr)
    then show ?thesis
      using m m' by (elim update_team_Inr) (auto simp: has_admin_def dest: selected_admin[unfolded has_admin_def])
  next
    case (UpdateRole i role)
    with assms(1) obtain w where "update_member_role E t i role s db = (Inr w, db')"
      by (auto simp: run_command_def done_with_Inr)
    then show ?thesis
      using m m' by (elim update_member_role_Inr)
        (auto simp: has_admin_def role_active list_ex_iff set_table_update dest!: find_in_team)
  next
    case ReadTeam
    with assms(1) obtain w where "team E t s db = (Inr w, db')" by (auto simp: run_command_def done_with_Inr)
    then show ?thesis
      using m' by (elim team_Inr) (auto simp: has_admin_def list_ex_iff intro: reconcile_shrinks(2) committed_member_ids[OF assms(2)])
  next
    case (AddMember p)
    with assms(1) have "add_member E t p s db = (Inr v, db')" by (simp add: run_command_def)
    then show ?thesis using old by (elim add_member_Inr) (simp add: has_admin_def)
  next
    case (InviteMember p)
    with assms(1) have "invite_member E t p s db = (Inr v, db')" by (simp add: run_command_def)
    then show ?thesis using old by (elim invite_member_Inr) (simp add: has_admin_def)
  next
    case (ConvertToBusiness p)
    with assms(1) obtain w where "convert_to_business E t p s db = (Inr w, db')"
      by (auto simp: run_command_def done_with_Inr)
    then show ?thesis using old by (elim convert_to_business_Inr) (simp add: has_admin_def)
  next
    case (UpdatePreferences p)
    with assms(1) obtain w where "update_preferences E t p s db = (Inr w, db')"
      by (auto simp: run_command_def done_with_Inr)
    then show ?thesis using old by (elim update_preferences_Inr) (simp add: has_admin_def)
  qed
qed


section \<open>Business identities\<close>

text \<open>No two undeleted tenants carry the same registration number.\<close>

definition identities_unique :: "'z core_db_scheme \<Rightarrow> bool" where
  "identities_unique db \<longleftrightarrow>
     list_all (\<lambda>r. list_all (\<lambda>q. ten_deleted_at r = None \<and> ten_deleted_at q = None \<and>
         ten_registration_lookup_hmac r \<noteq> None \<and> ten_registration_lookup_hmac q = ten_registration_lookup_hmac r
         \<longrightarrow> ten_id q = ten_id r) (cdb_tenants db)) (cdb_tenants db)"

lemma identities_sel [simp]:
  "identities_unique (sync_rows db) = identities_unique db"
  "identities_unique (tenant_audit n u a c md db) = identities_unique db"
  "identities_unique (add_member_row m db) = identities_unique db"
  by (simp_all add: identities_unique_def)

lemma identities_uniqueD:
  assumes "identities_unique db" and m: "r \<in> set (cdb_tenants db)" "q \<in> set (cdb_tenants db)"
    and "ten_deleted_at r = None" "ten_deleted_at q = None"
    and "ten_registration_lookup_hmac r = Some l" "ten_registration_lookup_hmac q = Some l"
  shows "ten_id q = ten_id r"
  using bspec[OF bspec[OF assms(1)[unfolded identities_unique_def list_all_iff] m(1)] m(2)] assms(4-7) by simp

lemma identities_uniqueI:
  assumes "\<And>r q l. r \<in> set (cdb_tenants db) \<Longrightarrow> q \<in> set (cdb_tenants db) \<Longrightarrow> ten_deleted_at r = None \<Longrightarrow>
     ten_deleted_at q = None \<Longrightarrow> ten_registration_lookup_hmac r = Some l \<Longrightarrow> ten_registration_lookup_hmac q = Some l \<Longrightarrow>
     ten_id q = ten_id r"
  shows "identities_unique db"
  unfolding identities_unique_def list_all_iff
proof (intro ballI impI)
  fix r q
  assume m: "r \<in> set (cdb_tenants db)" "q \<in> set (cdb_tenants db)"
    and a: "ten_deleted_at r = None \<and> ten_deleted_at q = None \<and> ten_registration_lookup_hmac r \<noteq> None \<and>
      ten_registration_lookup_hmac q = ten_registration_lookup_hmac r"
  then obtain l where "ten_registration_lookup_hmac r = Some l" by auto
  then show "ten_id q = ten_id r" using assms[OF m, of l] a by simp
qed

lemma identities_set:
  assumes u: "identities_unique db" and r1: "ten_id r1 = t"
    and q0: "q0 \<in> set (cdb_tenants db)" "ten_id q0 = t" "ten_deleted_at q0 = None"
    and l: "ten_registration_lookup_hmac r1 = ten_registration_lookup_hmac q0 \<or>
       (\<exists>l. ten_registration_lookup_hmac r1 = Some l \<and> \<not> identity_conflict l t db)"
  shows "identities_unique (tenant_set t (\<lambda>_. r1) db)"
proof -
  have sep: False
    if "q \<in> set (cdb_tenants db)" "ten_id q \<noteq> t" "ten_deleted_at q = None"
      "ten_registration_lookup_hmac r1 = Some k" "ten_registration_lookup_hmac q = Some k" for q k
    using l
  proof
    assume "ten_registration_lookup_hmac r1 = ten_registration_lookup_hmac q0"
    then show False using identities_uniqueD[OF u q0(1) that(1) q0(3) that(3), of k] that q0(2) by simp
  next
    assume "\<exists>l. ten_registration_lookup_hmac r1 = Some l \<and> \<not> identity_conflict l t db"
    then show False using that by (auto simp: identity_conflict_def list_ex_iff)
  qed
  have rows: "x = r1 \<or> x \<in> set (cdb_tenants db) \<and> ten_id x \<noteq> t"
    if "x \<in> set (cdb_tenants (tenant_set t (\<lambda>_. r1) db))" for x
    using that by (auto simp: set_table_update split: if_splits)
  show ?thesis
  proof (rule identities_uniqueI)
    fix r q k
    assume a: "r \<in> set (cdb_tenants (tenant_set t (\<lambda>_. r1) db))" "q \<in> set (cdb_tenants (tenant_set t (\<lambda>_. r1) db))"
      "ten_deleted_at r = None" "ten_deleted_at q = None" "ten_registration_lookup_hmac r = Some k"
      "ten_registration_lookup_hmac q = Some k"
    show "ten_id q = ten_id r"
      using rows[OF a(1)] rows[OF a(2)] a(3-6) sep identities_uniqueD[OF u _ _ a(3,4,5,6)] by metis
  qed
qed

lemma live_tenant_Some:
  "live_tenant db t = Some r \<Longrightarrow> r \<in> set (cdb_tenants db) \<and> ten_id r = t \<and> ten_deleted_at r = None"
  by (auto simp: live_tenant_def dest!: find_Some_iff_hd)

lemma live_same: "constraints_ok db \<Longrightarrow> r \<in> set (cdb_tenants db) \<Longrightarrow> q \<in> set (cdb_tenants db) \<Longrightarrow> ten_id r = t \<Longrightarrow> ten_id q = t \<Longrightarrow> q = r"
  by (auto dest: tenant_id_unique)

lemma converted_identity:
  assumes "identities_unique db" "live_tenant db t = Some r" "\<not> identity_conflict lookup t db"
  shows "identities_unique (tenant_set t (\<lambda>_. set_business n e lookup m st r) db)"
  using live_tenant_Some[OF assms(2)] assms(1,3) by (intro identities_set[where ?q0.0 = r]) (auto simp: set_business_def)

lemma kept_identity:
  assumes "identities_unique db" "live_tenant db t = Some r"
    "ten_id r1 = ten_id r" "ten_registration_lookup_hmac r1 = ten_registration_lookup_hmac r"
  shows "identities_unique (tenant_set t (\<lambda>_. r1) db)"
  using live_tenant_Some[OF assms(2)] assms(1,3,4) by (intro identities_set[where ?q0.0 = r]) auto

lemma live_of_get: "tenant_get db t = Some r \<Longrightarrow> ten_deleted_at r = None \<Longrightarrow> constraints_ok db \<Longrightarrow> live_tenant db t = Some r"
  unfolding tenant_get_def live_tenant_def by (simp add: find_key_and constraints_ok_def tenants_ok_def)

lemma command_identities:
  assumes "run_command c E t s db = (Inr v, db')" "committed db" "identities_unique db"
  shows "identities_unique db'"
proof (cases c)
  case (ConvertToBusiness p)
  with assms(1) obtain w where "convert_to_business E t p s db = (Inr w, db')"
    by (auto simp: run_command_def done_with_Inr)
  then show ?thesis
    using assms(3) by (elim convert_to_business_Inr) (simp add: converted_identity)
next
  case (UpdatePreferences p)
  with assms(1) obtain w where "update_preferences E t p s db = (Inr w, db')"
    by (auto simp: run_command_def done_with_Inr)
  then show ?thesis
    using assms(2,3) by (elim update_preferences_Inr)
      (auto intro!: kept_identity live_of_get committed_constraints)
next
  case (AddMember p)
  with assms(1) have "add_member E t p s db = (Inr v, db')" by (simp add: run_command_def)
  then show ?thesis using assms(3) by (elim add_member_Inr) simp
next
  case (InviteMember p)
  with assms(1) have "invite_member E t p s db = (Inr v, db')" by (simp add: run_command_def)
  then show ?thesis using assms(3) by (elim invite_member_Inr) simp
next
  case (UpdateTeam ids)
  with assms(1) obtain w where "update_team E t ids s db = (Inr w, db')" by (auto simp: run_command_def done_with_Inr)
  then show ?thesis using assms(3) by (elim update_team_Inr) (auto simp: identities_unique_def selected_team_def)
next
  case (UpdateRole i role)
  with assms(1) obtain w where "update_member_role E t i role s db = (Inr w, db')"
    by (auto simp: run_command_def done_with_Inr)
  then show ?thesis using assms(3) by (elim update_member_role_Inr) (auto simp: identities_unique_def)
next
  case ReadTeam
  with assms(1) obtain w where "team E t s db = (Inr w, db')" by (auto simp: run_command_def done_with_Inr)
  then show ?thesis using assms(3) by (elim team_Inr) (auto simp: identities_unique_def)
qed

lemma billing_identity_unique:
  assumes "apply_billing_business_identity E t n cnpj ref db = Inr (st, db')" "identities_unique db"
  shows "identities_unique db'"
proof -
  obtain r where r: "live_tenant db t = Some r" 
    using assms(1) by (auto simp: apply_billing_business_identity_def split: option.splits)
  let ?r = "r\<lparr>ten_registration_source := Some ''stripe'', ten_registration_provider_reference := ref\<rparr>"
  have live: "ten_id r = t" using live_tenant_Some[OF r] by simp
  have keep: "identities_unique (tenant_set t (\<lambda>_. ?r\<lparr>ten_registration_verification_status := x\<rparr>) db)" for x
    by (rule kept_identity[OF assms(2) r]) simp_all
  have conv: "identities_unique (tenant_set t (\<lambda>_. set_business a b l m st ?r) db)" if "\<not> identity_conflict l t db" for a b l m st
    using live_tenant_Some[OF r] that assms(2) by (intro identities_set[where ?q0.0 = r]) (auto simp: set_business_def)
  show ?thesis
    using assms(1) keep conv
    by (auto simp: apply_billing_business_identity_def r Let_def
        split: option.splits sum.splits if_splits)
qed


section \<open>A concrete team\<close>

definition demo_core :: core_env where
  "demo_core = \<lparr>ce_now = 1000, ce_user_id = None, ce_token_urlsafe = (\<lambda>n. replicate n CHR ''s''),
     ce_collate = id, ce_encrypt = (\<lambda>s. CHR ''e'' # s), ce_hmac = (\<lambda>s. CHR ''h'' # s),
     ce_auth_resolve = (\<lambda>e. AuthReply (Some (replicate 30 CHR ''0'' @ (if e = ''bia@x.io'' then ''b1'' else ''c1'')))),
     ce_auth_invite = (\<lambda>c. AuthDown)\<rparr>"

definition empty_core :: core_db where
  "empty_core = \<lparr>cdb_next = 0, cdb_tenants = [], cdb_members = [], cdb_accounts = [], cdb_events = [],
     cdb_payments = [], cdb_audit = []\<rparr>"

definition demo_create :: tenant_create where
  "demo_create = \<lparr>tc_name = ''Ana Ltda'', tc_default_locale = ''pt-BR'', tc_country_code = Some ''BR'',
     tc_timezone = ''UTC'', tc_currency = ''BRL''\<rparr>"

text \<open>A tenant (id 0) of \<open>ana\<close> on the Professional plan, and another one (id 4) of \<open>zoe\<close>.\<close>

definition demo_team :: core_db where
  "demo_team = account_set 0 (\<lambda>a. a\<lparr>ba_status := ''active'', ba_current_product_code := Some ''rubrica_intermediate''\<rparr>)
     (snd (create_tenant demo_core (demo_create\<lparr>tc_name := ''Zoe''\<rparr>) ''zoe@x.io''
       (snd (create_tenant demo_core demo_create ''ana@x.io'' empty_core))))"

definition demo_calls :: "team_call list" where
  "demo_calls =
     [(demo_core, 0, ''ana@x.io'', AddMember \<lparr>mc_auth_user_id = ''bia@x.io'', mc_role = ''member''\<rparr>),
      (demo_core, 0, ''ana@x.io'', AddMember \<lparr>mc_auth_user_id = ''caio@x.io'', mc_role = ''auditor''\<rparr>),
      (demo_core, 0, ''ana@x.io'', ConvertToBusiness \<lparr>bc_legal_name = ''Ana Ltda'', bc_cnpj = ''11.222.333/0001-81''\<rparr>),
      (demo_core, 0, ''ana@x.io'', UpdateTeam [2, 8])]"

lemma demo_team_committed: "committed demo_team" by code_simp


section \<open>Properties\<close>

text \<open>C27: Tenant isolation. Whatever commands run for other tenants, in any order, by any
  subjects and at any times, the row, the members, the billing account and the audit trail of a
  tenant stay exactly as they are, and the database stays committed (all constraints hold).\<close>

theorem tenant_isolation:
  assumes "committed db" "t' \<notin> (\<lambda>(E, t, s, c). t) ` set calls"
  shows "tenant_view (run_commands calls db) t' = tenant_view db t' \<and> committed (run_commands calls db)"
  using assms
proof (induction calls arbitrary: db)
  case (Cons call calls)
  obtain E t s c where call: "call = (E, t, s, c)" by (cases call)
  have "committed (snd (run_command c E t s db))" by (rule commands.always_committed) (fact Cons.prems)
  moreover have "tenant_view (snd (run_command c E t s db)) t' = tenant_view db t'"
    using Cons.prems by (intro commands.frame) (auto simp: call)
  ultimately show ?case using Cons by (simp add: call)
qed simp

theorem tenant_isolation_witness:
  "tenant_view (run_commands demo_calls demo_team) 4 = tenant_view demo_team 4 \<and> committed (run_commands demo_calls demo_team)"
  by (rule tenant_isolation[OF demo_team_committed]) (simp add: demo_calls_def)

text \<open>Authorisation. A command of a subject without an active membership of the tenant in the
  role admin is refused and changes nothing.\<close>

theorem outsiders_refused:
  assumes "\<forall>m\<in>set (active_members db t). membership_identity E s None m \<longrightarrow> mb_role m \<noteq> ''admin''"
  shows "\<exists>e. run_command c E t s db = (Inl e, db)"
proof (rule commands.outsider_refused)
  fix m
  show "require_role E db t s (Some [''admin'']) True \<noteq> Inr m"
    using assms by (auto simp: require_role_def row_defs split: option.splits if_splits dest!: find_Some_iff_hd)
qed

theorem outsiders_refused_witness:
  "\<exists>e. run_command (AddMember \<lparr>mc_auth_user_id = ''bia@x.io'', mc_role = ''admin''\<rparr>) demo_core 0 ''zoe@x.io'' demo_team
     = (Inl e, demo_team)"
  by (rule outsiders_refused) code_simp

text \<open>C28: Seats of the plan. An accepted command that leaves more active members than before leaves
  no more than the plan allows at that moment (no limit with complimentary access, one seat
  without paid access, three or ten with a paid team plan).\<close>

theorem seats_never_exceeded:
  assumes "committed db" "run_command c E t s db = (Inr v, db')"
    and "length (active_members db t) < length (active_members db' t)"
  shows "case member_limit (ce_now E) db' t of None \<Rightarrow> True | Some l \<Rightarrow> int (length (active_members db' t)) \<le> l"
  using command_seats[OF assms(2,1)] assms(3) by (auto simp: seats_ok_def)

theorem seats_never_exceeded_witness:
  "case run_command (AddMember \<lparr>mc_auth_user_id = ''bia@x.io'', mc_role = ''member''\<rparr>) demo_core 0 ''ana@x.io'' demo_team of
     (Inr v, db) \<Rightarrow> length (active_members db 0) = 2 \<and>
       (case member_limit (ce_now demo_core) db 0 of None \<Rightarrow> True | Some l \<Rightarrow> int (length (active_members db 0)) \<le> l)
   | _ \<Rightarrow> False"
proof -
  let ?c = "AddMember \<lparr>mc_auth_user_id = ''bia@x.io'', mc_role = ''member''\<rparr>"
  have "case run_command ?c demo_core 0 ''ana@x.io'' demo_team of (Inr v, db) \<Rightarrow> length (active_members db 0) = 2 | _ \<Rightarrow> False"
    by code_simp
  then obtain v db where r: "run_command ?c demo_core 0 ''ana@x.io'' demo_team = (Inr v, db)"
    and l: "length (active_members db 0) = 2" by (auto split: prod.splits sum.splits)
  have "length (active_members demo_team 0) = 1" by code_simp
  then have "case member_limit (ce_now demo_core) db 0 of None \<Rightarrow> True | Some l \<Rightarrow> int (length (active_members db 0)) \<le> l"
    by (intro seats_never_exceeded[OF demo_team_committed r]) (simp add: l)
  then show ?thesis by (simp add: r l)
qed

text \<open>C29: A tenant with an active administrator keeps one through every sequence of commands:
  nobody can suspend, demote or reconcile the last administrator away.\<close>

theorem tenant_keeps_admin:
  assumes "committed db" "has_admin db t"
  shows "has_admin (run_commands calls db) t"
proof -
  have "has_admin (run_commands calls db) t \<and> committed (run_commands calls db)"
  proof (rule run_commands_invariant)
    show "has_admin db t \<and> committed db" using assms by simp
    fix E u s c and db :: "'a core_db_scheme"
    assume a: "has_admin db t \<and> committed db"
    have "has_admin (snd (run_command c E u s db)) t"
    proof (cases "u = t")
      case True
      then show ?thesis
        using a command_admin[of c E t s db] commands.atomic[of c E t s db]
        by (cases "run_command c E t s db"; cases "fst (run_command c E t s db)") auto
    next
      case False
      then have "active_members (snd (run_command c E u s db)) t = active_members db t"
        using a by (intro active_members_view commands.frame) auto
      then show ?thesis using a by (simp add: has_admin_def)
    qed
    then show "has_admin (snd (run_command c E u s db)) t \<and> committed (snd (run_command c E u s db))"
      using a commands.always_committed by blast
  qed
  then show ?thesis ..
qed

theorem tenant_keeps_admin_witness: "has_admin (run_commands demo_calls demo_team) 0"
  by (rule tenant_keeps_admin[OF demo_team_committed]) code_simp

text \<open>Reconciliation. When the plan has one seat, reading the team leaves exactly one active
  member: the administrator who joined first (ties by creation, then by id).\<close>

theorem team_reconciled:
  assumes "committed db" "team E t s db = (Inr v, db')" "member_limit (ce_now E) db t = Some 1"
  shows "\<exists>m. active_members db' t = [m] \<and> m \<in> set (active_members db t) \<and> mb_role m = ''admin'' \<and>
     (\<forall>x\<in>set (active_members db t). mb_role x = ''admin'' \<longrightarrow> seniority m \<le> seniority x)"
proof -
  obtain a where "require_role E db t s (Some [''admin'']) True = Inr a"
    and d: "db' = sync_rows (reconcile_single_member_plan E t db)"
    using assms(2) by (rule team_Inr)
  then have "\<exists>m\<in>set (active_members db t). mb_role m = ''admin''" using actor_admin by blast
  then obtain m where f: "List.find (\<lambda>m. mb_role m = ''admin'') (sort_key seniority (active_members db t)) = Some m"
    using admin_found by blast
  have "active_members db' t = [m]"
    using reconcile_single[OF committed_member_ids[OF assms(1)] assms(3) f] by (simp add: d)
  then show ?thesis using find_sorted_min[OF f] by blast
qed

text \<open>The demonstration team with two members, after its subscription ended.\<close>

definition demo_lapsed :: core_db where
  "demo_lapsed = account_set 0 (\<lambda>a. a\<lparr>ba_status := ''cancelled''\<rparr>) (run_commands (take 2 demo_calls) demo_team)"

theorem team_reconciled_witness:
  "length (active_members demo_lapsed 0) = 3 \<and>
   (case team demo_core 0 ''ana@x.io'' demo_lapsed of
      (Inr v, db) \<Rightarrow> map mb_auth_user_id (active_members db 0) = [''ana@x.io''] \<and>
        (\<exists>m. active_members db 0 = [m] \<and> m \<in> set (active_members demo_lapsed 0) \<and> mb_role m = ''admin'' \<and>
          (\<forall>x\<in>set (active_members demo_lapsed 0). mb_role x = ''admin'' \<longrightarrow> seniority m \<le> seniority x))
    | _ \<Rightarrow> False)"
proof -
  have c: "committed demo_lapsed" by code_simp
  have l: "member_limit (ce_now demo_core) demo_lapsed 0 = Some 1" by code_simp
  have "length (active_members demo_lapsed 0) = 3 \<and> (case team demo_core 0 ''ana@x.io'' demo_lapsed of
      (Inr v, db) \<Rightarrow> map mb_auth_user_id (active_members db 0) = [''ana@x.io''] | _ \<Rightarrow> False)" by code_simp
  then obtain v db where "team demo_core 0 ''ana@x.io'' demo_lapsed = (Inr v, db)"
    "map mb_auth_user_id (active_members db 0) = [''ana@x.io'']" "length (active_members demo_lapsed 0) = 3"
    by (auto split: prod.splits sum.splits)
  with team_reconciled[OF c this(1) l] show ?thesis by simp
qed

text \<open>C30: Business identities. If no two undeleted tenants share a registration number, no
  sequence of commands and no identity reported by the payment provider makes two of them share
  one.\<close>

theorem business_identity_unique:
  assumes "committed db" "identities_unique db"
  shows "case apply_billing_business_identity E t name cnpj ref (run_commands calls db) of
           Inl e \<Rightarrow> True | Inr (status, db') \<Rightarrow> identities_unique db'"
proof -
  have "committed (run_commands calls db) \<and> identities_unique (run_commands calls db)"
  proof (rule run_commands_invariant)
    show "committed db \<and> identities_unique db" using assms by simp
    fix E t s c and db :: "'a core_db_scheme"
    assume a: "committed db \<and> identities_unique db"
    then show "committed (snd (run_command c E t s db)) \<and> identities_unique (snd (run_command c E t s db))"
      using commands.always_committed[of db c E t s] command_identities[of c E t s db] commands.atomic[of c E t s db]
      by (cases "run_command c E t s db"; cases "fst (run_command c E t s db)") auto
  qed
  then show ?thesis using billing_identity_unique by (fastforce split: sum.split)
qed

theorem business_identity_unique_witness:
  "case apply_billing_business_identity demo_core 4 (Some ''Zoe SA'') (Some ''11222333000181'') None
       (run_commands demo_calls demo_team) of
     Inl e \<Rightarrow> False | Inr (status, db') \<Rightarrow> status = ''stripe_cnpj_conflict'' \<and> identities_unique db'"
proof -
  have "case apply_billing_business_identity demo_core 4 (Some ''Zoe SA'') (Some ''11222333000181'') None
       (run_commands demo_calls demo_team) of
     Inl e \<Rightarrow> False | Inr (status, db') \<Rightarrow> status = ''stripe_cnpj_conflict''" by code_simp
  moreover have "identities_unique demo_team" by code_simp
  ultimately show ?thesis
    using business_identity_unique[OF demo_team_committed, of demo_core 4 "Some ''Zoe SA''" "Some ''11222333000181''" None demo_calls]
    by (auto split: sum.splits)
qed

end
