(* ===== verification/Billing_Facts.thy ===== *)
theory Billing_Facts
  imports Billing Team_Claims
begin

text \<open>
  The lemmas of billing: metered quotas as a locale with its two interpretations, what each
  step of an event leaves alone, and the acceptance lemmas of the webhook.
\<close>

section \<open>Metered quotas\<close>

fun repeat_result :: "nat \<Rightarrow> ('a \<Rightarrow> 'a result) \<Rightarrow> 'a \<Rightarrow> 'a result" where
  "repeat_result 0 f a = Inr a"
| "repeat_result (Suc n) f a = (case f a of Inl e \<Rightarrow> Inl e | Inr b \<Rightarrow> repeat_result n f b)"

text \<open>
  A meter counts what is used of an allowance; without an allowance nothing is counted, and
  an exhausted allowance refuses.
\<close>

locale meter =
  fixes used :: "'a \<Rightarrow> int"
    and allowance :: "'a \<Rightarrow> int option"
    and charge :: "'a \<Rightarrow> 'a result"
  assumes unmetered: "allowance a = None \<Longrightarrow> charge a = Inr a"
    and counted: "allowance a = Some l \<Longrightarrow> used a < l \<Longrightarrow>
      \<exists>b. charge a = Inr b \<and> used b = used a + 1 \<and> allowance b = allowance a"
    and exhausted: "allowance a = Some l \<Longrightarrow> l \<le> used a \<Longrightarrow> \<exists>e. charge a = Inl e"
begin

lemma charge_Inr: "charge a = Inr b \<Longrightarrow> allowance b = allowance a \<and>
    (case allowance a of None \<Rightarrow> b = a | Some l \<Rightarrow> used a < l \<and> used b = used a + 1)"
  using unmetered[of a] counted[of a] exhausted[of a]
  by (cases "allowance a"; cases "\<exists>l. allowance a = Some l \<and> used a < l") fastforce+

lemma never_over: "charge a = Inr b \<Longrightarrow> allowance a = Some l \<Longrightarrow> used b \<le> l"
  using charge_Inr[of a b] by auto

lemma repeat_unmetered: "allowance a = None \<Longrightarrow> repeat_result n charge a = Inr a"
  by (induction n) (simp_all add: unmetered)

lemma repeat_metered:
  "allowance a = Some l \<Longrightarrow> (\<exists>b. repeat_result n charge a = Inr b) \<longleftrightarrow> n = 0 \<or> used a + int n \<le> l"
proof (induction n arbitrary: a)
  case (Suc n)
  show ?case
  proof (cases "used a < l")
    case True
    then obtain b where "charge a = Inr b" "used b = used a + 1" "allowance b = allowance a"
      using counted[OF Suc.prems] by blast
    then show ?thesis using Suc True by auto
  next
    case False
    then obtain e where "charge a = Inl e" using exhausted[OF Suc.prems] by (auto simp: not_less)
    then show ?thesis using False by auto
  qed
qed simp

end

definition signature_allowance :: "datetime \<Rightarrow> billing_account \<Rightarrow> int option" where
  "signature_allowance now a =
     (if ba_complimentary_lifetime a \<or> paid_access_enabled now a then None else Some (ba_free_signatures_limit a))"

definition document_allowance :: "datetime \<Rightarrow> billing_account \<Rightarrow> int option" where
  "document_allowance now a = (if ba_complimentary_lifetime a then None else active_plan_file_limit now a)"

lemma policy_of_counts [simp]:
  "paid_access_enabled now (a\<lparr>ba_signatures_used := n\<rparr>) = paid_access_enabled now a"
  "paid_access_enabled now (a\<lparr>ba_files_uploaded_in_period := n\<rparr>) = paid_access_enabled now a"
  "active_plan_file_limit now (a\<lparr>ba_files_uploaded_in_period := n\<rparr>) = active_plan_file_limit now a"
  by (simp_all add: paid_access_enabled_def active_plan_file_limit_def cong: option.case_cong)

interpretation signatures: meter ba_signatures_used "signature_allowance now" "charge_signature now" for now
proof
  fix a l
  show "signature_allowance now a = None \<Longrightarrow> charge_signature now a = Inr a"
    unfolding signature_allowance_def charge_signature_def
    by (cases "ba_complimentary_lifetime a \<or> paid_access_enabled now a") (simp only: if_True, simp only: if_False option.distinct)
  show "signature_allowance now a = Some l \<Longrightarrow> ba_signatures_used a < l \<Longrightarrow> \<exists>b. charge_signature now a = Inr b \<and>
      ba_signatures_used b = ba_signatures_used a + 1 \<and> signature_allowance now b = signature_allowance now a"
    by (intro exI[of _ "a\<lparr>ba_signatures_used := ba_signatures_used a + 1\<rparr>"])
      (simp add: signature_allowance_def charge_signature_def split: if_split_asm)
  show "signature_allowance now a = Some l \<Longrightarrow> l \<le> ba_signatures_used a \<Longrightarrow> \<exists>e. charge_signature now a = Inl e"
    by (simp add: signature_allowance_def charge_signature_def split: if_split_asm)
qed

interpretation documents: meter ba_files_uploaded_in_period "document_allowance now" "charge_document now" for now
proof
  fix a l
  show "document_allowance now a = None \<Longrightarrow> charge_document now a = Inr a"
    by (simp add: document_allowance_def charge_document_def split: if_split_asm)
  show "document_allowance now a = Some l \<Longrightarrow> ba_files_uploaded_in_period a < l \<Longrightarrow> \<exists>b. charge_document now a = Inr b \<and>
      ba_files_uploaded_in_period b = ba_files_uploaded_in_period a + 1 \<and> document_allowance now b = document_allowance now a"
    by (intro exI[of _ "a\<lparr>ba_files_uploaded_in_period := ba_files_uploaded_in_period a + 1\<rparr>"])
      (simp add: document_allowance_def charge_document_def split: if_split_asm)
  show "document_allowance now a = Some l \<Longrightarrow> l \<le> ba_files_uploaded_in_period a \<Longrightarrow> \<exists>e. charge_document now a = Inl e"
    by (simp add: document_allowance_def charge_document_def split: if_split_asm)
qed

section \<open>Access to accounts\<close>

lemma account_of_tenant: "account_of db t = Some a \<Longrightarrow> ba_tenant_id a = t"
  by (auto simp: account_of_def dest!: find_Some_iff_hd)

lemma account_set_same:
  assumes "account_of db t = Some b" "ba_tenant_id a = t"
  shows "account_of (account_set t (\<lambda>_. a) db) t = Some a"
proof -
  have "List.find (\<lambda>x. ba_tenant_id x = t) rows \<noteq> None \<Longrightarrow>
    List.find (\<lambda>x. ba_tenant_id x = t) (table_update (\<lambda>x. ba_tenant_id x = t) (\<lambda>_. a) rows) = Some a" for rows
    by (induction rows) (auto simp: table_update_def assms(2))
  then show ?thesis using assms(1) by (simp add: account_of_def account_set_def)
qed

lemma account_set_other:
  "ba_tenant_id a = t \<Longrightarrow> t' \<noteq> t \<Longrightarrow> account_of (account_set t (\<lambda>_. a) db) t' = account_of db t'"
  unfolding account_of_def account_set_def by (simp add: find_table_update_other[where k = ba_tenant_id])

lemma account_set_sel [simp]:
  "cdb_tenants (account_set t f db) = cdb_tenants db" "cdb_members (account_set t f db) = cdb_members db"
  "cdb_events (account_set t f db) = cdb_events db" "cdb_payments (account_set t f db) = cdb_payments db"
  "cdb_audit (account_set t f db) = cdb_audit db"
  by (simp_all add: account_set_def)

lemma account_of_sync:
  "account_of (sync_rows db) t = map_option (\<lambda>a. a\<lparr>ba_row_deleted_at := ba_deleted_at a\<rparr>) (account_of db t)"
proof -
  have "List.find (\<lambda>a. ba_tenant_id a = t) (map (\<lambda>a. a\<lparr>ba_row_deleted_at := ba_deleted_at a\<rparr>) rows) =
    map_option (\<lambda>a. a\<lparr>ba_row_deleted_at := ba_deleted_at a\<rparr>) (List.find (\<lambda>a. ba_tenant_id a = t) rows)" for rows
    by (induction rows) auto
  then show ?thesis by (simp add: account_of_def sync_rows_def)
qed

section \<open>What an event leaves alone\<close>

text \<open>\<open>touches t db db'\<close>: only what belongs to \<open>t\<close> differs, apart from the billing logs.\<close>

definition touches :: "uuid \<Rightarrow> 'z core_db_scheme \<Rightarrow> 'z core_db_scheme \<Rightarrow> bool" where
  "touches t db db' \<longleftrightarrow> (\<forall>t'. t' \<noteq> t \<longrightarrow> tenant_view db' t' = tenant_view db t')"

lemma touchesI: "(\<And>t'. t' \<noteq> t \<Longrightarrow> tenant_view db' t' = tenant_view db t') \<Longrightarrow> touches t db db'"
  by (simp add: touches_def)

lemma touchesD: "touches t db db' \<Longrightarrow> t' \<noteq> t \<Longrightarrow> tenant_view db' t' = tenant_view db t'"
  by (simp add: touches_def)

lemma touches_refl [simp]: "touches t db db"
  by (simp add: touches_def)

lemma touches_trans: "touches t db db' \<Longrightarrow> touches t db' db'' \<Longrightarrow> touches t db db''"
  by (simp add: touches_def)

lemma tenant_view_cong:
  "cdb_tenants db' = cdb_tenants db \<Longrightarrow> cdb_members db' = cdb_members db \<Longrightarrow> cdb_audit db' = cdb_audit db \<Longrightarrow>
   account_of db' t' = account_of db t' \<Longrightarrow> tenant_view db' t' = tenant_view db t'"
  by (simp add: tenant_view_def tenant_get_def)

lemma touches_account_set: "ba_tenant_id a = t \<Longrightarrow> touches t db (account_set t (\<lambda>_. a) db)"
  by (intro touchesI tenant_view_cong) (simp_all add: account_set_other)

lemma view_account: "tenant_view db' t = tenant_view db t \<Longrightarrow> account_of db' t = account_of db t"
  by (simp add: tenant_view_def)

lemma touches_sync:
  assumes "committed db0" "touches t db0 db"
  shows "touches t db0 (sync_rows db)"
proof (rule touchesI)
  fix t' assume n: "t' \<noteq> t"
  have "account_of (sync_rows db) t' = account_of (sync_rows db0) t'"
    using view_account[OF touchesD[OF assms(2) n]] by (simp add: account_of_sync)
  then have "account_of (sync_rows db) t' = account_of db t'"
    using view_account[OF touchesD[OF assms(2) n]] by (simp add: committed_sync[OF assms(1)])
  then have "tenant_view (sync_rows db) t' = tenant_view db t'" by (intro tenant_view_cong) simp_all
  then show "tenant_view (sync_rows db) t' = tenant_view db0 t'" using touchesD[OF assms(2) n] by simp
qed

lemma add_account_sel [simp]:
  "cdb_tenants (add_account_row n t db) = cdb_tenants db" "cdb_members (add_account_row n t db) = cdb_members db"
  "cdb_events (add_account_row n t db) = cdb_events db" "cdb_payments (add_account_row n t db) = cdb_payments db"
  "cdb_audit (add_account_row n t db) = cdb_audit db"
  by (simp_all add: add_account_row_def)

lemma account_of_add:
  "account_of db t = None \<Longrightarrow> account_of (add_account_row n t db) t' =
     (if t' = t then Some (new_account (cdb_next db) n t) else account_of db t')"
  by (auto simp: account_of_def add_account_row_def find_append new_account_def split: option.split)

text \<open>The account after \<open>_account_entity\<close>: it exists, is undeleted, and nothing else changed.\<close>

definition found_account ::
  "uuid \<Rightarrow> billing_account \<Rightarrow> 'z core_db_scheme \<Rightarrow> 'z core_db_scheme \<Rightarrow> bool"
where
  "found_account t a db db1 \<longleftrightarrow> account_of db1 t = Some a \<and> ba_deleted_at a = None \<and> ba_tenant_id a = t \<and>
     cdb_tenants db1 = cdb_tenants db \<and> cdb_members db1 = cdb_members db \<and> cdb_events db1 = cdb_events db \<and>
     cdb_payments db1 = cdb_payments db \<and> cdb_audit db1 = cdb_audit db"

lemma account_entity_found:
  assumes "account_entity now t db = Inr (a, db1)"
  shows "found_account t a db db1"
proof (cases "account_of db t")
  case None
  then have "a = new_account (cdb_next db) now t" "db1 = sync_rows (add_account_row now t db)"
    using assms by (auto simp: account_entity_def map_sum_Inr flush_Inr)
  then show ?thesis
    by (simp add: found_account_def account_of_sync account_of_add[OF None]) (simp add: new_account_def)
next
  case (Some b)
  then show ?thesis
    using assms account_of_tenant[OF Some] account_set_same[OF Some, of "b\<lparr>ba_deleted_at := None\<rparr>"]
    by (auto simp: account_entity_def found_account_def Let_def split: if_splits)
qed

lemma account_entity_Some:
  "account_of db t = Some b \<Longrightarrow> account_entity now t db =
     Inr (b\<lparr>ba_deleted_at := None\<rparr>, if ba_deleted_at b = None then db else account_set t (\<lambda>_. b\<lparr>ba_deleted_at := None\<rparr>) db)"
  by (cases "ba_deleted_at b") (simp_all add: account_entity_def Let_def)

lemma account_entity_touches:
  assumes "committed db0" "touches t db0 db" "account_entity now t db = Inr (a, db1)"
  shows "touches t db0 db1"
proof (cases "account_of db t")
  case None
  then have "db1 = sync_rows (add_account_row now t db)"
    using assms(3) by (auto simp: account_entity_def map_sum_Inr flush_Inr)
  moreover have "touches t db (add_account_row now t db)"
    by (intro touchesI tenant_view_cong) (simp_all add: account_of_add[OF None])
  ultimately show ?thesis using touches_sync[OF assms(1)] touches_trans[OF assms(2)] by blast
next
  case (Some b)
  have "touches t db (account_set t (\<lambda>_. b\<lparr>ba_deleted_at := None\<rparr>) db)"
    by (rule touches_account_set) (simp add: account_of_tenant[OF Some])
  then show ?thesis
    using touches_trans[OF assms(2)] assms(2,3) by (auto simp: account_entity_Some[OF Some] split: if_split_asm)
qed

lemma identity_cases:
  assumes "apply_billing_business_identity E t n cnpj ref db = Inr (st, db')"
  obtains x where "ten_id x = t" "db' = tenant_set t (\<lambda>_. x) db"
  | x u a md where "ten_id x = t" "db' = tenant_audit (ce_now E) t u a md (tenant_set t (\<lambda>_. x) db)"
proof -
  obtain r where r: "live_tenant db t = Some r"
    using assms by (auto simp: apply_billing_business_identity_def split: option.splits)
  have t: "ten_id r = t" using live_tenant_Some[OF r] by simp
  let ?r = "r\<lparr>ten_registration_source := Some ''stripe'', ten_registration_provider_reference := ref\<rparr>"
  show ?thesis
  proof (cases "\<exists>x. ten_id x = t \<and> db' = tenant_set t (\<lambda>_. x) db")
    case True
    then show ?thesis using that(1) by blast
  next
    case False
    have refuse: "db' \<noteq> tenant_set t (\<lambda>_. ?r\<lparr>ten_registration_verification_status := s\<rparr>) db" for s
      using False t by auto
    have conv: "db' \<noteq> tenant_set t (\<lambda>_. set_business a b l m s ?r) db" for a b l m s
      using False t by (auto simp: set_business_def)
    from assms obtain a b l m where "ten_kind r = ''personal''"
      "db' = tenant_audit (ce_now E) t ''stripe'' ''tenant.converted_to_business_from_billing''
         [(''registration_country'', JStr ''BR''), (''registration_type'', JStr ''BR_CNPJ''),
          (''registration_masked'', JStr (masked_text m)), (''verification_status'', JStr ''stripe_format_valid''),
          (''provider_reference'', case ref of None \<Rightarrow> JNull | Some s \<Rightarrow> JStr s)]
         (tenant_set t (\<lambda>_. set_business a b l m ''stripe_format_valid'' ?r) db)"
      unfolding apply_billing_business_identity_def r Let_def
      by (simp split: if_split_asm sum.split_asm prod.split_asm add: refuse[symmetric] conv[symmetric] t, blast)
    moreover have "ten_id (set_business a b l m ''stripe_format_valid'' ?r) = t" using t by (simp add: set_business_def)
    ultimately show ?thesis using that(2) by blast
  qed
qed

lemma view_events [simp]:
  "cdb_events (tenant_set t f db) = cdb_events db" "cdb_payments (tenant_set t f db) = cdb_payments db"
  by (simp_all add: tenant_set_def)

lemma identity_Inr:
  assumes "apply_billing_business_identity E t n cnpj ref db = Inr (st, db')"
  shows "touches t db db' \<and> cdb_members db' = cdb_members db \<and> cdb_accounts db' = cdb_accounts db \<and>
    cdb_events db' = cdb_events db \<and> cdb_payments db' = cdb_payments db"
  using assms by (rule identity_cases) (auto simp: touches_def)

lemma business_identity_Inr:
  assumes "apply_business_identity V t p i db = Inr db'"
  shows "touches t db db' \<and> cdb_members db' = cdb_members db \<and> cdb_accounts db' = cdb_accounts db \<and>
    cdb_events db' = cdb_events db \<and> cdb_payments db' = cdb_payments db"
  using assms
  by (auto simp: apply_business_identity_def Let_def map_sum_Inr dest!: identity_Inr split: option.splits if_splits)

lemma record_payment_Inr:
  assumes "record_payment now t ty r eid db = Inr db'"
  shows "cdb_tenants db' = cdb_tenants db \<and> cdb_members db' = cdb_members db \<and> cdb_accounts db' = cdb_accounts db \<and>
    cdb_events db' = cdb_events db \<and> cdb_audit db' = cdb_audit db"
  using assms by (auto simp: record_payment_def Let_def split: option.splits if_splits)

lemma reconcile_events [simp]:
  "cdb_events (reconcile_single_member_plan E t db) = cdb_events db"
  "cdb_payments (reconcile_single_member_plan E t db) = cdb_payments db"
  by (simp_all add: reconcile_single_member_plan_def Let_def split: option.splits)

section \<open>The account as a state machine\<close>

text \<open>
  What an event does to the account of its tenant, as a function of the event and of the
  account alone: the specification that \<open>apply_event\<close> implements on the database.
\<close>

definition linked_account :: "stripe_resource \<Rightarrow> billing_account \<Rightarrow> billing_account" where
  "linked_account r a = a\<lparr>ba_provider := Some ''stripe'',
     ba_provider_customer_id := or_else (nonempty (rs_customer r)) (ba_provider_customer_id a)\<rparr>"

definition is_subscription :: "string \<Rightarrow> bool" where
  "is_subscription ty \<longleftrightarrow> prefix ''customer.subscription.'' ty"

definition is_invoice :: "string \<Rightarrow> bool" where
  "is_invoice ty \<longleftrightarrow> ty \<in> set [''invoice.payment_succeeded'', ''invoice.payment_failed'']"

definition event_account ::
  "billing_env \<Rightarrow> string \<Rightarrow> stripe_resource \<Rightarrow> datetime option \<Rightarrow> billing_account \<Rightarrow> billing_account"
where
  "event_account V ty r created a0 =
     (let a = linked_account r a0 in
      if ty = ''checkout.session.completed'' then
        a\<lparr>ba_provider_subscription_id := nonempty (rs_subscription r), ba_current_product_code := Some (product_code V r),
          ba_status := (if ba_status a \<noteq> ''active'' then ''pending'' else ba_status a)\<rparr>
      else if is_invoice ty then invoice_account V ty r a
      else if is_subscription ty \<and> \<not> stale created a then subscription_account V r created a
      else a)"

lemma event_kinds:
  "is_subscription ty \<Longrightarrow> ty \<noteq> ''checkout.session.completed'' \<and> \<not> is_invoice ty"
  by (auto simp: is_subscription_def is_invoice_def)

lemma sync_usage_tenant [simp]: "ba_tenant_id (sync_usage_period s e u a) = ba_tenant_id a"
  by (simp add: sync_usage_period_def Let_def split: option.split)

lemma linked_tenant [simp]: "ba_tenant_id (linked_account r a) = ba_tenant_id a"
  by (simp add: linked_account_def)

lemma invoice_tenant [simp]: "ba_tenant_id (invoice_account V ty r a) = ba_tenant_id a"
  by (simp add: invoice_account_def case_prod_beta)

lemma grace_tenant [simp]: "ba_tenant_id (subscription_grace V a) = ba_tenant_id a"
  by (simp add: subscription_grace_def)

lemma subscription_tenant [simp]: "ba_tenant_id (subscription_account V r created a) = ba_tenant_id a"
  by (simp add: subscription_account_def case_prod_beta Let_def split: option.split)

lemma event_account_tenant [simp]: "ba_tenant_id (event_account V ty r created a) = ba_tenant_id a"
  by (simp add: event_account_def Let_def)

lemma stale_linked [simp]: "stale created (linked_account r a) = stale created a"
  by (simp add: stale_def linked_account_def cong: option.case_cong)

lemma apply_event_unfold:
  "apply_event V ty r (Some t) created eid ident db =
     (case account_entity (bv_now V) t db of Inl e \<Rightarrow> Inl e | Inr (a0, db0) \<Rightarrow>
       (let a1 = event_account V ty r created a0; db1 = account_set t (\<lambda>_. a1) db0 in
        if ty = ''checkout.session.completed'' then
          map_sum id (Pair True) (apply_business_identity V t (ba_current_product_code a1) ident db1)
        else if is_invoice ty then map_sum id (Pair True) (record_payment (bv_now V) t ty r eid db1)
        else if is_subscription ty \<and> \<not> stale created a0 then
          (case apply_business_identity V t (ba_current_product_code a1) ident db1 of
             Inl e \<Rightarrow> Inl e | Inr db2 \<Rightarrow> Inr (True, reconcile_single_member_plan (bv_core V) t db2))
        else Inr (\<not> is_subscription ty, db1)))"
proof (cases "account_entity (bv_now V) t db")
  case (Inr x)
  obtain a0 db0 where x: "x = (a0, db0)" by (cases x)
  have ev: "is_invoice ty = (ty \<in> set [''invoice.payment_succeeded'', ''invoice.payment_failed''])"
    "is_subscription ty = prefix ''customer.subscription.'' ty" by (simp_all only: is_invoice_def is_subscription_def)
  show ?thesis
    unfolding apply_event_def Inr x sum.case prod.case option.case Let_def linked_account_def[symmetric] ev[symmetric]
      event_account_def stale_linked
    by (cases "ty = ''checkout.session.completed''"; cases "is_invoice ty"; cases "is_subscription ty";
        cases "stale created a0") (simp_all only: if_True if_False simp_thms)
qed (simp add: apply_event_def)

lemma apply_event_Inr:
  assumes "apply_event V ty r (Some t) created eid ident db = Inr (applied, db')"
    and ids: "distinct (map mb_id (cdb_members db))"
  obtains a0 db0 where "account_entity (bv_now V) t db = Inr (a0, db0)"
    "account_of db' t = Some (event_account V ty r created a0)"
    "applied = (\<not> (is_subscription ty \<and> stale created a0))"
    "touches t db0 db'" "cdb_events db' = cdb_events db"
proof -
  from assms(1) obtain a0 db0 where e: "account_entity (bv_now V) t db = Inr (a0, db0)"
    by (auto simp: apply_event_def split: sum.splits)
  have f: "found_account t a0 db db0" by (rule account_entity_found[OF e])
  define a1 where "a1 = event_account V ty r created a0"
  define db1 where "db1 = account_set t (\<lambda>_. a1) db0"
  have t: "ba_tenant_id a1 = t" using f by (simp add: a1_def found_account_def)
  have db1: "account_of db1 t = Some a1" "touches t db0 db1" "cdb_events db1 = cdb_events db"
    using f t by (auto simp: db1_def found_account_def account_set_same touches_account_set)
  have step: "account_of db2 t = Some a1 \<and> touches t db0 db2 \<and> cdb_events db2 = cdb_events db"
    if "cdb_accounts db2 = cdb_accounts db1" "touches t db1 db2" "cdb_events db2 = cdb_events db1" for db2
    using that db1 touches_trans[OF db1(2) that(2)] by (simp add: account_policy_cong(1)[OF that(1)])
  note a = assms(1)[unfolded apply_event_unfold e sum.case prod.case Let_def, folded a1_def, folded db1_def]
  have tenants: "touches t db1 db2" if "cdb_tenants db2 = cdb_tenants db1" "cdb_members db2 = cdb_members db1"
      "cdb_audit db2 = cdb_audit db1" "cdb_accounts db2 = cdb_accounts db1" for db2
    by (intro touchesI tenant_view_cong that account_policy_cong(1))
  consider (checkout) "ty = ''checkout.session.completed''" | (invoice) "ty \<noteq> ''checkout.session.completed''" "is_invoice ty"
    | (fresh) "is_subscription ty" "\<not> stale created a0" | (other) "ty \<noteq> ''checkout.session.completed''" "\<not> is_invoice ty"
      "\<not> is_subscription ty \<or> stale created a0"
    by blast
  then have "account_of db' t = Some a1 \<and> touches t db0 db' \<and> cdb_events db' = cdb_events db \<and>
      applied = (\<not> (is_subscription ty \<and> stale created a0))"
  proof cases
    case checkout
    then show ?thesis
      using a event_kinds[of ty] by (auto simp: map_sum_Inr dest!: business_identity_Inr intro!: step[THEN conjunct1]
        step[THEN conjunct2, THEN conjunct1] step[THEN conjunct2, THEN conjunct2])
  next
    case invoice
    then show ?thesis
      using a event_kinds[of ty] by (auto simp: map_sum_Inr dest!: record_payment_Inr intro!: tenants step[THEN conjunct1]
        step[THEN conjunct2, THEN conjunct1] step[THEN conjunct2, THEN conjunct2])
  next
    case fresh
    then obtain db2 where b: "apply_business_identity V t (ba_current_product_code a1) ident db1 = Inr db2"
      and d: "applied" "db' = reconcile_single_member_plan (bv_core V) t db2"
      using a event_kinds[of ty] by (auto split: sum.splits)
    note b' = business_identity_Inr[OF b]
    have "cdb_members db2 = cdb_members db" using b' f by (simp add: db1_def found_account_def)
    then have "touches t db2 db'" unfolding d(2) using ids by (intro touchesI view_reconcile) simp_all
    then show ?thesis using step[of db'] b' d fresh touches_trans by fastforce
  next
    case other
    then show ?thesis using a db1 by auto
  qed
  then show ?thesis using that e unfolding a1_def by blast
qed

end
