(* ===== verification/Billing_Claims.thy ===== *)
theory Billing_Claims
  imports Billing_Facts
begin

text \<open>
  The properties of billing: the quotas, the refinement of the account's state machine, the
  exactly-once processing of webhooks, the order of events and the grace period.
\<close>

section \<open>Steps of the webhook\<close>

lemma event_of_cong: "cdb_events db' = cdb_events db \<Longrightarrow> event_of db' i = event_of db i"
  by (simp add: event_of_def)

lemma event_of_set:
  assumes "\<And>e. be_provider (f e) = be_provider e \<and> be_provider_event_id (f e) = be_provider_event_id e"
  shows "event_of (event_set i f db) i = map_option f (event_of db i)"
proof -
  have "List.find (is_event i) (table_update (is_event i) f rows) = map_option f (List.find (is_event i) rows)" for rows
    by (induction rows) (auto simp: table_update_def is_event_def assms)
  then show ?thesis by (simp add: event_of_def event_set_def)
qed

lemma event_set_sel [simp]:
  "cdb_tenants (event_set i f db) = cdb_tenants db" "cdb_members (event_set i f db) = cdb_members db"
  "cdb_accounts (event_set i f db) = cdb_accounts db" "cdb_payments (event_set i f db) = cdb_payments db"
  "cdb_audit (event_set i f db) = cdb_audit db"
  by (simp_all add: event_set_def)

lemma process_event_done:
  assumes p: "process_event V ev t ident db = Inr ((dup, mails), db')"
    and ids: "distinct (map mb_id (cdb_members db))"
  shows "\<exists>e. event_of db' (se_id ev) = Some e \<and> event_done (be_status e)"
proof -
  from p obtain e where e: "event_of db (se_id ev) = Some e" by (auto simp: process_event_def split: option.splits)
  show ?thesis
  proof (cases "event_done (be_status e)")
    case True
    then show ?thesis using p e by (auto simp: process_event_def)
  next
    case False
    let ?prev = "case t of None \<Rightarrow> Inr (None, db)
                   | Some u \<Rightarrow> map_sum id (map_prod Some id) (account_entity (bv_now V) u db)"
    from p e False obtain previous db0 applied db1 where
      prev: "?prev = Inr (previous, db0)"
      and ap: "apply_event V (se_type ev) (se_object ev) t (Some (event_created_at (bv_now V) ev)) (se_id ev) ident db0 =
         Inr (applied, db1)"
      and d: "db' = event_set (se_id ev) (\<lambda>e. e\<lparr>be_status := (if applied then ''processed'' else ''ignored_stale''),
                            be_processed_at := Some (bv_now V), be_error_code := None\<rparr>) db1"
      by (auto simp: process_event_def Let_def split: sum.splits prod.splits)
    have "cdb_events db1 = cdb_events db"
    proof (cases t)
      case None
      then show ?thesis using prev ap by (simp add: apply_event_def)
    next
      case (Some u)
      then obtain a where "account_entity (bv_now V) u db = Inr (a, db0)" using prev by (auto simp: map_sum_Inr)
      then have f: "cdb_events db0 = cdb_events db" "cdb_members db0 = cdb_members db"
        using account_entity_found[of "bv_now V" u db a db0] by (auto simp: found_account_def)
      show ?thesis using apply_event_Inr[OF ap[unfolded Some]] ids f by metis
    qed
    then have "event_of db1 (se_id ev) = Some e" using e event_of_cong by metis
    then have "event_of db' (se_id ev) = Some (e\<lparr>be_status := (if applied then ''processed'' else ''ignored_stale''),
                            be_processed_at := Some (bv_now V), be_error_code := None\<rparr>)"
      unfolding d by (subst event_of_set) auto
    then show ?thesis by (simp add: event_done_def)
  qed
qed

lemma committed_sync_rows [simp]: "committed (sync_rows db) = constraints_ok db"
  by (simp add: committed_def)

text \<open>The state in which an event is processed: committed, with the event stored.\<close>

lemma store_event:
  assumes "committed db"
    and "(if s \<noteq> None then (Inr (), db)
          else transaction (\<lambda>db. Inr ((), db\<lparr>cdb_next := cdb_next db + 1,
                 cdb_events := cdb_events db @ [received_event V (cdb_next db) payload ev t]\<rparr>)) db) = (Inr u, db1)"
  shows "committed db1 \<and> cdb_tenants db1 = cdb_tenants db \<and> cdb_members db1 = cdb_members db \<and>
    cdb_accounts db1 = cdb_accounts db \<and> cdb_payments db1 = cdb_payments db \<and> cdb_audit db1 = cdb_audit db \<and>
    (s = None \<longrightarrow> cdb_events db1 = cdb_events db @ [received_event V (cdb_next db) payload ev t]) \<and>
    (s \<noteq> None \<longrightarrow> db1 = db)"
  using assms
  by (auto split: if_splits elim!: transaction_Inr simp: sync_accounts_of committed_sync)

text \<open>A delivery that is not a duplicate ran the event in such a state.\<close>

lemma receive_webhook_Inr:
  assumes "receive_webhook V payload sig db = (Inr False, mails, db')" "committed db"
  obtains ev t ident db1 db2 where "bv_construct_event V payload sig = Inr ev"
    "event_tenant (se_object ev) db = Inr t" "event_identity V ev t = Inr ident" "committed db1"
    "process_event V ev t ident db1 = Inr ((False, mails), db2)" "constraints_ok db2" "db' = sync_rows db2"
    "cdb_tenants db1 = cdb_tenants db" "cdb_members db1 = cdb_members db" "cdb_accounts db1 = cdb_accounts db"
    "cdb_audit db1 = cdb_audit db"
proof -
  let ?store = "\<lambda>ev t. if map_option be_status (event_of db (se_id ev)) \<noteq> None then (Inr (), db)
                    else transaction (\<lambda>db. Inr ((), db\<lparr>cdb_next := cdb_next db + 1,
                           cdb_events := cdb_events db @ [received_event V (cdb_next db) payload ev t]\<rparr>)) db"
  from assms(1) obtain ev t ident db1 db2 u where "bv_construct_event V payload sig = Inr ev"
    "event_tenant (se_object ev) db = Inr t" "event_identity V ev t = Inr ident" "?store ev t = (Inr u, db1)"
    "process_event V ev t ident db1 = Inr ((False, mails), db2)" "flush db2 = Inr db'"
    unfolding receive_webhook_def Let_def
    by (auto split: sum.splits prod.splits option.splits if_splits)
  then show ?thesis using that[of ev t ident db1 db2] store_event[OF assms(2), of _ V payload ev t u db1]
    by (simp only: flush_Inr) blast
qed

lemma receive_webhook_Inl:
  assumes "receive_webhook V payload sig db = (Inl e, mails, db')" "committed db"
    and ev: "bv_construct_event V payload sig = Inr ev"
  shows "db' = db \<and> (\<forall>x. event_of db (se_id ev) = Some x \<longrightarrow> \<not> event_done (be_status x) \<or> bv_provider_error V \<noteq> None) \<or>
    (\<exists>db1. db' = mark_failed (se_id ev) e db1 \<and> committed db1 \<and> cdb_tenants db1 = cdb_tenants db \<and>
      cdb_members db1 = cdb_members db \<and> cdb_accounts db1 = cdb_accounts db \<and> cdb_payments db1 = cdb_payments db \<and>
      cdb_audit db1 = cdb_audit db)"
proof (cases "db' = db \<and> (\<forall>x. event_of db (se_id ev) = Some x \<longrightarrow> \<not> event_done (be_status x) \<or> bv_provider_error V \<noteq> None)")
  case False
  let ?store = "\<lambda>t. if map_option be_status (event_of db (se_id ev)) \<noteq> None then (Inr (), db)
                    else transaction (\<lambda>db. Inr ((), db\<lparr>cdb_next := cdb_next db + 1,
                           cdb_events := cdb_events db @ [received_event V (cdb_next db) payload ev t]\<rparr>)) db"
  from assms(1) False obtain t u db1 where "?store t = (Inr u, db1)" "db' = mark_failed (se_id ev) e db1"
    unfolding receive_webhook_def Let_def get_provider_def
    by (auto simp: ev split: sum.splits prod.splits option.splits if_splits)
  then show ?thesis using store_event[OF assms(2), of _ V payload ev t u db1] by blast
qed simp


text \<open>Fields a subscription event does not write, and the time stamp it does.\<close>

lemma sync_usage_keeps [simp]:
  "ba_last_provider_event_created_at (sync_usage_period s e u a) = ba_last_provider_event_created_at a"
  "ba_deleted_at (sync_usage_period s e u a) = ba_deleted_at a"
  "ba_signatures_used (sync_usage_period s e u a) = ba_signatures_used a"
  "ba_status (sync_usage_period s e u a) = ba_status a"
  "ba_grace_period_ends_at (sync_usage_period s e u a) = ba_grace_period_ends_at a"
  by (simp_all add: sync_usage_period_def Let_def split: option.split)

lemma grace_keeps [simp]:
  "ba_last_provider_event_created_at (subscription_grace V a) = ba_last_provider_event_created_at a"
  "ba_deleted_at (subscription_grace V a) = ba_deleted_at a"
  "ba_signatures_used (subscription_grace V a) = ba_signatures_used a"
  "ba_files_uploaded_in_period (subscription_grace V a) = ba_files_uploaded_in_period a"
  "ba_status (subscription_grace V a) = ba_status a"
  by (simp_all add: subscription_grace_def)

lemma subscription_keeps [simp]:
  "ba_last_provider_event_created_at (subscription_account V r (Some c) a) = Some c"
  "ba_deleted_at (subscription_account V r created a) = ba_deleted_at a"
  "ba_signatures_used (subscription_account V r created a) = ba_signatures_used a"
  by (simp_all add: subscription_account_def case_prod_beta Let_def split: option.split)

lemma apply_event_account:
  assumes "committed db" "apply_event V ty r (Some t) created eid ident db = Inr (applied, db')"
  shows "\<exists>a. (account_of db t = Some a \<or> account_of db t = None \<and> a = new_account (cdb_next db) (bv_now V) t) \<and>
     account_of db' t = Some (event_account V ty r created (a\<lparr>ba_deleted_at := None\<rparr>)) \<and>
     applied = (\<not> (is_subscription ty \<and> stale created a)) \<and>
     (\<forall>t'. t' \<noteq> t \<longrightarrow> tenant_view db' t' = tenant_view db t')"
proof -
  obtain a0 db0 where e: "account_entity (bv_now V) t db = Inr (a0, db0)"
    and r: "account_of db' t = Some (event_account V ty r created a0)" "applied = (\<not> (is_subscription ty \<and> stale created a0))"
      "touches t db0 db'"
    using apply_event_Inr[OF assms(2) committed_member_ids[OF assms(1)]] by metis
  have touch: "touches t db db'"
    using account_entity_touches[OF assms(1) touches_refl e] r(3) by (rule touches_trans)
  show ?thesis
  proof (cases "account_of db t")
    case None
    then have "a0 = new_account (cdb_next db) (bv_now V) t"
      using e by (simp add: account_entity_def map_sum_Inr)
    moreover have "a0\<lparr>ba_deleted_at := None\<rparr> = a0" using account_entity_found[OF e] by (simp add: found_account_def)
    ultimately show ?thesis using None r touch unfolding touches_def by metis
  next
    case (Some b)
    then have "a0 = b\<lparr>ba_deleted_at := None\<rparr>" using e by (simp add: account_entity_Some)
    moreover have "stale created (b\<lparr>ba_deleted_at := None\<rparr>) = stale created b" by (simp add: stale_def)
    ultimately show ?thesis using Some r touch by (auto simp: touches_def)
  qed
qed

section \<open>Properties\<close>



text \<open>C33: A delivery that fails changes no tenant, member, billing account, payment or audit record,
  and leaves the event unprocessed, so that the provider's retry applies it.\<close>

theorem webhook_failure_atomic:
  assumes "committed db" "receive_webhook V payload sig db = (Inl e, mails, db')"
    and "bv_construct_event V payload sig = Inr ev" "bv_provider_error V = None"
  shows "cdb_tenants db' = cdb_tenants db \<and> cdb_members db' = cdb_members db \<and> cdb_accounts db' = cdb_accounts db \<and>
     cdb_payments db' = cdb_payments db \<and> cdb_audit db' = cdb_audit db \<and>
     (case event_of db' (se_id ev) of None \<Rightarrow> True | Some x \<Rightarrow> \<not> event_done (be_status x))"
  using receive_webhook_Inl[OF assms(2,1,3)]
proof
  assume "db' = db \<and> (\<forall>x. event_of db (se_id ev) = Some x \<longrightarrow> \<not> event_done (be_status x) \<or> bv_provider_error V \<noteq> None)"
  then show ?thesis using assms(4) by (auto split: option.split)
next
  assume "\<exists>db1. db' = mark_failed (se_id ev) e db1 \<and> committed db1 \<and> cdb_tenants db1 = cdb_tenants db \<and>
      cdb_members db1 = cdb_members db \<and> cdb_accounts db1 = cdb_accounts db \<and> cdb_payments db1 = cdb_payments db \<and>
      cdb_audit db1 = cdb_audit db"
  then show ?thesis
    by (auto simp: mark_failed_def event_of_set event_done_def split: option.split)
qed

text \<open>Order of subscription events. Once the account reflects an event created at \<open>c2\<close>, an
  event created before is refused as stale; all it does is to note the provider and its customer id, so
  status, plan, periods and usage stay those of the newer event whatever order the events arrive in.\<close>

theorem newer_subscription_wins:
  assumes "committed db" "apply_event V ty r (Some t) (Some c2) eid ident db = Inr (True, db1)"
    and "is_subscription ty" "is_subscription ty'" "c1 < c2"
  shows "\<exists>a db2. account_of db1 t = Some a \<and> ba_last_provider_event_created_at a = Some c2 \<and>
     apply_event V' ty' r' (Some t) (Some c1) eid' ident' db1 = Inr (False, db2) \<and>
     account_of db2 t = Some (a\<lparr>ba_provider := Some ''stripe'',
       ba_provider_customer_id := or_else (nonempty (rs_customer r')) (ba_provider_customer_id a)\<rparr>)"
proof -
  obtain a0 db0 where e: "account_entity (bv_now V) t db = Inr (a0, db0)"
    and acc: "account_of db1 t = Some (event_account V ty r (Some c2) a0)"
    and fresh: "\<not> stale (Some c2) a0"
    using apply_event_Inr[OF assms(2) committed_member_ids[OF assms(1)]] assms(3) by metis
  define a where "a = event_account V ty r (Some c2) a0"
  have "a = subscription_account V r (Some c2) (linked_account r a0)"
    using event_kinds[OF assms(3)] assms(3) fresh by (simp add: a_def event_account_def)
  then have last: "ba_last_provider_event_created_at a = Some c2" and del: "ba_deleted_at a = ba_deleted_at a0"
    by (simp_all add: linked_account_def)
  have "ba_deleted_at a = None" using account_entity_found[OF e] del by (simp add: found_account_def)
  then have e': "account_entity (bv_now V') t db1 = Inr (a, db1)"
    using acc account_entity_Some[of db1 t a] by (cases a) (simp add: a_def[symmetric])
  have st: "stale (Some c1) a" using last assms(5) by (simp add: stale_def)
  have k: "ty' \<noteq> ''checkout.session.completed''" "\<not> is_invoice ty'" using event_kinds[OF assms(4)] by auto
  have ea: "event_account V' ty' r' (Some c1) a = linked_account r' a"
    using k st by (simp add: event_account_def)
  have "apply_event V' ty' r' (Some t) (Some c1) eid' ident' db1 = Inr (False, account_set t (\<lambda>_. linked_account r' a) db1)"
    unfolding apply_event_unfold e' using k st assms(4) by (simp add: ea)
  moreover have "account_of (account_set t (\<lambda>_. linked_account r' a) db1) t = Some (linked_account r' a)"
    using acc account_of_tenant[OF acc] by (intro account_set_same[of _ _ a]) (simp_all add: a_def)
  ultimately show ?thesis using acc last by (auto simp: a_def[symmetric] linked_account_def)
qed

lemma charge_keeps:
  "charge_signature now a = Inr b \<Longrightarrow> ba_tenant_id b = ba_tenant_id a \<and> ba_deleted_at b = ba_deleted_at a"
  "charge_document now a = Inr b \<Longrightarrow> ba_tenant_id b = ba_tenant_id a \<and> ba_deleted_at b = ba_deleted_at a"
  by (auto simp: charge_signature_def charge_document_def split: if_splits option.splits)

text \<open>Consuming on the database is charging the account, any number of times.\<close>

lemma repeat_consume:
  assumes c: "\<And>a db. account_of db t = Some a \<Longrightarrow> ba_deleted_at a = None \<Longrightarrow>
      consume db = map_sum id (\<lambda>b. account_set t (\<lambda>_. b) db) (charge a)"
    and k: "\<And>a b. charge a = Inr b \<Longrightarrow> ba_tenant_id b = ba_tenant_id a \<and> ba_deleted_at b = ba_deleted_at a"
    and "account_of db t = Some a" "ba_deleted_at a = None"
  shows "(\<exists>db'. repeat_result n consume db = Inr db') = (\<exists>b. repeat_result n charge a = Inr b)"
  using assms(3,4)
proof (induction n arbitrary: db a)
  case (Suc n)
  show ?case
  proof (cases "charge a")
    case (Inr b)
    then have "account_of (account_set t (\<lambda>_. b) db) t = Some b" "ba_deleted_at b = None"
      using k[OF Inr] account_of_tenant[OF Suc.prems(1)] Suc.prems by (auto intro: account_set_same)
    from Suc.IH[OF this] show ?thesis using Inr by (simp add: c[OF Suc.prems])
  qed (simp add: c[OF Suc.prems])
qed simp

lemma consume_charges:
  assumes "account_of db t = Some a" "ba_deleted_at a = None"
  shows "consume_signature now t db = map_sum id (\<lambda>b. account_set t (\<lambda>_. b) db) (charge_signature now a)"
    and "consume_document now t db = map_sum id (\<lambda>b. account_set t (\<lambda>_. b) db) (charge_document now a)"
proof -
  have "a\<lparr>ba_deleted_at := None\<rparr> = a" using assms(2) by simp
  then have "account_entity now t db = Inr (a, db)" using assms by (simp add: account_entity_Some)
  then show "consume_signature now t db = map_sum id (\<lambda>b. account_set t (\<lambda>_. b) db) (charge_signature now a)"
    and "consume_document now t db = map_sum id (\<lambda>b. account_set t (\<lambda>_. b) db) (charge_document now a)"
    by (auto simp: consume_signature_def consume_document_def split: sum.split)
qed

text \<open>C34: Quotas. With complimentary or paid access signatures are free; otherwise \<open>n\<close> more
  signatures are granted exactly when they fit the free allowance. Documents are limited by the
  monthly allowance of a paid plan, and unlimited without one or with complimentary access.\<close>

theorem quotas_exact:
  assumes "account_of db t = Some a" "ba_deleted_at a = None"
  shows "((\<exists>db'. repeat_result n (consume_signature now t) db = Inr db') \<longleftrightarrow>
       n = 0 \<or> ba_complimentary_lifetime a \<or> paid_access_enabled now a \<or>
       ba_signatures_used a + int n \<le> ba_free_signatures_limit a) \<and>
    ((\<exists>db'. repeat_result n (consume_document now t) db = Inr db') \<longleftrightarrow>
       n = 0 \<or> ba_complimentary_lifetime a \<or>
       (case active_plan_file_limit now a of None \<Rightarrow> True | Some l \<Rightarrow> ba_files_uploaded_in_period a + int n \<le> l))"
proof (rule conjI)
  have "(\<exists>db'. repeat_result n (consume_signature now t) db = Inr db') = (\<exists>b. repeat_result n (charge_signature now) a = Inr b)"
    by (rule repeat_consume[OF consume_charges(1) charge_keeps(1) assms])
  then show "(\<exists>db'. repeat_result n (consume_signature now t) db = Inr db') \<longleftrightarrow>
       n = 0 \<or> ba_complimentary_lifetime a \<or> paid_access_enabled now a \<or>
       ba_signatures_used a + int n \<le> ba_free_signatures_limit a"
    using signatures.repeat_unmetered[of now a n] signatures.repeat_metered[of now a _ n]
    by (cases "ba_complimentary_lifetime a \<or> paid_access_enabled now a") (auto simp: signature_allowance_def)
  have "(\<exists>db'. repeat_result n (consume_document now t) db = Inr db') = (\<exists>b. repeat_result n (charge_document now) a = Inr b)"
    by (rule repeat_consume[OF consume_charges(2) charge_keeps(2) assms])
  then show "(\<exists>db'. repeat_result n (consume_document now t) db = Inr db') \<longleftrightarrow>
       n = 0 \<or> ba_complimentary_lifetime a \<or>
       (case active_plan_file_limit now a of None \<Rightarrow> True | Some l \<Rightarrow> ba_files_uploaded_in_period a + int n \<le> l)"
    using documents.repeat_unmetered[of now a n] documents.repeat_metered[of now a _ n]
    by (cases "ba_complimentary_lifetime a"; cases "active_plan_file_limit now a") (auto simp: document_allowance_def)
qed

text \<open>Grace. An active account whose payment fails keeps its access for the grace period counted
  from the first failure; further failed invoices, whenever they arrive, do not extend it.\<close>

theorem grace_not_extended:
  assumes "ba_status a = ''active''"
  shows "paid_access_enabled now (fold (\<lambda>(V, r) b. event_account V ''invoice.payment_failed'' r None b) later
      (event_account V ''invoice.payment_failed'' r None a)) \<longleftrightarrow> now < bv_now V + days (bv_grace_period_days V)"
proof -
  let ?g = "\<lambda>b. ba_status b = ''past_due'' \<and> ba_grace_period_ends_at b = Some (bv_now V + days (bv_grace_period_days V))"
  have ev: "event_account V ''invoice.payment_failed'' r None b = invoice_account V ''invoice.payment_failed'' r (linked_account r b)"
    for V r b by (simp add: event_account_def is_invoice_def)
  have first: "?g (event_account V ''invoice.payment_failed'' r None a)"
    by (simp add: ev invoice_account_def linked_account_def grace_end_def assms)
  have step: "?g (event_account W ''invoice.payment_failed'' q None b)" if "?g b" for W q b
    using that by (simp add: ev invoice_account_def linked_account_def)
  have "?g (fold (\<lambda>(V, r) b. event_account V ''invoice.payment_failed'' r None b) later b)" if "?g b" for b
    using that by (induction later arbitrary: b) (simp_all add: step case_prod_beta)
  from this[OF first] show ?thesis by (simp add: paid_access_enabled_def)
qed

text \<open>Usage. No event gives signatures back, and the count of the month's files is kept by
  every event except a paid renewal (an invoice of reason subscription_cycle) whose service period starts
  after the current one, which resets it to zero: changing plans never clears the usage.\<close>

theorem usage_kept:
  "ba_signatures_used (event_account V ty r created a) = ba_signatures_used a \<and>
   (ba_files_uploaded_in_period (event_account V ty r created a) = ba_files_uploaded_in_period a \<or>
    ba_files_uploaded_in_period (event_account V ty r created a) = 0 \<and> ty = ''invoice.payment_succeeded'' \<and>
    rs_billing_reason r = Some ''subscription_cycle'' \<and>
    (\<exists>new old. fst (invoice_service_period r) = Some new \<and> ba_usage_period_starts_at a = Some old \<and> old < new))"
proof -
  have usage: "ba_files_uploaded_in_period (sync_usage_period s e u b) = ba_files_uploaded_in_period b \<or>
      ba_files_uploaded_in_period (sync_usage_period s e u b) = 0 \<and> u \<and>
      (\<exists>new old. s = Some new \<and> ba_usage_period_starts_at b = Some old \<and> old < new)" for s e u b
    by (auto simp: sync_usage_period_def Let_def split: option.splits)
  have sub: "ba_files_uploaded_in_period (subscription_account V r created b) = ba_files_uploaded_in_period b" for b
    using usage[of _ _ False] by (simp add: subscription_account_def case_prod_beta Let_def split: option.split)
  have link: "ba_files_uploaded_in_period (linked_account r a) = ba_files_uploaded_in_period a"
    "ba_signatures_used (linked_account r a) = ba_signatures_used a"
    "ba_usage_period_starts_at (linked_account r a) = ba_usage_period_starts_at a" by (simp_all add: linked_account_def)
  have inv: "ba_signatures_used (invoice_account V ty r b) = ba_signatures_used b" for b
    by (simp add: invoice_account_def case_prod_beta)
  have "ba_files_uploaded_in_period (invoice_account V ty r b) = ba_files_uploaded_in_period b \<or>
    ba_files_uploaded_in_period (invoice_account V ty r b) = 0 \<and> ty = ''invoice.payment_succeeded'' \<and>
    rs_billing_reason r = Some ''subscription_cycle'' \<and>
    (\<exists>new old. fst (invoice_service_period r) = Some new \<and> ba_usage_period_starts_at b = Some old \<and> old < new)" for b
    using usage[of "fst (invoice_service_period r)" "snd (invoice_service_period r)"
        "rs_billing_reason r = Some ''subscription_cycle''" "b\<lparr>ba_status := ''active'', ba_grace_period_ends_at := None\<rparr>"]
    by (auto simp: invoice_account_def case_prod_beta)
  from this[of "linked_account r a"] show ?thesis
    by (auto simp: event_account_def Let_def sub link inv)
qed

text \<open>An event lost. When the object of an event names a tenant that does not exist, storing the
  event violates the foreign key; the service reads that as a concurrent delivery and answers duplicate, so
  nothing of the event is kept and the provider will not send it again.\<close>

theorem unknown_tenant_event_lost:
  assumes "bv_provider_error V = None" "bv_construct_event V payload sig = Inr ev" "event_of db (se_id ev) = None"
    and "resource_tenant_id (se_object ev) = Inr (Some t)" "t \<notin> ten_id ` set (cdb_tenants db)"
    and "event_identity V ev (Some t) = Inr ident"
  shows "receive_webhook V payload sig db = (Inr True, [], db)"
proof -
  have "event_tenant (se_object ev) db = Inr (Some t)"
    using assms(4) by (simp add: event_tenant_def)
  moreover have "transaction (\<lambda>db. Inr ((), db\<lparr>cdb_next := cdb_next db + 1,
       cdb_events := cdb_events db @ [received_event V (cdb_next db) payload ev (Some t)]\<rparr>)) db = (Inl IntegrityError, db)"
    using assms(5)
    by (auto simp: transaction_def flush_def constraints_ok_def billing_rows_ok_def tenants_ok_def present_def received_event_def)
  ultimately show ?thesis
    using assms by (simp add: receive_webhook_def get_provider_def)
qed

lemma in_grid: "n \<in> set ns \<Longrightarrow> \<exists>c\<in>set cs. f n c = x \<Longrightarrow> x \<in> set (concat (map (\<lambda>i. map (f i) cs) ns))"
  by auto

lemma configured_product:
  assumes "(product, plan) \<in> set plan_settings"
    and "Some p \<in> set (filter (\<lambda>p. nonempty p \<noteq> None)
      (concat (map (\<lambda>interval. map (bv_price V plan interval) [''BRL'', ''USD'', ''EUR'', ''JPY'']) [''MONTHLY'', ''ANNUAL''])))"
  shows "(p, product) \<in> set (price_products V)"
  unfolding price_products_def set_rev set_concat set_map
  by (intro UN_I[OF image_eqI[OF refl assms(1)]], unfold prod.case set_map,
      rule image_eqI[OF refl], rule image_eqI[OF _ assms(2)[unfolded set_concat]]) simp

text \<open>Prices. The price a checkout uses for a product, interval and currency is read back from the
  subscription as the same product, whenever no price is configured twice.\<close>

theorem price_round_trip:
  assumes "distinct (map fst (price_products V))" "price_for_currency V currency product interval = Inr p"
    and "rs_items r = i # items" "it_price i = Some p"
  shows "product_code V r = product"
proof -
  obtain plan n where plan: "dict_get plan_settings product = Some plan"
    and n: "dict_get [(''month'', ''MONTHLY''), (''year'', ''ANNUAL'')] interval = Some n"
    and p: "nonempty (Option.bind (dict_get (configured_prices V plan n) (upper currency)) id) = Some p"
    using assms(2) by (auto simp: price_for_currency_def Let_def nonempty_def split: option.splits if_splits)
  have "p \<noteq> []" using p by (auto simp: nonempty_def split: if_splits)
  moreover have "n \<in> set [''MONTHLY'', ''ANNUAL'']" using n by (auto split: if_splits)
  moreover have "\<exists>c\<in>set [''BRL'', ''USD'', ''EUR'', ''JPY'']. bv_price V plan n c = Some p"
    using p by (auto simp: nonempty_def configured_prices_def split: if_splits bind_splits)
  ultimately have "Some p \<in> set (filter (\<lambda>p. nonempty p \<noteq> None)
      (concat (map (\<lambda>interval. map (bv_price V plan interval) [''BRL'', ''USD'', ''EUR'', ''JPY'']) [''MONTHLY'', ''ANNUAL''])))"
    unfolding set_filter mem_Collect_eq by (intro conjI in_grid) (simp_all only: nonempty_def option.inject, simp_all)
  from configured_product[OF map_of_SomeD[OF plan] this]
  have "(p, product) \<in> set (price_products V)" .
  then have "dict_get (price_products V) p = Some product" using assms(1) by simp
  then show ?thesis
    using assms(3,4) \<open>p \<noteq> []\<close> by (simp add: product_code_def subscription_price_id_def or_else_def nonempty_def)
qed

text \<open>The shape of an account: a known status, no negative counter, and a grace period when past due.\<close>

definition account_typed :: "billing_account \<Rightarrow> bool" where
  "account_typed a \<longleftrightarrow>
     ba_status a \<in> set [''not_configured'', ''pending'', ''active'', ''past_due'', ''unpaid'', ''cancelled'', ''paused''] \<and>
     0 \<le> ba_signatures_used a \<and> 0 \<le> ba_files_uploaded_in_period a \<and>
     (ba_status a = ''past_due'' \<longrightarrow> ba_grace_period_ends_at a \<noteq> None)"

lemma sync_files_nonneg: "0 \<le> ba_files_uploaded_in_period a \<Longrightarrow> 0 \<le> ba_files_uploaded_in_period (sync_usage_period s e u a)"
  by (simp add: sync_usage_period_def Let_def split: option.split)

lemma known_status: "subscription_status s \<in> set [''not_configured'', ''active'', ''past_due'', ''unpaid'', ''cancelled'', ''paused'']"
  by (simp add: subscription_status_def)

lemma subscription_typed:
  assumes "0 \<le> ba_signatures_used a" "0 \<le> ba_files_uploaded_in_period a"
  shows "account_typed (subscription_account V r created a)"
proof -
  let ?b = "subscription_account V r created a"
  have s: "ba_status ?b = subscription_status (case rs_status r of None \<Rightarrow> [] | Some s \<Rightarrow> s)"
    by (simp add: subscription_account_def case_prod_beta Let_def split: option.split)
  have "ba_status ?b = ''past_due'' \<Longrightarrow> ba_grace_period_ends_at ?b \<noteq> None"
    by (simp add: s) (simp add: subscription_account_def subscription_grace_def case_prod_beta Let_def split: option.split)
  moreover have "0 \<le> ba_files_uploaded_in_period ?b"
    using assms(2) by (simp add: subscription_account_def case_prod_beta Let_def sync_files_nonneg split: option.split)
  ultimately show ?thesis using assms(1) known_status unfolding account_typed_def s by auto
qed

lemma event_account_typed:
  assumes "account_typed a"
  shows "account_typed (event_account V ty r created a)"
proof -
  have l: "account_typed (linked_account r a)" using assms by (simp add: account_typed_def linked_account_def)
  then have "account_typed (subscription_account V r created (linked_account r a))"
    by (intro subscription_typed) (simp_all add: account_typed_def)
  moreover have "account_typed (invoice_account V ty r (linked_account r a))"
    using l by (simp add: account_typed_def invoice_account_def case_prod_beta sync_files_nonneg)
  moreover have "account_typed ((linked_account r a)\<lparr>ba_provider_subscription_id := x, ba_current_product_code := y,
      ba_status := (if ba_status (linked_account r a) \<noteq> ''active'' then ''pending'' else ba_status (linked_account r a))\<rparr>)" for x y
    using l by (simp add: account_typed_def)
  ultimately show ?thesis using l by (simp add: event_account_def Let_def)
qed

text \<open>C36: Types. Every applied event leaves the account of its tenant with one of the seven known
  statuses, non-negative counters, and an end of grace whenever it is past due.\<close>

theorem billing_account_types:
  assumes "committed db" "apply_event V ty r (Some t) created eid ident db = Inr (applied, db')"
    and "case account_of db t of None \<Rightarrow> True | Some a \<Rightarrow> account_typed a"
  shows "case account_of db' t of None \<Rightarrow> False | Some b \<Rightarrow> account_typed b"
proof -
  obtain a where a: "account_of db t = Some a \<or> account_of db t = None \<and> a = new_account (cdb_next db) (bv_now V) t"
    and b: "account_of db' t = Some (event_account V ty r created (a\<lparr>ba_deleted_at := None\<rparr>))"
    using apply_event_account[OF assms(1,2)] by blast
  have "account_typed a" using a assms(3) by (auto simp: account_typed_def new_account_def)
  then have "account_typed (a\<lparr>ba_deleted_at := None\<rparr>)" by (simp add: account_typed_def)
  then show ?thesis using event_account_typed by (simp add: b)
qed


section \<open>Witnesses\<close>

definition demo_prices :: "string \<Rightarrow> string \<Rightarrow> string \<Rightarrow> string option" where
  "demo_prices plan interval currency = Some (plan @ ''_'' @ interval @ ''_'' @ currency)"

definition demo_resource :: stripe_resource where
  "demo_resource = \<lparr>rs_id = Some ''sub_1'', rs_customer = Some ''cus_1'', rs_subscription = None,
     rs_status = Some ''active'', rs_cancel_at_period_end = None, rs_cancel_at = None,
     rs_metadata = Some [(''tenant_id'', replicate 32 CHR ''0'')], rs_client_reference_id = None,
     rs_items = [\<lparr>it_price = Some ''TEAM_MONTHLY_USD'', it_plan = None, it_current_period_start = Some 10,
       it_current_period_end = Some 40\<rparr>],
     rs_current_period_start = None, rs_current_period_end = None, rs_period_start = None, rs_period_end = None,
     rs_billing_reason = None, rs_paid_at = None, rs_parent_subscription = None, rs_currency = None,
     rs_amount_due = None, rs_amount_paid = None, rs_lines = []\<rparr>"

definition demo_invoice :: stripe_resource where
  "demo_invoice = demo_resource\<lparr>rs_id := Some ''in_1'', rs_items := [], rs_billing_reason := Some ''subscription_cycle'',
     rs_period_start := Some 40, rs_period_end := Some 70\<rparr>"

text \<open>The payload selects the event: \<open>''s''\<close> a subscription, \<open>''i''\<close> an invoice without id, \<open>''u''\<close>
  one of an unknown tenant.\<close>

definition demo_event :: "bytes \<Rightarrow> stripe_event" where
  "demo_event payload =
     (if payload = ''s''
      then \<lparr>se_id = ''evt_s'', se_type = ''customer.subscription.updated'', se_created = Some 5, se_object = demo_resource\<rparr>
      else if payload = ''i''
      then \<lparr>se_id = ''evt_i'', se_type = ''invoice.payment_failed'', se_created = Some 6,
            se_object = demo_invoice\<lparr>rs_id := None\<rparr>\<rparr>
      else \<lparr>se_id = ''evt_u'', se_type = ''invoice.payment_failed'', se_created = Some 6,
            se_object = demo_invoice\<lparr>rs_metadata := Some [(''tenant_id'', replicate 30 CHR ''0'' @ ''ff'')]\<rparr>\<rparr>)"

definition demo_billing :: billing_env where
  "demo_billing = \<lparr>bv_core = demo_core, bv_price = demo_prices, bv_grace_period_days = 7,
     bv_provider_name = ''stripe'', bv_public_web_url = ''https://x.io'', bv_sha256 = (\<lambda>s. s), bv_send = (\<lambda>m. True),
     bv_provider_error = None, bv_create_customer = (\<lambda>e n t. Inr ''cus_1''), bv_create_checkout = (\<lambda>c. Inr ''url''),
     bv_create_portal = (\<lambda>c. Inr ''url''), bv_retrieve_subscription = (\<lambda>s. Inr demo_resource),
     bv_retrieve_identity = (\<lambda>c. Inr \<lparr>bi_name = None, bi_tax_ids = []\<rparr>),
     bv_construct_event = (\<lambda>payload sig. if sig = ''ok'' then Inr (demo_event payload) else Inl InvalidWebhookSignatureError)\<rparr>"

definition applied_ok :: "(bool \<times> core_db) result \<Rightarrow> core_db option" where
  "applied_ok x = (case x of Inr (True, db) \<Rightarrow> Some db | _ \<Rightarrow> None)"

lemma applied_ok_Some: "applied_ok x = Some db \<longleftrightarrow> x = Inr (True, db)"
  by (auto simp: applied_ok_def split: sum.splits prod.splits if_splits bool.splits)



theorem webhook_failure_atomic_witness:
  "\<exists>e mails db x. receive_webhook demo_billing ''i'' ''ok'' demo_team = (Inl e, mails, db) \<and>
     event_of db ''evt_i'' = Some x \<and> be_status x = ''failed'' \<and> cdb_accounts db = cdb_accounts demo_team"
proof -
  have "case receive_webhook demo_billing ''i'' ''ok'' demo_team of
      (Inl e, mails, db) \<Rightarrow> map_option be_status (event_of db ''evt_i'') = Some ''failed'' | _ \<Rightarrow> False" by code_simp
  then obtain e mails db where r: "receive_webhook demo_billing ''i'' ''ok'' demo_team = (Inl e, mails, db)"
    and s: "map_option be_status (event_of db ''evt_i'') = Some ''failed''" by (auto split: prod.splits sum.splits)
  have c: "bv_construct_event demo_billing ''i'' ''ok'' = Inr (demo_event ''i'')" by (simp add: demo_billing_def)
  have "bv_provider_error demo_billing = None" by (simp add: demo_billing_def)
  from webhook_failure_atomic[OF demo_team_committed r c this] r s show ?thesis by auto
qed

theorem newer_subscription_wins_witness:
  "\<exists>db1 db2. apply_event demo_billing ''customer.subscription.updated'' demo_resource (Some 0) (Some 5) ''e'' None demo_team
       = Inr (True, db1) \<and>
     apply_event demo_billing ''customer.subscription.deleted'' (demo_resource\<lparr>rs_status := Some ''canceled''\<rparr>)
       (Some 0) (Some 4) ''f'' None db1 = Inr (False, db2)"
proof -
  have "applied_ok (apply_event demo_billing ''customer.subscription.updated'' demo_resource (Some 0) (Some 5) ''e'' None demo_team) \<noteq> None"
    by code_simp
  then obtain db1 where ev: "apply_event demo_billing ''customer.subscription.updated'' demo_resource (Some 0) (Some 5) ''e'' None demo_team
      = Inr (True, db1)" by (auto simp: applied_ok_Some)
  have "is_subscription ''customer.subscription.updated''" "is_subscription ''customer.subscription.deleted''"
    by code_simp+
  from newer_subscription_wins[OF demo_team_committed ev this, where ?c1.0 = 4 and V' = demo_billing and
      r' = "demo_resource\<lparr>rs_status := Some ''canceled''\<rparr>" and eid' = "''f''" and ident' = None] ev
  show ?thesis by auto
qed

theorem quotas_exact_witness:
  "\<exists>a. account_of demo_team 4 = Some a \<and>
     (\<exists>db. repeat_result 5 (consume_signature 1000 4) demo_team = Inr db) \<and>
     \<not> (\<exists>db. repeat_result 6 (consume_signature 1000 4) demo_team = Inr db)"
proof -
  have "map_option (\<lambda>a. (ba_deleted_at a, ba_complimentary_lifetime a, paid_access_enabled 1000 a, ba_signatures_used a,
      ba_free_signatures_limit a)) (account_of demo_team 4) = Some (None, False, False, 0, 5)" by code_simp
  then obtain a where a: "account_of demo_team 4 = Some a" "ba_deleted_at a = None" "\<not> ba_complimentary_lifetime a"
    "\<not> paid_access_enabled 1000 a" "ba_signatures_used a = 0" "ba_free_signatures_limit a = 5" by auto
  from quotas_exact[OF a(1,2), of 5 1000] quotas_exact[OF a(1,2), of 6 1000] a show ?thesis by simp
qed

theorem grace_not_extended_witness:
  "paid_access_enabled (1000 + days 7 - 1)
     (event_account (demo_billing\<lparr>bv_core := demo_core\<lparr>ce_now := 2000\<rparr>\<rparr>) ''invoice.payment_failed'' demo_invoice None
       (event_account demo_billing ''invoice.payment_failed'' demo_invoice None
         ((new_account 0 0 0)\<lparr>ba_status := ''active''\<rparr>))) \<and>
   \<not> paid_access_enabled (1000 + days 7)
     (event_account (demo_billing\<lparr>bv_core := demo_core\<lparr>ce_now := 2000\<rparr>\<rparr>) ''invoice.payment_failed'' demo_invoice None
       (event_account demo_billing ''invoice.payment_failed'' demo_invoice None
         ((new_account 0 0 0)\<lparr>ba_status := ''active''\<rparr>)))"
  using grace_not_extended[of "(new_account 0 0 0)\<lparr>ba_status := ''active''\<rparr>" "1000 + days 7 - 1"
      "[(demo_billing\<lparr>bv_core := demo_core\<lparr>ce_now := 2000\<rparr>\<rparr>, demo_invoice)]" demo_billing demo_invoice]
    grace_not_extended[of "(new_account 0 0 0)\<lparr>ba_status := ''active''\<rparr>" "1000 + days 7"
      "[(demo_billing\<lparr>bv_core := demo_core\<lparr>ce_now := 2000\<rparr>\<rparr>, demo_invoice)]" demo_billing demo_invoice]
  by (simp add: demo_billing_def demo_core_def)

theorem unknown_tenant_event_lost_witness:
  "receive_webhook demo_billing ''u'' ''ok'' demo_team = (Inr True, [], demo_team)"
proof (rule unknown_tenant_event_lost)
  show "bv_provider_error demo_billing = None" by (simp add: demo_billing_def)
  show "bv_construct_event demo_billing ''u'' ''ok'' = Inr (demo_event ''u'')" by (simp add: demo_billing_def)
  show "event_of demo_team (se_id (demo_event ''u'')) = None" by code_simp
  show "resource_tenant_id (se_object (demo_event ''u'')) = Inr (Some 255)" by code_simp
  show "255 \<notin> ten_id ` set (cdb_tenants demo_team)" by code_simp
  show "event_identity demo_billing (demo_event ''u'') (Some 255) = Inr None" by code_simp
qed

theorem price_round_trip_witness: "product_code demo_billing demo_resource = ''rubrica_team''"
proof (rule price_round_trip[where i = "hd (rs_items demo_resource)" and items = "[]"])
  show "distinct (map fst (price_products demo_billing))" by code_simp
  show "price_for_currency demo_billing ''usd'' ''rubrica_team'' ''month'' = Inr ''TEAM_MONTHLY_USD''" by code_simp
qed (simp_all add: demo_resource_def)

theorem billing_account_types_witness:
  "\<exists>db b. apply_event demo_billing ''invoice.payment_failed'' demo_invoice (Some 0) (Some 5) ''e'' None demo_team
       = Inr (True, db) \<and> account_of db 0 = Some b \<and> account_typed b \<and> ba_status b = ''past_due''"
proof -
  have "(case apply_event demo_billing ''invoice.payment_failed'' demo_invoice (Some 0) (Some 5) ''e'' None demo_team of
      Inr (True, db) \<Rightarrow> map_option ba_status (account_of db 0) = Some ''past_due'' | _ \<Rightarrow> False)" by code_simp
  then obtain db where ev: "apply_event demo_billing ''invoice.payment_failed'' demo_invoice (Some 0) (Some 5) ''e'' None demo_team
      = Inr (True, db)" "map_option ba_status (account_of db 0) = Some ''past_due''"
    by (auto split: sum.splits prod.splits bool.splits)
  have "case account_of demo_team 0 of None \<Rightarrow> True | Some a \<Rightarrow> account_typed a" by code_simp
  from billing_account_types[OF demo_team_committed ev(1) this] ev show ?thesis by (auto split: option.splits)
qed


end
