(* ===== verification/Pdf_Validation.thy ===== *)
theory Pdf_Validation
  imports Rubrica_Prelude
begin

text \<open>
  \<open>document/pdf_validation.py\<close>: what an upload has to satisfy before it is stored. The
  parser (\<open>pypdf\<close>) is a parameter: it answers with an exception or with a reader, of which
  the code uses the encryption flag, the boxes of the pages, the trailer and the resolution
  of indirect objects. The walk over the object graph is the loop of the code, with its stack,
  its set of visited references and its bound of 100000 inspected values.
\<close>

section \<open>PDF objects\<close>

text \<open>\<open>IndirectObject\<close>, \<open>DictionaryObject\<close>, \<open>ArrayObject\<close> and every other value.\<close>

datatype pdf_object =
    PdfRef "int \<times> int"
  | PdfDict "(string \<times> pdf_object) list"
  | PdfArray "pdf_object list"
  | PdfValue

record pdf_reader =
  pr_encrypted :: bool
  pr_pages :: "(rat \<times> rat) result list result"
  pr_trailer :: pdf_object
  pr_get_object :: "int \<times> int \<Rightarrow> pdf_object option"

record pdf_limits =
  pl_max_size :: nat
  pl_max_pages :: nat

definition active_pdf_keys :: "string list" where
  "active_pdf_keys =
     [''/AA'', ''/EmbeddedFile'', ''/EmbeddedFiles'', ''/ImportData'', ''/JavaScript'', ''/JS'', ''/Launch'',
      ''/OpenAction'', ''/RichMedia'', ''/SubmitForm'', ''/XFA'']"

section \<open>The walk over the objects\<close>

definition too_complex :: exn where
  "too_complex = workflow_error ''PDF structure is too complex'' 400"

definition invalid_object :: exn where
  "invalid_object = workflow_error ''PDF contains an invalid object'' 400"

definition active_content :: exn where
  "active_content = workflow_error ''PDF contains active or embedded content'' 400"

text \<open>\<open>pending\<close> is the stack with its top first: \<open>extend\<close> leaves the last element on top.\<close>

function reject_loop ::
  "(int \<times> int \<Rightarrow> pdf_object option) \<Rightarrow> int \<Rightarrow> (int \<times> int) set \<Rightarrow> pdf_object list \<Rightarrow> unit result"
where
  "reject_loop get inspected visited pending =
     (case pending of
        [] \<Rightarrow> Inr ()
      | v # rest \<Rightarrow>
          if 100000 < inspected + 1 then Inl too_complex
          else (case v of
              PdfRef k \<Rightarrow>
                if k \<in> visited then reject_loop get (inspected + 1) visited rest
                else (case get k of
                        None \<Rightarrow> Inl invalid_object
                      | Some obj \<Rightarrow> reject_loop get (inspected + 1) (insert k visited) (obj # rest))
            | PdfDict items \<Rightarrow>
                if list_ex (\<lambda>(key, child). key \<in> set active_pdf_keys) items then Inl active_content
                else reject_loop get (inspected + 1) visited (rev (map snd items) @ rest)
            | PdfArray items \<Rightarrow> reject_loop get (inspected + 1) visited (rev items @ rest)
            | PdfValue \<Rightarrow> reject_loop get (inspected + 1) visited rest))"
  by pat_completeness auto
termination
  by (relation "measure (\<lambda>(get, inspected, visited, pending). nat (100001 - inspected))") auto

declare reject_loop.simps [simp del]

definition reject_active_content :: "(int \<times> int \<Rightarrow> pdf_object option) \<Rightarrow> pdf_object \<Rightarrow> unit result" where
  "reject_active_content get trailer = reject_loop get 0 {} [trailer]"

section \<open>Validating an upload\<close>

text \<open>\<open>text.split(';', 1)[0]\<close> and \<open>text.split('/')\<close>.\<close>

definition before_semicolon :: "string \<Rightarrow> string" where
  "before_semicolon s = takeWhile (\<lambda>c. c \<noteq> CHR '';'') s"

fun split_slash :: "string \<Rightarrow> string list" where
  "split_slash [] = [[]]"
| "split_slash (c # cs) =
     (if c = CHR ''/'' then [] # split_slash cs
      else (case split_slash cs of [] \<Rightarrow> [[c]] | p # ps \<Rightarrow> (c # p) # ps))"

text \<open>\<open>PurePath(text).name\<close> on POSIX: the last component, without empty ones and dots.\<close>

definition pure_path_name :: "string \<Rightarrow> string" where
  "pure_path_name s =
     (let parts = filter (\<lambda>p. p \<noteq> [] \<and> p \<noteq> ''.'') (split_slash s) in if parts = [] then [] else last parts)"

fun contains :: "string \<Rightarrow> string \<Rightarrow> bool" where
  "contains pat [] \<longleftrightarrow> pat = []"
| "contains pat (c # cs) \<longleftrightarrow> prefix pat (c # cs) \<or> contains pat cs"

definition ends_with :: "string \<Rightarrow> string \<Rightarrow> bool" where
  "ends_with suf s \<longleftrightarrow> prefix (rev suf) (rev s)"

definition filename_ok :: "string \<Rightarrow> bool" where
  "filename_ok f \<longleftrightarrow> pure_path_name f = f \<and> CHR 0x5C \<notin> set f \<and> ends_with ''.pdf'' (lower f) \<and>
     list_all (\<lambda>c. 32 \<le> (of_char c :: nat)) f"

definition last_bytes :: "nat \<Rightarrow> bytes \<Rightarrow> bytes" where
  "last_bytes n s = drop (length s - n) s"

definition looks_like_pdf :: "bytes \<Rightarrow> bool" where
  "looks_like_pdf content \<longleftrightarrow> prefix ''%PDF-'' content \<and> contains ''%%EOF'' (last_bytes 2048 content)"

text \<open>The loop over the pages: the first unreadable or empty box ends it.\<close>

fun check_pages :: "(rat \<times> rat) result list \<Rightarrow> unit result" where
  "check_pages [] = Inr ()"
| "check_pages (p # ps) =
     (case p of
        Inl e \<Rightarrow> Inl e
      | Inr (width, height) \<Rightarrow>
          if width \<le> 0 \<or> height \<le> 0 then Inl (workflow_error ''PDF contains an invalid page'' 400)
          else check_pages ps)"

definition check_structure :: "pdf_limits \<Rightarrow> pdf_reader result \<Rightarrow> unit result" where
  "check_structure lims parsed =
     (case parsed of
        Inl e \<Rightarrow> Inl e
      | Inr r \<Rightarrow>
          if pr_encrypted r then Inl (workflow_error ''Encrypted PDFs are not supported'' 400)
          else (case pr_pages r of
              Inl e \<Rightarrow> Inl e
            | Inr pages \<Rightarrow>
                if length pages < 1 \<or> pl_max_pages lims < length pages
                then Inl (workflow_error ''PDF page count is outside the allowed range'' 400)
                else (case check_pages pages of
                    Inl e \<Rightarrow> Inl e
                  | Inr _ \<Rightarrow> reject_active_content (pr_get_object r) (pr_trailer r))))"

text \<open>The exceptions of the parser the code turns into an answer; any other propagates.\<close>

fun parser_error :: "exn \<Rightarrow> bool" where
  "parser_error (PdfReadError _) = True"
| "parser_error (ValueError _) = True"
| "parser_error (TypeError _) = True"
| "parser_error RecursionError = True"
| "parser_error KeyError = True"
| "parser_error AssertionError = True"
| "parser_error _ = False"

definition validate_pdf_upload ::
  "pdf_limits \<Rightarrow> (bytes \<Rightarrow> pdf_reader result) \<Rightarrow> bytes \<Rightarrow> string \<Rightarrow> string \<Rightarrow> unit result"
where
  "validate_pdf_upload lims parse content filename content_type =
     (if content = [] then Inl (workflow_error ''Document content cannot be empty'' 400)
      else if pl_max_size lims < length content then Inl (workflow_error ''Document exceeds the allowed size'' 413)
      else if lower (strip (before_semicolon content_type)) \<noteq> ''application/pdf''
      then Inl (workflow_error ''Only PDF documents are accepted'' 415)
      else if \<not> filename_ok filename then Inl (workflow_error ''Invalid PDF filename'' 400)
      else if \<not> looks_like_pdf content then Inl (workflow_error ''File content is not a PDF'' 415)
      else (case check_structure lims (parse content) of
              Inl e \<Rightarrow> if parser_error e then Inl (workflow_error ''PDF is malformed or unsupported'' 400) else Inl e
            | Inr _ \<Rightarrow> Inr ()))"

section \<open>Reachable objects\<close>

text \<open>
  The specification: \<open>pdf_reach get avoid v w\<close> says that the walk can get from \<open>v\<close> to \<open>w\<close>
  without following a reference of \<open>avoid\<close>.
\<close>

inductive pdf_reach ::
  "(int \<times> int \<Rightarrow> pdf_object option) \<Rightarrow> (int \<times> int) set \<Rightarrow> pdf_object \<Rightarrow> pdf_object \<Rightarrow> bool"
  for get avoid
where
  here: "pdf_reach get avoid v v"
| ref: "k \<notin> avoid \<Longrightarrow> get k = Some obj \<Longrightarrow> pdf_reach get avoid obj w \<Longrightarrow> pdf_reach get avoid (PdfRef k) w"
| item: "(key, child) \<in> set items \<Longrightarrow> pdf_reach get avoid child w \<Longrightarrow> pdf_reach get avoid (PdfDict items) w"
| elem: "child \<in> set items \<Longrightarrow> pdf_reach get avoid child w \<Longrightarrow> pdf_reach get avoid (PdfArray items) w"

inductive_cases pdf_reach_refE: "pdf_reach get avoid (PdfRef k) w"
inductive_cases pdf_reach_dictE: "pdf_reach get avoid (PdfDict items) w"
inductive_cases pdf_reach_arrayE: "pdf_reach get avoid (PdfArray items) w"
inductive_cases pdf_reach_valueE: "pdf_reach get avoid PdfValue w"

fun has_active_key :: "pdf_object \<Rightarrow> bool" where
  "has_active_key (PdfDict items) = list_ex (\<lambda>(key, child). key \<in> set active_pdf_keys) items"
| "has_active_key _ = False"

text \<open>A path that follows \<open>k\<close> has a last visit of it, after which it avoids \<open>k\<close>.\<close>

lemma pdf_reach_cut:
  assumes "get k = Some obj"
  shows "pdf_reach get avoid v w \<Longrightarrow>
    pdf_reach get (insert k avoid) v w \<or> pdf_reach get (insert k avoid) obj w"
proof (induction rule: pdf_reach.induct)
  case (ref j obj' w)
  then show ?case using assms by (cases "j = k") (auto intro: pdf_reach.ref)
qed (auto intro: pdf_reach.intros)

text \<open>
  One turn of the loop on \<open>x\<close> replaces it by \<open>succ\<close>, from which everything \<open>x\<close> leads to can
  still be reached; what the others led to stays reachable from them or from \<open>succ\<close>.
\<close>

definition turn_covers ::
  "(int \<times> int \<Rightarrow> pdf_object option) \<Rightarrow> (int \<times> int) set \<Rightarrow> pdf_object \<Rightarrow> (int \<times> int) set \<Rightarrow> pdf_object list \<Rightarrow> bool"
where
  "turn_covers get visited x visited' succ \<longleftrightarrow> (\<forall>v w. pdf_reach get visited v w \<longrightarrow>
     (v = x \<and> w = x) \<or> (v \<noteq> x \<and> pdf_reach get visited' v w) \<or> (\<exists>u\<in>set succ. pdf_reach get visited' u w))"

lemma turn_covers_ref:
  assumes "get k = Some obj"
  shows "turn_covers get visited (PdfRef k) (insert k visited) [obj]"
proof -
  have "pdf_reach get visited obj w" if "pdf_reach get visited (PdfRef k) w" "w \<noteq> PdfRef k" for w
    using that assms by (auto elim: pdf_reach_refE)
  then show ?thesis
    unfolding turn_covers_def using pdf_reach_cut[where get = get, OF assms] by fastforce
qed

lemma reject_loop_turn:
  assumes "reject_loop get n visited (x # rest) = Inr ()"
  obtains visited' succ where "n + 1 \<le> 100000" "\<not> has_active_key x"
    "reject_loop get (n + 1) visited' (succ @ rest) = Inr ()" "turn_covers get visited x visited' succ"
proof (cases x)
  case (PdfRef k)
  show ?thesis
  proof (cases "k \<in> visited")
    case True
    then have "turn_covers get visited x visited []"
      unfolding turn_covers_def using PdfRef by (auto elim: pdf_reach_refE)
    then show ?thesis using that[of visited "[]"] True PdfRef assms
      by (auto simp: reject_loop.simps[of get n] split: if_splits)
  next
    case False
    then obtain obj where "get k = Some obj" using PdfRef assms
      by (auto simp: reject_loop.simps[of get n] split: if_splits option.splits)
    then show ?thesis using that[of "insert k visited" "[obj]"] False PdfRef assms turn_covers_ref
      by (auto simp: reject_loop.simps[of get n] split: if_splits)
  qed
next
  case (PdfDict items)
  then have "turn_covers get visited x visited (rev (map snd items))"
    unfolding turn_covers_def by (force elim: pdf_reach_dictE)
  then show ?thesis using that[of visited "rev (map snd items)"] PdfDict assms
    by (auto simp: reject_loop.simps[of get n] split: if_splits)
next
  case (PdfArray items)
  then have "turn_covers get visited x visited (rev items)"
    unfolding turn_covers_def by (force elim: pdf_reach_arrayE)
  then show ?thesis using that[of visited "rev items"] PdfArray assms
    by (auto simp: reject_loop.simps[of get n] split: if_splits)
next
  case PdfValue
  then have "turn_covers get visited x visited []"
    unfolding turn_covers_def by (auto elim: pdf_reach_valueE)
  then show ?thesis using that[of visited "[]"] PdfValue assms
    by (auto simp: reject_loop.simps[of get n] split: if_splits)
qed

lemma reject_loop_sound:
  "reject_loop get n visited pending = Inr () \<Longrightarrow> v \<in> set pending \<Longrightarrow> pdf_reach get visited v w \<Longrightarrow>
   \<not> has_active_key w"
proof (induction "nat (100001 - n)" arbitrary: n visited pending v w rule: less_induct)
  case less
  then obtain x rest where p: "pending = x # rest" by (cases pending) auto
  obtain visited' succ where turn: "n + 1 \<le> 100000" "\<not> has_active_key x"
    "reject_loop get (n + 1) visited' (succ @ rest) = Inr ()" "turn_covers get visited x visited' succ"
    using reject_loop_turn less(2) p by metis
  have IH: "u \<in> set (succ @ rest) \<Longrightarrow> pdf_reach get visited' u w \<Longrightarrow> \<not> has_active_key w" for u
    using less(1)[OF _ turn(3)] turn(1) by simp
  have "(v = x \<and> w = x) \<or> (v \<noteq> x \<and> pdf_reach get visited' v w) \<or> (\<exists>u\<in>set succ. pdf_reach get visited' u w)"
    using turn(4) less(4) unfolding turn_covers_def by blast
  then show ?case using turn(2) IH[of v] IH less(3) p by auto
qed

text \<open>And nothing is rejected for its keys without reason.\<close>

lemma reject_loop_active:
  "reject_loop get n visited pending = Inl active_content \<Longrightarrow>
   \<exists>v\<in>set pending. \<exists>w. pdf_reach get {} v w \<and> has_active_key w"
proof (induction get n visited pending rule: reject_loop.induct)
  case (1 get n visited pending)
  note simps = reject_loop.simps[of get n] and distinct = active_content_def too_complex_def invalid_object_def
  show ?case
  proof (cases pending)
    case (Cons x rest)
    have bound: "\<not> 100000 < n + 1" using 1(6) Cons by (auto simp: simps distinct split: if_splits)
    show ?thesis
    proof (cases x)
      case (PdfRef k)
      then show ?thesis using 1(1)[OF Cons bound PdfRef] 1(2)[OF Cons bound PdfRef] 1(6) Cons bound
        by (auto simp: simps distinct split: if_splits option.splits intro: pdf_reach.ref)
    next
      case (PdfDict items)
      then show ?thesis using 1(3)[OF Cons bound PdfDict] 1(6) Cons bound
        by (cases "has_active_key x")
          (auto simp: simps split: if_splits intro: pdf_reach.here; blast intro: pdf_reach.item)+
    next
      case (PdfArray items)
      then show ?thesis using 1(4)[OF Cons bound PdfArray] 1(6) Cons bound
        by (auto simp: simps intro: pdf_reach.elem)
    next
      case PdfValue
      then show ?thesis using 1(5)[OF Cons bound PdfValue] 1(6) Cons bound by (auto simp: simps)
    qed
  qed (use 1 in \<open>simp add: simps\<close>)
qed

section \<open>What an accepted upload satisfies\<close>

lemma split_slash_parts: "p \<in> set (split_slash s) \<Longrightarrow> CHR ''/'' \<notin> set p"
  by (induction s arbitrary: p) (auto split: if_splits list.splits)

lemma pure_path_name_no_slash: "CHR ''/'' \<notin> set (pure_path_name s)"
proof -
  let ?parts = "filter (\<lambda>p. p \<noteq> [] \<and> p \<noteq> ''.'') (split_slash s)"
  have "?parts \<noteq> [] \<Longrightarrow> last ?parts \<in> set ?parts" by (rule last_in_set)
  then show ?thesis by (auto simp: pure_path_name_def Let_def dest: split_slash_parts)
qed

lemma check_pages_Inr: "check_pages ps = Inr () \<Longrightarrow> p \<in> set ps \<Longrightarrow> \<exists>w h. p = Inr (w, h) \<and> 0 < w \<and> 0 < h"
  by (induction ps) (auto split: sum.splits prod.splits if_splits)

lemma check_structure_Inr:
  assumes "check_structure lims parsed = Inr ()"
  obtains r pages where "parsed = Inr r" "\<not> pr_encrypted r" "pr_pages r = Inr pages" "1 \<le> length pages"
    "length pages \<le> pl_max_pages lims" "check_pages pages = Inr ()"
    "reject_active_content (pr_get_object r) (pr_trailer r) = Inr ()"
  using assms by (auto simp: check_structure_def Suc_le_eq split: sum.splits if_splits)

lemma validate_pdf_upload_Inr:
  "validate_pdf_upload lims parse content f ct = Inr () \<longleftrightarrow>
     content \<noteq> [] \<and> length content \<le> pl_max_size lims \<and>
     lower (strip (before_semicolon ct)) = ''application/pdf'' \<and> filename_ok f \<and> looks_like_pdf content \<and>
     check_structure lims (parse content) = Inr ()"
  by (auto simp: validate_pdf_upload_def split: sum.splits if_splits)

text \<open>C37: an accepted upload is within the size limit, has a plain file name, and is a readable PDF with an
  allowed number of non-empty pages from whose trailer no dictionary with a key for active or embedded
  content can be reached, however the references of the file are linked.\<close>

theorem pdf_upload_safe:
  assumes "validate_pdf_upload lims parse content f ct = Inr ()"
  shows "0 < length content \<and> length content \<le> pl_max_size lims \<and> CHR ''/'' \<notin> set f \<and> CHR 0x5C \<notin> set f \<and>
    (\<exists>r pages. parse content = Inr r \<and> \<not> pr_encrypted r \<and> pr_pages r = Inr pages \<and>
       1 \<le> length pages \<and> length pages \<le> pl_max_pages lims \<and>
       (\<forall>p\<in>set pages. \<exists>w h. p = Inr (w, h) \<and> 0 < w \<and> 0 < h) \<and>
       (\<forall>w. pdf_reach (pr_get_object r) {} (pr_trailer r) w \<longrightarrow> \<not> has_active_key w))"
proof -
  note v = assms[unfolded validate_pdf_upload_Inr]
  obtain r pages where r: "parse content = Inr r" "\<not> pr_encrypted r" "pr_pages r = Inr pages"
    "1 \<le> length pages" "length pages \<le> pl_max_pages lims" "check_pages pages = Inr ()"
    "reject_active_content (pr_get_object r) (pr_trailer r) = Inr ()"
    using check_structure_Inr v by metis
  have "\<not> has_active_key w" if "pdf_reach (pr_get_object r) {} (pr_trailer r) w" for w
    using reject_loop_sound[OF r(7)[unfolded reject_active_content_def] _ that] by simp
  moreover have "CHR ''/'' \<notin> set f" "CHR 0x5C \<notin> set f"
    using v pure_path_name_no_slash[of f] by (auto simp: filename_ok_def)
  ultimately show ?thesis using v r check_pages_Inr by blast
qed

text \<open>A file of one page whose objects refer back to themselves.\<close>

definition demo_pdf :: "pdf_object \<Rightarrow> pdf_reader" where
  "demo_pdf annotation = \<lparr>pr_encrypted = False, pr_pages = Inr [Inr (595, 842)],
     pr_trailer = PdfDict [(''/Root'', PdfRef (1, 0)), (''/Size'', PdfValue)],
     pr_get_object = map_of [((1, 0), PdfDict [(''/Pages'', PdfRef (2, 0)), (''/Names'', annotation)]),
       ((2, 0), PdfDict [(''/Kids'', PdfArray [PdfRef (2, 0), PdfRef (1, 0)])])]\<rparr>"

definition demo_limits :: pdf_limits where
  "demo_limits = \<lparr>pl_max_size = 100, pl_max_pages = 10\<rparr>"

definition demo_pdf_bytes :: bytes where
  "demo_pdf_bytes = ''%PDF-1.7 %%EOF''"

theorem pdf_upload_safe_witness:
  "pl_max_size demo_limits = 100 \<and> length demo_pdf_bytes \<le> pl_max_size demo_limits \<and>
   \<not> (\<exists>w. pdf_reach (pr_get_object (demo_pdf PdfValue)) {} (pr_trailer (demo_pdf PdfValue)) w \<and> has_active_key w)"
proof -
  have "validate_pdf_upload demo_limits (\<lambda>_. Inr (demo_pdf PdfValue)) demo_pdf_bytes ''a.pdf'' ''application/pdf'' = Inr ()"
    by code_simp
  from pdf_upload_safe[OF this] show ?thesis unfolding demo_limits_def by fastforce
qed

text \<open>an upload is refused as active content only when a dictionary with such a key can be reached.\<close>

theorem active_content_has_cause:
  assumes "reject_active_content get trailer = Inl active_content"
  shows "\<exists>w. pdf_reach get {} trailer w \<and> has_active_key w"
  using reject_loop_active assms unfolding reject_active_content_def by fastforce

theorem active_content_has_cause_witness:
  "\<exists>w. pdf_reach (pr_get_object (demo_pdf (PdfDict [(''/JavaScript'', PdfValue)]))) {}
     (pr_trailer (demo_pdf (PdfDict [(''/JavaScript'', PdfValue)]))) w \<and> has_active_key w"
proof -
  have "reject_active_content (pr_get_object (demo_pdf (PdfDict [(''/JavaScript'', PdfValue)])))
     (pr_trailer (demo_pdf (PdfDict [(''/JavaScript'', PdfValue)]))) = Inl active_content"
    by code_simp
  then show ?thesis by (rule active_content_has_cause)
qed

end
