(* ===== verification/Signed_Pdf.thy ===== *)
theory Signed_Pdf
  imports Tenants "HOL-Library.Multiset"
begin

text \<open>
  \<open>signature_request/signed_pdf.py\<close>: the canonical text of an evidence record, its digest, and
  the artifact, a copy of the document in which every stamp is merged into its page and the
  evidence is written into the metadata. \<open>pypdf\<close> (reading, merging, writing) and the drawing of
  a stamp are parameters; the place of the stamp's box and the fitting of its texts are modelled,
  with floats as rationals. \<open>float.__repr__\<close> and \<open>datetime.isoformat\<close> are parameters too.
\<close>

section \<open>Canonical JSON\<close>

text \<open>\<open>json.dumps(..., ensure_ascii=False, sort_keys=True, separators=(",", ":"))\<close>.\<close>

definition json_char :: "char \<Rightarrow> string" where
  "json_char c =
     (if c = CHR 0x22 then [CHR 0x5C, CHR 0x22]
      else if c = CHR 0x5C then [CHR 0x5C, CHR 0x5C]
      else if c = CHR 0x0A then [CHR 0x5C, CHR ''n'']
      else if c = CHR 0x0D then [CHR 0x5C, CHR ''r'']
      else if c = CHR 0x09 then [CHR 0x5C, CHR ''t'']
      else if c = CHR 0x0C then [CHR 0x5C, CHR ''f'']
      else if c = CHR 0x08 then [CHR 0x5C, CHR ''b'']
      else if (of_char c :: nat) < 32 then [CHR 0x5C, CHR ''u''] @ hex_digits 4 (of_char c)
      else [c])"

lemma json_char_code [code]:
  "json_char c =
     (if 35 \<le> (of_char c :: int) \<and> c \<noteq> CHR 0x5C then [c]
      else if c = CHR 0x22 then [CHR 0x5C, CHR 0x22]
      else if c = CHR 0x5C then [CHR 0x5C, CHR 0x5C]
      else if c = CHR 0x0A then [CHR 0x5C, CHR ''n'']
      else if c = CHR 0x0D then [CHR 0x5C, CHR ''r'']
      else if c = CHR 0x09 then [CHR 0x5C, CHR ''t'']
      else if c = CHR 0x0C then [CHR 0x5C, CHR ''f'']
      else if c = CHR 0x08 then [CHR 0x5C, CHR ''b'']
      else if (of_char c :: int) < 32 then [CHR 0x5C, CHR ''u''] @ hex_digits 4 (of_char c)
      else [c])"
  unfolding json_char_def of_char_int by auto

text \<open>The order of characters, compared as integers.\<close>

lemma char_order_code [code]:
  "c \<le> d \<longleftrightarrow> (of_char c :: int) \<le> of_char d" "c < d \<longleftrightarrow> (of_char c :: int) < of_char d"
  unfolding of_char_int less_eq_char_def less_char_def by simp_all

definition json_quote :: "string \<Rightarrow> string" where
  "json_quote s = [CHR 0x22] @ concat (map json_char s) @ [CHR 0x22]"

definition json_member :: "string \<times> string \<Rightarrow> string" where
  "json_member kv = json_quote (fst kv) @ '':'' @ snd kv"

primrec dumps :: "(rat \<Rightarrow> string) \<Rightarrow> (datetime \<Rightarrow> string) \<Rightarrow> json \<Rightarrow> string" where
  "dumps fl tm JNull = ''null''"
| "dumps fl tm (JBool b) = (if b then ''true'' else ''false'')"
| "dumps fl tm (JInt n) = int_text n"
| "dumps fl tm (JFloat r) = fl r"
| "dumps fl tm (JStr s) = json_quote s"
| "dumps fl tm (JUuid u) = json_quote (uuid_str u)"
| "dumps fl tm (JTime t) = json_quote (tm t)"
| "dumps fl tm (JList vs) = ''['' @ join '','' (map (dumps fl tm) vs) @ '']''"
| "dumps fl tm (JObj kvs) =
     ''{'' @ join '','' (map json_member (sort_key fst (map (map_prod id (dumps fl tm)) kvs))) @ ''}''"

section \<open>Placing a stamp\<close>

text \<open>\<open>item["stamp"]\<close> and the fields of the stamp; a missing or wrong one raises.\<close>

definition stamp_field :: "(string, json) dict \<Rightarrow> string \<Rightarrow> json result" where
  "stamp_field item name =
     (case dict_get item ''stamp'' of
        Some (JObj fs) \<Rightarrow> (case dict_get fs name of None \<Rightarrow> Inl KeyError | Some v \<Rightarrow> Inr v)
      | Some _ \<Rightarrow> Inl (TypeError ''stamp'')
      | None \<Rightarrow> Inl KeyError)"

definition stamp_page :: "(string, json) dict \<Rightarrow> int result" where
  "stamp_page item =
     (case stamp_field item ''page'' of
        Inr (JInt n) \<Rightarrow> Inr n
      | Inr _ \<Rightarrow> Inl (TypeError ''page'')
      | Inl e \<Rightarrow> Inl e)"

definition company_representation :: "(string, json) dict \<Rightarrow> bool" where
  "company_representation item \<longleftrightarrow>
     dict_get item ''participant_role'' = Some (JStr ''company_representative'') \<and>
     (case dict_get item ''representation_snapshot'' of Some (JObj _) \<Rightarrow> True | _ \<Rightarrow> False)"

record stamp_box =
  sb_left :: rat
  sb_bottom :: rat
  sb_width :: rat
  sb_height :: rat

definition stamp_box_of :: "rat \<Rightarrow> rat \<Rightarrow> bool \<Rightarrow> rat \<Rightarrow> rat \<Rightarrow> stamp_box" where
  "stamp_box_of width height company x y =
     (let box_width = min 255 (width * (48 / 100));
          box_height = (if company then 96 else 72);
          center_x = x * width;
          center_y = (1 - y) * height
      in \<lparr>sb_left = min (max 4 (center_x - box_width / 2)) (width - box_width - 4),
          sb_bottom = min (max 4 (center_y - box_height / 2)) (height - box_height - 4),
          sb_width = box_width, sb_height = box_height\<rparr>)"

text \<open>\<open>_fit_text\<close>; \<open>width\<close> is \<open>pdfmetrics.stringWidth\<close> for the font, \<open>ellipsis\<close> the suffix.\<close>

function fit_prefix :: "(string \<Rightarrow> rat) \<Rightarrow> string \<Rightarrow> rat \<Rightarrow> string \<Rightarrow> string" where
  "fit_prefix width ellipsis max_width fitted =
     (if fitted \<noteq> [] \<and> max_width < width (fitted @ ellipsis)
      then fit_prefix width ellipsis max_width (butlast fitted) else fitted)"
  by pat_completeness auto
termination
  by (relation "measure (\<lambda>(_, _, _, fitted). length fitted)") auto

declare fit_prefix.simps [simp del]

definition fit_text :: "(string \<Rightarrow> rat) \<Rightarrow> string \<Rightarrow> rat \<Rightarrow> string \<Rightarrow> string" where
  "fit_text width ellipsis max_width text =
     (if width text \<le> max_width then text
      else rstrip_by is_space (fit_prefix width ellipsis max_width text) @ ellipsis)"

section \<open>The artifact\<close>

text \<open>
  \<open>pd_read\<close> is \<open>PdfReader\<close> (pages and metadata), \<open>pd_box\<close> a page's media box, \<open>pd_overlay\<close>
  \<open>_stamp_overlay\<close> read back as a page, \<open>pd_merge\<close> \<open>merge_page\<close> and \<open>pd_write\<close> the writer.
\<close>

record pdf_lib =
  pd_read :: "bytes \<Rightarrow> (bytes list \<times> (string, string option) dict) result"
  pd_box :: "bytes \<Rightarrow> rat \<times> rat"
  pd_overlay :: "rat \<Rightarrow> rat \<Rightarrow> (string, json) dict \<Rightarrow> bytes result"
  pd_merge :: "bytes \<Rightarrow> bytes \<Rightarrow> bytes"
  pd_write :: "bytes list \<Rightarrow> (string, string) dict \<Rightarrow> bytes"

fun merge_stamps :: "pdf_lib \<Rightarrow> (string, json) dict list \<Rightarrow> bytes \<Rightarrow> bytes result" where
  "merge_stamps L [] page = Inr page"
| "merge_stamps L (item # items) page =
     (case pd_overlay L (fst (pd_box L page)) (snd (pd_box L page)) item of
        Inl e \<Rightarrow> Inl e
      | Inr overlay \<Rightarrow> merge_stamps L items (pd_merge L page overlay))"

fun stamps_of_page :: "(string, json) dict list \<Rightarrow> int \<Rightarrow> (string, json) dict list result" where
  "stamps_of_page [] n = Inr []"
| "stamps_of_page (item # items) n =
     (case stamp_page item of
        Inl e \<Rightarrow> Inl e
      | Inr p \<Rightarrow> (case stamps_of_page items n of
                    Inl e \<Rightarrow> Inl e
                  | Inr rest \<Rightarrow> Inr (if p = n then item # rest else rest)))"

fun stamp_pages :: "pdf_lib \<Rightarrow> (string, json) dict list \<Rightarrow> int \<Rightarrow> bytes list \<Rightarrow> bytes list result" where
  "stamp_pages L stamps n [] = Inr []"
| "stamp_pages L stamps n (page # pages) =
     (case stamps_of_page stamps n of
        Inl e \<Rightarrow> Inl e
      | Inr items \<Rightarrow>
          (case merge_stamps L items page of
             Inl e \<Rightarrow> Inl e
           | Inr page' \<Rightarrow>
               (case stamp_pages L stamps (n + 1) pages of Inl e \<Rightarrow> Inl e | Inr pages' \<Rightarrow> Inr (page' # pages'))))"

definition artifact_metadata ::
  "(string, string option) dict \<Rightarrow> (string, string) dict \<Rightarrow> (string, string) dict"
where
  "artifact_metadata inherited metadata =
     fold (\<lambda>(k, v). dict_set (''/'' @ dropWhile (\<lambda>c. c = CHR ''/'') k) v) metadata
       (fold (\<lambda>(k, v) d. case v of None \<Rightarrow> d | Some t \<Rightarrow> dict_set k t d) inherited [])"

definition generate_signed_pdf ::
  "pdf_lib \<Rightarrow> bytes \<Rightarrow> (string, json) dict list \<Rightarrow> (string, string) dict \<Rightarrow> bytes result"
where
  "generate_signed_pdf L original stamps metadata =
     (case pd_read L original of
        Inl e \<Rightarrow> Inl e
      | Inr (pages, inherited) \<Rightarrow>
          (case stamp_pages L stamps 1 pages of
             Inl e \<Rightarrow> Inl e
           | Inr pages' \<Rightarrow> Inr (pd_write L pages' (artifact_metadata inherited metadata))))"

section \<open>Lemmas\<close>

text \<open>The canonical text does not depend on the order in which a record's fields were stored.\<close>

lemma sort_key_perm:
  assumes "mset xs = mset ys" "distinct (map fst xs)"
  shows "sort_key fst xs = sort_key fst ys"
proof (rule map_sorted_distinct_set_unique[where f = fst])
  have eq: "set xs = set ys" "mset (map fst xs) = mset (map fst ys)" using assms(1) by (metis mset_eq_setD, simp)
  then have ys: "distinct (map fst ys)" using assms(2) by (metis mset_eq_imp_distinct_iff)
  have perm: "mset (map fst (sort_key fst zs)) = mset (map fst zs)" for zs :: "('a \<times> 'b) list" by simp
  show "distinct (map fst (sort_key fst xs))" "distinct (map fst (sort_key fst ys))"
    using assms(2) ys perm by (metis mset_eq_imp_distinct_iff)+
  then show "inj_on fst (set (sort_key fst xs) \<union> set (sort_key fst ys))"
    using eq by (simp add: distinct_map)
qed (use assms(1) in \<open>auto dest: mset_eq_setD\<close>)

lemma dumps_order:
  assumes "mset kvs = mset kvs'" "distinct (map fst kvs)"
  shows "dumps fl tm (JObj kvs) = dumps fl tm (JObj kvs')"
proof -
  let ?f = "map_prod id (dumps fl tm)"
  have "mset (map ?f kvs) = mset (map ?f kvs')" using assms(1) by simp
  moreover have "distinct (map fst (map ?f kvs))" using assms(2) by (simp add: comp_def)
  ultimately show ?thesis using sort_key_perm[of "map ?f kvs" "map ?f kvs'"] by (simp only: dumps.simps)
qed

lemma fit_prefix_prefix: "prefix (fit_prefix width ell m s) s"
proof (induction width ell m s rule: fit_prefix.induct)
  case (1 width ell m s)
  then show ?case by (subst fit_prefix.simps) (auto intro: prefix_order.trans[OF _ prefixeq_butlast])
qed

lemma fit_prefix_fits: "fit_prefix width ell m s = [] \<or> width (fit_prefix width ell m s @ ell) \<le> m"
proof (induction width ell m s rule: fit_prefix.induct)
  case (1 width ell m s)
  then show ?case by (subst (1 2) fit_prefix.simps) auto
qed

section \<open>Where stamps end up\<close>

text \<open>the box of a stamp lies inside its page, at least four points from every edge, wherever on the page it was
  placed, when the page is large enough for a box and its margins.\<close>

theorem stamp_inside_page:
  assumes "stamp_box_of width height company x y = b" "16 \<le> width" "sb_height b + 8 \<le> height"
  shows "4 \<le> sb_left b \<and> sb_left b + sb_width b \<le> width - 4 \<and> 4 \<le> sb_bottom b \<and> sb_bottom b + sb_height b \<le> height - 4"
  using assms by (auto simp: stamp_box_of_def Let_def min_def max_def split: if_splits)

theorem stamp_inside_page_witness:
  "4 \<le> sb_left (stamp_box_of 595 842 True 1 0) \<and> sb_left (stamp_box_of 595 842 True 1 0) + 255 \<le> 591"
  using stamp_inside_page[of 595 842 True 1 0, OF refl] by (simp add: stamp_box_of_def Let_def)

definition on_page :: "nat \<Rightarrow> (string, json) dict \<Rightarrow> bool" where
  "on_page n item \<longleftrightarrow> (case stamp_page item of Inr p \<Rightarrow> p \<le> int n | Inl _ \<Rightarrow> False)"

lemma stamps_of_page_filter:
  assumes "\<forall>item\<in>set stamps. \<exists>p. stamp_page item = Inr p" "k \<le> int n"
  shows "stamps_of_page (filter (on_page n) stamps) k = stamps_of_page stamps k"
  using assms(1)
proof (induction stamps)
  case (Cons item stamps)
  then obtain p where p: "stamp_page item = Inr p" by auto
  have "\<exists>rest. stamps_of_page items k = Inr rest" if "\<forall>item\<in>set items. \<exists>p. stamp_page item = Inr p" for items
    using that by (induction items) auto
  then show ?case using Cons p assms(2) by (auto simp: on_page_def split: sum.splits)
qed simp

lemma stamp_pages_filter:
  assumes "\<forall>item\<in>set stamps. \<exists>p. stamp_page item = Inr p" "k + int (length pages) \<le> int n + 1"
  shows "stamp_pages L (filter (on_page n) stamps) k pages = stamp_pages L stamps k pages"
  using assms(2)
proof (induction pages arbitrary: k)
  case (Cons page pages)
  then show ?case using stamps_of_page_filter[OF assms(1), of k n] Cons.IH[of "k + 1"] by (auto split: sum.splits)
qed simp

text \<open>a stamp placed beyond the last page is dropped without an error: the artifact is the one made without it,
  although the evidence records the stamp. Nothing on the way compares the page with the document.\<close>

theorem stamp_beyond_pages_dropped:
  assumes "\<forall>item\<in>set stamps. \<exists>p. stamp_page item = Inr p" "pd_read L original = Inr (pages, inherited)"
  shows "generate_signed_pdf L original stamps metadata = generate_signed_pdf L original (filter (on_page (length pages)) stamps) metadata"
  using stamp_pages_filter[OF assms(1), of 1 pages "length pages" L] assms(2) by (simp add: generate_signed_pdf_def)

definition demo_pdf_lib :: pdf_lib where
  "demo_pdf_lib = \<lparr>pd_read = (\<lambda>b. Inr ([b], [])), pd_box = (\<lambda>p. (595, 842)), pd_overlay = (\<lambda>w h item. Inr ''stamp''),
     pd_merge = (\<lambda>page overlay. page @ overlay), pd_write = (\<lambda>pages info. concat pages)\<rparr>"

theorem stamp_beyond_pages_dropped_witness:
  "generate_signed_pdf demo_pdf_lib ''pdf'' [[(''stamp'', JObj [(''page'', JInt 1)])], [(''stamp'', JObj [(''page'', JInt 2)])]] []
     = Inr ''pdfstamp''"
proof -
  have "generate_signed_pdf demo_pdf_lib ''pdf'' [[(''stamp'', JObj [(''page'', JInt 1)])], [(''stamp'', JObj [(''page'', JInt 2)])]] []
     = generate_signed_pdf demo_pdf_lib ''pdf'' (filter (on_page 1)
         [[(''stamp'', JObj [(''page'', JInt 1)])], [(''stamp'', JObj [(''page'', JInt 2)])]]) []"
    by (subst stamp_beyond_pages_dropped[where pages = "[''pdf'']" and inherited = "[]"])
      (simp_all add: demo_pdf_lib_def stamp_page_def stamp_field_def)
  also have "\<dots> = Inr ''pdfstamp''" by code_simp
  finally show ?thesis .
qed


end
