(* ===== verification/Workflow_Tables.thy ===== *)
theory Workflow_Tables
  imports Billing Pdf_Validation Signed_Pdf Document_Storage
begin

text \<open>
  The state and the environment of \<open>signature_request/database_workflow_service.py\<close>: the rows of
  \<open>document_entity.py\<close> and \<open>signature_request_entity.py\<close> with their constraints, the
  transactions, and the clients the service calls (\<open>identity_client.py\<close>,
  \<open>notification_client.py\<close>).

  \<^item> The state has the tables of the workflow beside the core tables of tenants and billing, and
    the objects of the store. A database operation is a body that runs in \<open>wf_transaction\<close>;
    the operations that store an object run in \<open>store_then\<close>, which discards the object again
    when the transaction fails.
  \<^item> \<open>we_uuid4 n\<close> is the \<open>n\<close>-th draw of \<open>uuid4\<close>. Nothing is assumed of it: a draw that
    collides fails on the primary key, and the order of ids is not the order of creation.
  \<^item> The statuses, kept as text in the columns, are the enumerations of the schema.
\<close>

section \<open>Payloads of a signature\<close>

record client_evidence =
  cv_platform :: string
  cv_language :: string
  cv_timezone :: string
  cv_screen_width :: "int option"
  cv_screen_height :: "int option"

record geolocation_evidence =
  gv_status :: string
  gv_latitude :: "rat option"
  gv_longitude :: "rat option"
  gv_accuracy_meters :: "rat option"

definition json_opt :: "('a \<Rightarrow> json) \<Rightarrow> 'a option \<Rightarrow> json" where
  "json_opt f v = (case v of None \<Rightarrow> JNull | Some x \<Rightarrow> f x)"

definition client_dump :: "client_evidence option \<Rightarrow> json" where
  "client_dump client =
     (let c = (case client of
          None \<Rightarrow> \<lparr>cv_platform = ''unknown'', cv_language = ''unknown'', cv_timezone = ''unknown'',
                   cv_screen_width = None, cv_screen_height = None\<rparr>
        | Some c \<Rightarrow> c)
      in JObj [(''platform'', JStr (cv_platform c)), (''language'', JStr (cv_language c)),
               (''timezone'', JStr (cv_timezone c)), (''screen_width'', json_opt JInt (cv_screen_width c)),
               (''screen_height'', json_opt JInt (cv_screen_height c))])"

definition geolocation_dump :: "geolocation_evidence option \<Rightarrow> json" where
  "geolocation_dump geo =
     (let g = (case geo of
          None \<Rightarrow> \<lparr>gv_status = ''unavailable'', gv_latitude = None, gv_longitude = None, gv_accuracy_meters = None\<rparr>
        | Some g \<Rightarrow> g)
      in JObj [(''status'', JStr (gv_status g)), (''latitude'', json_opt JFloat (gv_latitude g)),
               (''longitude'', json_opt JFloat (gv_longitude g)),
               (''accuracy_meters'', json_opt JFloat (gv_accuracy_meters g))])"

record identity_summary =
  is_identifier_type :: "string option"
  is_issuing_country :: "string option"
  is_masked_display :: "string option"

record signer_contact =
  ct_name :: string
  ct_email :: string

record signature_evidence_read =
  er_signature_id :: uuid
  er_signer_id :: uuid
  er_request_id :: uuid
  er_document_id :: uuid
  er_document_version :: int
  er_signed_at :: datetime
  er_signer_name :: string
  er_signer_email :: string
  er_subject_hmac :: string
  er_original_sha256 :: string
  er_evidence_sha256 :: string
  er_artifact_sha256 :: string
  er_evidence :: "(string, json) dict"

section \<open>Tables\<close>

record document_row =
  dr_id :: uuid
  dr_created_at :: datetime
  dr_updated_at :: datetime
  dr_deleted_at :: "datetime option"
  dr_organization_id :: string
  dr_tenant_id :: uuid
  dr_title :: string
  dr_original_filename :: string
  dr_content_type :: string
  dr_storage_key :: string
  dr_sha256 :: string
  dr_version :: int
  dr_status :: document_status
  dr_created_by :: string

record version_row =
  vr_id :: uuid
  vr_created_at :: datetime
  vr_document_id :: uuid
  vr_version :: int
  vr_original_filename :: string
  vr_content_type :: string
  vr_storage_key :: string
  vr_sha256 :: string
  vr_size_bytes :: nat
  vr_created_by :: string

record request_row =
  rq_id :: uuid
  rq_created_at :: datetime
  rq_deleted_at :: "datetime option"
  rq_document_id :: uuid
  rq_document_version :: int
  rq_document_sha256 :: string
  rq_status :: request_status
  rq_expires_at :: datetime
  rq_created_by :: string
  rq_completed_at :: "datetime option"
  rq_signing_token_hash :: "string option"
  rq_signing_token_nonce :: "string option"
  rq_signature_mode :: signature_mode
  rq_issuer_snapshot :: "(string, json) dict option"

record signer_row =
  sg_id :: uuid
  sg_created_at :: datetime
  sg_deleted_at :: "datetime option"
  sg_request_id :: uuid
  sg_auth_user_id :: string
  sg_name :: string
  sg_email :: string
  sg_preferred_locale :: locale_code
  sg_signing_token_hash :: string
  sg_token_expires_at :: datetime
  sg_link_revoked_at :: "datetime option"
  sg_status :: signer_status
  sg_signed_at :: "datetime option"
  sg_participant_role :: participant_role
  sg_represented_tenant_id :: "uuid option"
  sg_representation_snapshot :: "(string, json) dict option"

record signature_row =
  sn_id :: uuid
  sn_request_id :: uuid
  sn_signer_id :: uuid
  sn_auth_user_id :: string
  sn_document_sha256 :: string
  sn_signed_at :: datetime
  sn_evidence :: "(string, json) dict"
  sn_evidence_sha256 :: "string option"
  sn_artifact_storage_key :: "string option"
  sn_artifact_sha256 :: "string option"
  sn_trusted_timestamp :: "(string, json) dict option"

record wf_db =
  wd_core :: core_db
  wd_documents :: "document_row list"
  wd_versions :: "version_row list"
  wd_requests :: "request_row list"
  wd_signers :: "signer_row list"
  wd_signatures :: "signature_row list"

record wf_state =
  ws_db :: wf_db
  ws_objects :: "(string, bytes) dict"

text \<open>The primary keys, the unique constraints and the foreign keys of the six tables.\<close>

definition documents_ok :: "wf_db \<Rightarrow> bool" where
  "documents_ok db \<longleftrightarrow> distinct (map dr_id (wd_documents db)) \<and> distinct (map dr_storage_key (wd_documents db)) \<and>
     list_all (\<lambda>d. dr_tenant_id d \<in> set (map ten_id (cdb_tenants (wd_core db)))) (wd_documents db)"

definition versions_ok :: "wf_db \<Rightarrow> bool" where
  "versions_ok db \<longleftrightarrow> distinct (map vr_id (wd_versions db)) \<and>
     distinct (map (\<lambda>v. (vr_document_id v, vr_version v)) (wd_versions db)) \<and>
     distinct (map vr_storage_key (wd_versions db)) \<and>
     list_all (\<lambda>v. vr_document_id v \<in> set (map dr_id (wd_documents db))) (wd_versions db)"

definition requests_ok :: "wf_db \<Rightarrow> bool" where
  "requests_ok db \<longleftrightarrow> distinct (map rq_id (wd_requests db)) \<and>
     distinct (present rq_signing_token_hash (wd_requests db)) \<and>
     distinct (present rq_signing_token_nonce (wd_requests db)) \<and>
     list_all (\<lambda>r. rq_document_id r \<in> set (map dr_id (wd_documents db))) (wd_requests db)"

definition signers_ok :: "wf_db \<Rightarrow> bool" where
  "signers_ok db \<longleftrightarrow> distinct (map sg_id (wd_signers db)) \<and>
     distinct (map (\<lambda>g. (sg_request_id g, sg_auth_user_id g)) (wd_signers db)) \<and>
     distinct (map sg_signing_token_hash (wd_signers db)) \<and>
     list_all (\<lambda>g. sg_request_id g \<in> set (map rq_id (wd_requests db))) (wd_signers db) \<and>
     list_all (\<lambda>t. t \<in> set (map ten_id (cdb_tenants (wd_core db)))) (present sg_represented_tenant_id (wd_signers db))"

definition signatures_rows_ok :: "wf_db \<Rightarrow> bool" where
  "signatures_rows_ok db \<longleftrightarrow> distinct (map sn_id (wd_signatures db)) \<and>
     distinct (map (\<lambda>s. (sn_request_id s, sn_signer_id s)) (wd_signatures db)) \<and>
     distinct (map (\<lambda>s. (sn_request_id s, sn_auth_user_id s)) (wd_signatures db)) \<and>
     distinct (present sn_artifact_storage_key (wd_signatures db)) \<and>
     list_all (\<lambda>s. sn_request_id s \<in> set (map rq_id (wd_requests db))) (wd_signatures db) \<and>
     list_all (\<lambda>s. sn_signer_id s \<in> set (map sg_id (wd_signers db))) (wd_signatures db)"

definition audit_rows_ok :: "wf_db \<Rightarrow> bool" where
  "audit_rows_ok db \<longleftrightarrow> distinct (map ar_id (cdb_audit (wd_core db))) \<and>
     list_all (\<lambda>r. r \<in> set (map rq_id (wd_requests db))) (present ar_signature_request_id (cdb_audit (wd_core db)))"

definition wf_constraints_ok :: "wf_db \<Rightarrow> bool" where
  "wf_constraints_ok db \<longleftrightarrow> constraints_ok (wd_core db) \<and> documents_ok db \<and> versions_ok db \<and> requests_ok db \<and>
     signers_ok db \<and> signatures_rows_ok db \<and> audit_rows_ok db"

definition wf_flush :: "wf_db \<Rightarrow> wf_db result" where
  "wf_flush db =
     (if wf_constraints_ok db then Inr (db\<lparr>wd_core := sync_rows (wd_core db)\<rparr>) else Inl IntegrityError)"

text \<open>The end of \<open>with SessionLocal.begin()\<close>: the changes are sent and committed, or dropped.\<close>

definition wf_commit :: "('a \<times> wf_db) result \<Rightarrow> ('a \<times> wf_db) result" where
  "wf_commit r =
     (case r of
        Inl e \<Rightarrow> Inl e
      | Inr (v, db) \<Rightarrow> (case wf_flush db of Inl e \<Rightarrow> Inl e | Inr db' \<Rightarrow> Inr (v, db')))"

definition wf_transaction :: "(wf_db \<Rightarrow> ('a \<times> wf_db) result) \<Rightarrow> wf_state \<Rightarrow> 'a result \<times> wf_state" where
  "wf_transaction body s =
     (case wf_commit (body (ws_db s)) of
        Inl e \<Rightarrow> (Inl e, s)
      | Inr (v, db) \<Rightarrow> (Inr v, s\<lparr>ws_db := db\<rparr>))"

text \<open>
  The \<open>try\<close> of the methods that store an object: \<open>put\<close> answers with a key, the rest of the
  transaction runs, and when it raises the object is discarded before the exception goes on.
\<close>

definition store_then ::
  "uuid \<Rightarrow> string \<Rightarrow> bytes \<Rightarrow> (string \<Rightarrow> nat \<Rightarrow> ('a \<times> wf_db) result) \<Rightarrow> wf_state \<Rightarrow> 'a result \<times> wf_state"
where
  "store_then u scope content body s =
     (case local_put u (Some scope) content (ws_objects s) of
        (Inl e, objects) \<Rightarrow> (Inl e, s\<lparr>ws_objects := objects\<rparr>)
      | (Inr (key, sz), objects) \<Rightarrow>
          (case wf_commit (body key sz) of
             Inr (v, db) \<Rightarrow> (Inr v, \<lparr>ws_db = db, ws_objects = objects\<rparr>)
           | Inl e \<Rightarrow>
               if key = [] then (Inl e, s\<lparr>ws_objects := objects\<rparr>)
               else (case local_discard_uncommitted key objects of
                       (Inl e', objects') \<Rightarrow> (Inl e', s\<lparr>ws_objects := objects'\<rparr>)
                     | (Inr _, objects') \<Rightarrow> (Inl e, s\<lparr>ws_objects := objects'\<rparr>))))"

section \<open>Environment\<close>

datatype invitation_mail = InvitationMail string string string string locale_code string

text \<open>
  \<open>we_sha256\<close> is \<open>sha256(...).hexdigest()\<close>, \<open>we_hmac\<close> the HMAC under \<open>EVIDENCE_SECRET\<close>,
  \<open>we_uuid5\<close> \<open>uuid5(NAMESPACE_URL, ...)\<close>, \<open>we_identity_reply\<close> the answer of the Auth service
  to an identity query (\<open>None\<close> when the call fails), \<open>we_embedded_signatures\<close> pyHanko's reading
  of a file, \<open>we_timestamp\<close> \<open>apply_serpro_timestamp\<close> and \<open>we_send\<close> whether the notification
  service accepts an e-mail. The other fields are settings.
\<close>

record wf_env =
  we_core :: core_env
  we_uuid4 :: "nat \<Rightarrow> uuid"
  we_uuid5 :: "string \<Rightarrow> uuid"
  we_sha256 :: "bytes \<Rightarrow> string"
  we_hmac :: "string \<Rightarrow> string"
  we_isoformat :: "datetime \<Rightarrow> string"
  we_float_repr :: "rat \<Rightarrow> string"
  we_limits :: pdf_limits
  we_parse_pdf :: "bytes \<Rightarrow> pdf_reader result"
  we_pdf :: pdf_lib
  we_embedded_signatures :: "bytes \<Rightarrow> bool result"
  we_timestamp_enabled :: bool
  we_timestamp :: "bytes \<Rightarrow> (bytes \<times> (string, json) dict option) result"
  we_serproid_configured :: bool
  we_identity_reply :: "string \<Rightarrow> identity_summary option"
  we_send :: "invitation_mail \<Rightarrow> bool"
  we_environment :: string
  we_signing_app_url :: string

abbreviation we_now :: "wf_env \<Rightarrow> datetime" where
  "we_now E \<equiv> ce_now (we_core E)"

abbreviation wd_next :: "wf_db \<Rightarrow> nat" where
  "wd_next db \<equiv> cdb_next (wd_core db)"

definition draws :: "nat \<Rightarrow> wf_db \<Rightarrow> wf_db" where
  "draws k db = db\<lparr>wd_core := (wd_core db)\<lparr>cdb_next := cdb_next (wd_core db) + k\<rparr>\<rparr>"

text \<open>\<open>identity_summary(email)\<close>: a failed call is an empty summary.\<close>

definition identity_of :: "wf_env \<Rightarrow> string \<Rightarrow> identity_summary" where
  "identity_of E email =
     (case we_identity_reply E (lower (strip email)) of
        None \<Rightarrow> \<lparr>is_identifier_type = None, is_issuing_country = None, is_masked_display = None\<rparr>
      | Some i \<Rightarrow> i)"

text \<open>\<open>send_signature_invitation\<close>: outside production, addresses under \<open>.local\<close> are not written to.\<close>

definition delivery_error :: exn where
  "delivery_error = RuntimeError ''Signature invitation delivery is unavailable''"

definition send_signature_invitation :: "wf_env \<Rightarrow> invitation_mail \<Rightarrow> unit result" where
  "send_signature_invitation E mail =
     (case mail of InvitationMail recipient signer_name title url locale key \<Rightarrow>
        if lower (we_environment E) \<notin> set [''production'', ''prod''] \<and> ends_with ''.local'' (lower (strip recipient))
        then Inr ()
        else if we_send E mail then Inr () else Inl delivery_error)"

fun send_invitations :: "wf_env \<Rightarrow> invitation_mail list \<Rightarrow> unit result" where
  "send_invitations E [] = Inr ()"
| "send_invitations E (m # ms) =
     (case send_signature_invitation E m of Inl e \<Rightarrow> Inl e | Inr _ \<Rightarrow> send_invitations E ms)"

end
