(* ===== verification/Database_Workflow.thy ===== *)
theory Database_Workflow
  imports Workflow_Tables
begin

text \<open>
  \<open>signature_request/database_workflow_service.py\<close>: the methods of
  \<open>DatabaseSignatureWorkflowService\<close> over the tables of \<open>Workflow_Tables\<close>. A method that only
  reads is a function of the database; the others return the state they leave. A row locked with
  \<open>FOR UPDATE\<close> makes the operations on one request sequential, so a method is one step.
\<close>

section \<open>Looking up rows\<close>

definition document_missing :: exn where
  "document_missing = workflow_error ''Document not found'' 404"

definition wf_document_by_id :: "wf_db \<Rightarrow> uuid \<Rightarrow> document_row result" where
  "wf_document_by_id db i =
     (case List.find (\<lambda>d. dr_id d = i \<and> dr_deleted_at d = None) (wd_documents db) of
        None \<Rightarrow> Inl document_missing
      | Some d \<Rightarrow> Inr d)"

definition wf_document :: "wf_db \<Rightarrow> string \<Rightarrow> document_row result" where
  "wf_document db ident =
     (case parse_uuid ident of None \<Rightarrow> Inl document_missing | Some i \<Rightarrow> wf_document_by_id db i)"

text \<open>\<open>db.get(DocumentEntity, id)\<close> finds deleted documents too.\<close>

definition document_get :: "wf_db \<Rightarrow> uuid \<Rightarrow> document_row option" where
  "document_get db i = List.find (\<lambda>d. dr_id d = i) (wd_documents db)"

definition version_get :: "wf_db \<Rightarrow> uuid \<Rightarrow> int \<Rightarrow> version_row option" where
  "version_get db d n = List.find (\<lambda>v. vr_document_id v = d \<and> vr_version v = n) (wd_versions db)"

definition wf_request :: "wf_db \<Rightarrow> string \<Rightarrow> request_row result" where
  "wf_request db ident =
     (case Option.bind (parse_uuid ident)
             (\<lambda>i. List.find (\<lambda>r. rq_id r = i \<and> rq_deleted_at r = None) (wd_requests db)) of
        None \<Rightarrow> Inl (workflow_error ''Signature request not found'' 404)
      | Some r \<Rightarrow> Inr r)"

definition wf_signer :: "wf_db \<Rightarrow> string \<Rightarrow> uuid \<Rightarrow> signer_row result" where
  "wf_signer db ident r =
     (case Option.bind (parse_uuid ident)
             (\<lambda>i. List.find (\<lambda>g. sg_id g = i \<and> sg_request_id g = r) (wd_signers db)) of
        None \<Rightarrow> Inl (workflow_error ''Signer not found'' 404)
      | Some g \<Rightarrow> Inr g)"

definition request_signers :: "wf_db \<Rightarrow> uuid \<Rightarrow> signer_row list" where
  "request_signers db r = filter (\<lambda>g. sg_request_id g = r) (wd_signers db)"

definition request_signatures :: "wf_db \<Rightarrow> uuid \<Rightarrow> signature_row list" where
  "request_signatures db r = sort_key sn_id (filter (\<lambda>s. sn_request_id s = r) (wd_signatures db))"

definition request_set :: "uuid \<Rightarrow> (request_row \<Rightarrow> request_row) \<Rightarrow> wf_db \<Rightarrow> wf_db" where
  "request_set i f db = db\<lparr>wd_requests := table_update (\<lambda>r. rq_id r = i) f (wd_requests db)\<rparr>"

definition signer_set :: "uuid \<Rightarrow> (signer_row \<Rightarrow> signer_row) \<Rightarrow> wf_db \<Rightarrow> wf_db" where
  "signer_set i f db = db\<lparr>wd_signers := table_update (\<lambda>g. sg_id g = i) f (wd_signers db)\<rparr>"

definition document_set :: "uuid \<Rightarrow> (document_row \<Rightarrow> document_row) \<Rightarrow> wf_db \<Rightarrow> wf_db" where
  "document_set i f db = db\<lparr>wd_documents := table_update (\<lambda>d. dr_id d = i) f (wd_documents db)\<rparr>"

definition wf_audit ::
  "wf_env \<Rightarrow> uuid option \<Rightarrow> string \<Rightarrow> string \<Rightarrow> string \<Rightarrow> uuid \<Rightarrow> (string, json) dict \<Rightarrow> wf_db \<Rightarrow> wf_db"
where
  "wf_audit E request actor action entity_type entity_id metadata db =
     db\<lparr>wd_core := (wd_core db)\<lparr>cdb_next := wd_next db + 2,
        cdb_audit := cdb_audit (wd_core db) @
          [\<lparr>ar_id = we_uuid4 E (wd_next db), ar_signature_request_id = request, ar_occurred_at = we_now E,
            ar_actor_type = ''user'', ar_actor_id = actor, ar_action = action, ar_entity_type = entity_type,
            ar_entity_id = entity_id, ar_correlation_id = we_uuid4 E (wd_next db + 1),
            ar_metadata = JObj metadata\<rparr>]\<rparr>\<rparr>"

section \<open>Access\<close>

text \<open>A signer of the document, or of the one request when it is given.\<close>

definition invited :: "wf_db \<Rightarrow> uuid \<Rightarrow> uuid option \<Rightarrow> string \<Rightarrow> bool" where
  "invited db d only actor \<longleftrightarrow>
     list_ex (\<lambda>r. rq_document_id r = d \<and> rq_deleted_at r = None \<and> (only = None \<or> only = Some (rq_id r)) \<and>
       list_ex (\<lambda>g. sg_request_id g = rq_id r \<and> (sg_auth_user_id g = actor \<or> sg_email g = actor)) (wd_signers db))
     (wd_requests db)"

definition require_document_access ::
  "wf_env \<Rightarrow> wf_db \<Rightarrow> document_row \<Rightarrow> string \<Rightarrow> uuid option \<Rightarrow> unit result"
where
  "require_document_access E db d actor only =
     (case require_role (we_core E) (wd_core db) (dr_tenant_id d) actor None False of
        Inl e \<Rightarrow> Inl e
      | Inr member \<Rightarrow>
          if mb_role member = ''admin'' \<or> lower (dr_created_by d) = lower actor then Inr ()
          else if invited db (dr_id d) only (lower actor) then Inr ()
          else Inl (workflow_error ''Document access is not allowed'' 403))"

definition require_request_access :: "wf_env \<Rightarrow> wf_db \<Rightarrow> request_row \<Rightarrow> string \<Rightarrow> unit result" where
  "require_request_access E db r actor =
     (case document_get db (rq_document_id r) of
        None \<Rightarrow> Inl document_missing
      | Some d \<Rightarrow> require_document_access E db d actor (Some (rq_id r)))"

text \<open>The two steps most methods start with: the request, and the actor's access to it.\<close>

definition accessible_request :: "wf_env \<Rightarrow> wf_db \<Rightarrow> string \<Rightarrow> string \<Rightarrow> request_row result" where
  "accessible_request E db ident actor =
     (case wf_request db ident of
        Inl e \<Rightarrow> Inl e
      | Inr r \<Rightarrow> (case require_request_access E db r actor of Inl e \<Rightarrow> Inl e | Inr _ \<Rightarrow> Inr r))"

definition account_storage_id :: "wf_env \<Rightarrow> tenant_member option \<Rightarrow> string \<Rightarrow> uuid" where
  "account_storage_id E member subject =
     (case Option.bind member mb_auth_user_uuid of
        Some u \<Rightarrow> u
      | None \<Rightarrow> we_uuid5 E (''rubrica-account:'' @ lower (strip subject)))"

definition document_owner_storage_id :: "wf_env \<Rightarrow> wf_db \<Rightarrow> document_row \<Rightarrow> uuid" where
  "document_owner_storage_id E db d =
     account_storage_id E
       (List.find (\<lambda>m. mb_tenant_id m = dr_tenant_id d \<and> lower (mb_auth_user_id m) = lower (dr_created_by d) \<and>
          mb_deleted_at m = None) (cdb_members (wd_core db)))
       (dr_created_by d)"

section \<open>Answers\<close>

definition wf_request_read :: "wf_db \<Rightarrow> request_row \<Rightarrow> signature_request_read" where
  "wf_request_read db r =
     (let signers = request_signers db (rq_id r); document = document_get db (rq_document_id r)
      in \<lparr>req_id = rq_id r, req_document_id = rq_document_id r, req_document_version = rq_document_version r,
          req_document_sha256 = rq_document_sha256 r, req_status = rq_status r, req_expires_at = rq_expires_at r,
          req_created_by = rq_created_by r, req_created_at = rq_created_at r, req_completed_at = rq_completed_at r,
          req_signer_count = length signers,
          req_signed_count = length (filter (\<lambda>g. sg_status g = SgnSigned) signers),
          req_document_title = (case document of None \<Rightarrow> [] | Some d \<Rightarrow> dr_title d),
          req_original_filename = (case document of None \<Rightarrow> [] | Some d \<Rightarrow> dr_original_filename d),
          req_signature_mode = rq_signature_mode r, req_issuer_snapshot = rq_issuer_snapshot r\<rparr>)"

definition wf_document_read :: "wf_db \<Rightarrow> document_row \<Rightarrow> document_read" where
  "wf_document_read db d =
     (let requests = filter (\<lambda>r. rq_document_id r = dr_id d \<and> rq_deleted_at r = None) (wd_requests db)
      in \<lparr>doc_id = dr_id d, doc_organization_id = dr_organization_id d, doc_title = dr_title d,
          doc_original_filename = dr_original_filename d, doc_content_type = dr_content_type d,
          doc_sha256 = dr_sha256 d, doc_version = dr_version d, doc_status = dr_status d,
          doc_created_by = dr_created_by d, doc_created_at = dr_created_at d, doc_updated_at = dr_updated_at d,
          doc_size_bytes = map_option vr_size_bytes (version_get db (dr_id d) (dr_version d)),
          doc_signature_request_count = length requests,
          doc_completed_signature_count =
            length (concat (map (\<lambda>r. filter (\<lambda>g. sg_status g = SgnSigned) (request_signers db (rq_id r))) requests))\<rparr>)"

definition version_read :: "version_row \<Rightarrow> document_version_read" where
  "version_read v = \<lparr>ver_document_id = vr_document_id v, ver_version = vr_version v,
     ver_original_filename = vr_original_filename v, ver_content_type = vr_content_type v,
     ver_sha256 = vr_sha256 v, ver_size_bytes = vr_size_bytes v, ver_created_by = vr_created_by v,
     ver_created_at = vr_created_at v\<rparr>"

definition signer_answer :: "signer_row \<Rightarrow> signer_read" where
  "signer_answer g = \<lparr>sgn_id = sg_id g, sgn_signature_request_id = sg_request_id g,
     sgn_auth_user_id = sg_auth_user_id g, sgn_name = sg_name g, sgn_email = sg_email g,
     sgn_preferred_locale = sg_preferred_locale g, sgn_status = sg_status g,
     sgn_token_expires_at = sg_token_expires_at g, sgn_link_revoked_at = sg_link_revoked_at g,
     sgn_signed_at = sg_signed_at g, sgn_identity_document_type = None, sgn_identity_document_country = None,
     sgn_identity_document_masked = None, sgn_participant_role = sg_participant_role g,
     sgn_represented_tenant_id = sg_represented_tenant_id g,
     sgn_representation_snapshot = sg_representation_snapshot g\<rparr>"

definition wf_signing_url :: "wf_env \<Rightarrow> string \<Rightarrow> string" where
  "wf_signing_url E token = rstrip_by (\<lambda>c. c = CHR ''/'') (we_signing_app_url E) @ ''/'' @ token"

section \<open>Documents\<close>

definition empty_content :: exn where
  "empty_content = workflow_error ''Document content cannot be empty'' 400"

text \<open>The checks of an upload: the tenant, the role of the creator and the quota, which is charged.\<close>

definition upload_allowed ::
  "wf_env \<Rightarrow> document_create \<Rightarrow> wf_db \<Rightarrow> (tenant \<times> tenant_member \<times> wf_db) result"
where
  "upload_allowed E p db =
     (case List.find (\<lambda>t. ten_slug t = dc_organization_id p \<and> ten_deleted_at t = None) (cdb_tenants (wd_core db)) of
        None \<Rightarrow> Inl tenant_not_found
      | Some t \<Rightarrow>
          (case require_role (we_core E) (wd_core db) (ten_id t) (dc_created_by p) (Some [''admin'', ''member'']) False of
             Inl e \<Rightarrow> Inl e
           | Inr member \<Rightarrow>
               (case consume_document (we_now E) (ten_id t) (wd_core db) of
                  Inl e \<Rightarrow> Inl e
                | Inr core \<Rightarrow> Inr (t, member, db\<lparr>wd_core := core\<rparr>))))"

definition new_document :: "wf_env \<Rightarrow> nat \<Rightarrow> document_create \<Rightarrow> uuid \<Rightarrow> string \<Rightarrow> string \<Rightarrow> document_row" where
  "new_document E n p t key digest =
     \<lparr>dr_id = we_uuid4 E n, dr_created_at = we_now E, dr_updated_at = we_now E, dr_deleted_at = None,
      dr_organization_id = dc_organization_id p, dr_tenant_id = t, dr_title = dc_title p,
      dr_original_filename = dc_original_filename p, dr_content_type = dc_content_type p, dr_storage_key = key,
      dr_sha256 = digest, dr_version = 1, dr_status = DocReady, dr_created_by = dc_created_by p\<rparr>"

definition new_version ::
  "wf_env \<Rightarrow> nat \<Rightarrow> document_row \<Rightarrow> string \<Rightarrow> nat \<Rightarrow> version_row"
where
  "new_version E n d creator sz =
     \<lparr>vr_id = we_uuid4 E n, vr_created_at = we_now E, vr_document_id = dr_id d, vr_version = dr_version d,
      vr_original_filename = dr_original_filename d, vr_content_type = dr_content_type d,
      vr_storage_key = dr_storage_key d, vr_sha256 = dr_sha256 d, vr_size_bytes = sz, vr_created_by = creator\<rparr>"

text \<open>What an upload writes once its object is stored.\<close>

definition record_upload ::
  "wf_env \<Rightarrow> document_create \<Rightarrow> uuid \<Rightarrow> bytes \<Rightarrow> string \<Rightarrow> nat \<Rightarrow> wf_db \<Rightarrow> (document_read \<times> wf_db) result"
where
  "record_upload E p t content key sz db =
     (let item = new_document E (wd_next db + 1) p t key (we_sha256 E content);
          version = new_version E (wd_next db + 2) item (dc_created_by p) sz;
          db1 = wf_audit E None (dc_created_by p) ''document.uploaded'' ''document'' (dr_id item)
            [(''version'', JInt 1), (''sha256'', JStr (we_sha256 E content))]
            ((draws 3 db)\<lparr>wd_documents := wd_documents db @ [item], wd_versions := wd_versions db @ [version]\<rparr>)
      in Inr (wf_document_read db1 item, db1))"

definition db_create_document ::
  "wf_env \<Rightarrow> document_create \<Rightarrow> bytes \<Rightarrow> wf_state \<Rightarrow> document_read result \<times> wf_state"
where
  "db_create_document E p content s =
     (if content = [] then (Inl empty_content, s)
      else (case upload_allowed E p (ws_db s) of
        Inl e \<Rightarrow> (Inl e, s)
      | Inr (t, member, db) \<Rightarrow>
          store_then (we_uuid4 E (wd_next db))
            (document_storage_scope (ten_id t) (account_storage_id E (Some member) (dc_created_by p))) content
            (\<lambda>key sz. record_upload E p (ten_id t) content key sz db) s))"

definition frozen_request :: "uuid \<Rightarrow> request_row \<Rightarrow> bool" where
  "frozen_request d r \<longleftrightarrow> rq_document_id r = d \<and> rq_status r \<in> {ReqOpen, ReqCompleted}"

definition next_version :: "wf_env \<Rightarrow> string \<Rightarrow> string \<Rightarrow> string \<Rightarrow> string \<Rightarrow> document_row \<Rightarrow> document_row" where
  "next_version E filename content_type key digest d =
     d\<lparr>dr_version := dr_version d + 1, dr_original_filename := filename, dr_content_type := content_type,
       dr_storage_key := key, dr_sha256 := digest, dr_updated_at := we_now E\<rparr>"

definition record_version ::
  "wf_env \<Rightarrow> string \<Rightarrow> string \<Rightarrow> string \<Rightarrow> bytes \<Rightarrow> document_row \<Rightarrow> string \<Rightarrow> nat \<Rightarrow> wf_db \<Rightarrow> (document_read \<times> wf_db) result"
where
  "record_version E filename content_type actor content d key sz db =
     (let d' = next_version E filename content_type key (we_sha256 E content) d;
          db1 = wf_audit E None actor ''document.version_created'' ''document'' (dr_id d)
            [(''version'', JInt (dr_version d')), (''sha256'', JStr (we_sha256 E content))]
            ((document_set (dr_id d) (\<lambda>_. d') (draws 2 db))\<lparr>wd_versions :=
               wd_versions db @ [new_version E (wd_next db + 1) d' actor sz]\<rparr>)
      in Inr (wf_document_read db1 d', db1))"

definition db_add_version ::
  "wf_env \<Rightarrow> string \<Rightarrow> string \<Rightarrow> string \<Rightarrow> string \<Rightarrow> bytes \<Rightarrow> wf_state \<Rightarrow> document_read result \<times> wf_state"
where
  "db_add_version E ident filename content_type actor content s =
     (if content = [] then (Inl empty_content, s)
      else let db = ws_db s in
      (case wf_document db ident of
        Inl e \<Rightarrow> (Inl e, s)
      | Inr d \<Rightarrow>
          (case require_role (we_core E) (wd_core db) (dr_tenant_id d) actor (Some [''admin'', ''member'']) False of
             Inl e \<Rightarrow> (Inl e, s)
           | Inr member \<Rightarrow>
               if list_ex (frozen_request (dr_id d)) (wd_requests db)
               then (Inl (workflow_error ''A frozen document cannot receive a new version'' 409), s)
               else
                 store_then (we_uuid4 E (wd_next db))
                   (document_storage_scope (dr_tenant_id d) (account_storage_id E (Some member) actor)) content
                   (\<lambda>key sz. record_version E filename content_type actor content d key sz db) s)))"

text \<open>The rows of the join of the documents with the actor's active memberships, by document id.\<close>

definition visible_documents :: "wf_env \<Rightarrow> wf_db \<Rightarrow> string \<Rightarrow> document_row list" where
  "visible_documents E db actor =
     sort_key dr_id (concat (map (\<lambda>d. map (\<lambda>_. d)
       (filter (\<lambda>m. mb_tenant_id m = dr_tenant_id d \<and> mb_deleted_at m = None \<and> mb_status m = ''active'' \<and>
           membership_identity (we_core E) actor None m \<and>
           (mb_role m = ''admin'' \<or> lower (dr_created_by d) = lower actor \<or> invited db (dr_id d) None (lower actor)))
         (cdb_members (wd_core db))))
       (filter (\<lambda>d. dr_deleted_at d = None) (wd_documents db))))"

definition db_list_documents :: "wf_env \<Rightarrow> string \<Rightarrow> wf_db \<Rightarrow> document_read list" where
  "db_list_documents E actor db =
     map (wf_document_read db)
       (filter (\<lambda>d. \<not> team_over_limit (we_now E) (wd_core db) (dr_tenant_id d)) (visible_documents E db actor))"

definition db_get_document :: "wf_env \<Rightarrow> string \<Rightarrow> string \<Rightarrow> wf_db \<Rightarrow> document_read result" where
  "db_get_document E ident actor db =
     (case wf_document db ident of
        Inl e \<Rightarrow> Inl e
      | Inr d \<Rightarrow> (case require_document_access E db d actor None of
                    Inl e \<Rightarrow> Inl e
                  | Inr _ \<Rightarrow> Inr (wf_document_read db d)))"

definition cancel_deleted :: "wf_env \<Rightarrow> string \<Rightarrow> request_row \<Rightarrow> wf_db \<Rightarrow> wf_db" where
  "cancel_deleted E actor r db =
     wf_audit E (Some (rq_id r)) actor ''signature_request.cancelled'' ''signature_request'' (rq_id r)
       [(''reason'', JStr ''document_deleted'')]
       (request_set (rq_id r) (rq_status_update (\<lambda>_. ReqCancelled)) db)"

definition db_delete_document ::
  "wf_env \<Rightarrow> string \<Rightarrow> string \<Rightarrow> bool \<Rightarrow> wf_state \<Rightarrow> unit result \<times> wf_state"
where
  "db_delete_document E ident actor force = wf_transaction (\<lambda>db.
     case wf_document db ident of Inl e \<Rightarrow> Inl e | Inr d \<Rightarrow>
     (case require_role (we_core E) (wd_core db) (dr_tenant_id d) actor (Some [''admin'']) False of
        Inl e \<Rightarrow> Inl e
      | Inr _ \<Rightarrow>
          let active = filter (\<lambda>r. rq_document_id r = dr_id d \<and> rq_status r \<in> {ReqDraft, ReqOpen}) (wd_requests db)
          in if active \<noteq> [] \<and> \<not> force
             then Inl (WorkflowError ''Document has signature requests in progress'' 409
                    (Some ''document_has_active_requests'')
                    [(''active_request_count'', JInt (int (length active)))])
             else Inr ((), wf_audit E None actor ''document.deleted'' ''document'' (dr_id d)
                    [(''cancelled_request_count'', JInt (int (length active)))]
                    (document_set (dr_id d) (\<lambda>x. x\<lparr>dr_deleted_at := Some (we_now E), dr_updated_at := we_now E\<rparr>)
                      (fold (cancel_deleted E actor) active db)))))"

text \<open>What every download checks after it has found the version.\<close>

definition stored_content :: "wf_env \<Rightarrow> version_row \<Rightarrow> wf_state \<Rightarrow> (document_version_read \<times> bytes) result" where
  "stored_content E v s =
     (case local_get (vr_storage_key v) (ws_objects s) of
        Inl e \<Rightarrow> Inl e
      | Inr content \<Rightarrow>
          if we_sha256 E content \<noteq> vr_sha256 v
          then Inl (workflow_error ''Stored document integrity check failed'' 409)
          else (case validate_pdf_upload (we_limits E) (we_parse_pdf E) content (vr_original_filename v) ''application/pdf'' of
                  Inl e \<Rightarrow> Inl e
                | Inr _ \<Rightarrow> Inr (version_read v, content)))"

definition version_missing :: exn where
  "version_missing = workflow_error ''Document version not found'' 404"

definition db_get_content ::
  "wf_env \<Rightarrow> string \<Rightarrow> int option \<Rightarrow> string option \<Rightarrow> wf_state \<Rightarrow> (document_version_read \<times> bytes) result"
where
  "db_get_content E ident version actor s =
     (let db = ws_db s in
      case wf_document db ident of
        Inl e \<Rightarrow> Inl e
      | Inr d \<Rightarrow>
          (case (case actor of None \<Rightarrow> Inr () | Some a \<Rightarrow> require_document_access E db d a None) of
             Inl e \<Rightarrow> Inl e
           | Inr _ \<Rightarrow>
               (case version_get db (dr_id d)
                       (case version of None \<Rightarrow> dr_version d | Some v \<Rightarrow> if v = 0 then dr_version d else v) of
                  None \<Rightarrow> Inl version_missing
                | Some v \<Rightarrow> stored_content E v s)))"

end
