(* ===== verification/Database_Requests.thy ===== *)
theory Database_Requests
  imports Database_Workflow
begin

text \<open>
  The requests of \<open>database_workflow_service.py\<close>: drafting, inviting signers, the signing link,
  opening and cancelling, and the queries over requests, signers and the audit trail.
\<close>

section \<open>Drafting\<close>

definition new_request :: "wf_env \<Rightarrow> nat \<Rightarrow> signature_request_create \<Rightarrow> document_row \<Rightarrow> tenant \<Rightarrow> request_row" where
  "new_request E n p d t =
     \<lparr>rq_id = we_uuid4 E n, rq_created_at = we_now E, rq_deleted_at = None, rq_document_id = dr_id d,
      rq_document_version = dr_version d, rq_document_sha256 = dr_sha256 d, rq_status = ReqDraft,
      rq_expires_at = rc_expires_at p, rq_created_by = rc_created_by p, rq_completed_at = None,
      rq_signing_token_hash = None, rq_signing_token_nonce = None, rq_signature_mode = ModeEvidence,
      rq_issuer_snapshot = Some (issuer_snapshot t)\<rparr>"

definition db_create_request ::
  "wf_env \<Rightarrow> signature_request_create \<Rightarrow> wf_state \<Rightarrow> signature_request_read result \<times> wf_state"
where
  "db_create_request E p s =
     (if rc_expires_at p \<le> we_now E then (Inl (workflow_error ''Expiration must be in the future'' 400), s)
      else wf_transaction (\<lambda>db.
        case wf_document_by_id db (rc_document_id p) of Inl e \<Rightarrow> Inl e | Inr d \<Rightarrow>
        (case require_role (we_core E) (wd_core db) (dr_tenant_id d) (rc_created_by p)
               (Some [''admin'', ''member'']) False of Inl e \<Rightarrow> Inl e | Inr _ \<Rightarrow>
         (case tenant_get (wd_core db) (dr_tenant_id d) of
            None \<Rightarrow> Inl tenant_not_found
          | Some t \<Rightarrow>
              if ten_deleted_at t \<noteq> None then Inl tenant_not_found
              else
                let r = new_request E (wd_next db) p d t;
                    db1 = wf_audit E (Some (rq_id r)) (rc_created_by p) ''signature_request.created''
                      ''signature_request'' (rq_id r)
                      [(''document_version'', JInt (dr_version d)), (''document_sha256'', JStr (dr_sha256 d))]
                      ((draws 1 db)\<lparr>wd_requests := wd_requests db @ [r]\<rparr>)
                in Inr (wf_request_read db1 r, db1)))) s)"

text \<open>\<open>issuer_snapshot(tenant) | {...}\<close>: the keys are new, so they follow.\<close>

definition representation_snapshot :: "wf_env \<Rightarrow> tenant \<Rightarrow> tenant_member \<Rightarrow> (string, json) dict" where
  "representation_snapshot E t m =
     issuer_snapshot t @
       [(''representative_role'', JStr (mb_role m)), (''authorization_status'', JStr ''active_membership''),
        (''authorized_at'', JStr (we_isoformat E (we_now E)))]"

definition active_representative :: "uuid \<Rightarrow> tenant_member \<Rightarrow> bool" where
  "active_representative t m \<longleftrightarrow> mb_tenant_id m = t \<and> mb_status m = ''active'' \<and>
     mb_role m \<in> set [''admin'', ''member''] \<and> mb_deleted_at m = None"

text \<open>The checks of the role of an invited signer, and the snapshot the row gets.\<close>

definition representation_of ::
  "wf_env \<Rightarrow> wf_db \<Rightarrow> request_row \<Rightarrow> signer_create \<Rightarrow> (string, json) dict option result"
where
  "representation_of E db r p =
     (if sc_participant_role p = CorporateSeal
      then Inl (workflow_error ''Corporate seal requires a configured organizational credential provider'' 409)
      else if sc_participant_role p \<noteq> CompanyRepresentative then Inr None
      else (case wf_document_by_id db (rq_document_id r) of Inl e \<Rightarrow> Inl e | Inr d \<Rightarrow>
        if sc_represented_tenant_id p \<noteq> Some (dr_tenant_id d)
        then Inl (workflow_error ''The represented company must be the document tenant'' 422)
        else (case tenant_get (wd_core db) (dr_tenant_id d) of
            None \<Rightarrow> Inl (workflow_error ''Company representation requires a business tenant'' 409)
          | Some t \<Rightarrow>
              if ten_kind t \<noteq> ''business''
              then Inl (workflow_error ''Company representation requires a business tenant'' 409)
              else if \<not> business_features_enabled (we_now E) (wd_core db) (ten_id t)
              then Inl (workflow_error ''A Professional or Team plan is required for company representation'' 403)
              else (case List.find (\<lambda>m. active_representative (ten_id t) m \<and> mb_auth_user_id m = lower (sc_email p))
                       (cdb_members (wd_core db)) of
                  None \<Rightarrow> Inl (workflow_error ''The representative must be an active authorized tenant member'' 422)
                | Some m \<Rightarrow> Inr (Some (representation_snapshot E t m))))))"

definition new_signer ::
  "wf_env \<Rightarrow> nat \<Rightarrow> uuid \<Rightarrow> signer_create \<Rightarrow> (string, json) dict option \<Rightarrow> signer_row"
where
  "new_signer E n r p snapshot =
     \<lparr>sg_id = we_uuid4 E n, sg_created_at = we_now E, sg_deleted_at = None, sg_request_id = r,
      sg_auth_user_id = lower (sc_email p), sg_name = sc_name p, sg_email = lower (sc_email p),
      sg_preferred_locale = sc_preferred_locale p,
      sg_signing_token_hash = we_sha256 E (ce_token_urlsafe (we_core E) (n + 1)),
      sg_token_expires_at = we_now E + seconds (sc_token_ttl_seconds p), sg_link_revoked_at = None,
      sg_status = SgnPending, sg_signed_at = None, sg_participant_role = sc_participant_role p,
      sg_represented_tenant_id = sc_represented_tenant_id p, sg_representation_snapshot = snapshot\<rparr>"

definition db_add_signer ::
  "wf_env \<Rightarrow> string \<Rightarrow> signer_create \<Rightarrow> string \<Rightarrow> wf_state \<Rightarrow> signer_read result \<times> wf_state"
where
  "db_add_signer E ident p actor = wf_transaction (\<lambda>db.
     case accessible_request E db ident actor of Inl e \<Rightarrow> Inl e | Inr r \<Rightarrow>
     if rq_status r \<noteq> ReqDraft then Inl (workflow_error ''Signers can only be added to a draft request'' 409)
     else (case representation_of E db r p of Inl e \<Rightarrow> Inl e | Inr snapshot \<Rightarrow>
       let g = new_signer E (wd_next db) (rq_id r) p snapshot in
       (case wf_flush ((draws 2 db)\<lparr>wd_signers := wd_signers db @ [g]\<rparr>) of
          Inl IntegrityError \<Rightarrow> Inl (workflow_error ''This authenticated user is already a signer'' 409)
        | Inl e \<Rightarrow> Inl e
        | Inr db1 \<Rightarrow> Inr (signer_answer g, wf_audit E (Some (rq_id r)) actor ''signer.link_created'' ''signer'' (sg_id g)
              [(''token_expires_at'', JStr (we_isoformat E (sg_token_expires_at g)))] db1))))"

section \<open>The signing link\<close>

text \<open>\<open>_request_token\<close>: ids that were migrated from integers keep their decimal text.\<close>

definition request_token :: "wf_env \<Rightarrow> uuid \<Rightarrow> string \<Rightarrow> string" where
  "request_token E i nonce =
     we_hmac E (''rubrica-request:'' @ (if int i \<le> 0x7FFFFFFF then decimal i else uuid_str i) @ '':'' @ nonce)"

definition invitation_of :: "request_row \<Rightarrow> document_row \<Rightarrow> string \<Rightarrow> string \<Rightarrow> signer_row \<Rightarrow> invitation_mail" where
  "invitation_of r d nonce url g =
     InvitationMail (sg_email g) (sg_name g) (dr_title d) url (sg_preferred_locale g)
       (''signature-invite:'' @ uuid_str (rq_id r) @ '':'' @ uuid_str (sg_id g) @ '':'' @ nonce)"

definition awaits_invitation :: "signer_row \<Rightarrow> bool" where
  "awaits_invitation g \<longleftrightarrow> sg_status g \<in> {SgnPending, SgnViewed} \<and> sg_link_revoked_at g = None"

definition link_body ::
  "wf_env \<Rightarrow> string \<Rightarrow> string \<Rightarrow> wf_db \<Rightarrow> ((string \<times> invitation_mail list) \<times> wf_db) result"
where
  "link_body E ident actor db =
     (case accessible_request E db ident actor of Inl e \<Rightarrow> Inl e | Inr r \<Rightarrow>
      if rq_status r \<notin> {ReqOpen, ReqCompleted}
      then Inl (workflow_error ''Only an open or completed request can receive a signing link'' 409)
      else
        let nonce = ce_token_urlsafe (we_core E) (wd_next db);
            token = request_token E (rq_id r) nonce;
            url = wf_signing_url E token;
            db1 = wf_audit E (Some (rq_id r)) actor ''signature_request.link_created'' ''signature_request'' (rq_id r) []
              (request_set (rq_id r) (\<lambda>x. x\<lparr>rq_signing_token_nonce := Some nonce,
                 rq_signing_token_hash := Some (we_sha256 E token)\<rparr>) (draws 1 db))
        in (case wf_document_by_id db (rq_document_id r) of Inl e \<Rightarrow> Inl e | Inr d \<Rightarrow>
          Inr ((url, if email_invitations_enabled (we_now E) (wd_core db) (dr_tenant_id d)
                     then map (invitation_of r d nonce url) (filter awaits_invitation (request_signers db (rq_id r)))
                     else []), db1)))"

text \<open>The e-mails go out after the commit: a failed delivery raises, and the new link stays.\<close>

definition db_create_signing_link ::
  "wf_env \<Rightarrow> string \<Rightarrow> string \<Rightarrow> wf_state \<Rightarrow> string result \<times> wf_state"
where
  "db_create_signing_link E ident actor s =
     (case wf_transaction (link_body E ident actor) s of
        (Inl e, s') \<Rightarrow> (Inl e, s')
      | (Inr (url, mails), s') \<Rightarrow>
          (case send_invitations E mails of Inl e \<Rightarrow> (Inl e, s') | Inr _ \<Rightarrow> (Inr url, s')))"

definition db_get_signing_link :: "wf_env \<Rightarrow> string \<Rightarrow> string \<Rightarrow> wf_db \<Rightarrow> string result" where
  "db_get_signing_link E ident actor db =
     (case accessible_request E db ident actor of Inl e \<Rightarrow> Inl e | Inr r \<Rightarrow>
      (case nonempty (rq_signing_token_nonce r) of
         None \<Rightarrow> Inl (workflow_error ''Signing link must be generated again'' 404)
       | Some nonce \<Rightarrow>
           let token = request_token E (rq_id r) nonce in
           if Some (we_sha256 E token) \<noteq> rq_signing_token_hash r
           then Inl (workflow_error ''Signing link integrity check failed'' 409)
           else Inr (wf_signing_url E token)))"

definition db_revoke_signer_link ::
  "wf_env \<Rightarrow> string \<Rightarrow> string \<Rightarrow> string \<Rightarrow> wf_state \<Rightarrow> signer_read result \<times> wf_state"
where
  "db_revoke_signer_link E ident signer_ident actor = wf_transaction (\<lambda>db.
     case accessible_request E db ident actor of Inl e \<Rightarrow> Inl e | Inr r \<Rightarrow>
     (case wf_signer db signer_ident (rq_id r) of Inl e \<Rightarrow> Inl e | Inr g \<Rightarrow>
      if sg_status g = SgnSigned then Inl (workflow_error ''A completed signature link cannot be revoked'' 409)
      else if sg_link_revoked_at g \<noteq> None then Inr (signer_answer g, db)
      else
        let g' = g\<lparr>sg_link_revoked_at := Some (we_now E)\<rparr>
        in Inr (signer_answer g', wf_audit E (Some (rq_id r)) actor ''signer.link_revoked'' ''signer'' (sg_id g) []
             (signer_set (sg_id g) (\<lambda>_. g') db))))"

section \<open>Opening and cancelling\<close>

text \<open>What each signature mode asks for before a request with these signers is opened.\<close>

definition mode_available :: "wf_env \<Rightarrow> signer_row list \<Rightarrow> signature_mode \<Rightarrow> unit result" where
  "mode_available E signers mode =
     (if mode = ModeSerproTimestamp \<and> \<not> we_timestamp_enabled E
      then Inl (workflow_error ''SERPRO timestamp is not configured'' 409)
      else if mode \<noteq> ModeSerproid then Inr ()
      else if \<not> we_serproid_configured E then Inl (workflow_error ''Serpro ID is not configured'' 409)
      else (case signers of
          [g] \<Rightarrow>
            if is_identifier_type (identity_of E (sg_email g)) \<in> {Some ''BR_CPF'', Some ''BR_CNPJ''} then Inr ()
            else Inl (workflow_error ''The Serpro ID signer must have a Brazilian CPF or CNPJ'' 409)
        | _ \<Rightarrow> Inl (workflow_error ''Serpro ID requests currently require exactly one signer'' 409)))"

definition db_open_request ::
  "wf_env \<Rightarrow> string \<Rightarrow> string \<Rightarrow> signature_mode \<Rightarrow> wf_state \<Rightarrow> signature_request_read result \<times> wf_state"
where
  "db_open_request E ident actor mode = wf_transaction (\<lambda>db.
     case accessible_request E db ident actor of Inl e \<Rightarrow> Inl e | Inr r \<Rightarrow>
     if rq_status r \<noteq> ReqDraft then Inl (workflow_error ''Only a draft request can be opened'' 409)
     else if request_signers db (rq_id r) = [] then Inl (workflow_error ''At least one signer is required'' 409)
     else (case mode_available E (request_signers db (rq_id r)) mode of Inl e \<Rightarrow> Inl e | Inr _ \<Rightarrow>
      (case wf_document_by_id db (rq_document_id r) of Inl e \<Rightarrow> Inl e | Inr d \<Rightarrow>
       if dr_version d \<noteq> rq_document_version r \<or> dr_sha256 d \<noteq> rq_document_sha256 r
       then Inl (workflow_error ''Document changed after request creation'' 409)
       else
         let r' = r\<lparr>rq_status := ReqOpen, rq_signature_mode := mode\<rparr>;
             db1 = wf_audit E (Some (rq_id r)) actor ''signature_request.opened'' ''signature_request'' (rq_id r)
               [(''signature_mode'', JStr (signature_mode_str mode))] (request_set (rq_id r) (\<lambda>_. r') db)
         in Inr (wf_request_read db1 r', db1))))"

definition db_cancel_request ::
  "wf_env \<Rightarrow> string \<Rightarrow> string \<Rightarrow> wf_state \<Rightarrow> signature_request_read result \<times> wf_state"
where
  "db_cancel_request E ident actor = wf_transaction (\<lambda>db.
     case accessible_request E db ident actor of Inl e \<Rightarrow> Inl e | Inr r \<Rightarrow>
     if rq_status r \<notin> {ReqDraft, ReqOpen} then Inl (workflow_error ''Request cannot be cancelled'' 409)
     else
       let r' = r\<lparr>rq_status := ReqCancelled\<rparr>;
           db1 = wf_audit E (Some (rq_id r)) actor ''signature_request.cancelled'' ''signature_request'' (rq_id r) []
             (request_set (rq_id r) (\<lambda>_. r') db)
       in Inr (wf_request_read db1 r', db1))"

section \<open>Queries\<close>

definition visible_requests :: "wf_env \<Rightarrow> wf_db \<Rightarrow> string \<Rightarrow> (request_row \<times> document_row) list" where
  "visible_requests E db actor =
     sort_key (rq_id \<circ> fst) (concat (map (\<lambda>r. concat (map (\<lambda>d. map (\<lambda>_. (r, d))
       (filter (\<lambda>m. mb_tenant_id m = dr_tenant_id d \<and> mb_deleted_at m = None \<and> mb_status m = ''active'' \<and>
           membership_identity (we_core E) actor None m \<and>
           (mb_role m = ''admin'' \<or> lower (rq_created_by r) = lower actor \<or>
            list_ex (\<lambda>g. sg_auth_user_id g = lower actor \<or> sg_email g = lower actor) (request_signers db (rq_id r))))
         (cdb_members (wd_core db))))
       (filter (\<lambda>d. dr_id d = rq_document_id r \<and> dr_deleted_at d = None) (wd_documents db))))
       (filter (\<lambda>r. rq_deleted_at r = None) (wd_requests db))))"

definition db_list_requests :: "wf_env \<Rightarrow> string \<Rightarrow> wf_db \<Rightarrow> signature_request_read list" where
  "db_list_requests E actor db =
     map (wf_request_read db \<circ> fst)
       (filter (\<lambda>(r, d). \<not> team_over_limit (we_now E) (wd_core db) (dr_tenant_id d)) (visible_requests E db actor))"

definition db_get_request :: "wf_env \<Rightarrow> string \<Rightarrow> string \<Rightarrow> wf_db \<Rightarrow> signature_request_read result" where
  "db_get_request E ident actor db = map_sum id (wf_request_read db) (accessible_request E db ident actor)"

definition db_list_signers :: "wf_env \<Rightarrow> string \<Rightarrow> string \<Rightarrow> wf_db \<Rightarrow> signer_read list result" where
  "db_list_signers E ident actor db =
     map_sum id (\<lambda>r. map signer_answer (sort_key sg_id (request_signers db (rq_id r))))
       (accessible_request E db ident actor)"

text \<open>The loop over the signers: the first of each e-mail, fifty at most.\<close>

fun collect_contacts :: "string \<Rightarrow> string list \<Rightarrow> signer_contact list \<Rightarrow> signer_row list \<Rightarrow> signer_contact list" where
  "collect_contacts search seen contacts [] = contacts"
| "collect_contacts search seen contacts (g # gs) =
     (let email = lower (strip (sg_email g)) in
      if email \<in> set seen \<or> (search \<noteq> [] \<and> \<not> contains search (lower (sg_name g)) \<and> \<not> contains search email)
      then collect_contacts search seen contacts gs
      else
        let contacts' = contacts @ [\<lparr>ct_name = sg_name g, ct_email = email\<rparr>] in
        if length contacts' = 50 then contacts'
        else collect_contacts search (email # seen) contacts' gs)"

definition tenant_signers :: "wf_db \<Rightarrow> uuid \<Rightarrow> signer_row list" where
  "tenant_signers db t =
     sort_key (\<lambda>g. - sg_created_at g)
       (filter (\<lambda>g. sg_deleted_at g = None \<and>
          list_ex (\<lambda>r. rq_id r = sg_request_id g \<and>
            list_ex (\<lambda>d. dr_id d = rq_document_id r \<and> dr_tenant_id d = t) (wd_documents db)) (wd_requests db))
        (wd_signers db))"

definition db_list_signer_contacts ::
  "wf_env \<Rightarrow> uuid \<Rightarrow> string \<Rightarrow> string \<Rightarrow> wf_db \<Rightarrow> signer_contact list result"
where
  "db_list_signer_contacts E t actor query db =
     (case require_role (we_core E) (wd_core db) t actor (Some [''admin'', ''member'']) False of
        Inl e \<Rightarrow> Inl e
      | Inr _ \<Rightarrow> Inr (collect_contacts (lower (strip query)) [] [] (tenant_signers db t)))"

fun json_fields :: "json \<Rightarrow> (string, json) dict" where
  "json_fields (JObj kvs) = kvs"
| "json_fields _ = []"

definition audit_event :: "audit_row \<Rightarrow> audit_event_read" where
  "audit_event a = \<lparr>ae_id = ar_id a, ae_occurred_at = ar_occurred_at a, ae_actor_type = ar_actor_type a,
     ae_actor_id = ar_actor_id a, ae_action = ar_action a, ae_entity_type = ar_entity_type a,
     ae_entity_id = ar_entity_id a, ae_correlation_id = ar_correlation_id a,
     ae_metadata_sanitized = json_fields (ar_metadata a)\<rparr>"

definition db_audit_events :: "wf_env \<Rightarrow> string \<Rightarrow> string \<Rightarrow> wf_db \<Rightarrow> audit_event_read list result" where
  "db_audit_events E ident actor db =
     map_sum id (\<lambda>r. map audit_event (sort_key ar_id
         (filter (\<lambda>a. ar_signature_request_id a = Some (rq_id r)) (cdb_audit (wd_core db)))))
       (accessible_request E db ident actor)"

end
