(* ===== verification/Database_Signing.thy ===== *)
theory Database_Signing
  imports Database_Requests
begin

text \<open>
  Signing in \<open>database_workflow_service.py\<close>: resolving a link to the signer of the authenticated
  user, viewing, signing and declining, and the downloads and evidence of what was signed.
\<close>

section \<open>Resolving a link\<close>

definition request_from_token :: "wf_env \<Rightarrow> wf_db \<Rightarrow> string \<Rightarrow> request_row result" where
  "request_from_token E db token =
     (case List.find (\<lambda>r. rq_signing_token_hash r = Some (we_sha256 E token) \<and> rq_deleted_at r = None)
             (wd_requests db) of
        None \<Rightarrow> Inl (workflow_error ''Signing link is invalid'' 404)
      | Some r \<Rightarrow> Inr r)"

definition signer_of_user :: "wf_db \<Rightarrow> uuid \<Rightarrow> string \<Rightarrow> signer_row option" where
  "signer_of_user db r user =
     List.find (\<lambda>g. sg_request_id g = r \<and> sg_auth_user_id g = lower user) (wd_signers db)"

text \<open>
  \<open>_resolve_request\<close>. A user who is not a signer is written to the audit trail of the session
  before the exception; the second component is the session's state.
\<close>

definition wf_resolve ::
  "wf_env \<Rightarrow> string \<Rightarrow> string \<Rightarrow> bool \<Rightarrow> wf_db \<Rightarrow> (signer_row \<times> request_row) result \<times> wf_db"
where
  "wf_resolve E token user allow_completed db =
     (case request_from_token E db token of
        Inl e \<Rightarrow> (Inl e, db)
      | Inr r \<Rightarrow>
          (case signer_of_user db (rq_id r) user of
             None \<Rightarrow>
               (Inl (workflow_error ''Authenticated user does not match a signer for this request'' 403),
                wf_audit E (Some (rq_id r)) user ''authorization.failed'' ''signature_request'' (rq_id r) [] db)
           | Some g \<Rightarrow>
               let signed_history = (allow_completed \<and> sg_status g = SgnSigned) in
               if sg_link_revoked_at g \<noteq> None
               then (Inl (workflow_error ''Signing access has been revoked'' 410), db)
               else if rq_expires_at r \<le> we_now E \<and> \<not> signed_history
               then (Inl (workflow_error ''Signature request has expired'' 410), db)
               else if rq_status r \<noteq> ReqOpen \<and> \<not> signed_history
               then (Inl (workflow_error ''Signature request is not open'' 409), db)
               else (Inr (g, r), db)))"

text \<open>A resolved request as a transaction uses it: an exception ends the transaction.\<close>

definition resolved_signer ::
  "wf_env \<Rightarrow> string \<Rightarrow> string \<Rightarrow> bool \<Rightarrow> wf_db \<Rightarrow> ((signer_row \<times> request_row) \<times> wf_db) result"
where
  "resolved_signer E token user allow_completed db =
     (case wf_resolve E token user allow_completed db of
        (Inl e, _) \<Rightarrow> Inl e
      | (Inr gr, db') \<Rightarrow> Inr (gr, db'))"

section \<open>Reading with a link\<close>

definition stamp_of_json :: "json \<Rightarrow> stamp_position option" where
  "stamp_of_json v =
     (let d = json_fields v in
      case (dict_get d ''page'', dict_get d ''x'', dict_get d ''y'', dict_get d ''template'', dict_get d ''country_code'',
            dict_get d ''show_flag'', dict_get d ''template_version'', dict_get d ''locale'', dict_get d ''timezone'') of
        (Some (JInt page), Some (JFloat x), Some (JFloat y), Some (JStr template), Some country, Some (JBool flag),
         Some (JStr version), Some (JStr locale), Some (JStr timezone)) \<Rightarrow>
          (case (List.find (\<lambda>t. stamp_template_str t = template) [TemplateBR, TemplateJP, TemplateINTL],
                 List.find (\<lambda>l. locale_str l = locale) [PtBR, En, Es, JaJP],
                 (case country of JNull \<Rightarrow> Some None | JStr c \<Rightarrow> Some (Some c) | _ \<Rightarrow> None)) of
             (Some t, Some l, Some c) \<Rightarrow>
               (let p = \<lparr>st_page = page, st_x = x, st_y = y, st_template = t, st_country_code = c, st_show_flag = flag,
                         st_template_version = version, st_locale = l, st_timezone = timezone\<rparr>
                in if stamp_position_valid p then Some p else None)
           | _ \<Rightarrow> None)
      | _ \<Rightarrow> None)"

definition nulls_last_desc :: "datetime option \<Rightarrow> int \<times> datetime" where
  "nulls_last_desc t = (case t of None \<Rightarrow> (1, 0) | Some n \<Rightarrow> (0, - n))"

text \<open>The signer a link shows, and whether it is shown to an administrator who is no signer.\<close>

definition context_signer ::
  "wf_env \<Rightarrow> string \<Rightarrow> string \<Rightarrow> bool \<Rightarrow> wf_db \<Rightarrow> (signer_row \<times> request_row \<times> bool) result"
where
  "context_signer E token user administrator db =
     (case request_from_token E db token of Inl e \<Rightarrow> Inl e | Inr r \<Rightarrow>
      if administrator \<and> signer_of_user db (rq_id r) user = None
      then (case require_request_access E db r user of Inl e \<Rightarrow> Inl e | Inr _ \<Rightarrow>
        (case sort_key (\<lambda>g. (nulls_last_desc (sg_signed_at g), sg_id g)) (request_signers db (rq_id r)) of
           [] \<Rightarrow> Inl (workflow_error ''Signature request has no signers'' 409)
         | g # _ \<Rightarrow> Inr (g, r, True)))
      else map_sum id (\<lambda>((g, r'), _). (g, r', False)) (resolved_signer E token user True db))"

definition db_signing_context ::
  "wf_env \<Rightarrow> string \<Rightarrow> string \<Rightarrow> bool \<Rightarrow> wf_db \<Rightarrow> signing_read result"
where
  "db_signing_context E token user administrator db =
     (case context_signer E token user administrator db of Inl e \<Rightarrow> Inl e | Inr (g, r, administrative) \<Rightarrow>
      (case wf_document_by_id db (rq_document_id r) of Inl e \<Rightarrow> Inl e | Inr d \<Rightarrow>
       let stored = (if administrative then None
                     else Option.bind (List.find (\<lambda>s. sn_request_id s = rq_id r \<and> sn_signer_id s = sg_id g) (wd_signatures db))
                            (\<lambda>s. case dict_get (sn_evidence s) ''stamp'' of Some JNull \<Rightarrow> None | v \<Rightarrow> v))
       in if stored \<noteq> None \<and> stamp_of_json (the stored) = None then Inl (ValueError ''stamp'')
          else Inr \<lparr>sr_request = wf_request_read db r, sr_signer = signer_answer g, sr_document_title = dr_title d,
                    sr_original_filename = dr_original_filename d,
                    sr_account_country = Option.bind (tenant_get (wd_core db) (dr_tenant_id d)) ten_country_code,
                    sr_stamp = Option.bind stored stamp_of_json,
                    sr_viewer_mode = (if administrative then ''administrator'' else ''signer''),
                    sr_issuer_snapshot = rq_issuer_snapshot r\<rparr>))"

text \<open>The request of a link for reading: signers, or administrators with access to it.\<close>

definition readable_request :: "wf_env \<Rightarrow> string \<Rightarrow> string \<Rightarrow> bool \<Rightarrow> wf_db \<Rightarrow> request_row result" where
  "readable_request E token user administrator db =
     (if administrator
      then (case request_from_token E db token of Inl e \<Rightarrow> Inl e | Inr r \<Rightarrow>
        if signer_of_user db (rq_id r) user \<noteq> None then Inr r
        else (case require_request_access E db r user of Inl e \<Rightarrow> Inl e | Inr _ \<Rightarrow> Inr r))
      else map_sum id (\<lambda>((g, r), _). r) (resolved_signer E token user True db))"

definition db_signing_document ::
  "wf_env \<Rightarrow> string \<Rightarrow> string \<Rightarrow> bool \<Rightarrow> wf_state \<Rightarrow> (document_version_read \<times> bytes) result"
where
  "db_signing_document E token user administrator s =
     (case readable_request E token user administrator (ws_db s) of Inl e \<Rightarrow> Inl e | Inr r \<Rightarrow>
      (case version_get (ws_db s) (rq_document_id r) (rq_document_version r) of
         None \<Rightarrow> Inl version_missing
       | Some v \<Rightarrow> stored_content E v s))"

definition db_view :: "wf_env \<Rightarrow> string \<Rightarrow> string \<Rightarrow> wf_state \<Rightarrow> signer_read result \<times> wf_state" where
  "db_view E token user = wf_transaction (\<lambda>db.
     case resolved_signer E token user False db of Inl e \<Rightarrow> Inl e | Inr ((g, r), db1) \<Rightarrow>
     if sg_status g \<noteq> SgnPending then Inr (signer_answer g, db1)
     else
       let g' = g\<lparr>sg_status := SgnViewed\<rparr>
       in Inr (signer_answer g', wf_audit E (Some (rq_id r)) user ''document.viewed'' ''signer'' (sg_id g) []
            (signer_set (sg_id g) (\<lambda>_. g') db1)))"

definition db_decline :: "wf_env \<Rightarrow> string \<Rightarrow> string \<Rightarrow> wf_state \<Rightarrow> signer_read result \<times> wf_state" where
  "db_decline E token user = wf_transaction (\<lambda>db.
     case resolved_signer E token user False db of Inl e \<Rightarrow> Inl e | Inr ((g, r), db1) \<Rightarrow>
     if sg_status g \<in> {SgnSigned, SgnDeclined} then Inl (workflow_error ''Signer already answered'' 409)
     else
       let g' = g\<lparr>sg_status := SgnDeclined\<rparr>
       in Inr (signer_answer g', wf_audit E (Some (rq_id r)) user ''signature.declined'' ''signer'' (sg_id g) []
            (signer_set (sg_id g) (\<lambda>_. g') db1)))"

section \<open>Evidence\<close>

definition device_type :: "string \<Rightarrow> string" where
  "device_type agent =
     (let a = lower agent in
      if list_ex (\<lambda>v. contains v a) [''mobile'', ''android'', ''iphone''] then ''mobile''
      else if contains ''ipad'' a then ''tablet'' else ''desktop'')"

definition evidence_sha256 :: "wf_env \<Rightarrow> (string, json) dict \<Rightarrow> string" where
  "evidence_sha256 E ev = we_sha256 E (dumps (we_float_repr E) (we_isoformat E) (JObj ev))"

record signing_input =
  si_stamp :: stamp_position
  si_consent_version :: string
  si_client :: "client_evidence option"
  si_geolocation :: "geolocation_evidence option"
  si_ip_address :: string
  si_user_agent :: string

text \<open>The stamp of the evidence: the form shown depends on the country of the identity.\<close>

definition evidence_stamp :: "stamp_position \<Rightarrow> string option \<Rightarrow> (string, json) dict" where
  "evidence_stamp p country =
     dict_set ''template'' (JStr (if country \<in> {Some ''BR'', Some ''JP''} then the country else ''INTL''))
      (dict_set ''show_flag'' (JBool (nonempty country \<noteq> None))
       (dict_set ''country_code'' (json_opt_str country) (stamp_dump p)))"

definition identity_binding :: "wf_env \<Rightarrow> string \<Rightarrow> request_row \<Rightarrow> signer_row \<Rightarrow> string" where
  "identity_binding E user r g =
     we_hmac E (join ''|'' [lower user, uuid_str (rq_id r), uuid_str (sg_id g), uuid_str (rq_document_id r),
       int_text (rq_document_version r)])"

definition signature_evidence_of ::
  "wf_env \<Rightarrow> request_row \<Rightarrow> signer_row \<Rightarrow> string \<Rightarrow> signing_input \<Rightarrow> identity_summary \<Rightarrow> string option \<Rightarrow> (string, json) dict"
where
  "signature_evidence_of E r g user i identity tenant_country =
     (let agent = (if take 1000 (si_user_agent i) = [] then ''unknown'' else take 1000 (si_user_agent i));
          country = (case nonempty (is_issuing_country identity) of None \<Rightarrow> tenant_country | Some c \<Rightarrow> Some c)
      in [(''schema'', JStr ''rubrica-signature-evidence-v1''),
          (''consent'', JBool True),
          (''consent_version'', JStr (si_consent_version i)),
          (''request_id'', JStr (uuid_str (rq_id r))),
          (''signer_id'', JStr (uuid_str (sg_id g))),
          (''document_id'', JStr (uuid_str (rq_document_id r))),
          (''document_version'', JInt (rq_document_version r)),
          (''original_sha256'', JStr (rq_document_sha256 r)),
          (''subject_hmac_sha256'', JStr (we_hmac E (lower user))),
          (''identity_binding_hmac_sha256'', JStr (identity_binding E user r g)),
          (''signer_name'', JStr (sg_name g)),
          (''identity_document_type'', json_opt_str (is_identifier_type identity)),
          (''identity_document_country'', json_opt_str (is_issuing_country identity)),
          (''identity_document_masked'', json_opt_str (is_masked_display identity)),
          (''signer_email'', JStr (sg_email g)),
          (''participant_role'', JStr (participant_role_str (sg_participant_role g))),
          (''represented_tenant_id'', json_opt (JStr \<circ> uuid_str) (sg_represented_tenant_id g)),
          (''representation_snapshot'', json_opt JObj (sg_representation_snapshot g)),
          (''issuer_snapshot'', json_opt JObj (rq_issuer_snapshot r)),
          (''signed_at'', JStr (we_isoformat E (we_now E))),
          (''stamp'', JObj (evidence_stamp (si_stamp i) country)),
          (''network'', JObj [(''ip_address'', JStr (take 64 (si_ip_address i))), (''user_agent'', JStr agent),
             (''device_type'', JStr (device_type agent))]),
          (''client'', client_dump (si_client i)),
          (''geolocation'', geolocation_dump (si_geolocation i))])"

text \<open>The evidence of a signature given before, with its digest, computed when it was not stored.\<close>

definition recorded_sha256 :: "wf_env \<Rightarrow> signature_row \<Rightarrow> string" where
  "recorded_sha256 E s =
     (case nonempty (sn_evidence_sha256 s) of None \<Rightarrow> evidence_sha256 E (sn_evidence s) | Some h \<Rightarrow> h)"

definition stamp_record :: "wf_env \<Rightarrow> signature_row \<Rightarrow> (string, json) dict" where
  "stamp_record E s = dict_set ''evidence_sha256'' (JStr (recorded_sha256 E s)) (sn_evidence s)"

definition text_item :: "string \<Rightarrow> (string, json) dict \<Rightarrow> string result" where
  "text_item k d =
     (case dict_get d k of
        None \<Rightarrow> Inl KeyError
      | Some (JStr s) \<Rightarrow> Inr s
      | Some _ \<Rightarrow> Inl (TypeError k))"

definition manifest_line :: "(string, json) dict \<Rightarrow> string result" where
  "manifest_line d =
     (case text_item ''signer_name'' d of Inl e \<Rightarrow> Inl e | Inr name \<Rightarrow>
      (case text_item ''signed_at'' d of Inl e \<Rightarrow> Inl e | Inr moment \<Rightarrow>
       (case text_item ''subject_hmac_sha256'' d of Inl e \<Rightarrow> Inl e | Inr h \<Rightarrow>
          Inr (name @ ''|'' @ moment @ ''|'' @ take 16 h))))"

definition artifact_texts ::
  "wf_env \<Rightarrow> uuid \<Rightarrow> request_row \<Rightarrow> (string, json) dict list \<Rightarrow> string \<Rightarrow> (string, string) dict result"
where
  "artifact_texts E artifact r records binding =
     (case map_result (text_item ''evidence_sha256'') records of Inl e \<Rightarrow> Inl e | Inr hashes \<Rightarrow>
      (case map_result manifest_line records of Inl e \<Rightarrow> Inl e | Inr manifest \<Rightarrow>
       Inr [(''RubricaArtifactId'', uuid_str artifact),
            (''RubricaRequestId'', uuid_str (rq_id r)),
            (''RubricaDocumentId'', uuid_str (rq_document_id r)),
            (''RubricaDocumentVersion'', int_text (rq_document_version r)),
            (''RubricaOriginalSHA256'', rq_document_sha256 r),
            (''RubricaEvidenceManifestSHA256'', we_sha256 E (join ''|'' hashes)),
            (''RubricaSignerManifest'', join '';'' manifest),
            (''RubricaIdentityBindingHMACSHA256'', binding),
            (''RubricaLastSignedAt'', we_isoformat E (we_now E)),
            (''RubricaEvidenceJSON'', dumps (we_float_repr E) (we_isoformat E) (JList (map JObj records)))]))"

section \<open>Signing\<close>

text \<open>
  The checks before anything is charged: the state of the signer, the mode of the request against
  the certificate, the frozen version, the document and a company's representation.
\<close>

definition pending_signers :: "wf_db \<Rightarrow> uuid \<Rightarrow> nat" where
  "pending_signers db r = length (filter (\<lambda>g. sg_status g \<noteq> SgnSigned) (request_signers db r))"

definition certificate_guard :: "wf_db \<Rightarrow> signer_row \<Rightarrow> request_row \<Rightarrow> bool \<Rightarrow> unit result" where
  "certificate_guard db g r certificate =
     (if rq_signature_mode r = ModeSerproid \<and> \<not> certificate
      then Inl (workflow_error ''This request requires a Serpro ID certificate signature'' 409)
      else if rq_signature_mode r \<noteq> ModeSerproid \<and> certificate
      then Inl (workflow_error ''This request does not accept a Serpro ID certificate signature'' 409)
      else if \<not> certificate then Inr ()
      else if sg_status g \<notin> {SgnPending, SgnViewed}
      then Inl (workflow_error ''Signer cannot authorize a certificate signature in the current state'' 409)
      else if pending_signers db (rq_id r) \<noteq> 1
      then Inl (workflow_error ''Certificate signing must be the final signature on this PDF'' 409)
      else Inr ())"

definition hash_mismatch :: exn where
  "hash_mismatch = workflow_error ''Document hash does not match the frozen request'' 409"

definition representation_active :: "wf_env \<Rightarrow> wf_db \<Rightarrow> signer_row \<Rightarrow> string \<Rightarrow> bool" where
  "representation_active E db g user \<longleftrightarrow>
     (case sg_represented_tenant_id g of
        None \<Rightarrow> False
      | Some t \<Rightarrow> list_ex (\<lambda>m. active_representative t m \<and> membership_identity (we_core E) user None m)
                   (cdb_members (wd_core db)))"

definition signing_guard ::
  "wf_env \<Rightarrow> signer_row \<Rightarrow> request_row \<Rightarrow> string \<Rightarrow> bool \<Rightarrow> wf_db \<Rightarrow> (version_row \<times> document_row) result"
where
  "signing_guard E g r user certificate db =
     (if sg_status g = SgnSigned then Inl (workflow_error ''Signer has already signed'' 409)
      else (case certificate_guard db g r certificate of Inl e \<Rightarrow> Inl e | Inr _ \<Rightarrow>
        (case version_get db (rq_document_id r) (rq_document_version r) of
           None \<Rightarrow> Inl hash_mismatch
         | Some v \<Rightarrow>
             if vr_sha256 v \<noteq> rq_document_sha256 r then Inl hash_mismatch
             else (case document_get db (rq_document_id r) of
                 None \<Rightarrow> Inl document_missing
               | Some d \<Rightarrow>
                   if dr_deleted_at d \<noteq> None then Inl document_missing
                   else if sg_participant_role g = CompanyRepresentative \<and> \<not> representation_active E db g user
                   then Inl (workflow_error ''Company representation authorization is no longer active'' 403)
                   else Inr (v, d)))))"

text \<open>The original, read from the store and checked.\<close>

definition signing_original ::
  "wf_env \<Rightarrow> request_row \<Rightarrow> version_row \<Rightarrow> bool \<Rightarrow> (string, bytes) dict \<Rightarrow> bytes result"
where
  "signing_original E r v certificate objects =
     (case local_get (vr_storage_key v) objects of Inl e \<Rightarrow> Inl e | Inr original \<Rightarrow>
      if we_sha256 E original \<noteq> rq_document_sha256 r then Inl hash_mismatch
      else (case validate_pdf_upload (we_limits E) (we_parse_pdf E) original (vr_original_filename v) ''application/pdf'' of
          Inl e \<Rightarrow> Inl e
        | Inr _ \<Rightarrow>
            if \<not> certificate then Inr original
            else (case we_embedded_signatures E original of
                Inl e \<Rightarrow> Inl e
              | Inr True \<Rightarrow> Inl (workflow_error
                  ''Uploaded PDF already has certificate signatures; this workflow cannot rewrite it safely'' 409)
              | Inr False \<Rightarrow> Inr original)))"

record signed_artifact =
  sa_content :: bytes
  sa_evidence :: "(string, json) dict"
  sa_timestamp :: "(string, json) dict option"

definition build_artifact ::
  "wf_env \<Rightarrow> signer_row \<Rightarrow> request_row \<Rightarrow> string \<Rightarrow> signing_input \<Rightarrow> identity_summary \<Rightarrow> string option \<Rightarrow>
     (bytes \<Rightarrow> bytes result) option \<Rightarrow> (string, string) dict option \<Rightarrow> bytes \<Rightarrow> wf_db \<Rightarrow> signed_artifact result"
where
  "build_artifact E g r user i identity country certificate info original db =
     (let base = dict_set ''signature_mode'' (JStr (signature_mode_str (rq_signature_mode r)))
                   (signature_evidence_of E r g user i identity country);
          evidence = (case info of
              None \<Rightarrow> base
            | Some kvs \<Rightarrow> dict_set ''certificate_signature'' (JObj (map (map_prod id JStr) kvs)) base);
          records = map (stamp_record E) (request_signatures db (rq_id r)) @
            [dict_set ''evidence_sha256'' (JStr (evidence_sha256 E evidence)) evidence]
      in (case artifact_texts E (we_uuid4 E (wd_next db)) r records (identity_binding E user r g) of
            Inl e \<Rightarrow> Inl e
          | Inr texts \<Rightarrow>
              (case generate_signed_pdf (we_pdf E) original records texts of
                 Inl e \<Rightarrow> Inl e
               | Inr stamped \<Rightarrow>
                   (case (case certificate of None \<Rightarrow> Inr stamped | Some sign_pdf \<Rightarrow> sign_pdf stamped) of
                      Inl e \<Rightarrow> Inl e
                    | Inr artifact \<Rightarrow>
                        (case (if rq_signature_mode r = ModeSerproTimestamp then we_timestamp E artifact
                               else Inr (artifact, None)) of
                           Inl e \<Rightarrow> Inl e
                         | Inr (final, trusted) \<Rightarrow>
                             Inr \<lparr>sa_content = final, sa_evidence = evidence, sa_timestamp = trusted\<rparr>)))))"

definition new_signature ::
  "wf_env \<Rightarrow> nat \<Rightarrow> signer_row \<Rightarrow> request_row \<Rightarrow> string \<Rightarrow> signed_artifact \<Rightarrow> string \<Rightarrow> signature_row"
where
  "new_signature E n g r user a key =
     \<lparr>sn_id = we_uuid4 E n, sn_request_id = rq_id r, sn_signer_id = sg_id g, sn_auth_user_id = user,
      sn_document_sha256 = rq_document_sha256 r, sn_signed_at = we_now E, sn_evidence = sa_evidence a,
      sn_evidence_sha256 = Some (evidence_sha256 E (sa_evidence a)), sn_artifact_storage_key = Some key,
      sn_artifact_sha256 = Some (we_sha256 E (sa_content a)), sn_trusted_timestamp = sa_timestamp a\<rparr>"

text \<open>What is written once the artifact is stored; \<open>n\<close> is the next draw.\<close>

definition record_signature ::
  "wf_env \<Rightarrow> nat \<Rightarrow> signer_row \<Rightarrow> request_row \<Rightarrow> string \<Rightarrow> signed_artifact \<Rightarrow> string \<Rightarrow> wf_db \<Rightarrow>
     (signer_read \<times> wf_db) result"
where
  "record_signature E n g r user a key db =
     (let g' = g\<lparr>sg_status := SgnSigned, sg_signed_at := Some (we_now E)\<rparr>;
          s = new_signature E n g r user a key;
          db1 = wf_audit E (Some (rq_id r)) user ''signature.completed'' ''signer'' (sg_id g)
            [(''document_sha256'', JStr (rq_document_sha256 r)), (''document_version'', JInt (rq_document_version r)),
             (''evidence_sha256'', JStr (evidence_sha256 E (sa_evidence a))),
             (''artifact_sha256'', JStr (we_sha256 E (sa_content a)))]
            ((signer_set (sg_id g) (\<lambda>_. g') db)\<lparr>wd_signatures := wd_signatures db @ [s]\<rparr>)
      in (case wf_flush db1 of
            Inl e \<Rightarrow> Inl e
          | Inr db2 \<Rightarrow>
              Inr (signer_answer g',
                if pending_signers db2 (rq_id r) = 0
                then wf_audit E (Some (rq_id r)) user ''signature_request.completed'' ''signature_request'' (rq_id r)
                       [(''artifact_sha256'', JStr (we_sha256 E (sa_content a)))]
                       (request_set (rq_id r) (\<lambda>x. x\<lparr>rq_status := ReqCompleted, rq_completed_at := Some (we_now E)\<rparr>) db2)
                else db2)))"

text \<open>Everything up to the artifact: the signer, the request, the document, the charged database.\<close>

definition prepare_signature ::
  "wf_env \<Rightarrow> string \<Rightarrow> string \<Rightarrow> signing_input \<Rightarrow> identity_summary \<Rightarrow> (bytes \<Rightarrow> bytes result) option \<Rightarrow>
     (string, string) dict option \<Rightarrow> wf_state \<Rightarrow> (signer_row \<times> request_row \<times> document_row \<times> signed_artifact \<times> wf_db) result"
where
  "prepare_signature E token user i identity certificate info s =
     (case resolved_signer E token user False (ws_db s) of Inl e \<Rightarrow> Inl e | Inr ((g, r), db) \<Rightarrow>
      (case signing_guard E g r user (certificate \<noteq> None) db of Inl e \<Rightarrow> Inl e | Inr (v, d) \<Rightarrow>
       (case consume_signature (we_now E) (dr_tenant_id d) (wd_core db) of Inl e \<Rightarrow> Inl e | Inr core \<Rightarrow>
        (case signing_original E r v (certificate \<noteq> None) (ws_objects s) of Inl e \<Rightarrow> Inl e | Inr original \<Rightarrow>
         (case build_artifact E g r user i identity
                 (Option.bind (tenant_get (wd_core db) (dr_tenant_id d)) ten_country_code) certificate info original
                 (db\<lparr>wd_core := core\<rparr>) of
            Inl e \<Rightarrow> Inl e
          | Inr a \<Rightarrow> Inr (g, r, d, a, db\<lparr>wd_core := core\<rparr>))))))"

definition db_sign ::
  "wf_env \<Rightarrow> string \<Rightarrow> string \<Rightarrow> bool \<Rightarrow> signing_input \<Rightarrow> (bytes \<Rightarrow> bytes result) option \<Rightarrow>
     (string, string) dict option \<Rightarrow> wf_state \<Rightarrow> signer_read result \<times> wf_state"
where
  "db_sign E token user consent i certificate info s =
     (if \<not> consent then (Inl (workflow_error ''Explicit consent is required'' 400), s)
      else (case prepare_signature E token user i (identity_of E user) certificate info s of
        Inl e \<Rightarrow> (Inl e, s)
      | Inr (g, r, d, a, db) \<Rightarrow>
          store_then (we_uuid4 E (wd_next db + 1))
            (document_storage_scope (dr_tenant_id d) (document_owner_storage_id E db d)) (sa_content a)
            (\<lambda>key sz. record_signature E (wd_next db + 2) g r user a key (draws 3 db)) s))"

section \<open>What was signed\<close>

definition artifact_filename :: "string \<Rightarrow> string" where
  "artifact_filename ident = ''rubrica-request-'' @ ident @ ''-signed.pdf''"

text \<open>The row with the largest id among the signatures that have an artifact.\<close>

definition latest_artifact :: "wf_db \<Rightarrow> uuid \<Rightarrow> (string \<times> string) option" where
  "latest_artifact db r =
     (case rev (filter (\<lambda>s. sn_artifact_storage_key s \<noteq> None) (request_signatures db r)) of
        [] \<Rightarrow> None
      | s # _ \<Rightarrow>
          (case (nonempty (sn_artifact_storage_key s), nonempty (sn_artifact_sha256 s)) of
             (Some key, Some digest) \<Rightarrow> Some (key, digest)
           | _ \<Rightarrow> None))"

definition artifact_of ::
  "wf_env \<Rightarrow> string \<Rightarrow> request_row \<Rightarrow> wf_state \<Rightarrow> (string \<times> string \<times> bytes) result"
where
  "artifact_of E ident r s =
     (case latest_artifact (ws_db s) (rq_id r) of
        None \<Rightarrow> Inl (workflow_error ''Signed document is not available'' 404)
      | Some (key, digest) \<Rightarrow>
          (case local_get key (ws_objects s) of
             Inl e \<Rightarrow> Inl e
           | Inr content \<Rightarrow>
               if we_sha256 E content \<noteq> digest
               then Inl (workflow_error ''Signed document integrity check failed'' 409)
               else Inr (artifact_filename ident, digest, content)))"

definition db_signed_document ::
  "wf_env \<Rightarrow> string \<Rightarrow> string option \<Rightarrow> wf_state \<Rightarrow> (string \<times> string \<times> bytes) result"
where
  "db_signed_document E ident actor s =
     (case (case actor of
              None \<Rightarrow> wf_request (ws_db s) ident
            | Some a \<Rightarrow> accessible_request E (ws_db s) ident a) of
        Inl e \<Rightarrow> Inl e
      | Inr r \<Rightarrow> artifact_of E ident r s)"

text \<open>\<open>signed_document(str(request.id))\<close> finds the request of the link again.\<close>

definition db_signing_signed_document ::
  "wf_env \<Rightarrow> string \<Rightarrow> string \<Rightarrow> bool \<Rightarrow> wf_state \<Rightarrow> (string \<times> string \<times> bytes) result"
where
  "db_signing_signed_document E token user administrator s =
     (case readable_request E token user administrator (ws_db s) of
        Inl e \<Rightarrow> Inl e
      | Inr r \<Rightarrow> artifact_of E (uuid_str (rq_id r)) r s)"

definition evidence_read :: "wf_env \<Rightarrow> request_row \<Rightarrow> signature_row \<Rightarrow> signer_row \<Rightarrow> signature_evidence_read" where
  "evidence_read E r s g = \<lparr>er_signature_id = sn_id s, er_signer_id = sg_id g, er_request_id = rq_id r,
     er_document_id = rq_document_id r, er_document_version = rq_document_version r,
     er_signed_at = sn_signed_at s, er_signer_name = sg_name g, er_signer_email = sg_email g,
     er_subject_hmac = (case dict_get (sn_evidence s) ''subject_hmac_sha256'' of Some (JStr h) \<Rightarrow> h | _ \<Rightarrow> []),
     er_original_sha256 = sn_document_sha256 s, er_evidence_sha256 = recorded_sha256 E s,
     er_artifact_sha256 = (case sn_artifact_sha256 s of None \<Rightarrow> [] | Some h \<Rightarrow> h),
     er_evidence = (case sn_trusted_timestamp s of
        None \<Rightarrow> sn_evidence s
      | Some t \<Rightarrow> if t = [] then sn_evidence s else dict_set ''trusted_timestamp'' (JObj t) (sn_evidence s))\<rparr>"

definition db_signature_evidence ::
  "wf_env \<Rightarrow> string \<Rightarrow> string \<Rightarrow> wf_db \<Rightarrow> signature_evidence_read list result"
where
  "db_signature_evidence E ident actor db =
     map_sum id (\<lambda>r. concat (map (\<lambda>s. map (evidence_read E r s) (filter (\<lambda>g. sg_id g = sn_signer_id s) (wd_signers db)))
         (request_signatures db (rq_id r))))
       (accessible_request E db ident actor)"

end
