(* ===== verification/Database_Effects.thy ===== *)
theory Database_Effects
  imports Database_Signing Signing_Lifecycle Billing_Facts
begin

text \<open>
  What the methods of \<open>DatabaseSignatureWorkflowService\<close> may do to the tables and to the store,
  as a step relation \<open>db_effect\<close> of eleven kinds of change, and the relation \<open>db_step\<close> of the
  methods themselves, interleaved with changes of the tenant and billing services. Every step is
  an effect (\<open>db_step_effect\<close>), so the invariants are proved on the effects.
\<close>

section \<open>What is written once\<close>

text \<open>The columns of requests, signers and documents that no method writes again.\<close>

definition frozen_part :: "request_row \<Rightarrow> uuid \<times> datetime \<times> uuid \<times> int \<times> string \<times> datetime \<times> string \<times> (string, json) dict option" where
  "frozen_part r = (rq_id r, rq_created_at r, rq_document_id r, rq_document_version r, rq_document_sha256 r,
     rq_expires_at r, rq_created_by r, rq_issuer_snapshot r)"

definition signer_part ::
  "signer_row \<Rightarrow> uuid \<times> uuid \<times> string \<times> string \<times> string \<times> participant_role \<times> uuid option \<times> (string, json) dict option"
where
  "signer_part g = (sg_id g, sg_request_id g, sg_auth_user_id g, sg_name g, sg_email g, sg_participant_role g,
     sg_represented_tenant_id g, sg_representation_snapshot g)"

definition document_part :: "document_row \<Rightarrow> uuid \<times> uuid \<times> string \<times> string \<times> string" where
  "document_part d = (dr_id d, dr_tenant_id d, dr_organization_id d, dr_title d, dr_created_by d)"

lemma frozen_partD:
  "frozen_part r = frozen_part r' \<Longrightarrow> rq_id r = rq_id r' \<and> rq_document_id r = rq_document_id r' \<and>
     rq_document_version r = rq_document_version r' \<and> rq_document_sha256 r = rq_document_sha256 r'"
  by (simp add: frozen_part_def)

lemma signer_partD:
  "signer_part g = signer_part g' \<Longrightarrow> sg_id g = sg_id g' \<and> sg_request_id g = sg_request_id g'"
  by (simp add: signer_part_def)

lemma document_partD: "document_part d = document_part d' \<Longrightarrow> dr_id d = dr_id d' \<and> dr_tenant_id d = dr_tenant_id d'"
  by (simp add: document_part_def)

section \<open>Effects\<close>

text \<open>Readings of the store: unchanged, or only with new ones.\<close>

definition same_reads :: "(string, bytes) dict \<Rightarrow> (string, bytes) dict \<Rightarrow> bool" where
  "same_reads objs objs' \<longleftrightarrow> (\<forall>k. local_get k objs' = local_get k objs)"

definition more_reads :: "(string, bytes) dict \<Rightarrow> (string, bytes) dict \<Rightarrow> bool" where
  "more_reads objs objs' \<longleftrightarrow> (\<forall>k c. local_get k objs = Inr c \<longrightarrow> local_get k objs' = Inr c)"

text \<open>A version that records the document as it is now, with its content in the store.\<close>

definition records_version ::
  "(bytes \<Rightarrow> string) \<Rightarrow> (string, bytes) dict \<Rightarrow> document_row \<Rightarrow> version_row \<Rightarrow> bool"
where
  "records_version H objs d v \<longleftrightarrow> vr_document_id v = dr_id d \<and> vr_version v = dr_version d \<and> vr_sha256 v = dr_sha256 d \<and>
     (\<exists>c. local_get (vr_storage_key v) objs = Inr c \<and> H c = vr_sha256 v)"

definition artifact_stored :: "(bytes \<Rightarrow> string) \<Rightarrow> (string, bytes) dict \<Rightarrow> signature_row \<Rightarrow> bool" where
  "artifact_stored H objs s \<longleftrightarrow> (\<exists>k c. sn_artifact_storage_key s = Some k \<and> local_get k objs = Inr c \<and>
     sn_artifact_sha256 s = Some (H c))"

definition tables ::
  "wf_state \<Rightarrow> document_row list \<times> version_row list \<times> request_row list \<times> signer_row list \<times> signature_row list"
where
  "tables s = (wd_documents (ws_db s), wd_versions (ws_db s), wd_requests (ws_db s), wd_signers (ws_db s),
     wd_signatures (ws_db s))"

definition audit_trail :: "wf_state \<Rightarrow> audit_row list" where
  "audit_trail s = cdb_audit (wd_core (ws_db s))"

text \<open>A signature of \<open>g\<close> on its open request \<open>r\<close>, recorded as \<open>x\<close>.\<close>

definition signature_given ::
  "(bytes \<Rightarrow> string) \<Rightarrow> wf_state \<Rightarrow> (string, bytes) dict \<Rightarrow> signer_row \<Rightarrow> signer_row \<Rightarrow> request_row \<Rightarrow> signature_row \<Rightarrow> bool"
where
  "signature_given H s objs' g g' r x \<longleftrightarrow> g \<in> set (wd_signers (ws_db s)) \<and> r \<in> set (wd_requests (ws_db s)) \<and>
     rq_id r = sg_request_id g \<and> rq_status r = ReqOpen \<and> sg_status g \<noteq> SgnSigned \<and>
     signer_part g' = signer_part g \<and> sg_status g' = SgnSigned \<and> sn_request_id x = rq_id r \<and>
     sn_signer_id x = sg_id g \<and> sn_document_sha256 x = rq_document_sha256 r \<and> artifact_stored H objs' x"

inductive db_effect :: "(bytes \<Rightarrow> string) \<Rightarrow> wf_state \<Rightarrow> wf_state \<Rightarrow> bool" for H where
  keep: "tables s = (ds, vs, rs, gs, ss) \<Longrightarrow> tables s' = (ds, vs, rs, gs, ss) \<Longrightarrow>
    prefix (audit_trail s) (audit_trail s') \<Longrightarrow> same_reads (ws_objects s) (ws_objects s') \<Longrightarrow> db_effect H s s'"
| upload: "tables s = (ds, vs, rs, gs, ss) \<Longrightarrow> tables s' = (ds @ [d], vs @ [v], rs, gs, ss) \<Longrightarrow>
    prefix (audit_trail s) (audit_trail s') \<Longrightarrow> more_reads (ws_objects s) (ws_objects s') \<Longrightarrow>
    records_version H (ws_objects s') d v \<Longrightarrow> db_effect H s s'"
| revise: "tables s = (ds, vs, rs, gs, ss) \<Longrightarrow>
    tables s' = (table_update (\<lambda>x. dr_id x = dr_id d) (\<lambda>_. d') ds, vs @ [v], rs, gs, ss) \<Longrightarrow>
    prefix (audit_trail s) (audit_trail s') \<Longrightarrow> more_reads (ws_objects s) (ws_objects s') \<Longrightarrow>
    d \<in> set ds \<Longrightarrow> document_part d' = document_part d \<Longrightarrow> records_version H (ws_objects s') d' v \<Longrightarrow> db_effect H s s'"
| trash: "tables s = (ds, vs, rs, gs, ss) \<Longrightarrow>
    tables s' = (table_update (\<lambda>x. dr_id x = i) (\<lambda>x. x\<lparr>dr_deleted_at := Some t, dr_updated_at := t\<rparr>) ds, vs,
      table_update (\<lambda>r. rq_id r \<in> R) (rq_status_update (\<lambda>_. ReqCancelled)) rs, gs, ss) \<Longrightarrow>
    prefix (audit_trail s) (audit_trail s') \<Longrightarrow> same_reads (ws_objects s) (ws_objects s') \<Longrightarrow>
    (\<And>r. r \<in> set rs \<Longrightarrow> rq_id r \<in> R \<Longrightarrow> rq_status r \<in> {ReqDraft, ReqOpen}) \<Longrightarrow> db_effect H s s'"
| draft: "tables s = (ds, vs, rs, gs, ss) \<Longrightarrow> tables s' = (ds, vs, rs @ [r], gs, ss) \<Longrightarrow>
    prefix (audit_trail s) (audit_trail s') \<Longrightarrow> same_reads (ws_objects s) (ws_objects s') \<Longrightarrow> d \<in> set ds \<Longrightarrow>
    rq_document_id r = dr_id d \<Longrightarrow> rq_document_version r = dr_version d \<Longrightarrow> rq_document_sha256 r = dr_sha256 d \<Longrightarrow>
    rq_status r = ReqDraft \<Longrightarrow> db_effect H s s'"
| invite: "tables s = (ds, vs, rs, gs, ss) \<Longrightarrow> tables s' = (ds, vs, rs, gs @ [g], ss) \<Longrightarrow>
    prefix (audit_trail s) (audit_trail s') \<Longrightarrow> same_reads (ws_objects s) (ws_objects s') \<Longrightarrow>
    r \<in> set rs \<Longrightarrow> rq_status r = ReqDraft \<Longrightarrow> sg_request_id g = rq_id r \<Longrightarrow> sg_status g = SgnPending \<Longrightarrow> db_effect H s s'"
| link: "tables s = (ds, vs, rs, gs, ss) \<Longrightarrow>
    tables s' = (ds, vs, table_update (\<lambda>x. rq_id x = i) (\<lambda>x. x\<lparr>rq_signing_token_nonce := n, rq_signing_token_hash := h\<rparr>) rs, gs, ss) \<Longrightarrow>
    prefix (audit_trail s) (audit_trail s') \<Longrightarrow> same_reads (ws_objects s) (ws_objects s') \<Longrightarrow> db_effect H s s'"
| advance: "tables s = (ds, vs, rs, gs, ss) \<Longrightarrow>
    tables s' = (ds, vs, table_update (\<lambda>x. rq_id x = rq_id r) (\<lambda>_. r') rs, gs, ss) \<Longrightarrow>
    prefix (audit_trail s) (audit_trail s') \<Longrightarrow> same_reads (ws_objects s) (ws_objects s') \<Longrightarrow>
    r \<in> set rs \<Longrightarrow> frozen_part r' = frozen_part r \<Longrightarrow>
    (rq_status r = ReqDraft \<and> rq_status r' = ReqOpen \<and> (\<exists>g\<in>set gs. sg_request_id g = rq_id r)) \<or>
    (rq_status r \<in> {ReqDraft, ReqOpen} \<and> rq_status r' = ReqCancelled) \<Longrightarrow> db_effect H s s'"
| answer: "tables s = (ds, vs, rs, gs, ss) \<Longrightarrow>
    tables s' = (ds, vs, rs, table_update (\<lambda>x. sg_id x = sg_id g) (\<lambda>_. g') gs, ss) \<Longrightarrow>
    prefix (audit_trail s) (audit_trail s') \<Longrightarrow> same_reads (ws_objects s) (ws_objects s') \<Longrightarrow>
    g \<in> set gs \<Longrightarrow> signer_part g' = signer_part g \<Longrightarrow>
    sg_status g' = sg_status g \<or> (\<exists>r\<in>set rs. rq_id r = sg_request_id g \<and> rq_status r = ReqOpen \<and>
      (sg_status g = SgnPending \<and> sg_status g' = SgnViewed \<or>
       sg_status g \<notin> {SgnSigned, SgnDeclined} \<and> sg_status g' = SgnDeclined)) \<Longrightarrow> db_effect H s s'"
| sign: "tables s = (ds, vs, rs, gs, ss) \<Longrightarrow>
    tables s' = (ds, vs, rs, table_update (\<lambda>x. sg_id x = sg_id g) (\<lambda>_. g') gs, ss @ [x]) \<Longrightarrow>
    prefix (audit_trail s) (audit_trail s') \<Longrightarrow> more_reads (ws_objects s) (ws_objects s') \<Longrightarrow>
    signature_given H s (ws_objects s') g g' r x \<Longrightarrow> pending_signers (ws_db s') (rq_id r) \<noteq> 0 \<Longrightarrow> db_effect H s s'"
| complete: "tables s = (ds, vs, rs, gs, ss) \<Longrightarrow>
    tables s' = (ds, vs, table_update (\<lambda>x. rq_id x = rq_id r) (\<lambda>x. x\<lparr>rq_status := ReqCompleted, rq_completed_at := Some t\<rparr>) rs,
      table_update (\<lambda>x. sg_id x = sg_id g) (\<lambda>_. g') gs, ss @ [x]) \<Longrightarrow>
    prefix (audit_trail s) (audit_trail s') \<Longrightarrow> more_reads (ws_objects s) (ws_objects s') \<Longrightarrow>
    signature_given H s (ws_objects s') g g' r x \<Longrightarrow> pending_signers (ws_db s') (rq_id r) = 0 \<Longrightarrow> db_effect H s s'"

section \<open>The steps of the service\<close>

text \<open>
  Any method with any arguments at any time, as long as the digest is the same function; \<open>core\<close>
  stands for the commits of the tenant and billing services, which share the database, change the
  core tables and only append to the audit trail.
\<close>

inductive db_step :: "(bytes \<Rightarrow> string) \<Rightarrow> wf_state \<Rightarrow> wf_state \<Rightarrow> bool" for H where
  create_document: "we_sha256 E = H \<Longrightarrow> db_step H s (snd (db_create_document E p content s))"
| add_version: "we_sha256 E = H \<Longrightarrow> db_step H s (snd (db_add_version E ident filename ctype actor content s))"
| delete_document: "db_step H s (snd (db_delete_document E ident actor force s))"
| create_request: "db_step H s (snd (db_create_request E rp s))"
| add_signer: "db_step H s (snd (db_add_signer E ident sp actor s))"
| create_signing_link: "db_step H s (snd (db_create_signing_link E ident actor s))"
| revoke_signer_link: "db_step H s (snd (db_revoke_signer_link E ident signer_ident actor s))"
| open_request: "db_step H s (snd (db_open_request E ident actor mode s))"
| cancel_request: "db_step H s (snd (db_cancel_request E ident actor s))"
| view: "db_step H s (snd (db_view E token user s))"
| sign: "we_sha256 E = H \<Longrightarrow> db_step H s (snd (db_sign E token user consent i certificate info s))"
| decline: "db_step H s (snd (db_decline E token user s))"
| core: "wf_constraints_ok ((ws_db s)\<lparr>wd_core := c\<rparr>) \<Longrightarrow> prefix (audit_trail s) (cdb_audit c) \<Longrightarrow>
    db_step H s (s\<lparr>ws_db := (ws_db s)\<lparr>wd_core := c\<rparr>\<rparr>)"

section \<open>Transactions\<close>

definition wf_synced :: "wf_db \<Rightarrow> wf_db" where
  "wf_synced db = db\<lparr>wd_core := sync_rows (wd_core db)\<rparr>"

lemma wf_synced_sel [simp]:
  "wd_documents (wf_synced db) = wd_documents db" "wd_versions (wf_synced db) = wd_versions db"
  "wd_requests (wf_synced db) = wd_requests db" "wd_signers (wf_synced db) = wd_signers db"
  "wd_signatures (wf_synced db) = wd_signatures db" "wd_core (wf_synced db) = sync_rows (wd_core db)"
  by (simp_all add: wf_synced_def)

lemma wf_constraints_synced [simp]: "wf_constraints_ok (wf_synced db) = wf_constraints_ok db"
  by (simp add: wf_constraints_ok_def documents_ok_def versions_ok_def requests_ok_def signers_ok_def
      signatures_rows_ok_def audit_rows_ok_def wf_synced_def)

lemma wf_flush_Inr: "wf_flush db = Inr db' \<longleftrightarrow> wf_constraints_ok db \<and> db' = wf_synced db"
  by (auto simp: wf_flush_def wf_synced_def)

lemma wf_commit_Inr: "wf_commit r = Inr (v, db') \<longleftrightarrow> (\<exists>db. r = Inr (v, db) \<and> wf_constraints_ok db \<and> db' = wf_synced db)"
proof (cases r)
  case (Inr vd)
  then show ?thesis by (cases vd) (auto simp: wf_commit_def wf_flush_def wf_synced_def)
qed (simp add: wf_commit_def)

lemma wf_commit_ok: "wf_constraints_ok db \<Longrightarrow> wf_commit (Inr (v, db)) = Inr (v, wf_synced db)"
  by (simp add: wf_commit_Inr)

lemma wf_transaction_cases:
  obtains (failed) e where "wf_transaction body s = (Inl e, s)"
  | (committed) v db where "body (ws_db s) = Inr (v, db)" "wf_constraints_ok db"
      "wf_transaction body s = (Inr v, s\<lparr>ws_db := wf_synced db\<rparr>)"
proof (cases "wf_commit (body (ws_db s))")
  case (Inr vd)
  obtain v d where "vd = (v, d)" by fastforce
  then show ?thesis using Inr committed by (auto simp: wf_transaction_def wf_commit_Inr wf_commit_ok)
qed (auto simp: wf_transaction_def intro: failed)

lemma discard_after_put:
  assumes "local_put u sc b objs = (Inr (k, n), objs')"
  shows "\<exists>objs''. local_discard_uncommitted k objs' = (Inr (), objs'') \<and> same_reads objs objs''"
proof -
  obtain objs'' where "local_discard_uncommitted k objs' = (Inr (), objs'')"
    using assms by (auto simp: local_put_def local_discard_uncommitted_def Let_def split: sum.splits if_splits prod.splits)
  then show ?thesis using local_store.put_then_discard[OF assms] unfolding same_reads_def by blast
qed

lemma put_more_reads:
  "local_put u sc b objs = (Inr (k, n), objs') \<Longrightarrow> more_reads objs objs' \<and> local_get k objs' = Inr b"
  using local_store.put_keeps local_store.put_reads_back unfolding more_reads_def by blast

text \<open>An operation that stores an object either commits, or leaves the tables and every reading as they were.\<close>

lemma store_then_cases:
  obtains (failed) e objs where "store_then u sc content body s = (Inl e, s\<lparr>ws_objects := objs\<rparr>)"
      "same_reads (ws_objects s) objs"
  | (committed) key n objs v db where "local_put u (Some sc) content (ws_objects s) = (Inr (key, n), objs)"
      "body key n = Inr (v, db)" "wf_constraints_ok db"
      "store_then u sc content body s = (Inr v, \<lparr>ws_db = wf_synced db, ws_objects = objs\<rparr>)"
proof (cases "local_put u (Some sc) content (ws_objects s)")
  case (Pair r objs)
  show ?thesis
  proof (cases r)
    case (Inl e)
    then have "objs = ws_objects s" using local_store.put_error Pair by blast
    then show ?thesis using failed[of e objs] Pair Inl by (simp add: store_then_def same_reads_def)
  next
    case (Inr kn)
    obtain k n where put: "local_put u (Some sc) content (ws_objects s) = (Inr (k, n), objs)"
      using Pair Inr by (cases kn) simp
    show ?thesis
    proof (cases "wf_commit (body k n)")
      case (Inr vd)
      then show ?thesis using committed[OF put] put by (cases vd) (auto simp: store_then_def wf_commit_Inr wf_commit_ok)
    next
      case (Inl e)
      have "k \<noteq> []" using put by (auto simp: local_put_def validate_storage_key_def Let_def split: sum.splits if_splits prod.splits)
      then show ?thesis using failed discard_after_put[OF put] put Inl by (auto simp: store_then_def)
    qed
  qed
qed

section \<open>Rows the methods work on\<close>

lemma wf_constraintsD:
  assumes "wf_constraints_ok db"
  shows "constraints_ok (wd_core db)" "distinct (map dr_id (wd_documents db))" "distinct (map rq_id (wd_requests db))"
    "distinct (map sg_id (wd_signers db))" "distinct (map (\<lambda>v. (vr_document_id v, vr_version v)) (wd_versions db))"
  using assms by (simp_all add: wf_constraints_ok_def documents_ok_def versions_ok_def requests_ok_def signers_ok_def)

lemma wf_document_by_id_Inr: "wf_document_by_id db i = Inr d \<Longrightarrow> d \<in> set (wd_documents db) \<and> dr_id d = i \<and> dr_deleted_at d = None"
  by (auto simp: wf_document_by_id_def split: option.splits dest!: find_Some_iff_hd)

lemma wf_document_Inr: "wf_document db ident = Inr d \<Longrightarrow> d \<in> set (wd_documents db) \<and> dr_deleted_at d = None"
  by (auto simp: wf_document_def split: option.splits dest: wf_document_by_id_Inr)

lemma wf_request_Inr: "wf_request db ident = Inr r \<Longrightarrow> r \<in> set (wd_requests db)"
  by (auto simp: wf_request_def split: option.splits bind_splits dest!: find_Some_iff_hd)

lemma wf_signer_Inr: "wf_signer db ident i = Inr g \<Longrightarrow> g \<in> set (wd_signers db) \<and> sg_request_id g = i"
  by (auto simp: wf_signer_def split: option.splits bind_splits dest!: find_Some_iff_hd)

lemma accessible_request_Inr: "accessible_request E db ident actor = Inr r \<Longrightarrow> r \<in> set (wd_requests db)"
  by (auto simp: accessible_request_def split: sum.splits dest: wf_request_Inr)

lemma resolved_signer_Inr:
  assumes "resolved_signer E token user ac db = Inr ((g, r), db')"
  shows "db' = db \<and> g \<in> set (wd_signers db) \<and> r \<in> set (wd_requests db) \<and> rq_id r = sg_request_id g \<and>
    sg_auth_user_id g = lower user \<and> sg_link_revoked_at g = None \<and> rq_signing_token_hash r = Some (we_sha256 E token) \<and>
    ((rq_status r = ReqOpen \<and> we_now E < rq_expires_at r) \<or> ac \<and> sg_status g = SgnSigned)"
  using assms
  by (auto simp: resolved_signer_def wf_resolve_def request_from_token_def signer_of_user_def Let_def
      split: sum.splits prod.splits option.splits if_splits dest!: find_Some_iff_hd)

lemma wf_audit_sel [simp]:
  "wd_documents (wf_audit E r a ac t i m db) = wd_documents db" "wd_versions (wf_audit E r a ac t i m db) = wd_versions db"
  "wd_requests (wf_audit E r a ac t i m db) = wd_requests db" "wd_signers (wf_audit E r a ac t i m db) = wd_signers db"
  "wd_signatures (wf_audit E r a ac t i m db) = wd_signatures db"
  "prefix (cdb_audit (wd_core db)) (cdb_audit (wd_core (wf_audit E r a ac t i m db)))"
  by (simp_all add: wf_audit_def)

lemma draws_sel [simp]:
  "wd_documents (draws k db) = wd_documents db" "wd_versions (draws k db) = wd_versions db"
  "wd_requests (draws k db) = wd_requests db" "wd_signers (draws k db) = wd_signers db"
  "wd_signatures (draws k db) = wd_signatures db" "cdb_audit (wd_core (draws k db)) = cdb_audit (wd_core db)"
  by (simp_all add: draws_def)

lemma request_set_sel [simp]:
  "wd_documents (request_set i f db) = wd_documents db" "wd_versions (request_set i f db) = wd_versions db"
  "wd_requests (request_set i f db) = table_update (\<lambda>r. rq_id r = i) f (wd_requests db)"
  "wd_signers (request_set i f db) = wd_signers db" "wd_signatures (request_set i f db) = wd_signatures db"
  "wd_core (request_set i f db) = wd_core db"
  by (simp_all add: request_set_def)

lemma signer_set_sel [simp]:
  "wd_documents (signer_set i f db) = wd_documents db" "wd_versions (signer_set i f db) = wd_versions db"
  "wd_requests (signer_set i f db) = wd_requests db"
  "wd_signers (signer_set i f db) = table_update (\<lambda>g. sg_id g = i) f (wd_signers db)"
  "wd_signatures (signer_set i f db) = wd_signatures db" "wd_core (signer_set i f db) = wd_core db"
  by (simp_all add: signer_set_def)

lemma document_set_sel [simp]:
  "wd_documents (document_set i f db) = table_update (\<lambda>d. dr_id d = i) f (wd_documents db)"
  "wd_versions (document_set i f db) = wd_versions db" "wd_requests (document_set i f db) = wd_requests db"
  "wd_signers (document_set i f db) = wd_signers db" "wd_signatures (document_set i f db) = wd_signatures db"
  "wd_core (document_set i f db) = wd_core db"
  by (simp_all add: document_set_def)

text \<open>Charging a quota leaves everything but the accounts as it is.\<close>

lemma consume_keeps:
  "consume_signature now t core = Inr core' \<Longrightarrow> cdb_audit core' = cdb_audit core \<and> cdb_tenants core' = cdb_tenants core \<and>
     cdb_members core' = cdb_members core"
  "consume_document now t core = Inr core' \<Longrightarrow> cdb_audit core' = cdb_audit core \<and> cdb_tenants core' = cdb_tenants core \<and>
     cdb_members core' = cdb_members core"
  using account_entity_found[of now t core]
  by (auto simp: consume_signature_def consume_document_def found_account_def split: sum.splits prod.splits)

section \<open>Every step is an effect\<close>

definition db_sound :: "(bytes \<Rightarrow> string) \<Rightarrow> wf_state \<Rightarrow> wf_state \<Rightarrow> bool" where
  "db_sound H s s' \<longleftrightarrow>
     (wf_constraints_ok (ws_db s) \<longrightarrow> wf_constraints_ok (ws_db s') \<and> db_effect H s s')"

lemma same_reads_refl [simp]: "same_reads objs objs"
  by (simp add: same_reads_def)

lemma tables_sel [simp]:
  "tables \<lparr>ws_db = db, ws_objects = objs\<rparr> =
     (wd_documents db, wd_versions db, wd_requests db, wd_signers db, wd_signatures db)"
  "tables (s\<lparr>ws_objects := objs\<rparr>) = tables s"
  "tables (s\<lparr>ws_db := db\<rparr>) = (wd_documents db, wd_versions db, wd_requests db, wd_signers db, wd_signatures db)"
  "audit_trail \<lparr>ws_db = db, ws_objects = objs\<rparr> = cdb_audit (wd_core db)" "audit_trail (s\<lparr>ws_objects := objs\<rparr>) = audit_trail s"
  "audit_trail (s\<lparr>ws_db := db\<rparr>) = cdb_audit (wd_core db)"
  by (simp_all add: tables_def audit_trail_def)

lemma db_sound_refl [simp]: "db_sound H s s"
  unfolding db_sound_def by (auto simp: tables_def intro: db_effect.keep)

lemma db_sound_failed: "same_reads (ws_objects s) objs \<Longrightarrow> db_sound H s (s\<lparr>ws_objects := objs\<rparr>)"
  unfolding db_sound_def by (auto simp: tables_def intro: db_effect.keep)

lemma transaction_sound:
  assumes "\<And>v db. body (ws_db s) = Inr (v, db) \<Longrightarrow> wf_constraints_ok (ws_db s) \<Longrightarrow> wf_constraints_ok db \<Longrightarrow>
    db_effect H s (s\<lparr>ws_db := wf_synced db\<rparr>)"
  shows "db_sound H s (snd (wf_transaction body s))"
proof (cases rule: wf_transaction_cases[of body s])
  case (committed v db)
  then show ?thesis using assms[of v db] by (simp add: db_sound_def)
qed simp

lemma store_then_sound:
  assumes "\<And>key n objs v db. local_put u (Some sc) content (ws_objects s) = (Inr (key, n), objs) \<Longrightarrow> body key n = Inr (v, db) \<Longrightarrow>
    wf_constraints_ok (ws_db s) \<Longrightarrow> wf_constraints_ok db \<Longrightarrow> db_effect H s \<lparr>ws_db = wf_synced db, ws_objects = objs\<rparr>"
  shows "db_sound H s (snd (store_then u sc content body s))"
proof (cases rule: store_then_cases[of u sc content body s])
  case (committed key n objs v db)
  then show ?thesis using assms[of key n objs v db] by (simp add: db_sound_def)
qed (simp add: db_sound_failed)

text \<open>What an audited change of the tables needs to be an effect.\<close>

lemmas effect_simps = tables_def audit_trail_def wf_synced_sel sync_rows_simps prefix_order.order_refl

lemma upload_allowed_Inr:
  assumes "upload_allowed E p db = Inr (t, m, db')"
  obtains core where "db' = db\<lparr>wd_core := core\<rparr>" "cdb_audit core = cdb_audit (wd_core db)"
    "consume_document (we_now E) (ten_id t) (wd_core db) = Inr core" "ten_slug t = dc_organization_id p"
    "require_role (we_core E) (wd_core db) (ten_id t) (dc_created_by p) (Some [''admin'', ''member'']) False = Inr m"
proof -
  obtain core where "db' = db\<lparr>wd_core := core\<rparr>" "consume_document (we_now E) (ten_id t) (wd_core db) = Inr core"
    "require_role (we_core E) (wd_core db) (ten_id t) (dc_created_by p) (Some [''admin'', ''member'']) False = Inr m"
    "ten_slug t = dc_organization_id p"
    using assms by (auto simp: upload_allowed_def split: option.splits sum.splits dest!: find_Some_iff_hd)
  then show ?thesis using that consume_keeps(2) by blast
qed

lemma create_document_sound: "we_sha256 E = H \<Longrightarrow> db_sound H s (snd (db_create_document E p content s))"
proof -
  assume H: "we_sha256 E = H"
  show ?thesis
  proof (cases "content = [] \<or> (\<exists>e. upload_allowed E p (ws_db s) = Inl e)")
    case False
    then obtain t m db where up: "upload_allowed E p (ws_db s) = Inr (t, m, db)" by (cases "upload_allowed E p (ws_db s)") auto
    obtain core where db: "db = (ws_db s)\<lparr>wd_core := core\<rparr>" "cdb_audit core = cdb_audit (wd_core (ws_db s))"
      using upload_allowed_Inr[OF up] by metis
    show ?thesis
      using False up put_more_reads H
      by (auto simp: db_create_document_def record_upload_def Let_def db new_version_def new_document_def records_version_def effect_simps
          intro!: store_then_sound db_effect.upload prefix_order.trans[OF _ wf_audit_sel(6)])
  qed (auto simp: db_create_document_def)
qed

lemma add_version_sound: "we_sha256 E = H \<Longrightarrow> db_sound H s (snd (db_add_version E ident filename ctype actor content s))"
  using put_more_reads wf_document_Inr
  by (auto simp: db_add_version_def record_version_def Let_def new_version_def next_version_def records_version_def document_part_def effect_simps
      split: sum.splits intro!: store_then_sound db_effect.revise prefix_order.trans[OF _ wf_audit_sel(6)])

lemma draft_effect:
  assumes "d \<in> set (wd_documents (ws_db s))"
  shows "db_effect H s (s\<lparr>ws_db := wf_synced (wf_audit E q a ac ty i m
     ((draws k (ws_db s))\<lparr>wd_requests := wd_requests (ws_db s) @ [new_request E n p d t]\<rparr>))\<rparr>)"
  by (rule db_effect.draft[where d = d and r = "new_request E n p d t"])
    (use assms in \<open>simp_all add: effect_simps new_request_def prefix_order.trans[OF _ wf_audit_sel(6)]\<close>)

lemma create_request_sound: "db_sound H s (snd (db_create_request E p s))"
  by (auto simp: db_create_request_def Let_def split: sum.splits option.splits if_splits
      dest!: wf_document_by_id_Inr intro!: transaction_sound draft_effect)

lemma add_signer_body:
  assumes "(case accessible_request E db ident actor of Inl e \<Rightarrow> Inl e | Inr r \<Rightarrow>
     if rq_status r \<noteq> ReqDraft then Inl (workflow_error ''Signers can only be added to a draft request'' 409)
     else (case representation_of E db r p of Inl e \<Rightarrow> Inl e | Inr snapshot \<Rightarrow>
       let g = new_signer E (wd_next db) (rq_id r) p snapshot in
       (case wf_flush ((draws 2 db)\<lparr>wd_signers := wd_signers db @ [g]\<rparr>) of
          Inl IntegrityError \<Rightarrow> Inl (workflow_error ''This authenticated user is already a signer'' 409)
        | Inl e \<Rightarrow> Inl e
        | Inr db1 \<Rightarrow> Inr (signer_answer g, wf_audit E (Some (rq_id r)) actor ''signer.link_created'' ''signer'' (sg_id g)
              [(''token_expires_at'', JStr (we_isoformat E (sg_token_expires_at g)))] db1)))) = Inr (v, db')"
  obtains r snapshot g where "r \<in> set (wd_requests db)" "rq_status r = ReqDraft"
    "representation_of E db r p = Inr snapshot" "g = new_signer E (wd_next db) (rq_id r) p snapshot" "v = signer_answer g"
    "db' = wf_audit E (Some (rq_id r)) actor ''signer.link_created'' ''signer'' (sg_id g)
       [(''token_expires_at'', JStr (we_isoformat E (sg_token_expires_at g)))]
       (wf_synced ((draws 2 db)\<lparr>wd_signers := wd_signers db @ [g]\<rparr>))"
  using assms by (auto simp: Let_def wf_flush_Inr split: sum.splits if_splits exn.splits dest!: accessible_request_Inr)

lemma add_signer_sound: "db_sound H s (snd (db_add_signer E ident p actor s))"
  unfolding db_add_signer_def
proof (rule transaction_sound, elim add_signer_body)
  fix v db r snapshot g
  assume "r \<in> set (wd_requests (ws_db s))" "rq_status r = ReqDraft"
    "g = new_signer E (wd_next (ws_db s)) (rq_id r) p snapshot"
    "db = wf_audit E (Some (rq_id r)) actor ''signer.link_created'' ''signer'' (sg_id g)
       [(''token_expires_at'', JStr (we_isoformat E (sg_token_expires_at g)))]
       (wf_synced ((draws 2 (ws_db s))\<lparr>wd_signers := wd_signers (ws_db s) @ [g]\<rparr>))"
  then show "db_effect H s (s\<lparr>ws_db := wf_synced db\<rparr>)"
    by (intro db_effect.invite[where r = r and g = g])
      (auto simp: effect_simps new_signer_def intro: prefix_order.trans[OF _ wf_audit_sel(6)])
qed

lemma link_body_Inr:
  assumes "link_body E ident actor db = Inr ((url, mails), db')"
  obtains r d nonce where "accessible_request E db ident actor = Inr r" "rq_status r \<in> {ReqOpen, ReqCompleted}"
    "nonce = ce_token_urlsafe (we_core E) (wd_next db)" "url = wf_signing_url E (request_token E (rq_id r) nonce)"
    "wf_document_by_id db (rq_document_id r) = Inr d"
    "db' = wf_audit E (Some (rq_id r)) actor ''signature_request.link_created'' ''signature_request'' (rq_id r) []
       (request_set (rq_id r) (\<lambda>x. x\<lparr>rq_signing_token_nonce := Some nonce,
          rq_signing_token_hash := Some (we_sha256 E (request_token E (rq_id r) nonce))\<rparr>) (draws 1 db))"
proof (cases "accessible_request E db ident actor")
  case (Inr r)
  then show ?thesis
    using assms that by (cases "wf_document_by_id db (rq_document_id r)") (simp_all add: link_body_def Let_def split: if_split_asm)
qed (use assms in \<open>simp add: link_body_def\<close>)

lemma link_effect:
  "db_effect H s (s\<lparr>ws_db := wf_synced (wf_audit E q a ac ty i m (request_set r (\<lambda>x. x\<lparr>rq_signing_token_nonce := n,
     rq_signing_token_hash := h\<rparr>) (draws k (ws_db s))))\<rparr>)"
  by (rule db_effect.link) (simp_all add: effect_simps prefix_order.trans[OF _ wf_audit_sel(6)])

lemma link_sound: "db_sound H s (snd (wf_transaction (link_body E ident actor) s))"
proof (rule transaction_sound)
  fix v db assume body: "link_body E ident actor (ws_db s) = Inr (v, db)"
  obtain url mails where "v = (url, mails)" by fastforce
  with body show "db_effect H s (s\<lparr>ws_db := wf_synced db\<rparr>)"
    by (auto elim!: link_body_Inr intro: link_effect)
qed

lemma create_signing_link_state:
  "snd (db_create_signing_link E ident actor s) = snd (wf_transaction (link_body E ident actor) s)"
  by (simp add: db_create_signing_link_def split: prod.splits sum.splits)

lemma effect_same_tables: "tables s' = tables s \<Longrightarrow> prefix (audit_trail s) (audit_trail s') \<Longrightarrow>
    same_reads (ws_objects s) (ws_objects s') \<Longrightarrow> db_effect H s s'"
  by (cases "tables s") (auto intro: db_effect.keep)

lemma effect_refl [simp]: "tables s' = tables s \<Longrightarrow> audit_trail s' = audit_trail s \<Longrightarrow> ws_objects s' = ws_objects s \<Longrightarrow> db_effect H s s'"
  by (rule effect_same_tables) simp_all

text \<open>An answer of a signer, whose audit event is appended.\<close>

lemma answer_effect:
  assumes "g \<in> set (wd_signers (ws_db s))" "signer_part g' = signer_part g"
    "sg_status g' = sg_status g \<or> (\<exists>r\<in>set (wd_requests (ws_db s)). rq_id r = sg_request_id g \<and> rq_status r = ReqOpen \<and>
      (sg_status g = SgnPending \<and> sg_status g' = SgnViewed \<or>
       sg_status g \<notin> {SgnSigned, SgnDeclined} \<and> sg_status g' = SgnDeclined))"
  shows "db_effect H s (s\<lparr>ws_db := wf_synced (wf_audit E q a ac ty i m (signer_set (sg_id g) (\<lambda>_. g') (ws_db s)))\<rparr>)"
  by (rule db_effect.answer[where g = g and g' = g', OF _ _ _ _ assms(1,2)])
    (use assms(3) in \<open>simp_all add: effect_simps prefix_order.trans[OF _ wf_audit_sel(6)]\<close>)

lemma revoke_signer_link_sound: "db_sound H s (snd (db_revoke_signer_link E ident signer_ident actor s))"
  by (auto simp: db_revoke_signer_link_def Let_def signer_part_def effect_simps split: sum.splits if_splits
      dest!: wf_signer_Inr intro!: transaction_sound answer_effect)

lemma request_signers_mem: "g \<in> set (request_signers db r) \<longleftrightarrow> g \<in> set (wd_signers db) \<and> sg_request_id g = r"
  by (auto simp: request_signers_def)

lemma request_signers_Nil: "request_signers db r \<noteq> [] \<longleftrightarrow> (\<exists>g\<in>set (wd_signers db). sg_request_id g = r)"
  by (auto simp: request_signers_def filter_empty_conv)

lemma advance_effect:
  assumes "r \<in> set (wd_requests (ws_db s))" "frozen_part r' = frozen_part r"
    "(rq_status r = ReqDraft \<and> rq_status r' = ReqOpen \<and> request_signers (ws_db s) (rq_id r) \<noteq> []) \<or>
     (rq_status r \<in> {ReqDraft, ReqOpen} \<and> rq_status r' = ReqCancelled)"
  shows "db_effect H s (s\<lparr>ws_db := wf_synced (wf_audit E q a ac ty i m (request_set (rq_id r) (\<lambda>_. r') (ws_db s)))\<rparr>)"
  by (rule db_effect.advance[where r = r and r' = r', OF _ _ _ _ assms(1,2)])
    (use assms(3) in \<open>auto simp: effect_simps request_signers_Nil prefix_order.trans[OF _ wf_audit_sel(6)]\<close>)

lemma open_request_sound: "db_sound H s (snd (db_open_request E ident actor mode s))"
  by (auto simp: db_open_request_def Let_def frozen_part_def split: sum.splits if_splits
      dest!: accessible_request_Inr intro!: transaction_sound advance_effect)

lemma cancel_request_sound: "db_sound H s (snd (db_cancel_request E ident actor s))"
  by (auto simp: db_cancel_request_def Let_def frozen_part_def split: sum.splits if_splits
      dest!: accessible_request_Inr intro!: transaction_sound advance_effect)

lemma view_sound: "db_sound H s (snd (db_view E token user s))"
  by (auto simp: db_view_def Let_def signer_part_def effect_simps split: sum.splits if_splits prod.splits
      dest!: resolved_signer_Inr intro!: transaction_sound answer_effect)

lemma decline_sound: "db_sound H s (snd (db_decline E token user s))"
  by (auto simp: db_decline_def Let_def signer_part_def effect_simps split: sum.splits if_splits prod.splits
      dest!: resolved_signer_Inr intro!: transaction_sound answer_effect)

lemma distinct_map_eq: "distinct (map k xs) \<Longrightarrow> x \<in> set xs \<Longrightarrow> y \<in> set xs \<Longrightarrow> k x = k y \<Longrightarrow> x = y"
  by (metis find_by_key option.inject)

text \<open>Deleting a document cancels its open requests one after the other.\<close>

lemma cancel_deleted_sel [simp]:
  "wd_documents (cancel_deleted E a r db) = wd_documents db" "wd_versions (cancel_deleted E a r db) = wd_versions db"
  "wd_requests (cancel_deleted E a r db) = table_update (\<lambda>x. rq_id x = rq_id r) (rq_status_update (\<lambda>_. ReqCancelled)) (wd_requests db)"
  "wd_signers (cancel_deleted E a r db) = wd_signers db" "wd_signatures (cancel_deleted E a r db) = wd_signatures db"
  "prefix (cdb_audit (wd_core db)) (cdb_audit (wd_core (cancel_deleted E a r db)))"
  by (simp_all add: cancel_deleted_def prefix_order.trans[OF _ wf_audit_sel(6)])

lemma cancelled_twice:
  "table_update (\<lambda>x. rq_id x \<in> R) (rq_status_update (\<lambda>_. ReqCancelled))
     (table_update (\<lambda>x. rq_id x = i) (rq_status_update (\<lambda>_. ReqCancelled)) rows) =
   table_update (\<lambda>x. rq_id x \<in> insert i R) (rq_status_update (\<lambda>_. ReqCancelled)) rows"
  by (auto simp: table_update_def)

lemma fold_cancel_deleted:
  "wd_documents (fold (cancel_deleted E a) rs db) = wd_documents db \<and>
   wd_versions (fold (cancel_deleted E a) rs db) = wd_versions db \<and>
   wd_requests (fold (cancel_deleted E a) rs db) =
     table_update (\<lambda>x. rq_id x \<in> rq_id ` set rs) (rq_status_update (\<lambda>_. ReqCancelled)) (wd_requests db) \<and>
   wd_signers (fold (cancel_deleted E a) rs db) = wd_signers db \<and>
   wd_signatures (fold (cancel_deleted E a) rs db) = wd_signatures db \<and>
   prefix (cdb_audit (wd_core db)) (cdb_audit (wd_core (fold (cancel_deleted E a) rs db)))"
proof (induction rs arbitrary: db)
  case Nil
  then show ?case by (simp add: table_update_id)
next
  case (Cons r rs)
  have "prefix (cdb_audit (wd_core db)) (cdb_audit (wd_core (fold (cancel_deleted E a) rs (cancel_deleted E a r db))))"
    using Cons[of "cancel_deleted E a r db"] by (blast intro: prefix_order.trans[OF cancel_deleted_sel(6)])
  then show ?case using Cons[of "cancel_deleted E a r db"] by (simp add: cancelled_twice)
qed

lemma delete_document_sound: "db_sound H s (snd (db_delete_document E ident actor force s))"
  unfolding db_delete_document_def
proof (rule transaction_sound)
  fix v db'
  let ?db = "ws_db s"
  assume body: "(case wf_document ?db ident of Inl e \<Rightarrow> Inl e | Inr d \<Rightarrow>
     (case require_role (we_core E) (wd_core ?db) (dr_tenant_id d) actor (Some [''admin'']) False of
        Inl e \<Rightarrow> Inl e
      | Inr _ \<Rightarrow>
          let active = filter (\<lambda>r. rq_document_id r = dr_id d \<and> rq_status r \<in> {ReqDraft, ReqOpen}) (wd_requests ?db)
          in if active \<noteq> [] \<and> \<not> force
             then Inl (WorkflowError ''Document has signature requests in progress'' 409
                    (Some ''document_has_active_requests'')
                    [(''active_request_count'', JInt (int (length active)))])
             else Inr ((), wf_audit E None actor ''document.deleted'' ''document'' (dr_id d)
                    [(''cancelled_request_count'', JInt (int (length active)))]
                    (document_set (dr_id d) (\<lambda>x. x\<lparr>dr_deleted_at := Some (we_now E), dr_updated_at := we_now E\<rparr>)
                      (fold (cancel_deleted E actor) active ?db))))) = Inr (v, db')"
    and ok: "wf_constraints_ok ?db"
  obtain d where d: "wf_document ?db ident = Inr d" using body by (auto split: sum.splits)
  let ?active = "filter (\<lambda>r. rq_document_id r = dr_id d \<and> rq_status r \<in> {ReqDraft, ReqOpen}) (wd_requests ?db)"
  have db': "db' = wf_audit E None actor ''document.deleted'' ''document'' (dr_id d)
      [(''cancelled_request_count'', JInt (int (length ?active)))]
      (document_set (dr_id d) (\<lambda>x. x\<lparr>dr_deleted_at := Some (we_now E), dr_updated_at := we_now E\<rparr>)
        (fold (cancel_deleted E actor) ?active ?db))"
    using body d by (simp add: Let_def split: sum.split_asm if_split_asm)
  note cancelled = fold_cancel_deleted[of E actor ?active ?db]
  have active: "rq_status r \<in> {ReqDraft, ReqOpen}" if "r \<in> set (wd_requests ?db)" "rq_id r \<in> rq_id ` set ?active" for r
    using that distinct_map_eq[OF wf_constraintsD(3)[OF ok]] by fastforce
  show "db_effect H s (s\<lparr>ws_db := wf_synced db'\<rparr>)"
    by (rule db_effect.trash[where i = "dr_id d" and t = "we_now E" and R = "rq_id ` set ?active"])
      (use active cancelled in \<open>simp_all add: effect_simps db' prefix_order.trans[OF _ wf_audit_sel(6)]\<close>)
qed

text \<open>Signing: what the preparation has checked, and what is recorded.\<close>

lemma signing_guard_Inr:
  assumes "signing_guard E g r user certificate db = Inr (v, d)"
  shows "sg_status g \<noteq> SgnSigned \<and> certificate_guard db g r certificate = Inr () \<and>
    version_get db (rq_document_id r) (rq_document_version r) = Some v \<and> vr_sha256 v = rq_document_sha256 r \<and>
    document_get db (rq_document_id r) = Some d \<and> dr_deleted_at d = None \<and>
    (sg_participant_role g = CompanyRepresentative \<longrightarrow> representation_active E db g user)"
  using assms by (auto simp: signing_guard_def split: if_splits sum.splits option.splits)

lemma prepare_signature_Inr:
  assumes "prepare_signature E token user i identity certificate info s = Inr (g, r, d, a, db)"
  obtains v core original where "resolved_signer E token user False (ws_db s) = Inr ((g, r), ws_db s)"
    "signing_guard E g r user (certificate \<noteq> None) (ws_db s) = Inr (v, d)"
    "consume_signature (we_now E) (dr_tenant_id d) (wd_core (ws_db s)) = Inr core"
    "signing_original E r v (certificate \<noteq> None) (ws_objects s) = Inr original"
    "build_artifact E g r user i identity (Option.bind (tenant_get (wd_core (ws_db s)) (dr_tenant_id d)) ten_country_code)
       certificate info original db = Inr a" "db = (ws_db s)\<lparr>wd_core := core\<rparr>"
proof -
  obtain db0 where r: "resolved_signer E token user False (ws_db s) = Inr ((g, r), db0)"
    using assms by (auto simp: prepare_signature_def split: sum.splits prod.splits)
  then have "db0 = ws_db s" using resolved_signer_Inr by blast
  then show ?thesis using assms r that by (auto simp: prepare_signature_def split: sum.splits prod.splits)
qed

lemma record_signature_Inr:
  assumes "record_signature E n g r user a key db = Inr (v, db')"
  obtains g' x where "g' = g\<lparr>sg_status := SgnSigned, sg_signed_at := Some (we_now E)\<rparr>"
    "x = new_signature E n g r user a key" "v = signer_answer g'"
    "wd_documents db' = wd_documents db" "wd_versions db' = wd_versions db"
    "wd_signers db' = table_update (\<lambda>y. sg_id y = sg_id g) (\<lambda>_. g') (wd_signers db)"
    "wd_signatures db' = wd_signatures db @ [x]" "prefix (cdb_audit (wd_core db)) (cdb_audit (wd_core db'))"
    "wd_requests db' = (if pending_signers db' (rq_id r) = 0
       then table_update (\<lambda>y. rq_id y = rq_id r) (\<lambda>y. y\<lparr>rq_status := ReqCompleted, rq_completed_at := Some (we_now E)\<rparr>) (wd_requests db)
       else wd_requests db)"
proof -
  define g' where "g' = g\<lparr>sg_status := SgnSigned, sg_signed_at := Some (we_now E)\<rparr>"
  define x where "x = new_signature E n g r user a key"
  define db1 where "db1 = wf_audit E (Some (rq_id r)) user ''signature.completed'' ''signer'' (sg_id g)
     [(''document_sha256'', JStr (rq_document_sha256 r)), (''document_version'', JInt (rq_document_version r)),
      (''evidence_sha256'', JStr (evidence_sha256 E (sa_evidence a))), (''artifact_sha256'', JStr (we_sha256 E (sa_content a)))]
     ((signer_set (sg_id g) (\<lambda>_. g') db)\<lparr>wd_signatures := wd_signatures db @ [x]\<rparr>)"
  have db1: "wd_documents db1 = wd_documents db" "wd_versions db1 = wd_versions db" "wd_requests db1 = wd_requests db"
    "wd_signers db1 = table_update (\<lambda>y. sg_id y = sg_id g) (\<lambda>_. g') (wd_signers db)"
    "wd_signatures db1 = wd_signatures db @ [x]" "prefix (cdb_audit (wd_core db)) (cdb_audit (wd_core db1))"
    by (simp_all add: db1_def prefix_order.trans[OF _ wf_audit_sel(6)])
  have out: "v = signer_answer g'" "db' = (if pending_signers (wf_synced db1) (rq_id r) = 0
      then wf_audit E (Some (rq_id r)) user ''signature_request.completed'' ''signature_request'' (rq_id r)
             [(''artifact_sha256'', JStr (we_sha256 E (sa_content a)))]
             (request_set (rq_id r) (\<lambda>y. y\<lparr>rq_status := ReqCompleted, rq_completed_at := Some (we_now E)\<rparr>) (wf_synced db1))
      else wf_synced db1)"
    using assms unfolding record_signature_def Let_def g'_def[symmetric] x_def[symmetric] db1_def[symmetric]
    by (auto simp: wf_flush_Inr split: sum.splits)
  have pend: "pending_signers db' (rq_id r) = pending_signers (wf_synced db1) (rq_id r)"
    using out(2) by (simp add: pending_signers_def request_signers_def)
  show ?thesis
    by (rule that[OF g'_def x_def out(1)])
      (use db1 out(2) pend in \<open>simp_all add: effect_simps prefix_order.trans[OF _ wf_audit_sel(6)]\<close>)
qed

lemma sign_sound:
  assumes H: "we_sha256 E = H"
  shows "db_sound H s (snd (db_sign E token user consent i certificate info s))"
proof (cases "\<not> consent \<or> (\<exists>e. prepare_signature E token user i (identity_of E user) certificate info s = Inl e)")
  case False
  then obtain g r d a db where prep: "prepare_signature E token user i (identity_of E user) certificate info s = Inr (g, r, d, a, db)"
    by (cases "prepare_signature E token user i (identity_of E user) certificate info s") auto
  obtain v core where P: "resolved_signer E token user False (ws_db s) = Inr ((g, r), ws_db s)"
    "signing_guard E g r user (certificate \<noteq> None) (ws_db s) = Inr (v, d)"
    "consume_signature (we_now E) (dr_tenant_id d) (wd_core (ws_db s)) = Inr core" "db = (ws_db s)\<lparr>wd_core := core\<rparr>"
    using prepare_signature_Inr[OF prep] by metis
  note R = resolved_signer_Inr[OF P(1)] and G = signing_guard_Inr[OF P(2)] and A = consume_keeps(1)[OF P(3)]
  have "db_effect H s \<lparr>ws_db = wf_synced db', ws_objects = objs\<rparr>"
    if put: "local_put u (Some sc) (sa_content a) (ws_objects s) = (Inr (key, n), objs)"
      and rec: "record_signature E m g r user a key (draws k db) = Inr (w, db')" for u sc key n objs m k w db'
  proof -
    obtain g' x where X: "g' = g\<lparr>sg_status := SgnSigned, sg_signed_at := Some (we_now E)\<rparr>" "x = new_signature E m g r user a key"
      "wd_documents db' = wd_documents db" "wd_versions db' = wd_versions db"
      "wd_signers db' = table_update (\<lambda>y. sg_id y = sg_id g) (\<lambda>_. g') (wd_signers db)"
      "wd_signatures db' = wd_signatures db @ [x]" "prefix (cdb_audit (wd_core db)) (cdb_audit (wd_core db'))"
      "wd_requests db' = (if pending_signers db' (rq_id r) = 0
         then table_update (\<lambda>y. rq_id y = rq_id r) (\<lambda>y. y\<lparr>rq_status := ReqCompleted, rq_completed_at := Some (we_now E)\<rparr>) (wd_requests db)
         else wd_requests db)"
      using record_signature_Inr[OF rec] by (metis draws_sel)
    note more = put_more_reads[OF put]
    have given: "signature_given H s objs g g' r x"
      using R G more H X(1,2) by (auto simp: signature_given_def signer_part_def artifact_stored_def new_signature_def)
    have pend: "pending_signers (wf_synced db') (rq_id r) = pending_signers db' (rq_id r)"
      by (simp add: pending_signers_def request_signers_def)
    show ?thesis
    proof (cases "pending_signers db' (rq_id r) = 0")
      case True
      then show ?thesis using X P(4) A more given pend
        by (intro db_effect.complete[where g = g and g' = g' and r = r and x = x and t = "we_now E"]) (simp_all add: effect_simps)
    next
      case False
      then show ?thesis using X P(4) A more given pend
        by (intro db_effect.sign[where g = g and g' = g' and r = r and x = x]) (simp_all add: effect_simps)
    qed
  qed
  then show ?thesis using False prep by (auto simp: db_sign_def intro!: store_then_sound)
qed (auto simp: db_sign_def)

theorem db_step_sound: "db_step H s s' \<Longrightarrow> db_sound H s s'"
proof (induction rule: db_step.induct)
  case (core s c)
  then show ?case unfolding db_sound_def by (intro impI conjI effect_same_tables) (simp_all add: tables_def audit_trail_def)
qed (simp_all add: create_document_sound add_version_sound delete_document_sound create_request_sound add_signer_sound
    create_signing_link_state link_sound revoke_signer_link_sound open_request_sound cancel_request_sound view_sound
    sign_sound decline_sound)

end
