(* ===== verification/Database_Invariants.thy ===== *)
theory Database_Invariants
  imports Database_Effects
begin

text \<open>
  The invariants of the database service, proved on its effects: what is written once stays
  (\<open>db_history\<close>), every frozen version is in the store with its digest and every signature has its
  artifact (\<open>db_inv\<close>), and the statuses follow the abstract lifecycle. The service is thus a
  second implementation of the interface \<open>signing_service\<close>.
\<close>

section \<open>Updating one row of a table\<close>

lemma map_update_row:
  assumes "distinct (map k rows)" "r \<in> set rows" "h y = h r"
  shows "map h (table_update (\<lambda>x. k x = k r) (\<lambda>_. y) rows) = map h rows"
  unfolding table_update_def using assms distinct_map_eq[OF assms(1)] by auto

lemma set_update_row:
  assumes "distinct (map k rows)" "r \<in> set rows"
  shows "set (table_update (\<lambda>x. k x = k r) (\<lambda>_. y) rows) = insert y (set rows - {r})"
  unfolding set_table_update using assms(2) distinct_map_eq[OF assms(1)] by auto

lemma map_of_rows:
  "distinct (map k rows) \<Longrightarrow> map_of (map (\<lambda>x. (k x, f x)) rows) i = Some v \<longleftrightarrow> (\<exists>x\<in>set rows. k x = i \<and> f x = v)"
  by (subst map_of_eq_Some_iff) (auto simp: comp_def)

lemma map_of_rows_None: "map_of (map (\<lambda>x. (k x, f x)) rows) i = None \<longleftrightarrow> i \<notin> k ` set rows"
  by (simp add: map_of_eq_None_iff image_image)

lemma map_of_append_row:
  "k r \<notin> k ` set rows \<Longrightarrow> map_of (map (\<lambda>x. (k x, f x)) (rows @ [r])) = (map_of (map (\<lambda>x. (k x, f x)) rows))(k r \<mapsto> f r)"
  by (induction rows) auto

lemma map_of_update_row:
  "k y = i \<Longrightarrow> i \<in> k ` set rows \<Longrightarrow>
   map_of (map (\<lambda>x. (k x, f x)) (table_update (\<lambda>x. k x = i) (\<lambda>_. y) rows)) = (map_of (map (\<lambda>x. (k x, f x)) rows))(i \<mapsto> f y)"
proof (induction rows)
  case (Cons r rows)
  show ?case
  proof (cases "i \<in> k ` set rows")
    case True
    then show ?thesis using Cons by (auto simp: table_update_def)
  next
    case False
    then have "table_update (\<lambda>x. k x = i) (\<lambda>_. y) rows = rows" by (intro table_update_id) auto
    moreover have "k r = i" using False Cons.prems(2) by auto
    ultimately show ?thesis using Cons.prems(1) by (auto simp: table_update_def)
  qed
qed simp

lemma map_of_update_rows:
  assumes "\<And>x. k (g x) = k x" "\<And>x. f (g x) = c"
  shows "map_of (map (\<lambda>x. (k x, f x)) (table_update (\<lambda>x. k x \<in> R) g rows)) i =
    (if i \<in> R then map_option (\<lambda>_. c) (map_of (map (\<lambda>x. (k x, f x)) rows) i) else map_of (map (\<lambda>x. (k x, f x)) rows) i)"
  by (induction rows) (auto simp: table_update_def assms)

section \<open>What stays\<close>

definition db_history :: "wf_state \<Rightarrow> wf_state \<Rightarrow> bool" where
  "db_history s s' \<longleftrightarrow> prefix (audit_trail s) (audit_trail s') \<and>
     prefix (wd_versions (ws_db s)) (wd_versions (ws_db s')) \<and>
     prefix (wd_signatures (ws_db s)) (wd_signatures (ws_db s')) \<and>
     prefix (map frozen_part (wd_requests (ws_db s))) (map frozen_part (wd_requests (ws_db s'))) \<and>
     prefix (map signer_part (wd_signers (ws_db s))) (map signer_part (wd_signers (ws_db s'))) \<and>
     prefix (map document_part (wd_documents (ws_db s))) (map document_part (wd_documents (ws_db s'))) \<and>
     more_reads (ws_objects s) (ws_objects s')"

lemma more_reads_refl [simp]: "more_reads objs objs"
  by (simp add: more_reads_def)

lemma same_reads_more: "same_reads objs objs' \<Longrightarrow> more_reads objs objs'"
  by (simp add: same_reads_def more_reads_def)

lemma db_history_refl [simp]: "db_history s s"
  by (simp add: db_history_def)

lemma db_history_trans: "db_history s t \<Longrightarrow> db_history t u \<Longrightarrow> db_history s u"
  unfolding db_history_def more_reads_def by (meson prefix_order.trans)

lemma given_rows:
  assumes "signature_given H s objs' g g' r x"
  shows "g \<in> set (wd_signers (ws_db s))" "r \<in> set (wd_requests (ws_db s))" "signer_part g' = signer_part g" "sg_id g' = sg_id g"
  using assms by (auto simp: signature_given_def signer_part_def)

lemma effect_history:
  assumes "db_effect H s s'" "wf_constraints_ok (ws_db s)"
  shows "db_history s s'"
proof -
  note D = wf_constraintsD(2-4)[OF assms(2)]
  show ?thesis
    using assms(1)
  proof cases
    case (revise ds vs rs gs ss d d' v)
    then show ?thesis using D map_update_row[of dr_id ds d document_part d']
      by (auto simp: db_history_def tables_def)
  next
    case (advance ds vs rs gs ss r r')
    then show ?thesis using D map_update_row[of rq_id rs r frozen_part r']
      by (auto simp: db_history_def tables_def same_reads_more)
  next
    case (answer ds vs rs gs ss g g')
    then show ?thesis using D map_update_row[of sg_id gs g signer_part g']
      by (auto simp: db_history_def tables_def same_reads_more)
  next
    case (sign ds vs rs gs ss g g' x r)
    then show ?thesis using D map_update_row[of sg_id gs g signer_part g'] given_rows[OF sign(5)]
      by (auto simp: db_history_def tables_def)
  next
    case (complete ds vs rs gs ss r t g g' x)
    then show ?thesis using D map_update_row[of sg_id gs g signer_part g'] given_rows[OF complete(5)]
      by (auto simp: db_history_def tables_def map_table_update frozen_part_def)
  qed (auto simp: db_history_def tables_def same_reads_more map_table_update frozen_part_def document_part_def)
qed

section \<open>The invariant\<close>

definition documents_current :: "wf_db \<Rightarrow> bool" where
  "documents_current db \<longleftrightarrow> (\<forall>d\<in>set (wd_documents db). \<exists>v\<in>set (wd_versions db).
     vr_document_id v = dr_id d \<and> vr_version v = dr_version d \<and> vr_sha256 v = dr_sha256 d)"

definition requests_frozen :: "wf_db \<Rightarrow> bool" where
  "requests_frozen db \<longleftrightarrow> (\<forall>r\<in>set (wd_requests db). \<exists>v\<in>set (wd_versions db).
     vr_document_id v = rq_document_id r \<and> vr_version v = rq_document_version r \<and> vr_sha256 v = rq_document_sha256 r)"

definition versions_stored :: "(bytes \<Rightarrow> string) \<Rightarrow> wf_state \<Rightarrow> bool" where
  "versions_stored H s \<longleftrightarrow> (\<forall>v\<in>set (wd_versions (ws_db s)).
     \<exists>c. local_get (vr_storage_key v) (ws_objects s) = Inr c \<and> H c = vr_sha256 v)"

definition signed_rows_match :: "wf_db \<Rightarrow> bool" where
  "signed_rows_match db \<longleftrightarrow>
     (\<forall>x\<in>set (wd_signatures db). \<exists>g\<in>set (wd_signers db).
        sg_id g = sn_signer_id x \<and> sg_request_id g = sn_request_id x \<and> sg_status g = SgnSigned) \<and>
     (\<forall>g\<in>set (wd_signers db). sg_status g = SgnSigned \<longrightarrow>
        (\<exists>x\<in>set (wd_signatures db). sn_signer_id x = sg_id g \<and> sn_request_id x = sg_request_id g))"

definition signatures_frozen :: "wf_db \<Rightarrow> bool" where
  "signatures_frozen db \<longleftrightarrow> (\<forall>x\<in>set (wd_signatures db). \<exists>r\<in>set (wd_requests db).
     rq_id r = sn_request_id x \<and> rq_document_sha256 r = sn_document_sha256 x)"

definition artifacts_stored :: "(bytes \<Rightarrow> string) \<Rightarrow> wf_state \<Rightarrow> bool" where
  "artifacts_stored H s \<longleftrightarrow> (\<forall>x\<in>set (wd_signatures (ws_db s)). artifact_stored H (ws_objects s) x)"

definition db_inv :: "(bytes \<Rightarrow> string) \<Rightarrow> wf_state \<Rightarrow> bool" where
  "db_inv H s \<longleftrightarrow> wf_constraints_ok (ws_db s) \<and> documents_current (ws_db s) \<and> requests_frozen (ws_db s) \<and>
     versions_stored H s \<and> signed_rows_match (ws_db s) \<and> signatures_frozen (ws_db s) \<and> artifacts_stored H s"

lemma db_invD:
  assumes "db_inv H s"
  shows "wf_constraints_ok (ws_db s)" "documents_current (ws_db s)" "requests_frozen (ws_db s)" "versions_stored H s"
    "signed_rows_match (ws_db s)" "signatures_frozen (ws_db s)" "artifacts_stored H s"
  using assms by (simp_all add: db_inv_def)

text \<open>The parts that speak of rows written once follow from the history.\<close>

lemma frozen_rows_from:
  assumes "prefix (map frozen_part rs) (map frozen_part rs')" "r \<in> set rs"
  shows "\<exists>r'\<in>set rs'. frozen_part r' = frozen_part r"
  using assms set_mono_prefix[OF assms(1)] by force

lemma signatures_frozen_history:
  assumes "db_history s s'" "signatures_frozen (ws_db s)" "wd_signatures (ws_db s') = wd_signatures (ws_db s)"
  shows "signatures_frozen (ws_db s')"
  using assms frozen_rows_from[of "wd_requests (ws_db s)" "wd_requests (ws_db s')"] frozen_partD
  unfolding signatures_frozen_def db_history_def by metis

lemma artifact_more_reads: "more_reads objs objs' \<Longrightarrow> artifact_stored H objs x \<Longrightarrow> artifact_stored H objs' x"
  unfolding artifact_stored_def more_reads_def by blast

lemma effect_versions:
  assumes "db_effect H s s'" "versions_stored H s" "db_history s s'"
  shows "versions_stored H s'"
proof -
  have old: "\<exists>c. local_get (vr_storage_key v) (ws_objects s') = Inr c \<and> H c = vr_sha256 v" if "v \<in> set (wd_versions (ws_db s))" for v
    using that assms(2,3) unfolding versions_stored_def db_history_def more_reads_def by blast
  show ?thesis
    using assms(1) by cases (use old in \<open>auto simp: versions_stored_def tables_def records_version_def\<close>)
qed

lemma effect_artifacts:
  assumes "db_effect H s s'" "artifacts_stored H s" "db_history s s'"
  shows "artifacts_stored H s'"
proof -
  have "more_reads (ws_objects s) (ws_objects s')" using assms(3) by (simp add: db_history_def)
  then have old: "artifact_stored H (ws_objects s') x" if "x \<in> set (wd_signatures (ws_db s))" for x
    using that assms(2) artifact_more_reads unfolding artifacts_stored_def by blast
  show ?thesis
    using assms(1) by cases (use old in \<open>auto simp: artifacts_stored_def tables_def signature_given_def\<close>)
qed

lemma effect_documents:
  assumes "db_effect H s s'" "wf_constraints_ok (ws_db s)" "documents_current (ws_db s)"
  shows "documents_current (ws_db s')"
  using assms(1)
proof cases
  case (revise ds vs rs gs ss d d' v)
  then show ?thesis
    using assms(2,3) set_update_row[of dr_id ds d d'] wf_constraintsD(2)[OF assms(2)]
    by (auto simp: documents_current_def tables_def records_version_def)
next
  case (trash ds vs rs gs ss i t R)
  then show ?thesis using assms(3) by (auto simp: documents_current_def tables_def set_table_update)
qed (use assms(3) in \<open>auto simp: documents_current_def tables_def records_version_def\<close>)

lemma effect_requests:
  assumes "db_effect H s s'" "db_history s s'" "documents_current (ws_db s)" "requests_frozen (ws_db s)"
    "wf_constraints_ok (ws_db s)"
  shows "requests_frozen (ws_db s')"
proof -
  have versions: "set (wd_versions (ws_db s)) \<subseteq> set (wd_versions (ws_db s'))"
    using assms(2) set_mono_prefix unfolding db_history_def by blast
  have old: "\<exists>v\<in>set (wd_versions (ws_db s')). vr_document_id v = rq_document_id r' \<and>
      vr_version v = rq_document_version r' \<and> vr_sha256 v = rq_document_sha256 r'"
    if "frozen_part r' = frozen_part r" "r \<in> set (wd_requests (ws_db s))" for r r'
    using that versions assms(4) frozen_partD[OF that(1)] unfolding requests_frozen_def by (metis subsetD)
  show ?thesis
    using assms(1)
  proof cases
    case (draft ds vs rs gs ss r d)
    then have "\<exists>v\<in>set vs. vr_document_id v = rq_document_id r \<and> vr_version v = rq_document_version r \<and>
        vr_sha256 v = rq_document_sha256 r"
      using assms(3) unfolding documents_current_def tables_def by auto
    then show ?thesis using draft(1,2) old by (auto simp: requests_frozen_def tables_def)
  next
    case (trash ds vs rs gs ss i t R)
    then show ?thesis using old unfolding requests_frozen_def tables_def
      by (auto simp: set_table_update frozen_part_def)
  next
    case (link ds vs rs gs ss i h n)
    then show ?thesis using old unfolding requests_frozen_def tables_def
      by (auto simp: set_table_update frozen_part_def)
  next
    case (advance ds vs rs gs ss r r')
    then show ?thesis
      using old[OF advance(6)] old set_update_row[of rq_id rs r r'] wf_constraintsD(3)[OF assms(5)]
      unfolding requests_frozen_def tables_def by auto
  next
    case (complete ds vs rs gs ss r t g g' x)
    then show ?thesis using old unfolding requests_frozen_def tables_def
      by (auto simp: set_table_update frozen_part_def)
  qed (use old in \<open>auto simp: requests_frozen_def tables_def\<close>)
qed

lemma signed_answer:
  assumes "signed_rows_match db" "wf_constraints_ok db" "g \<in> set (wd_signers db)" "signer_part g' = signer_part g"
    "sg_status g' = SgnSigned \<longleftrightarrow> sg_status g = SgnSigned" "wd_signatures db' = wd_signatures db"
    "wd_signers db' = table_update (\<lambda>x. sg_id x = sg_id g) (\<lambda>_. g') (wd_signers db)"
  shows "signed_rows_match db'"
proof -
  have S: "set (wd_signers db') = insert g' (set (wd_signers db) - {g})"
    using set_update_row[OF wf_constraintsD(4)[OF assms(2)] assms(3)] assms(7) by simp
  have p: "sg_id g' = sg_id g" "sg_request_id g' = sg_request_id g" using signer_partD[OF assms(4)] by simp_all
  have "\<exists>h\<in>set (wd_signers db'). sg_id h = sn_signer_id x \<and> sg_request_id h = sn_request_id x \<and> sg_status h = SgnSigned"
    if x: "x \<in> set (wd_signatures db')" for x
  proof -
    obtain h where h: "h \<in> set (wd_signers db)" "sg_id h = sn_signer_id x" "sg_request_id h = sn_request_id x" "sg_status h = SgnSigned"
      using assms(1,6) x unfolding signed_rows_match_def by metis
    then show ?thesis using S p assms(5) by (cases "h = g") auto
  qed
  moreover have "\<exists>x\<in>set (wd_signatures db'). sn_signer_id x = sg_id h \<and> sn_request_id x = sg_request_id h"
    if "h \<in> set (wd_signers db')" "sg_status h = SgnSigned" for h
    using that S p assms(1,3,5,6) unfolding signed_rows_match_def by (cases "h = g'") auto
  ultimately show ?thesis unfolding signed_rows_match_def by blast
qed

lemma signed_given:
  assumes "signed_rows_match (ws_db s)" "wf_constraints_ok (ws_db s)" "signature_given H s objs g g' r x"
    "wd_signatures db' = wd_signatures (ws_db s) @ [x]"
    "wd_signers db' = table_update (\<lambda>x. sg_id x = sg_id g) (\<lambda>_. g') (wd_signers (ws_db s))"
  shows "signed_rows_match db'"
proof -
  note G = assms(3)[unfolded signature_given_def]
  have S: "set (wd_signers db') = insert g' (set (wd_signers (ws_db s)) - {g})"
    using set_update_row[OF wf_constraintsD(4)[OF assms(2)], of g g'] assms(5) G by simp
  have p: "sg_id g' = sg_id g" "sg_request_id g' = sg_request_id g" using G signer_partD by metis+
  have "\<exists>h\<in>set (wd_signers db'). sg_id h = sn_signer_id y \<and> sg_request_id h = sn_request_id y \<and> sg_status h = SgnSigned"
    if y: "y \<in> set (wd_signatures db')" for y
  proof (cases "y = x")
    case False
    then obtain h where "h \<in> set (wd_signers (ws_db s))" "sg_id h = sn_signer_id y" "sg_request_id h = sn_request_id y" "sg_status h = SgnSigned"
      using assms(1,4) y unfolding signed_rows_match_def by auto
    then show ?thesis using S G by (cases "h = g") auto
  qed (use S p G in auto)
  moreover have "\<exists>y\<in>set (wd_signatures db'). sn_signer_id y = sg_id h \<and> sn_request_id y = sg_request_id h"
    if "h \<in> set (wd_signers db')" "sg_status h = SgnSigned" for h
    using that S p G assms(1,4) unfolding signed_rows_match_def by (cases "h = g'") auto
  ultimately show ?thesis unfolding signed_rows_match_def by blast
qed

lemma effect_signed:
  assumes "db_effect H s s'" "wf_constraints_ok (ws_db s)" "signed_rows_match (ws_db s)"
  shows "signed_rows_match (ws_db s')"
  using assms(1)
proof cases
  case (answer ds vs rs gs ss g g')
  then show ?thesis using signed_answer[OF assms(3,2), of g g' "ws_db s'"] by (auto simp: tables_def)
next
  case (sign ds vs rs gs ss g g' x r)
  then show ?thesis using signed_given[OF assms(3,2) sign(5), of "ws_db s'"] by (auto simp: tables_def)
next
  case (complete ds vs rs gs ss r t g g' x)
  then show ?thesis using signed_given[OF assms(3,2) complete(5), of "ws_db s'"] by (auto simp: tables_def)
qed (use assms(3) in \<open>auto simp: signed_rows_match_def tables_def\<close>)

lemma effect_signatures_frozen:
  assumes "db_effect H s s'" "db_history s s'" "signatures_frozen (ws_db s)"
  shows "signatures_frozen (ws_db s')"
proof -
  have kept: "\<exists>r'\<in>set (wd_requests (ws_db s')). rq_id r' = rq_id r \<and> rq_document_sha256 r' = rq_document_sha256 r"
    if r: "r \<in> set (wd_requests (ws_db s))" for r
  proof -
    obtain r' where "r' \<in> set (wd_requests (ws_db s'))" "frozen_part r' = frozen_part r"
      using frozen_rows_from[OF _ r] assms(2) unfolding db_history_def by blast
    then show ?thesis using frozen_partD[of r' r] by blast
  qed
  have old: "\<exists>r'\<in>set (wd_requests (ws_db s')). rq_id r' = sn_request_id x \<and> rq_document_sha256 r' = sn_document_sha256 x"
    if "x \<in> set (wd_signatures (ws_db s))" for x
    using kept assms(3) that unfolding signatures_frozen_def by metis
  have new: "\<exists>r'\<in>set (wd_requests (ws_db s')). rq_id r' = sn_request_id x \<and> rq_document_sha256 r' = sn_document_sha256 x"
    if "signature_given H s objs g g' r x" for objs g g' r x
    using kept that unfolding signature_given_def by metis
  show ?thesis
    using assms(1)
  proof cases
    case (sign ds vs rs gs ss g g' x r)
    then have "wd_signatures (ws_db s') = wd_signatures (ws_db s) @ [x]" by (simp add: tables_def)
    then show ?thesis using old new[OF sign(5)] unfolding signatures_frozen_def by auto
  next
    case (complete ds vs rs gs ss r t g g' x)
    then have "wd_signatures (ws_db s') = wd_signatures (ws_db s) @ [x]" by (simp add: tables_def)
    then show ?thesis using old new[OF complete(5)] unfolding signatures_frozen_def by auto
  qed (use signatures_frozen_history[OF assms(2,3)] in \<open>simp_all add: tables_def\<close>)
qed

lemma db_step_history: "db_step H s s' \<Longrightarrow> db_inv H s \<Longrightarrow> db_history s s'"
  using db_step_sound effect_history db_invD(1) unfolding db_sound_def by blast

lemma db_step_inv:
  assumes "db_step H s s'" "db_inv H s"
  shows "db_inv H s'"
proof -
  note I = db_invD[OF assms(2)]
  have eff: "db_effect H s s'" and ok: "wf_constraints_ok (ws_db s')"
    using db_step_sound[OF assms(1)] I(1) unfolding db_sound_def by blast+
  have hist: "db_history s s'" by (rule effect_history[OF eff I(1)])
  show ?thesis
    unfolding db_inv_def
    using ok effect_documents[OF eff I(1,2)] effect_requests[OF eff hist I(2,3,1)] effect_versions[OF eff I(4) hist]
      effect_signed[OF eff I(1,5)] effect_signatures_frozen[OF eff hist I(6)] effect_artifacts[OF eff I(7) hist] by blast
qed

section \<open>The lifecycle\<close>

definition request_statuses :: "request_row list \<Rightarrow> uuid \<Rightarrow> request_status option" where
  "request_statuses rs = map_of (map (\<lambda>r. (rq_id r, rq_status r)) rs)"

definition signer_statuses :: "signer_row list \<Rightarrow> uuid \<Rightarrow> (uuid \<times> signer_status) option" where
  "signer_statuses gs = map_of (map (\<lambda>g. (sg_id g, sg_request_id g, sg_status g)) gs)"

definition db_abs :: "wf_state \<Rightarrow> lifecycle" where
  "db_abs s = \<lparr>lc_request = request_statuses (wd_requests (ws_db s)), lc_signer = signer_statuses (wd_signers (ws_db s))\<rparr>"

lemma request_statuses_iff:
  "distinct (map rq_id rs) \<Longrightarrow> request_statuses rs i = Some q \<longleftrightarrow> (\<exists>r\<in>set rs. rq_id r = i \<and> rq_status r = q)"
  unfolding request_statuses_def by (rule map_of_rows)

lemma signer_statuses_iff:
  "distinct (map sg_id gs) \<Longrightarrow> signer_statuses gs i = Some (r, st) \<longleftrightarrow>
     (\<exists>g\<in>set gs. sg_id g = i \<and> sg_request_id g = r \<and> sg_status g = st)"
  unfolding signer_statuses_def by (subst map_of_rows[where k = sg_id and f = "\<lambda>g. (sg_request_id g, sg_status g)"]) auto

lemma request_statuses_update:
  "r \<in> set rs \<Longrightarrow> rq_id r' = rq_id r \<Longrightarrow>
   request_statuses (table_update (\<lambda>x. rq_id x = rq_id r) (\<lambda>_. r') rs) = (request_statuses rs)(rq_id r \<mapsto> rq_status r')"
  unfolding request_statuses_def by (rule map_of_update_row) auto

lemma request_statuses_set:
  "r \<in> set rs \<Longrightarrow> request_statuses (table_update (\<lambda>x. rq_id x = rq_id r)
     (\<lambda>x. x\<lparr>rq_status := ReqCompleted, rq_completed_at := Some t\<rparr>) rs) = (request_statuses rs)(rq_id r \<mapsto> ReqCompleted)"
  using map_of_update_rows[where k = rq_id and f = rq_status and c = ReqCompleted and R = "{rq_id r}"
      and g = "\<lambda>x. x\<lparr>rq_status := ReqCompleted, rq_completed_at := Some t\<rparr>" and rows = rs]
    map_of_rows_None[where k = rq_id and f = rq_status and rows = rs and i = "rq_id r"]
  by (auto simp: request_statuses_def fun_eq_iff)

lemma signer_statuses_update:
  "g \<in> set gs \<Longrightarrow> sg_id g' = sg_id g \<Longrightarrow>
   signer_statuses (table_update (\<lambda>x. sg_id x = sg_id g) (\<lambda>_. g') gs) = (signer_statuses gs)(sg_id g \<mapsto> (sg_request_id g', sg_status g'))"
  unfolding signer_statuses_def
  using map_of_update_row[where k = sg_id and f = "\<lambda>g. (sg_request_id g, sg_status g)" and y = g'] by auto

lemma request_statuses_append:
  "rq_id r \<notin> rq_id ` set rs \<Longrightarrow> request_statuses (rs @ [r]) = (request_statuses rs)(rq_id r \<mapsto> rq_status r)"
  "rq_id r \<notin> rq_id ` set rs \<Longrightarrow> request_statuses rs (rq_id r) = None"
  unfolding request_statuses_def by (rule map_of_append_row) (simp_all add: map_of_rows_None)

lemma signer_statuses_append:
  "sg_id g \<notin> sg_id ` set gs \<Longrightarrow> signer_statuses (gs @ [g]) = (signer_statuses gs)(sg_id g \<mapsto> (sg_request_id g, sg_status g))"
  "sg_id g \<notin> sg_id ` set gs \<Longrightarrow> signer_statuses gs (sg_id g) = None"
  unfolding signer_statuses_def
  by (rule map_of_append_row[where k = sg_id and f = "\<lambda>g. (sg_request_id g, sg_status g)"])
    (simp_all add: map_of_rows_None[where k = sg_id and f = "\<lambda>g. (sg_request_id g, sg_status g)"])

text \<open>Cancelling several requests is one step of the lifecycle for each.\<close>

lemma lc_cancel_many:
  "distinct is \<Longrightarrow> (\<And>i. i \<in> set is \<Longrightarrow> lc_request L i = Some ReqDraft \<or> lc_request L i = Some ReqOpen) \<Longrightarrow>
   lc_step\<^sup>*\<^sup>* L (L\<lparr>lc_request := \<lambda>j. if j \<in> set is then Some ReqCancelled else lc_request L j\<rparr>)"
proof (induction "is" arbitrary: L)
  case (Cons i "is")
  let ?L = "L\<lparr>lc_request := (lc_request L)(i \<mapsto> ReqCancelled)\<rparr>"
  have "lc_step L ?L" using Cons.prems(2)[of i] by (intro lc_step.cancel) simp
  moreover have "lc_step\<^sup>*\<^sup>* ?L (?L\<lparr>lc_request := \<lambda>j. if j \<in> set is then Some ReqCancelled else lc_request ?L j\<rparr>)"
  proof (rule Cons.IH)
    fix j assume "j \<in> set is"
    then show "lc_request ?L j = Some ReqDraft \<or> lc_request ?L j = Some ReqOpen" using Cons.prems by auto
  qed (use Cons.prems in simp)
  moreover have "?L\<lparr>lc_request := \<lambda>j. if j \<in> set is then Some ReqCancelled else lc_request ?L j\<rparr>
      = L\<lparr>lc_request := \<lambda>j. if j \<in> set (i # is) then Some ReqCancelled else lc_request L j\<rparr>" by (auto simp: fun_eq_iff)
  ultimately show ?case by (metis converse_rtranclp_into_rtranclp)
qed simp

lemma request_statuses_cancel:
  "request_statuses (table_update (\<lambda>r. rq_id r \<in> R) (rq_status_update (\<lambda>_. ReqCancelled)) rs) =
   (\<lambda>j. if j \<in> set (remdups (filter (\<lambda>i. i \<in> R) (map rq_id rs))) then Some ReqCancelled else request_statuses rs j)"
proof
  fix j
  have "map_of (map (\<lambda>r. (rq_id r, rq_status r)) rs) j = None \<longleftrightarrow> j \<notin> rq_id ` set rs" by (rule map_of_rows_None)
  then show "request_statuses (table_update (\<lambda>r. rq_id r \<in> R) (rq_status_update (\<lambda>_. ReqCancelled)) rs) j =
    (if j \<in> set (remdups (filter (\<lambda>i. i \<in> R) (map rq_id rs))) then Some ReqCancelled else request_statuses rs j)"
    using map_of_update_rows[where k = rq_id and f = rq_status and c = ReqCancelled and R = R
      and g = "rq_status_update (\<lambda>_. ReqCancelled)" and rows = rs and i = j]
    by (cases "map_of (map (\<lambda>r. (rq_id r, rq_status r)) rs) j") (auto simp: request_statuses_def)
qed

text \<open>The count of pending signers decides as the lifecycle does.\<close>

lemma pending_others:
  assumes "distinct (map sg_id gs)" "g \<in> set gs" "sg_id g' = sg_id g" "sg_status g' = SgnSigned"
    "wd_signers db = table_update (\<lambda>x. sg_id x = sg_id g) (\<lambda>_. g') gs"
  shows "pending_signers db r = 0 \<longleftrightarrow> others_signed \<lparr>lc_request = q, lc_signer = signer_statuses gs\<rparr> r (sg_id g)"
proof -
  have S: "set (wd_signers db) = insert g' (set gs - {g})" using set_update_row[OF assms(1,2)] assms(5) by simp
  have "pending_signers db r = 0 \<longleftrightarrow> (\<forall>h\<in>set gs - {g}. sg_request_id h = r \<longrightarrow> sg_status h = SgnSigned)"
    using assms(4) by (auto simp: pending_signers_def request_signers_def filter_empty_conv S)
  also have "\<dots> \<longleftrightarrow> others_signed \<lparr>lc_request = q, lc_signer = signer_statuses gs\<rparr> r (sg_id g)"
  proof
    assume L: "\<forall>h\<in>set gs - {g}. sg_request_id h = r \<longrightarrow> sg_status h = SgnSigned"
    show "others_signed \<lparr>lc_request = q, lc_signer = signer_statuses gs\<rparr> r (sg_id g)"
      using L by (auto simp: others_signed_def signer_statuses_iff[OF assms(1)])
  next
    assume R: "others_signed \<lparr>lc_request = q, lc_signer = signer_statuses gs\<rparr> r (sg_id g)"
    show "\<forall>h\<in>set gs - {g}. sg_request_id h = r \<longrightarrow> sg_status h = SgnSigned"
    proof (intro ballI impI)
      fix h assume h: "h \<in> set gs - {g}" "sg_request_id h = r"
      then have "sg_id h \<noteq> sg_id g" "signer_statuses gs (sg_id h) = Some (r, sg_status h)"
        using distinct_map_eq[OF assms(1) _ assms(2)] by (auto simp: signer_statuses_iff[OF assms(1)])
      then show "sg_status h = SgnSigned" using R unfolding others_signed_def by simp
    qed
  qed
  finally show ?thesis .
qed

lemma effect_simulates:
  assumes "db_effect H s s'" "wf_constraints_ok (ws_db s)" "wf_constraints_ok (ws_db s')"
  shows "lc_step\<^sup>*\<^sup>* (db_abs s) (db_abs s')"
proof -
  note D = wf_constraintsD(2-4)[OF assms(2)] and D' = wf_constraintsD(2-4)[OF assms(3)]
  show ?thesis
    using assms(1)
  proof cases
    case (trash ds vs rs gs ss i t R)
    let ?is = "remdups (filter (\<lambda>i. i \<in> R) (map rq_id rs))"
    have e: "db_abs s = \<lparr>lc_request = request_statuses rs, lc_signer = signer_statuses gs\<rparr>"
      using trash(1) by (simp add: db_abs_def tables_def)
    have "lc_step\<^sup>*\<^sup>* (db_abs s) ((db_abs s)\<lparr>lc_request := \<lambda>j. if j \<in> set ?is then Some ReqCancelled else lc_request (db_abs s) j\<rparr>)"
      using trash(1,5) D(2) by (intro lc_cancel_many) (auto simp: db_abs_def tables_def request_statuses_iff)
    then show ?thesis unfolding e using trash(2) request_statuses_cancel[of R rs] by (simp add: db_abs_def tables_def cong: if_cong)
  next
    case (draft ds vs rs gs ss r d)
    have "rq_id r \<notin> rq_id ` set rs" using D'(2) draft(2) by (auto simp: tables_def)
    then have "request_statuses (rs @ [r]) = (request_statuses rs)(rq_id r \<mapsto> ReqDraft)" "request_statuses rs (rq_id r) = None"
      using draft(9) request_statuses_append[of r rs] by simp_all
    then show ?thesis using draft(1,2) lc_step.create[of "db_abs s" "rq_id r"] by (auto simp: db_abs_def tables_def)
  next
    case (invite ds vs rs gs ss g r)
    have "sg_id g \<notin> sg_id ` set gs" using D'(3) invite(2) by (auto simp: tables_def)
    then have "signer_statuses (gs @ [g]) = (signer_statuses gs)(sg_id g \<mapsto> (rq_id r, SgnPending))" "signer_statuses gs (sg_id g) = None"
      using invite(7,8) signer_statuses_append[of g gs] by simp_all
    moreover have "request_statuses rs (rq_id r) = Some ReqDraft" using D(2) invite(1,5,6) by (auto simp: request_statuses_iff tables_def)
    ultimately show ?thesis using invite(1,2) lc_step.add_signer[of "db_abs s" "rq_id r" "sg_id g"] by (auto simp: db_abs_def tables_def)
  next
    case (link ds vs rs gs ss i h n)
    have "request_statuses (table_update (\<lambda>x. rq_id x = i) (\<lambda>x. x\<lparr>rq_signing_token_nonce := n, rq_signing_token_hash := h\<rparr>) rs)
        = request_statuses rs"
      unfolding request_statuses_def by (simp add: map_table_update)
    then show ?thesis using link(1,2) by (simp add: db_abs_def tables_def)
  next
    case (advance ds vs rs gs ss r r')
    have upd: "request_statuses (table_update (\<lambda>x. rq_id x = rq_id r) (\<lambda>_. r') rs) = (request_statuses rs)(rq_id r \<mapsto> rq_status r')"
      using advance(5,6) request_statuses_update frozen_partD by blast
    have now: "request_statuses rs (rq_id r) = Some (rq_status r)" using D(2) advance(1,5) by (auto simp: request_statuses_iff tables_def)
    show ?thesis
    proof (cases "rq_status r' = ReqCancelled")
      case True
      then show ?thesis using advance(1,2,7) upd now lc_step.cancel[of "db_abs s" "rq_id r"] by (auto simp: db_abs_def tables_def)
    next
      case False
      then obtain g where g: "g \<in> set gs" "sg_request_id g = rq_id r" "rq_status r = ReqDraft" "rq_status r' = ReqOpen" using advance(7) by auto
      then have "signer_statuses gs (sg_id g) = Some (rq_id r, sg_status g)" using D(3) advance(1) by (auto simp: signer_statuses_iff tables_def)
      then show ?thesis using advance(1,2) g upd now lc_step.open_it[of "db_abs s" "rq_id r" "sg_id g"] by (auto simp: db_abs_def tables_def)
    qed
  next
    case (answer ds vs rs gs ss g g')
    note p = signer_partD[OF answer(6)]
    have upd: "signer_statuses (table_update (\<lambda>x. sg_id x = sg_id g) (\<lambda>_. g') gs) = (signer_statuses gs)(sg_id g \<mapsto> (sg_request_id g, sg_status g'))"
      using signer_statuses_update[OF answer(5)] p by simp
    have now: "signer_statuses gs (sg_id g) = Some (sg_request_id g, sg_status g)" using D(3) answer(1,5) by (auto simp: signer_statuses_iff tables_def)
    show ?thesis
    proof (cases "sg_status g' = sg_status g")
      case True
      then show ?thesis using answer(1,2) upd now by (simp add: db_abs_def tables_def fun_upd_idem)
    next
      case False
      then have "request_statuses rs (sg_request_id g) = Some ReqOpen" using D(2) answer(1,7) by (auto simp: request_statuses_iff tables_def)
      then show ?thesis using False answer(1,2,7) upd now lc_step.view[of "db_abs s" "sg_request_id g" "sg_id g"]
          lc_step.decline[of "db_abs s" "sg_request_id g" "sg_id g" "sg_status g"] by (auto simp: db_abs_def tables_def)
    qed
  next
    case (sign ds vs rs gs ss g g' x r)
    note G = sign(5)[unfolded signature_given_def] and R = given_rows[OF sign(5)]
    have upd: "signer_statuses (table_update (\<lambda>x. sg_id x = sg_id g) (\<lambda>_. g') gs) = (signer_statuses gs)(sg_id g \<mapsto> (rq_id r, SgnSigned))"
      using signer_statuses_update[of g gs g'] sign(1) G R signer_partD[OF R(3)] by (simp add: tables_def)
    have now: "signer_statuses gs (sg_id g) = Some (rq_id r, sg_status g)" "request_statuses rs (rq_id r) = Some ReqOpen"
      using D(2,3) sign(1) G by (auto simp: signer_statuses_iff request_statuses_iff tables_def)
    have "\<not> others_signed (db_abs s) (rq_id r) (sg_id g)"
      using pending_others[of gs g g' "ws_db s'" "rq_id r"] D(3) sign(1,2,6) G R by (simp add: db_abs_def tables_def)
    then show ?thesis using sign(1,2) G upd now lc_step.sign[of "db_abs s" "rq_id r" "sg_id g" "sg_status g"]
      by (auto simp: db_abs_def tables_def)
  next
    case (complete ds vs rs gs ss r t g g' x)
    note G = complete(5)[unfolded signature_given_def] and R = given_rows[OF complete(5)]
    have upd: "signer_statuses (table_update (\<lambda>x. sg_id x = sg_id g) (\<lambda>_. g') gs) = (signer_statuses gs)(sg_id g \<mapsto> (rq_id r, SgnSigned))"
      "request_statuses (table_update (\<lambda>x. rq_id x = rq_id r) (\<lambda>x. x\<lparr>rq_status := ReqCompleted, rq_completed_at := Some t\<rparr>) rs)
        = (request_statuses rs)(rq_id r \<mapsto> ReqCompleted)"
      using signer_statuses_update[of g gs g'] request_statuses_set[of r rs t] complete(1) G R signer_partD[OF R(3)]
      by (simp_all add: tables_def)
    have now: "signer_statuses gs (sg_id g) = Some (rq_id r, sg_status g)" "request_statuses rs (rq_id r) = Some ReqOpen"
      using D(2,3) complete(1) G by (auto simp: signer_statuses_iff request_statuses_iff tables_def)
    have "others_signed (db_abs s) (rq_id r) (sg_id g)"
      using pending_others[of gs g g' "ws_db s'" "rq_id r"] D(3) complete(1,2,6) G R by (simp add: db_abs_def tables_def)
    then show ?thesis using complete(1,2) G upd now lc_step.sign_last[of "db_abs s" "rq_id r" "sg_id g" "sg_status g"]
      by (auto simp: db_abs_def tables_def)
  qed (auto simp: db_abs_def tables_def)
qed

section \<open>The service as a signing service\<close>

definition db_init :: wf_state where
  "db_init = \<lparr>ws_db = \<lparr>wd_core = empty_core, wd_documents = [], wd_versions = [], wd_requests = [], wd_signers = [],
     wd_signatures = []\<rparr>, ws_objects = []\<rparr>"

interpretation dbw: signing_service "db_step H" db_init "db_inv H" db_abs
  for H :: "bytes \<Rightarrow> string"
proof unfold_locales
  show "db_inv H db_init"
    by (simp add: db_inv_def db_init_def wf_constraints_ok_def constraints_ok_def tenants_ok_def members_ok_def accounts_ok_def
        billing_rows_ok_def empty_core_def documents_ok_def versions_ok_def requests_ok_def signers_ok_def signatures_rows_ok_def
        audit_rows_ok_def present_def documents_current_def requests_frozen_def versions_stored_def signed_rows_match_def
        signatures_frozen_def artifacts_stored_def)
  show "db_abs db_init = lc_init"
    by (simp add: db_abs_def db_init_def lc_init_def request_statuses_def signer_statuses_def fun_eq_iff)
  fix s t assume "db_step H s t" "db_inv H s"
  then show "db_inv H t" by (rule db_step_inv)
  show "lc_step\<^sup>*\<^sup>* (db_abs s) (db_abs t)"
    using db_step_sound[OF \<open>db_step H s t\<close>] db_invD(1)[OF \<open>db_inv H s\<close>] effect_simulates unfolding db_sound_def by blast
qed

lemma db_run_history: "(db_step H)\<^sup>*\<^sup>* s t \<Longrightarrow> db_inv H s \<Longrightarrow> db_history s t"
proof (induction rule: rtranclp_induct)
  case (step t u)
  have "db_inv H t" using dbw.inv_steps step by blast
  then show ?case using step db_step_history db_history_trans by blast
qed simp

end
