(* ===== verification/Database_Demo.thy ===== *)
theory Database_Demo
  imports Database_Invariants
begin

text \<open>
  A concrete environment and concrete states of the database workflow, on which the properties of
  \<open>Database_Claims\<close> are evaluated: a tenant with one administrator, a stored document and a
  request with two signers, in any status. The digest keeps the first thirty bytes, the HMAC
  prepends a letter, and the draws of \<open>uuid4\<close> come in descending order.
\<close>

definition demo_clock :: core_env where
  "demo_clock = \<lparr>ce_now = 1000, ce_user_id = None, ce_token_urlsafe = (\<lambda>n. replicate n CHR ''s''),
     ce_collate = id, ce_encrypt = id, ce_hmac = id, ce_auth_resolve = (\<lambda>e. AuthDown),
     ce_auth_invite = (\<lambda>c. AuthDown)\<rparr>"

definition demo_wf :: wf_env where
  "demo_wf = \<lparr>we_core = demo_clock, we_uuid4 = (\<lambda>n. 90 - n), we_uuid5 = (\<lambda>s. 7), we_sha256 = take 30,
     we_hmac = (\<lambda>s. ''h'' @ s), we_isoformat = (\<lambda>t. ''now''), we_float_repr = (\<lambda>r. ''0.5''), we_limits = demo_limits,
     we_parse_pdf = (\<lambda>b. Inr (demo_pdf PdfValue)),
     we_pdf = demo_pdf_lib,
     we_embedded_signatures = (\<lambda>b. Inr False), we_timestamp_enabled = False, we_timestamp = (\<lambda>b. Inr (b, None)),
     we_serproid_configured = False, we_identity_reply = (\<lambda>e. None), we_send = (\<lambda>m. True), we_environment = ''test'',
     we_signing_app_url = ''https://app''\<rparr>"

definition demo_rows :: core_db where
  "demo_rows = \<lparr>cdb_next = 20,
     cdb_tenants = [new_tenant 0 900 ''Ana'' ''ana'' ''pt-BR'' (Some ''BR'') ''UTC'' ''BRL''],
     cdb_members = [new_member 2 900 0 ''ana@x.io'' None ''admin'' None],
     cdb_accounts = [new_account 3 900 0], cdb_events = [], cdb_payments = [], cdb_audit = []\<rparr>"

definition demo_key :: string where
  "demo_key = document_storage_scope 0 7 @ ''/'' @ uuid_hex 5"

definition demo_document :: document_row where
  "demo_document = \<lparr>dr_id = 81, dr_created_at = 900, dr_updated_at = 900, dr_deleted_at = None,
     dr_organization_id = ''ana'', dr_tenant_id = 0, dr_title = ''Lease'', dr_original_filename = ''a.pdf'',
     dr_content_type = ''application/pdf'', dr_storage_key = demo_key, dr_sha256 = demo_pdf_bytes, dr_version = 1,
     dr_status = DocReady, dr_created_by = ''ana@x.io''\<rparr>"

definition demo_version :: version_row where
  "demo_version = \<lparr>vr_id = 80, vr_created_at = 900, vr_document_id = 81, vr_version = 1,
     vr_original_filename = ''a.pdf'', vr_content_type = ''application/pdf'', vr_storage_key = demo_key,
     vr_sha256 = demo_pdf_bytes, vr_size_bytes = 14, vr_created_by = ''ana@x.io''\<rparr>"

definition demo_token :: string where
  "demo_token = request_token demo_wf 77 ''n''"

definition demo_request :: "request_status \<Rightarrow> request_row" where
  "demo_request st = \<lparr>rq_id = 77, rq_created_at = 900, rq_deleted_at = None, rq_document_id = 81,
     rq_document_version = 1, rq_document_sha256 = demo_pdf_bytes, rq_status = st, rq_expires_at = 2000,
     rq_created_by = ''ana@x.io'', rq_completed_at = None, rq_signing_token_hash = Some (we_sha256 demo_wf demo_token),
     rq_signing_token_nonce = Some ''n'', rq_signature_mode = ModeEvidence, rq_issuer_snapshot = None\<rparr>"

definition demo_signer :: "uuid \<Rightarrow> string \<Rightarrow> signer_status \<Rightarrow> signer_row" where
  "demo_signer i email st = \<lparr>sg_id = i, sg_created_at = 900, sg_deleted_at = None, sg_request_id = 77,
     sg_auth_user_id = email, sg_name = email, sg_email = email, sg_preferred_locale = En,
     sg_signing_token_hash = email, sg_token_expires_at = 5000, sg_link_revoked_at = None, sg_status = st,
     sg_signed_at = None, sg_participant_role = PersonalSigner, sg_represented_tenant_id = None,
     sg_representation_snapshot = None\<rparr>"

definition demo_signature :: "uuid \<Rightarrow> uuid \<Rightarrow> string \<Rightarrow> datetime \<Rightarrow> signature_row" where
  "demo_signature i g email t = \<lparr>sn_id = i, sn_request_id = 77, sn_signer_id = g, sn_auth_user_id = email,
     sn_document_sha256 = demo_pdf_bytes, sn_signed_at = t, sn_evidence = [], sn_evidence_sha256 = None,
     sn_artifact_storage_key = Some (uuid_hex i), sn_artifact_sha256 = Some email, sn_trusted_timestamp = None\<rparr>"

definition demo_state :: "request_status \<Rightarrow> signer_status \<Rightarrow> signer_status \<Rightarrow> signature_row list \<Rightarrow> wf_state" where
  "demo_state st a b sigs =
     \<lparr>ws_db = \<lparr>wd_core = demo_rows, wd_documents = [demo_document], wd_versions = [demo_version],
        wd_requests = [demo_request st], wd_signers = [demo_signer 74 ''bia@x.io'' a, demo_signer 70 ''caio@x.io'' b],
        wd_signatures = sigs\<rparr>,
      ws_objects = (demo_key, demo_pdf_bytes) # map (\<lambda>x. (uuid_hex (sn_id x), sn_auth_user_id x)) sigs\<rparr>"

text \<open>A request opened for two signers, and the same request after both have signed, the first signature
  having drawn the larger id.\<close>

definition demo_open :: wf_state where
  "demo_open = demo_state ReqOpen SgnPending SgnPending []"

definition demo_completed :: wf_state where
  "demo_completed = demo_state ReqCompleted SgnSigned SgnSigned
     [demo_signature 60 74 ''bia@x.io'' 950, demo_signature 55 70 ''caio@x.io'' 980]"

definition demo_input :: signing_input where
  "demo_input = \<lparr>si_stamp = \<lparr>st_page = 1, st_x = 1/2, st_y = 1/2, st_template = TemplateINTL, st_country_code = None,
       st_show_flag = False, st_template_version = ''v1'', st_locale = En, st_timezone = ''UTC''\<rparr>,
     si_consent_version = ''v1'', si_client = None, si_geolocation = None, si_ip_address = ''1.1.1.1'',
     si_user_agent = ''ua''\<rparr>"

section \<open>The invariant holds of them\<close>

lemma demo_constraints:
  "wf_constraints_ok (ws_db demo_open)" "wf_constraints_ok (ws_db demo_completed)"
  by code_simp+

lemma demo_stored:
  "local_get demo_key (ws_objects demo_open) = Inr demo_pdf_bytes"
  "local_get demo_key (ws_objects demo_completed) = Inr demo_pdf_bytes"
  "local_get (uuid_hex 60) (ws_objects demo_completed) = Inr ''bia@x.io''"
  "local_get (uuid_hex 55) (ws_objects demo_completed) = Inr ''caio@x.io''"
  by code_simp+

lemma demo_digests: "we_sha256 demo_wf = take 30" "take 30 demo_pdf_bytes = demo_pdf_bytes"
  by (simp_all add: demo_wf_def demo_pdf_bytes_def)

lemmas demo_rows_defs = demo_document_def demo_version_def demo_request_def demo_signer_def demo_signature_def
lemmas demo_inv_defs = documents_current_def requests_frozen_def versions_stored_def signed_rows_match_def
  signatures_frozen_def artifacts_stored_def artifact_stored_def

lemma demo_open_rows:
  "wd_documents (ws_db demo_open) = [demo_document]" "wd_versions (ws_db demo_open) = [demo_version]"
  "wd_requests (ws_db demo_open) = [demo_request ReqOpen]" "wd_signatures (ws_db demo_open) = []"
  "wd_signers (ws_db demo_open) = [demo_signer 74 ''bia@x.io'' SgnPending, demo_signer 70 ''caio@x.io'' SgnPending]"
  "wd_core (ws_db demo_open) = demo_rows"
  by (simp_all add: demo_open_def demo_state_def)

lemma demo_completed_rows:
  "wd_documents (ws_db demo_completed) = [demo_document]" "wd_versions (ws_db demo_completed) = [demo_version]"
  "wd_requests (ws_db demo_completed) = [demo_request ReqCompleted]"
  "wd_signatures (ws_db demo_completed) =
     [demo_signature 60 74 ''bia@x.io'' 950, demo_signature 55 70 ''caio@x.io'' 980]"
  "wd_signers (ws_db demo_completed) = [demo_signer 74 ''bia@x.io'' SgnSigned, demo_signer 70 ''caio@x.io'' SgnSigned]"
  "wd_core (ws_db demo_completed) = demo_rows"
  by (simp_all add: demo_completed_def demo_state_def)

lemma demo_open_inv: "db_inv (we_sha256 demo_wf) demo_open"
  unfolding db_inv_def demo_inv_defs demo_open_rows
  using demo_constraints(1) by (simp add: demo_rows_defs demo_stored demo_digests)

lemma demo_completed_inv: "db_inv (we_sha256 demo_wf) demo_completed"
  unfolding db_inv_def demo_inv_defs demo_completed_rows
  using demo_constraints(2) by (simp add: demo_rows_defs demo_stored demo_digests)

section \<open>A signature\<close>

lemma sign_committed:
  assumes "prepare_signature E token user i (identity_of E user) certificate info s = Inr (g, r, d, a, db)"
    "local_put (we_uuid4 E (wd_next db + 1))
       (Some (document_storage_scope (dr_tenant_id d) (document_owner_storage_id E db d))) (sa_content a) (ws_objects s)
       = (Inr (key, n), objs)"
    "record_signature E (wd_next db + 2) g r user a key (draws 3 db) = Inr (v, db')" "wf_constraints_ok db'"
  shows "db_sign E token user True i certificate info s = (Inr v, \<lparr>ws_db = wf_synced db', ws_objects = objs\<rparr>)"
  using assms by (simp add: db_sign_def store_then_def wf_commit_ok)

text \<open>The steps up to the artifact, and what is recorded for any artifact with that content.\<close>

definition demo_charged :: wf_db where
  "demo_charged = (case consume_signature 1000 0 demo_rows of Inl e \<Rightarrow> ws_db demo_open | Inr core \<Rightarrow> (ws_db demo_open)\<lparr>wd_core := core\<rparr>)"

lemma demo_prepared:
  "map_sum id (\<lambda>(g, r, d, a, db). (g, r, d, sa_content a, db))
     (prepare_signature demo_wf demo_token ''bia@x.io'' demo_input (identity_of demo_wf ''bia@x.io'') None None demo_open)
   = Inr (demo_signer 74 ''bia@x.io'' SgnPending, demo_request ReqOpen, demo_document, demo_pdf_bytes @ ''stamp'', demo_charged)"
  by code_simp

lemma demo_put:
  "case local_put (we_uuid4 demo_wf (wd_next demo_charged + 1)) (Some (document_storage_scope (dr_tenant_id demo_document)
      (document_owner_storage_id demo_wf demo_charged demo_document))) (demo_pdf_bytes @ ''stamp'') (ws_objects demo_open) of
     (Inr (key, n), objs) \<Rightarrow> key = document_storage_scope 0 7 @ ''/'' @ uuid_hex 69 | _ \<Rightarrow> False"
  by code_simp

lemma demo_recorded:
  "case record_signature demo_wf (wd_next demo_charged + 2) (demo_signer 74 ''bia@x.io'' SgnPending) (demo_request ReqOpen)
      ''bia@x.io'' a (document_storage_scope 0 7 @ ''/'' @ uuid_hex 69) (draws 3 demo_charged) of
     Inl e \<Rightarrow> False | Inr (v, db') \<Rightarrow> wf_constraints_ok db'"
  by code_simp

lemma demo_signs:
  "\<exists>v s'. db_sign demo_wf demo_token ''bia@x.io'' True demo_input None None demo_open = (Inr v, s')"
proof -
  obtain a where a: "prepare_signature demo_wf demo_token ''bia@x.io'' demo_input (identity_of demo_wf ''bia@x.io'') None None demo_open
      = Inr (demo_signer 74 ''bia@x.io'' SgnPending, demo_request ReqOpen, demo_document, a, demo_charged)"
    "sa_content a = demo_pdf_bytes @ ''stamp''"
    using demo_prepared by (auto simp: map_sum_Inr)
  obtain n objs where p: "local_put (we_uuid4 demo_wf (wd_next demo_charged + 1)) (Some (document_storage_scope (dr_tenant_id demo_document)
      (document_owner_storage_id demo_wf demo_charged demo_document))) (sa_content a) (ws_objects demo_open)
      = (Inr (document_storage_scope 0 7 @ ''/'' @ uuid_hex 69, n), objs)"
    using demo_put unfolding a(2) by (auto split: prod.splits sum.splits)
  obtain v db' where r: "record_signature demo_wf (wd_next demo_charged + 2) (demo_signer 74 ''bia@x.io'' SgnPending) (demo_request ReqOpen)
      ''bia@x.io'' a (document_storage_scope 0 7 @ ''/'' @ uuid_hex 69) (draws 3 demo_charged) = Inr (v, db')" "wf_constraints_ok db'"
    using demo_recorded[of a] by (auto split: prod.splits sum.splits)
  show ?thesis using sign_committed[OF a(1) p r] by blast
qed

end
