(* ===== verification/Database_Claims.thy ===== *)
theory Database_Claims
  imports Database_Demo
begin

text \<open>
  Properties of \<open>DatabaseSignatureWorkflowService\<close>: what holds in every state its methods can
  reach, what a signature requires and does, and what a failed method leaves behind.
\<close>

section \<open>The lifecycle\<close>

text \<open>C1: every state the methods reach from an empty database, interleaved in any way with the commits of
  the tenant and billing services, satisfies the invariants of the service, and its requests and signers
  have gone through the abstract lifecycle only.\<close>

theorem db_refines_lifecycle:
  assumes "(db_step H)\<^sup>*\<^sup>* db_init s"
  shows "db_inv H s \<and> lc_step\<^sup>*\<^sup>* lc_init (db_abs s) \<and> lc_inv (db_abs s)"
  using dbw.reachable_inv[OF assms] dbw.simulates_run[OF assms dbw.inv_init] dbw.reachable_lifecycle[OF assms]
  by (simp add: dbw.abs_init)

definition demo_run :: wf_state where
  "demo_run = snd (db_open_request demo_wf (uuid_str 77) ''ana@x.io'' ModeEvidence
     (snd (db_create_document demo_wf \<lparr>dc_organization_id = ''ana'', dc_title = ''Lease'',
        dc_original_filename = ''a.pdf'', dc_content_type = ''application/pdf'', dc_created_by = ''ana@x.io''\<rparr>
        demo_pdf_bytes (db_init\<lparr>ws_db := (ws_db db_init)\<lparr>wd_core := demo_rows\<rparr>\<rparr>))))"

theorem db_refines_lifecycle_witness:
  "db_inv (take 30) demo_run \<and> lc_step\<^sup>*\<^sup>* lc_init (db_abs demo_run) \<and> lc_inv (db_abs demo_run)"
proof (rule db_refines_lifecycle)
  define s where "s = db_init\<lparr>ws_db := (ws_db db_init)\<lparr>wd_core := demo_rows\<rparr>\<rparr>"
  have "wf_constraints_ok ((ws_db db_init)\<lparr>wd_core := demo_rows\<rparr>)" by code_simp
  then have "db_step (take 30) db_init s"
    unfolding s_def by (intro db_step.core) (simp_all add: audit_trail_def db_init_def empty_core_def)
  moreover have "db_step (take 30) s (snd (db_create_document demo_wf p c s))" for p c
    using demo_digests(1) by (rule db_step.create_document)
  moreover have "db_step (take 30) s' (snd (db_open_request demo_wf i a m s'))" for s' i a m
    by (rule db_step.open_request)
  ultimately show "(db_step (take 30))\<^sup>*\<^sup>* db_init demo_run"
    unfolding demo_run_def s_def[symmetric] by (meson rtranclp.rtrancl_into_rtrancl rtranclp.rtrancl_refl)
qed

text \<open>The lifecycle of one request and one signer, read off the tables.\<close>

lemma db_abs_request:
  "wf_constraints_ok (ws_db s) \<Longrightarrow>
     lc_request (db_abs s) i = Some q \<longleftrightarrow> (\<exists>r\<in>set (wd_requests (ws_db s)). rq_id r = i \<and> rq_status r = q)"
  using wf_constraintsD(3) by (simp add: db_abs_def request_statuses_iff)

lemma db_abs_signer:
  "wf_constraints_ok (ws_db s) \<Longrightarrow>
     lc_signer (db_abs s) i = Some (r, q) \<longleftrightarrow>
     (\<exists>g\<in>set (wd_signers (ws_db s)). sg_id g = i \<and> sg_request_id g = r \<and> sg_status g = q)"
  using wf_constraintsD(4) by (simp add: db_abs_def signer_statuses_iff)

lemma signed_has_signature:
  assumes "db_inv H s" "g \<in> set (wd_signers (ws_db s))" "sg_status g = SgnSigned"
    "r \<in> set (wd_requests (ws_db s))" "rq_id r = sg_request_id g"
  shows "\<exists>x\<in>set (wd_signatures (ws_db s)). sn_signer_id x = sg_id g \<and> sn_request_id x = rq_id r \<and>
    sn_document_sha256 x = rq_document_sha256 r \<and> artifact_stored H (ws_objects s) x"
proof -
  note I = db_invD[OF assms(1)]
  obtain x where x: "x \<in> set (wd_signatures (ws_db s))" "sn_signer_id x = sg_id g" "sn_request_id x = rq_id r"
    using I(5) assms unfolding signed_rows_match_def by metis
  then obtain r' where "r' \<in> set (wd_requests (ws_db s))" "rq_id r' = rq_id r" "rq_document_sha256 r' = sn_document_sha256 x"
    using I(6) unfolding signatures_frozen_def by metis
  then have "rq_document_sha256 r = sn_document_sha256 x"
    using distinct_map_eq[OF wf_constraintsD(3)[OF I(1)]] assms(4) by metis
  then show ?thesis using x I(7) unfolding artifacts_stored_def by metis
qed


lemma demo_completed_lifecycle: "lc_inv (db_abs demo_completed)"
  by (auto simp: lc_inv_def db_abs_def demo_completed_rows request_statuses_def signer_statuses_def demo_rows_defs
      split: if_splits)


section \<open>What is never rewritten\<close>

text \<open>C5: whatever methods run, the audit trail, the versions and the signatures only grow, the frozen columns
  of every request and the identity of every signer and document stay as they were written, and an object
  of the store, once readable, reads back the same for ever.\<close>

theorem db_history_append_only:
  assumes "db_inv H s" "(db_step H)\<^sup>*\<^sup>* s t"
  shows "prefix (audit_trail s) (audit_trail t) \<and>
    prefix (wd_versions (ws_db s)) (wd_versions (ws_db t)) \<and>
    prefix (wd_signatures (ws_db s)) (wd_signatures (ws_db t)) \<and>
    prefix (map frozen_part (wd_requests (ws_db s))) (map frozen_part (wd_requests (ws_db t))) \<and>
    prefix (map signer_part (wd_signers (ws_db s))) (map signer_part (wd_signers (ws_db t))) \<and>
    prefix (map document_part (wd_documents (ws_db s))) (map document_part (wd_documents (ws_db t))) \<and>
    more_reads (ws_objects s) (ws_objects t)"
  using db_run_history[OF assms(2,1)] unfolding db_history_def .

theorem db_history_append_only_witness:
  "let t = snd (db_sign demo_wf demo_token ''bia@x.io'' True demo_input None None
             (snd (db_decline demo_wf demo_token ''bia@x.io'' demo_open)))
   in prefix (audit_trail demo_open) (audit_trail t) \<and> wd_versions (ws_db t) \<noteq> [] \<and>
      local_get demo_key (ws_objects t) = Inr demo_pdf_bytes"
proof -
  define t where "t = snd (db_sign demo_wf demo_token ''bia@x.io'' True demo_input None None
             (snd (db_decline demo_wf demo_token ''bia@x.io'' demo_open)))"
  have "(db_step (we_sha256 demo_wf))\<^sup>*\<^sup>* demo_open t"
    unfolding t_def by (rule rtranclp.rtrancl_into_rtrancl, rule r_into_rtranclp, rule db_step.decline, rule db_step.sign, rule refl)
  from db_history_append_only[OF demo_open_inv this]
  have "prefix (audit_trail demo_open) (audit_trail t)" "prefix [demo_version] (wd_versions (ws_db t))"
    "more_reads (ws_objects demo_open) (ws_objects t)" by (simp_all add: demo_open_rows)
  then show ?thesis using demo_stored(1) unfolding Let_def t_def[symmetric] more_reads_def by (auto simp: prefix_def)
qed

text \<open>C15: completed and cancelled requests keep their status, and a signer who has signed stays signed, with the
  same signature, whatever happens afterwards.\<close>

theorem db_final_status:
  assumes "db_inv H s" "(db_step H)\<^sup>*\<^sup>* s t"
  shows "(\<forall>r\<in>set (wd_requests (ws_db s)). rq_status r \<in> {ReqCompleted, ReqCancelled} \<longrightarrow>
      (\<exists>r'\<in>set (wd_requests (ws_db t)). rq_id r' = rq_id r \<and> rq_status r' = rq_status r)) \<and>
    (\<forall>g\<in>set (wd_signers (ws_db s)). sg_status g = SgnSigned \<longrightarrow>
      (\<exists>g'\<in>set (wd_signers (ws_db t)). sg_id g' = sg_id g \<and> sg_status g' = SgnSigned) \<and>
      (\<exists>x\<in>set (wd_signatures (ws_db s)) \<inter> set (wd_signatures (ws_db t)). sn_signer_id x = sg_id g))"
proof (rule conjI)
  have ok: "wf_constraints_ok (ws_db s)" "wf_constraints_ok (ws_db t)"
    using assms(1) dbw.inv_steps[OF assms(2,1)] by (simp_all add: db_inv_def)
  note run = dbw.simulates_run[OF assms(2,1)]
  show "\<forall>r\<in>set (wd_requests (ws_db s)). rq_status r \<in> {ReqCompleted, ReqCancelled} \<longrightarrow>
      (\<exists>r'\<in>set (wd_requests (ws_db t)). rq_id r' = rq_id r \<and> rq_status r' = rq_status r)"
    using lc_steps_final[OF run] db_abs_request[OF ok(1)] db_abs_request[OF ok(2)] by metis
  show "\<forall>g\<in>set (wd_signers (ws_db s)). sg_status g = SgnSigned \<longrightarrow>
      (\<exists>g'\<in>set (wd_signers (ws_db t)). sg_id g' = sg_id g \<and> sg_status g' = SgnSigned) \<and>
      (\<exists>x\<in>set (wd_signatures (ws_db s)) \<inter> set (wd_signatures (ws_db t)). sn_signer_id x = sg_id g)"
  proof (intro ballI impI)
    fix g assume g: "g \<in> set (wd_signers (ws_db s))" "sg_status g = SgnSigned"
    then have "\<exists>g'\<in>set (wd_signers (ws_db t)). sg_id g' = sg_id g \<and> sg_status g' = SgnSigned"
      using lc_steps_signed[OF run] db_abs_signer[OF ok(1)] db_abs_signer[OF ok(2)] by metis
    moreover have "\<exists>x\<in>set (wd_signatures (ws_db s)). sn_signer_id x = sg_id g"
      using assms(1) g unfolding db_inv_def signed_rows_match_def by metis
    moreover have "set (wd_signatures (ws_db s)) \<subseteq> set (wd_signatures (ws_db t))"
      using db_run_history[OF assms(2,1)] set_mono_prefix unfolding db_history_def by blast
    ultimately show "(\<exists>g'\<in>set (wd_signers (ws_db t)). sg_id g' = sg_id g \<and> sg_status g' = SgnSigned) \<and>
      (\<exists>x\<in>set (wd_signatures (ws_db s)) \<inter> set (wd_signatures (ws_db t)). sn_signer_id x = sg_id g)" by blast
  qed
qed

theorem db_final_status_witness:
  "let t = snd (db_delete_document demo_wf (uuid_str 81) ''ana@x.io'' True demo_completed)
   in (\<exists>r'\<in>set (wd_requests (ws_db t)). rq_id r' = 77 \<and> rq_status r' = ReqCompleted) \<and>
      (\<exists>g'\<in>set (wd_signers (ws_db t)). sg_id g' = 74 \<and> sg_status g' = SgnSigned)"
proof -
  define t where "t = snd (db_delete_document demo_wf (uuid_str 81) ''ana@x.io'' True demo_completed)"
  have "(db_step (we_sha256 demo_wf))\<^sup>*\<^sup>* demo_completed t"
    unfolding t_def by (intro r_into_rtranclp db_step.delete_document)
  from db_final_status[OF demo_completed_inv this] show ?thesis
    unfolding Let_def t_def[symmetric] by (simp add: demo_completed_rows) (simp add: demo_rows_defs)
qed

section \<open>Commands that fail\<close>

text \<open>The methods that change state, as one type of commands; the answer is dropped.\<close>

datatype wf_command =
    CreateDocument document_create bytes
  | AddVersion string string string string bytes
  | DeleteDocument string string bool
  | CreateRequest signature_request_create
  | AddSigner string signer_create string
  | CreateLink string string
  | RevokeLink string string string
  | OpenRequest string string signature_mode
  | CancelRequest string string
  | ViewRequest string string
  | SignRequest string string bool signing_input "(bytes \<Rightarrow> bytes result) option" "(string, string) dict option"
  | DeclineRequest string string

definition done_with :: "'a result \<times> wf_state \<Rightarrow> unit result \<times> wf_state" where
  "done_with = map_prod (map_sum id (\<lambda>_. ())) id"

fun run_wf :: "wf_env \<Rightarrow> wf_command \<Rightarrow> wf_state \<Rightarrow> unit result \<times> wf_state" where
  "run_wf E (CreateDocument p content) s = done_with (db_create_document E p content s)"
| "run_wf E (AddVersion ident filename ctype actor content) s =
     done_with (db_add_version E ident filename ctype actor content s)"
| "run_wf E (DeleteDocument ident actor force) s = done_with (db_delete_document E ident actor force s)"
| "run_wf E (CreateRequest p) s = done_with (db_create_request E p s)"
| "run_wf E (AddSigner ident p actor) s = done_with (db_add_signer E ident p actor s)"
| "run_wf E (CreateLink ident actor) s = done_with (db_create_signing_link E ident actor s)"
| "run_wf E (RevokeLink ident signer_ident actor) s = done_with (db_revoke_signer_link E ident signer_ident actor s)"
| "run_wf E (OpenRequest ident actor mode) s = done_with (db_open_request E ident actor mode s)"
| "run_wf E (CancelRequest ident actor) s = done_with (db_cancel_request E ident actor s)"
| "run_wf E (ViewRequest token user) s = done_with (db_view E token user s)"
| "run_wf E (SignRequest token user consent i certificate info) s =
     done_with (db_sign E token user consent i certificate info s)"
| "run_wf E (DeclineRequest token user) s = done_with (db_decline E token user s)"

lemma done_with_Inl [simp]: "done_with r = (Inl e, s') \<longleftrightarrow> r = (Inl e, s')"
  by (cases r; cases "fst r") (auto simp: done_with_def)

lemma transaction_failed: "wf_transaction body s = (Inl e, s') \<Longrightarrow> s' = s"
  by (cases body s rule: wf_transaction_cases) auto

lemma store_then_failed:
  "store_then u sc content body s = (Inl e, s') \<Longrightarrow> ws_db s' = ws_db s \<and> same_reads (ws_objects s) (ws_objects s')"
  by (cases u sc content body s rule: store_then_cases) auto



section \<open>Who has access\<close>

text \<open>No active membership of the tenant of the document.\<close>

definition stranger :: "wf_env \<Rightarrow> wf_db \<Rightarrow> document_row \<Rightarrow> string \<Rightarrow> bool" where
  "stranger E db d actor \<longleftrightarrow> (\<forall>m\<in>set (cdb_members (wd_core db)). mb_tenant_id m = dr_tenant_id d \<longrightarrow>
     mb_deleted_at m = None \<longrightarrow> mb_status m = ''active'' \<longrightarrow> \<not> membership_identity (we_core E) actor None m)"

lemma stranger_refused:
  "stranger E db d actor \<Longrightarrow>
   require_role (we_core E) (wd_core db) (dr_tenant_id d) actor roles b = Inl (workflow_error ''Tenant access denied'' 403)"
  by (auto simp: stranger_def require_role_def split: option.splits dest!: find_Some_iff_hd)

lemma stranger_request:
  assumes "wf_request db ident = Inr r" "document_get db (rq_document_id r) = Some d" "stranger E db d actor"
  shows "accessible_request E db ident actor = Inl (workflow_error ''Tenant access denied'' 403)"
  using assms stranger_refused[OF assms(3)]
  by (simp add: accessible_request_def require_request_access_def require_document_access_def)

lemma transaction_refused: "body (ws_db s) = Inl e \<Longrightarrow> wf_transaction body s = (Inl e, s)"
  by (simp add: wf_transaction_def wf_commit_def)

text \<open>C7: someone without an active membership of the tenant that owns the document is refused, with the same
  answer and without any effect, by every method that names a request: adding and revoking signers, links,
  opening, cancelling, and every query over the request, its signers, its evidence and its signed PDF.\<close>

theorem db_strangers_refused:
  assumes "wf_request (ws_db s) ident = Inr r" "document_get (ws_db s) (rq_document_id r) = Some d"
    "stranger E (ws_db s) d actor" "denied = workflow_error ''Tenant access denied'' 403"
  shows "list_all (\<lambda>c. run_wf E c s = (Inl denied, s))
      [AddSigner ident p actor, CreateLink ident actor, RevokeLink ident signer_ident actor,
       OpenRequest ident actor mode, CancelRequest ident actor] \<and>
    db_get_request E ident actor (ws_db s) = Inl denied \<and> db_get_signing_link E ident actor (ws_db s) = Inl denied \<and>
    db_list_signers E ident actor (ws_db s) = Inl denied \<and> db_audit_events E ident actor (ws_db s) = Inl denied \<and>
    db_signed_document E ident (Some actor) s = Inl denied \<and> db_signature_evidence E ident actor (ws_db s) = Inl denied"
  using stranger_request[OF assms(1-3)] assms(4)
  by (simp add: db_add_signer_def db_create_signing_link_def link_body_def db_revoke_signer_link_def db_open_request_def
      db_cancel_request_def transaction_refused db_get_request_def db_get_signing_link_def db_list_signers_def
      db_audit_events_def db_signed_document_def db_signature_evidence_def)

theorem db_strangers_refused_witness:
  "run_wf demo_wf (CancelRequest (uuid_str 77) ''zoe@x.io'') demo_open
     = (Inl (workflow_error ''Tenant access denied'' 403), demo_open)"
proof -
  have "wf_request (ws_db demo_open) (uuid_str 77) = Inr (demo_request ReqOpen)" by code_simp
  moreover have "document_get (ws_db demo_open) (rq_document_id (demo_request ReqOpen)) = Some demo_document" by code_simp
  moreover have "stranger demo_wf (ws_db demo_open) demo_document ''zoe@x.io''"
    unfolding stranger_def demo_open_rows by code_simp
  ultimately show ?thesis using db_strangers_refused[OF _ _ _ refl] by simp
qed

section \<open>Signing\<close>

text \<open>What a successful signature comes from.\<close>

lemma sign_succeeded:
  assumes "db_sign E token user consent i certificate info s = (Inr w, s')"
  obtains g r v d a core key n objs db' where "consent"
    "resolved_signer E token user False (ws_db s) = Inr ((g, r), ws_db s)"
    "signing_guard E g r user (certificate \<noteq> None) (ws_db s) = Inr (v, d)"
    "consume_signature (we_now E) (dr_tenant_id d) (wd_core (ws_db s)) = Inr core"
    "\<exists>original. signing_original E r v (certificate \<noteq> None) (ws_objects s) = Inr original"
    "record_signature E (wd_next ((ws_db s)\<lparr>wd_core := core\<rparr>) + 2) g r user a key (draws 3 ((ws_db s)\<lparr>wd_core := core\<rparr>)) = Inr (w, db')"
    "s' = \<lparr>ws_db = wf_synced db', ws_objects = objs\<rparr>" "local_get key objs = Inr (sa_content a)"
proof -
  obtain g r d a db where prep: "prepare_signature E token user i (identity_of E user) certificate info s = Inr (g, r, d, a, db)"
    and c: "consent" using assms by (auto simp: db_sign_def split: if_splits sum.splits prod.splits)
  obtain v core where P: "resolved_signer E token user False (ws_db s) = Inr ((g, r), ws_db s)"
    "signing_guard E g r user (certificate \<noteq> None) (ws_db s) = Inr (v, d)"
    "consume_signature (we_now E) (dr_tenant_id d) (wd_core (ws_db s)) = Inr core"
    "\<exists>original. signing_original E r v (certificate \<noteq> None) (ws_objects s) = Inr original" "db = (ws_db s)\<lparr>wd_core := core\<rparr>"
    using prepare_signature_Inr[OF prep] by metis
  let ?sc = "document_storage_scope (dr_tenant_id d) (document_owner_storage_id E db d)"
  have st: "store_then (we_uuid4 E (wd_next db + 1)) ?sc (sa_content a)
      (\<lambda>key sz. record_signature E (wd_next db + 2) g r user a key (draws 3 db)) s = (Inr w, s')"
    using assms c prep by (simp add: db_sign_def)
  show ?thesis
  proof (cases "we_uuid4 E (wd_next db + 1)" ?sc "sa_content a"
      "\<lambda>key (sz :: nat). record_signature E (wd_next db + 2) g r user a key (draws 3 db)" s rule: store_then_cases)
    case (committed key n objs v' db')
    then show ?thesis using that[OF c P(1-4)] put_more_reads[OF committed(1)] st P(5) by auto
  qed (use st in simp)
qed

lemma record_signature_accounts:
  "record_signature E n g r user a key db = Inr (v, db') \<Longrightarrow>
   cdb_accounts (sync_rows (wd_core db')) = cdb_accounts (sync_rows (wd_core db))"
  by (auto simp: record_signature_def Let_def wf_flush_Inr wf_audit_def sync_rows_def split: sum.splits)

text \<open>C2: a signature is only given with consent, through the current link of an open and unexpired request, by the
  authenticated user of a signer of that request who has not signed and whose access is not revoked, on a
  document that still exists and whose stored bytes have the frozen digest, within the quota of the tenant,
  by a representative who still represents the company, and with a certificate exactly when the request
  asks for one.\<close>

theorem db_sign_requires:
  assumes "db_sign E token user consent i certificate info s = (Inr w, s')"
  shows "consent \<and>
    (\<exists>g\<in>set (wd_signers (ws_db s)). \<exists>r\<in>set (wd_requests (ws_db s)). \<exists>d\<in>set (wd_documents (ws_db s)).
       rq_signing_token_hash r = Some (we_sha256 E token) \<and> sg_request_id g = rq_id r \<and> sg_auth_user_id g = lower user \<and>
       rq_status r = ReqOpen \<and> we_now E < rq_expires_at r \<and> sg_link_revoked_at g = None \<and> sg_status g \<noteq> SgnSigned \<and>
       dr_id d = rq_document_id r \<and> dr_deleted_at d = None \<and>
       (certificate \<noteq> None \<longleftrightarrow> rq_signature_mode r = ModeSerproid) \<and>
       (sg_participant_role g = CompanyRepresentative \<longrightarrow> representation_active E (ws_db s) g user) \<and>
       (\<exists>core. consume_signature (we_now E) (dr_tenant_id d) (wd_core (ws_db s)) = Inr core) \<and>
       (\<exists>v\<in>set (wd_versions (ws_db s)). \<exists>c. vr_document_id v = dr_id d \<and> vr_version v = rq_document_version r \<and>
          local_get (vr_storage_key v) (ws_objects s) = Inr c \<and> we_sha256 E c = rq_document_sha256 r))"
proof -
  obtain g r v d a core key n objs db' where S: "consent"
    "resolved_signer E token user False (ws_db s) = Inr ((g, r), ws_db s)"
    "signing_guard E g r user (certificate \<noteq> None) (ws_db s) = Inr (v, d)"
    "consume_signature (we_now E) (dr_tenant_id d) (wd_core (ws_db s)) = Inr core"
    "\<exists>original. signing_original E r v (certificate \<noteq> None) (ws_objects s) = Inr original"
    by (rule sign_succeeded[OF assms])
  note R = resolved_signer_Inr[OF S(2)] and G = signing_guard_Inr[OF S(3)]
  have "d \<in> set (wd_documents (ws_db s)) \<and> dr_id d = rq_document_id r"
    using G by (auto simp: document_get_def dest!: find_Some_iff_hd)
  moreover have "v \<in> set (wd_versions (ws_db s)) \<and> vr_document_id v = rq_document_id r \<and> vr_version v = rq_document_version r"
    using G by (auto simp: version_get_def dest!: find_Some_iff_hd)
  moreover have "certificate \<noteq> None \<longleftrightarrow> rq_signature_mode r = ModeSerproid"
    using G by (auto simp: certificate_guard_def split: if_splits)
  moreover have "\<exists>c. local_get (vr_storage_key v) (ws_objects s) = Inr c \<and> we_sha256 E c = rq_document_sha256 r"
    using S(5) by (auto simp: signing_original_def split: sum.splits if_splits)
  ultimately show ?thesis using S R G by (intro conjI bexI[of _ g] bexI[of _ r] bexI[of _ d] bexI[of _ v]) auto
qed

theorem db_sign_requires_witness:
  "\<exists>g\<in>set (wd_signers (ws_db demo_open)). \<exists>r\<in>set (wd_requests (ws_db demo_open)).
     rq_signing_token_hash r = Some (take 30 demo_token) \<and> sg_request_id g = rq_id r \<and> sg_auth_user_id g = ''bia@x.io''"
proof -
  obtain v s' where r: "db_sign demo_wf demo_token ''bia@x.io'' True demo_input None None demo_open = (Inr v, s')"
    using demo_signs by blast
  have "lower ''bia@x.io'' = ''bia@x.io''" by code_simp
  then show ?thesis using db_sign_requires[OF r] demo_digests(1) by auto
qed



section \<open>Contents\<close>

lemma version_get_unique:
  assumes "wf_constraints_ok db" "v \<in> set (wd_versions db)"
  shows "version_get db (vr_document_id v) (vr_version v) = Some v"
  unfolding version_get_def
  using assms(2) distinct_map_eq[OF wf_constraintsD(5)[OF assms(1)]] by (intro find_unique) auto

text \<open>C13: what a link shows to be signed is exactly what was frozen: the version of the request is found, its object
  is in the store with the frozen digest, and the only error left is the validation of the file itself.\<close>

theorem db_signing_document_frozen:
  assumes "db_inv (we_sha256 E) s" "readable_request E token user administrator (ws_db s) = Inr r"
  shows "\<exists>v\<in>set (wd_versions (ws_db s)). \<exists>c. vr_document_id v = rq_document_id r \<and> vr_version v = rq_document_version r \<and>
    local_get (vr_storage_key v) (ws_objects s) = Inr c \<and> we_sha256 E c = rq_document_sha256 r \<and>
    db_signing_document E token user administrator s =
      (case validate_pdf_upload (we_limits E) (we_parse_pdf E) c (vr_original_filename v) ''application/pdf'' of
         Inl e \<Rightarrow> Inl e | Inr _ \<Rightarrow> Inr (version_read v, c))"
proof -
  note I = db_invD[OF assms(1)]
  have "r \<in> set (wd_requests (ws_db s))"
    using assms(2) by (auto simp: readable_request_def request_from_token_def map_sum_Inr
        split: if_splits sum.splits option.splits dest!: find_Some_iff_hd resolved_signer_Inr)
  then obtain v where v: "v \<in> set (wd_versions (ws_db s))" "vr_document_id v = rq_document_id r"
    "vr_version v = rq_document_version r" "vr_sha256 v = rq_document_sha256 r"
    using I(3) unfolding requests_frozen_def by metis
  obtain c where c: "local_get (vr_storage_key v) (ws_objects s) = Inr c" "we_sha256 E c = vr_sha256 v"
    using I(4) v(1) unfolding versions_stored_def by metis
  have "version_get (ws_db s) (rq_document_id r) (rq_document_version r) = Some v"
    using version_get_unique[OF I(1) v(1)] v(2,3) by simp
  then show ?thesis
    using assms(2) v c by (intro bexI[of _ v] exI[of _ c]) (simp add: db_signing_document_def stored_content_def)
qed

theorem db_signing_document_frozen_witness:
  "db_signing_document demo_wf demo_token ''bia@x.io'' False demo_open = Inr (version_read demo_version, demo_pdf_bytes)"
proof -
  have "readable_request demo_wf demo_token ''bia@x.io'' False (ws_db demo_open) = Inr (demo_request ReqOpen)" by code_simp
  moreover have "validate_pdf_upload (we_limits demo_wf) (we_parse_pdf demo_wf) demo_pdf_bytes
      (vr_original_filename demo_version) ''application/pdf'' = Inr ()" by code_simp
  moreover have "vr_storage_key demo_version = demo_key" by (simp add: demo_version_def)
  ultimately show ?thesis
    using db_signing_document_frozen[OF demo_open_inv, of demo_token "''bia@x.io''" False "demo_request ReqOpen"]
      demo_stored(1) by (auto simp: demo_open_rows)
qed

text \<open>C14: an upload is durable. While the document is not deleted, whatever else happens, the first version of it reads
  back as the bytes that were uploaded.\<close>

theorem db_upload_round_trip:
  assumes "db_inv (we_sha256 E) s" "db_create_document E p content s = (Inr d, s1)"
    "(db_step (we_sha256 E))\<^sup>*\<^sup>* s1 t" "wf_document (ws_db t) ident = Inr row" "dr_id row = doc_id d"
    "validate_pdf_upload (we_limits E) (we_parse_pdf E) content (dc_original_filename p) ''application/pdf'' = Inr ()"
  shows "\<exists>v. db_get_content E ident (Some 1) None t = Inr (v, content) \<and> ver_sha256 v = we_sha256 E content \<and>
    ver_size_bytes v = length content \<and> ver_created_by v = dc_created_by p"
proof -
  obtain tn m db where up: "upload_allowed E p (ws_db s) = Inr (tn, m, db)"
    using assms(2) by (auto simp: db_create_document_def split: if_splits sum.splits prod.splits)
  let ?sc = "document_storage_scope (ten_id tn) (account_storage_id E (Some m) (dc_created_by p))"
  have st: "store_then (we_uuid4 E (wd_next db)) ?sc content (\<lambda>key sz. record_upload E p (ten_id tn) content key sz db) s = (Inr d, s1)"
    using assms(2) up by (simp add: db_create_document_def split: if_splits)
  obtain v key where v: "v \<in> set (wd_versions (ws_db s1))" "vr_document_id v = doc_id d" "vr_version v = 1"
    "vr_sha256 v = we_sha256 E content" "vr_size_bytes v = length content" "vr_created_by v = dc_created_by p"
    "vr_original_filename v = dc_original_filename p" "local_get (vr_storage_key v) (ws_objects s1) = Inr content"
  proof (cases "we_uuid4 E (wd_next db)" ?sc content "\<lambda>key sz. record_upload E p (ten_id tn) content key sz db" s
      rule: store_then_cases)
    case (committed key n objs d' db')
    let ?item = "new_document E (wd_next db + 1) p (ten_id tn) key (we_sha256 E content)"
    let ?v = "new_version E (wd_next db + 2) ?item (dc_created_by p) n"
    have e: "d' = d" "s1 = \<lparr>ws_db = wf_synced db', ws_objects = objs\<rparr>" using committed(4) st by simp_all
    have n: "n = length content" using local_store.put_reads_back[OF committed(1)] by simp
    have w: "?v \<in> set (wd_versions (ws_db s1))" "doc_id d = dr_id ?item"
      using committed(2) e by (auto simp: record_upload_def Let_def wf_document_read_def)
    show ?thesis
    proof (rule that[OF w(1)])
      show "vr_document_id ?v = doc_id d" unfolding w(2) by (simp add: new_version_def)
    qed (simp_all add: new_version_def new_document_def n e(2) conjunct2[OF put_more_reads[OF committed(1)]])
  qed (use st in simp)
  have inv: "db_inv (we_sha256 E) s1" "db_inv (we_sha256 E) t"
    using db_step_inv[OF db_step.create_document[OF refl, of E s p content]] assms(1-3) dbw.inv_steps by (metis snd_conv)+
  have hist: "db_history s1 t" using db_run_history[OF assms(3) inv(1)] .
  then have "v \<in> set (wd_versions (ws_db t))" "local_get (vr_storage_key v) (ws_objects t) = Inr content"
    using v set_mono_prefix unfolding db_history_def more_reads_def by blast+
  then have "version_get (ws_db t) (doc_id d) 1 = Some v"
    using version_get_unique[OF db_invD(1)[OF inv(2)]] v(2,3) by metis
  then show ?thesis
    using assms(4-6) v \<open>local_get _ (ws_objects t) = _\<close>
    by (simp add: db_get_content_def Let_def stored_content_def version_read_def)
qed

theorem db_upload_round_trip_witness:
  "let up = db_create_document demo_wf \<lparr>dc_organization_id = ''ana'', dc_title = ''Lease'', dc_original_filename = ''b.pdf'',
        dc_content_type = ''application/pdf'', dc_created_by = ''ana@x.io''\<rparr> demo_pdf_bytes demo_open
   in \<exists>v. db_get_content demo_wf (uuid_str 69) (Some 1) None (snd up) = Inr (v, demo_pdf_bytes) \<and> ver_size_bytes v = 14"
proof -
  define p where "p = \<lparr>dc_organization_id = ''ana'', dc_title = ''Lease'', dc_original_filename = ''b.pdf'',
        dc_content_type = ''application/pdf'', dc_created_by = ''ana@x.io''\<rparr>"
  define up where "up = db_create_document demo_wf p demo_pdf_bytes demo_open"
  have "case up of (Inr d, s1) \<Rightarrow> doc_id d = 69 \<and> map_sum id dr_id (wf_document (ws_db s1) (uuid_str 69)) = Inr 69 | _ \<Rightarrow> False"
    unfolding up_def p_def by code_simp
  then obtain d s1 row where r: "up = (Inr d, s1)" "doc_id d = 69" "wf_document (ws_db s1) (uuid_str 69) = Inr row" "dr_id row = 69"
    by (auto simp: map_sum_Inr split: prod.splits sum.splits)
  have "validate_pdf_upload (we_limits demo_wf) (we_parse_pdf demo_wf) demo_pdf_bytes (dc_original_filename p) ''application/pdf'' = Inr ()"
    unfolding p_def by code_simp
  then show ?thesis
    using db_upload_round_trip[OF demo_open_inv r(1)[unfolded up_def] rtranclp.rtrancl_refl r(3)] r
    unfolding Let_def up_def[symmetric] p_def[symmetric] by (auto simp: demo_pdf_bytes_def)
qed

section \<open>Links and lists\<close>

lemma distinct_presentD:
  "distinct (present f rows) \<Longrightarrow> x \<in> set rows \<Longrightarrow> y \<in> set rows \<Longrightarrow> f x = f y \<Longrightarrow> f x \<noteq> None \<Longrightarrow> x = y"
proof (induction rows)
  case (Cons a rows)
  have notin: "z \<in> set rows \<Longrightarrow> f z = f a \<Longrightarrow> f a \<noteq> None \<Longrightarrow> False" for z
    using Cons.prems(1) by (force simp: present_def)
  have "distinct (present f rows)" using Cons.prems(1) by (auto simp: present_def split: if_splits)
  then show ?case using Cons.IH Cons.prems(2-5) notin by (metis set_ConsD)
qed simp

text \<open>the link that was created is the one everybody with access gets afterwards, and its token leads to that
  request and no other.\<close>

theorem db_link_round_trip:
  assumes "db_create_signing_link E ident actor s = (Inr url, s')" "wf_constraints_ok (ws_db s)"
    "ce_token_urlsafe (we_core E) (wd_next (ws_db s)) \<noteq> []" "accessible_request E (ws_db s') ident actor' = Inr r'"
  shows "db_get_signing_link E ident actor' (ws_db s') = Inr url \<and>
    (\<exists>token. url = wf_signing_url E token \<and> request_from_token E (ws_db s') token = Inr r')"
proof -
  obtain mails where tx: "wf_transaction (link_body E ident actor) s = (Inr (url, mails), s')"
    using assms(1) by (auto simp: db_create_signing_link_def split: prod.splits sum.splits)
  obtain db where b: "link_body E ident actor (ws_db s) = Inr ((url, mails), db)" "wf_constraints_ok db"
    "s' = s\<lparr>ws_db := wf_synced db\<rparr>"
    using tx by (cases "link_body E ident actor" s rule: wf_transaction_cases) auto
  obtain r nonce where L: "accessible_request E (ws_db s) ident actor = Inr r"
    "nonce = ce_token_urlsafe (we_core E) (wd_next (ws_db s))" "url = wf_signing_url E (request_token E (rq_id r) nonce)"
    "wd_requests db = table_update (\<lambda>x. rq_id x = rq_id r) (\<lambda>x. x\<lparr>rq_signing_token_nonce := Some nonce,
          rq_signing_token_hash := Some (we_sha256 E (request_token E (rq_id r) nonce))\<rparr>) (wd_requests (ws_db s))"
    using link_body_Inr[OF b(1)] by (metis draws_sel(3) request_set_sel(3) wf_audit_sel(3))
  obtain i where i: "parse_uuid ident = Some i" "rq_id r = i"
    using L(1) by (auto simp: accessible_request_def wf_request_def split: sum.splits option.splits bind_splits dest!: find_Some_iff_hd)
  have r': "r' \<in> set (wd_requests db)" "rq_id r' = i" "rq_deleted_at r' = None"
    using assms(4) i b(3) by (auto simp: accessible_request_def wf_request_def split: sum.splits option.splits dest!: find_Some_iff_hd)
  then have new: "rq_signing_token_nonce r' = Some nonce"
    "rq_signing_token_hash r' = Some (we_sha256 E (request_token E i nonce))"
  proof -
    obtain x where "r' = (if rq_id x = i then x\<lparr>rq_signing_token_nonce := Some nonce,
        rq_signing_token_hash := Some (we_sha256 E (request_token E i nonce))\<rparr> else x)"
      using r'(1) unfolding L(4) table_update_def i(2) set_map image_iff by blast
    then show "rq_signing_token_nonce r' = Some nonce" "rq_signing_token_hash r' = Some (we_sha256 E (request_token E i nonce))"
      using r'(2) by (auto split: if_splits)
  qed
  have "distinct (present rq_signing_token_hash (wd_requests db))"
    using b(2) by (simp only: wf_constraints_ok_def requests_ok_def)
  then have uniq: "x = r'" if "x \<in> set (wd_requests db)" "rq_signing_token_hash x = rq_signing_token_hash r'" for x
    using distinct_presentD[OF _ that(1) r'(1) that(2)] that(2) new(2) by simp
  have "List.find (\<lambda>x. rq_signing_token_hash x = Some (we_sha256 E (request_token E i nonce)) \<and> rq_deleted_at x = None)
      (wd_requests db) = Some r'"
  proof (rule find_unique[OF r'(1)])
    show "y = r'" if "y \<in> set (wd_requests db)"
      "rq_signing_token_hash y = Some (we_sha256 E (request_token E i nonce)) \<and> rq_deleted_at y = None" for y
      using uniq[OF that(1)] that(2) new(2) by simp
  qed (use r'(3) new(2) in simp)
  then have "request_from_token E (ws_db s') (request_token E i nonce) = Inr r'"
    unfolding request_from_token_def b(3) by simp
  moreover have "db_get_signing_link E ident actor' (ws_db s') = Inr url"
    using assms(3,4) new r'(2) L(2,3) i(2) by (simp add: db_get_signing_link_def nonempty_def Let_def)
  ultimately show ?thesis using L(3) i(2) by blast
qed

theorem db_link_round_trip_witness:
  "case db_create_signing_link demo_wf (uuid_str 77) ''ana@x.io'' demo_open of
     (Inr url, s') \<Rightarrow> db_get_signing_link demo_wf (uuid_str 77) ''ana@x.io'' (ws_db s') = Inr url
   | _ \<Rightarrow> False"
proof -
  have "case db_create_signing_link demo_wf (uuid_str 77) ''ana@x.io'' demo_open of
      (Inr url, s') \<Rightarrow> map_sum id rq_id (accessible_request demo_wf (ws_db s') (uuid_str 77) ''ana@x.io'') = Inr 77 | _ \<Rightarrow> False"
    by code_simp
  then obtain url s' r' where r: "db_create_signing_link demo_wf (uuid_str 77) ''ana@x.io'' demo_open = (Inr url, s')"
    "accessible_request demo_wf (ws_db s') (uuid_str 77) ''ana@x.io'' = Inr r'"
    by (auto simp: map_sum_Inr split: prod.splits sum.splits)
  have "ce_token_urlsafe (we_core demo_wf) (wd_next (ws_db demo_open)) \<noteq> []" by code_simp
  from db_link_round_trip[OF r(1) demo_constraints(1) this r(2)] show ?thesis by (simp add: r(1))
qed

text \<open>the list of documents shows exactly the documents that \<open>get_document\<close> opens for the same actor, when the
  actor has at most one active membership in a tenant.\<close>

theorem db_list_get_agree:
  assumes "\<forall>m\<in>set (cdb_members (wd_core db)). \<forall>m'\<in>set (cdb_members (wd_core db)).
      mb_tenant_id m = mb_tenant_id m' \<longrightarrow> membership_identity (we_core E) actor None m \<longrightarrow>
      membership_identity (we_core E) actor None m' \<longrightarrow> mb_deleted_at m = None \<longrightarrow> mb_deleted_at m' = None \<longrightarrow>
      mb_status m = ''active'' \<longrightarrow> mb_status m' = ''active'' \<longrightarrow> m = m'"
    "wf_document db ident = Inr d"
  shows "d \<in> set (filter (\<lambda>d. \<not> team_over_limit (we_now E) (wd_core db) (dr_tenant_id d)) (visible_documents E db actor))
    \<longleftrightarrow> db_get_document E ident actor db = Inr (wf_document_read db d)"
proof -
  let ?m = "\<lambda>m. mb_tenant_id m = dr_tenant_id d \<and> membership_identity (we_core E) actor None m \<and>
             mb_deleted_at m = None \<and> mb_status m = ''active''"
  let ?ok = "\<lambda>m. mb_role m = ''admin'' \<or> lower (dr_created_by d) = lower actor \<or> invited db (dr_id d) None (lower actor)"
  have d: "d \<in> set (wd_documents db)" "dr_deleted_at d = None" using wf_document_Inr[OF assms(2)] by auto
  have vis: "d \<in> set (visible_documents E db actor) \<longleftrightarrow> (\<exists>m\<in>set (cdb_members (wd_core db)). ?m m \<and> ?ok m)"
    using d unfolding visible_documents_def by auto
  show ?thesis
  proof (cases "List.find ?m (cdb_members (wd_core db))")
    case None
    then have "\<not> (\<exists>m\<in>set (cdb_members (wd_core db)). ?m m)" by (simp add: find_None_conv)
    then show ?thesis using None vis assms(2)
      by (auto simp: db_get_document_def require_document_access_def require_role_def)
  next
    case (Some m)
    note f = find_Some_iff_hd[OF Some]
    have "(\<exists>m\<in>set (cdb_members (wd_core db)). ?m m \<and> ?ok m) \<longleftrightarrow> ?ok m" using f assms(1) by metis
    then show ?thesis using Some vis assms(2)
      by (auto simp: db_get_document_def require_document_access_def require_role_def)
  qed
qed

theorem db_list_get_agree_witness:
  "db_get_document demo_wf (uuid_str 81) ''ana@x.io'' (ws_db demo_open) = Inr (wf_document_read (ws_db demo_open) demo_document)"
proof -
  have "wf_document (ws_db demo_open) (uuid_str 81) = Inr demo_document" by code_simp
  moreover have "demo_document \<in> set (filter (\<lambda>d. \<not> team_over_limit (we_now demo_wf) (wd_core (ws_db demo_open)) (dr_tenant_id d))
      (visible_documents demo_wf (ws_db demo_open) ''ana@x.io''))" by code_simp
  ultimately show ?thesis
    using db_list_get_agree[of "ws_db demo_open" demo_wf "''ana@x.io''" "uuid_str 81" demo_document]
    by (simp add: demo_open_rows demo_rows_def)
qed

text \<open>A request drafted by a member on a document another member uploaded.\<close>

definition demo_colleague :: wf_db where
  "demo_colleague = (ws_db demo_open)\<lparr>wd_core := demo_rows\<lparr>cdb_members := cdb_members demo_rows @
       [new_member 9 900 0 ''bob@x.io'' None ''member'' None],
       cdb_accounts := [(new_account 3 900 0)\<lparr>ba_status := ''active'', ba_current_product_code := Some ''rubrica_intermediate''\<rparr>]\<rparr>,
     wd_requests := [(demo_request ReqDraft)\<lparr>rq_created_by := ''bob@x.io''\<rparr>]\<rparr>"

text \<open>lists and details of requests disagree: \<open>list_requests\<close> goes by the creator of the request,
  \<open>get_request\<close> and every command by the creator of the document, so a member who drafts a request on a
  colleague's document sees it listed and is refused when opening, cancelling or reading it.\<close>

theorem db_listed_request_refused:
  "wf_constraints_ok demo_colleague \<and>
   map req_id (db_list_requests demo_wf ''bob@x.io'' demo_colleague) = [77] \<and>
   db_get_request demo_wf (uuid_str 77) ''bob@x.io'' demo_colleague = Inl (workflow_error ''Document access is not allowed'' 403) \<and>
   fst (run_wf demo_wf (CancelRequest (uuid_str 77) ''bob@x.io'') \<lparr>ws_db = demo_colleague, ws_objects = []\<rparr>)
     = Inl (workflow_error ''Document access is not allowed'' 403)"
proof -
  have a: "accessible_request demo_wf demo_colleague (uuid_str 77) ''bob@x.io'' = Inl (workflow_error ''Document access is not allowed'' 403)"
    by code_simp
  have "wf_constraints_ok demo_colleague" "map req_id (db_list_requests demo_wf ''bob@x.io'' demo_colleague) = [77]"
    by code_simp+
  then show ?thesis using a by (simp add: db_get_request_def db_cancel_request_def transaction_refused done_with_def)
qed

section \<open>What was signed\<close>

lemma sorted_last_max:
  "sorted (map f xs) \<Longrightarrow> x \<in> set xs \<Longrightarrow> f x \<le> f (last xs)"
  by (induction xs) (auto simp: last_ConsR)

text \<open>the signed PDF that is served is intact, and it is the artifact of the signature with the largest random
  id, which need not be the last one given: the witness is a completed request whose served PDF is the
  first signer's, without the last signature.\<close>

theorem db_signed_document_by_id:
  assumes "artifact_of E ident r s = Inr (name, digest, c)"
  shows "\<exists>x\<in>set (wd_signatures (ws_db s)). sn_request_id x = rq_id r \<and> sn_artifact_sha256 x = Some digest \<and>
    we_sha256 E c = digest \<and> (\<exists>k. sn_artifact_storage_key x = Some k \<and> local_get k (ws_objects s) = Inr c) \<and>
    (\<forall>y\<in>set (wd_signatures (ws_db s)). sn_request_id y = rq_id r \<longrightarrow> sn_artifact_storage_key y \<noteq> None \<longrightarrow> sn_id y \<le> sn_id x)"
proof -
  let ?rows = "filter (\<lambda>s. sn_artifact_storage_key s \<noteq> None) (request_signatures (ws_db s) (rq_id r))"
  obtain key where k: "latest_artifact (ws_db s) (rq_id r) = Some (key, digest)" "local_get key (ws_objects s) = Inr c" "we_sha256 E c = digest"
    using assms by (auto simp: artifact_of_def split: option.splits sum.splits if_splits)
  obtain x rest where x: "rev ?rows = x # rest" "sn_artifact_storage_key x = Some key" "sn_artifact_sha256 x = Some digest"
    using k(1) by (auto simp: latest_artifact_def nonempty_def split: list.splits option.splits if_splits)
  have last: "last ?rows = x" "x \<in> set ?rows" using x(1) by (metis last_rev list.sel(1) hd_rev rev_is_Nil_conv list.distinct(1)) (metis list.set_intros(1) set_rev x(1))
  have "sorted (map sn_id ?rows)" unfolding request_signatures_def by (intro sorted_filter sorted_sort_key)
  then have "sn_id y \<le> sn_id x" if "y \<in> set ?rows" for y using sorted_last_max[OF _ that] last(1) by metis
  moreover have "x \<in> set (wd_signatures (ws_db s))" "sn_request_id x = rq_id r"
    using last(2) by (simp_all add: request_signatures_def)
  ultimately show ?thesis using x(2,3) k(2,3) by (intro bexI[of _ x]) (auto simp: request_signatures_def)
qed

theorem db_signed_document_by_id_witness:
  "db_signed_document demo_wf (uuid_str 77) None demo_completed
     = Inr (artifact_filename (uuid_str 77), ''bia@x.io'', ''bia@x.io'') \<and>
   (\<exists>x\<in>set (wd_signatures (ws_db demo_completed)). sn_artifact_sha256 x = Some ''bia@x.io'' \<and> sn_signed_at x = 950) \<and>
   (\<exists>y\<in>set (wd_signatures (ws_db demo_completed)). sn_artifact_sha256 y = Some ''caio@x.io'' \<and> sn_signed_at y = 980)"
proof -
  have a: "artifact_of demo_wf (uuid_str 77) (demo_request ReqCompleted) demo_completed
      = Inr (artifact_filename (uuid_str 77), ''bia@x.io'', ''bia@x.io'')" by code_simp
  have w: "wf_request (ws_db demo_completed) (uuid_str 77) = Inr (demo_request ReqCompleted)" by code_simp
  show ?thesis
    using db_signed_document_by_id[OF a] a w
    by (auto simp: db_signed_document_def demo_completed_rows) (auto simp: demo_signature_def)
qed

text \<open>the digest of an evidence record does not depend on the order in which its fields are stored, so it can
  be recomputed from the database's JSON.\<close>

theorem evidence_digest_canonical:
  assumes "mset ev = mset ev'" "distinct (map fst ev)"
  shows "evidence_sha256 E ev = evidence_sha256 E ev'"
  using dumps_order[OF assms] by (simp add: evidence_sha256_def)

theorem evidence_digest_canonical_witness:
  "evidence_sha256 demo_wf [(''consent'', JBool True), (''schema'', JStr ''v1'')]
     = evidence_sha256 demo_wf [(''schema'', JStr ''v1''), (''consent'', JBool True)]"
  by (rule evidence_digest_canonical) simp_all

end
