(* ===== verification/Serpro_Authorization.thy ===== *)
theory Serpro_Authorization
  imports Database_Signing Service_Calls
begin

text \<open>
  \<open>signature_request/serproid_service.py\<close>: the one-use authorisation of a certificate signature.

  \<^item> \<open>start_authorization\<close> stores an attempt in Redis under a fresh \<open>state\<close>, for ten minutes;
    \<open>finish_authorization\<close> takes it out again (\<open>GETDEL\<close>) before anything else, exchanges the code for a
    token, checks the certificate and signs through \<open>db_sign\<close>, whose certificate signer is
    \<open>sign_pdf_with_serpro\<close>.
  \<^item> Serpro ID, the Auth service, \<open>cryptography\<close> and pyHanko are parameters: the fields of
    \<open>serpro_env\<close>. An answer of a service is the decoded JSON value, or the exception of the call.
  \<^item> An attempt is stored as JSON and decoded again; the model stores the record. The draws of
    \<open>token_urlsafe\<close> are \<open>se_urlsafe n\<close>, for the \<open>n\<close>-th draw.
\<close>

section \<open>State and environment\<close>

record sign_command =
  sc_consent :: bool
  sc_consent_version :: string
  sc_stamp :: stamp_position
  sc_client :: client_evidence
  sc_geolocation :: geolocation_evidence

record attempt =
  at_token :: string
  at_subject :: string
  at_request_id :: string
  at_signer_id :: string
  at_document_sha256 :: string
  at_command :: sign_command
  at_verifier :: string
  at_ip :: string
  at_agent :: string

record serpro_state =
  sp_wf :: wf_state
  sp_attempts :: "attempt store"
  sp_draws :: nat

record certificate =
  x5_not_before :: datetime
  x5_not_after :: datetime
  x5_fingerprint :: string
  x5_der :: bytes

text \<open>A signature of a PDF as pyHanko reads it: its certificate and the result of the validation.\<close>

record embedded_signature =
  em_certificate :: bytes
  em_validation :: "(bool \<times> bool) result"

record serpro_env =
  se_wf :: wf_env
  se_client_id :: string
  se_client_secret :: string
  se_environment :: string
  se_web_url :: string
  se_urlsafe :: "nat \<Rightarrow> string"
  se_challenge :: "string \<Rightarrow> string"
  se_identity_match :: "string \<Rightarrow> string \<Rightarrow> string \<Rightarrow> json option"
  se_token :: "(string \<times> string) list \<Rightarrow> json result"
  se_certificates :: "string \<Rightarrow> json result"
  se_signature :: "string \<Rightarrow> string \<Rightarrow> json result"
  se_b64decode :: "string \<Rightarrow> bytes result"
  se_load_pem :: "bytes \<Rightarrow> certificate result"
  se_load_der :: "bytes \<Rightarrow> certificate result"
  se_digest :: "string \<Rightarrow> bytes \<Rightarrow> (string \<times> bytes) result"
  se_cms_type :: "bytes \<Rightarrow> string result"
  se_finish :: "bytes \<Rightarrow> string \<Rightarrow> bytes \<Rightarrow> bytes result"
  se_embedded :: "bytes \<Rightarrow> embedded_signature list result"

abbreviation se_now :: "serpro_env \<Rightarrow> datetime" where
  "se_now E \<equiv> we_now (se_wf E)"

definition serpro_base :: "serpro_env \<Rightarrow> string" where
  "serpro_base E = ''https://'' @
     (if se_environment E = ''homologation'' then ''hom.serproid.serpro.gov.br'' else ''serproid.serpro.gov.br'') @ ''/oauth/v0/oauth''"

definition redirect_uri :: "serpro_env \<Rightarrow> string" where
  "redirect_uri E = rstrip_by (\<lambda>c. c = CHR ''/'') (se_web_url E) @ ''/api/auth/serproid/callback''"

definition state_prefix :: string where
  "state_prefix = ''rubrica:serproid:state:''"

definition configured :: "serpro_env \<Rightarrow> unit result" where
  "configured E =
     (if se_client_id E = [] \<or> se_client_secret E = [] then Inl (workflow_error ''Serpro ID is not configured'' 503)
      else Inr ())"

text \<open>\<open>identity_matches_certificate\<close>: anything but the answer \<open>true\<close> is no match.\<close>

definition identity_matches_certificate :: "serpro_env \<Rightarrow> string \<Rightarrow> string \<Rightarrow> string \<Rightarrow> bool" where
  "identity_matches_certificate E email identifier_type identifier \<longleftrightarrow>
     (case se_identity_match E (lower (strip email)) identifier_type identifier of
        Some (JObj d) \<Rightarrow> dict_get d ''matches'' = Some (JBool True)
      | _ \<Rightarrow> False)"

section \<open>Starting\<close>

definition new_attempt ::
  "string \<Rightarrow> string \<Rightarrow> signing_read \<Rightarrow> sign_command \<Rightarrow> string \<Rightarrow> string \<Rightarrow> string \<Rightarrow> attempt"
where
  "new_attempt token subject context command verifier ip agent =
     \<lparr>at_token = token, at_subject = subject, at_request_id = uuid_str (req_id (sr_request context)),
      at_signer_id = uuid_str (sgn_id (sr_signer context)),
      at_document_sha256 = req_document_sha256 (sr_request context), at_command = command,
      at_verifier = verifier, at_ip = ip, at_agent = take 1000 agent\<rparr>"

text \<open>The checks before an attempt is stored.\<close>

definition start_guard :: "serpro_env \<Rightarrow> string \<Rightarrow> string \<Rightarrow> sign_command \<Rightarrow> wf_db \<Rightarrow> signing_read result" where
  "start_guard E token subject command db =
     (case configured E of Inl e \<Rightarrow> Inl e | Inr _ \<Rightarrow>
      if \<not> sc_consent command then Inl (workflow_error ''Explicit consent is required'' 400)
      else if is_identifier_type (identity_of (se_wf E) subject) \<notin> {Some ''BR_CPF'', Some ''BR_CNPJ''}
      then Inl (workflow_error ''A Brazilian CPF or CNPJ is required for Serpro ID signing'' 409)
      else (case db_signing_context (se_wf E) token subject False db of Inl e \<Rightarrow> Inl e | Inr context \<Rightarrow>
        if req_signature_mode (sr_request context) \<noteq> ModeSerproid
        then Inl (workflow_error ''This request does not use Serpro ID'' 409)
        else if req_status (sr_request context) \<noteq> ReqOpen \<or> sgn_status (sr_signer context) \<notin> {SgnPending, SgnViewed}
        then Inl (workflow_error ''Signature request is not open'' 409)
        else if int (req_signer_count (sr_request context)) - int (req_signed_count (sr_request context)) \<noteq> 1
        then Inl (workflow_error ''Certificate signing must be the final signature on this PDF'' 409)
        else Inr context))"

definition authorize_url :: "serpro_env \<Rightarrow> string \<Rightarrow> string \<Rightarrow> string" where
  "authorize_url E state verifier = serpro_base E @ ''/authorize?'' @ urlencode
     [(''response_type'', ''code''), (''client_id'', se_client_id E), (''redirect_uri'', redirect_uri E),
      (''scope'', ''single_signature''), (''state'', state), (''code_challenge'', se_challenge E verifier),
      (''code_challenge_method'', ''S256'')]"

definition start_authorization ::
  "serpro_env \<Rightarrow> string \<Rightarrow> string \<Rightarrow> sign_command \<Rightarrow> string \<Rightarrow> string \<Rightarrow> serpro_state \<Rightarrow> string result \<times> serpro_state"
where
  "start_authorization E token subject command ip agent s =
     (case start_guard E token subject command (ws_db (sp_wf s)) of
        Inl e \<Rightarrow> (Inl e, s)
      | Inr context \<Rightarrow>
          let state = se_urlsafe E (sp_draws s);
              verifier = se_urlsafe E (sp_draws s + 1);
              key = state_prefix @ state;
              s' = s\<lparr>sp_draws := sp_draws s + 2\<rparr>
          in if rd_get (se_now E) (sp_attempts s) key \<noteq> None
             then (Inl (workflow_error ''Unable to begin Serpro ID authorization'' 503), s')
             else (Inr (authorize_url E state verifier),
               s'\<lparr>sp_attempts := rd_set key (new_attempt token subject context command verifier ip agent)
                    (Some (se_now E + seconds 600)) (sp_attempts s)\<rparr>))"

section \<open>The certificate signature\<close>

text \<open>\<open>raw.splitlines()\<close>, and the base64 text between the lines of a PEM block.\<close>

definition line_break :: "char \<Rightarrow> bool" where
  "line_break c \<longleftrightarrow> (let n = of_char c :: int in (10 \<le> n \<and> n \<le> 13) \<or> (28 \<le> n \<and> n \<le> 30) \<or> n = 133)"

fun split_lines :: "string \<Rightarrow> string \<Rightarrow> string list" where
  "split_lines acc [] = (if acc = [] then [] else [rev acc])"
| "split_lines acc (c # cs) = (if line_break c then rev acc # split_lines [] cs else split_lines (c # acc) cs)"

definition unwrap_pem :: "string \<Rightarrow> string" where
  "unwrap_pem raw =
     (if contains ''-----BEGIN'' raw
      then concat (filter (\<lambda>line. take 5 line \<noteq> ''-----'') (split_lines [] raw)) else raw)"

text \<open>The CMS signature of an answer of the signature endpoint.\<close>

definition cms_signature :: "serpro_env \<Rightarrow> json \<Rightarrow> bytes result" where
  "cms_signature E reply =
     (case json_get_or reply ''signatures'' (JList []) of Inl e \<Rightarrow> Inl e | Inr signatures \<Rightarrow>
      (case json_len signatures of Inl e \<Rightarrow> Inl e | Inr n \<Rightarrow>
       if n \<noteq> 1 then Inl (workflow_error ''Serpro ID returned an unexpected signature'' 502)
       else (case json_first signatures of Inl e \<Rightarrow> Inl e | Inr first \<Rightarrow>
        (case json_get first ''id'' of Inl e \<Rightarrow> Inl e | Inr ident \<Rightarrow>
         if ident \<noteq> Some (JStr ''rubrica-pdf'')
         then Inl (workflow_error ''Serpro ID returned an unexpected signature'' 502)
         else (case json_get_or first ''raw_signature'' (JStr []) of
             Inr (JStr raw) \<Rightarrow>
               if raw = [] then Inl (workflow_error ''Serpro ID did not return a CMS signature'' 502)
               else (case se_b64decode E (unwrap_pem raw) of Inl e \<Rightarrow> Inl e | Inr cms \<Rightarrow>
                 (case se_cms_type E cms of Inl e \<Rightarrow> Inl e | Inr t \<Rightarrow>
                  if t \<noteq> ''signed_data'' then Inl (workflow_error ''Serpro ID returned a non-CMS signature'' 502)
                  else Inr cms))
           | Inr _ \<Rightarrow> Inl (workflow_error ''Serpro ID did not return a CMS signature'' 502)
           | Inl e \<Rightarrow> Inl e)))))"

text \<open>The signed file: exactly one signature, by the authorised certificate, that validates.\<close>

definition verify_signed :: "serpro_env \<Rightarrow> bytes \<Rightarrow> bytes \<Rightarrow> bytes result" where
  "verify_signed E der result =
     (case se_embedded E result of
        Inl e \<Rightarrow> Inl e
      | Inr [sig] \<Rightarrow>
          if em_certificate sig \<noteq> der
          then Inl (workflow_error ''Signed PDF certificate differs from the authorized certificate'' 502)
          else (case em_validation sig of Inl e \<Rightarrow> Inl e | Inr (intact, valid) \<Rightarrow>
            if \<not> intact \<or> \<not> valid then Inl (workflow_error ''Certificate signature failed PDF verification'' 502)
            else Inr result)
      | Inr _ \<Rightarrow> Inl (workflow_error ''PDF does not contain the expected certificate signature'' 502))"

definition sign_pdf_with_serpro :: "serpro_env \<Rightarrow> uuid \<Rightarrow> string \<Rightarrow> bytes \<Rightarrow> bytes \<Rightarrow> bytes result" where
  "sign_pdf_with_serpro E u access_token der unsigned =
     (case se_digest E (''RubricaSerproID'' @ uuid_hex u) unsigned of Inl e \<Rightarrow> Inl e | Inr (digest, output) \<Rightarrow>
      (case se_signature E access_token digest of Inl e \<Rightarrow> Inl e | Inr reply \<Rightarrow>
       (case cms_signature E reply of Inl e \<Rightarrow> Inl e | Inr cms \<Rightarrow>
        (case se_finish E output digest cms of Inl e \<Rightarrow> Inl e | Inr result \<Rightarrow> verify_signed E der result))))"

section \<open>Finishing\<close>

definition identity_types :: "(string, string) dict" where
  "identity_types = [(''CPF'', ''BR_CPF''), (''CNPJ'', ''BR_CNPJ'')]"

text \<open>The type and the number of the granted identity, when it is the signer's.\<close>

definition granted_identity :: "serpro_env \<Rightarrow> string \<Rightarrow> json \<Rightarrow> (string \<times> string) result" where
  "granted_identity E subject authorization =
     (case json_get authorization ''authorized_identification_type'' of Inl e \<Rightarrow> Inl e | Inr kind \<Rightarrow>
      (case (case kind of
               Some (JStr t) \<Rightarrow> Inr (dict_get identity_types t)
             | Some (JList _) \<Rightarrow> Inl (TypeError ''unhashable'')
             | Some (JObj _) \<Rightarrow> Inl (TypeError ''unhashable'')
             | _ \<Rightarrow> Inr None) of Inl e \<Rightarrow> Inl e | Inr identity_type \<Rightarrow>
       (case json_get_or authorization ''authorized_identification'' (JStr []) of Inl e \<Rightarrow> Inl e | Inr identifier \<Rightarrow>
        (case (identity_type, identifier) of
           (Some t, JStr n) \<Rightarrow>
             if identity_matches_certificate E subject t n then Inr (t, n)
             else Inl (workflow_error ''Certificate identity does not match the Rubrica signer'' 403)
         | _ \<Rightarrow> Inl (workflow_error ''Certificate identity does not match the Rubrica signer'' 403)))))"

text \<open>The single certificate of the discovery, within its validity.\<close>

definition discovered_certificate :: "serpro_env \<Rightarrow> string \<Rightarrow> certificate result" where
  "discovered_certificate E access_token =
     (case se_certificates E access_token of Inl e \<Rightarrow> Inl e | Inr reply \<Rightarrow>
      (case json_get_or reply ''certificates'' (JList []) of Inl e \<Rightarrow> Inl e | Inr certificates \<Rightarrow>
       (case json_len certificates of Inl e \<Rightarrow> Inl e | Inr n \<Rightarrow>
        if n \<noteq> 1 then Inl (workflow_error ''Serpro ID returned an unexpected certificate set'' 502)
        else (case json_first certificates of Inl e \<Rightarrow> Inl e | Inr first \<Rightarrow>
         (case json_item first ''certificate'' of
            Inl e \<Rightarrow> Inl e
          | Inr (JStr encoded) \<Rightarrow>
              (case (if contains ''-----BEGIN CERTIFICATE-----'' encoded then se_load_pem E encoded
                     else (case se_b64decode E encoded of Inl e \<Rightarrow> Inl e | Inr der \<Rightarrow> se_load_der E der)) of
                 Inl e \<Rightarrow> Inl e
               | Inr c \<Rightarrow>
                   if x5_not_before c \<le> se_now E \<and> se_now E \<le> x5_not_after c then Inr c
                   else Inl (workflow_error ''Serpro ID certificate is outside its validity period'' 403))
          | Inr _ \<Rightarrow> Inl AttributeError)))))"

definition last4 :: "string \<Rightarrow> string" where
  "last4 n = drop (length n - 4) n"

text \<open>From the code to the certificate: the access token, the certificate and what the evidence says of it.\<close>

definition exchange_code ::
  "serpro_env \<Rightarrow> string \<Rightarrow> attempt \<Rightarrow> string \<Rightarrow> (string \<times> certificate \<times> (string, string) dict) result"
where
  "exchange_code E subject a code =
     (case se_token E [(''grant_type'', ''authorization_code''), (''client_id'', se_client_id E),
          (''client_secret'', se_client_secret E), (''code'', code), (''code_verifier'', at_verifier a),
          (''redirect_uri'', redirect_uri E)] of Inl e \<Rightarrow> Inl e | Inr authorization \<Rightarrow>
      (case json_get authorization ''scope'' of Inl e \<Rightarrow> Inl e | Inr scope \<Rightarrow>
       if scope \<noteq> Some (JStr ''single_signature'')
       then Inl (workflow_error ''Serpro ID did not grant signing permission'' 403)
       else (case granted_identity E subject authorization of Inl e \<Rightarrow> Inl e | Inr (identity_type, identifier) \<Rightarrow>
        (case json_get authorization ''access_token'' of
           Inl e \<Rightarrow> Inl e
         | Inr (Some (JStr access_token)) \<Rightarrow>
             if access_token = [] then Inl (workflow_error ''Serpro ID did not return a signing token'' 502)
             else (case discovered_certificate E access_token of Inl e \<Rightarrow> Inl e | Inr c \<Rightarrow>
               Inr (access_token, c,
                 [(''provider'', ''serproid''), (''format'', ''PAdES-CMS''), (''certificate_sha256'', x5_fingerprint c),
                  (''identifier_type'', identity_type), (''identifier_last4'', last4 identifier)]))
         | Inr _ \<Rightarrow> Inl (workflow_error ''Serpro ID did not return a signing token'' 502)))))"

definition attempt_input :: "attempt \<Rightarrow> signing_input" where
  "attempt_input a =
     \<lparr>si_stamp = sc_stamp (at_command a), si_consent_version = sc_consent_version (at_command a),
      si_client = Some (sc_client (at_command a)), si_geolocation = Some (sc_geolocation (at_command a)),
      si_ip_address = at_ip a, si_user_agent = at_agent a\<rparr>"

definition unchanged_context :: "attempt \<Rightarrow> signing_read \<Rightarrow> bool" where
  "unchanged_context a context \<longleftrightarrow>
     uuid_str (req_id (sr_request context)) = at_request_id a \<and>
     uuid_str (sgn_id (sr_signer context)) = at_signer_id a \<and>
     req_document_sha256 (sr_request context) = at_document_sha256 a"

text \<open>
  What follows once the attempt is taken. \<open>u\<close> is the draw of the name of the signature field, and
  \<open>meanwhile\<close> what other transactions do to the workflow while Serpro ID is called.
\<close>

definition complete_attempt ::
  "serpro_env \<Rightarrow> uuid \<Rightarrow> (wf_state \<Rightarrow> wf_state) \<Rightarrow> attempt \<Rightarrow> string option \<Rightarrow> string option \<Rightarrow> string \<Rightarrow> wf_state \<Rightarrow>
     string result \<times> wf_state"
where
  "complete_attempt E u meanwhile a code err subject w =
     (if at_subject a \<noteq> subject
      then (Inl (workflow_error ''Serpro ID authorization belongs to another user'' 403), w)
      else (case (nonempty err, nonempty code) of
         (None, Some c) \<Rightarrow>
           (case db_signing_context (se_wf E) (at_token a) subject False (ws_db w) of Inl e \<Rightarrow> (Inl e, w) | Inr context \<Rightarrow>
            if \<not> unchanged_context a context
            then (Inl (workflow_error ''The document or signer changed during authorization'' 409), w)
            else (case exchange_code E subject a c of Inl e \<Rightarrow> (Inl e, meanwhile w) | Inr (access_token, cert, info) \<Rightarrow>
              (case db_sign (se_wf E) (at_token a) subject True (attempt_input a)
                      (Some (sign_pdf_with_serpro E u access_token (x5_der cert))) (Some info) (meanwhile w) of
                 (Inl e, w') \<Rightarrow> (Inl e, w')
               | (Inr _, w') \<Rightarrow> (Inr (at_token a), w'))))
       | _ \<Rightarrow> (Inr (at_token a), w)))"

definition finish_authorization ::
  "serpro_env \<Rightarrow> uuid \<Rightarrow> (wf_state \<Rightarrow> wf_state) \<Rightarrow> string \<Rightarrow> string option \<Rightarrow> string option \<Rightarrow> string \<Rightarrow> serpro_state \<Rightarrow>
     string result \<times> serpro_state"
where
  "finish_authorization E u meanwhile state code err subject s =
     (case configured E of Inl e \<Rightarrow> (Inl e, s) | Inr _ \<Rightarrow>
      let key = state_prefix @ state;
          s' = s\<lparr>sp_attempts := rd_del key (sp_attempts s)\<rparr>
      in (case rd_get (se_now E) (sp_attempts s) key of
            None \<Rightarrow> (Inl (workflow_error ''Serpro ID authorization expired or was already used'' 400), s')
          | Some a \<Rightarrow>
              (case complete_attempt E u meanwhile a code err subject (sp_wf s) of
                 (r, w) \<Rightarrow> (r, s'\<lparr>sp_wf := w\<rparr>))))"

end
