(* ===== verification/Serpro_Claims.thy ===== *)
theory Serpro_Claims
  imports Serpro_Authorization Database_Claims
begin

text \<open>
  Properties of the Serpro ID signature: an authorisation is used once, and what a signature made
  through it was checked against.
\<close>

section \<open>Runs\<close>

text \<open>
  Starts, finishes and anything else that happens to the workflow, in any order; \<open>draw n\<close> is the
  \<open>n\<close>-th draw of \<open>token_urlsafe\<close>.
\<close>

inductive serpro_step :: "(nat \<Rightarrow> string) \<Rightarrow> serpro_state \<Rightarrow> serpro_state \<Rightarrow> bool" for draw where
  start: "se_urlsafe E = draw \<Longrightarrow> serpro_step draw s (snd (start_authorization E token subject command ip agent s))"
| finish: "serpro_step draw s (snd (finish_authorization E u meanwhile state code err subject s))"
| workflow: "serpro_step draw s (s\<lparr>sp_wf := w\<rparr>)"

definition serpro_init :: "wf_state \<Rightarrow> serpro_state" where
  "serpro_init w = \<lparr>sp_wf = w, sp_attempts = [], sp_draws = 0\<rparr>"

text \<open>Every attempt in the store has the consent of its signer, under a state that was drawn before.\<close>

definition attempts_ok :: "(nat \<Rightarrow> string) \<Rightarrow> serpro_state \<Rightarrow> bool" where
  "attempts_ok draw s \<longleftrightarrow> (\<forall>k a e. dict_get (sp_attempts s) k = Some (a, e) \<longrightarrow>
     sc_consent (at_command a) \<and> (\<exists>n<sp_draws s. k = state_prefix @ draw n))"

lemma start_consent: "start_guard E token subject command db = Inr context \<Longrightarrow> sc_consent command"
  by (auto simp: start_guard_def split: sum.splits if_splits)

lemma attempts_ok_step: "serpro_step draw s s' \<Longrightarrow> attempts_ok draw s \<Longrightarrow> attempts_ok draw s'"
proof (induction rule: serpro_step.induct)
  case (start E s token subject command ip agent)
  then show ?case
    using start_consent[of E token subject command]
    by (fastforce simp: start_authorization_def Let_def attempts_ok_def rd_set_def new_attempt_def less_Suc_eq
        split: sum.splits if_splits)
next
  case (finish s E u meanwhile state code err subject)
  then show ?case
    by (auto simp: finish_authorization_def Let_def attempts_ok_def rd_del_def split: sum.splits option.splits prod.splits if_splits)
qed (simp add: attempts_ok_def)

lemma attempts_ok_run: "(serpro_step draw)\<^sup>*\<^sup>* s s' \<Longrightarrow> attempts_ok draw s \<Longrightarrow> attempts_ok draw s'"
  by (induction rule: rtranclp_induct) (auto intro: attempts_ok_step)

lemma attempts_ok_init: "attempts_ok draw (serpro_init w)"
  by (simp add: attempts_ok_def serpro_init_def)

text \<open>A state that was drawn before is never stored again.\<close>

definition spent :: "(nat \<Rightarrow> string) \<Rightarrow> nat \<Rightarrow> serpro_state \<Rightarrow> bool" where
  "spent draw n s \<longleftrightarrow> n < sp_draws s \<and> dict_get (sp_attempts s) (state_prefix @ draw n) = None"

lemma spent_step: "serpro_step draw s s' \<Longrightarrow> inj draw \<Longrightarrow> spent draw n s \<Longrightarrow> spent draw n s'"
proof (induction rule: serpro_step.induct)
  case (start E s token subject command ip agent)
  then show ?case
    by (auto simp: start_authorization_def Let_def spent_def rd_set_def inj_eq split: sum.splits if_splits)
next
  case (finish s E u meanwhile state code err subject)
  then show ?case
    by (auto simp: finish_authorization_def Let_def spent_def rd_del_def split: sum.splits option.splits prod.splits if_splits)
qed (simp add: spent_def)

lemma spent_run: "(serpro_step draw)\<^sup>*\<^sup>* s s' \<Longrightarrow> inj draw \<Longrightarrow> spent draw n s \<Longrightarrow> spent draw n s'"
  by (induction rule: rtranclp_induct) (auto intro: spent_step)

lemma spent_refused:
  "spent draw n s \<Longrightarrow> configured E = Inr () \<Longrightarrow>
     fst (finish_authorization E u meanwhile (draw n) code err subject s)
       = Inl (workflow_error ''Serpro ID authorization expired or was already used'' 400) \<and>
     sp_wf (snd (finish_authorization E u meanwhile (draw n) code err subject s)) = sp_wf s"
  by (simp add: finish_authorization_def spent_def rd_get_def Let_def)

section \<open>A demonstration\<close>

definition demo_serpro_open :: wf_state where
  "demo_serpro_open = demo_open\<lparr>ws_db := (ws_db demo_open)
     \<lparr>wd_requests := [(demo_request ReqOpen)\<lparr>rq_signature_mode := ModeSerproid\<rparr>],
      wd_signers := [demo_signer 74 ''bia@x.io'' SgnPending]\<rparr>\<rparr>"
definition demo_serpro_wf :: wf_env where
  "demo_serpro_wf = demo_wf\<lparr>we_identity_reply := (\<lambda>e. Some
     \<lparr>is_identifier_type = Some ''BR_CPF'', is_issuing_country = Some ''BR'', is_masked_display = None\<rparr>)\<rparr>"

definition demo_serpro :: serpro_env where
  "demo_serpro = \<lparr>se_wf = demo_serpro_wf, se_client_id = ''id'', se_client_secret = ''key'', se_environment = ''homologation'',
     se_web_url = ''https://app'', se_urlsafe = (\<lambda>n. replicate (Suc n) CHR ''s''), se_challenge = id,
     se_identity_match = (\<lambda>e t n. Some (JObj [(''matches'', JBool True)])),
     se_token = (\<lambda>q. Inr (JObj [(''scope'', JStr ''single_signature''), (''authorized_identification_type'', JStr ''CPF''),
       (''authorized_identification'', JStr ''52998224725''), (''access_token'', JStr ''t'')])),
     se_certificates = (\<lambda>t. Inr (JObj [(''certificates'', JList [JObj [(''certificate'', JStr ''c'')]])])),
     se_signature = (\<lambda>t d. Inr (JObj [(''signatures'', JList [JObj [(''id'', JStr ''rubrica-pdf''), (''raw_signature'', JStr ''cms'')]])])),
     se_b64decode = Inr, se_load_pem = (\<lambda>b. Inl (ValueError ''pem'')),
     se_load_der = (\<lambda>b. Inr \<lparr>x5_not_before = 0, x5_not_after = 2000, x5_fingerprint = ''fp'', x5_der = b\<rparr>),
     se_digest = (\<lambda>f b. Inr (''d'', b)), se_cms_type = (\<lambda>b. Inr ''signed_data''), se_finish = (\<lambda>out d cms. Inr (out @ cms)),
     se_embedded = (\<lambda>b. Inr [\<lparr>em_certificate = ''c'', em_validation = Inr (True, True)\<rparr>])\<rparr>"

definition demo_command :: sign_command where
  "demo_command = \<lparr>sc_consent = True, sc_consent_version = ''v1'', sc_stamp = si_stamp demo_input,
     sc_client = \<lparr>cv_platform = ''p'', cv_language = ''en'', cv_timezone = ''UTC'', cv_screen_width = None, cv_screen_height = None\<rparr>,
     sc_geolocation = \<lparr>gv_status = ''unavailable'', gv_latitude = None, gv_longitude = None, gv_accuracy_meters = None\<rparr>\<rparr>"

definition demo_started :: serpro_state where
  "demo_started = snd (start_authorization demo_serpro demo_token ''bia@x.io'' demo_command ''1.1.1.1'' ''ua''
     \<lparr>sp_wf = demo_serpro_open, sp_attempts = [], sp_draws = 0\<rparr>)"




definition demo_attempt :: attempt where
  "demo_attempt = \<lparr>at_token = demo_token, at_subject = ''bia@x.io'', at_request_id = uuid_str 77, at_signer_id = uuid_str 74,
     at_document_sha256 = demo_pdf_bytes, at_command = demo_command, at_verifier = ''ss'', at_ip = ''1.1.1.1'', at_agent = ''ua''\<rparr>"

definition demo_certificate :: certificate where
  "demo_certificate = \<lparr>x5_not_before = 0, x5_not_after = 2000, x5_fingerprint = ''fp'', x5_der = ''c''\<rparr>"

definition demo_info :: "(string, string) dict" where
  "demo_info = [(''provider'', ''serproid''), (''format'', ''PAdES-CMS''), (''certificate_sha256'', ''fp''),
     (''identifier_type'', ''BR_CPF''), (''identifier_last4'', ''4725'')]"

lemma demo_started_attempts:
  "sp_attempts demo_started = [(state_prefix @ ''s'', demo_attempt, Some 600001000)]" "sp_wf demo_started = demo_serpro_open"
  by code_simp+

lemma demo_exchange: "exchange_code demo_serpro ''bia@x.io'' demo_attempt ''code'' = Inr (''t'', demo_certificate, demo_info)"
  by code_simp

lemma demo_context:
  "case db_signing_context demo_serpro_wf demo_token ''bia@x.io'' False (ws_db demo_serpro_open) of
     Inl e \<Rightarrow> False | Inr c \<Rightarrow> unchanged_context demo_attempt c"
  by code_simp

text \<open>The steps of the signature, evaluated one by one.\<close>

definition demo_serpro_request :: request_row where
  "demo_serpro_request = (demo_request ReqOpen)\<lparr>rq_signature_mode := ModeSerproid\<rparr>"

definition demo_serpro_charged :: wf_db where
  "demo_serpro_charged = (case consume_signature 1000 0 demo_rows of Inl e \<Rightarrow> ws_db demo_serpro_open
     | Inr core \<Rightarrow> (ws_db demo_serpro_open)\<lparr>wd_core := core\<rparr>)"

lemma demo_serpro_prepared:
  "map_sum id (\<lambda>(g, r, d, a, db). (g, r, d, sa_content a, db))
     (prepare_signature demo_serpro_wf demo_token ''bia@x.io'' (attempt_input demo_attempt) (identity_of demo_serpro_wf ''bia@x.io'')
       (Some (sign_pdf_with_serpro demo_serpro 5 ''t'' ''c'')) (Some demo_info) demo_serpro_open)
   = Inr (demo_signer 74 ''bia@x.io'' SgnPending, demo_serpro_request, demo_document, demo_pdf_bytes @ ''stampcms'', demo_serpro_charged)"
  by code_simp

lemma demo_serpro_put:
  "case local_put (we_uuid4 demo_serpro_wf (wd_next demo_serpro_charged + 1)) (Some (document_storage_scope (dr_tenant_id demo_document)
      (document_owner_storage_id demo_serpro_wf demo_serpro_charged demo_document))) (demo_pdf_bytes @ ''stampcms'') (ws_objects demo_serpro_open) of
     (Inr (key, n), objs) \<Rightarrow> key = document_storage_scope 0 7 @ ''/'' @ uuid_hex 69 | _ \<Rightarrow> False"
  by code_simp

lemma demo_serpro_recorded:
  "case record_signature demo_serpro_wf (wd_next demo_serpro_charged + 2) (demo_signer 74 ''bia@x.io'' SgnPending) demo_serpro_request
      ''bia@x.io'' a (document_storage_scope 0 7 @ ''/'' @ uuid_hex 69) (draws 3 demo_serpro_charged) of
     Inl e \<Rightarrow> False | Inr (v, db') \<Rightarrow> wf_constraints_ok db'"
  by code_simp

lemma demo_serpro_signs:
  "\<exists>v s'. db_sign demo_serpro_wf demo_token ''bia@x.io'' True (attempt_input demo_attempt)
     (Some (sign_pdf_with_serpro demo_serpro 5 ''t'' ''c'')) (Some demo_info) demo_serpro_open = (Inr v, s')"
proof -
  obtain a where a: "prepare_signature demo_serpro_wf demo_token ''bia@x.io'' (attempt_input demo_attempt)
      (identity_of demo_serpro_wf ''bia@x.io'') (Some (sign_pdf_with_serpro demo_serpro 5 ''t'' ''c'')) (Some demo_info) demo_serpro_open
      = Inr (demo_signer 74 ''bia@x.io'' SgnPending, demo_serpro_request, demo_document, a, demo_serpro_charged)"
    "sa_content a = demo_pdf_bytes @ ''stampcms''"
    using demo_serpro_prepared by (auto simp: map_sum_Inr)
  obtain n objs where p: "local_put (we_uuid4 demo_serpro_wf (wd_next demo_serpro_charged + 1)) (Some (document_storage_scope (dr_tenant_id demo_document)
      (document_owner_storage_id demo_serpro_wf demo_serpro_charged demo_document))) (sa_content a) (ws_objects demo_serpro_open)
      = (Inr (document_storage_scope 0 7 @ ''/'' @ uuid_hex 69, n), objs)"
    using demo_serpro_put unfolding a(2) by (auto split: prod.splits sum.splits)
  obtain v db' where r: "record_signature demo_serpro_wf (wd_next demo_serpro_charged + 2) (demo_signer 74 ''bia@x.io'' SgnPending)
      demo_serpro_request ''bia@x.io'' a (document_storage_scope 0 7 @ ''/'' @ uuid_hex 69) (draws 3 demo_serpro_charged) = Inr (v, db')"
    "wf_constraints_ok db'"
    using demo_serpro_recorded[of a] by (auto split: prod.splits sum.splits)
  show ?thesis using sign_committed[OF a(1) p r] by blast
qed

text \<open>A finish with a code signs, and one that was denied at Serpro ID only consumes the attempt.\<close>

lemma demo_found: "rd_get (se_now demo_serpro) (sp_attempts demo_started) (state_prefix @ ''s'') = Some demo_attempt"
  unfolding demo_started_attempts by code_simp

lemma demo_configured: "configured demo_serpro = Inr ()"
  by code_simp

lemma demo_finished:
  "\<exists>s'. finish_authorization demo_serpro 5 id ''s'' (Some ''code'') None ''bia@x.io'' demo_started = (Inr demo_token, s')"
proof -
  obtain v s' where sign: "db_sign demo_serpro_wf demo_token ''bia@x.io'' True (attempt_input demo_attempt)
     (Some (sign_pdf_with_serpro demo_serpro 5 ''t'' ''c'')) (Some demo_info) demo_serpro_open = (Inr v, s')"
    using demo_serpro_signs by blast
  obtain c where c: "db_signing_context demo_serpro_wf demo_token ''bia@x.io'' False (ws_db demo_serpro_open) = Inr c"
    "unchanged_context demo_attempt c" using demo_context by (auto split: sum.splits)
  have env: "se_wf demo_serpro = demo_serpro_wf" "x5_der demo_certificate = ''c''" "at_token demo_attempt = demo_token"
    "at_subject demo_attempt = ''bia@x.io''" by (simp_all add: demo_serpro_def demo_certificate_def demo_attempt_def)
  have "complete_attempt demo_serpro 5 id demo_attempt (Some ''code'') None ''bia@x.io'' demo_serpro_open = (Inr demo_token, s')"
    using sign c demo_exchange by (simp add: complete_attempt_def env nonempty_def)
  then show ?thesis by (simp add: finish_authorization_def demo_configured demo_found demo_started_attempts(2) Let_def)
qed

lemma demo_reachable:
  "(serpro_step (\<lambda>n. replicate (Suc n) CHR ''s''))\<^sup>*\<^sup>* (serpro_init demo_serpro_open) demo_started"
  unfolding demo_started_def serpro_init_def by (rule r_into_rtranclp, rule serpro_step.start) (simp add: demo_serpro_def)

lemma demo_draws: "inj (\<lambda>n. replicate (Suc n) CHR ''s'')"
  by (rule injI) (simp only: replicate_eq_replicate, simp)

section \<open>One use\<close>

text \<open>C9: an authorisation is used once: after a finish that found it, whatever its outcome, every later finish with
  the same state is refused and changes nothing, however starts, finishes and workflow steps are
  interleaved, provided that the draws of the random states do not collide.\<close>

theorem serpro_single_use:
  assumes "inj draw" "(serpro_step draw)\<^sup>*\<^sup>* (serpro_init w) s"
    "dict_get (sp_attempts s) (state_prefix @ state) \<noteq> None" "configured E = Inr ()"
    "(serpro_step draw)\<^sup>*\<^sup>* (snd (finish_authorization E u meanwhile state code err subject s)) t" "configured E' = Inr ()"
  shows "fst (finish_authorization E' u' meanwhile' state code' err' subject' t)
      = Inl (workflow_error ''Serpro ID authorization expired or was already used'' 400) \<and>
    sp_wf (snd (finish_authorization E' u' meanwhile' state code' err' subject' t)) = sp_wf t"
proof -
  have "attempts_ok draw s" using attempts_ok_run[OF assms(2) attempts_ok_init] .
  then obtain n where n: "n < sp_draws s" "state = draw n" using assms(3) unfolding attempts_ok_def by fastforce
  then have "spent draw n (snd (finish_authorization E u meanwhile state code err subject s))"
    using assms(4) by (auto simp: finish_authorization_def Let_def spent_def rd_del_def split: option.splits prod.splits)
  then show ?thesis using spent_refused[OF spent_run[OF assms(5,1)] assms(6)] n(2) by blast
qed

theorem serpro_single_use_witness:
  "fst (finish_authorization demo_serpro 6 id ''s'' (Some ''code'') None ''bia@x.io''
       (snd (finish_authorization demo_serpro 5 id ''s'' None (Some ''denied'') ''bia@x.io'' demo_started)))
     = Inl (workflow_error ''Serpro ID authorization expired or was already used'' 400)"
  using serpro_single_use[OF demo_draws demo_reachable _ demo_configured rtranclp.rtrancl_refl demo_configured,
      of "''s''" 6 id "Some ''code''" None "''bia@x.io''" 5 id None "Some ''denied''" "''bia@x.io''"]
  by (simp add: demo_started_attempts)

section \<open>A certificate signature\<close>

lemma all_signed_but:
  assumes "pending_signers db r = 1" "g \<in> set (wd_signers db)" "sg_request_id g = r" "sg_status g \<noteq> SgnSigned"
  shows "\<forall>h\<in>set (wd_signers db). sg_request_id h = r \<longrightarrow> h = g \<or> sg_status h = SgnSigned"
proof -
  obtain x where "filter (\<lambda>g. sg_status g \<noteq> SgnSigned) (request_signers db r) = [x]"
    using assms(1) by (auto simp: pending_signers_def length_Suc_conv)
  then have "{h \<in> set (wd_signers db). sg_request_id h = r \<and> sg_status h \<noteq> SgnSigned} = {x}"
    by (auto simp: request_signers_def dest!: arg_cong[where f = set])
  then show ?thesis using assms(2-) by (metis (mono_tags, lifting) mem_Collect_eq singletonD)
qed

text \<open>The content that the certificate signer returned is what is stored.\<close>

lemma certificate_content:
  assumes "build_artifact E g r user i identity country (Some f) info original db = Inr a"
    "rq_signature_mode r = ModeSerproid"
  shows "\<exists>unsigned. f unsigned = Inr (sa_content a)"
  using assms unfolding build_artifact_def Let_def option.case
  by (simp split: sum.split_asm) (metis signed_artifact.select_convs(1))

lemma certificate_signature:
  assumes "db_sign E token user True i (Some f) info w = (Inr v, w')"
  obtains g r x key unsigned content where
    "g \<in> set (wd_signers (ws_db w))" "r \<in> set (wd_requests (ws_db w))" "sg_request_id g = rq_id r"
    "sg_auth_user_id g = lower user" "rq_signing_token_hash r = Some (we_sha256 E token)"
    "rq_signature_mode r = ModeSerproid" "sg_status g \<in> {SgnPending, SgnViewed}"
    "\<forall>h\<in>set (wd_signers (ws_db w)). sg_request_id h = rq_id r \<longrightarrow> h = g \<or> sg_status h = SgnSigned"
    "wd_signatures (ws_db w') = wd_signatures (ws_db w) @ [x]" "sn_signer_id x = sg_id g" "sn_request_id x = rq_id r"
    "sn_document_sha256 x = rq_document_sha256 r"
    "sn_artifact_storage_key x = Some key" "local_get key (ws_objects w') = Inr content" "f unsigned = Inr content"
    "wd_requests (ws_db w') = table_update (\<lambda>y. rq_id y = rq_id r)
       (\<lambda>y. y\<lparr>rq_status := ReqCompleted, rq_completed_at := Some (we_now E)\<rparr>) (wd_requests (ws_db w))"
proof -
  obtain g r d a db where prep: "prepare_signature E token user i (identity_of E user) (Some f) info w = Inr (g, r, d, a, db)"
    using assms by (auto simp: db_sign_def split: if_splits sum.splits prod.splits)
  obtain ver core original where P: "resolved_signer E token user False (ws_db w) = Inr ((g, r), ws_db w)"
    "signing_guard E g r user True (ws_db w) = Inr (ver, d)"
    "build_artifact E g r user i (identity_of E user) (Option.bind (tenant_get (wd_core (ws_db w)) (dr_tenant_id d)) ten_country_code)
       (Some f) info original db = Inr a" "db = (ws_db w)\<lparr>wd_core := core\<rparr>"
    by (rule prepare_signature_Inr[OF prep]) (rule that; simp)
  let ?sc = "document_storage_scope (dr_tenant_id d) (document_owner_storage_id E db d)"
  have st: "store_then (we_uuid4 E (wd_next db + 1)) ?sc (sa_content a)
      (\<lambda>key sz. record_signature E (wd_next db + 2) g r user a key (draws 3 db)) w = (Inr v, w')"
    using assms prep by (simp add: db_sign_def)
  then obtain key n objs db' where C: "local_put (we_uuid4 E (wd_next db + 1)) (Some ?sc) (sa_content a) (ws_objects w) = (Inr (key, n), objs)"
    "record_signature E (wd_next db + 2) g r user a key (draws 3 db) = Inr (v, db')" "w' = \<lparr>ws_db = wf_synced db', ws_objects = objs\<rparr>"
    by (cases "we_uuid4 E (wd_next db + 1)" ?sc "sa_content a"
        "\<lambda>key (sz :: nat). record_signature E (wd_next db + 2) g r user a key (draws 3 db)" w rule: store_then_cases) auto
  note R = resolved_signer_Inr[OF P(1)] and G = signing_guard_Inr[OF P(2)]
  have cert: "rq_signature_mode r = ModeSerproid" "sg_status g \<in> {SgnPending, SgnViewed}" "pending_signers (ws_db w) (rq_id r) = 1"
    using G by (auto simp: certificate_guard_def split: if_splits)
  obtain g' x where X: "g' = g\<lparr>sg_status := SgnSigned, sg_signed_at := Some (we_now E)\<rparr>"
    "x = new_signature E (wd_next db + 2) g r user a key"
    "wd_signers db' = table_update (\<lambda>y. sg_id y = sg_id g) (\<lambda>_. g') (wd_signers db)"
    "wd_signatures db' = wd_signatures db @ [x]"
    "wd_requests db' = (if pending_signers db' (rq_id r) = 0
       then table_update (\<lambda>y. rq_id y = rq_id r) (\<lambda>y. y\<lparr>rq_status := ReqCompleted, rq_completed_at := Some (we_now E)\<rparr>) (wd_requests db)
       else wd_requests db)"
    by (rule record_signature_Inr[OF C(2)]) (simp add: draws_sel)
  have but: "\<forall>h\<in>set (wd_signers (ws_db w)). sg_request_id h = rq_id r \<longrightarrow> h = g \<or> sg_status h = SgnSigned"
    using all_signed_but[OF cert(3)] R G by metis
  have "pending_signers db' (rq_id r) = 0"
    using but X(1,3) P(4) by (auto simp: pending_signers_def request_signers_def filter_empty_conv set_table_update split: if_splits)
  moreover obtain unsigned where "f unsigned = Inr (sa_content a)" using certificate_content[OF P(3) cert(1)] by blast
  ultimately show ?thesis
    using that[of g r x key "sa_content a" unsigned] R cert but X C put_more_reads[OF C(1)] P(4) by (simp add: new_signature_def)
qed

lemma verify_signed_Inr:
  "verify_signed E der result = Inr content \<Longrightarrow>
     content = result \<and> (\<exists>sig. se_embedded E content = Inr [sig] \<and> em_certificate sig = der \<and> em_validation sig = Inr (True, True))"
  by (auto simp: verify_signed_def split: sum.splits list.splits if_splits)

lemma sign_pdf_Inr:
  "sign_pdf_with_serpro E u access_token der unsigned = Inr content \<Longrightarrow>
     \<exists>sig. se_embedded E content = Inr [sig] \<and> em_certificate sig = der \<and> em_validation sig = Inr (True, True)"
  by (auto simp: sign_pdf_with_serpro_def split: sum.splits prod.splits dest!: verify_signed_Inr)

lemma discovered_valid:
  "discovered_certificate E access_token = Inr c \<Longrightarrow> x5_not_before c \<le> se_now E \<and> se_now E \<le> x5_not_after c"
  by (auto simp: discovered_certificate_def split: sum.splits json.splits if_splits)

lemma granted_identity_Inr:
  "granted_identity E subject authorization = Inr (t, n) \<Longrightarrow> t \<in> {''BR_CPF'', ''BR_CNPJ''} \<and> identity_matches_certificate E subject t n"
  by (auto simp: granted_identity_def identity_types_def split: sum.splits option.splits json.splits if_splits)

lemma exchange_code_Inr:
  assumes "exchange_code E subject a code = Inr (access_token, c, info)"
  shows "x5_not_before c \<le> se_now E \<and> se_now E \<le> x5_not_after c \<and>
    (\<exists>t n. t \<in> {''BR_CPF'', ''BR_CNPJ''} \<and> identity_matches_certificate E subject t n)"
  using assms
  by (auto simp: exchange_code_def split: sum.splits prod.splits option.splits json.splits if_splits
      dest!: discovered_valid granted_identity_Inr)



text \<open>a finish that fails consumes the authorisation and leaves the tables as other transactions left them, and
  every object of the store reads as before.\<close>

theorem serpro_failure_atomic:
  assumes "finish_authorization E u meanwhile state code err subject s = (Inl e, s')" "configured E = Inr ()"
  shows "dict_get (sp_attempts s') (state_prefix @ state) = None \<and>
    (\<exists>w\<in>{sp_wf s, meanwhile (sp_wf s)}. ws_db (sp_wf s') = ws_db w \<and>
       (\<forall>k. local_get k (ws_objects (sp_wf s')) = local_get k (ws_objects w)))"
proof -
  have failed: "\<exists>w\<in>{sp_wf s, meanwhile (sp_wf s)}. ws_db w' = ws_db w \<and> same_reads (ws_objects w) (ws_objects w')"
    if "complete_attempt E u meanwhile a code err subject (sp_wf s) = (Inl e, w')" for a w'
    using that
    by (auto simp: complete_attempt_def db_sign_def same_reads_def split: if_splits option.splits sum.splits prod.splits
        dest!: store_then_failed)
  have gone: "dict_get (sp_attempts s') (state_prefix @ state) = None"
    using assms by (auto simp: finish_authorization_def Let_def rd_del_def split: option.splits prod.splits)
  show ?thesis
  proof (cases "rd_get (se_now E) (sp_attempts s) (state_prefix @ state)")
    case None
    then have "sp_wf s' = sp_wf s" using assms by (auto simp: finish_authorization_def Let_def)
    then show ?thesis using gone by blast
  next
    case (Some a)
    then have "complete_attempt E u meanwhile a code err subject (sp_wf s) = (Inl e, sp_wf s')"
      using assms by (auto simp: finish_authorization_def Let_def split: prod.splits)
    then show ?thesis using failed gone unfolding same_reads_def by blast
  qed
qed

theorem serpro_failure_atomic_witness:
  "let r = finish_authorization demo_serpro 5 id ''s'' (Some ''code'') None ''eve@x.io'' demo_started
   in fst r = Inl (workflow_error ''Serpro ID authorization belongs to another user'' 403) \<and>
      dict_get (sp_attempts (snd r)) (state_prefix @ ''s'') = None \<and> ws_db (sp_wf (snd r)) = ws_db demo_serpro_open"
proof -
  obtain s' where r: "finish_authorization demo_serpro 5 id ''s'' (Some ''code'') None ''eve@x.io'' demo_started
      = (Inl (workflow_error ''Serpro ID authorization belongs to another user'' 403), s')"
    by (simp add: finish_authorization_def demo_configured demo_found Let_def complete_attempt_def demo_attempt_def)
  from serpro_failure_atomic[OF r demo_configured] show ?thesis
    unfolding Let_def r by (simp add: demo_started_attempts(2))
qed

end
