(* ===== verification/Notification_State.thy ===== *)
theory Notification_State
  imports Core_State Service_Calls
begin

text \<open>
  The state and the environment of the notification API: its settings, the requests it sends, the
  Redis keys of deliveries and webhook claims, and the table of WhatsApp connections
  (\<open>meta_connection_entity.py\<close>).

  \<^item> An unset setting is the empty string, as both are false in Python.
  \<^item> \<open>nt_calls\<close> is the list of the requests sent so far and \<open>nt_published\<close> the events given to Kafka:
    what other systems have seen. \<open>ne_http\<close> answers a request.
  \<^item> With Redis disabled the keys live in the memory of the process; they are the same store, with
    entries that do not expire.
  \<^item> The media storage and the pydantic validation of a webhook body are parameters:
    \<open>shared_kernel.media\<close>, which the code imports, is not in the repository.
\<close>

section \<open>Requests\<close>

datatype http_body = NoBody | JsonBody json | FormBody string

record http_request =
  hr_method :: string
  hr_url :: string
  hr_headers :: "(string, string) dict"
  hr_body :: http_body

text \<open>
  A reply is a success with its decoded body (\<open>None\<close> when that is not JSON), an error status with the
  raw body and its decoding, or no reply at all.
\<close>

datatype http_reply =
    HttpOk "json option"
  | HttpStatus int string "json option"
  | HttpDown

section \<open>Settings, rows and state\<close>

record notify_settings =
  ns_email_provider :: string
  ns_sendgrid_key :: string
  ns_resend_key :: string
  ns_resend_from :: string
  ns_slack_url :: string
  ns_twilio_sid :: string
  ns_twilio_token :: string
  ns_twilio_from :: string
  ns_whatsapp_provider :: string
  ns_graph_version :: string
  ns_app_id :: string
  ns_app_secret :: string
  ns_system_user :: string
  ns_meta_token :: string
  ns_meta_phone :: string
  ns_verify_token :: string
  ns_meta_tenant :: string
  ns_redis :: bool
  ns_prefix :: string
  ns_default_policy :: string
  ns_retention :: int
  ns_kafka :: bool
  ns_whatsapp_topic :: string
  ns_allowed_services :: "string list"
  ns_service_name :: string
  ns_service_key :: string

record meta_connection =
  mc_id :: uuid
  mc_tenant :: uuid
  mc_waba :: string
  mc_phone :: string
  mc_display :: "string option"
  mc_verified_name :: "string option"
  mc_quality :: "string option"
  mc_status :: string
  mc_connected_at :: datetime
  mc_last_verified_at :: "datetime option"
  mc_disconnected_at :: "datetime option"

record accepted_delivery =
  ac_delivery_id :: string
  ac_channel :: string
  ac_recipient :: string
  ac_provider :: string
  ac_status :: string
  ac_store :: string
  ac_policy :: string
  ac_persisted :: bool
  ac_retention :: "int option"

record notify_state =
  nt_draws :: nat
  nt_calls :: "http_request list"
  nt_deliveries :: "accepted_delivery store"
  nt_claims :: "unit store"
  nt_connections :: "meta_connection list"
  nt_published :: "json list"

section \<open>Webhook bodies\<close>

text \<open>\<open>meta_schema.py\<close>: what a webhook body is validated to.\<close>

record webhook_media =
  wm_id :: string
  wm_caption :: "string option"

record webhook_message =
  wg_from :: string
  wg_id :: string
  wg_type :: "string option"
  wg_text :: "string option"
  wg_image :: "webhook_media option"
  wg_audio :: "webhook_media option"

record webhook_status =
  wu_id :: string
  wu_status :: string
  wu_timestamp :: "string option"

record webhook_contact =
  wo_wa_id :: string
  wo_profile :: "string option option"

record webhook_change =
  wh_field :: "string option"
  wh_phone :: "string option"
  wh_contacts :: "webhook_contact list"
  wh_messages :: "webhook_message list"
  wh_statuses :: "webhook_status list"

record webhook_payload =
  wp_object :: "string option"
  wp_changes :: "webhook_change list"

section \<open>Environment\<close>

record notify_env =
  ne_settings :: notify_settings
  ne_now :: datetime
  ne_uuid4 :: "nat \<Rightarrow> uuid"
  ne_http :: "http_request \<Rightarrow> http_reply"
  ne_download :: "http_request \<Rightarrow> http_reply \<times> bytes"
  ne_str :: "json \<Rightarrow> string"
  ne_isoformat :: "datetime \<Rightarrow> string"
  ne_b64 :: "string \<Rightarrow> string"
  ne_hmac :: "string \<Rightarrow> bytes \<Rightarrow> string"
  ne_media_valid :: "json \<Rightarrow> json result"
  ne_media_read :: "json \<Rightarrow> unit result"
  ne_media_store :: "bytes \<Rightarrow> json \<Rightarrow> string \<Rightarrow> string \<Rightarrow> json result"
  ne_webhook :: "bytes \<Rightarrow> webhook_payload option"
  ne_publish :: "json \<Rightarrow> bool"

abbreviation ne :: "(notify_settings \<Rightarrow> 'a) \<Rightarrow> notify_env \<Rightarrow> 'a" where
  "ne f E \<equiv> f (ne_settings E)"

text \<open>An operation answers or raises, and what it has done to the state and to others stays done.\<close>

type_synonym 'a op = "notify_state \<Rightarrow> 'a result \<times> notify_state"

definition ret :: "'a \<Rightarrow> 'a op" where
  "ret v s = (Inr v, s)"

definition raise :: "exn \<Rightarrow> 'a op" where
  "raise e s = (Inl e, s)"

definition bind_op :: "'a op \<Rightarrow> ('a \<Rightarrow> 'b op) \<Rightarrow> 'b op" where
  "bind_op m f s = (case m s of (Inl e, s') \<Rightarrow> (Inl e, s') | (Inr v, s') \<Rightarrow> f v s')"

definition lift_op :: "'a result \<Rightarrow> 'a op" where
  "lift_op r s = (r, s)"

definition read_op :: "(notify_state \<Rightarrow> 'a result) \<Rightarrow> 'a op" where
  "read_op f s = (f s, s)"

text \<open>\<open>try\<close> with a handler.\<close>

definition catch_op :: "'a op \<Rightarrow> (exn \<Rightarrow> 'a op) \<Rightarrow> 'a op" where
  "catch_op m h s = (case m s of (Inl e, s') \<Rightarrow> h e s' | (Inr v, s') \<Rightarrow> (Inr v, s'))"

lemma bind_op_cases:
  obtains (raised) e s' where "m s = (Inl e, s')" "bind_op m f s = (Inl e, s')"
  | (answered) v s' where "m s = (Inr v, s')" "bind_op m f s = f v s'"
  by (cases "m s"; cases "fst (m s)") (auto simp: bind_op_def)

lemma bind_op_Inr:
  "bind_op m f s = (Inr w, t) \<longleftrightarrow> (\<exists>v s'. m s = (Inr v, s') \<and> f v s' = (Inr w, t))"
  by (cases "m s"; cases "fst (m s)") (auto simp: bind_op_def)

lemma ret_simps [simp]: "ret v s = (Inr v, s)" "raise e s = (Inl e, s)" "lift_op r s = (r, s)" "read_op f s = (f s, s)"
  by (simp_all add: ret_def raise_def lift_op_def read_op_def)

text \<open>Sending a request, drawing a \<open>uuid4\<close>, publishing an event.\<close>

definition http_send :: "notify_env \<Rightarrow> http_request \<Rightarrow> http_reply op" where
  "http_send E q s = (Inr (ne_http E q), s\<lparr>nt_calls := nt_calls s @ [q]\<rparr>)"

definition draw_uuid :: "notify_env \<Rightarrow> uuid op" where
  "draw_uuid E s = (Inr (ne_uuid4 E (nt_draws s)), s\<lparr>nt_draws := Suc (nt_draws s)\<rparr>)"

definition publish :: "notify_env \<Rightarrow> json \<Rightarrow> unit op" where
  "publish E event s =
     (if ne_publish E event then (Inr (), s\<lparr>nt_published := nt_published s @ [event]\<rparr>)
      else (Inl (RuntimeError ''WhatsApp event publisher is unavailable''), s))"

section \<open>Values\<close>

text \<open>\<open>str(value)\<close>: the text of a container or a float is a parameter.\<close>

definition str_of :: "notify_env \<Rightarrow> json \<Rightarrow> string" where
  "str_of E v = (case v of JStr s \<Rightarrow> s | JUuid u \<Rightarrow> uuid_str u | JNull \<Rightarrow> ''None'' | _ \<Rightarrow> ne_str E v)"

text \<open>\<open>' '.join(text.split())[:500]\<close>.\<close>

fun words_of :: "string \<Rightarrow> string \<Rightarrow> string list" where
  "words_of acc [] = (if acc = [] then [] else [rev acc])"
| "words_of acc (c # cs) =
     (if is_space c then (if acc = [] then words_of [] cs else rev acc # words_of [] cs)
      else words_of (c # acc) cs)"

definition squashed :: "string \<Rightarrow> string" where
  "squashed s = take 500 (join '' '' (words_of [] s))"

definition bearer :: "string \<Rightarrow> (string, string) dict" where
  "bearer token = [(''Authorization'', ''Bearer '' @ token)]"

definition bearer_json :: "string \<Rightarrow> (string, string) dict" where
  "bearer_json token = bearer token @ [(''Content-Type'', ''application/json'')]"

text \<open>The value of a key as a dictionary, when it is one.\<close>

definition object_of :: "json option \<Rightarrow> (string, json) dict option" where
  "object_of v = (case v of Some (JObj d) \<Rightarrow> Some d | _ \<Rightarrow> None)"

end
