(* ===== verification/Message_Delivery.thy ===== *)
theory Message_Delivery
  imports Notification_State
begin

text \<open>
  Outgoing messages: \<open>infrastructure/providers.py\<close>, the providers (\<open>resend_service.py\<close>,
  \<open>slack_service.py\<close>, \<open>meta_service.py\<close>, \<open>twilio_service.py\<close>), the message models with their
  delivery requests, and \<open>internal_delivery.py\<close>.
\<close>

section \<open>Providers\<close>

text \<open>\<open>InlineEmailImage\<close> of \<open>resend_schema.py\<close>.\<close>

record inline_image =
  ii_content :: string
  ii_filename :: string
  ii_content_id :: string
  ii_content_type :: string

text \<open>The Resend provider has a subject, an idempotency key, HTML and inline images.\<close>

datatype provider =
    FakeProvider string
  | ResendProvider string string "string option" "inline_image list"
  | SlackProvider
  | MetaProvider "json option"
  | TwilioProvider

definition provider_name :: "provider \<Rightarrow> string" where
  "provider_name p = (case p of
     FakeProvider n \<Rightarrow> n | ResendProvider _ _ _ _ \<Rightarrow> ''resend'' | SlackProvider \<Rightarrow> ''slack''
   | MetaProvider _ \<Rightarrow> ''meta'' | TwilioProvider \<Rightarrow> ''twilio'')"

text \<open>A delivery is the message id and the status that the provider gives.\<close>

type_synonym provider_delivery = "string \<times> string"

definition fake_deliver :: "notify_env \<Rightarrow> json option \<Rightarrow> provider_delivery op" where
  "fake_deliver E media =
     bind_op (case media of None \<Rightarrow> ret () | Some m \<Rightarrow> lift_op (ne_media_read E m))
       (\<lambda>_. bind_op (draw_uuid E) (\<lambda>u. ret (''fake-'' @ uuid_str u, ''sent'')))"

definition resend_error_message :: "notify_env \<Rightarrow> int \<Rightarrow> string \<Rightarrow> json option \<Rightarrow> string" where
  "resend_error_message E code raw body =
     ''Resend delivery failed with '' @ join '', '' ((''HTTP '' @ int_text code) #
       (case object_of body of
          Some d \<Rightarrow> concat (map (\<lambda>key. case dict_get d key of
             None \<Rightarrow> []
           | Some v \<Rightarrow> if truthy v then [key @ ''='' @ squashed (str_of E v)] else []) [''name'', ''message''])
        | None \<Rightarrow> if raw = [] then [] else [''message='' @ squashed raw]))"

definition inline_image_dump :: "inline_image \<Rightarrow> json" where
  "inline_image_dump i = JObj [(''content'', JStr (ii_content i)), (''filename'', JStr (ii_filename i)),
     (''content_id'', JStr (ii_content_id i)), (''content_type'', JStr (ii_content_type i))]"

definition resend_body ::
  "notify_env \<Rightarrow> string \<Rightarrow> string option \<Rightarrow> inline_image list \<Rightarrow> string \<Rightarrow> string \<Rightarrow> (string, json) dict"
where
  "resend_body E subject html images recipient content =
     [(''from'', JStr (ne ns_resend_from E)), (''to'', JList [JStr recipient]), (''subject'', JStr subject), (''text'', JStr content)] @
     (case html of None \<Rightarrow> [] | Some h \<Rightarrow> if h = [] then [] else [(''html'', JStr h)]) @
     (if images = [] then [] else [(''attachments'', JList (map inline_image_dump images))])"

definition resend_deliver ::
  "notify_env \<Rightarrow> string \<Rightarrow> string \<Rightarrow> string option \<Rightarrow> inline_image list \<Rightarrow> string \<Rightarrow> string \<Rightarrow> json option \<Rightarrow>
     provider_delivery op"
where
  "resend_deliver E subject idempotency_key html images recipient content media =
     (if ne ns_resend_key E = [] then raise (RuntimeError ''Resend API key is not configured'')
      else if media \<noteq> None then raise (RuntimeError ''Resend attachments are not supported in this flow'')
      else bind_op (http_send E
          \<lparr>hr_method = ''POST'', hr_url = ''https://api.resend.com/emails'',
           hr_headers = bearer_json (ne ns_resend_key E) @
             [(''Idempotency-Key'', idempotency_key), (''User-Agent'', ''Rubrica/0.1.0'')],
           hr_body = JsonBody (JObj (resend_body E subject html images recipient content))\<rparr>)
        (\<lambda>reply. case reply of
           HttpStatus code raw body \<Rightarrow> raise (RuntimeError (resend_error_message E code raw body))
         | HttpDown \<Rightarrow> raise (RuntimeError ''Resend provider is unavailable'')
         | HttpOk None \<Rightarrow> raise (RuntimeError ''Resend provider is unavailable'')
         | HttpOk (Some body) \<Rightarrow>
             (case Option.bind (object_of (Some body)) (\<lambda>d. dict_get d ''id'') of
                Some (JStr ident) \<Rightarrow>
                  if ident = [] then raise (RuntimeError ''Resend response did not include an e-mail id'')
                  else ret (ident, ''accepted'')
              | _ \<Rightarrow> raise (RuntimeError ''Resend response did not include an e-mail id''))))"

definition slack_deliver :: "notify_env \<Rightarrow> string \<Rightarrow> json option \<Rightarrow> provider_delivery op" where
  "slack_deliver E content media =
     (if ne ns_slack_url E = [] then raise (RuntimeError ''Slack webhook is not configured'')
      else if media \<noteq> None then raise (RuntimeError ''Slack support delivery does not accept media'')
      else bind_op (http_send E
          \<lparr>hr_method = ''POST'', hr_url = ne ns_slack_url E, hr_headers = [(''Content-Type'', ''application/json'')],
           hr_body = JsonBody (JObj [(''text'', JStr content)])\<rparr>)
        (\<lambda>reply. case reply of
           HttpStatus code _ _ \<Rightarrow> raise (RuntimeError (''Slack webhook delivery failed with HTTP '' @ int_text code))
         | HttpDown \<Rightarrow> raise (RuntimeError ''Slack webhook provider is unavailable'')
         | HttpOk _ \<Rightarrow> bind_op (draw_uuid E) (\<lambda>u. ret (''slack-'' @ uuid_str u, ''accepted''))))"

text \<open>\<open>meta_service.py\<close>: the number of the tenant when it has a connection, the number of the settings otherwise.\<close>

definition json_uuid :: "notify_env \<Rightarrow> json \<Rightarrow> uuid option" where
  "json_uuid E v = (case v of JUuid u \<Rightarrow> Some u | _ \<Rightarrow> parse_uuid (str_of E v))"

definition connection_of_tenant :: "meta_connection list \<Rightarrow> uuid \<Rightarrow> meta_connection option" where
  "connection_of_tenant rows t = List.find (\<lambda>c. mc_tenant c = t) rows"

definition sender_number :: "notify_env \<Rightarrow> json option \<Rightarrow> notify_state \<Rightarrow> string result" where
  "sender_number E tenant s =
     (case Option.bind (Option.bind (case tenant of Some JNull \<Rightarrow> None | _ \<Rightarrow> tenant) (json_uuid E)) (\<lambda>t.
          case connection_of_tenant (nt_connections s) t of
            Some c \<Rightarrow> if mc_status c = ''connected'' then Some (mc_phone c) else None
          | None \<Rightarrow> None) of
        Some phone \<Rightarrow> Inr phone
      | None \<Rightarrow>
          if ne ns_meta_phone E \<noteq> [] then Inr (ne ns_meta_phone E)
          else Inl (RuntimeError ''Meta WhatsApp phone number id is not configured''))"

definition normalize_meta_recipient :: "string \<Rightarrow> string" where
  "normalize_meta_recipient value =
     (let v = strip value;
          w = (if take 9 (lower v) = ''whatsapp:'' then drop 9 v else v)
      in filter is_digit w)"

definition meta_error_message :: "notify_env \<Rightarrow> int \<Rightarrow> json option \<Rightarrow> string" where
  "meta_error_message E code body =
     ''Meta WhatsApp delivery failed with '' @ join '', '' ((''HTTP '' @ int_text code) #
       (case Option.bind (object_of body) (\<lambda>d. object_of (dict_get d ''error'')) of
          None \<Rightarrow> []
        | Some d \<Rightarrow> concat (map (\<lambda>key. case dict_get d key of
             None \<Rightarrow> []
           | Some v \<Rightarrow> if v = JNull \<or> v = JStr [] then [] else [key @ ''='' @ squashed (str_of E v)])
             [''code'', ''error_subcode'', ''type'', ''message'', ''fbtrace_id''])))"

text \<open>\<open>MetaSendMessageResponse\<close>: the ids of the messages.\<close>

definition meta_message_ids :: "json \<Rightarrow> string list result" where
  "meta_message_ids body =
     (case body of
        JObj d \<Rightarrow> (case dict_get d ''messages'' of
            None \<Rightarrow> Inr []
          | Some (JList xs) \<Rightarrow> map_result (\<lambda>x. case Option.bind (object_of (Some x)) (\<lambda>m. dict_get m ''id'') of
                Some (JStr i) \<Rightarrow> Inr i
              | _ \<Rightarrow> Inl (ValidationError ''id'')) xs
          | Some _ \<Rightarrow> Inl (ValidationError ''messages''))
      | _ \<Rightarrow> Inl (ValidationError ''MetaSendMessageResponse''))"

definition graph_url :: "notify_env \<Rightarrow> string \<Rightarrow> string" where
  "graph_url E path = ''https://graph.facebook.com/'' @ ne ns_graph_version E @ path"

definition meta_deliver :: "notify_env \<Rightarrow> json option \<Rightarrow> string \<Rightarrow> string \<Rightarrow> json option \<Rightarrow> provider_delivery op" where
  "meta_deliver E tenant recipient content media =
     (if ne ns_meta_token E = [] then raise (RuntimeError ''Meta WhatsApp access token is not configured'')
      else bind_op (read_op (sender_number E tenant)) (\<lambda>phone.
        if media \<noteq> None
        then raise (RuntimeError ''Meta WhatsApp media delivery is not implemented for local MediaReference'')
        else bind_op (http_send E
          \<lparr>hr_method = ''POST'', hr_url = graph_url E (''/'' @ phone @ ''/messages''),
           hr_headers = bearer_json (ne ns_meta_token E),
           hr_body = JsonBody (JObj [(''messaging_product'', JStr ''whatsapp''), (''recipient_type'', JStr ''individual''),
             (''to'', JStr (normalize_meta_recipient recipient)), (''type'', JStr ''text''),
             (''text'', JObj [(''preview_url'', JBool False), (''body'', JStr content)])])\<rparr>)
        (\<lambda>reply. case reply of
           HttpStatus code _ body \<Rightarrow> raise (RuntimeError (meta_error_message E code body))
         | HttpDown \<Rightarrow> raise (RuntimeError ''Meta WhatsApp provider is unavailable'')
         | HttpOk None \<Rightarrow> raise JSONDecodeError
         | HttpOk (Some body) \<Rightarrow>
             bind_op (lift_op (meta_message_ids body)) (\<lambda>ids. case ids of
                [] \<Rightarrow> raise (RuntimeError ''Meta WhatsApp response did not include a message id'')
              | i # _ \<Rightarrow> ret (i, ''accepted'')))))"

definition normalize_whatsapp_address :: "string \<Rightarrow> string" where
  "normalize_whatsapp_address value =
     (let v = strip value in if take 9 (lower v) = ''whatsapp:'' then v else ''whatsapp:'' @ v)"

definition twilio_auth :: "notify_env \<Rightarrow> (string, string) dict" where
  "twilio_auth E = [(''Authorization'', ''Basic '' @ ne_b64 E (ne ns_twilio_sid E @ '':'' @ ne ns_twilio_token E))]"

text \<open>\<open>TwilioMessageResponse\<close>.\<close>

definition twilio_message :: "json \<Rightarrow> provider_delivery result" where
  "twilio_message body =
     (case body of
        JObj d \<Rightarrow> (case (dict_get d ''sid'', dict_get d ''status'') of
            (Some (JStr sid), None) \<Rightarrow> Inr (sid, ''queued'')
          | (Some (JStr sid), Some JNull) \<Rightarrow> Inr (sid, ''queued'')
          | (Some (JStr sid), Some (JStr st)) \<Rightarrow> Inr (sid, if st = [] then ''queued'' else st)
          | _ \<Rightarrow> Inl (ValidationError ''TwilioMessageResponse''))
      | _ \<Rightarrow> Inl (ValidationError ''TwilioMessageResponse''))"

definition twilio_deliver :: "notify_env \<Rightarrow> string \<Rightarrow> string \<Rightarrow> json option \<Rightarrow> provider_delivery op" where
  "twilio_deliver E recipient content media =
     (if ne ns_twilio_sid E = [] \<or> ne ns_twilio_token E = []
      then raise (RuntimeError ''Twilio WhatsApp credentials are not configured'')
      else if media \<noteq> None
      then raise (RuntimeError ''Twilio WhatsApp media delivery requires a provider-accessible media URL'')
      else bind_op (http_send E
          \<lparr>hr_method = ''POST'',
           hr_url = ''https://api.twilio.com/2010-04-01/Accounts/'' @ ne ns_twilio_sid E @ ''/Messages.json'',
           hr_headers = twilio_auth E @ [(''Content-Type'', ''application/x-www-form-urlencoded'')],
           hr_body = FormBody (urlencode [(''From'', normalize_whatsapp_address (ne ns_twilio_from E)),
             (''To'', normalize_whatsapp_address recipient), (''Body'', content)])\<rparr>)
        (\<lambda>reply. case reply of
           HttpStatus code _ _ \<Rightarrow> raise (RuntimeError (''Twilio WhatsApp delivery failed with HTTP '' @ int_text code))
         | HttpDown \<Rightarrow> raise (RuntimeError ''Twilio WhatsApp provider is unavailable'')
         | HttpOk None \<Rightarrow> raise JSONDecodeError
         | HttpOk (Some body) \<Rightarrow> lift_op (twilio_message body)))"

definition deliver :: "notify_env \<Rightarrow> provider \<Rightarrow> string \<Rightarrow> string \<Rightarrow> json option \<Rightarrow> provider_delivery op" where
  "deliver E p recipient content media =
     (case p of
        FakeProvider _ \<Rightarrow> fake_deliver E media
      | ResendProvider subject key html images \<Rightarrow> resend_deliver E subject key html images recipient content media
      | SlackProvider \<Rightarrow> slack_deliver E content media
      | MetaProvider tenant \<Rightarrow> meta_deliver E tenant recipient content media
      | TwilioProvider \<Rightarrow> twilio_deliver E recipient content media)"

section \<open>Accepting a delivery\<close>

text \<open>
  The payload is the dump of a message model. A field that is read with \<open>payload.get(k) or ...\<close> is a
  text or absent.
\<close>

type_synonym payload = "(string, json) dict"

definition text_field :: "payload \<Rightarrow> string \<Rightarrow> string option" where
  "text_field p k = (case dict_get p k of Some (JStr s) \<Rightarrow> if s = [] then None else Some s | _ \<Rightarrow> None)"

definition policy_of :: "payload \<Rightarrow> payload" where
  "policy_of p = (case object_of (dict_get p ''delivery_policy'') of None \<Rightarrow> [] | Some d \<Rightarrow> d)"

definition policy_mode :: "notify_env \<Rightarrow> payload \<Rightarrow> string" where
  "policy_mode E p = (case text_field (policy_of p) ''mode'' of None \<Rightarrow> ne ns_default_policy E | Some m \<Rightarrow> m)"

definition retention_seconds :: "notify_env \<Rightarrow> payload \<Rightarrow> int" where
  "retention_seconds E p =
     (case dict_get (policy_of p) ''retention_seconds'' of
        Some (JInt n) \<Rightarrow> if n = 0 then ne ns_retention E else n
      | _ \<Rightarrow> ne ns_retention E)"

definition delivery_key :: "notify_env \<Rightarrow> string \<Rightarrow> string \<Rightarrow> string" where
  "delivery_key E channel key = ne ns_prefix E @ '':delivery:'' @ channel @ '':'' @ key"

definition load_delivery :: "notify_env \<Rightarrow> string \<Rightarrow> notify_state \<Rightarrow> accepted_delivery option" where
  "load_delivery E key s = rd_get (ne_now E) (nt_deliveries s) key"

definition expiry :: "notify_env \<Rightarrow> int \<Rightarrow> datetime option" where
  "expiry E n = (if ne ns_redis E then Some (ne_now E + seconds n) else None)"

definition store_delivery :: "notify_env \<Rightarrow> string \<Rightarrow> accepted_delivery \<Rightarrow> int \<Rightarrow> accepted_delivery op" where
  "store_delivery E key v n s =
     (case rd_get (ne_now E) (nt_deliveries s) key of
        Some w \<Rightarrow> (Inr w, s)
      | None \<Rightarrow> (Inr v, s\<lparr>nt_deliveries := rd_set key v (expiry E n) (nt_deliveries s)\<rparr>))"

definition key_or_fresh :: "notify_env \<Rightarrow> payload \<Rightarrow> string op" where
  "key_or_fresh E p =
     (case text_field p ''idempotency_key'' of
        Some k \<Rightarrow> ret k
      | None \<Rightarrow> bind_op (draw_uuid E) (\<lambda>u. ret (uuid_str u)))"

definition provider_for :: "notify_env \<Rightarrow> string \<Rightarrow> json option \<Rightarrow> payload \<Rightarrow> string option \<Rightarrow> provider op" where
  "provider_for E channel tenant p name =
     (if channel = ''email'' \<and> (case name of Some n \<Rightarrow> if n = [] then ne ns_email_provider E else n
                                 | None \<Rightarrow> ne ns_email_provider E) = ''resend''
      then bind_op (key_or_fresh E p) (\<lambda>k. ret (ResendProvider
             (case text_field p ''subject'' of None \<Rightarrow> ''NexoDesk'' | Some t \<Rightarrow> t) k None []))
      else if channel = ''slack'' \<and> ne ns_slack_url E \<noteq> [] then ret SlackProvider
      else if channel = ''whatsapp'' \<and> ne ns_whatsapp_provider E = ''meta'' then ret (MetaProvider tenant)
      else if channel = ''whatsapp'' \<and> ne ns_whatsapp_provider E = ''twilio'' then ret TwilioProvider
      else ret (FakeProvider (''fake_'' @ channel)))"

definition content_of :: "payload \<Rightarrow> string" where
  "content_of p =
     (case text_field p ''body'' of Some t \<Rightarrow> t | None \<Rightarrow> (case text_field p ''content'' of Some t \<Rightarrow> t | None \<Rightarrow> []))"

definition media_of :: "notify_env \<Rightarrow> payload \<Rightarrow> json option result" where
  "media_of E p =
     (case object_of (dict_get p ''media'') of
        None \<Rightarrow> Inr None
      | Some d \<Rightarrow> map_sum id Some (ne_media_valid E (JObj d)))"

definition accepted_of ::
  "notify_env \<Rightarrow> string \<Rightarrow> string \<Rightarrow> payload \<Rightarrow> provider \<Rightarrow> provider_delivery \<Rightarrow> accepted_delivery"
where
  "accepted_of E channel recipient p prov d =
     (let persisted = (policy_mode E p \<noteq> ''transient'' \<and> ne ns_redis E)
      in \<lparr>ac_delivery_id = fst d, ac_channel = channel, ac_recipient = recipient, ac_provider = provider_name prov,
          ac_status = snd d, ac_store = (if ne ns_redis E then ''redis'' else ''memory''), ac_policy = policy_mode E p,
          ac_persisted = persisted, ac_retention = (if persisted then Some (retention_seconds E p) else None)\<rparr>)"

definition tenant_of_payload :: "payload \<Rightarrow> json option" where
  "tenant_of_payload p = Option.bind (object_of (dict_get p ''metadata'')) (\<lambda>d. dict_get d ''tenant_id'')"

definition accept_delivery ::
  "notify_env \<Rightarrow> string \<Rightarrow> string \<Rightarrow> payload \<Rightarrow> string option \<Rightarrow> accepted_delivery op"
where
  "accept_delivery E channel recipient p name =
     bind_op (key_or_fresh E p) (\<lambda>k s.
       let key = delivery_key E channel k in
       case load_delivery E key s of
         Some existing \<Rightarrow> (Inr existing, s)
       | None \<Rightarrow>
           bind_op (provider_for E channel (tenant_of_payload p) p name) (\<lambda>prov.
           bind_op (lift_op (media_of E p)) (\<lambda>media.
           bind_op (deliver E prov recipient (content_of p) media) (\<lambda>d.
             store_delivery E key (accepted_of E channel recipient p prov d) (retention_seconds E p)))) s)"

section \<open>Messages\<close>

record delivery_policy =
  dp_mode :: "string option"
  dp_retention :: "int option"

record message =
  ms_to :: string
  ms_subject :: string
  ms_text :: string
  ms_media :: "json option"
  ms_key :: "string option"
  ms_metadata :: payload
  ms_policy :: "delivery_policy option"

definition json_of_str :: "string option \<Rightarrow> json" where
  "json_of_str v = (case v of None \<Rightarrow> JNull | Some s \<Rightarrow> JStr s)"

definition policy_dump :: "delivery_policy option \<Rightarrow> json" where
  "policy_dump q = (case q of
     None \<Rightarrow> JNull
   | Some d \<Rightarrow> JObj [(''mode'', json_of_str (dp_mode d)),
       (''retention_seconds'', case dp_retention d of None \<Rightarrow> JNull | Some n \<Rightarrow> JInt n)])"

definition common_dump :: "message \<Rightarrow> payload" where
  "common_dump m = [(''idempotency_key'', json_of_str (ms_key m)), (''metadata'', JObj (ms_metadata m)),
     (''delivery_policy'', policy_dump (ms_policy m))]"

text \<open>\<open>EmailMessage\<close>, \<open>SlackMessage\<close> and \<open>WhatsAppMessage\<close>: each dumps its own fields.\<close>

definition email_dump :: "message \<Rightarrow> payload" where
  "email_dump m = [(''to'', JStr (ms_to m)), (''subject'', JStr (ms_subject m)), (''body'', JStr (ms_text m))] @ common_dump m"

definition slack_dump :: "message \<Rightarrow> payload" where
  "slack_dump m = [(''channel'', JStr (ms_to m)), (''text'', JStr (ms_text m))] @ common_dump m"

definition whatsapp_dump :: "message \<Rightarrow> payload" where
  "whatsapp_dump m = [(''to'', JStr (ms_to m)), (''body'', JStr (ms_text m)),
     (''media'', case ms_media m of None \<Rightarrow> JNull | Some v \<Rightarrow> v)] @ common_dump m"

text \<open>\<open>DeliveryAccepted(**accepted)\<close> admits three policies.\<close>

definition delivery_accepted :: "accepted_delivery \<Rightarrow> accepted_delivery op" where
  "delivery_accepted a =
     (if ac_policy a \<in> {''transient'', ''tracked'', ''reliable''} then ret a
      else raise (ValidationError ''delivery_policy''))"

definition request_email_delivery :: "notify_env \<Rightarrow> message \<Rightarrow> accepted_delivery op" where
  "request_email_delivery E m = bind_op (accept_delivery E ''email'' (ms_to m) (email_dump m) None) delivery_accepted"

definition request_slack_delivery :: "notify_env \<Rightarrow> message \<Rightarrow> accepted_delivery op" where
  "request_slack_delivery E m = bind_op (accept_delivery E ''slack'' (ms_to m) (slack_dump m) None) delivery_accepted"

text \<open>The event of a WhatsApp request is part of the answer when Kafka is enabled.\<close>

definition message_requested :: "notify_env \<Rightarrow> message \<Rightarrow> json op" where
  "message_requested E m = bind_op (draw_uuid E) (\<lambda>u. ret (JObj
     [(''event_id'', JStr (uuid_str u)), (''event_type'', JStr ''notification.whatsapp_message_requested''),
      (''topic'', JStr (ne ns_whatsapp_topic E)), (''version'', JInt 1),
      (''payload'', JObj [(''to'', JStr (ms_to m)), (''body'', JStr (ms_text m)),
         (''media'', case ms_media m of None \<Rightarrow> JNull | Some v \<Rightarrow> v)])]))"

definition request_whatsapp_delivery :: "notify_env \<Rightarrow> message \<Rightarrow> (accepted_delivery \<times> json option) op" where
  "request_whatsapp_delivery E m =
     bind_op (accept_delivery E ''whatsapp'' (ms_to m) (whatsapp_dump m) None) (\<lambda>a.
     bind_op (if ne ns_kafka E then bind_op (message_requested E m) (\<lambda>v. ret (Some v)) else ret None) (\<lambda>event.
     bind_op (delivery_accepted a) (\<lambda>a. ret (a, event))))"

section \<open>Internal deliveries\<close>

record internal_delivery =
  in_tenant :: "uuid option"
  in_channel :: string
  in_recipient :: string
  in_subject :: "string option"
  in_content :: string
  in_media :: "json option"
  in_key :: string
  in_metadata :: payload

definition media_object_key :: "json \<Rightarrow> string" where
  "media_object_key v =
     (case Option.bind (object_of (Some v)) (\<lambda>d. dict_get d ''object_key'') of Some (JStr k) \<Rightarrow> k | _ \<Rightarrow> [])"

definition str_between :: "nat \<Rightarrow> nat \<Rightarrow> string \<Rightarrow> bool" where
  "str_between a b s \<longleftrightarrow> a \<le> length s \<and> length s \<le> b"

definition internal_delivery_valid :: "internal_delivery \<Rightarrow> bool" where
  "internal_delivery_valid p \<longleftrightarrow>
     in_channel p \<in> {''email'', ''slack'', ''whatsapp''} \<and> str_between 3 255 (in_recipient p) \<and>
     (case in_subject p of None \<Rightarrow> True | Some t \<Rightarrow> str_between 1 160 t) \<and> length (in_content p) \<le> 10000 \<and>
     str_between 8 180 (in_key p) \<and>
     (strip (in_content p) \<noteq> [] \<or> in_media p \<noteq> None) \<and>
     (in_channel p = ''email'' \<longrightarrow> in_subject p \<noteq> None) \<and>
     (case in_media p of
        None \<Rightarrow> True
      | Some m \<Rightarrow> in_channel p = ''whatsapp'' \<and>
          (case in_tenant p of None \<Rightarrow> False | Some t \<Rightarrow> prefix (uuid_str t @ ''/'') (media_object_key m)))"

definition service_allowed :: "notify_env \<Rightarrow> string option \<Rightarrow> string option \<Rightarrow> bool" where
  "service_allowed E service key \<longleftrightarrow>
     (case service of None \<Rightarrow> False | Some n \<Rightarrow> n \<in> set (ne ns_allowed_services E)) \<and>
     ne ns_service_key E \<noteq> [] \<and> (case key of None \<Rightarrow> [] | Some k \<Rightarrow> k) = ne ns_service_key E"

text \<open>\<open>{"tenant_id": payload.tenant_id, **payload.metadata}\<close>.\<close>

definition whatsapp_metadata :: "internal_delivery \<Rightarrow> payload" where
  "whatsapp_metadata p =
     foldl (\<lambda>d (k, v). dict_set k v d)
       [(''tenant_id'', case in_tenant p of None \<Rightarrow> JNull | Some t \<Rightarrow> JUuid t)] (in_metadata p)"

definition internal_message :: "internal_delivery \<Rightarrow> message" where
  "internal_message p =
     \<lparr>ms_to = in_recipient p, ms_subject = (case in_subject p of None \<Rightarrow> ''NexoDesk'' | Some t \<Rightarrow> t),
      ms_text = in_content p, ms_media = in_media p, ms_key = Some (in_key p),
      ms_metadata = (if in_channel p = ''whatsapp'' then whatsapp_metadata p else in_metadata p), ms_policy = None\<rparr>"

definition request_internal_delivery ::
  "notify_env \<Rightarrow> internal_delivery \<Rightarrow> string option \<Rightarrow> string option \<Rightarrow> (accepted_delivery \<times> json option) op"
where
  "request_internal_delivery E p service key =
     (if \<not> service_allowed E service key then raise (HTTPException 403 ''Service authentication failed'')
      else if in_channel p = ''email'' then bind_op (request_email_delivery E (internal_message p)) (\<lambda>a. ret (a, None))
      else if in_channel p = ''slack'' then bind_op (request_slack_delivery E (internal_message p)) (\<lambda>a. ret (a, None))
      else request_whatsapp_delivery E (internal_message p))"

section \<open>Mails of the other services\<close>

text \<open>\<open>resend_router.py\<close>: the core and the auth service send their mails through Resend directly.\<close>

record resend_request =
  re_recipient :: string
  re_subject :: string
  re_content :: string
  re_html :: "string option"
  re_images :: "inline_image list"
  re_key :: string

definition inline_name :: "nat \<Rightarrow> string \<Rightarrow> bool" where
  "inline_name n s \<longleftrightarrow> str_between 1 n s \<and> list_all (\<lambda>c. is_digit c \<or> is_upper c \<or> is_lower c \<or> c \<in> set ''._-'') s"

definition inline_image_valid :: "inline_image \<Rightarrow> bool" where
  "inline_image_valid i \<longleftrightarrow> str_between 1 2000000 (ii_content i) \<and> inline_name 120 (ii_filename i) \<and>
     inline_name 127 (ii_content_id i) \<and> ii_content_type i \<in> {''image/png'', ''image/jpeg'', ''image/gif''}"

definition resend_request_valid :: "resend_request \<Rightarrow> bool" where
  "resend_request_valid p \<longleftrightarrow> str_between 3 255 (re_recipient p) \<and> str_between 1 160 (re_subject p) \<and>
     str_between 1 10000 (re_content p) \<and>
     (case re_html p of None \<Rightarrow> True | Some h \<Rightarrow> str_between 1 100000 h) \<and>
     length (re_images p) \<le> 3 \<and> list_all inline_image_valid (re_images p) \<and> str_between 8 180 (re_key p)"

definition send_resend_email :: "notify_env \<Rightarrow> resend_request \<Rightarrow> string option \<Rightarrow> string option \<Rightarrow> accepted_delivery op" where
  "send_resend_email E p service key =
     (if \<not> service_allowed E service key then raise (HTTPException 403 ''Service authentication failed'')
      else bind_op (resend_deliver E (re_subject p) (re_key p) (re_html p) (re_images p) (re_recipient p) (re_content p) None)
        (\<lambda>d. ret \<lparr>ac_delivery_id = fst d, ac_channel = ''email'', ac_recipient = re_recipient p, ac_provider = ''resend'',
           ac_status = snd d, ac_store = ''provider'', ac_policy = ''reliable'', ac_persisted = False, ac_retention = None\<rparr>))"

section \<open>The catalog and the credentials\<close>

definition provider_catalog :: "notify_settings \<Rightarrow> json" where
  "provider_catalog S =
     (let wa = ns_whatsapp_provider S;
          twilio = (ns_twilio_sid S \<noteq> [] \<and> ns_twilio_token S \<noteq> []);
          meta = (ns_meta_token S \<noteq> [] \<and> ns_meta_phone S \<noteq> []);
          conf = (\<lambda>b. JStr (if b then ''configured'' else ''not_configured''))
      in JObj
       [(''fake'', JObj [(''status'', JStr ''available''), (''mode'', JStr ''fake''), (''credentials_configured'', JBool True),
           (''active'', JBool True), (''channels'', JList [JStr ''email'', JStr ''slack'', JStr ''whatsapp'']),
           (''whatsapp_selected'', JBool (wa = ''fake''))]),
        (''sendgrid'', JObj [(''status'', conf (ns_sendgrid_key S \<noteq> [])), (''mode'', JStr ''external''),
           (''credentials_configured'', JBool (ns_sendgrid_key S \<noteq> [])),
           (''selected'', JBool (ns_email_provider S = ''sendgrid'')), (''active'', JBool False),
           (''reason'', JStr ''delivery_adapter_not_implemented'')]),
        (''resend'', JObj [(''status'', conf (ns_resend_key S \<noteq> [])), (''mode'', JStr ''external''),
           (''credentials_configured'', JBool (ns_resend_key S \<noteq> [])),
           (''selected'', JBool (ns_email_provider S = ''resend'')),
           (''active'', JBool (ns_email_provider S = ''resend'' \<and> ns_resend_key S \<noteq> [])),
           (''channels'', JList [JStr ''email'']), (''from'', JStr (ns_resend_from S))]),
        (''twilio'', JObj [(''status'', conf twilio), (''mode'', JStr ''external''), (''credentials_configured'', JBool twilio),
           (''selected'', JBool (wa = ''twilio'')), (''active'', JBool (wa = ''twilio'' \<and> twilio)),
           (''channels'', JList [JStr ''whatsapp''])]),
        (''meta'', JObj [(''status'', conf meta), (''mode'', JStr ''external''), (''credentials_configured'', JBool meta),
           (''selected'', JBool (wa = ''meta'')), (''active'', JBool (wa = ''meta'' \<and> meta)),
           (''channels'', JList [JStr ''whatsapp'']),
           (''webhook_configured'', JBool (ns_verify_token S \<noteq> [] \<and> ns_app_secret S \<noteq> [])),
           (''graph_api_version'', JStr (ns_graph_version S))]),
        (''slack'', JObj [(''status'', conf (ns_slack_url S \<noteq> [])), (''mode'', JStr ''external''),
           (''credentials_configured'', JBool (ns_slack_url S \<noteq> [])), (''active'', JBool (ns_slack_url S \<noteq> []))])])"

definition credential_report :: "string \<Rightarrow> string \<Rightarrow> json" where
  "credential_report name status = JObj [(''provider'', JStr name), (''status'', JStr status), (''verified'', JBool (status = ''ok''))]"

text \<open>A probe of a provider; \<open>refused\<close> names the status for an error code.\<close>

definition probe :: "notify_env \<Rightarrow> string \<Rightarrow> (int \<Rightarrow> string) \<Rightarrow> string \<Rightarrow> (string, string) dict \<Rightarrow> json op" where
  "probe E name refused url headers =
     bind_op (http_send E \<lparr>hr_method = ''GET'', hr_url = url, hr_headers = headers, hr_body = NoBody\<rparr>) (\<lambda>reply. ret (case reply of
        HttpOk _ \<Rightarrow> credential_report name ''ok''
      | HttpStatus code _ _ \<Rightarrow> JObj [(''provider'', JStr name), (''status'', JStr (refused code)), (''verified'', JBool False),
          (''http_status'', JInt code)]
      | HttpDown \<Rightarrow> credential_report name ''unavailable''))"

definition invalid_when :: "int list \<Rightarrow> int \<Rightarrow> string" where
  "invalid_when codes code = (if code \<in> set codes then ''invalid_credentials'' else ''unavailable'')"

definition verify_resend :: "notify_env \<Rightarrow> json op" where
  "verify_resend E =
     (if ne ns_resend_key E = [] then ret (credential_report ''resend'' ''not_configured'')
      else probe E ''resend'' (\<lambda>code. if code = 401 then ''invalid_credentials'' else ''restricted_or_unavailable'')
             ''https://api.resend.com/domains'' (bearer (ne ns_resend_key E) @ [(''User-Agent'', ''Rubrica/0.1.0'')]))"

definition verify_twilio :: "notify_env \<Rightarrow> json op" where
  "verify_twilio E =
     (if ne ns_twilio_sid E = [] \<or> ne ns_twilio_token E = [] then ret (credential_report ''twilio'' ''not_configured'')
      else probe E ''twilio'' (invalid_when [401, 403])
             (''https://api.twilio.com/2010-04-01/Accounts/'' @ ne ns_twilio_sid E @ ''.json'') (twilio_auth E))"

definition verify_meta :: "notify_env \<Rightarrow> json op" where
  "verify_meta E =
     (if ne ns_meta_token E = [] \<or> ne ns_meta_phone E = [] then ret (credential_report ''meta'' ''not_configured'')
      else probe E ''meta'' (invalid_when [400, 401, 403]) (graph_url E (''/'' @ ne ns_meta_phone E)) (bearer (ne ns_meta_token E)))"

definition verify_provider :: "notify_env \<Rightarrow> string \<Rightarrow> json op" where
  "verify_provider E name =
     (let n = lower (strip name) in
      if n = ''fake'' then ret (JObj [(''provider'', JStr ''fake''), (''status'', JStr ''ok''), (''mode'', JStr ''fake''),
        (''credentials_required'', JBool False)])
      else if n = ''sendgrid'' then
        (if ne ns_sendgrid_key E = [] then ret (credential_report ''sendgrid'' ''not_configured'')
         else probe E ''sendgrid'' (invalid_when [401, 403]) ''https://api.sendgrid.com/v3/user/profile'' (bearer (ne ns_sendgrid_key E)))
      else if n = ''resend'' then verify_resend E
      else if n = ''twilio'' then verify_twilio E
      else if n = ''meta'' then verify_meta E
      else if n = ''slack'' then
        (if ne ns_slack_url E = [] then ret (credential_report ''slack'' ''not_configured'')
         else ret (JObj [(''provider'', JStr ''slack''), (''status'', JStr ''configured''), (''verified'', JBool False),
           (''reason'', JStr ''incoming_webhook_has_no_non_delivery_verification'')]))
      else ret (credential_report n ''unsupported''))"

text \<open>\<open>provider_router.py\<close>.\<close>

definition provider_route :: "notify_env \<Rightarrow> string option \<Rightarrow> string option \<Rightarrow> 'a op \<Rightarrow> 'a op" where
  "provider_route E service key m =
     (if \<not> service_allowed E service key then raise (HTTPException 403 ''Service authentication failed'') else m)"

end
