(* ===== verification/Meta_Onboarding.thy ===== *)
theory Meta_Onboarding
  imports Message_Delivery
begin

text \<open>
  WhatsApp connections: \<open>meta_connection_repository.py\<close>, \<open>meta_onboarding_service.py\<close> and the errors
  of \<open>meta_onboarding_router.py\<close>. A connection gives a tenant the telephone number it writes from.
\<close>

section \<open>Repository\<close>

text \<open>The primary key, one row for a tenant, and one connected row for a number.\<close>

definition connected :: "meta_connection \<Rightarrow> bool" where
  "connected c \<longleftrightarrow> mc_status c = ''connected''"

definition connections_ok :: "meta_connection list \<Rightarrow> bool" where
  "connections_ok rows \<longleftrightarrow> distinct (map mc_id rows) \<and> distinct (map mc_tenant rows) \<and>
     distinct (map mc_phone (filter connected rows))"

definition connected_by_phone :: "meta_connection list \<Rightarrow> string \<Rightarrow> meta_connection option" where
  "connected_by_phone rows phone = List.find (\<lambda>c. mc_phone c = phone \<and> connected c) rows"

text \<open>\<open>session.merge\<close> writes the row with this id, or adds it.\<close>

definition merge_connection :: "meta_connection \<Rightarrow> meta_connection list \<Rightarrow> meta_connection list" where
  "merge_connection c rows =
     (if mc_id c \<in> set (map mc_id rows) then table_update (\<lambda>r. mc_id r = mc_id c) (\<lambda>_. c) rows else rows @ [c])"

definition commit_connections :: "'a \<Rightarrow> meta_connection list \<Rightarrow> 'a op" where
  "commit_connections v rows s =
     (if connections_ok rows then (Inr v, s\<lparr>nt_connections := rows\<rparr>) else (Inl IntegrityError, s))"

definition save_connection :: "meta_connection \<Rightarrow> meta_connection op" where
  "save_connection c s = commit_connections c (merge_connection c (nt_connections s)) s"

definition phone_conflict :: "meta_connection list \<Rightarrow> meta_connection \<Rightarrow> meta_connection option" where
  "phone_conflict rows c = List.find (\<lambda>r. mc_phone r = mc_phone c \<and> mc_tenant r \<noteq> mc_tenant c \<and> connected r) rows"

definition disconnected_at :: "datetime \<Rightarrow> meta_connection \<Rightarrow> meta_connection" where
  "disconnected_at t c = c\<lparr>mc_status := ''disconnected'', mc_disconnected_at := Some t\<rparr>"

definition assign_connection :: "notify_env \<Rightarrow> meta_connection \<Rightarrow> bool \<Rightarrow> meta_connection op" where
  "assign_connection E c confirm s =
     (case phone_conflict (nt_connections s) c of
        None \<Rightarrow> save_connection c s
      | Some r \<Rightarrow>
          if \<not> confirm then (Inl MetaPhoneConflictError, s)
          else commit_connections c (merge_connection c
                 (table_update (\<lambda>x. mc_id x = mc_id r) (disconnected_at (ne_now E)) (nt_connections s))) s)"

section \<open>Graph API\<close>

definition safe_meta_error :: "notify_env \<Rightarrow> int \<Rightarrow> json option \<Rightarrow> string" where
  "safe_meta_error E code body =
     ''Meta Graph API rejected the request (HTTP '' @ int_text code @ '', code '' @
       (case Option.bind (Option.bind (object_of body) (\<lambda>d. object_of (dict_get d ''error''))) (\<lambda>d. dict_get d ''code'') of
          None \<Rightarrow> ''None'' | Some v \<Rightarrow> str_of E v) @ '')''"

definition request_json :: "notify_env \<Rightarrow> http_request \<Rightarrow> payload op" where
  "request_json E q = bind_op (http_send E q) (\<lambda>reply. case reply of
     HttpStatus code _ body \<Rightarrow> raise (MetaRequestError (safe_meta_error E code body))
   | HttpDown \<Rightarrow> raise (MetaRequestError ''Meta Graph API is unavailable'')
   | HttpOk (Some (JObj d)) \<Rightarrow> ret d
   | HttpOk _ \<Rightarrow> raise (MetaRequestError ''Meta Graph API returned an invalid response''))"

definition graph_request ::
  "notify_env \<Rightarrow> string \<Rightarrow> string \<Rightarrow> string \<Rightarrow> (string \<times> string) list \<Rightarrow> json option \<Rightarrow> payload op"
where
  "graph_request E method path token query body = request_json E
     \<lparr>hr_method = method,
      hr_url = (if query = [] then graph_url E path else graph_url E path @ ''?'' @ urlencode query),
      hr_headers = bearer_json token, hr_body = (case body of None \<Rightarrow> NoBody | Some b \<Rightarrow> JsonBody b)\<rparr>"

definition exchange_authorization_code :: "notify_env \<Rightarrow> string \<Rightarrow> string option \<Rightarrow> string op" where
  "exchange_authorization_code E code redirect =
     (if ne ns_app_id E = [] \<or> ne ns_app_secret E = []
      then raise (MetaConfigurationError ''Meta app id and app secret are required'')
      else bind_op (request_json E
          \<lparr>hr_method = ''GET'', hr_url = graph_url E (''/oauth/access_token?'' @ urlencode
             ([(''client_id'', ne ns_app_id E), (''client_secret'', ne ns_app_secret E), (''code'', code)] @
              (case redirect of None \<Rightarrow> [] | Some u \<Rightarrow> if u = [] then [] else [(''redirect_uri'', u)]))),
           hr_headers = [], hr_body = NoBody\<rparr>)
        (\<lambda>d. case text_field d ''access_token'' of
           None \<Rightarrow> raise (MetaRequestError ''Meta authorization response did not include an access token'')
         | Some token \<Rightarrow> ret token))"

text \<open>The ids in the \<open>data\<close> of an answer; a value that cannot be iterated raises.\<close>

definition data_ids :: "notify_env \<Rightarrow> payload \<Rightarrow> string list result" where
  "data_ids E d =
     (case dict_get d ''data'' of
        None \<Rightarrow> Inr []
      | Some (JList xs) \<Rightarrow> Inr (concat (map (\<lambda>x. case Option.bind (object_of (Some x)) (\<lambda>i. dict_get i ''id'') of
            None \<Rightarrow> [] | Some JNull \<Rightarrow> [] | Some v \<Rightarrow> [str_of E v]) xs))
      | Some (JObj _) \<Rightarrow> Inr []
      | Some (JStr _) \<Rightarrow> Inr []
      | Some (JUuid _) \<Rightarrow> Inr []
      | Some (JTime _) \<Rightarrow> Inr []
      | Some _ \<Rightarrow> Inl (TypeError ''not iterable''))"

definition waba_phone_ids :: "notify_env \<Rightarrow> string \<Rightarrow> string \<Rightarrow> string list op" where
  "waba_phone_ids E waba token =
     bind_op (graph_request E ''GET'' (''/'' @ waba @ ''/phone_numbers'') token [(''fields'', ''id'')] None)
       (\<lambda>d. lift_op (data_ids E d))"

definition discover_phone_number :: "notify_env \<Rightarrow> string \<Rightarrow> string \<Rightarrow> string op" where
  "discover_phone_number E waba token =
     bind_op (waba_phone_ids E waba token) (\<lambda>ids. case ids of
        [i] \<Rightarrow> ret i
      | _ \<Rightarrow> raise (MetaRequestError ''Selected WABA must contain exactly one phone number''))"

definition validate_phone_of_waba :: "notify_env \<Rightarrow> string \<Rightarrow> string \<Rightarrow> string \<Rightarrow> unit op" where
  "validate_phone_of_waba E waba phone token =
     bind_op (waba_phone_ids E waba token) (\<lambda>ids.
       if phone \<in> set ids then ret ()
       else raise (MetaRequestError ''Meta phone number does not belong to the selected WABA''))"

definition get_phone_number :: "notify_env \<Rightarrow> string \<Rightarrow> string \<Rightarrow> payload op" where
  "get_phone_number E phone token =
     graph_request E ''GET'' (''/'' @ phone) token
       [(''fields'', ''id,display_phone_number,verified_name,quality_rating'')] None"

definition assign_system_user :: "notify_env \<Rightarrow> string \<Rightarrow> string \<Rightarrow> unit op" where
  "assign_system_user E waba token =
     (if ne ns_system_user E = [] then raise (MetaConfigurationError ''Meta system user id is required'')
      else bind_op (graph_request E ''POST'' (''/'' @ waba @ ''/assigned_users'') token
             [(''user'', ne ns_system_user E), (''tasks'', ''['' @ [CHR 0x22] @ ''MANAGE'' @ [CHR 0x22] @ '']'')] None) (\<lambda>_. ret ()))"

definition subscribe_app :: "notify_env \<Rightarrow> string \<Rightarrow> string \<Rightarrow> unit op" where
  "subscribe_app E waba token =
     bind_op (graph_request E ''POST'' (''/'' @ waba @ ''/subscribed_apps'') token [] None) (\<lambda>_. ret ())"

definition register_phone_number :: "notify_env \<Rightarrow> string \<Rightarrow> string \<Rightarrow> string \<Rightarrow> unit op" where
  "register_phone_number E phone pin token =
     bind_op (graph_request E ''POST'' (''/'' @ phone @ ''/register'') token []
       (Some (JObj [(''messaging_product'', JStr ''whatsapp''), (''pin'', JStr pin)]))) (\<lambda>_. ret ())"

definition system_access_token :: "notify_env \<Rightarrow> string op" where
  "system_access_token E =
     (if ne ns_meta_token E = [] then raise (MetaConfigurationError ''Meta system user access token is required'')
      else ret (ne ns_meta_token E))"

text \<open>\<open>_optional_text(phone.get(key))\<close>.\<close>

definition optional_text :: "notify_env \<Rightarrow> payload \<Rightarrow> string \<Rightarrow> string option" where
  "optional_text E d key =
     (case dict_get d key of
        None \<Rightarrow> None
      | Some v \<Rightarrow> if v = JNull \<or> v = JStr [] then None else Some (str_of E v))"

section \<open>Onboarding\<close>

record signup =
  su_tenant :: uuid
  su_code :: string
  su_waba :: string
  su_phone :: "string option"
  su_pin :: "string option"
  su_redirect :: "string option"
  su_confirm :: bool

text \<open>\<open>payload.phone_number_id\<close> is validated to at least five digits, so it is never empty.\<close>

definition signup_valid :: "signup \<Rightarrow> bool" where
  "signup_valid p \<longleftrightarrow> str_between 8 4096 (su_code p) \<and> str_between 5 80 (su_waba p) \<and> list_all is_digit (su_waba p) \<and>
     (case su_phone p of None \<Rightarrow> True | Some n \<Rightarrow> str_between 5 80 n \<and> list_all is_digit n) \<and>
     (case su_pin p of None \<Rightarrow> True | Some n \<Rightarrow> length n = 6 \<and> list_all is_digit n) \<and>
     (case su_redirect p of None \<Rightarrow> True | Some u \<Rightarrow> length u \<le> 2048)"

definition ensure_reassignment_allowed :: "signup \<Rightarrow> string \<Rightarrow> unit op" where
  "ensure_reassignment_allowed p phone s =
     (case connected_by_phone (nt_connections s) phone of
        None \<Rightarrow> (Inr (), s)
      | Some c \<Rightarrow> if mc_tenant c \<noteq> su_tenant p \<and> \<not> su_confirm p then (Inl MetaPhoneConflictError, s) else (Inr (), s))"

definition new_connection :: "uuid \<Rightarrow> uuid \<Rightarrow> datetime \<Rightarrow> meta_connection" where
  "new_connection i t now =
     \<lparr>mc_id = i, mc_tenant = t, mc_waba = [], mc_phone = [], mc_display = None, mc_verified_name = None,
      mc_quality = None, mc_status = ''connected'', mc_connected_at = now, mc_last_verified_at = None,
      mc_disconnected_at = None\<rparr>"

definition verified_fields :: "notify_env \<Rightarrow> payload \<Rightarrow> meta_connection \<Rightarrow> meta_connection" where
  "verified_fields E phone c =
     c\<lparr>mc_display := optional_text E phone ''display_phone_number'', mc_verified_name := optional_text E phone ''verified_name'',
       mc_quality := optional_text E phone ''quality_rating'', mc_status := ''connected'',
       mc_last_verified_at := Some (ne_now E)\<rparr>"

text \<open>The existing row of the tenant, or a new one.\<close>

definition connection_for :: "notify_env \<Rightarrow> uuid \<Rightarrow> meta_connection op" where
  "connection_for E t s =
     (case connection_of_tenant (nt_connections s) t of
        Some c \<Rightarrow> (Inr c, s)
      | None \<Rightarrow> bind_op (draw_uuid E) (\<lambda>u. ret (new_connection u t (ne_now E))) s)"

definition complete_signup :: "notify_env \<Rightarrow> signup \<Rightarrow> meta_connection op" where
  "complete_signup E p =
     bind_op (case su_phone p of None \<Rightarrow> ret () | Some n \<Rightarrow> ensure_reassignment_allowed p n) (\<lambda>_.
     bind_op (exchange_authorization_code E (su_code p) (su_redirect p)) (\<lambda>token.
     bind_op (case su_phone p of
         Some n \<Rightarrow> bind_op (validate_phone_of_waba E (su_waba p) n token) (\<lambda>_. ret n)
       | None \<Rightarrow> bind_op (discover_phone_number E (su_waba p) token) (\<lambda>n.
           bind_op (ensure_reassignment_allowed p n) (\<lambda>_. ret n))) (\<lambda>number.
     bind_op (system_access_token E) (\<lambda>system.
     bind_op (assign_system_user E (su_waba p) system) (\<lambda>_.
     bind_op (subscribe_app E (su_waba p) token) (\<lambda>_.
     bind_op (case su_pin p of None \<Rightarrow> ret () | Some pin \<Rightarrow> register_phone_number E number pin token) (\<lambda>_.
     bind_op (get_phone_number E number system) (\<lambda>phone.
     bind_op (connection_for E (su_tenant p)) (\<lambda>c.
       assign_connection E
         ((verified_fields E phone c)\<lparr>mc_waba := su_waba p, mc_phone := number, mc_connected_at := ne_now E,
            mc_disconnected_at := None\<rparr>)
         (su_confirm p))))))))))"

definition require_connection :: "uuid \<Rightarrow> meta_connection op" where
  "require_connection t s =
     (case connection_of_tenant (nt_connections s) t of
        None \<Rightarrow> (Inl (LookupError ''Meta WhatsApp connection was not found''), s)
      | Some c \<Rightarrow> (Inr c, s))"

text \<open>A request error is recorded on the connection and raised again.\<close>

definition meta_request_error :: "exn \<Rightarrow> bool" where
  "meta_request_error e \<longleftrightarrow> (case e of MetaRequestError _ \<Rightarrow> True | _ \<Rightarrow> False)"

definition verify_connection :: "notify_env \<Rightarrow> uuid \<Rightarrow> meta_connection op" where
  "verify_connection E t =
     bind_op (require_connection t) (\<lambda>c.
     bind_op (system_access_token E) (\<lambda>token.
     bind_op (catch_op (get_phone_number E (mc_phone c) token) (\<lambda>e.
         if meta_request_error e
         then bind_op (save_connection (c\<lparr>mc_status := ''verification_failed'', mc_last_verified_at := Some (ne_now E)\<rparr>))
                (\<lambda>_. raise e)
         else raise e))
       (\<lambda>phone. save_connection (verified_fields E phone c))))"

definition disconnect :: "notify_env \<Rightarrow> uuid \<Rightarrow> meta_connection op" where
  "disconnect E t =
     bind_op (require_connection t) (\<lambda>c.
     bind_op (if connected c
              then bind_op (system_access_token E) (\<lambda>token.
                     bind_op (graph_request E ''DELETE'' (''/'' @ mc_waba c @ ''/subscribed_apps'') token [] None) (\<lambda>_. ret ()))
              else ret ())
       (\<lambda>_. save_connection (disconnected_at (ne_now E) c)))"

section \<open>Router\<close>

text \<open>The exceptions that the router answers with a status of their own.\<close>

definition onboarding_error :: "exn \<Rightarrow> exn" where
  "onboarding_error e = (case e of
     MetaConfigurationError m \<Rightarrow> HTTPException 503 m
   | MetaRequestError m \<Rightarrow> HTTPException 502 m
   | MetaPhoneConflictError \<Rightarrow> HTTPException 409 ''meta.whatsapp.phone_already_connected''
   | LookupError m \<Rightarrow> HTTPException 404 m
   | _ \<Rightarrow> e)"

definition onboarding_route :: "notify_env \<Rightarrow> string option \<Rightarrow> string option \<Rightarrow> 'a op \<Rightarrow> 'a op" where
  "onboarding_route E service key m s =
     (if service \<noteq> Some (ne ns_service_name E) \<or> ne ns_service_key E = [] \<or>
         (case key of None \<Rightarrow> [] | Some k \<Rightarrow> k) \<noteq> ne ns_service_key E
      then (Inl (HTTPException 403 ''Service authentication failed''), s)
      else apfst (map_sum onboarding_error id) (m s))"

end
