(* ===== verification/Meta_Webhook.thy ===== *)
theory Meta_Webhook
  imports Meta_Onboarding
begin

text \<open>
  Incoming WhatsApp messages: \<open>meta_webhook_router.py\<close> with the signature check, the claims and the
  media download of \<open>meta_service.py\<close>. A message is claimed before it is published, and the claim is
  released when publishing fails.
\<close>

section \<open>Authenticity and claims\<close>

definition verify_meta_signature :: "notify_env \<Rightarrow> bytes \<Rightarrow> string option \<Rightarrow> bool" where
  "verify_meta_signature E raw header \<longleftrightarrow>
     ne ns_app_secret E \<noteq> [] \<and>
     (case header of
        None \<Rightarrow> False
      | Some h \<Rightarrow> take 7 h = ''sha256='' \<and> drop 7 h = ne_hmac E (ne ns_app_secret E) raw)"

definition webhook_key :: "notify_env \<Rightarrow> string \<Rightarrow> string" where
  "webhook_key E i = ne ns_prefix E @ '':webhook:meta:'' @ i"

definition claim_meta_message :: "notify_env \<Rightarrow> string \<Rightarrow> bool op" where
  "claim_meta_message E i s =
     (if rd_get (ne_now E) (nt_claims s) (webhook_key E i) \<noteq> None then (Inr False, s)
      else (Inr True, s\<lparr>nt_claims := rd_set (webhook_key E i) () (expiry E (ne ns_retention E)) (nt_claims s)\<rparr>))"

definition release_meta_message :: "notify_env \<Rightarrow> string \<Rightarrow> unit op" where
  "release_meta_message E i s = (Inr (), s\<lparr>nt_claims := rd_del (webhook_key E i) (nt_claims s)\<rparr>)"

section \<open>Media\<close>

definition media_request :: "notify_env \<Rightarrow> string \<Rightarrow> http_request" where
  "media_request E url = \<lparr>hr_method = ''GET'', hr_url = url, hr_headers = bearer (ne ns_meta_token E), hr_body = NoBody\<rparr>"

text \<open>\<open>MetaMediaMetadata\<close>: the address and the type of a medium.\<close>

definition media_metadata :: "json \<Rightarrow> (string \<times> string) result" where
  "media_metadata body =
     (case Option.bind (object_of (Some body)) (\<lambda>d. case (dict_get d ''url'', dict_get d ''mime_type'') of
          (Some (JStr u), Some (JStr m)) \<Rightarrow> Some (u, m) | _ \<Rightarrow> None) of
        None \<Rightarrow> Inl (ValidationError ''MetaMediaMetadata'')
      | Some um \<Rightarrow> Inr um)"

definition media_limit :: nat where
  "media_limit = 25 * 1024 * 1024 + 1"

definition download_meta_media :: "notify_env \<Rightarrow> string \<Rightarrow> json \<Rightarrow> json op" where
  "download_meta_media E ident tenant =
     (if ne ns_meta_token E = [] then raise (RuntimeError ''Meta WhatsApp access token is not configured'')
      else bind_op (http_send E (media_request E (graph_url E (''/'' @ ident)))) (\<lambda>reply. case reply of
         HttpStatus code _ body \<Rightarrow> raise (RuntimeError (meta_error_message E code body))
       | HttpDown \<Rightarrow> raise (RuntimeError ''Meta WhatsApp media download is unavailable'')
       | HttpOk None \<Rightarrow> raise JSONDecodeError
       | HttpOk (Some body) \<Rightarrow>
           bind_op (lift_op (media_metadata body)) (\<lambda>(url, mime) s.
             (case ne_download E (media_request E url) of
                (HttpOk _, content) \<Rightarrow>
                  lift_op (ne_media_store E (take media_limit content) tenant mime (''whatsapp-'' @ ident))
              | (HttpStatus code _ b, _) \<Rightarrow> raise (RuntimeError (meta_error_message E code b))
              | (HttpDown, _) \<Rightarrow> raise (RuntimeError ''Meta WhatsApp media download is unavailable''))
             (s\<lparr>nt_calls := nt_calls s @ [media_request E url]\<rparr>))))"

section \<open>Events\<close>

definition resolve_tenant :: "notify_env \<Rightarrow> string option \<Rightarrow> notify_state \<Rightarrow> json option" where
  "resolve_tenant E phone s =
     (case (case phone of None \<Rightarrow> None | Some n \<Rightarrow> if n = [] then None else connected_by_phone (nt_connections s) n) of
        Some c \<Rightarrow> Some (JUuid (mc_tenant c))
      | None \<Rightarrow>
          if ne ns_meta_tenant E \<noteq> [] \<and> (ne ns_meta_phone E = [] \<or> Some (ne ns_meta_phone E) = phone)
          then Some (JStr (ne ns_meta_tenant E)) else None)"

definition event_of :: "notify_env \<Rightarrow> string \<Rightarrow> uuid \<Rightarrow> json \<Rightarrow> json" where
  "event_of E kind u body = JObj
     [(''event_id'', JStr (uuid_str u)), (''event_type'', JStr kind), (''version'', JInt 1),
      (''occurred_at'', JStr (ne_isoformat E (ne_now E))), (''payload'', body)]"

definition status_body :: "json \<Rightarrow> webhook_status \<Rightarrow> json" where
  "status_body tenant d = JObj [(''tenant_id'', tenant), (''provider_message_id'', JStr (wu_id d)),
     (''status'', JStr (wu_status d)), (''timestamp'', json_of_str (wu_timestamp d))]"

definition message_body :: "json \<Rightarrow> webhook_message \<Rightarrow> string option \<Rightarrow> string \<Rightarrow> json option \<Rightarrow> json" where
  "message_body tenant m profile text media = JObj
     [(''tenant_id'', tenant), (''from_number'', JStr (wg_from m)), (''profile_name'', json_of_str profile),
      (''body'', JStr text), (''provider_message_id'', JStr (wg_id m)),
      (''media'', case media of None \<Rightarrow> JNull | Some v \<Rightarrow> v)]"

definition profile_name :: "webhook_change \<Rightarrow> webhook_message \<Rightarrow> string option" where
  "profile_name c m =
     (case List.find (\<lambda>o'. wo_wa_id o' = wg_from m \<and> wo_profile o' \<noteq> None) (wh_contacts c) of
        None \<Rightarrow> None
      | Some o' \<Rightarrow> the (wo_profile o'))"

definition message_changes :: "webhook_payload \<Rightarrow> webhook_change list" where
  "message_changes p = filter (\<lambda>c. wh_field c = Some ''messages'') (wp_changes p)"

definition inbound_messages :: "webhook_payload \<Rightarrow> (string option \<times> webhook_message \<times> string option) list" where
  "inbound_messages p = concat (map (\<lambda>c. map (\<lambda>m. (wh_phone c, m, profile_name c m)) (wh_messages c)) (message_changes p))"

definition inbound_statuses :: "webhook_payload \<Rightarrow> (string option \<times> webhook_status) list" where
  "inbound_statuses p = concat (map (\<lambda>c. map (\<lambda>d. (wh_phone c, d)) (wh_statuses c)) (message_changes p))"

text \<open>The delivery states, in order; those of unknown numbers are skipped.\<close>

fun publish_statuses :: "notify_env \<Rightarrow> (string option \<times> webhook_status) list \<Rightarrow> unit op" where
  "publish_statuses E [] = ret ()"
| "publish_statuses E ((phone, d) # ds) = (\<lambda>s. case resolve_tenant E phone s of
     None \<Rightarrow> publish_statuses E ds s
   | Some tenant \<Rightarrow>
       bind_op (draw_uuid E) (\<lambda>u.
       bind_op (publish E (event_of E ''notification.whatsapp_delivery_updated'' u (status_body tenant d)))
         (\<lambda>_. publish_statuses E ds)) s)"

text \<open>The inside of the \<open>try\<close>: the medium of an image or an audio, and the event.\<close>

definition publish_message :: "notify_env \<Rightarrow> json \<Rightarrow> webhook_message \<Rightarrow> string option \<Rightarrow> unit op" where
  "publish_message E tenant m profile =
     (let text = (case wg_text m of None \<Rightarrow> [] | Some t \<Rightarrow> t);
          medium = (if wg_type m = Some ''image'' then wg_image m else wg_audio m)
      in bind_op (case medium of
             None \<Rightarrow> ret (None, text)
           | Some w \<Rightarrow> bind_op (download_meta_media E (wm_id w) tenant) (\<lambda>v. ret (Some v,
               if wg_type m = Some ''image'' then (case wm_caption w of None \<Rightarrow> text | Some c \<Rightarrow> if c = [] then text else c)
               else text)))
         (\<lambda>(media, body). bind_op (draw_uuid E) (\<lambda>u.
            publish E (event_of E ''notification.whatsapp_message_received'' u (message_body tenant m profile body media)))))"

definition unavailable_number :: exn where
  "unavailable_number = HTTPException 503 ''Meta WhatsApp phone number is not connected to a tenant''"

definition publisher_down :: exn where
  "publisher_down = HTTPException 503 ''WhatsApp inbound event publisher is unavailable''"

fun handle_messages :: "notify_env \<Rightarrow> (string option \<times> webhook_message \<times> string option) list \<Rightarrow> unit op" where
  "handle_messages E [] = ret ()"
| "handle_messages E ((phone, m, profile) # ms) = (\<lambda>s.
     if wg_type m \<notin> {Some ''text'', Some ''image'', Some ''audio''} then handle_messages E ms s
     else (case resolve_tenant E phone s of
        None \<Rightarrow> (Inl unavailable_number, s)
      | Some tenant \<Rightarrow>
          bind_op (claim_meta_message E (wg_id m)) (\<lambda>fresh s1.
            if \<not> fresh then handle_messages E ms s1
            else (case publish_message E tenant m profile s1 of
                (Inl e, s2) \<Rightarrow> bind_op (release_meta_message E (wg_id m)) (\<lambda>_. raise publisher_down) s2
              | (Inr _, s2) \<Rightarrow> handle_messages E ms s2)) s))"

section \<open>Requests\<close>

definition verify_webhook :: "notify_env \<Rightarrow> string option \<Rightarrow> string option \<Rightarrow> string option \<Rightarrow> string result" where
  "verify_webhook E mode token challenge =
     (if mode = Some ''subscribe'' \<and> ne ns_verify_token E \<noteq> [] \<and>
         (case token of None \<Rightarrow> [] | Some t \<Rightarrow> t) = ne ns_verify_token E
      then Inr (case challenge of None \<Rightarrow> [] | Some c \<Rightarrow> c)
      else Inl (HTTPException 403 ''Meta webhook verification failed''))"

definition receive_webhook :: "notify_env \<Rightarrow> bytes \<Rightarrow> string option \<Rightarrow> string op" where
  "receive_webhook E raw header =
     (if ne ns_app_secret E = [] then raise (HTTPException 503 ''Meta webhook app secret is not configured'')
      else if \<not> verify_meta_signature E raw header then raise (HTTPException 403 ''Invalid Meta webhook signature'')
      else (case ne_webhook E raw of
          None \<Rightarrow> raise (HTTPException 400 ''Invalid Meta webhook payload'')
        | Some p \<Rightarrow>
            if wp_object p \<noteq> Some ''whatsapp_business_account'' then ret ''ignored''
            else if inbound_messages p = [] \<and> inbound_statuses p = [] then ret ''accepted''
            else bind_op (publish_statuses E (inbound_statuses p)) (\<lambda>_.
                 bind_op (handle_messages E (inbound_messages p)) (\<lambda>_. ret ''accepted''))))"

end
