(* ===== verification/Notification_Facts.thy ===== *)
theory Notification_Facts
  imports Meta_Webhook
begin

text \<open>
  What the operations of the notification API leave alone, the runs of its operations, and the
  invariants of a run: a stored delivery keeps its answer, a claimed message has been published once,
  and a number has one connected tenant.
\<close>

section \<open>Operations that keep a part of the state\<close>

named_theorems keeping \<open>operations that keep a part of the state\<close>

definition keeps :: "(notify_state \<Rightarrow> 'b) \<Rightarrow> 'a op \<Rightarrow> bool" where
  "keeps f m \<longleftrightarrow> (\<forall>s. f (snd (m s)) = f s)"

lemma keepsD: "keeps f m \<Longrightarrow> m s = (r, s') \<Longrightarrow> f s' = f s"
  by (metis keeps_def snd_conv)

lemma keeps_bind [keeping]: "keeps f m \<Longrightarrow> (\<And>v. keeps f (g v)) \<Longrightarrow> keeps f (bind_op m g)"
  unfolding keeps_def by (metis bind_op_cases snd_conv)

lemma keeps_catch [keeping]: "keeps f m \<Longrightarrow> (\<And>e. keeps f (h e)) \<Longrightarrow> keeps f (catch_op m h)"
  unfolding keeps_def catch_op_def by (auto split: prod.split sum.split) (metis snd_conv)+

lemma keeps_const [keeping]: "keeps f (ret v)" "keeps f (raise e)" "keeps f (lift_op r)" "keeps f (read_op g)"
  by (simp_all add: keeps_def)

lemma keeps_if [keeping]: "keeps f m \<Longrightarrow> keeps f n \<Longrightarrow> keeps f (if b then m else n)"
  by simp

lemma keeps_option [keeping]: "keeps f m \<Longrightarrow> (\<And>x. keeps f (g x)) \<Longrightarrow> keeps f (case v of None \<Rightarrow> m | Some x \<Rightarrow> g x)"
  by (cases v) simp_all

lemma keeps_list [keeping]: "keeps f m \<Longrightarrow> (\<And>x xs. keeps f (g x xs)) \<Longrightarrow> keeps f (case v of [] \<Rightarrow> m | x # xs \<Rightarrow> g x xs)"
  by (cases v) simp_all

lemma keeps_json [keeping]:
  "keeps f a \<Longrightarrow> (\<And>x. keeps f (b x)) \<Longrightarrow> (\<And>x. keeps f (c x)) \<Longrightarrow> (\<And>x. keeps f (d x)) \<Longrightarrow> (\<And>x. keeps f (e x)) \<Longrightarrow>
   (\<And>x. keeps f (g x)) \<Longrightarrow> (\<And>x. keeps f (h x)) \<Longrightarrow> (\<And>x. keeps f (i x)) \<Longrightarrow> (\<And>x. keeps f (j x)) \<Longrightarrow>
   keeps f (case v of JNull \<Rightarrow> a | JBool x \<Rightarrow> b x | JInt x \<Rightarrow> c x | JFloat x \<Rightarrow> d x | JStr x \<Rightarrow> e x | JUuid x \<Rightarrow> g x
     | JTime x \<Rightarrow> h x | JList x \<Rightarrow> i x | JObj x \<Rightarrow> j x)"
  by (cases v) simp_all

lemma keeps_reply [keeping]:
  "(\<And>b. keeps f (g b)) \<Longrightarrow> (\<And>c r b. keeps f (h c r b)) \<Longrightarrow> keeps f d \<Longrightarrow>
   keeps f (case reply of HttpOk b \<Rightarrow> g b | HttpStatus c r b \<Rightarrow> h c r b | HttpDown \<Rightarrow> d)"
  by (cases reply) simp_all

lemma keeps_provider [keeping]:
  "(\<And>n. keeps f (a n)) \<Longrightarrow> (\<And>x k h i. keeps f (b x k h i)) \<Longrightarrow> keeps f c \<Longrightarrow> (\<And>t. keeps f (d t)) \<Longrightarrow> keeps f e \<Longrightarrow>
   keeps f (case p of FakeProvider n \<Rightarrow> a n | ResendProvider x k h i \<Rightarrow> b x k h i | SlackProvider \<Rightarrow> c | MetaProvider t \<Rightarrow> d t
     | TwilioProvider \<Rightarrow> e)"
  by (cases p) simp_all

lemma keeps_prod [keeping]: "(\<And>a b. keeps f (g a b)) \<Longrightarrow> keeps f (case v of (a, b) \<Rightarrow> g a b)"
  by (cases v) simp

text \<open>The fields that sending a request and drawing an id leave alone.\<close>

definition local_field :: "(notify_state \<Rightarrow> 'b) \<Rightarrow> bool" where
  "local_field f \<longleftrightarrow> (\<forall>s c n. f (s\<lparr>nt_calls := c\<rparr>) = f s \<and> f (s\<lparr>nt_draws := n\<rparr>) = f s)"

lemma local_fields [simp]:
  "local_field nt_deliveries" "local_field nt_claims" "local_field nt_connections" "local_field nt_published"
  "local_field (\<lambda>s. (nt_claims s, nt_published s))"
  by (simp_all add: local_field_def)

lemma keeps_basic [keeping]: "local_field f \<Longrightarrow> keeps f (http_send E q)" "local_field f \<Longrightarrow> keeps f (draw_uuid E)"
  by (simp_all add: keeps_def http_send_def draw_uuid_def local_field_def)

lemma keeps_meta_deliver: "local_field f \<Longrightarrow> keeps f (meta_deliver E tenant recipient content media)"
  unfolding meta_deliver_def by (intro keeping)

lemma keeps_deliver [keeping]: "local_field f \<Longrightarrow> keeps f (deliver E p recipient content media)"
  unfolding deliver_def fake_deliver_def resend_deliver_def slack_deliver_def twilio_deliver_def
  by (intro keeping keeps_meta_deliver)

lemma keeps_provider_for [keeping]: "local_field f \<Longrightarrow> keeps f (provider_for E channel tenant p name)"
  unfolding provider_for_def key_or_fresh_def by (intro keeping)

lemma keeps_graph [keeping]: "local_field f \<Longrightarrow> keeps f (graph_request E m path token query body)"
  "local_field f \<Longrightarrow> keeps f (exchange_authorization_code E code redirect)"
  unfolding graph_request_def request_json_def exchange_authorization_code_def by (intro keeping; assumption)+

lemma keeps_onboarding [keeping]:
  "local_field f \<Longrightarrow> keeps f (validate_phone_of_waba E waba phone token)"
  "local_field f \<Longrightarrow> keeps f (discover_phone_number E waba token)"
  "local_field f \<Longrightarrow> keeps f (get_phone_number E phone token)"
  "local_field f \<Longrightarrow> keeps f (assign_system_user E waba token)"
  "local_field f \<Longrightarrow> keeps f (subscribe_app E waba token)"
  "local_field f \<Longrightarrow> keeps f (register_phone_number E phone pin token)"
  "local_field f \<Longrightarrow> keeps f (system_access_token E)"
  unfolding validate_phone_of_waba_def discover_phone_number_def get_phone_number_def assign_system_user_def
    subscribe_app_def register_phone_number_def system_access_token_def waba_phone_ids_def
  by (intro keeping; assumption)+

text \<open>What writes the table of connections keeps the rest.\<close>

definition table_field :: "(notify_state \<Rightarrow> 'b) \<Rightarrow> bool" where
  "table_field f \<longleftrightarrow> local_field f \<and> (\<forall>s c. f (s\<lparr>nt_connections := c\<rparr>) = f s)"

lemma table_fields [simp]:
  "table_field nt_deliveries" "table_field nt_claims" "table_field nt_published" "table_field (\<lambda>s. (nt_claims s, nt_published s))"
  by (simp_all add: table_field_def)

lemma table_field_local [simp]: "table_field f \<Longrightarrow> local_field f"
  by (simp add: table_field_def)

lemma keeps_commit: "table_field f \<Longrightarrow> f (snd (commit_connections v rows s)) = f s"
  by (simp add: commit_connections_def table_field_def)

lemma keeps_repository [keeping]:
  "table_field f \<Longrightarrow> keeps f (save_connection c)" "table_field f \<Longrightarrow> keeps f (assign_connection E c confirm)"
  "keeps f (ensure_reassignment_allowed p phone)" "keeps f (require_connection t)"
  by (auto simp: keeps_def save_connection_def assign_connection_def ensure_reassignment_allowed_def require_connection_def
      keeps_commit split: option.splits)

lemma keeps_connection_for [keeping]: "local_field f \<Longrightarrow> keeps f (connection_for E t)"
  by (auto simp: keeps_def connection_for_def bind_op_def draw_uuid_def local_field_def split: option.splits)

lemma keeps_signup: "table_field f \<Longrightarrow> keeps f (complete_signup E p)"
  unfolding complete_signup_def by (intro keeping table_field_local; assumption?)

lemma keeps_disconnect: "table_field f \<Longrightarrow> keeps f (disconnect E t)"
  unfolding disconnect_def by (intro keeping table_field_local; assumption?)

lemma keeps_verify: "table_field f \<Longrightarrow> keeps f (verify_connection E t)"
  unfolding verify_connection_def by (intro keeping table_field_local; assumption?)

section \<open>Deliveries\<close>

lemma accept_retained:
  "text_field p ''idempotency_key'' = Some k \<Longrightarrow> load_delivery E (delivery_key E channel k) s = Some v \<Longrightarrow>
   accept_delivery E channel recipient p name s = (Inr v, s)"
  by (simp add: accept_delivery_def key_or_fresh_def bind_op_def)

lemma accept_delivery_cases:
  obtains (unchanged) r s' where "accept_delivery E channel recipient p name s = (r, s')"
      "nt_deliveries s' = nt_deliveries s" "nt_claims s' = nt_claims s" "nt_published s' = nt_published s"
      "nt_connections s' = nt_connections s"
      "\<And>v k. r = Inr v \<Longrightarrow> text_field p ''idempotency_key'' = Some k \<Longrightarrow> load_delivery E (delivery_key E channel k) s = Some v"
  | (stored) k v s' where "accept_delivery E channel recipient p name s = (Inr v, s')"
      "load_delivery E (delivery_key E channel k) s = None"
      "nt_deliveries s' = rd_set (delivery_key E channel k) v (expiry E (retention_seconds E p)) (nt_deliveries s)"
      "nt_claims s' = nt_claims s" "nt_published s' = nt_published s" "nt_connections s' = nt_connections s"
      "\<And>k'. text_field p ''idempotency_key'' = Some k' \<Longrightarrow> k' = k"
proof -
  let ?f = "\<lambda>s. (nt_deliveries s, nt_claims s, nt_published s, nt_connections s)"
  have f [simp]: "local_field ?f" by (simp add: local_field_def)
  obtain k s0 where k: "key_or_fresh E p s = (Inr k, s0)" "?f s0 = ?f s" "\<And>k'. text_field p ''idempotency_key'' = Some k' \<Longrightarrow> k' = k"
    by (cases "text_field p ''idempotency_key''") (auto simp: key_or_fresh_def bind_op_def draw_uuid_def)
  let ?key = "delivery_key E channel k"
  define m where "m = bind_op (provider_for E channel (tenant_of_payload p) p name) (\<lambda>prov.
           bind_op (lift_op (media_of E p)) (\<lambda>media.
           bind_op (deliver E prov recipient (content_of p) media) (\<lambda>d. ret (accepted_of E channel recipient p prov d))))"
  have m: "keeps ?f m" unfolding m_def by (intro keeping f)
  have acc: "accept_delivery E channel recipient p name s =
      (case load_delivery E ?key s0 of Some existing \<Rightarrow> (Inr existing, s0)
       | None \<Rightarrow> bind_op m (\<lambda>v. store_delivery E ?key v (retention_seconds E p)) s0)"
    using k(1) by (simp add: accept_delivery_def bind_op_def m_def Let_def split: option.splits prod.splits sum.splits)
  have load: "load_delivery E ?key s0 = load_delivery E ?key s" using k(2) by (simp add: load_delivery_def)
  show ?thesis
  proof (cases "load_delivery E ?key s")
    case (Some v)
    then show ?thesis using unchanged[of "Inr v" s0] acc load k(2,3) by force
  next
    case None
    show ?thesis
    proof (cases "m s0")
      case (Pair r s1)
      have f1: "?f s1 = ?f s" using keepsD[OF m Pair] k(2) by simp
      show ?thesis
      proof (cases r)
        case (Inl e)
        then show ?thesis using unchanged[of "Inl e" s1] acc load None Pair f1 by (simp add: bind_op_def)
      next
        case (Inr v)
        have "rd_get (ne_now E) (nt_deliveries s1) ?key = None" using None f1 by (simp add: load_delivery_def)
        then show ?thesis
          using stored[of v "s1\<lparr>nt_deliveries := rd_set ?key v (expiry E (retention_seconds E p)) (nt_deliveries s1)\<rparr>" k]
            acc load None Pair Inr f1 k(3) by (simp add: bind_op_def store_delivery_def)
      qed
    qed
  qed
qed

section \<open>Messages\<close>

definition claim_key :: "notify_settings \<Rightarrow> string \<Rightarrow> string" where
  "claim_key S i = ns_prefix S @ '':webhook:meta:'' @ i"

lemma webhook_claim_key: "ne_settings E = S \<Longrightarrow> webhook_key E i = claim_key S i"
  by (simp add: webhook_key_def claim_key_def)

lemma claim_key_inj [simp]: "claim_key S i = claim_key S j \<longleftrightarrow> i = j"
  by (simp add: claim_key_def)

definition claimed :: "notify_settings \<Rightarrow> string \<Rightarrow> notify_state \<Rightarrow> bool" where
  "claimed S i s \<longleftrightarrow> dict_get (nt_claims s) (claim_key S i) \<noteq> None"

text \<open>The events of an inbound message, by the id of the message.\<close>

definition is_message :: "string \<Rightarrow> json \<Rightarrow> bool" where
  "is_message i event \<longleftrightarrow>
     (case object_of (Some event) of
        None \<Rightarrow> False
      | Some d \<Rightarrow> dict_get d ''event_type'' = Some (JStr ''notification.whatsapp_message_received'') \<and>
          (case object_of (dict_get d ''payload'') of
             None \<Rightarrow> False | Some b \<Rightarrow> dict_get b ''provider_message_id'' = Some (JStr i)))"

definition published_message :: "string \<Rightarrow> notify_state \<Rightarrow> json list" where
  "published_message i s = filter (is_message i) (nt_published s)"

lemma is_message_event [simp]:
  "is_message i (event_of E ''notification.whatsapp_message_received'' u (message_body tenant m profile body media)) \<longleftrightarrow> i = wg_id m"
  "\<not> is_message i (event_of E ''notification.whatsapp_delivery_updated'' u (status_body tenant d))"
  by (auto simp: is_message_def event_of_def message_body_def object_of_def)

lemma keeps_download [keeping]: "local_field f \<Longrightarrow> keeps f (download_meta_media E i tenant)"
  unfolding download_meta_media_def
  by (intro keeping) (auto simp: keeps_def local_field_def split: prod.split http_reply.split)

text \<open>Publishing a message adds its one event, or nothing.\<close>

lemma publish_message_cases:
  obtains (failed) e s' where "publish_message E tenant m profile s = (Inl e, s')"
      "nt_published s' = nt_published s" "nt_claims s' = nt_claims s"
  | (published) ev s' where "publish_message E tenant m profile s = (Inr (), s')" "\<And>i. is_message i ev \<longleftrightarrow> i = wg_id m"
      "nt_published s' = nt_published s @ [ev]" "nt_claims s' = nt_claims s"
proof -
  let ?f = "\<lambda>s. (nt_claims s, nt_published s)"
  define said where "said = (case wg_text m of None \<Rightarrow> [] | Some t \<Rightarrow> t)"
  define media where "media = (case (if wg_type m = Some ''image'' then wg_image m else wg_audio m) of
     None \<Rightarrow> ret (None, said)
   | Some w \<Rightarrow> bind_op (download_meta_media E (wm_id w) tenant) (\<lambda>v. ret (Some v,
       if wg_type m = Some ''image'' then (case wm_caption w of None \<Rightarrow> said | Some c \<Rightarrow> if c = [] then said else c) else said)))"
  have k: "keeps ?f media" unfolding media_def by (intro keeping) simp_all
  have eq: "publish_message E tenant m profile = bind_op media (\<lambda>(media, body). bind_op (draw_uuid E) (\<lambda>u.
      publish E (event_of E ''notification.whatsapp_message_received'' u (message_body tenant m profile body media))))"
    unfolding publish_message_def media_def said_def Let_def by (rule refl)
  show ?thesis
  proof (cases media "\<lambda>(media, body). bind_op (draw_uuid E) (\<lambda>u.
      publish E (event_of E ''notification.whatsapp_message_received'' u (message_body tenant m profile body media)))" s
      rule: bind_op_cases)
    case (raised e s')
    then show ?thesis using failed[of e s'] keepsD[OF k raised(1)] eq by simp
  next
    case (answered v s')
    obtain md body where v: "v = (md, body)" by (cases v)
    let ?ev = "event_of E ''notification.whatsapp_message_received'' (ne_uuid4 E (nt_draws s')) (message_body tenant m profile body md)"
    let ?s = "s'\<lparr>nt_draws := Suc (nt_draws s')\<rparr>"
    have pub: "publish_message E tenant m profile s = publish E ?ev ?s"
      using answered(2) v eq by (simp add: bind_op_def draw_uuid_def)
    show ?thesis
    proof (cases "ne_publish E ?ev")
      case True
      then show ?thesis using published[of "?s\<lparr>nt_published := nt_published ?s @ [?ev]\<rparr>" ?ev] keepsD[OF k answered(1)] pub
        by (simp add: publish_def)
    next
      case False
      then show ?thesis using failed[of "RuntimeError ''WhatsApp event publisher is unavailable''" ?s] keepsD[OF k answered(1)] pub
        by (simp add: publish_def)
    qed
  qed
qed

text \<open>
  Every claim still holds at the end of the run, and a message has been published exactly once when it is
  claimed and not at all otherwise.
\<close>

definition claims_inv :: "notify_settings \<Rightarrow> datetime \<Rightarrow> notify_state \<Rightarrow> bool" where
  "claims_inv S hi s \<longleftrightarrow>
     (\<forall>k e. dict_get (nt_claims s) k = Some ((), e) \<longrightarrow> live hi e) \<and>
     (\<forall>i. length (published_message i s) = (if claimed S i s then 1 else 0))"

definition in_window :: "notify_settings \<Rightarrow> datetime \<Rightarrow> datetime \<Rightarrow> notify_env \<Rightarrow> bool" where
  "in_window S lo hi E \<longleftrightarrow> ne_settings E = S \<and> lo \<le> ne_now E \<and> ne_now E \<le> hi"

definition retained_run :: "notify_settings \<Rightarrow> datetime \<Rightarrow> datetime \<Rightarrow> bool" where
  "retained_run S lo hi \<longleftrightarrow> (ns_redis S \<longrightarrow> hi < lo + seconds (ns_retention S))"

lemma live_earlier: "live hi e \<Longrightarrow> now \<le> hi \<Longrightarrow> live now e"
  by (auto simp: live_def split: option.splits)

lemma claim_found:
  assumes "claims_inv S hi s" "in_window S lo hi E"
  shows "rd_get (ne_now E) (nt_claims s) (webhook_key E i) \<noteq> None \<longleftrightarrow> claimed S i s"
  using assms webhook_claim_key[of E S i]
  by (auto simp: claims_inv_def in_window_def claimed_def rd_get_def dest: live_earlier split: option.splits)

lemma claim_lives: "in_window S lo hi E \<Longrightarrow> retained_run S lo hi \<Longrightarrow> live hi (expiry E (ne ns_retention E))"
  by (auto simp: in_window_def retained_run_def expiry_def live_def)

lemma claims_inv_same:
  "nt_claims s' = nt_claims s \<Longrightarrow> (\<And>i. published_message i s' = published_message i s) \<Longrightarrow> claims_inv S hi s \<Longrightarrow> claims_inv S hi s'"
  by (simp add: claims_inv_def claimed_def)

lemma statuses_keep:
  "nt_claims (snd (publish_statuses E ds s)) = nt_claims s \<and>
   published_message i (snd (publish_statuses E ds s)) = published_message i s"
proof (induction ds arbitrary: s)
  case (Cons pd ds)
  then show ?case
    by (cases pd) (auto simp: bind_op_def draw_uuid_def publish_def published_message_def split: option.split)
qed simp

text \<open>One message: claimed already, refused, or published under a new claim.\<close>

lemma handle_messages_inv:
  assumes "claims_inv S hi s" "in_window S lo hi E" "retained_run S lo hi"
  shows "claims_inv S hi (snd (handle_messages E ms s)) \<and>
    (\<forall>i. claimed S i s \<longrightarrow> claimed S i (snd (handle_messages E ms s))) \<and>
    (fst (handle_messages E ms s) = Inr () \<longrightarrow>
       (\<forall>(phone, m, profile)\<in>set ms. wg_type m \<in> {Some ''text'', Some ''image'', Some ''audio''} \<longrightarrow>
          claimed S (wg_id m) (snd (handle_messages E ms s))))"
  using assms(1)
proof (induction ms arbitrary: s)
  case Nil
  then show ?case by simp
next
  case (Cons pm ms)
  obtain phone m profile where pm: "pm = (phone, m, profile)" by (cases pm)
  consider (skip) "wg_type m \<notin> {Some ''text'', Some ''image'', Some ''audio''}"
    | (unknown) "wg_type m \<in> {Some ''text'', Some ''image'', Some ''audio''}" "resolve_tenant E phone s = None"
    | (known) t where "wg_type m \<in> {Some ''text'', Some ''image'', Some ''audio''}" "resolve_tenant E phone s = Some t"
    by fastforce
  then show ?case
  proof cases
    case skip
    then show ?thesis using Cons.IH[OF Cons.prems] pm by auto
  next
    case unknown
    then show ?thesis using Cons.prems pm by simp
  next
    case (known t)
    let ?i = "wg_id m"
    show ?thesis
    proof (cases "claimed S ?i s")
      case True
      then have "handle_messages E (pm # ms) s = handle_messages E ms s"
        using known claim_found[OF Cons.prems assms(2), of ?i] pm by (simp add: bind_op_def claim_meta_message_def)
      then show ?thesis using Cons.IH[OF Cons.prems] True pm by auto
    next
      case fresh: False
      define s1 where "s1 = s\<lparr>nt_claims := rd_set (webhook_key E ?i) () (expiry E (ne ns_retention E)) (nt_claims s)\<rparr>"
      have key: "webhook_key E i = claim_key S i" for i using assms(2) webhook_claim_key by (simp add: in_window_def)
      have c1: "claimed S j s1 \<longleftrightarrow> j = ?i \<or> claimed S j s" for j
        by (simp add: s1_def claimed_def rd_set_def key)
      have claim: "claim_meta_message E ?i s = (Inr True, s1)"
        using claim_found[OF Cons.prems assms(2), of ?i] fresh by (simp add: claim_meta_message_def s1_def)
      have lives: "dict_get (nt_claims s1) k = Some ((), e) \<Longrightarrow> live hi e" for k e
        using Cons.prems claim_lives[OF assms(2,3)] by (auto simp: s1_def rd_set_def claims_inv_def split: if_splits)
      have pub1: "nt_published s1 = nt_published s" by (simp add: s1_def)
      show ?thesis
      proof (cases E t m profile s1 rule: publish_message_cases)
        case (failed e s2)
        define s3 where "s3 = s2\<lparr>nt_claims := rd_del (webhook_key E ?i) (nt_claims s2)\<rparr>"
        have res: "handle_messages E (pm # ms) s = (Inl publisher_down, s3)"
          using known claim failed(1) pm by (simp add: bind_op_def release_meta_message_def s3_def)
        have c3: "claimed S j s3 \<longleftrightarrow> claimed S j s" for j
          using c1[of j] failed(3) fresh by (auto simp: s3_def claimed_def rd_del_def key)
        have "claims_inv S hi s3"
          using Cons.prems lives c3 failed(2,3) pub1
          by (auto simp: claims_inv_def s3_def rd_del_def published_message_def split: if_splits)
        then show ?thesis using res c3 by simp
      next
        case (published ev s2)
        have c2: "claimed S j s2 \<longleftrightarrow> j = ?i \<or> claimed S j s" for j using c1 published(4) by (simp add: claimed_def)
        have inv2: "claims_inv S hi s2"
          using Cons.prems lives c2 published fresh pub1 by (auto simp: claims_inv_def published_message_def)
        have "handle_messages E (pm # ms) s = handle_messages E ms s2"
          using known claim published(1) pm by (simp add: bind_op_def)
        then show ?thesis using Cons.IH[OF inv2] c2 pm by auto
      qed
    qed
  qed
qed

lemma receive_webhook_inv:
  assumes "claims_inv S hi s" "in_window S lo hi E" "retained_run S lo hi"
  shows "claims_inv S hi (snd (receive_webhook E raw header s))"
proof -
  have st: "claims_inv S hi (snd (publish_statuses E ds s))" for ds
    using claims_inv_same[OF _ _ assms(1)] statuses_keep by blast
  show ?thesis
  proof (cases "ne_webhook E raw")
    case None
    then show ?thesis using assms(1) by (simp add: receive_webhook_def)
  next
    case (Some p)
    obtain r s1 where p: "publish_statuses E (inbound_statuses p) s = (r, s1)" by (cases "publish_statuses E (inbound_statuses p) s")
    have i1: "claims_inv S hi s1" using st[of "inbound_statuses p"] p by simp
    obtain r2 s2 where h: "handle_messages E (inbound_messages p) s1 = (r2, s2)" by (cases "handle_messages E (inbound_messages p) s1")
    have i2: "claims_inv S hi s2" using handle_messages_inv[OF i1 assms(2,3), of "inbound_messages p"] h by simp
    show ?thesis using assms(1) Some p h i1 i2 by (auto simp: receive_webhook_def bind_op_def split: sum.split)
  qed
qed

end
