(* ===== verification/Notification_Demo.thy ===== *)
theory Notification_Demo
  imports Notification_Facts
begin

text \<open>
  A small deployment of the notification API, on which the witnesses of its properties are evaluated: a
  Meta that answers every request alike, two tenants with the same number, one of them connected, and a
  webhook body with one message.
\<close>

definition demo_notify_settings :: notify_settings where
  "demo_notify_settings =
     \<lparr>ns_email_provider = ''fake'', ns_sendgrid_key = [], ns_resend_key = [], ns_resend_from = [], ns_slack_url = ''slack'',
      ns_twilio_sid = [], ns_twilio_token = [], ns_twilio_from = [], ns_whatsapp_provider = ''meta'',
      ns_graph_version = ''v1'', ns_app_id = ''app'', ns_app_secret = ''secret'', ns_system_user = ''sys'',
      ns_meta_token = ''token'', ns_meta_phone = [], ns_verify_token = ''v'', ns_meta_tenant = [], ns_redis = True,
      ns_prefix = ''n'', ns_default_policy = ''tracked'', ns_retention = 600, ns_kafka = False, ns_whatsapp_topic = ''w'',
      ns_allowed_services = [''core''], ns_service_name = ''core'', ns_service_key = ''key''\<rparr>"

definition demo_graph :: "(string, json) dict" where
  "demo_graph = [(''access_token'', JStr ''user''), (''data'', JList [JObj [(''id'', JStr ''12345'')]])]"

definition demo_inbound :: webhook_message where
  "demo_inbound = \<lparr>wg_from = ''55'', wg_id = ''m1'', wg_type = Some ''text'', wg_text = Some ''hi'', wg_image = None, wg_audio = None\<rparr>"

definition demo_webhook :: webhook_payload where
  "demo_webhook = \<lparr>wp_object = Some ''whatsapp_business_account'', wp_changes =
     [\<lparr>wh_field = Some ''messages'', wh_phone = Some ''12345'', wh_contacts = [], wh_messages = [demo_inbound, demo_inbound],
       wh_statuses = []\<rparr>]\<rparr>"

definition demo_notify :: "datetime \<Rightarrow> notify_env" where
  "demo_notify now =
     \<lparr>ne_settings = demo_notify_settings, ne_now = now, ne_uuid4 = (\<lambda>n. n + 7), ne_http = (\<lambda>_. HttpOk (Some (JObj demo_graph))),
      ne_download = (\<lambda>_. (HttpDown, [])), ne_str = (\<lambda>_. []), ne_isoformat = (\<lambda>_. ''now''), ne_b64 = id,
      ne_hmac = (\<lambda>_ _. ''mac''), ne_media_valid = Inr, ne_media_read = (\<lambda>_. Inr ()), ne_media_store = (\<lambda>_ t _ _. Inr t),
      ne_webhook = (\<lambda>_. Some demo_webhook), ne_publish = (\<lambda>_. True)\<rparr>"

definition demo_connection :: "uuid \<Rightarrow> string \<Rightarrow> meta_connection" where
  "demo_connection i status =
     \<lparr>mc_id = i, mc_tenant = i, mc_waba = ''54321'', mc_phone = ''12345'', mc_display = None, mc_verified_name = None,
      mc_quality = None, mc_status = status, mc_connected_at = 0, mc_last_verified_at = None, mc_disconnected_at = None\<rparr>"

definition demo_idle :: notify_state where
  "demo_idle = \<lparr>nt_draws = 0, nt_calls = [], nt_deliveries = [], nt_claims = [],
     nt_connections = [demo_connection 1 ''connected'', demo_connection 2 ''disconnected''], nt_published = []\<rparr>"

definition demo_signup :: "bool \<Rightarrow> signup" where
  "demo_signup confirm = \<lparr>su_tenant = 3, su_code = ''12345678'', su_waba = ''54321'', su_phone = Some ''12345'', su_pin = None,
     su_redirect = None, su_confirm = confirm\<rparr>"

definition demo_mail :: "string \<Rightarrow> payload" where
  "demo_mail body = [(''to'', JStr ''a@x''), (''body'', JStr body), (''idempotency_key'', JStr ''key-1'')]"

lemma demo_window: "0 \<le> now \<Longrightarrow> now \<le> 9 \<Longrightarrow> in_window demo_notify_settings 0 9 (demo_notify now)"
  by (simp add: in_window_def demo_notify_def)

lemma demo_retained: "retained_run demo_notify_settings 0 9"
  by (simp add: retained_run_def demo_notify_settings_def seconds_def)

lemma demo_claims: "claims_inv demo_notify_settings 9 demo_idle"
  by (simp add: claims_inv_def demo_idle_def claimed_def published_message_def)

lemma demo_connections: "connections_ok (nt_connections demo_idle)"
  by (simp add: connections_ok_def demo_idle_def demo_connection_def connected_def)

lemma demo_new_ids: "ne_uuid4 (demo_notify now) n \<notin> mc_id ` set (nt_connections demo_idle)"
  by (simp add: demo_idle_def demo_connection_def demo_notify_def)

lemma demo_accepts: "\<exists>v s. accept_delivery (demo_notify 0) ''email'' ''a@x'' (demo_mail ''hello'') None demo_idle = (Inr v, s) \<and>
     rd_get 9 (nt_deliveries s) (delivery_key (demo_notify 0) ''email'' ''key-1'') \<noteq> None"
proof -
  have "case accept_delivery (demo_notify 0) ''email'' ''a@x'' (demo_mail ''hello'') None demo_idle of
      (Inr v, s) \<Rightarrow> rd_get 9 (nt_deliveries s) (delivery_key (demo_notify 0) ''email'' ''key-1'') \<noteq> None | _ \<Rightarrow> False"
    by code_simp
  then show ?thesis by (auto split: prod.splits sum.splits)
qed

lemma demo_signs_up: "\<exists>c s. complete_signup (demo_notify 0) (demo_signup True) demo_idle = (Inr c, s) \<and> mc_phone c = ''12345''"
proof -
  have "case complete_signup (demo_notify 0) (demo_signup True) demo_idle of
      (Inr c, s) \<Rightarrow> mc_phone c = ''12345'' | _ \<Rightarrow> False"
    by code_simp
  then show ?thesis by (auto split: prod.splits sum.splits)
qed

lemma demo_received: "\<exists>s. receive_webhook (demo_notify 0) ''raw'' (Some ''sha256=mac'') demo_idle = (Inr ''accepted'', s)"
proof -
  have "case receive_webhook (demo_notify 0) ''raw'' (Some ''sha256=mac'') demo_idle of
      (Inr a, s) \<Rightarrow> a = ''accepted'' | _ \<Rightarrow> False"
    by code_simp
  then show ?thesis by (auto split: prod.splits sum.splits)
qed

end
