(* ===== verification/Notification_Claims.thy ===== *)
theory Notification_Claims
  imports Notification_Demo
begin

text \<open>
  The properties of the notification API: the steps it makes, what every run of them keeps, and the
  claims on deliveries, connections and incoming messages.
\<close>

section \<open>Runs\<close>

text \<open>
  The requests of one deployment between two points in time: every request is served within
  \<open>[lo, hi]\<close> and under the settings \<open>S\<close>; the answers of other systems, the clock and the drawn ids are
  those of its environment.
\<close>

inductive notify_step ::
  "notify_settings \<Rightarrow> datetime \<Rightarrow> datetime \<Rightarrow> notify_state \<Rightarrow> notify_state \<Rightarrow> bool"
  for S lo hi
where
  deliver: "in_window S lo hi E \<Longrightarrow> accept_delivery E channel recipient p name s = (r, t) \<Longrightarrow> notify_step S lo hi s t"
| signup: "in_window S lo hi E \<Longrightarrow> complete_signup E q s = (r, t) \<Longrightarrow> notify_step S lo hi s t"
| verify: "in_window S lo hi E \<Longrightarrow> verify_connection E tenant s = (r, t) \<Longrightarrow> notify_step S lo hi s t"
| disconnect: "in_window S lo hi E \<Longrightarrow> disconnect E tenant s = (r, t) \<Longrightarrow> notify_step S lo hi s t"
| webhook: "in_window S lo hi E \<Longrightarrow> receive_webhook E raw header s = (r, t) \<Longrightarrow> notify_step S lo hi s t"

abbreviation notify_run :: "notify_settings \<Rightarrow> datetime \<Rightarrow> datetime \<Rightarrow> notify_state \<Rightarrow> notify_state \<Rightarrow> bool" where
  "notify_run S lo hi \<equiv> (notify_step S lo hi)\<^sup>*\<^sup>*"

text \<open>The webhook leaves deliveries and connections alone.\<close>

lemma keeps_publishing [keeping]:
  "(\<And>s e. f (s\<lparr>nt_published := e\<rparr>) = f s) \<Longrightarrow> keeps f (publish E event)"
  by (auto simp: keeps_def publish_def)

lemma keeps_statuses:
  assumes "local_field f" "\<And>s e. f (s\<lparr>nt_published := e\<rparr>) = f s"
  shows "f (snd (publish_statuses E ds s)) = f s"
proof (induction ds arbitrary: s)
  case (Cons pd ds)
  then show ?case using assms
    by (cases pd) (auto simp: bind_op_def draw_uuid_def publish_def local_field_def split: option.split)
qed simp

lemma keeps_publish_message:
  assumes "local_field f" "\<And>s e. f (s\<lparr>nt_published := e\<rparr>) = f s"
  shows "keeps f (publish_message E tenant m profile)"
  unfolding publish_message_def Let_def using assms by (intro keeping) simp_all

lemma keeps_messages:
  assumes "local_field f" "\<And>s e. f (s\<lparr>nt_published := e\<rparr>) = f s" "\<And>s e. f (s\<lparr>nt_claims := e\<rparr>) = f s"
  shows "f (snd (handle_messages E ms s)) = f s"
proof (induction ms arbitrary: s)
  case (Cons pm ms)
  obtain phone m profile where pm: "pm = (phone, m, profile)" by (cases pm)
  have k: "f (snd (publish_message E tenant m profile s)) = f s" for tenant s
    using keeps_publish_message[OF assms(1,2)] by (simp add: keeps_def)
  show ?case
  proof (cases "resolve_tenant E phone s")
    case None
    then show ?thesis using Cons.IH pm by simp
  next
    case (Some tenant)
    show ?thesis
      using Cons.IH assms(3) k[of tenant] Some
      by (auto simp: pm bind_op_def claim_meta_message_def release_meta_message_def split: prod.split sum.split)
        (metis snd_conv)+
  qed
qed simp

lemma keeps_webhook:
  assumes "local_field f" "\<And>s e. f (s\<lparr>nt_published := e\<rparr>) = f s" "\<And>s e. f (s\<lparr>nt_claims := e\<rparr>) = f s"
  shows "f (snd (receive_webhook E raw header s)) = f s"
  using keeps_statuses[OF assms(1,2), of E] keeps_messages[OF assms, of E]
  by (auto simp: receive_webhook_def bind_op_def split: option.split prod.split sum.split) (metis snd_conv)+

lemma webhook_keeps_tables:
  "nt_deliveries (snd (receive_webhook E raw header s)) = nt_deliveries s"
  "nt_connections (snd (receive_webhook E raw header s)) = nt_connections s"
  by (rule keeps_webhook; simp)+

lemma connection_steps_keep:
  assumes "table_field f"
  shows "f (snd (complete_signup E q s)) = f s" "f (snd (verify_connection E tenant s)) = f s" "f (snd (disconnect E tenant s)) = f s"
  using keeps_signup[OF assms] keeps_verify[OF assms] keeps_disconnect[OF assms] by (auto simp: keeps_def)

text \<open>A delivery that outlives the run stays as it is.\<close>

lemma delivery_step:
  assumes "notify_step S lo hi s t" "rd_get hi (nt_deliveries s) key = Some v"
  shows "rd_get hi (nt_deliveries t) key = Some v"
  using assms(1)
proof cases
  case (deliver E channel recipient p name r)
  then have now: "rd_get (ne_now E) (nt_deliveries s) key = Some v"
    using rd_get_mono[OF _ assms(2)] by (simp add: in_window_def)
  show ?thesis
  proof (cases rule: accept_delivery_cases[where E=E and channel=channel and recipient=recipient and p=p and name=name and s=s])
    case (unchanged r' s')
    then show ?thesis using deliver assms(2) by simp
  next
    case (stored k v' s')
    then have "key \<noteq> delivery_key E channel k" using now by (auto simp: load_delivery_def)
    then show ?thesis using stored deliver assms(2) by simp
  qed
next
  case webhook
  then show ?thesis using assms(2) webhook_keeps_tables(1) by (metis snd_conv)
qed (use assms(2) connection_steps_keep[of nt_deliveries] in \<open>metis snd_conv table_fields(1)\<close>)+

lemma delivery_run: "notify_run S lo hi s t \<Longrightarrow> rd_get hi (nt_deliveries s) key = Some v \<Longrightarrow> rd_get hi (nt_deliveries t) key = Some v"
  by (induction rule: rtranclp_induct) (auto dest: delivery_step)

text \<open>Claims and published messages correspond all along a run.\<close>

lemma claims_keep:
  assumes "claims_inv S hi s" "(nt_claims t, nt_published t) = (nt_claims s, nt_published s)"
  shows "claims_inv S hi t"
  using assms claims_inv_same[of t s] by (simp add: published_message_def)

lemma claims_step:
  assumes "notify_step S lo hi s t" "claims_inv S hi s" "retained_run S lo hi"
  shows "claims_inv S hi t"
  using assms(1)
proof cases
  case (deliver E channel recipient p name r)
  then show ?thesis
    using assms(2) by (cases rule: accept_delivery_cases[where E=E and channel=channel and recipient=recipient and p=p and name=name and s=s]) (auto intro: claims_keep)
next
  case (webhook E raw header r)
  then show ?thesis using receive_webhook_inv[OF assms(2) _ assms(3), of E raw header] by simp
qed (use claims_keep[OF assms(2)] connection_steps_keep[of "\<lambda>s. (nt_claims s, nt_published s)"] in \<open>metis snd_conv table_fields(4)\<close>)+

lemma claims_run: "notify_run S lo hi s t \<Longrightarrow> claims_inv S hi s \<Longrightarrow> retained_run S lo hi \<Longrightarrow> claims_inv S hi t"
  by (induction rule: rtranclp_induct) (auto dest: claims_step)

text \<open>A claim is never given up once its message is published.\<close>

lemma claimed_webhook:
  assumes "claims_inv S hi s" "in_window S lo hi E" "retained_run S lo hi" "claimed S i s"
  shows "claimed S i (snd (receive_webhook E raw header s))"
proof -
  have st: "claims_inv S hi (snd (publish_statuses E ds s)) \<and> claimed S i (snd (publish_statuses E ds s))" for ds
    using claims_inv_same[OF _ _ assms(1)] statuses_keep assms(4) by (simp add: claimed_def)
  show ?thesis
    using st handle_messages_inv[OF _ assms(2,3)] assms(4)
    by (auto simp: receive_webhook_def bind_op_def split: option.split prod.split sum.split) (metis snd_conv)+
qed

lemma claimed_step:
  assumes "notify_step S lo hi s t" "claims_inv S hi s" "retained_run S lo hi" "claimed S i s"
  shows "claimed S i t"
  using assms(1)
proof cases
  case (deliver E channel recipient p name r)
  then show ?thesis using assms(4)
    by (cases rule: accept_delivery_cases[where E=E and channel=channel and recipient=recipient and p=p and name=name and s=s]) (simp_all add: claimed_def)
next
  case (webhook E raw header r)
  then show ?thesis using claimed_webhook[OF assms(2) _ assms(3,4), of E raw header] by simp
qed (use assms(4) connection_steps_keep[of nt_claims] in \<open>simp add: claimed_def, metis snd_conv table_fields(2)\<close>)+

lemma claimed_run:
  "notify_run S lo hi s t \<Longrightarrow> claims_inv S hi s \<Longrightarrow> retained_run S lo hi \<Longrightarrow> claimed S i s \<Longrightarrow> claimed S i t"
  by (induction rule: rtranclp_induct) (auto dest: claimed_step claims_run)

section \<open>Deliveries\<close>

text \<open>C22: A delivery is made once for its idempotency key. After a request has been answered, every later
  request on the same channel with the same key is given the same answer and does nothing at all,
  whatever it asks to send and whatever happened in between, as long as the record of the delivery has
  not expired.\<close>

theorem delivery_once:
  assumes "text_field p ''idempotency_key'' = Some k" "in_window S lo hi E"
    and "accept_delivery E channel recipient p name s0 = (Inr v, s1)"
    and "rd_get hi (nt_deliveries s1) (delivery_key E channel k) \<noteq> None" "notify_run S lo hi s1 t"
    and "in_window S lo hi E'" "text_field p' ''idempotency_key'' = Some k"
  shows "accept_delivery E' channel recipient' p' name' t = (Inr v, t)"
proof -
  let ?key = "delivery_key E channel k"
  have key: "delivery_key E' channel k = ?key" using assms(2,6) by (simp add: in_window_def delivery_key_def)
  obtain w where w: "rd_get hi (nt_deliveries s1) ?key = Some w" using assms(4) by blast
  have "v = w"
  proof (cases rule: accept_delivery_cases[where E=E and channel=channel and recipient=recipient and p=p and name=name and s=s0])
    case (unchanged r s')
    then show ?thesis
      using assms(1,3) rd_get_mono[OF _ w, of "ne_now E"] assms(2) by (auto simp: load_delivery_def in_window_def)
  next
    case (stored k' v' s')
    then show ?thesis using assms(1,3) w by (auto split: if_splits)
  qed
  then have "rd_get hi (nt_deliveries t) ?key = Some v" using delivery_run[OF assms(5)] w by simp
  then have "load_delivery E' ?key t = Some v"
    using rd_get_mono[of "ne_now E'" hi] assms(6) by (simp add: load_delivery_def in_window_def)
  then show ?thesis using accept_retained[OF assms(7), of E' channel t v] key by simp
qed

theorem delivery_once_witness:
  "let r = accept_delivery (demo_notify 0) ''email'' ''a@x'' (demo_mail ''hello'') None demo_idle in
   (\<exists>v. fst r = Inr v) \<and>
   accept_delivery (demo_notify 5) ''email'' ''b@x'' (demo_mail ''something else'') (Some ''resend'') (snd r) = r"
proof -
  obtain v s where r: "accept_delivery (demo_notify 0) ''email'' ''a@x'' (demo_mail ''hello'') None demo_idle = (Inr v, s)"
    "rd_get 9 (nt_deliveries s) (delivery_key (demo_notify 0) ''email'' ''key-1'') \<noteq> None"
    using demo_accepts by blast
  have "accept_delivery (demo_notify 5) ''email'' ''b@x'' (demo_mail ''something else'') (Some ''resend'') s = (Inr v, s)"
    by (rule delivery_once[OF _ demo_window[of 0] r rtranclp.rtrancl_refl demo_window[of 5]])
      (simp_all add: demo_mail_def text_field_def)
  then show ?thesis using r(1) by simp
qed

text \<open>The text of a Slack message never reaches Slack. The request that delivers it is sent, and its
  text is empty, whatever the message says: the dump of the message names it \<open>text\<close>, and the
  delivery reads \<open>body\<close> and \<open>content\<close>.\<close>

theorem slack_text_lost:
  assumes "ne ns_slack_url E \<noteq> []" "ms_key m = Some (x # xs)"
    and "load_delivery E (delivery_key E ''slack'' (x # xs)) s = None"
  shows "nt_calls (snd (request_slack_delivery E m s)) = nt_calls s @
    [\<lparr>hr_method = ''POST'', hr_url = ne ns_slack_url E, hr_headers = [(''Content-Type'', ''application/json'')],
      hr_body = JsonBody (JObj [(''text'', JStr [])])\<rparr>]"
proof -
  have dump: "text_field (slack_dump m) ''idempotency_key'' = Some (x # xs)" "content_of (slack_dump m) = []"
    "media_of E (slack_dump m) = Inr None"
    using assms(2) by (simp_all add: slack_dump_def common_dump_def text_field_def json_of_str_def content_of_def
        media_of_def object_of_def)
  show ?thesis
    using assms(1,3) dump
    by (simp add: request_slack_delivery_def accept_delivery_def key_or_fresh_def bind_op_def provider_for_def deliver_def
        slack_deliver_def http_send_def draw_uuid_def store_delivery_def delivery_accepted_def
        split: http_reply.split option.split prod.split sum.split)
qed

theorem slack_text_lost_witness:
  "\<exists>q. nt_calls (snd (request_slack_delivery (demo_notify 0)
      \<lparr>ms_to = ''#support'', ms_subject = [], ms_text = ''help'', ms_media = None, ms_key = Some ''key-1'', ms_metadata = [],
       ms_policy = None\<rparr> demo_idle)) = [q] \<and> hr_body q = JsonBody (JObj [(''text'', JStr [])])"
  using slack_text_lost[of "demo_notify 0"
      "\<lparr>ms_to = ''#support'', ms_subject = [], ms_text = ''help'', ms_media = None, ms_key = Some ''key-1'', ms_metadata = [],
       ms_policy = None\<rparr>" "CHR ''k''" "''ey-1''" demo_idle]
  by (simp add: demo_notify_def demo_notify_settings_def demo_idle_def load_delivery_def rd_get_def)

section \<open>Connections\<close>

lemma merged [simp]: "c \<in> set (merge_connection c rows)"
  by (force simp: merge_connection_def table_update_def)

lemma merged_other: "r \<in> set rows \<Longrightarrow> mc_id r \<noteq> mc_id c \<Longrightarrow> r \<in> set (merge_connection c rows)"
  by (force simp: merge_connection_def table_update_def)

lemma saved:
  "save_connection c s = (Inr v, t) \<Longrightarrow> v = c \<and> nt_connections t = merge_connection c (nt_connections s) \<and>
     connections_ok (nt_connections t)"
  by (auto simp: save_connection_def commit_connections_def split: if_splits)

lemma by_tenant:
  assumes "connections_ok rows" "c \<in> set rows"
  shows "connection_of_tenant rows (mc_tenant c) = Some c"
  unfolding connection_of_tenant_def
  using assms by (intro find_unique) (auto simp: connections_ok_def distinct_map inj_on_def)

lemma by_phone:
  assumes "connections_ok rows" "c \<in> set rows" "connected c"
  shows "connected_by_phone rows (mc_phone c) = Some c"
  unfolding connected_by_phone_def
  using assms by (intro find_unique) (auto simp: connections_ok_def distinct_map inj_on_def)

text \<open>A connected row routes its number both ways.\<close>

lemma routed:
  assumes "connections_ok (nt_connections s)" "c \<in> set (nt_connections s)" "connected c"
  shows "sender_number E (Some (JUuid (mc_tenant c))) s = Inr (mc_phone c)"
    and "mc_phone c \<noteq> [] \<Longrightarrow> resolve_tenant E (Some (mc_phone c)) s = Some (JUuid (mc_tenant c))"
  using by_tenant[OF assms(1,2)] by_phone[OF assms] assms(3)
  by (simp_all add: sender_number_def json_uuid_def connected_def resolve_tenant_def)

lemma assigned:
  assumes "assign_connection E c confirm s = (Inr v, t)"
  shows "v = c" "c \<in> set (nt_connections t)" "connections_ok (nt_connections t)"
  using assms
  by (auto simp: assign_connection_def save_connection_def commit_connections_def split: option.splits if_splits)

text \<open>
  What an operation does on the table \<open>rows\<close> whose last step, if it gets there, assigns a connection
  with \<open>P\<close>.
\<close>

definition assigns :: "notify_env \<Rightarrow> bool \<Rightarrow> meta_connection list \<Rightarrow> (meta_connection \<Rightarrow> bool) \<Rightarrow> meta_connection op \<Rightarrow> bool" where
  "assigns E confirm rows P m \<longleftrightarrow> (\<forall>s r t. nt_connections s = rows \<longrightarrow> m s = (r, t) \<longrightarrow>
     (\<exists>e. r = Inl e) \<and> nt_connections t = rows \<or>
     (\<exists>c s'. P c \<and> nt_connections s' = rows \<and> assign_connection E c confirm s' = (r, t)))"

lemma assigns_last: "P c \<Longrightarrow> assigns E confirm rows P (assign_connection E c confirm)"
  unfolding assigns_def by blast

lemma assigns_bind:
  assumes "keeps nt_connections m"
    and "\<And>v s s'. nt_connections s = rows \<Longrightarrow> m s = (Inr v, s') \<Longrightarrow> assigns E confirm rows P (g v)"
  shows "assigns E confirm rows P (bind_op m g)"
  unfolding assigns_def
proof (intro allI impI)
  fix s r t
  assume rows: "nt_connections s = rows" and run: "bind_op m g s = (r, t)"
  show "(\<exists>e. r = Inl e) \<and> nt_connections t = rows \<or>
     (\<exists>c s'. P c \<and> nt_connections s' = rows \<and> assign_connection E c confirm s' = (r, t))"
  proof (cases m g s rule: bind_op_cases)
    case (raised e s')
    then show ?thesis using rows run keepsD[OF assms(1) raised(1)] by simp
  next
    case (answered v s')
    then show ?thesis
      using rows run assms(2)[OF rows answered(1), unfolded assigns_def, rule_format, of s' r t] keepsD[OF assms(1) answered(1)]
      by auto
  qed
qed

text \<open>The row that a sign-up writes: the one of the tenant, or one with a new id.\<close>

definition own_row :: "notify_env \<Rightarrow> uuid \<Rightarrow> meta_connection list \<Rightarrow> meta_connection \<Rightarrow> bool" where
  "own_row E tenant rows c \<longleftrightarrow> mc_tenant c = tenant \<and>
     ((\<exists>r\<in>set rows. mc_id r = mc_id c \<and> mc_tenant r = tenant) \<or> (\<exists>n. mc_id c = ne_uuid4 E n))"

lemma connection_for_own: "connection_for E tenant s = (Inr c, s') \<Longrightarrow> own_row E tenant (nt_connections s) c"
  by (auto simp: connection_for_def connection_of_tenant_def bind_op_def draw_uuid_def new_connection_def find_Some_iff
      own_row_def split: option.splits)

lemma own_row_verified:
  "own_row E tenant rows c \<Longrightarrow>
   own_row E tenant rows ((verified_fields E phone c)\<lparr>mc_waba := w, mc_phone := n, mc_connected_at := a, mc_disconnected_at := d\<rparr>)"
  by (simp add: own_row_def verified_fields_def)

lemma signup_assigns:
  "assigns E (su_confirm q) rows
     (\<lambda>c. connected c \<and> own_row E (su_tenant q) rows c \<and> (\<forall>n. su_phone q = Some n \<longrightarrow> mc_phone c = n))
     (complete_signup E q)"
  unfolding complete_signup_def
  by (intro assigns_bind keeping local_fields assigns_last conjI own_row_verified)
    (auto simp: verified_fields_def connected_def bind_op_Inr dest!: connection_for_own split: option.splits)

text \<open>The rows of other tenants after an assignment.\<close>

lemma assigned_others:
  assumes "assign_connection E c confirm s = (r, t)" "connections_ok (nt_connections s)"
    and "own_row E tenant (nt_connections s) c" "\<And>n. ne_uuid4 E n \<notin> mc_id ` set (nt_connections s)"
    and "x \<in> set (nt_connections s)" "mc_tenant x \<noteq> tenant"
  shows "x \<in> set (nt_connections t) \<or>
    confirm \<and> connected x \<and> mc_phone x = mc_phone c \<and> disconnected_at (ne_now E) x \<in> set (nt_connections t)"
proof -
  have id: "mc_id x \<noteq> mc_id c"
    using assms(2-6) unfolding own_row_def connections_ok_def distinct_map inj_on_def by (metis image_eqI)
  show ?thesis
  proof (cases "phone_conflict (nt_connections s) c")
    case None
    then show ?thesis
      using assms(1,5) merged_other[OF assms(5) id]
      by (auto simp: assign_connection_def save_connection_def commit_connections_def split: if_splits)
  next
    case (Some y)
    define rows where "rows = table_update (\<lambda>z. mc_id z = mc_id y) (disconnected_at (ne_now E)) (nt_connections s)"
    have y: "y \<in> set (nt_connections s)" "mc_phone y = mc_phone c" "connected y"
      using Some by (auto simp: phone_conflict_def find_Some_iff)
    show ?thesis
    proof (cases "x = y")
      case True
      have "disconnected_at (ne_now E) x \<in> set (merge_connection c rows)"
        using True assms(5) id by (intro merged_other) (force simp: rows_def set_table_update disconnected_at_def)+
      then show ?thesis
        using Some assms(1,5) y True
        by (auto simp: assign_connection_def commit_connections_def rows_def split: if_splits)
    next
      case False
      then have "mc_id x \<noteq> mc_id y" using assms(2,5) y(1) by (auto simp: connections_ok_def distinct_map inj_on_def)
      then have "x \<in> set (merge_connection c rows)"
        using assms(5) id by (intro merged_other) (force simp: rows_def set_table_update)+
      then show ?thesis
        using Some assms(1,5) by (auto simp: assign_connection_def commit_connections_def rows_def split: if_splits)
    qed
  qed
qed

text \<open>C23: A sign-up that succeeds gives the tenant its number: what it writes leaves with that number,
  what reaches the number is given to the tenant, and no other tenant keeps a connection with it. The
  connections of the other tenants are as before, save one with the same number, which is disconnected,
  and that only when the sign-up confirms the transfer. \<open>uuid4\<close> is taken to draw new ids.\<close>

theorem signup_takes_number:
  assumes "complete_signup E q s = (Inr c, t)" "connections_ok (nt_connections s)"
    and "\<And>n. ne_uuid4 E n \<notin> mc_id ` set (nt_connections s)"
  shows "mc_tenant c = su_tenant q \<and> (\<forall>n. su_phone q = Some n \<longrightarrow> mc_phone c = n) \<and>
     connections_ok (nt_connections t) \<and>
     sender_number E' (Some (JUuid (su_tenant q))) t = Inr (mc_phone c) \<and>
     (mc_phone c \<noteq> [] \<longrightarrow> resolve_tenant E' (Some (mc_phone c)) t = Some (JUuid (su_tenant q))) \<and>
     (\<forall>x\<in>set (nt_connections t). connected x \<and> mc_phone x = mc_phone c \<longrightarrow> x = c) \<and>
     (\<forall>x\<in>set (nt_connections s). mc_tenant x \<noteq> su_tenant q \<longrightarrow> x \<in> set (nt_connections t) \<or>
        su_confirm q \<and> mc_phone x = mc_phone c \<and> disconnected_at (ne_now E) x \<in> set (nt_connections t))"
proof -
  obtain c' s' where a: "connected c'" "own_row E (su_tenant q) (nt_connections s) c'"
      "\<forall>n. su_phone q = Some n \<longrightarrow> mc_phone c' = n" "nt_connections s' = nt_connections s"
      "assign_connection E c' (su_confirm q) s' = (Inr c, t)"
    using signup_assigns[of E q "nt_connections s", unfolded assigns_def, rule_format, OF refl assms(1)] by auto
  have c: "c = c'" "c \<in> set (nt_connections t)" "connections_ok (nt_connections t)" using assigned[OF a(5)] by simp_all
  have tenant: "mc_tenant c = su_tenant q" using a(2) c(1) by (simp add: own_row_def)
  have only: "\<forall>x\<in>set (nt_connections t). connected x \<and> mc_phone x = mc_phone c \<longrightarrow> x = c"
    using c a(1) by (auto simp: connections_ok_def distinct_map inj_on_def)
  have others: "\<forall>x\<in>set (nt_connections s). mc_tenant x \<noteq> su_tenant q \<longrightarrow> x \<in> set (nt_connections t) \<or>
        su_confirm q \<and> mc_phone x = mc_phone c \<and> disconnected_at (ne_now E) x \<in> set (nt_connections t)"
    using assigned_others[OF a(5), unfolded a(4), OF assms(2) a(2) assms(3)] c(1) by blast
  show ?thesis
    using tenant only others c a(1,3) routed[of t c E'] by simp
qed

theorem signup_takes_number_witness:
  "let t = snd (complete_signup (demo_notify 0) (demo_signup True) demo_idle) in
   resolve_tenant (demo_notify 1) (Some ''12345'') t = Some (JUuid 3) \<and>
   sender_number (demo_notify 1) (Some (JUuid 3)) t = Inr ''12345''"
proof -
  obtain c s where r: "complete_signup (demo_notify 0) (demo_signup True) demo_idle = (Inr c, s)" "mc_phone c = ''12345''"
    using demo_signs_up by blast
  show ?thesis
    using signup_takes_number[OF r(1) demo_connections demo_new_ids, of "demo_notify 1"] r by (simp add: demo_signup_def)
qed

text \<open>C24: A sign-up that does not confirm a transfer cannot take a number from another tenant: whatever
  it answers, the connections of all other tenants are untouched. When the number is named in the request
  and is connected elsewhere it is refused before anything is sent to Meta and nothing changes.\<close>

theorem unconfirmed_signup_harmless:
  assumes "complete_signup E q s = (r, t)" "connections_ok (nt_connections s)"
    and "\<And>n. ne_uuid4 E n \<notin> mc_id ` set (nt_connections s)" "\<not> su_confirm q"
  shows "(\<forall>x\<in>set (nt_connections s). mc_tenant x \<noteq> su_tenant q \<longrightarrow> x \<in> set (nt_connections t)) \<and>
    (\<forall>n x. su_phone q = Some n \<and> x \<in> set (nt_connections s) \<and> connected x \<and> mc_phone x = n \<and> mc_tenant x \<noteq> su_tenant q \<longrightarrow>
       (r, t) = (Inl MetaPhoneConflictError, s))"
proof (intro conjI ballI allI impI)
  fix x assume x: "x \<in> set (nt_connections s)" "mc_tenant x \<noteq> su_tenant q"
  show "x \<in> set (nt_connections t)"
    using signup_assigns[of E q "nt_connections s", unfolded assigns_def, rule_format, OF refl assms(1)]
      assigned_others[of E _ "su_confirm q" _ r t "su_tenant q" x] assms(2-4) x by metis
next
  fix n x assume x: "su_phone q = Some n \<and> x \<in> set (nt_connections s) \<and> connected x \<and> mc_phone x = n \<and> mc_tenant x \<noteq> su_tenant q"
  then have "connected_by_phone (nt_connections s) n = Some x" using by_phone[OF assms(2)] by blast
  then show "(r, t) = (Inl MetaPhoneConflictError, s)"
    using assms(1,4) x by (simp add: complete_signup_def bind_op_def ensure_reassignment_allowed_def)
qed

theorem unconfirmed_signup_harmless_witness:
  "complete_signup (demo_notify 0) (demo_signup False) demo_idle = (Inl MetaPhoneConflictError, demo_idle)"
proof -
  obtain r t where run: "complete_signup (demo_notify 0) (demo_signup False) demo_idle = (r, t)" by fastforce
  have x: "demo_connection 1 ''connected'' \<in> set (nt_connections demo_idle)" by (simp add: demo_idle_def)
  have "(r, t) = (Inl MetaPhoneConflictError, demo_idle)"
    by (rule unconfirmed_signup_harmless[OF run demo_connections demo_new_ids, THEN conjunct2, rule_format,
          of "''12345''" "demo_connection 1 ''connected''"])
      (use x in \<open>simp_all add: demo_signup_def demo_connection_def connected_def\<close>)
  then show ?thesis using run by simp
qed

text \<open>Connecting a row that was not connected.\<close>

lemma merge_in_place:
  assumes "connections_ok (xs @ c # ys)" "mc_id v = mc_id c"
  shows "merge_connection v (xs @ c # ys) = xs @ v # ys"
proof -
  have "\<forall>x\<in>set xs \<union> set ys. mc_id x \<noteq> mc_id c" using assms(1) by (auto simp: connections_ok_def) (metis imageI)+
  then show ?thesis using assms(2) by (auto simp: merge_connection_def table_update_def map_idI)
qed

lemma reconnect_ok:
  assumes "connections_ok rows" "c \<in> set rows" "\<not> connected c" "connected v" "mc_id v = mc_id c"
    "mc_tenant v = mc_tenant c" "mc_phone v = mc_phone c"
  shows "connections_ok (merge_connection v rows) \<longleftrightarrow> (\<forall>x\<in>set rows. connected x \<longrightarrow> mc_phone x \<noteq> mc_phone c)"
proof -
  obtain xs ys where rows: "rows = xs @ c # ys" using split_list[OF assms(2)] by blast
  show ?thesis
    using assms(1,3-) merge_in_place[of xs c ys v] unfolding rows connections_ok_def by (auto simp: image_iff)
qed

text \<open>Verifying a connection that was disconnected connects it again, though nothing is asked of
  Meta but the description of the number: the application stays unsubscribed from the account, and the
  number belongs to the tenant again. When another tenant has the number by then, the check of the
  database fails and the request ends in an error that the router does not translate.\<close>

theorem verify_reconnects:
  assumes "connections_ok (nt_connections s)" "c \<in> set (nt_connections s)" "mc_status c = ''disconnected''"
    and "ne ns_meta_token E \<noteq> []" "mc_phone c \<noteq> []"
    and "\<And>q. hr_method q = ''GET'' \<Longrightarrow> ne_http E q = HttpOk (Some (JObj d))"
  shows "\<exists>q t. hr_method q = ''GET'' \<and> nt_calls t = nt_calls s @ [q] \<and>
    (if \<exists>x\<in>set (nt_connections s). connected x \<and> mc_phone x = mc_phone c
     then verify_connection E (mc_tenant c) s = (Inl IntegrityError, t) \<and> nt_connections t = nt_connections s \<and>
       onboarding_error IntegrityError = IntegrityError
     else verify_connection E (mc_tenant c) s = (Inr (verified_fields E d c), t) \<and>
       resolve_tenant E (Some (mc_phone c)) t = Some (JUuid (mc_tenant c)))"
proof -
  let ?v = "verified_fields E d c"
  define q where "q = \<lparr>hr_method = ''GET'',
     hr_url = graph_url E (''/'' @ mc_phone c) @ ''?'' @ urlencode [(''fields'', ''id,display_phone_number,verified_name,quality_rating'')],
     hr_headers = bearer_json (ne ns_meta_token E), hr_body = NoBody\<rparr>"
  define s1 where "s1 = s\<lparr>nt_calls := nt_calls s @ [q]\<rparr>"
  define t where "t = snd (save_connection ?v s1)"
  have v: "connected ?v" "mc_id ?v = mc_id c" "mc_tenant ?v = mc_tenant c" "mc_phone ?v = mc_phone c"
    by (simp_all add: verified_fields_def connected_def)
  have get: "get_phone_number E (mc_phone c) (ne ns_meta_token E) s = (Inr d, s1)"
    using assms(6)[of q]
    by (simp add: get_phone_number_def graph_request_def request_json_def bind_op_def http_send_def s1_def q_def)
  have run: "verify_connection E (mc_tenant c) s = save_connection ?v s1"
    using by_tenant[OF assms(1,2)] assms(4) get
    by (simp add: verify_connection_def require_connection_def bind_op_def system_access_token_def catch_op_def)
  have ok: "connections_ok (merge_connection ?v (nt_connections s)) \<longleftrightarrow>
      \<not> (\<exists>x\<in>set (nt_connections s). connected x \<and> mc_phone x = mc_phone c)"
    using reconnect_ok[OF assms(1,2) _ v] assms(3) by (auto simp: connected_def)
  show ?thesis
  proof (cases "\<exists>x\<in>set (nt_connections s). connected x \<and> mc_phone x = mc_phone c")
    case True
    then show ?thesis using run ok
      by (intro exI[of _ q] exI[of _ s1])
        (simp add: save_connection_def commit_connections_def s1_def onboarding_error_def, simp add: q_def)
  next
    case False
    then have sv: "save_connection ?v s1 = (Inr ?v, s1\<lparr>nt_connections := merge_connection ?v (nt_connections s)\<rparr>)"
      using ok by (simp add: save_connection_def commit_connections_def s1_def)
    show ?thesis
      using False run ok assms(5) v routed(2)[of "s1\<lparr>nt_connections := merge_connection ?v (nt_connections s)\<rparr>" ?v E]
      by (intro exI[of _ q] exI[of _ "s1\<lparr>nt_connections := merge_connection ?v (nt_connections s)\<rparr>"])
        (simp add: sv, simp add: s1_def q_def)
  qed
qed

theorem verify_reconnects_witness:
  "fst (verify_connection (demo_notify 0) 2 demo_idle) = Inl IntegrityError \<and>
   (let s = demo_idle\<lparr>nt_connections := [demo_connection 2 ''disconnected'']\<rparr> in
    resolve_tenant (demo_notify 0) (Some ''12345'') s = None \<and>
    resolve_tenant (demo_notify 0) (Some ''12345'') (snd (verify_connection (demo_notify 0) 2 s)) = Some (JUuid 2))"
proof -
  let ?s = "demo_idle\<lparr>nt_connections := [demo_connection 2 ''disconnected'']\<rparr>"
  let ?c = "demo_connection 2 ''disconnected''"
  note c = demo_connection_def demo_idle_def connected_def
  have e: "ne ns_meta_token (demo_notify 0) \<noteq> []" "\<And>q. ne_http (demo_notify 0) q = HttpOk (Some (JObj demo_graph))"
    by (simp_all add: demo_notify_def demo_notify_settings_def)
  have taken: "fst (verify_connection (demo_notify 0) 2 demo_idle) = Inl IntegrityError"
    using verify_reconnects[OF demo_connections _ _ e(1) _ e(2), of ?c] by (auto simp: c)
  have "connections_ok (nt_connections ?s)" by (simp add: connections_ok_def c)
  then have "resolve_tenant (demo_notify 0) (Some ''12345'') (snd (verify_connection (demo_notify 0) 2 ?s)) = Some (JUuid 2)"
    using verify_reconnects[of ?s ?c, OF _ _ _ e(1) _ e(2)] by (auto simp: c)
  then show ?thesis using taken
    by (simp add: resolve_tenant_def connected_by_phone_def c demo_notify_def demo_notify_settings_def)
qed

section \<open>Incoming messages\<close>



end
