(* ===== verification/Web_Guards.thy ===== *)
theory Web_Guards
  imports Service_Calls
begin

text \<open>
  What the routers of the services share: the request as FastAPI hands it over, the cookies of an answer,
  the origin check (\<open>shared_kernel/security/csrf.py\<close>) and the service key
  (\<open>shared_kernel/security/service_tokens.py\<close>).
\<close>

text \<open>
  \<open>wq_credentials\<close> is what FastAPI's \<open>HTTPBearer\<close> reads from the \<open>Authorization\<close> header: the token of a
  bearer header, nothing otherwise. A missing header is \<open>None\<close>.
\<close>

record web_request =
  wq_method :: string
  wq_origin :: "string option"
  wq_referer :: "string option"
  wq_authorization :: "string option"
  wq_credentials :: "string option"
  wq_cookies :: "(string, string) dict"
  wq_real_ip :: "string option"
  wq_client :: "string option"

datatype cookie =
    SetCookie string string int bool
  | DeleteCookie string

definition or_empty :: "string option \<Rightarrow> string" where
  "or_empty v = (case v of None \<Rightarrow> [] | Some s \<Rightarrow> s)"

definition safe_method :: "web_request \<Rightarrow> bool" where
  "safe_method q \<longleftrightarrow> wq_method q \<in> {''GET'', ''HEAD'', ''OPTIONS''}"

definition production :: "string \<Rightarrow> bool" where
  "production environment \<longleftrightarrow> lower environment \<in> {''production'', ''prod''}"

text \<open>
  \<open>urlsplit\<close>: the scheme and the network location of an address. A network location with one bracket
  only raises.
\<close>

definition scheme_char :: "char \<Rightarrow> bool" where
  "scheme_char c \<longleftrightarrow> is_alpha c \<or> is_digit c \<or> c \<in> set ''+-.''"

definition url_origin :: "string \<Rightarrow> (string \<times> string) result" where
  "url_origin v =
     (let u = filter (\<lambda>c. c \<notin> {CHR 0x09, CHR 0x0A, CHR 0x0D}) (dropWhile (\<lambda>c. of_char c \<le> (32 :: nat)) v);
          pre = takeWhile (\<lambda>c. c \<noteq> CHR '':'') u;
          has = (pre \<noteq> u \<and> pre \<noteq> [] \<and> is_alpha (hd pre) \<and> list_all scheme_char pre);
          rest = (if has then drop (length pre + 1) u else u);
          netloc = (if take 2 rest = ''//'' then takeWhile (\<lambda>c. c \<notin> set ''/?#'') (drop 2 rest) else [])
      in if (CHR ''['' \<in> set netloc) \<noteq> (CHR '']'' \<in> set netloc) then Inl (ValueError ''Invalid IPv6 URL'')
         else Inr (if has then lower pre else [], netloc))"

definition require_same_origin :: "web_request \<Rightarrow> string \<Rightarrow> string \<Rightarrow> unit result" where
  "require_same_origin q public_url environment =
     (if \<not> production environment then Inr ()
      else
        let origin = (if or_empty (wq_origin q) \<noteq> [] then or_empty (wq_origin q) else or_empty (wq_referer q)) in
        case url_origin public_url of
          Inl e \<Rightarrow> Inl e
        | Inr expected \<Rightarrow>
            (case url_origin origin of
               Inl e \<Rightarrow> Inl e
             | Inr actual \<Rightarrow>
                 if fst actual \<noteq> fst expected \<or> snd actual \<noteq> snd expected
                 then Inl (HTTPException 403 ''Cross-origin cookie request is forbidden'') else Inr ()))"

text \<open>The guard of the routes for other services.\<close>

definition service_key_ok :: "string \<Rightarrow> string option \<Rightarrow> string option \<Rightarrow> bool" where
  "service_key_ok expected service key \<longleftrightarrow>
     service = Some ''core_api'' \<and> expected \<noteq> [] \<and> or_empty key = expected"

definition service_refused :: exn where
  "service_refused = HTTPException 403 ''Service authentication failed''"

lemma same_origin_Inr:
  "require_same_origin q public_url environment = Inr () \<Longrightarrow> production environment \<Longrightarrow>
   \<exists>h. (h = wq_origin q \<or> h = wq_referer q) \<and> url_origin (or_empty h) = url_origin public_url"
  by (force simp: require_same_origin_def Let_def split: if_splits sum.splits)

end
