(* ===== verification/Auth_Routes.thy ===== *)
theory Auth_Routes
  imports Accounts Web_Guards
begin

text \<open>
  The requests of the auth API: \<open>infrastructure/security.py\<close>, \<open>sessions/session_router.py\<close> with
  \<open>turnstile.py\<close>, \<open>access_control/ui_context_router.py\<close>, \<open>mfa/mfa_router.py\<close>,
  \<open>accounts/account_router.py\<close> and \<open>users/user_router.py\<close>. The exceptions of the services become
  statuses here, and a session is required with its origin check, with or without MFA.
\<close>

section \<open>Environment and state\<close>

text \<open>
  The random texts a request may draw are fields of its environment. \<open>ae_siteverify\<close> is the answer of
  Turnstile to the form it is sent, \<open>None\<close> when the call fails; \<open>ae_ip\<close> parses an address.
\<close>

record auth_env =
  ae_sessions :: session_settings
  ae_accounts :: account_env
  ae_now :: datetime
  ae_environment :: string
  ae_public_url :: string
  ae_service_key :: string
  ae_site_key :: string
  ae_site_secret :: string
  ae_siteverify :: "(string \<times> string) list \<Rightarrow> json option"
  ae_ip :: "string \<Rightarrow> string option"
  ae_access :: string
  ae_refresh :: string
  ae_session :: string
  ae_ticket :: string
  ae_slug :: string
  ae_random :: string
  ae_token :: string
  ae_codes :: "string list"

record auth_state =
  as_db :: auth_db
  as_redis :: redis
  as_calls :: "external_call list"

abbreviation ae_lib :: "auth_env \<Rightarrow> auth_lib" where
  "ae_lib E \<equiv> env_lib (ae_accounts E)"

section \<open>Sessions\<close>

definition access_token :: "web_request \<Rightarrow> string option \<Rightarrow> string" where
  "access_token q credentials =
     (case credentials of
        Some c \<Rightarrow> c
      | None \<Rightarrow>
          let h = or_empty (wq_authorization q);
              t = strip (if take 7 h = ''Bearer '' then drop 7 h else h)
          in if t \<noteq> [] then t else dict_get_or (wq_cookies q) ''access_token'' [])"

definition unauthenticated :: exn where
  "unauthenticated = HTTPException 401 ''Authentication required''"

definition require_authenticated_session :: "auth_env \<Rightarrow> web_request \<Rightarrow> auth_state \<Rightarrow> (string \<times> string) result" where
  "require_authenticated_session E q s =
     (case (if wq_credentials q = None \<and> \<not> safe_method q then require_same_origin q (ae_public_url E) (ae_environment E)
            else Inr ()) of
        Inl e \<Rightarrow> Inl e
      | Inr _ \<Rightarrow>
          (case current_session (ae_sessions E) (ae_lib E) (ae_now E) (access_token q (wq_credentials q)) (as_db s) (as_redis s) of
             None \<Rightarrow> Inl unauthenticated
           | Some v \<Rightarrow> Inr v))"

definition ui_context_of :: "auth_env \<Rightarrow> web_request \<Rightarrow> auth_state \<Rightarrow> ui_context option result" where
  "ui_context_of E q s =
     session_ui_context (ae_sessions E) (ae_lib E) (ae_now E) (access_token q (wq_credentials q)) (as_db s) (as_redis s)"

definition require_mfa_session :: "auth_env \<Rightarrow> web_request \<Rightarrow> auth_state \<Rightarrow> (string \<times> string) result" where
  "require_mfa_session E q s =
     (case require_authenticated_session E q s of
        Inl e \<Rightarrow> Inl e
      | Inr v \<Rightarrow>
          (case ui_context_of E q s of
             Inl e \<Rightarrow> Inl e
           | Inr None \<Rightarrow> Inl (HTTPException 403 ''Configure MFA before accessing Rubrica'')
           | Inr (Some c) \<Rightarrow>
               if ui_mfa_setup_required c then Inl (HTTPException 403 ''Configure MFA before accessing Rubrica'') else Inr v))"

text \<open>\<open>/access-control/ui-context\<close> and \<open>/access-control/context\<close>.\<close>

definition service_context :: "auth_env \<Rightarrow> web_request \<Rightarrow> auth_state \<Rightarrow> ui_context result" where
  "service_context E q s =
     (case ui_context_of E q s of
        Inl e \<Rightarrow> Inl e
      | Inr None \<Rightarrow> Inl unauthenticated
      | Inr (Some c) \<Rightarrow> Inr c)"

section \<open>Turnstile\<close>

definition turnstile_config :: "auth_env \<Rightarrow> string \<times> bool" where
  "turnstile_config E =
     (let required = production (ae_environment E)
      in (if required \<and> ae_site_key E \<noteq> [] \<and> ae_site_secret E \<noteq> [] then ae_site_key E else [], required))"

text \<open>\<open>url.split("//", 1)[-1].split("/", 1)[0].split(":", 1)[0]\<close>.\<close>

fun after_slashes :: "string \<Rightarrow> string option" where
  "after_slashes (a # b # cs) = (if a = CHR ''/'' \<and> b = CHR ''/'' then Some cs else after_slashes (b # cs))"
| "after_slashes _ = None"

definition expected_host :: "string \<Rightarrow> string" where
  "expected_host url =
     takeWhile (\<lambda>c. c \<noteq> CHR '':'') (takeWhile (\<lambda>c. c \<noteq> CHR ''/'')
       (case after_slashes url of None \<Rightarrow> url | Some rest \<Rightarrow> rest))"

definition turnstile_form :: "auth_env \<Rightarrow> string \<Rightarrow> string option \<Rightarrow> (string \<times> string) list" where
  "turnstile_form E token remote_ip =
     [(''secret'', ae_site_secret E), (''response'', token)] @
     (case remote_ip of
        None \<Rightarrow> []
      | Some v \<Rightarrow> if v = [] then [] else (case ae_ip E v of None \<Rightarrow> [] | Some a \<Rightarrow> [(''remoteip'', a)]))"

definition unhashable :: "json option \<Rightarrow> bool" where
  "unhashable v = (case v of Some (JList _) \<Rightarrow> True | Some (JObj _) \<Rightarrow> True | _ \<Rightarrow> False)"

definition verify_turnstile :: "auth_env \<Rightarrow> string option \<Rightarrow> string \<Rightarrow> string option \<Rightarrow> unit result" where
  "verify_turnstile E token action remote_ip =
     (let (site_key, required) = turnstile_config E in
      if \<not> required then Inr ()
      else if site_key = [] then Inl (HTTPException 503 ''Login verification is unavailable'')
      else if or_empty token = [] then Inl (HTTPException 400 ''Login verification is required'')
      else (case ae_siteverify E (turnstile_form E (or_empty token) remote_ip) of
          None \<Rightarrow> Inl (HTTPException 503 ''Login verification is unavailable'')
        | Some (JObj d) \<Rightarrow>
            let host = expected_host (ae_public_url E) in
            if \<not> py_true (dict_get d ''success'') \<or> dict_get d ''action'' \<noteq> Some (JStr action)
            then Inl (HTTPException 400 ''Login verification failed'')
            else if production (ae_environment E) \<and> unhashable (dict_get d ''hostname'')
            then Inl (TypeError ''unhashable type'')
            else if production (ae_environment E) \<and>
              dict_get d ''hostname'' \<notin> {Some (JStr host), Some (JStr (''www.'' @ host))}
            then Inl (HTTPException 400 ''Login verification failed'') else Inr ()
        | Some _ \<Rightarrow> Inl (HTTPException 400 ''Login verification failed'')))"

definition remote_address :: "web_request \<Rightarrow> string option" where
  "remote_address q = (if or_empty (wq_real_ip q) \<noteq> [] then wq_real_ip q else wq_client q)"

section \<open>Login, refresh and logout\<close>

text \<open>A route answers or raises, sets cookies, and leaves a state.\<close>

type_synonym 'a auth_reply = "'a result \<times> cookie list \<times> auth_state"

definition set_auth_cookies :: "auth_env \<Rightarrow> login_response \<Rightarrow> cookie list" where
  "set_auth_cookies E r =
     (let secure = production (ae_environment E) in
      [SetCookie ''access_token'' (lr_access_token r) (cfg_access_ttl (ae_sessions E)) secure,
       SetCookie ''refresh_token'' (lr_refresh_token r) (cfg_session_ttl (ae_sessions E)) secure])"

definition clear_auth_cookies :: "cookie list" where
  "clear_auth_cookies = [DeleteCookie ''access_token'', DeleteCookie ''refresh_token'']"

definition login_route :: "auth_env \<Rightarrow> web_request \<Rightarrow> string \<Rightarrow> string \<Rightarrow> string option \<Rightarrow> auth_state \<Rightarrow> login_outcome auth_reply" where
  "login_route E q email password turnstile s =
     (case verify_turnstile E turnstile ''login'' (remote_address q) of
        Inl e \<Rightarrow> (Inl e, [], s)
      | Inr _ \<Rightarrow>
          (case login (ae_sessions E) (ae_lib E) (ae_now E) (ae_access E) (ae_refresh E) (ae_session E) (ae_ticket E)
                  email password (as_db s) (as_redis s) of
             (None, r) \<Rightarrow> (Inl (HTTPException 401 ''Invalid credentials''), [], s\<lparr>as_redis := r\<rparr>)
           | (Some (LoggedIn v), r) \<Rightarrow> (Inr (LoggedIn v), set_auth_cookies E v, s\<lparr>as_redis := r\<rparr>)
           | (Some (MfaChallenge t n), r) \<Rightarrow> (Inr (MfaChallenge t n), [], s\<lparr>as_redis := r\<rparr>)))"

definition complete_mfa_route :: "auth_env \<Rightarrow> string \<Rightarrow> string \<Rightarrow> auth_state \<Rightarrow> login_response auth_reply" where
  "complete_mfa_route E ticket code s =
     (case complete_mfa_challenge (ae_sessions E) (ae_lib E) (ae_now E) (ae_access E) (ae_refresh E) (ae_session E)
             ticket code (as_db s) (as_redis s) of
        (None, db, r) \<Rightarrow> (Inl (HTTPException 401 ''MFA challenge is invalid or expired''), [], s\<lparr>as_db := db, as_redis := r\<rparr>)
      | (Some v, db, r) \<Rightarrow> (Inr v, set_auth_cookies E v, s\<lparr>as_db := db, as_redis := r\<rparr>))"

definition refresh_route :: "auth_env \<Rightarrow> web_request \<Rightarrow> string option \<Rightarrow> auth_state \<Rightarrow> login_response auth_reply" where
  "refresh_route E q token s =
     (case (if token = None then require_same_origin q (ae_public_url E) (ae_environment E) else Inr ()) of
        Inl e \<Rightarrow> (Inl e, [], s)
      | Inr _ \<Rightarrow>
          let t = (if or_empty token \<noteq> [] then or_empty token else dict_get_or (wq_cookies q) ''refresh_token'' [])
          in (case refresh (ae_sessions E) (ae_lib E) (ae_now E) (ae_access E) (ae_refresh E) t (as_db s) (as_redis s) of
                (None, r) \<Rightarrow> (Inl (HTTPException 401 ''Refresh token is invalid''), clear_auth_cookies, s\<lparr>as_redis := r\<rparr>)
              | (Some v, r) \<Rightarrow> (Inr v, set_auth_cookies E v, s\<lparr>as_redis := r\<rparr>)))"

text \<open>The token that is logged out is read again, without the credentials of the guard.\<close>

definition logout_route :: "auth_env \<Rightarrow> web_request \<Rightarrow> auth_state \<Rightarrow> unit auth_reply" where
  "logout_route E q s =
     (case require_authenticated_session E q s of
        Inl e \<Rightarrow> (Inl e, [], s)
      | Inr _ \<Rightarrow> (Inr (), clear_auth_cookies,
          s\<lparr>as_redis := snd (logout (ae_sessions E) (ae_lib E) (ae_now E) (access_token q None) (as_redis s))\<rparr>))"

definition logout_all_route :: "auth_env \<Rightarrow> web_request \<Rightarrow> auth_state \<Rightarrow> unit auth_reply" where
  "logout_all_route E q s =
     (case require_authenticated_session E q s of
        Inl e \<Rightarrow> (Inl e, [], s)
      | Inr _ \<Rightarrow> (Inr (), clear_auth_cookies,
          s\<lparr>as_redis := snd (logout_all (ae_sessions E) (ae_lib E) (ae_now E) (access_token q None) (as_redis s))\<rparr>))"

section \<open>Multi-factor authentication\<close>

definition enforce_rate_limit :: "auth_env \<Rightarrow> string \<Rightarrow> string \<Rightarrow> int \<Rightarrow> auth_state \<Rightarrow> unit result \<times> auth_state" where
  "enforce_rate_limit E subject operation limit s =
     (case allow_mfa_operation (ae_sessions E) (ae_lib E) (ae_now E) subject operation limit 300 (as_redis s) of
        (ok, r) \<Rightarrow> (if ok then Inr () else Inl (HTTPException 429 ''Too many MFA attempts. Try again later''), s\<lparr>as_redis := r\<rparr>))"

definition mfa_error :: "exn \<Rightarrow> exn" where
  "mfa_error e = (case e of MfaError m \<Rightarrow> HTTPException 422 m | _ \<Rightarrow> e)"

text \<open>A session, then the rate limit, then the operation on the tables.\<close>

definition mfa_operation ::
  "auth_env \<Rightarrow> web_request \<Rightarrow> string \<Rightarrow> int \<Rightarrow> (string \<Rightarrow> auth_db \<Rightarrow> 'a result \<times> auth_db) \<Rightarrow> auth_state \<Rightarrow> 'a result \<times> auth_state"
where
  "mfa_operation E q operation limit f s =
     (case require_authenticated_session E q s of
        Inl e \<Rightarrow> (Inl e, s)
      | Inr (_, subject) \<Rightarrow>
          (case enforce_rate_limit E subject operation limit s of
             (Inl e, s1) \<Rightarrow> (Inl e, s1)
           | (Inr _, s1) \<Rightarrow> (case f subject (as_db s1) of (r, db) \<Rightarrow> (r, s1\<lparr>as_db := db\<rparr>))))"

definition mfa_status_route :: "auth_env \<Rightarrow> web_request \<Rightarrow> auth_state \<Rightarrow> (bool \<times> bool \<times> bool \<times> nat) result" where
  "mfa_status_route E q s =
     (case require_authenticated_session E q s of
        Inl e \<Rightarrow> Inl e
      | Inr (_, subject) \<Rightarrow> mfa_status subject (as_db s))"

definition mfa_setup_route :: "auth_env \<Rightarrow> web_request \<Rightarrow> auth_state \<Rightarrow> string result \<times> auth_state" where
  "mfa_setup_route E q = mfa_operation E q ''setup'' 5 (mfa_setup (ae_lib E) (ae_random E))"

definition mfa_confirm_route :: "auth_env \<Rightarrow> web_request \<Rightarrow> string \<Rightarrow> auth_state \<Rightarrow> string list result \<times> auth_state" where
  "mfa_confirm_route E q code = mfa_operation E q ''confirm'' 10
     (\<lambda>subject db. apfst (map_sum mfa_error id) (mfa_confirm (ae_lib E) (ae_now E) (ae_codes E) subject code db))"

definition mfa_disable_route :: "auth_env \<Rightarrow> web_request \<Rightarrow> string \<Rightarrow> string \<Rightarrow> auth_state \<Rightarrow> unit result \<times> auth_state" where
  "mfa_disable_route E q password code = mfa_operation E q ''disable'' 5
     (\<lambda>subject db. apfst (map_sum mfa_error id) (mfa_disable subject password code db))"

definition mfa_regenerate_route ::
  "auth_env \<Rightarrow> web_request \<Rightarrow> string \<Rightarrow> string \<Rightarrow> auth_state \<Rightarrow> string list result \<times> auth_state"
where
  "mfa_regenerate_route E q password code = mfa_operation E q ''recovery-codes'' 5
     (\<lambda>subject db. apfst (map_sum mfa_error id) (mfa_regenerate (ae_lib E) (ae_now E) (ae_codes E) subject password code db))"

section \<open>Accounts\<close>

text \<open>The errors of the two clients become 503; a conflict of a registration is not told.\<close>

definition unavailable :: "exn \<Rightarrow> exn" where
  "unavailable e = (case e of RuntimeError m \<Rightarrow> HTTPException 503 m | _ \<Rightarrow> e)"

definition token_error :: "string \<Rightarrow> exn \<Rightarrow> exn" where
  "token_error m e = (if e = InvalidAccountTokenError then HTTPException 422 m else e)"

definition called :: "auth_state \<Rightarrow> auth_db \<Rightarrow> external_call list \<Rightarrow> auth_state" where
  "called s db calls = s\<lparr>as_db := db, as_calls := as_calls s @ calls\<rparr>"

definition register_route :: "auth_env \<Rightarrow> web_request \<Rightarrow> string option \<Rightarrow> public_registration \<Rightarrow> auth_state \<Rightarrow> unit result \<times> auth_state" where
  "register_route E q turnstile p s =
     (case verify_turnstile E turnstile ''register'' (remote_address q) of
        Inl e \<Rightarrow> (Inl e, s)
      | Inr _ \<Rightarrow>
          (case register (ae_accounts E) (ae_now E) (ae_slug E) (ae_random E) (ae_token E) p (as_db s) of
             (r, db, calls) \<Rightarrow>
               (if r = Inl AccountConflictError then Inr () else map_sum unavailable id r, called s db calls)))"

definition request_verification_route :: "auth_env \<Rightarrow> string \<Rightarrow> auth_state \<Rightarrow> unit result \<times> auth_state" where
  "request_verification_route E email s =
     (case request_email_verification (ae_accounts E) (ae_now E) (ae_token E) email (as_db s) of
        (r, db, calls) \<Rightarrow> (map_sum unavailable id r, called s db calls))"

definition verify_email_route :: "auth_env \<Rightarrow> string \<Rightarrow> string \<Rightarrow> auth_state \<Rightarrow> unit result \<times> auth_state" where
  "verify_email_route E token password s =
     (case verify_email (ae_lib E) (ae_now E) token password (as_db s) of
        (r, db) \<Rightarrow> (map_sum (token_error ''Verification token is invalid or expired'') id r, s\<lparr>as_db := db\<rparr>))"

definition recovery_route :: "auth_env \<Rightarrow> web_request \<Rightarrow> string option \<Rightarrow> string \<Rightarrow> string option \<Rightarrow> auth_state \<Rightarrow> unit result \<times> auth_state" where
  "recovery_route E q turnstile email return_url s =
     (case verify_turnstile E turnstile ''password_recovery'' (remote_address q) of
        Inl e \<Rightarrow> (Inl e, s)
      | Inr _ \<Rightarrow>
          (case request_password_recovery (ae_accounts E) (ae_now E) (ae_token E) email return_url (as_db s) of
             (r, db, calls) \<Rightarrow> (map_sum unavailable id r, called s db calls)))"

definition reset_route :: "auth_env \<Rightarrow> string \<Rightarrow> string \<Rightarrow> auth_state \<Rightarrow> unit result \<times> auth_state" where
  "reset_route E token password s =
     (case reset_password (ae_lib E) (ae_now E) token password (as_db s) of
        (r, db) \<Rightarrow> (map_sum (token_error ''Password reset token is invalid or expired'') id r, s\<lparr>as_db := db\<rparr>))"

end
