(* ===== verification/User_Routes.thy ===== *)
theory User_Routes
  imports Auth_Routes
begin

text \<open>
  \<open>users/user_router.py\<close>: the directory of users that the core API asks (invitation, resolution,
  identity), and what a user sees and changes of its own account. No operation of the code deletes an
  identity document, so its \<open>deleted_at\<close> is always unset.
\<close>

section \<open>For the core API\<close>

definition internal_only ::
  "auth_env \<Rightarrow> string option \<Rightarrow> string option \<Rightarrow> (auth_state \<Rightarrow> 'a result \<times> auth_state) \<Rightarrow> auth_state \<Rightarrow> 'a result \<times> auth_state"
where
  "internal_only E service key f s =
     (if \<not> service_key_ok (ae_service_key E) service key then (Inl service_refused, s) else f s)"

definition invite_error :: "exn \<Rightarrow> exn" where
  "invite_error e = (case e of
     IntegrityError \<Rightarrow> HTTPException 409 ''E-mail or identity document is already registered''
   | AccountConflictError \<Rightarrow> HTTPException 503 []
   | RuntimeError m \<Rightarrow> HTTPException 503 m
   | _ \<Rightarrow> e)"

definition internal_member_invite ::
  "auth_env \<Rightarrow> string option \<Rightarrow> string option \<Rightarrow> member_invitation \<Rightarrow> auth_state \<Rightarrow> invitation_result result \<times> auth_state"
where
  "internal_member_invite E service key p = internal_only E service key (\<lambda>s.
     case invite_member_account (ae_accounts E) (ae_now E) (ae_slug E) (ae_random E) (ae_token E) p (as_db s) of
       (r, db, calls) \<Rightarrow> (map_sum invite_error id r, called s db calls))"

definition internal_user_resolve ::
  "auth_env \<Rightarrow> string option \<Rightarrow> string option \<Rightarrow> string \<Rightarrow> auth_state \<Rightarrow> (uuid \<times> string) result \<times> auth_state"
where
  "internal_user_resolve E service key email = internal_only E service key (\<lambda>s.
     (case List.find (\<lambda>u. usr_email u = lower (strip email) \<and> usr_deleted_at u = None \<and> usr_is_active u) (adb_users (as_db s)) of
        None \<Rightarrow> Inl (HTTPException 404 ''User not found'')
      | Some u \<Rightarrow> Inr (usr_id u, usr_email u), s))"

text \<open>The documents of the users with an address.\<close>

definition identifiers_of :: "auth_db \<Rightarrow> string \<Rightarrow> user_identifier list" where
  "identifiers_of db email =
     filter (\<lambda>i. \<exists>u\<in>set (adb_users db). usr_id u = uid_user_id i \<and> usr_email u = lower (strip email) \<and> usr_deleted_at u = None)
       (adb_identifiers db)"

text \<open>\<open>any(compare_digest(...))\<close>: a document without a digest raises.\<close>

fun any_digest :: "string \<Rightarrow> user_identifier list \<Rightarrow> bool result" where
  "any_digest digest [] = Inr False"
| "any_digest digest (i # is) =
     (case uid_lookup_hmac i of
        None \<Rightarrow> Inl (TypeError ''unsupported operand types'')
      | Some h \<Rightarrow> if h = digest then Inr True else any_digest digest is)"

definition identity_match :: "auth_env \<Rightarrow> string \<Rightarrow> string \<Rightarrow> string \<Rightarrow> auth_db \<Rightarrow> bool result" where
  "identity_match E email kind v db =
     (if kind \<notin> {''BR_CPF'', ''BR_CNPJ''} then Inr False
      else case validate_identifier (acs_jp_enabled (env_settings (ae_accounts E))) kind v of
        Inl _ \<Rightarrow> Inr False
      | Inr normalized \<Rightarrow>
          any_digest (env_id_hmac (ae_accounts E) normalized)
            (filter (\<lambda>i. uid_identifier_type i = kind \<and> uid_issuing_country i = ''BR'') (identifiers_of db email)))"

definition internal_identity_match ::
  "auth_env \<Rightarrow> string option \<Rightarrow> string option \<Rightarrow> string \<Rightarrow> string \<Rightarrow> string \<Rightarrow> auth_state \<Rightarrow> bool result \<times> auth_state"
where
  "internal_identity_match E service key email kind v = internal_only E service key
     (\<lambda>s. (identity_match E email kind v (as_db s), s))"

text \<open>The first document of the user, masked.\<close>

definition internal_identity_summary ::
  "auth_env \<Rightarrow> string option \<Rightarrow> string option \<Rightarrow> string \<Rightarrow> auth_state \<Rightarrow> (string \<times> string \<times> masked) option result \<times> auth_state"
where
  "internal_identity_summary E service key email = internal_only E service key (\<lambda>s.
     (Inr (case identifiers_of (as_db s) email of
        [] \<Rightarrow> None
      | i # _ \<Rightarrow> Some (uid_identifier_type i, uid_issuing_country i, uid_masked_display i)), s))"

section \<open>For the user\<close>

record user_read =
  ur_id :: uuid
  ur_name :: string
  ur_email :: string
  ur_role :: string
  ur_is_active :: bool
  ur_preferred_locale :: string

definition user_read_of :: "user \<Rightarrow> string \<Rightarrow> user_read" where
  "user_read_of u role =
     \<lparr>ur_id = usr_id u, ur_name = (if or_empty (usr_name u) \<noteq> [] then or_empty (usr_name u) else usr_email u),
      ur_email = usr_email u, ur_role = role, ur_is_active = usr_is_active u, ur_preferred_locale = usr_preferred_locale u\<rparr>"

definition update_my_preferences :: "auth_env \<Rightarrow> web_request \<Rightarrow> locale_code \<Rightarrow> auth_state \<Rightarrow> user_read result \<times> auth_state" where
  "update_my_preferences E q loc s =
     (case require_mfa_session E q s of
        Inl e \<Rightarrow> (Inl e, s)
      | Inr (_, subject) \<Rightarrow>
          (case List.find (\<lambda>u. usr_email u = subject) (adb_users (as_db s)) of
             None \<Rightarrow> (Inl unauthenticated, s)
           | Some u \<Rightarrow>
               let roles = fst (context_for_user (as_db s) (usr_id u));
                   role = (case List.find (\<lambda>r. take 10 r = ''signature_'') roles of None \<Rightarrow> ''signature_signer'' | Some r \<Rightarrow> r)
               in (Inr (user_read_of (u\<lparr>usr_preferred_locale := locale_str loc\<rparr>) role),
                   s\<lparr>as_db := user_set (usr_id u) (\<lambda>x. x\<lparr>usr_preferred_locale := locale_str loc\<rparr>) (as_db s)\<rparr>)))"

definition list_my_identifiers :: "auth_env \<Rightarrow> web_request \<Rightarrow> auth_state \<Rightarrow> (string \<times> string \<times> masked \<times> string) list result" where
  "list_my_identifiers E q s =
     (case require_mfa_session E q s of
        Inl e \<Rightarrow> Inl e
      | Inr (_, subject) \<Rightarrow>
          (case List.find (\<lambda>u. usr_email u = subject \<and> usr_deleted_at u = None) (adb_users (as_db s)) of
             None \<Rightarrow> Inl unauthenticated
           | Some u \<Rightarrow> Inr (map (\<lambda>i. (uid_issuing_country i, uid_identifier_type i, uid_masked_display i, uid_verification_status i))
               (filter (\<lambda>i. uid_user_id i = usr_id u) (adb_identifiers (as_db s))))))"

text \<open>What was removed answers 410 to every session.\<close>

definition removed_route :: "auth_env \<Rightarrow> string \<Rightarrow> web_request \<Rightarrow> auth_state \<Rightarrow> 'a result" where
  "removed_route E detail q s =
     (case require_authenticated_session E q s of Inl e \<Rightarrow> Inl e | Inr _ \<Rightarrow> Inl (HTTPException 410 detail))"

definition list_signers_route :: "auth_env \<Rightarrow> web_request \<Rightarrow> auth_state \<Rightarrow> user_read list result" where
  "list_signers_route E = removed_route E ''Global signer discovery was removed; invite a signer by e-mail''"

definition create_user_route :: "auth_env \<Rightarrow> web_request \<Rightarrow> auth_state \<Rightarrow> user_read result" where
  "create_user_route E = removed_route E ''Direct global user creation was removed; invite a signer by e-mail''"

end
