(* ===== verification/Core_Access.thy ===== *)
theory Core_Access
  imports Web_Guards Database_Signing
begin

text \<open>
  Who may call the core API: \<open>infrastructure/auth_context.py\<close>, which asks the auth API for the context of a
  token, and the routers of documents, signature requests and signing links
  (\<open>document_router.py\<close>, \<open>signature_request_router.py\<close>) with their guards.
\<close>

section \<open>The context of a request\<close>

text \<open>What \<open>/access-control/context\<close> answers to a bearer token: JSON, a status, or nothing usable.\<close>

datatype auth_answer = AuthPayload json | AuthStatus int | AuthDown

record gate_env =
  ge_ask :: "string \<Rightarrow> auth_answer"
  ge_public_url :: string
  ge_environment :: string
  ge_str :: "json \<Rightarrow> string"
  ge_ip :: "string \<Rightarrow> (string \<times> bool) option"
  ge_max_size :: nat

record auth_context =
  ctx_subject :: string
  ctx_roles :: "string list"
  ctx_permissions :: "string list"
  ctx_user_id :: "string option"
  ctx_email :: string

definition allows :: "auth_context \<Rightarrow> string \<Rightarrow> bool" where
  "allows c permission \<longleftrightarrow> ''*'' \<in> set (ctx_permissions c) \<or> permission \<in> set (ctx_permissions c)"

definition core_token :: "web_request \<Rightarrow> string" where
  "core_token q =
     (let t = or_empty (wq_credentials q) in if t \<noteq> [] then t else dict_get_or (wq_cookies q) ''access_token'' [])"

definition subject_text :: "gate_env \<Rightarrow> json \<Rightarrow> string" where
  "subject_text E v = (case v of JStr s \<Rightarrow> s | JUuid u \<Rightarrow> uuid_str u | JNull \<Rightarrow> ''None'' | _ \<Rightarrow> ge_str E v)"

text \<open>\<open>frozenset(payload.get(key, []))\<close>, as far as texts are members of it.\<close>

definition texts_of :: "json option \<Rightarrow> string list result" where
  "texts_of v = (case v of
     None \<Rightarrow> Inr []
   | Some (JList xs) \<Rightarrow>
       if list_ex (\<lambda>x. case x of JList _ \<Rightarrow> True | JObj _ \<Rightarrow> True | _ \<Rightarrow> False) xs then Inl (TypeError ''unhashable type'')
       else Inr (concat (map (\<lambda>x. case x of JStr t \<Rightarrow> [t] | _ \<Rightarrow> []) xs))
   | Some (JStr t) \<Rightarrow> Inr (map (\<lambda>c. [c]) t)
   | Some (JObj d) \<Rightarrow> Inr (map fst d)
   | Some _ \<Rightarrow> Inl (TypeError ''not iterable''))"

definition auth_down :: exn where
  "auth_down = HTTPException 503 ''Auth service is unavailable''"

definition not_authenticated :: exn where
  "not_authenticated = HTTPException 401 ''Authentication required''"

definition context_of_payload :: "gate_env \<Rightarrow> (string, json) dict \<Rightarrow> auth_context result" where
  "context_of_payload E d =
     (if py_true (dict_get d ''mfa_setup_required'')
      then Inl (HTTPException 403 ''Configure MFA before accessing Rubrica'')
      else case dict_get d ''subject'' of
        None \<Rightarrow> Inl KeyError
      | Some v \<Rightarrow>
          (case texts_of (dict_get d ''roles'') of Inl e \<Rightarrow> Inl e | Inr roles \<Rightarrow>
           (case texts_of (dict_get d ''permission_keys'') of Inl e \<Rightarrow> Inl e | Inr permissions \<Rightarrow>
            Inr \<lparr>ctx_subject = subject_text E v, ctx_roles = roles, ctx_permissions = permissions,
                 ctx_user_id = (if py_true (dict_get d ''user_id'') then Some (subject_text E (the (dict_get d ''user_id''))) else None),
                 ctx_email = (if py_true (dict_get d ''email'') then subject_text E (the (dict_get d ''email'')) else subject_text E v)\<rparr>)))"

definition resolve_context :: "gate_env \<Rightarrow> string \<Rightarrow> auth_context result" where
  "resolve_context E token =
     (if token = [] then Inl not_authenticated
      else case ge_ask E token of
        AuthStatus code \<Rightarrow> if code \<in> {401, 403} then Inl not_authenticated else Inl auth_down
      | AuthDown \<Rightarrow> Inl auth_down
      | AuthPayload (JObj d) \<Rightarrow> context_of_payload E d
      | AuthPayload _ \<Rightarrow> Inl AttributeError)"

definition authenticated_context :: "gate_env \<Rightarrow> web_request \<Rightarrow> auth_context result" where
  "authenticated_context E q =
     (case (if wq_credentials q = None \<and> \<not> safe_method q then require_same_origin q (ge_public_url E) (ge_environment E)
            else Inr ()) of
        Inl e \<Rightarrow> Inl e
      | Inr _ \<Rightarrow> resolve_context E (core_token q))"

definition require_permission :: "gate_env \<Rightarrow> string \<Rightarrow> web_request \<Rightarrow> auth_context result" where
  "require_permission E permission q =
     (case authenticated_context E q of
        Inl e \<Rightarrow> Inl e
      | Inr c \<Rightarrow> if allows c permission then Inr c else Inl (HTTPException 403 ''Permission denied''))"

definition is_administrator :: "auth_context \<Rightarrow> bool" where
  "is_administrator c \<longleftrightarrow> ''signature_admin'' \<in> set (ctx_roles c) \<or> ''*'' \<in> set (ctx_permissions c)"

definition administrator_context :: "gate_env \<Rightarrow> web_request \<Rightarrow> auth_context result" where
  "administrator_context E q =
     (case authenticated_context E q of
        Inl e \<Rightarrow> Inl e
      | Inr c \<Rightarrow> if is_administrator c then Inr c else Inl (HTTPException 403 ''Administrator access required''))"

text \<open>A guarded route: a command of the admitted context, or nothing.\<close>

definition admit :: "auth_context result \<Rightarrow> (auth_context \<Rightarrow> 's \<Rightarrow> 'a result \<times> 's) \<Rightarrow> 's \<Rightarrow> 'a result \<times> 's" where
  "admit guard f s = (case guard of Inl e \<Rightarrow> (Inl e, s) | Inr c \<Rightarrow> f c s)"

definition admit_read :: "auth_context result \<Rightarrow> (auth_context \<Rightarrow> 'a result) \<Rightarrow> 'a result" where
  "admit_read guard f = (case guard of Inl e \<Rightarrow> Inl e | Inr c \<Rightarrow> f c)"

section \<open>Documents\<close>

text \<open>\<open>_read_document_body\<close>: the declared length is checked, then every chunk as it arrives.\<close>

fun read_chunks :: "nat \<Rightarrow> bytes \<Rightarrow> bytes list \<Rightarrow> bytes result" where
  "read_chunks limit body [] = Inr body"
| "read_chunks limit body (c # cs) =
     (let b = body @ c in
      if limit < length b then Inl (workflow_error ''Document exceeds the allowed size'' 413) else read_chunks limit b cs)"

text \<open>\<open>int(content_length)\<close>: \<open>None\<close> when it is no number.\<close>

record upload =
  up_length :: "string option"
  up_number :: "int option"
  up_chunks :: "bytes list"
  up_content_type :: string
  up_filename :: string

definition read_document_body :: "gate_env \<Rightarrow> upload \<Rightarrow> bytes result" where
  "read_document_body E u =
     (if or_empty (up_length u) = [] then read_chunks (ge_max_size E) [] (up_chunks u)
      else case up_number u of
        None \<Rightarrow> Inl (workflow_error ''Invalid Content-Length header'' 400)
      | Some n \<Rightarrow>
          if int (ge_max_size E) < n then Inl (workflow_error ''Document exceeds the allowed size'' 413)
          else read_chunks (ge_max_size E) [] (up_chunks u))"

text \<open>\<open>pdf_content_disposition\<close> of \<open>content_disposition.py\<close>; \<open>quote(filename, safe='')\<close>.\<close>

definition quote_all :: "string \<Rightarrow> string" where
  "quote_all s = concat (map (\<lambda>c. if c = CHR '' '' then ''%20'' else quote_plus [c]) s)"

definition plain_filename :: "string \<Rightarrow> bool" where
  "plain_filename s \<longleftrightarrow>
     list_all (\<lambda>c. 32 \<le> (of_char c :: nat) \<and> of_char c < (127 :: nat) \<and> c \<noteq> CHR 0x5C \<and> c \<noteq> CHR 0x22) s"

definition pdf_content_disposition :: "string \<Rightarrow> bool \<Rightarrow> string" where
  "pdf_content_disposition filename attachment =
     (if attachment then ''attachment'' else ''inline'') @ ''; filename='' @ [CHR 0x22] @
     (if plain_filename filename then filename else ''documento.pdf'') @ [CHR 0x22] @
     ''; filename*=UTF-8'' @ [CHR 0x27, CHR 0x27] @ quote_all filename"

text \<open>A file that is answered: its name as a header, its digest, its content.\<close>

record file_answer =
  fa_disposition :: string
  fa_sha256 :: string
  fa_content :: bytes

definition version_file :: "bool \<Rightarrow> document_version_read \<times> bytes \<Rightarrow> file_answer" where
  "version_file attachment = (\<lambda>(v, content).
     \<lparr>fa_disposition = pdf_content_disposition (ver_original_filename v) attachment, fa_sha256 = ver_sha256 v, fa_content = content\<rparr>)"

definition signed_file :: "string \<times> string \<times> bytes \<Rightarrow> file_answer" where
  "signed_file = (\<lambda>(filename, digest, content).
     \<lparr>fa_disposition = pdf_content_disposition filename False, fa_sha256 = digest, fa_content = content\<rparr>)"

definition list_documents_route :: "gate_env \<Rightarrow> wf_env \<Rightarrow> web_request \<Rightarrow> wf_state \<Rightarrow> document_read list result" where
  "list_documents_route E W q s = admit_read (require_permission E ''documents:read'' q)
     (\<lambda>c. Inr (db_list_documents W (ctx_subject c) (ws_db s)))"

definition get_document_route :: "gate_env \<Rightarrow> wf_env \<Rightarrow> web_request \<Rightarrow> uuid \<Rightarrow> wf_state \<Rightarrow> document_read result" where
  "get_document_route E W q i s = admit_read (require_permission E ''documents:read'' q)
     (\<lambda>c. db_get_document W (uuid_str i) (ctx_subject c) (ws_db s))"

definition delete_document_route :: "gate_env \<Rightarrow> wf_env \<Rightarrow> web_request \<Rightarrow> uuid \<Rightarrow> bool \<Rightarrow> wf_state \<Rightarrow> unit result \<times> wf_state" where
  "delete_document_route E W q i force = admit (require_permission E ''documents:write'' q)
     (\<lambda>c. db_delete_document W (uuid_str i) (ctx_subject c) force)"

definition document_file_route ::
  "gate_env \<Rightarrow> wf_env \<Rightarrow> web_request \<Rightarrow> uuid \<Rightarrow> int option \<Rightarrow> bool \<Rightarrow> wf_state \<Rightarrow> file_answer result"
where
  "document_file_route E W q i version attachment s = admit_read (require_permission E ''documents:read'' q)
     (\<lambda>c. map_sum id (version_file attachment) (db_get_content W (uuid_str i) version (Some (ctx_subject c)) s))"

definition checked_upload :: "gate_env \<Rightarrow> wf_env \<Rightarrow> upload \<Rightarrow> bytes result" where
  "checked_upload E W u =
     (case read_document_body E u of Inl e \<Rightarrow> Inl e | Inr content \<Rightarrow>
      (case validate_pdf_upload (we_limits W) (we_parse_pdf W) content (up_filename u) (up_content_type u) of
         Inl e \<Rightarrow> Inl e
       | Inr _ \<Rightarrow> Inr content))"

definition upload_document_route ::
  "gate_env \<Rightarrow> wf_env \<Rightarrow> web_request \<Rightarrow> string \<Rightarrow> string \<Rightarrow> upload \<Rightarrow> wf_state \<Rightarrow> document_read result \<times> wf_state"
where
  "upload_document_route E W q organization title u = admit (require_permission E ''documents:write'' q) (\<lambda>c s.
     case checked_upload E W u of Inl e \<Rightarrow> (Inl e, s) | Inr content \<Rightarrow>
       db_create_document W \<lparr>dc_organization_id = organization, dc_title = title, dc_original_filename = up_filename u,
         dc_content_type = ''application/pdf'', dc_created_by = ctx_subject c\<rparr> content s)"

definition create_version_route ::
  "gate_env \<Rightarrow> wf_env \<Rightarrow> web_request \<Rightarrow> uuid \<Rightarrow> upload \<Rightarrow> wf_state \<Rightarrow> document_read result \<times> wf_state"
where
  "create_version_route E W q i u = admit (require_permission E ''documents:write'' q) (\<lambda>c s.
     case checked_upload E W u of Inl e \<Rightarrow> (Inl e, s) | Inr content \<Rightarrow>
       db_add_version W (uuid_str i) (up_filename u) ''application/pdf'' (ctx_subject c) content s)"

end
