(* ===== verification/Core_Routes.thy ===== *)
theory Core_Routes
  imports Core_Access Serpro_Authorization
begin

text \<open>
  The routers of the signature requests and of the signing links (\<open>signature_request_router.py\<close>) and of
  Serpro ID (\<open>serproid_router.py\<close>) over their services. A route is its guard, the call with the subject of
  the context, and the translation of errors that the router makes.
\<close>

section \<open>Signature requests\<close>

abbreviation may_read :: "gate_env \<Rightarrow> web_request \<Rightarrow> auth_context result" where
  "may_read E \<equiv> require_permission E ''signature_requests:read''"

abbreviation may_write :: "gate_env \<Rightarrow> web_request \<Rightarrow> auth_context result" where
  "may_write E \<equiv> require_permission E ''signature_requests:write''"

definition signer_contacts_route :: "gate_env \<Rightarrow> wf_env \<Rightarrow> web_request \<Rightarrow> uuid \<Rightarrow> string \<Rightarrow> wf_state \<Rightarrow> signer_contact list result" where
  "signer_contacts_route E W q t query s = admit_read (may_read E q)
     (\<lambda>c. db_list_signer_contacts W t (ctx_subject c) query (ws_db s))"

definition list_requests_route :: "gate_env \<Rightarrow> wf_env \<Rightarrow> web_request \<Rightarrow> wf_state \<Rightarrow> signature_request_read list result" where
  "list_requests_route E W q s = admit_read (may_read E q) (\<lambda>c. Inr (db_list_requests W (ctx_subject c) (ws_db s)))"

definition get_request_route :: "gate_env \<Rightarrow> wf_env \<Rightarrow> web_request \<Rightarrow> uuid \<Rightarrow> wf_state \<Rightarrow> signature_request_read result" where
  "get_request_route E W q i s = admit_read (may_read E q) (\<lambda>c. db_get_request W (uuid_str i) (ctx_subject c) (ws_db s))"

text \<open>\<open>SignatureRequestInput\<close> has no author: the subject of the session is the author.\<close>

definition create_request_route ::
  "gate_env \<Rightarrow> wf_env \<Rightarrow> web_request \<Rightarrow> signature_request_create \<Rightarrow> wf_state \<Rightarrow> signature_request_read result \<times> wf_state"
where
  "create_request_route E W q p = admit (may_write E q)
     (\<lambda>c. db_create_request W (p\<lparr>rc_created_by := ctx_subject c\<rparr>))"

definition with_identity :: "wf_env \<Rightarrow> signer_read \<Rightarrow> signer_read" where
  "with_identity W g = (let i = identity_of W (sgn_email g) in
     g\<lparr>sgn_identity_document_type := is_identifier_type i, sgn_identity_document_country := is_issuing_country i,
       sgn_identity_document_masked := is_masked_display i\<rparr>)"

definition request_signers_route :: "gate_env \<Rightarrow> wf_env \<Rightarrow> web_request \<Rightarrow> uuid \<Rightarrow> wf_state \<Rightarrow> signer_read list result" where
  "request_signers_route E W q i s = admit_read (may_read E q)
     (\<lambda>c. map_sum id (map (with_identity W)) (db_list_signers W (uuid_str i) (ctx_subject c) (ws_db s)))"

definition add_signer_route ::
  "gate_env \<Rightarrow> wf_env \<Rightarrow> web_request \<Rightarrow> uuid \<Rightarrow> signer_create \<Rightarrow> wf_state \<Rightarrow> signer_read result \<times> wf_state"
where
  "add_signer_route E W q i p = admit (may_write E q) (\<lambda>c. db_add_signer W (uuid_str i) p (ctx_subject c))"

definition link_error :: "exn \<Rightarrow> exn" where
  "link_error e = (case e of RuntimeError m \<Rightarrow> HTTPException 503 m | _ \<Rightarrow> e)"

definition create_signing_link_route :: "gate_env \<Rightarrow> wf_env \<Rightarrow> web_request \<Rightarrow> uuid \<Rightarrow> wf_state \<Rightarrow> string result \<times> wf_state" where
  "create_signing_link_route E W q i = admit (may_write E q)
     (\<lambda>c s. apfst (map_sum link_error id) (db_create_signing_link W (uuid_str i) (ctx_subject c) s))"

definition get_signing_link_route :: "gate_env \<Rightarrow> wf_env \<Rightarrow> web_request \<Rightarrow> uuid \<Rightarrow> wf_state \<Rightarrow> string result" where
  "get_signing_link_route E W q i s = admit_read (administrator_context E q)
     (\<lambda>c. db_get_signing_link W (uuid_str i) (ctx_subject c) (ws_db s))"

definition evidence_route :: "gate_env \<Rightarrow> wf_env \<Rightarrow> web_request \<Rightarrow> uuid \<Rightarrow> wf_state \<Rightarrow> signature_evidence_read list result" where
  "evidence_route E W q i s = admit_read (administrator_context E q)
     (\<lambda>c. db_signature_evidence W (uuid_str i) (ctx_subject c) (ws_db s))"

definition signed_document_route :: "gate_env \<Rightarrow> wf_env \<Rightarrow> web_request \<Rightarrow> uuid \<Rightarrow> wf_state \<Rightarrow> file_answer result" where
  "signed_document_route E W q i s = admit_read (administrator_context E q)
     (\<lambda>c. map_sum id signed_file (db_signed_document W (uuid_str i) (Some (ctx_subject c)) s))"

definition revoke_signer_route ::
  "gate_env \<Rightarrow> wf_env \<Rightarrow> web_request \<Rightarrow> uuid \<Rightarrow> uuid \<Rightarrow> wf_state \<Rightarrow> signer_read result \<times> wf_state"
where
  "revoke_signer_route E W q i g = admit (may_write E q)
     (\<lambda>c. db_revoke_signer_link W (uuid_str i) (uuid_str g) (ctx_subject c))"

definition open_request_route ::
  "gate_env \<Rightarrow> wf_env \<Rightarrow> web_request \<Rightarrow> uuid \<Rightarrow> signature_mode \<Rightarrow> wf_state \<Rightarrow> signature_request_read result \<times> wf_state"
where
  "open_request_route E W q i mode = admit (may_write E q) (\<lambda>c. db_open_request W (uuid_str i) (ctx_subject c) mode)"

definition cancel_request_route ::
  "gate_env \<Rightarrow> wf_env \<Rightarrow> web_request \<Rightarrow> uuid \<Rightarrow> wf_state \<Rightarrow> signature_request_read result \<times> wf_state"
where
  "cancel_request_route E W q i = admit (may_write E q) (\<lambda>c. db_cancel_request W (uuid_str i) (ctx_subject c))"

definition request_audit_route :: "gate_env \<Rightarrow> wf_env \<Rightarrow> web_request \<Rightarrow> uuid \<Rightarrow> wf_state \<Rightarrow> audit_event_read list result" where
  "request_audit_route E W q i s = admit_read (require_permission E ''audit:read'' q)
     (\<lambda>c. db_audit_events W (uuid_str i) (ctx_subject c) (ws_db s))"

section \<open>Signing links\<close>

text \<open>A link needs a session; who holds the global administrator role is passed on.\<close>

definition signing_context_route :: "gate_env \<Rightarrow> wf_env \<Rightarrow> web_request \<Rightarrow> string \<Rightarrow> wf_state \<Rightarrow> signing_read result" where
  "signing_context_route E W q token s = admit_read (authenticated_context E q)
     (\<lambda>c. map_sum id (\<lambda>r. r\<lparr>sr_signer := with_identity W (sr_signer r)\<rparr>)
        (db_signing_context W token (ctx_subject c) (is_administrator c) (ws_db s)))"

definition signing_document_route ::
  "gate_env \<Rightarrow> wf_env \<Rightarrow> web_request \<Rightarrow> string \<Rightarrow> bool \<Rightarrow> wf_state \<Rightarrow> file_answer result"
where
  "signing_document_route E W q token attachment s = admit_read (authenticated_context E q)
     (\<lambda>c. map_sum id (version_file attachment) (db_signing_document W token (ctx_subject c) (is_administrator c) s))"

definition signing_signed_document_route :: "gate_env \<Rightarrow> wf_env \<Rightarrow> web_request \<Rightarrow> string \<Rightarrow> wf_state \<Rightarrow> file_answer result" where
  "signing_signed_document_route E W q token s = admit_read (authenticated_context E q)
     (\<lambda>c. map_sum id signed_file (db_signing_signed_document W token (ctx_subject c) (is_administrator c) s))"

definition view_route :: "gate_env \<Rightarrow> wf_env \<Rightarrow> web_request \<Rightarrow> string \<Rightarrow> wf_state \<Rightarrow> signer_read result \<times> wf_state" where
  "view_route E W q token = admit (authenticated_context E q)
     (\<lambda>c s. apfst (map_sum id (with_identity W)) (db_view W token (ctx_subject c) s))"

text \<open>\<open>_client_ip\<close>: \<open>ge_ip\<close> parses an address and tells whether it is private or of the loopback.\<close>

definition client_ip :: "gate_env \<Rightarrow> web_request \<Rightarrow> string" where
  "client_ip E q =
     (case concat (map (\<lambda>v. case v of
          None \<Rightarrow> []
        | Some x \<Rightarrow> (case ge_ip E x of
            None \<Rightarrow> []
          | Some (text, local) \<Rightarrow> if x = [] \<or> (Some x = wq_client q \<and> local) then [] else [text]))
        [wq_real_ip q, wq_client q]) of
        [] \<Rightarrow> ''unknown''
      | a # _ \<Rightarrow> a)"

definition signing_input_of :: "sign_command \<Rightarrow> string \<Rightarrow> string \<Rightarrow> signing_input" where
  "signing_input_of p ip agent =
     \<lparr>si_stamp = sc_stamp p, si_consent_version = sc_consent_version p, si_client = Some (sc_client p),
      si_geolocation = Some (sc_geolocation p), si_ip_address = ip, si_user_agent = agent\<rparr>"

definition sign_route ::
  "gate_env \<Rightarrow> wf_env \<Rightarrow> web_request \<Rightarrow> string \<Rightarrow> string option \<Rightarrow> sign_command \<Rightarrow> wf_state \<Rightarrow> signer_read result \<times> wf_state"
where
  "sign_route E W q token agent p = admit (authenticated_context E q)
     (\<lambda>c. db_sign W token (ctx_subject c) (sc_consent p)
        (signing_input_of p (client_ip E q) (case agent of None \<Rightarrow> ''unknown'' | Some a \<Rightarrow> a)) None None)"

definition decline_route :: "gate_env \<Rightarrow> wf_env \<Rightarrow> web_request \<Rightarrow> string \<Rightarrow> wf_state \<Rightarrow> signer_read result \<times> wf_state" where
  "decline_route E W q token = admit (authenticated_context E q) (\<lambda>c. db_decline W token (ctx_subject c))"

section \<open>Serpro ID\<close>

definition start_serproid_route ::
  "gate_env \<Rightarrow> serpro_env \<Rightarrow> web_request \<Rightarrow> string \<Rightarrow> string option \<Rightarrow> sign_command \<Rightarrow> serpro_state \<Rightarrow> string result \<times> serpro_state"
where
  "start_serproid_route E V q token agent p = admit (authenticated_context E q)
     (\<lambda>c. start_authorization V token (ctx_subject c) p
        (if or_empty (wq_real_ip q) \<noteq> [] then or_empty (wq_real_ip q)
         else (case wq_client q of None \<Rightarrow> ''unknown'' | Some h \<Rightarrow> h))
        (case agent of None \<Rightarrow> ''unknown'' | Some a \<Rightarrow> a))"

definition callback_error :: "exn \<Rightarrow> exn" where
  "callback_error e = (case e of
     HttpError _ \<Rightarrow> workflow_error ''Serpro ID returned an invalid or unavailable response'' 502
   | ValueError _ \<Rightarrow> workflow_error ''Serpro ID returned an invalid or unavailable response'' 502
   | ValidationError _ \<Rightarrow> workflow_error ''Serpro ID returned an invalid or unavailable response'' 502
   | JSONDecodeError \<Rightarrow> workflow_error ''Serpro ID returned an invalid or unavailable response'' 502
   | KeyError \<Rightarrow> workflow_error ''Serpro ID returned an invalid or unavailable response'' 502
   | TypeError _ \<Rightarrow> workflow_error ''Serpro ID returned an invalid or unavailable response'' 502
   | _ \<Rightarrow> e)"

text \<open>The answer is the address of the redirection.\<close>

definition serproid_callback ::
  "gate_env \<Rightarrow> serpro_env \<Rightarrow> uuid \<Rightarrow> (wf_state \<Rightarrow> wf_state) \<Rightarrow> web_request \<Rightarrow> string \<Rightarrow> string option \<Rightarrow> string option \<Rightarrow>
     serpro_state \<Rightarrow> string result \<times> serpro_state"
where
  "serproid_callback E V u meanwhile q state code err = admit (authenticated_context E q) (\<lambda>c s.
     if length state < 32 \<or> 128 < length state then (Inl (workflow_error ''Invalid Serpro ID state'' 400), s)
     else apfst (map_sum callback_error (\<lambda>token. ''/signing/'' @ token @ ''?serproid='' @
         (if or_empty err \<noteq> [] \<or> or_empty code = [] then ''denied'' else ''success'')))
       (finish_authorization V u meanwhile state code err (ctx_subject c) s))"

end
