(* ===== verification/Team_Routes.thy ===== *)
theory Team_Routes
  imports Core_Access Billing
begin

text \<open>
  The routers of the tenants (\<open>tenant_router.py\<close>) and of billing (\<open>billing_router.py\<close>) of the core API: the
  permission each route asks of the session, then the service with the subject of the session.
\<close>

section \<open>Tenants\<close>

text \<open>The only caller of \<open>/internal/tenants/provision\<close> is the auth API; \<open>expected\<close> is the configured key.\<close>

definition provision_tenant_route ::
  "string \<Rightarrow> string option \<Rightarrow> string option \<Rightarrow> core_env \<Rightarrow> tenant_provision \<Rightarrow> 'z core_db_scheme \<Rightarrow>
     tenant_read result \<times> 'z core_db_scheme"
where
  "provision_tenant_route expected service key E p db =
     (if service \<noteq> Some ''auth_api'' \<or> expected = [] \<or> or_empty key \<noteq> expected then (Inl service_refused, db)
      else provision_owner E p db)"

definition list_tenants_route :: "gate_env \<Rightarrow> core_env \<Rightarrow> web_request \<Rightarrow> 'z core_db_scheme \<Rightarrow> tenant_read list result" where
  "list_tenants_route G E q db = admit_read (require_permission G ''documents:read'' q)
     (\<lambda>c. Inr (list_for E (ctx_subject c) db))"

definition access_state_route :: "gate_env \<Rightarrow> core_env \<Rightarrow> web_request \<Rightarrow> 'z core_db_scheme \<Rightarrow> tenant_access_state result" where
  "access_state_route G E q db = admit_read (require_permission G ''documents:read'' q)
     (\<lambda>c. Inr (access_state E (ctx_subject c) db))"

definition personal_tenant_route ::
  "gate_env \<Rightarrow> core_env \<Rightarrow> web_request \<Rightarrow> tenant_create \<Rightarrow> 'z core_db_scheme \<Rightarrow> tenant_read result \<times> 'z core_db_scheme"
where
  "personal_tenant_route G E q p = admit (require_permission G ''documents:write'' q)
     (\<lambda>c. create_personal_after_suspension E p (ctx_subject c) (ctx_user_id c))"

definition create_tenant_route ::
  "gate_env \<Rightarrow> core_env \<Rightarrow> web_request \<Rightarrow> tenant_create \<Rightarrow> 'z core_db_scheme \<Rightarrow> tenant_read result \<times> 'z core_db_scheme"
where
  "create_tenant_route G E q p = admit (require_permission G ''documents:write'' q) (\<lambda>c. create_tenant E p (ctx_subject c))"

definition add_member_route ::
  "gate_env \<Rightarrow> core_env \<Rightarrow> web_request \<Rightarrow> uuid \<Rightarrow> tenant_member_create \<Rightarrow> 'z core_db_scheme \<Rightarrow> unit result \<times> 'z core_db_scheme"
where
  "add_member_route G E q t p = admit (require_permission G ''users:write'' q) (\<lambda>c. add_member E t p (ctx_subject c))"

definition invite_member_route ::
  "gate_env \<Rightarrow> core_env \<Rightarrow> web_request \<Rightarrow> uuid \<Rightarrow> tenant_member_invitation \<Rightarrow> 'z core_db_scheme \<Rightarrow>
     unit result \<times> 'z core_db_scheme"
where
  "invite_member_route G E q t p = admit (require_permission G ''users:write'' q) (\<lambda>c. invite_member E t p (ctx_subject c))"

definition list_members_route ::
  "gate_env \<Rightarrow> core_env \<Rightarrow> web_request \<Rightarrow> uuid \<Rightarrow> 'z core_db_scheme \<Rightarrow> tenant_member_read list result"
where
  "list_members_route G E q t db = admit_read (require_permission G ''users:read'' q)
     (\<lambda>c. list_members E t (ctx_subject c) db)"

definition convert_business_route ::
  "gate_env \<Rightarrow> core_env \<Rightarrow> web_request \<Rightarrow> uuid \<Rightarrow> tenant_business_conversion \<Rightarrow> 'z core_db_scheme \<Rightarrow>
     tenant_read result \<times> 'z core_db_scheme"
where
  "convert_business_route G E q t p = admit (require_permission G ''users:write'' q)
     (\<lambda>c. convert_to_business E t p (ctx_subject c))"

definition update_preferences_route ::
  "gate_env \<Rightarrow> core_env \<Rightarrow> web_request \<Rightarrow> uuid \<Rightarrow> tenant_preferences_update \<Rightarrow> 'z core_db_scheme \<Rightarrow>
     tenant_read result \<times> 'z core_db_scheme"
where
  "update_preferences_route G E q t p = admit (require_permission G ''users:write'' q)
     (\<lambda>c. update_preferences E t p (ctx_subject c))"

definition read_team_route ::
  "gate_env \<Rightarrow> core_env \<Rightarrow> web_request \<Rightarrow> uuid \<Rightarrow> 'z core_db_scheme \<Rightarrow> tenant_team_read result \<times> 'z core_db_scheme"
where
  "read_team_route G E q t = admit (require_permission G ''documents:read'' q) (\<lambda>c. team E t (ctx_subject c))"

definition update_team_route ::
  "gate_env \<Rightarrow> core_env \<Rightarrow> web_request \<Rightarrow> uuid \<Rightarrow> uuid list \<Rightarrow> 'z core_db_scheme \<Rightarrow>
     tenant_team_read result \<times> 'z core_db_scheme"
where
  "update_team_route G E q t ids = admit (require_permission G ''users:write'' q) (\<lambda>c. update_team E t ids (ctx_subject c))"

definition update_role_route ::
  "gate_env \<Rightarrow> core_env \<Rightarrow> web_request \<Rightarrow> uuid \<Rightarrow> uuid \<Rightarrow> string \<Rightarrow> 'z core_db_scheme \<Rightarrow>
     tenant_team_read result \<times> 'z core_db_scheme"
where
  "update_role_route G E q t m role = admit (require_permission G ''users:write'' q)
     (\<lambda>c. update_member_role E t m role (ctx_subject c))"

section \<open>Billing\<close>

definition list_payments_route ::
  "gate_env \<Rightarrow> billing_env \<Rightarrow> web_request \<Rightarrow> uuid \<Rightarrow> 'z core_db_scheme \<Rightarrow> billing_payment list result"
where
  "list_payments_route G V q t db = admit_read (require_permission G ''documents:read'' q)
     (\<lambda>c. payments V t (ctx_subject c) db)"

definition get_account_route ::
  "gate_env \<Rightarrow> billing_env \<Rightarrow> web_request \<Rightarrow> uuid \<Rightarrow> 'z core_db_scheme \<Rightarrow> billing_account_read result \<times> 'z core_db_scheme"
where
  "get_account_route G V q t = admit (require_permission G ''documents:read'' q) (\<lambda>c. account V t (ctx_subject c))"

definition initialize_account_route ::
  "gate_env \<Rightarrow> billing_env \<Rightarrow> web_request \<Rightarrow> uuid \<Rightarrow> 'z core_db_scheme \<Rightarrow> billing_account_read result \<times> 'z core_db_scheme"
where
  "initialize_account_route G V q t = admit (require_permission G ''documents:write'' q)
     (\<lambda>c. initialize_account V t (ctx_subject c))"

text \<open>A synchronisation and a webhook answer with the mails they sent too.\<close>

definition synchronize_account_route ::
  "gate_env \<Rightarrow> billing_env \<Rightarrow> web_request \<Rightarrow> uuid \<Rightarrow> 'z core_db_scheme \<Rightarrow>
     billing_account_read result \<times> billing_mail list \<times> 'z core_db_scheme"
where
  "synchronize_account_route G V q t db =
     (case require_permission G ''documents:write'' q of
        Inl e \<Rightarrow> (Inl e, [], db)
      | Inr c \<Rightarrow> synchronize_account V t (ctx_subject c) db)"

definition create_checkout_route ::
  "gate_env \<Rightarrow> billing_env \<Rightarrow> web_request \<Rightarrow> uuid \<Rightarrow> string \<Rightarrow> string \<Rightarrow> 'z core_db_scheme \<Rightarrow> string result \<times> 'z core_db_scheme"
where
  "create_checkout_route G V q t product interval = admit (require_permission G ''documents:write'' q)
     (\<lambda>c. create_checkout V t (ctx_subject c) product interval)"

definition create_portal_route ::
  "gate_env \<Rightarrow> billing_env \<Rightarrow> web_request \<Rightarrow> uuid \<Rightarrow> string \<Rightarrow> string \<Rightarrow> 'z core_db_scheme \<Rightarrow> string result \<times> 'z core_db_scheme"
where
  "create_portal_route G V q t product interval = admit (require_permission G ''documents:write'' q)
     (\<lambda>c. create_portal V t (ctx_subject c) product interval)"

definition stripe_webhook_route ::
  "billing_env \<Rightarrow> bytes \<Rightarrow> string \<Rightarrow> 'z core_db_scheme \<Rightarrow> bool result \<times> billing_mail list \<times> 'z core_db_scheme"
where
  "stripe_webhook_route V payload signature = receive_webhook V payload signature"

end
