(* ===== verification/Access_Claims.thy ===== *)
theory Access_Claims
  imports User_Routes Core_Routes Team_Routes Serpro_Claims
begin

text \<open>
  The two APIs together: the core API asks the auth API for the context of a token and for the identity of a
  signer, and its routes decide with the answers. The properties are about who gets past the routes.
\<close>

section \<open>What the core API is told\<close>

text \<open>The request of \<open>_resolve_context\<close> to \<open>/access-control/context\<close>, and its answer as JSON (\<open>UiContextResponse\<close>).\<close>

definition bearer_request :: "string \<Rightarrow> web_request" where
  "bearer_request token =
     \<lparr>wq_method = ''GET'', wq_origin = None, wq_referer = None, wq_authorization = Some (''Bearer '' @ token),
      wq_credentials = Some token, wq_cookies = [], wq_real_ip = None, wq_client = None\<rparr>"

definition context_payload :: "ui_context \<Rightarrow> (string, json) dict" where
  "context_payload c =
     [(''version'', JInt 2), (''subject'', JStr (ui_subject c)), (''user_id'', JStr (uuid_str (ui_user_id c))),
      (''email'', JStr (ui_email c)), (''account_public_slug'', JStr (ui_account_public_slug c)),
      (''preferred_locale'', JStr (ui_preferred_locale c)), (''mfa_enabled'', JBool (ui_mfa_enabled c)),
      (''mfa_setup_required'', JBool (ui_mfa_setup_required c)), (''roles'', JList (map JStr (ui_roles c))),
      (''permission_keys'', JList (map JStr (ui_permission_keys c))), (''capability_hash'', JStr (ui_capability_hash c))]"

definition context_answer :: "auth_env \<Rightarrow> auth_state \<Rightarrow> string \<Rightarrow> auth_answer" where
  "context_answer A s token =
     (case service_context A (bearer_request token) s of
        Inr c \<Rightarrow> AuthPayload (JObj (context_payload c))
      | Inl (HTTPException code _) \<Rightarrow> auth_answer.AuthStatus code
      | Inl _ \<Rightarrow> auth_answer.AuthStatus 500)"

text \<open>The answer of \<open>/users/internal/identity-match\<close> to the core API; no answer when it raises.\<close>

definition match_answer :: "auth_env \<Rightarrow> auth_state \<Rightarrow> string \<Rightarrow> string \<Rightarrow> string \<Rightarrow> json option" where
  "match_answer A s email kind v =
     (case fst (internal_identity_match A (Some ''core_api'') (Some (ae_service_key A)) email kind v s) of
        Inl _ \<Rightarrow> None
      | Inr b \<Rightarrow> Some (JObj [(''matches'', JBool b)]))"

text \<open>What the context of a session should be: the subject, and the user's roles with their permissions.\<close>

definition session_context :: "auth_db \<Rightarrow> user \<Rightarrow> string \<Rightarrow> auth_context" where
  "session_context db u subject =
     \<lparr>ctx_subject = subject, ctx_roles = fst (context_for_user db (usr_id u)),
      ctx_permissions = snd (context_for_user db (usr_id u)), ctx_user_id = Some (uuid_str (usr_id u)),
      ctx_email = (if usr_email u = [] then subject else usr_email u)\<rparr>"

section \<open>Lemmas\<close>

lemma uuid_str_nonempty [simp]: "uuid_str u \<noteq> []"
  by (simp add: uuid_str_def Let_def)

lemma texts_of_strings [simp]: "texts_of (Some (JList (map JStr xs))) = Inr xs"
  by (induction xs) (auto simp: texts_of_def split: if_splits)

lemma payload_context:
  "context_of_payload G (context_payload c) =
     (if ui_mfa_setup_required c then Inl (HTTPException 403 ''Configure MFA before accessing Rubrica'')
      else Inr \<lparr>ctx_subject = ui_subject c, ctx_roles = ui_roles c, ctx_permissions = ui_permission_keys c,
             ctx_user_id = Some (uuid_str (ui_user_id c)), ctx_email = (if ui_email c = [] then ui_subject c else ui_email c)\<rparr>)"
  by (simp add: context_of_payload_def context_payload_def py_true_def truthy_def subject_text_def)

lemma ui_context_bearer:
  "ui_context_of A (bearer_request token) s =
     session_ui_context (ae_sessions A) (ae_lib A) (ae_now A) token (as_db s) (as_redis s)"
  by (simp add: ui_context_of_def access_token_def bearer_request_def)

text \<open>A session that the auth API knows: its state, and the user it belongs to.\<close>

definition live_session :: "auth_env \<Rightarrow> auth_state \<Rightarrow> string \<Rightarrow> (session_state \<times> user) option" where
  "live_session A s token =
     (case state_for_access (ae_sessions A) (ae_lib A) (ae_now A) (as_redis s) token of
        None \<Rightarrow> None
      | Some st \<Rightarrow>
          (case user_by_id (as_db s) (user_identifier (ss_user_id st)) of
             None \<Rightarrow> None
           | Some u \<Rightarrow> if usr_is_active u \<and> usr_token_version u = ss_token_version st then Some (st, u) else None))"

lemma service_context_cases:
  "service_context A (bearer_request token) s =
     (case live_session A s token of
        None \<Rightarrow> Inl unauthenticated
      | Some (st, u) \<Rightarrow>
          let setup = \<not> (usr_mfa_enabled u \<or> usr_mfa_exempt u); (roles, perms) = context_for_user (as_db s) (usr_id u)
          in Inr \<lparr>ui_subject = ss_subject st, ui_user_id = usr_id u, ui_email = usr_email u,
               ui_account_public_slug = usr_public_slug u, ui_preferred_locale = usr_preferred_locale u,
               ui_mfa_enabled = usr_mfa_enabled u, ui_mfa_setup_required = setup,
               ui_roles = (if setup then [] else roles), ui_permission_keys = (if setup then [] else perms),
               ui_capability_hash = lib_digest (ae_lib A) (ss_subject st @ '':'' @ ss_session_id st)\<rparr>)"
proof (cases "state_for_access (ae_sessions A) (ae_lib A) (ae_now A) (as_redis s) token")
  case None
  then show ?thesis
    by (simp add: service_context_def ui_context_bearer session_ui_context_def current_session_def live_session_def)
next
  case (Some st)
  show ?thesis
  proof (cases "user_by_id (as_db s) (user_identifier (ss_user_id st))")
    case None
    with Some show ?thesis
      by (simp add: service_context_def ui_context_bearer session_ui_context_def current_session_def live_session_def user_is_active_def)
  next
    case u: (Some u)
    then have "usr_id u = user_identifier (ss_user_id st)" unfolding user_by_id_def by (rule find_by_Some)
    with Some u show ?thesis
      by (cases "context_for_user (as_db s) (usr_id u)")
        (simp add: service_context_def ui_context_bearer session_ui_context_def current_session_def live_session_def user_is_active_def Let_def)
  qed
qed

lemma resolve_context_iff:
  assumes "ge_ask G = context_answer A s"
  shows "resolve_context G token = Inr c \<longleftrightarrow> token \<noteq> [] \<and>
    (\<exists>st u. live_session A s token = Some (st, u) \<and> (usr_mfa_enabled u \<or> usr_mfa_exempt u) \<and>
       c = session_context (as_db s) u (ss_subject st))"
proof (cases "live_session A s token")
  case None
  then show ?thesis
    by (simp add: resolve_context_def assms context_answer_def service_context_cases unauthenticated_def not_authenticated_def)
next
  case (Some p)
  then show ?thesis
    by (cases p; cases "context_for_user (as_db s) (usr_id (snd p))")
      (auto simp: resolve_context_def assms context_answer_def service_context_cases payload_context session_context_def Let_def
        not_authenticated_def)
qed

lemma require_permission_iff:
  "require_permission G p q = Inr c \<longleftrightarrow> authenticated_context G q = Inr c \<and> allows c p"
  by (auto simp: require_permission_def split: sum.splits)

lemma authenticated_context_iff:
  "authenticated_context G q = Inr c \<longleftrightarrow>
     (wq_credentials q \<noteq> None \<or> safe_method q \<or> require_same_origin q (ge_public_url G) (ge_environment G) = Inr ()) \<and>
     resolve_context G (core_token q) = Inr c"
  by (auto simp: authenticated_context_def split: sum.splits if_splits)

text \<open>The permissions of a context are those of the roles of the user's rows.\<close>

lemma allows_session_context:
  "allows (session_context db u subject) p \<longleftrightarrow>
     (\<exists>role. (usr_id u, role) \<in> set (adb_roles db) \<and>
        (''*'' \<in> set (dict_get_or role_permissions role []) \<or> p \<in> set (dict_get_or role_permissions role [])))"
  by (auto simp: allows_def session_context_def context_for_user_def Let_def image_iff)

lemma operator_refused:
  assumes "ge_ask G = context_answer A s" "live_session A s (core_token q) = Some (st, u)"
    "\<forall>role. (usr_id u, role) \<in> set (adb_roles (as_db s)) \<longrightarrow> role = ''signature_operator''"
    "p \<notin> set (dict_get_or role_permissions ''signature_operator'' [])"
  shows "\<exists>e. require_permission G p q = Inl e"
proof (cases "require_permission G p q")
  case (Inr c)
  then have "resolve_context G (core_token q) = Inr c" "allows c p"
    by (simp_all add: require_permission_iff authenticated_context_iff)
  then have "allows (session_context (as_db s) u (ss_subject st)) p"
    using resolve_context_iff[OF assms(1)] assms(2) by auto
  moreover have "''*'' \<notin> set (dict_get_or role_permissions ''signature_operator'' [])" by code_simp
  ultimately show ?thesis using assms(3,4) unfolding allows_session_context by blast
qed simp

lemma invited_role:
  assumes "invite_member_account E now slug random raw p db = (Inr res, db1, calls)" "user_by_email db (inv_email p) = None"
    "\<forall>role. (adb_next db, role) \<notin> set (adb_roles db)"
  shows "(ivr_user_id res, role) \<in> set (adb_roles db1) \<longleftrightarrow> role = ''signature_operator''"
proof -
  let ?u = "new_user (env_lib E) (adb_next db) slug random (inv_name p) (inv_email p) (inv_preferred_locale p)"
  let ?i = "Some (inv_identity_document_country p, inv_identity_document_type p, inv_identity_document_value p)"
  obtain db2 where add: "add_account E ?u ''signature_operator'' ?i db = Inr db2"
    using assms(1,2) by (auto simp: invite_member_account_def Let_def split: sum.splits)
  have "adb_roles db2 = adb_roles db @ [(adb_next db, ''signature_operator'')]"
    using add by (auto simp: add_account_def Let_def new_user_def split: if_splits sum.splits prod.splits)
  moreover have "ivr_user_id res = adb_next db \<and> adb_roles db1 = adb_roles db2"
    using assms(1,2) add
    by (auto simp: invite_member_account_def Let_def new_user_def issue_token_def split: if_splits)
  ultimately show ?thesis using assms(3) by auto
qed

lemma read_chunks_eq:
  "length b \<le> n \<Longrightarrow> read_chunks n b cs =
     (if length (b @ concat cs) \<le> n then Inr (b @ concat cs) else Inl (workflow_error ''Document exceeds the allowed size'' 413))"
  by (induction cs arbitrary: b) (simp_all add: Let_def)

lemma any_digest_iff:
  "\<forall>i\<in>set is. uid_lookup_hmac i \<noteq> None \<Longrightarrow>
   any_digest digest is = Inr (\<exists>i\<in>set is. uid_lookup_hmac i = Some digest)"
  by (induction "is") auto

lemma lower_strip_idem: "lower (strip (lower (strip v))) = lower (strip v)"
  by (simp add: strip_lower)

section \<open>A concrete pair of services\<close>

text \<open>One user with MFA and the role of a registered account, logged in at 5.\<close>

definition demo_bearer :: string where
  "demo_bearer = new_token ''access'' ''a''"

definition session_redis :: redis where
  "session_redis = snd (create_session demo_settings demo_lib 5 ''a'' ''b'' ''sid'' (demo_user\<lparr>usr_email := ''bia@x.io''\<rparr>) demo_redis)"

definition demo_auth :: auth_env where
  "demo_auth = \<lparr>ae_sessions = demo_settings, ae_accounts = demo_env, ae_now = 100, ae_environment = ''production'',
     ae_public_url = ''https://web/'', ae_service_key = ''key'', ae_site_key = [], ae_site_secret = [],
     ae_siteverify = (\<lambda>f. None), ae_ip = (\<lambda>v. Some v), ae_access = ''a2'', ae_refresh = ''b2'', ae_session = ''sid2'',
     ae_ticket = ''t'', ae_slug = ''slug'', ae_random = ''rnd'', ae_token = ''tok'', ae_codes = []\<rparr>"

definition demo_session :: auth_state where
  "demo_session = \<lparr>as_db = demo_db\<lparr>adb_users := [demo_user\<lparr>usr_email := ''bia@x.io''\<rparr>], adb_roles := [(0, ''signature_admin'')]\<rparr>,
     as_redis = session_redis, as_calls = []\<rparr>"

definition demo_gate :: gate_env where
  "demo_gate = \<lparr>ge_ask = context_answer demo_auth demo_session, ge_public_url = ''https://web'', ge_environment = ''production'',
     ge_str = (\<lambda>v. []), ge_ip = (\<lambda>v. None), ge_max_size = 30\<rparr>"

definition cookie_request :: "string \<Rightarrow> string \<Rightarrow> web_request" where
  "cookie_request method origin = \<lparr>wq_method = method, wq_origin = Some origin, wq_referer = None, wq_authorization = None,
     wq_credentials = None, wq_cookies = [(''access_token'', demo_bearer)], wq_real_ip = None, wq_client = Some ''1.1.1.1''\<rparr>"

definition demo_context :: auth_context where
  "demo_context = \<lparr>ctx_subject = ''bia@x.io'', ctx_roles = [''signature_admin''], ctx_permissions = [''*''],
     ctx_user_id = Some (uuid_str 0), ctx_email = ''bia@x.io''\<rparr>"

lemma demo_gate_ask: "ge_ask demo_gate = context_answer demo_auth demo_session"
  by (simp add: demo_gate_def)

lemma demo_admitted: "authenticated_context demo_gate (cookie_request ''POST'' ''https://web'') = Inr demo_context"
  by code_simp

section \<open>Properties\<close>

text \<open>C10: the core API admits a request exactly when its token belongs to a live session of an active user
  whose token version has not changed and who has set up MFA or is exempt, and, for a request that changes
  something with a cookie, when the origin check passes. The context it then works with has the subject of the
  session and exactly the roles and permissions that the user's rows give.\<close>

theorem core_admission:
  assumes "ge_ask G = context_answer A s"
  shows "authenticated_context G q = Inr c \<longleftrightarrow>
    (wq_credentials q \<noteq> None \<or> safe_method q \<or> require_same_origin q (ge_public_url G) (ge_environment G) = Inr ()) \<and>
    core_token q \<noteq> [] \<and>
    (\<exists>st u. live_session A s (core_token q) = Some (st, u) \<and> (usr_mfa_enabled u \<or> usr_mfa_exempt u) \<and>
       c = session_context (as_db s) u (ss_subject st))"
  unfolding authenticated_context_iff resolve_context_iff[OF assms] by blast

theorem core_admission_witness:
  "\<exists>st u. live_session demo_auth demo_session demo_bearer = Some (st, u) \<and>
     demo_context = session_context (as_db demo_session) u (ss_subject st) \<and>
     (\<forall>c. authenticated_context demo_gate (cookie_request ''POST'' ''https://evil'') \<noteq> Inr c)"
proof -
  have "core_token (cookie_request ''POST'' ''https://web'') = demo_bearer" by code_simp
  moreover have "require_same_origin (cookie_request ''POST'' ''https://evil'') (ge_public_url demo_gate) (ge_environment demo_gate)
      \<noteq> Inr () \<and> wq_credentials (cookie_request ''POST'' ''https://evil'') = None \<and> \<not> safe_method (cookie_request ''POST'' ''https://evil'')"
    by code_simp
  ultimately show ?thesis
    using core_admission[OF demo_gate_ask, THEN iffD1, OF demo_admitted]
      core_admission[OF demo_gate_ask, of "cookie_request ''POST'' ''https://evil''"] by auto
qed


definition member_admin :: member_invitation where
  "member_admin = \<lparr>inv_name = ''Ana'', inv_email = ''ana@x.io'', inv_identity_document_type = ''BR_CPF'',
     inv_identity_document_country = ''BR'', inv_identity_document_value = ''529.982.247-25'', inv_preferred_locale = En\<rparr>"

definition invited_db :: auth_db where
  "invited_db = fst (snd (invite_member_account demo_env 1 ''slug'' ''rnd'' ''tok'' member_admin empty_auth))"

definition invited_session :: auth_state where
  "invited_session =
     (let db = snd (verify_email demo_lib 2 ''tok'' ''Pw-12345'' invited_db);
          db' = user_set 0 (\<lambda>u. u\<lparr>usr_mfa_enabled := True\<rparr>) db
      in \<lparr>as_db = db', as_redis = snd (create_session demo_settings demo_lib 5 ''a'' ''b'' ''sid'' (hd (adb_users db')) demo_redis),
          as_calls = []\<rparr>)"


definition access_revoked :: exn where
  "access_revoked = workflow_error ''Signing access has been revoked'' 410"


definition revoked_state :: wf_state where
  "revoked_state = snd (db_revoke_signer_link demo_wf (uuid_str 77) (uuid_str 74) ''ana@x.io'' demo_open)"

lemma revoked_rows:
  "case request_from_token demo_wf (ws_db revoked_state) demo_token of Inl e \<Rightarrow> False | Inr r \<Rightarrow>
     (case signer_of_user (ws_db revoked_state) (rq_id r) ''bia@x.io'' of None \<Rightarrow> False | Some g \<Rightarrow> sg_link_revoked_at g = Some 1000) \<and>
     (case version_get (ws_db revoked_state) (rq_document_id r) (rq_document_version r) of None \<Rightarrow> False | Some v \<Rightarrow>
        map_sum id snd (stored_content demo_wf v revoked_state) = Inr demo_pdf_bytes)"
  by code_simp


text \<open>C12: the identity check of a certificate holds exactly for the documents the auth API stores: the type is
  a CPF or a CNPJ, the number is valid, and a live user with that address, trimmed and in lower case, has a
  Brazilian document of that type with the digest of the normalised number.\<close>

theorem identity_match_exact:
  assumes "se_identity_match V = match_answer A s" "ae_service_key A \<noteq> []"
    and "\<forall>i\<in>set (adb_identifiers (as_db s)). uid_lookup_hmac i \<noteq> None"
  shows "identity_matches_certificate V email kind v \<longleftrightarrow> kind \<in> {''BR_CPF'', ''BR_CNPJ''} \<and>
    (\<exists>n i u. validate_identifier (acs_jp_enabled (env_settings (ae_accounts A))) kind v = Inr n \<and>
       i \<in> set (adb_identifiers (as_db s)) \<and> uid_identifier_type i = kind \<and> uid_issuing_country i = ''BR'' \<and>
       uid_lookup_hmac i = Some (env_id_hmac (ae_accounts A) n) \<and>
       u \<in> set (adb_users (as_db s)) \<and> usr_id u = uid_user_id i \<and> usr_email u = lower (strip email) \<and> usr_deleted_at u = None)"
proof -
  let ?J = "acs_jp_enabled (env_settings (ae_accounts A))"
  let ?is = "filter (\<lambda>i. uid_identifier_type i = kind \<and> uid_issuing_country i = ''BR'') (identifiers_of (as_db s) (lower (strip email)))"
  have digest: "any_digest h ?is = Inr (\<exists>i\<in>set ?is. uid_lookup_hmac i = Some h)" for h
    using assms(3) by (intro any_digest_iff) (auto simp: identifiers_of_def)
  have "identity_matches_certificate V email kind v \<longleftrightarrow>
      identity_match A (lower (strip email)) kind v (as_db s) = Inr True"
    using assms(1,2)
    by (auto simp: identity_matches_certificate_def match_answer_def internal_identity_match_def internal_only_def
        service_key_ok_def or_empty_def split: sum.splits)
  also have "\<dots> \<longleftrightarrow> kind \<in> {''BR_CPF'', ''BR_CNPJ''} \<and> (\<exists>n. validate_identifier ?J kind v = Inr n \<and>
      (\<exists>i\<in>set ?is. uid_lookup_hmac i = Some (env_id_hmac (ae_accounts A) n)))"
    unfolding identity_match_def digest by (auto split: sum.splits)
  finally show ?thesis by (auto simp: identifiers_of_def lower_strip_idem; blast)
qed

text \<open>The stored document of the invited member, asked for with spaces and upper case in the address.\<close>

theorem identity_match_exact_witness:
  "identity_matches_certificate (demo_serpro\<lparr>se_identity_match := match_answer demo_auth invited_session\<rparr>) '' Ana@x.io'' ''BR_CPF''
     ''52998224725'' \<and>
   \<not> identity_matches_certificate (demo_serpro\<lparr>se_identity_match := match_answer demo_auth invited_session\<rparr>) ''bia@x.io'' ''BR_CPF''
     ''52998224725''"
proof -
  let ?V = "demo_serpro\<lparr>se_identity_match := match_answer demo_auth invited_session\<rparr>"
  have "list_all (\<lambda>i. uid_lookup_hmac i \<noteq> None) (adb_identifiers (as_db invited_session))" by code_simp
  then have hyp: "se_identity_match ?V = match_answer demo_auth invited_session" "ae_service_key demo_auth \<noteq> []"
    "\<forall>i\<in>set (adb_identifiers (as_db invited_session)). uid_lookup_hmac i \<noteq> None"
    by (simp_all add: list_all_iff demo_auth_def)
  have "validate_identifier (acs_jp_enabled (env_settings (ae_accounts demo_auth))) ''BR_CPF'' ''52998224725'' = Inr ''52998224725''"
    "list_ex (\<lambda>i. uid_identifier_type i = ''BR_CPF'' \<and> uid_issuing_country i = ''BR'' \<and>
       uid_lookup_hmac i = Some (env_id_hmac (ae_accounts demo_auth) ''52998224725'') \<and>
       list_ex (\<lambda>u. usr_id u = uid_user_id i \<and> usr_email u = lower (strip '' Ana@x.io'') \<and> usr_deleted_at u = None)
         (adb_users (as_db invited_session))) (adb_identifiers (as_db invited_session))"
    "list_all (\<lambda>u. usr_email u \<noteq> lower (strip ''bia@x.io'')) (adb_users (as_db invited_session))"
    by code_simp+
  then show ?thesis
    using identity_match_exact[OF hyp, of "'' Ana@x.io''" "''BR_CPF''" "''52998224725''"]
      identity_match_exact[OF hyp, of "''bia@x.io''" "''BR_CPF''" "''52998224725''"]
    by (auto simp: list_ex_iff list_all_iff)
qed

text \<open>C26: a logout ends the session only if the header spells the scheme with a capital. With any other spelling
  the guard accepts the token, the logout reads the whole header as the token, and the answer and the deleted
  cookies are the same while the token goes on identifying the session.\<close>

theorem logout_lowercase_scheme:
  assumes "wq_credentials q = Some token" "strip token = token" "token \<noteq> []"
    and session: "require_authenticated_session A q s = Inr v"
    and other: "take 7 h \<noteq> ''Bearer ''" "strip h \<noteq> []"
      "state_for_access (ae_sessions A) (ae_lib A) (ae_now A) (as_redis s) (strip h) = None"
  shows "logout_route A (q\<lparr>wq_authorization := Some h\<rparr>) s = (Inr (), clear_auth_cookies, s) \<and>
    (\<exists>s'. logout_route A (q\<lparr>wq_authorization := Some (''Bearer '' @ token)\<rparr>) s = (Inr (), clear_auth_cookies, s') \<and>
       require_authenticated_session A q s' = Inl unauthenticated)"
proof -
  have guard: "require_authenticated_session A (q\<lparr>wq_authorization := x\<rparr>) s = Inr v" for x
    using session assms(1) by (simp add: require_authenticated_session_def access_token_def)
  have "access_token (q\<lparr>wq_authorization := Some (''Bearer '' @ token)\<rparr>) None = token"
    "access_token (q\<lparr>wq_authorization := Some h\<rparr>) None = strip h"
    using assms(2,3) other by (simp_all add: access_token_def or_empty_def)
  moreover obtain st where st: "state_for_access (ae_sessions A) (ae_lib A) (ae_now A) (as_redis s) token = Some st"
    using session assms(1)
    by (auto simp: require_authenticated_session_def access_token_def current_session_def split: option.splits)
  moreover have "ss_access_key st = token_key (ae_sessions A) (ae_lib A) ''access'' token"
    using st by (auto simp: state_for_access_def Let_def split: option.splits if_splits)
  ultimately show ?thesis
    using guard assms(1) other
    by (simp add: logout_route_def logout_def require_authenticated_session_def access_token_def current_session_def
        revoke_state_absent)
qed

definition bearer_logout :: web_request where
  "bearer_logout = (bearer_request demo_bearer)\<lparr>wq_method := ''POST''\<rparr>"

theorem logout_lowercase_scheme_witness:
  "logout_route demo_auth (bearer_logout\<lparr>wq_authorization := Some (''bearer '' @ demo_bearer)\<rparr>) demo_session
     = (Inr (), clear_auth_cookies, demo_session) \<and>
   require_authenticated_session demo_auth bearer_logout demo_session = Inr (''sid'', ''bia@x.io'')"
proof -
  have "wq_credentials bearer_logout = Some demo_bearer" "strip demo_bearer = demo_bearer" "demo_bearer \<noteq> []"
    "take 7 (''bearer '' @ demo_bearer) \<noteq> ''Bearer ''" "strip (''bearer '' @ demo_bearer) \<noteq> []"
    "require_authenticated_session demo_auth bearer_logout demo_session = Inr (''sid'', ''bia@x.io'')"
    "(case state_for_access (ae_sessions demo_auth) (ae_lib demo_auth) (ae_now demo_auth) (as_redis demo_session)
       (strip (''bearer '' @ demo_bearer)) of None \<Rightarrow> True | Some st \<Rightarrow> False)"
    by code_simp+
  then show ?thesis using logout_lowercase_scheme[of bearer_logout demo_bearer demo_auth demo_session]
    by (auto split: option.splits)
qed

text \<open>An upload that is accepted is exactly what was sent, chunk after chunk, and never longer than the limit,
  whatever length the request declares; a longer one is refused and stores nothing.\<close>

theorem upload_bounded:
  assumes "require_permission G ''documents:write'' q = Inr c"
  shows "(ge_max_size G < length (concat (up_chunks u)) \<longrightarrow>
      (\<exists>e. e \<in> {workflow_error ''Document exceeds the allowed size'' 413, workflow_error ''Invalid Content-Length header'' 400} \<and>
         upload_document_route G W q organization title u s = (Inl e, s) \<and> create_version_route G W q i u s = (Inl e, s))) \<and>
    (\<forall>d s'. upload_document_route G W q organization title u s = (Inr d, s') \<longrightarrow>
      (Inr d, s') = db_create_document W \<lparr>dc_organization_id = organization, dc_title = title,
        dc_original_filename = up_filename u, dc_content_type = ''application/pdf'', dc_created_by = ctx_subject c\<rparr>
        (concat (up_chunks u)) s)"
  using assms read_chunks_eq[of "[]" "ge_max_size G" "up_chunks u"]
  by (auto simp: upload_document_route_def create_version_route_def admit_def checked_upload_def read_document_body_def
      split: sum.splits option.splits if_splits)

end
