(* ===== verification/Event_Outbox.thy ===== *)
theory Event_Outbox
  imports Rubrica_Prelude "HOL-Library.Multiset"
begin

text \<open>
  The eventing API (\<open>src/apps/eventing_api\<close>): the table of events with its repository, the registration of an
  event and the projections. Reading counts groups by a column; the database fixes neither the order of the groups
  (here that of their first row) nor that of events of one instant (here that of insertion). Nothing in the
  repository publishes an event: \<open>event_published\<close> and \<open>event_failed\<close> are the two changes a publisher would make.
\<close>

section \<open>Rows and schemas\<close>

record outbox_event =
  ev_id :: uuid
  ev_created_at :: datetime
  ev_event_id :: uuid
  ev_event_type :: string
  ev_version :: int
  ev_source :: string
  ev_topic :: string
  ev_actor_type :: string
  ev_actor_id :: string
  ev_payload :: "(string, json) dict"
  ev_status :: string
  ev_attempts :: int
  ev_occurred_at :: datetime
  ev_available_at :: datetime
  ev_published_at :: "datetime option"
  ev_last_error :: "string option"

record event_in =
  ei_event_id :: uuid
  ei_event_type :: string
  ei_occurred_at :: "datetime option"
  ei_source :: string
  ei_version :: int
  ei_topic :: "string option"
  ei_actor_type :: string
  ei_actor_id :: string
  ei_payload :: "(string, json) dict"

definition event_in_valid :: "event_in \<Rightarrow> bool" where
  "event_in_valid p \<longleftrightarrow> 1 \<le> length (ei_event_type p) \<and> length (ei_event_type p) \<le> 180 \<and>
     1 \<le> length (ei_source p) \<and> length (ei_source p) \<le> 80 \<and> 1 \<le> ei_version p"

text \<open>The columns of limited length; the others are not limited by the schema of the request.\<close>

definition event_fits :: "outbox_event \<Rightarrow> bool" where
  "event_fits e \<longleftrightarrow> length (ev_event_type e) \<le> 180 \<and> length (ev_source e) \<le> 80 \<and> length (ev_topic e) \<le> 180 \<and>
     length (ev_actor_type e) \<le> 40 \<and> length (ev_actor_id e) \<le> 180"

definition event_published :: "datetime \<Rightarrow> outbox_event \<Rightarrow> outbox_event" where
  "event_published now e = e\<lparr>ev_status := ''published'', ev_published_at := Some now, ev_last_error := None\<rparr>"

definition event_failed :: "string \<Rightarrow> outbox_event \<Rightarrow> outbox_event" where
  "event_failed err e = e\<lparr>ev_status := ''failed'', ev_attempts := ev_attempts e + 1, ev_last_error := Some (take 2000 err)\<rparr>"

section \<open>The repository\<close>

text \<open>The state: the rows, and the number of ids drawn.\<close>

record outbox_db =
  ob_events :: "outbox_event list"
  ob_next :: uuid

text \<open>\<open>LIKE\<close> with \<open>%\<close>, \<open>_\<close> and the escape character \<open>\<close> of PostgreSQL.\<close>

fun sql_like :: "string \<Rightarrow> string \<Rightarrow> bool" where
  "sql_like [] s = (s = [])"
| "sql_like (p # ps) s =
     (if p = CHR ''%'' then sql_like ps s \<or> (case s of [] \<Rightarrow> False | c # cs \<Rightarrow> sql_like (p # ps) cs)
      else case s of
        [] \<Rightarrow> False
      | c # cs \<Rightarrow>
          if p = CHR ''_'' then sql_like ps cs
          else if p = CHR 0x5C \<and> ps \<noteq> [] then c = hd ps \<and> sql_like (tl ps) cs
          else c = p \<and> sql_like ps cs)"

definition in_family :: "string option \<Rightarrow> outbox_event \<Rightarrow> bool" where
  "in_family fam e = (case fam of None \<Rightarrow> True | Some p \<Rightarrow> p = [] \<or> sql_like (p @ ''.%'') (ev_event_type e))"

definition outbox_add :: "outbox_event \<Rightarrow> outbox_db \<Rightarrow> outbox_event result \<times> outbox_db" where
  "outbox_add e db =
     (if \<not> event_fits e then (Inl (ValueError ''value too long for type character varying''), db)
      else if ev_event_id e \<in> ev_event_id ` set (ob_events db) then (Inl IntegrityError, db)
      else (Inr e, db\<lparr>ob_events := ob_events db @ [e], ob_next := ob_next db + 1\<rparr>))"

definition outbox_get :: "uuid \<Rightarrow> outbox_db \<Rightarrow> outbox_event option" where
  "outbox_get i db = List.find (\<lambda>e. ev_event_id e = i) (ob_events db)"

text \<open>A negative limit is refused by the database.\<close>

definition limited :: "int \<Rightarrow> 'a list \<Rightarrow> 'a list result" where
  "limited n xs = (if n < 0 then Inl (ValueError ''LIMIT must not be negative'') else Inr (take (nat n) xs))"

definition outbox_list :: "string option \<Rightarrow> string option \<Rightarrow> int \<Rightarrow> outbox_db \<Rightarrow> outbox_event list result" where
  "outbox_list status fam n db =
     limited n (sort_key (\<lambda>e. - ev_created_at e) (filter (\<lambda>e.
       (case status of None \<Rightarrow> True | Some st \<Rightarrow> st = [] \<or> ev_status e = st) \<and> in_family fam e) (ob_events db)))"

definition group_counts :: "('a \<Rightarrow> string) \<Rightarrow> 'a list \<Rightarrow> (string, nat) dict" where
  "group_counts f xs = map (\<lambda>k. (k, length (filter (\<lambda>x. f x = k) xs))) (rev (remdups (rev (map f xs))))"

definition status_counts :: "string option \<Rightarrow> outbox_db \<Rightarrow> (string, nat) dict" where
  "status_counts fam db = group_counts ev_status (filter (in_family fam) (ob_events db))"

definition event_type_counts :: "string option \<Rightarrow> outbox_db \<Rightarrow> (string, nat) dict" where
  "event_type_counts fam db = group_counts ev_event_type (filter (in_family fam) (ob_events db))"

definition outbox_pending :: "int \<Rightarrow> outbox_db \<Rightarrow> outbox_event list result" where
  "outbox_pending n db =
     limited n (sort_key ev_available_at (filter (\<lambda>e. ev_status e = ''pending'') (ob_events db)))"

section \<open>Registering and listing\<close>

definition event_of_input :: "string \<Rightarrow> datetime \<Rightarrow> uuid \<Rightarrow> event_in \<Rightarrow> outbox_event" where
  "event_of_input default_topic now i p =
     \<lparr>ev_id = i, ev_created_at = now, ev_event_id = ei_event_id p, ev_event_type = ei_event_type p, ev_version = ei_version p,
      ev_source = ei_source p,
      ev_topic = (case ei_topic p of None \<Rightarrow> default_topic | Some t \<Rightarrow> if t = [] then default_topic else t),
      ev_actor_type = ei_actor_type p, ev_actor_id = ei_actor_id p, ev_payload = ei_payload p,
      ev_status = ''pending'', ev_attempts = 0,
      ev_occurred_at = (case ei_occurred_at p of None \<Rightarrow> now | Some t \<Rightarrow> t),
      ev_available_at = now, ev_published_at = None, ev_last_error = None\<rparr>"

text \<open>The session commits after the answer and rolls back on an exception, so a refused event leaves no row.\<close>

definition register_event :: "string \<Rightarrow> datetime \<Rightarrow> event_in \<Rightarrow> outbox_db \<Rightarrow> outbox_event result \<times> outbox_db" where
  "register_event default_topic now p db = outbox_add (event_of_input default_topic now (ob_next db) p) db"

definition list_outbox :: "string option \<Rightarrow> int \<Rightarrow> outbox_db \<Rightarrow> outbox_event list result" where
  "list_outbox status n = outbox_list status None n"

section \<open>Projections\<close>

record projection =
  pj_family :: string
  pj_total :: nat
  pj_by_type :: "(string, nat) dict"
  pj_by_status :: "(string, nat) dict"
  pj_latest :: "outbox_event list"

definition event_family :: "string option \<Rightarrow> int \<Rightarrow> outbox_db \<Rightarrow> projection result" where
  "event_family fam n db =
     (case outbox_list None fam n db of
        Inl e \<Rightarrow> Inl e
      | Inr events \<Rightarrow>
          Inr \<lparr>pj_family = (case fam of None \<Rightarrow> ''all'' | Some p \<Rightarrow> if p = [] then ''all'' else p),
               pj_total = sum_list (map snd (event_type_counts fam db)), pj_by_type = event_type_counts fam db,
               pj_by_status = status_counts fam db, pj_latest = events\<rparr>)"

text \<open>The answer: of each listed event seven columns.\<close>

definition projection_answer :: "projection \<Rightarrow> json" where
  "projection_answer p = JObj
     [(''family'', JStr (pj_family p)), (''total'', JInt (int (pj_total p))),
      (''counts_by_event_type'', JObj (map (\<lambda>(k, n). (k, JInt (int n))) (pj_by_type p))),
      (''counts_by_status'', JObj (map (\<lambda>(k, n). (k, JInt (int n))) (pj_by_status p))),
      (''latest_events'', JList (map (\<lambda>e. JObj [(''event_id'', JUuid (ev_event_id e)), (''event_type'', JStr (ev_event_type e)),
         (''source'', JStr (ev_source e)), (''status'', JStr (ev_status e)), (''actor_type'', JStr (ev_actor_type e)),
         (''actor_id'', JStr (ev_actor_id e)), (''occurred_at'', JTime (ev_occurred_at e))]) (pj_latest p)))]"

definition list_projections :: json where
  "list_projections = JObj [(''projections'', JList (map (\<lambda>n. JObj [(''name'', JStr n), (''status'', JStr ''available'')])
     [''outbox-summary'', ''auth-session-audit'', ''notification-delivery'']))]"

text \<open>The three routes; the limit of each is between 1 and 100.\<close>

definition projection_route :: "string option \<Rightarrow> int \<Rightarrow> outbox_db \<Rightarrow> projection result" where
  "projection_route fam n db =
     (if n < 1 \<or> 100 < n then Inl (ValidationError ''limit'') else event_family fam n db)"

definition outbox_summary :: "int \<Rightarrow> outbox_db \<Rightarrow> projection result" where
  "outbox_summary = projection_route None"

definition auth_session_audit :: "int \<Rightarrow> outbox_db \<Rightarrow> projection result" where
  "auth_session_audit = projection_route (Some ''auth'')"

definition notification_delivery :: "int \<Rightarrow> outbox_db \<Rightarrow> projection result" where
  "notification_delivery = projection_route (Some ''notification'')"

section \<open>Lemmas\<close>

lemma sql_like_any [simp]: "sql_like ''%'' s"
  by (induction s) simp_all

text \<open>A pattern without special characters in front of \<open>.%\<close> is a prefix.\<close>

lemma sql_like_prefix:
  "set p \<inter> {CHR ''%'', CHR ''_'', CHR 0x5C} = {} \<Longrightarrow> sql_like (p @ ''.%'') s \<longleftrightarrow> (\<exists>r. s = p @ ''.'' @ r)"
proof (induction p arbitrary: s)
  case Nil
  show ?case
  proof (cases s)
    case (Cons c cs)
    have "sql_like ''%'' cs" by (rule sql_like_any)
    then show ?thesis unfolding Cons by simp
  qed simp
next
  case (Cons c p)
  then show ?case by (cases s) auto
qed

lemma group_counts_total: "sum_list (map snd (group_counts f xs)) = length xs"
proof -
  have "sum_list (map snd (group_counts f xs)) = (\<Sum>k\<in>f ` set xs. length (filter (\<lambda>x. f x = k) xs))"
    by (simp add: group_counts_def comp_def sum_list_distinct_conv_sum_set)
  also have "\<dots> = length xs"
  proof (induction xs)
    case (Cons x xs)
    have "(\<Sum>k\<in>insert (f x) (f ` set xs). (if f x = k then 1 else 0)) = (1::nat)"
      by (subst sum.delta') auto
    moreover have "(\<Sum>k\<in>insert (f x) (f ` set xs). length (filter (\<lambda>y. f y = k) xs)) = (\<Sum>k\<in>f ` set xs. length (filter (\<lambda>y. f y = k) xs))"
      by (rule sum.mono_neutral_right) (auto simp: filter_empty_conv)
    moreover have "length (filter (\<lambda>y. f y = k) (x # xs)) = (if f x = k then 1 else 0) + length (filter (\<lambda>y. f y = k) xs)" for k
      by simp
    ultimately show ?case using Cons.IH by (simp only: list.set image_insert sum.distrib) simp
  qed simp
  finally show ?thesis .
qed

lemma group_counts_get: "dict_get (group_counts f xs) k = (if k \<in> f ` set xs then Some (length (filter (\<lambda>x. f x = k) xs)) else None)"
  by (auto simp: group_counts_def map_of_map_restrict restrict_map_def)

lemma group_counts_count: "dict_get_or (group_counts f xs) k 0 = length (filter (\<lambda>x. f x = k) xs)"
proof (cases "k \<in> f ` set xs")
  case False
  then have "filter (\<lambda>x. f x = k) xs = []" by (auto simp: filter_empty_conv)
  with False show ?thesis by (simp add: dict_get_or_def group_counts_get)
qed (simp add: dict_get_or_def group_counts_get)

lemma limited_Inr: "limited n xs = Inr ys \<longleftrightarrow> 0 \<le> n \<and> ys = take (nat n) xs"
  by (auto simp: limited_def)

text \<open>What a projection reports is what the table holds: the total is the number of events of the family, the
  counts by type and by status are exact and add up to it, and the listed events are the newest of the family,
  newest first and no more than were asked for.\<close>

theorem projection_exact:
  assumes "projection_route fam n db = Inr p"
  defines "events \<equiv> filter (in_family fam) (ob_events db)"
  shows "pj_total p = length events \<and> sum_list (map snd (pj_by_status p)) = pj_total p \<and>
    (\<forall>k. dict_get_or (pj_by_type p) k 0 = length (filter (\<lambda>e. ev_event_type e = k) events)) \<and>
    (\<forall>k. dict_get_or (pj_by_status p) k 0 = length (filter (\<lambda>e. ev_status e = k) events)) \<and>
    length (pj_latest p) = min (nat n) (length events) \<and> sorted_wrt (\<lambda>a b. ev_created_at b \<le> ev_created_at a) (pj_latest p) \<and>
    (\<exists>rest. mset (pj_latest p) + mset rest = mset events \<and>
       (\<forall>a\<in>set (pj_latest p). \<forall>b\<in>set rest. ev_created_at b \<le> ev_created_at a))"
proof -
  let ?s = "sort_key (\<lambda>e. - ev_created_at e) events"
  have p: "pj_total p = sum_list (map snd (event_type_counts fam db))" "pj_by_type p = event_type_counts fam db"
    "pj_by_status p = status_counts fam db" "pj_latest p = take (nat n) ?s"
    using assms(1) by (auto simp: projection_route_def event_family_def outbox_list_def limited_Inr events_def
        split: if_splits sum.splits)
  have sorted: "sorted_wrt (\<lambda>a b. ev_created_at b \<le> ev_created_at a) ?s"
    using sorted_sort_key[of "\<lambda>e. - ev_created_at e" events] by (simp add: sorted_map)
  then have "sorted_wrt (\<lambda>a b. ev_created_at b \<le> ev_created_at a) (take (nat n) ?s @ drop (nat n) ?s)" by simp
  then have parts: "sorted_wrt (\<lambda>a b. ev_created_at b \<le> ev_created_at a) (take (nat n) ?s)"
    "\<forall>a\<in>set (take (nat n) ?s). \<forall>b\<in>set (drop (nat n) ?s). ev_created_at b \<le> ev_created_at a"
    unfolding sorted_wrt_append by blast+
  have split: "mset (take (nat n) ?s) + mset (drop (nat n) ?s) = mset events"
    by (metis append_take_drop_id mset_append mset_sort)
  have "pj_total p = length events" "sum_list (map snd (pj_by_status p)) = pj_total p"
    unfolding p event_type_counts_def status_counts_def events_def[symmetric] by (simp_all only: group_counts_total)
  moreover have "length (pj_latest p) = min (nat n) (length events)" unfolding p by simp
  moreover have "\<exists>rest. mset (pj_latest p) + mset rest = mset events \<and>
      (\<forall>a\<in>set (pj_latest p). \<forall>b\<in>set rest. ev_created_at b \<le> ev_created_at a)"
    unfolding p by (rule exI[of _ "drop (nat n) ?s"]) (intro conjI split parts(2))
  moreover have "sorted_wrt (\<lambda>a b. ev_created_at b \<le> ev_created_at a) (pj_latest p)" unfolding p by (rule parts(1))
  moreover have "\<forall>k. dict_get_or (pj_by_type p) k 0 = length (filter (\<lambda>e. ev_event_type e = k) events)"
    "\<forall>k. dict_get_or (pj_by_status p) k 0 = length (filter (\<lambda>e. ev_status e = k) events)"
    unfolding p event_type_counts_def status_counts_def events_def[symmetric] by (rule allI, rule group_counts_count)+
  ultimately show ?thesis by (intro conjI)
qed

definition sample_event :: "uuid \<Rightarrow> string \<Rightarrow> event_in" where
  "sample_event i kind = \<lparr>ei_event_id = i, ei_event_type = kind, ei_occurred_at = None, ei_source = ''core_api'', ei_version = 1,
     ei_topic = Some [], ei_actor_type = ''service'', ei_actor_id = ''rubrica'', ei_payload = []\<rparr>"

definition demo_outbox :: outbox_db where
  "demo_outbox = fold (\<lambda>(t, i, kind) db. snd (register_event ''rubrica.events'' t (sample_event i kind) db))
     [(10, 1, ''auth.login''), (20, 2, ''auth.logout''), (30, 3, ''authx.login''), (40, 1, ''auth.login''), (50, 4, ''auth.login'')]
     \<lparr>ob_events = [], ob_next = 0\<rparr>"

theorem projection_exact_witness:
  "\<exists>p. auth_session_audit 2 demo_outbox = Inr p \<and> pj_total p = 3 \<and> dict_get_or (pj_by_type p) ''auth.login'' 0 = 2 \<and>
     length (pj_latest p) = 2"
proof -
  have "(case projection_route (Some ''auth'') 2 demo_outbox of Inl e \<Rightarrow> False | Inr p \<Rightarrow> True)" by code_simp
  then obtain p where p: "projection_route (Some ''auth'') 2 demo_outbox = Inr p" by (auto split: sum.splits)
  have n: "length (filter (in_family (Some ''auth'')) (ob_events demo_outbox)) = 3"
    "length (filter (\<lambda>e. ev_event_type e = ''auth.login'') (filter (in_family (Some ''auth'')) (ob_events demo_outbox))) = 2"
    by code_simp+
  have "pj_total p = 3" "length (pj_latest p) = 2" "dict_get_or (pj_by_type p) ''auth.login'' 0 = 2"
    using projection_exact[OF p] n(1) by (metis, simp, (elim conjE allE[where x = "''auth.login''"]), simp only: n(2))
  with p show ?thesis by (simp add: auth_session_audit_def)
qed

fun register_all :: "string \<Rightarrow> (datetime \<times> event_in) list \<Rightarrow> outbox_db \<Rightarrow> outbox_db" where
  "register_all topic [] db = db"
| "register_all topic ((now, p) # ps) db = register_all topic ps (snd (register_event topic now p db))"

lemma outbox_get_add: "outbox_get i db = Some e \<Longrightarrow> outbox_get i (snd (register_event topic now p db)) = Some e"
  by (auto simp: register_event_def outbox_add_def outbox_get_def find_append split: option.splits)

lemma outbox_get_all: "outbox_get i db = Some e \<Longrightarrow> outbox_get i (register_all topic ps db) = Some e"
  by (induction topic ps db rule: register_all.induct) (simp_all add: outbox_get_add)

text \<open>An event is registered once: an accepted event is found by its id, pending and unchanged by what is
  registered later, and the same id is refused from then on, leaving the table as it is.\<close>

theorem event_registered_once:
  assumes "register_event topic now p db = (Inr e, db')"
  shows "ev_event_id e = ei_event_id p \<and> ev_status e = ''pending'' \<and>
    outbox_get (ei_event_id p) (register_all topic ps db') = Some e \<and>
    (\<forall>q later. ei_event_id q = ei_event_id p \<longrightarrow>
       (\<exists>x. register_event topic later q (register_all topic ps db') = (Inl x, register_all topic ps db')))"
proof -
  have e: "ev_event_id e = ei_event_id p" "ev_status e = ''pending''" "db' = db\<lparr>ob_events := ob_events db @ [e], ob_next := ob_next db + 1\<rparr>"
    "ev_event_id e \<notin> ev_event_id ` set (ob_events db)"
    using assms by (auto simp: register_event_def outbox_add_def event_of_input_def split: if_splits)
  then have "outbox_get (ei_event_id p) db' = Some e"
    by (auto simp: outbox_get_def find_append find_Some_iff image_iff split: option.splits) (metis nth_mem)
  then have get: "outbox_get (ei_event_id p) (register_all topic ps db') = Some e" by (rule outbox_get_all)
  then have "e \<in> set (ob_events (register_all topic ps db'))"
    unfolding outbox_get_def by (metis find_Some_iff nth_mem)
  then have "\<exists>x. register_event topic later q (register_all topic ps db') = (Inl x, register_all topic ps db')"
    if "ei_event_id q = ei_event_id p" for q later
    using that e(1) by (auto simp: register_event_def outbox_add_def event_of_input_def image_iff)
  with e(1,2) get show ?thesis by blast
qed

theorem event_registered_once_witness:
  "\<exists>e db'. register_event ''t'' 60 (sample_event 9 ''core.signed'') demo_outbox = (Inr e, db') \<and>
     outbox_get 9 (register_all ''t'' [(70, sample_event 5 ''core.sent''), (80, sample_event 9 ''core.lost'')] db') = Some e"
proof -
  have "(case register_event ''t'' 60 (sample_event 9 ''core.signed'') demo_outbox of (Inr e, db') \<Rightarrow> True | _ \<Rightarrow> False)" by code_simp
  then obtain e db' where r: "register_event ''t'' 60 (sample_event 9 ''core.signed'') demo_outbox = (Inr e, db')"
    by (auto split: prod.splits sum.splits)
  then show ?thesis
    using event_registered_once[OF r, of "[(70, sample_event 5 ''core.sent''), (80, sample_event 9 ''core.lost'')]"]
    by (simp add: sample_event_def)
qed

end
