(* ===== verification/Generic_Crud.thy ===== *)
theory Generic_Crud
  imports Core_State
begin

text \<open>
  The generic services of resources: \<open>SqlAlchemyCrudService\<close> (\<open>shared_kernel/persistence/crud_service.py\<close>), the
  in-memory \<open>SignatureRequestService\<close> (\<open>signature_request_service.py\<close>) that offers the same operations, and the
  router built over either (\<open>shared_kernel/http/crud/route_factory.py\<close>). The generators of domains write services
  of the first kind. The interface \<open>resource_service\<close> says what both promise about soft deletion.
\<close>

section \<open>The interface\<close>

text \<open>
  A service over states \<open>'s\<close> with resources \<open>'r\<close>. The arguments that vary in time (the clock) are part of the
  operations here.
\<close>

locale resource_service =
  fixes find :: "'s \<Rightarrow> uuid \<Rightarrow> 'r option"
    and listed :: "bool \<Rightarrow> 's \<Rightarrow> 'r list"
    and remove :: "datetime \<Rightarrow> uuid \<Rightarrow> 's \<Rightarrow> 'r option \<times> 's"
    and put_back :: "datetime \<Rightarrow> uuid \<Rightarrow> 's \<Rightarrow> 'r option \<times> 's"
    and key :: "'r \<Rightarrow> uuid"
    and gone :: "'r \<Rightarrow> bool"
    and wf :: "'s \<Rightarrow> bool"
  assumes find_key: "wf s \<Longrightarrow> find s i = Some r \<Longrightarrow> key r = i"
    and listed_iff: "wf s \<Longrightarrow> r \<in> set (listed deleted s) \<longleftrightarrow> find s (key r) = Some r \<and> (deleted \<or> \<not> gone r)"
    and remove_None: "wf s \<Longrightarrow> find s i = None \<Longrightarrow> remove t i s = (None, s)"
    and remove_Some: "wf s \<Longrightarrow> find s i = Some r \<Longrightarrow>
      \<exists>r' s'. remove t i s = (Some r', s') \<and> wf s' \<and> gone r' \<and> (\<forall>j. find s' j = (if j = i then Some r' else find s j))"
    and put_back_Some: "wf s \<Longrightarrow> find s i = Some r \<Longrightarrow>
      \<exists>r' s'. put_back t i s = (Some r', s') \<and> wf s' \<and> \<not> gone r' \<and> (\<forall>j. find s' j = (if j = i then Some r' else find s j))"
begin

text \<open>A removed resource is still found, is listed only with the deleted ones, and leaves the others alone.\<close>

lemma remove_hides:
  assumes "wf s" "find s i = Some r" "remove t i s = (Some r', s')"
  shows "wf s' \<and> find s' i = Some r' \<and> r' \<in> set (listed True s') \<and> (\<forall>x\<in>set (listed False s'). key x \<noteq> i) \<and>
    (\<forall>x. key x \<noteq> i \<longrightarrow> x \<in> set (listed False s') \<longleftrightarrow> x \<in> set (listed False s))"
proof -
  have s': "wf s'" "gone r'" "\<forall>j. find s' j = (if j = i then Some r' else find s j)"
    using remove_Some[OF assms(1,2), of t] assms(3) by auto
  then have "find s' i = Some r'" "key r' = i" using find_key[OF s'(1)] by auto
  with s' show ?thesis using listed_iff[OF s'(1)] listed_iff[OF assms(1)] by auto
qed

text \<open>Putting it back lists the same resources as before, up to the resource itself.\<close>

lemma remove_put_back:
  assumes "wf s" "find s i = Some r" "\<not> gone r" "remove t i s = (Some r1, s1)" "put_back t' i s1 = (Some r2, s2)"
  shows "wf s2 \<and> find s2 i = Some r2 \<and> key ` set (listed False s2) = key ` set (listed False s)"
proof -
  have s1: "wf s1" "\<forall>j. find s1 j = (if j = i then Some r1 else find s j)"
    using remove_Some[OF assms(1,2), of t] assms(4) by auto
  then have "find s1 i = Some r1" by simp
  then have s2: "wf s2" "\<not> gone r2" "\<forall>j. find s2 j = (if j = i then Some r2 else find s j)"
    using put_back_Some[OF s1(1), of i r1 t'] assms(5) s1(2) by auto
  have keys: "key r2 = i" "key r = i" using find_key[OF s2(1), of i r2] find_key[OF assms(1,2)] s2(3) by auto
  have "j \<in> key ` set (listed False s2) \<longleftrightarrow> j \<in> key ` set (listed False s)" for j
  proof -
    have "j \<in> key ` set (listed False s') \<longleftrightarrow> (\<exists>x. find s' j = Some x \<and> \<not> gone x)" if "wf s'" for s'
      using listed_iff[OF that] find_key[OF that] by (auto simp: image_iff) metis
    then show ?thesis using s2 assms(1-3) by auto
  qed
  with s2 show ?thesis by auto
qed

end

section \<open>The service over tables\<close>

text \<open>
  A row has its own columns, and its related ids per attribute. \<open>cd_models\<close> are the rows of the related models;
  \<open>cc_relations\<close> maps the field of a payload to its attribute and model, \<open>cc_unique\<close> are the unique columns and
  \<open>cc_parents\<close> the columns that refer to a row of another model. What the read schema selects from a row is left out: a row answers as itself.
\<close>

record crud_row =
  cr_id :: uuid
  cr_created_at :: datetime
  cr_updated_at :: datetime
  cr_deleted_at :: "datetime option"
  cr_fields :: "(string, json) dict"
  cr_related :: "(string, uuid list) dict"

record many_to_many =
  mm_attribute :: string
  mm_model :: string

record crud_config =
  cc_relations :: "(string, many_to_many) dict"
  cc_unique :: "string list"
  cc_parents :: "(string \<times> string) list"

record crud_db =
  cd_rows :: "crud_row list"
  cd_models :: "(string, uuid list) dict"
  cd_next :: uuid

definition crud_find :: "crud_db \<Rightarrow> uuid \<Rightarrow> crud_row option" where
  "crud_find db i = List.find (\<lambda>r. cr_id r = i) (cd_rows db)"

definition crud_identifier :: "string \<Rightarrow> uuid result" where
  "crud_identifier v = (case parse_uuid v of None \<Rightarrow> Inl (ValueError ''invalid UUID resource id'') | Some u \<Rightarrow> Inr u)"

definition crud_list :: "bool \<Rightarrow> crud_db \<Rightarrow> crud_row list" where
  "crud_list include_deleted db =
     sort_key cr_id (filter (\<lambda>r. include_deleted \<or> cr_deleted_at r = None) (cd_rows db))"

definition crud_get :: "string \<Rightarrow> crud_db \<Rightarrow> crud_row option result" where
  "crud_get v db = (case crud_identifier v of Inl e \<Rightarrow> Inl e | Inr i \<Rightarrow> Inr (crud_find db i))"

text \<open>A commit checks the constraints; a refused one leaves the tables as they were.\<close>

definition crud_ok :: "crud_config \<Rightarrow> crud_db \<Rightarrow> bool" where
  "crud_ok C db \<longleftrightarrow>
     (let columns = map cr_fields (cd_rows db) in
      distinct (map cr_id (cd_rows db)) \<and>
      list_all (\<lambda>c. distinct (concat (map (\<lambda>d. case dict_get d c of None \<Rightarrow> [] | Some JNull \<Rightarrow> [] | Some v \<Rightarrow> [v]) columns)))
        (cc_unique C) \<and>
      list_all (\<lambda>(f, m). list_all (\<lambda>d. case dict_get d f of
          Some (JUuid u) \<Rightarrow> u \<in> set (dict_get_or (cd_models db) m []) | _ \<Rightarrow> True) columns) (cc_parents C))"

definition crud_commit :: "crud_config \<Rightarrow> 'a \<Rightarrow> crud_db \<Rightarrow> crud_db \<Rightarrow> 'a result \<times> crud_db" where
  "crud_commit C v db' db = (if crud_ok C db' then (Inr v, db') else (Inl IntegrityError, db))"

definition replace_row :: "crud_row \<Rightarrow> crud_db \<Rightarrow> crud_db" where
  "replace_row r db = db\<lparr>cd_rows := table_update (\<lambda>x. cr_id x = cr_id r) (\<lambda>_. r) (cd_rows db)\<rparr>"

section \<open>Relations\<close>

definition crud_relation :: "crud_config \<Rightarrow> string \<Rightarrow> many_to_many result" where
  "crud_relation C f = (case dict_get (cc_relations C) f of None \<Rightarrow> Inl (ValueError ''unknown relation field'') | Some m \<Rightarrow> Inr m)"

text \<open>\<open>_pop_relation_values\<close>: the relations that are given and not \<open>None\<close>, and what is left of the values.\<close>

definition relation_fields :: "crud_config \<Rightarrow> (string, json) dict \<Rightarrow> string list" where
  "relation_fields C values =
     filter (\<lambda>f. case dict_get values f of None \<Rightarrow> False | Some v \<Rightarrow> v \<noteq> JNull) (map fst (cc_relations C))"

definition pop_relation_values :: "crud_config \<Rightarrow> (string, json) dict \<Rightarrow> (string \<times> json) list \<times> (string, json) dict" where
  "pop_relation_values C values =
     (let fs = relation_fields C values
      in (map (\<lambda>f. (f, the (dict_get values f))) fs, filter (\<lambda>(k, v). k \<notin> set fs) values))"

definition json_ids :: "json \<Rightarrow> uuid list result" where
  "json_ids v = (case v of
     JList xs \<Rightarrow> map_result (\<lambda>x. case x of JUuid u \<Rightarrow> Inr u | JStr t \<Rightarrow> crud_identifier t | _ \<Rightarrow> Inl (ValueError ''invalid UUID resource id'')) xs
   | _ \<Rightarrow> Inl (TypeError ''not iterable''))"

definition related_ids :: "string \<Rightarrow> crud_row \<Rightarrow> uuid list" where
  "related_ids attribute r = dict_get_or (cr_related r) attribute []"

definition set_related :: "string \<Rightarrow> uuid list \<Rightarrow> crud_row \<Rightarrow> crud_row" where
  "set_related attribute ids r = r\<lparr>cr_related := dict_set attribute ids (cr_related r)\<rparr>"

definition model_ids :: "string \<Rightarrow> crud_db \<Rightarrow> uuid list" where
  "model_ids m db = dict_get_or (cd_models db) m []"

text \<open>\<open>_apply_relations\<close>: each id once, every one of them a row of the related model.\<close>

fun apply_relations :: "crud_config \<Rightarrow> crud_db \<Rightarrow> (string \<times> json) list \<Rightarrow> crud_row \<Rightarrow> crud_row result" where
  "apply_relations C db [] r = Inr r"
| "apply_relations C db ((f, v) # rest) r =
     (case crud_relation C f of Inl e \<Rightarrow> Inl e | Inr m \<Rightarrow>
      (case json_ids v of Inl e \<Rightarrow> Inl e | Inr ids \<Rightarrow>
       let related = filter (\<lambda>u. u \<in> set ids) (model_ids (mm_model m) db)
       in if length related \<noteq> length (remdups ids) then Inl (ValueError (f @ '' references missing ids''))
          else apply_relations C db rest (set_related (mm_attribute m) related r)))"

section \<open>Operations\<close>

text \<open>
  A relation that is given as \<open>None\<close> stays among the values, and its attribute has no setter. The time of the
  last change moves when a column changed.
\<close>

definition assign_fields :: "crud_config \<Rightarrow> (string, json) dict \<Rightarrow> crud_row \<Rightarrow> crud_row result" where
  "assign_fields C values r =
     (if list_ex (\<lambda>(k, v). k \<in> set (map fst (cc_relations C))) values then Inl AttributeError
      else Inr (r\<lparr>cr_fields := fold (\<lambda>(k, v). dict_set k v) values (cr_fields r)\<rparr>))"

definition touch :: "datetime \<Rightarrow> crud_row \<Rightarrow> crud_row \<Rightarrow> crud_row" where
  "touch now old r =
     (if cr_fields r = cr_fields old \<and> cr_deleted_at r = cr_deleted_at old then r else r\<lparr>cr_updated_at := now\<rparr>)"

definition crud_create :: "crud_config \<Rightarrow> datetime \<Rightarrow> (string, json) dict \<Rightarrow> crud_db \<Rightarrow> crud_row result \<times> crud_db" where
  "crud_create C now values db =
     (let (relations, columns) = pop_relation_values C values;
          r = \<lparr>cr_id = cd_next db, cr_created_at = now, cr_updated_at = now, cr_deleted_at = None, cr_fields = [], cr_related = []\<rparr>
      in case assign_fields C columns r of Inl e \<Rightarrow> (Inl e, db) | Inr r1 \<Rightarrow>
         (case apply_relations C db relations r1 of Inl e \<Rightarrow> (Inl e, db) | Inr r2 \<Rightarrow>
          crud_commit C r2 (db\<lparr>cd_rows := cd_rows db @ [r2], cd_next := cd_next db + 1\<rparr>) db))"

definition crud_change :: "crud_config \<Rightarrow> uuid \<Rightarrow> (crud_row \<Rightarrow> crud_row result) \<Rightarrow> crud_db \<Rightarrow> crud_row option result \<times> crud_db" where
  "crud_change C i f db =
     (case crud_find db i of
        None \<Rightarrow> (Inr None, db)
      | Some r \<Rightarrow> (case f r of Inl e \<Rightarrow> (Inl e, db) | Inr r' \<Rightarrow> crud_commit C (Some r') (replace_row r' db) db))"

definition with_identifier :: "string \<Rightarrow> (uuid \<Rightarrow> crud_db \<Rightarrow> 'a result \<times> crud_db) \<Rightarrow> crud_db \<Rightarrow> 'a result \<times> crud_db" where
  "with_identifier v f db = (case crud_identifier v of Inl e \<Rightarrow> (Inl e, db) | Inr i \<Rightarrow> f i db)"

definition crud_update ::
  "crud_config \<Rightarrow> datetime \<Rightarrow> string \<Rightarrow> (string, json) dict \<Rightarrow> crud_db \<Rightarrow> crud_row option result \<times> crud_db"
where
  "crud_update C now v values = with_identifier v (\<lambda>i db.
     let (relations, columns) = pop_relation_values C values
     in crud_change C i (\<lambda>r. case assign_fields C columns r of Inl e \<Rightarrow> Inl e | Inr r1 \<Rightarrow>
          map_sum id (touch now r) (apply_relations C db relations r1)) db)"

definition set_deleted_at ::
  "crud_config \<Rightarrow> datetime \<Rightarrow> uuid \<Rightarrow> datetime option \<Rightarrow> crud_db \<Rightarrow> crud_row option result \<times> crud_db"
where
  "set_deleted_at C now i v = crud_change C i (\<lambda>r. Inr (touch now r (r\<lparr>cr_deleted_at := v\<rparr>)))"

definition crud_delete :: "crud_config \<Rightarrow> datetime \<Rightarrow> string \<Rightarrow> crud_db \<Rightarrow> crud_row option result \<times> crud_db" where
  "crud_delete C now v = with_identifier v (\<lambda>i. set_deleted_at C now i (Some now))"

definition crud_restore :: "crud_config \<Rightarrow> datetime \<Rightarrow> string \<Rightarrow> crud_db \<Rightarrow> crud_row option result \<times> crud_db" where
  "crud_restore C now v = with_identifier v (\<lambda>i. set_deleted_at C now i None)"

subsection \<open>Below a parent\<close>

definition of_parent :: "string \<Rightarrow> uuid \<Rightarrow> crud_row \<Rightarrow> bool" where
  "of_parent f p r \<longleftrightarrow> dict_get (cr_fields r) f = Some (JUuid p)"

definition list_by_parent :: "string \<Rightarrow> uuid \<Rightarrow> bool \<Rightarrow> crud_db \<Rightarrow> crud_row list" where
  "list_by_parent f p include_deleted db =
     filter (\<lambda>r. of_parent f p r \<and> (include_deleted \<or> cr_deleted_at r = None)) (cd_rows db)"

definition get_by_parent :: "string \<Rightarrow> uuid \<Rightarrow> string \<Rightarrow> crud_db \<Rightarrow> crud_row option result" where
  "get_by_parent f p v db =
     map_sum id (\<lambda>x. case x of None \<Rightarrow> None | Some r \<Rightarrow> if of_parent f p r then Some r else None) (crud_get v db)"

definition create_for_parent ::
  "crud_config \<Rightarrow> datetime \<Rightarrow> string \<Rightarrow> uuid \<Rightarrow> (string, json) dict \<Rightarrow> crud_db \<Rightarrow> crud_row result \<times> crud_db"
where
  "create_for_parent C now f p values = crud_create C now (dict_set f (JUuid p) values)"

definition only_child ::
  "string \<Rightarrow> uuid \<Rightarrow> string \<Rightarrow> (string \<Rightarrow> crud_db \<Rightarrow> crud_row option result \<times> crud_db) \<Rightarrow> crud_db \<Rightarrow> crud_row option result \<times> crud_db"
where
  "only_child f p v g db =
     (case get_by_parent f p v db of Inl e \<Rightarrow> (Inl e, db) | Inr None \<Rightarrow> (Inr None, db) | Inr (Some _) \<Rightarrow> g v db)"

definition update_by_parent ::
  "crud_config \<Rightarrow> datetime \<Rightarrow> string \<Rightarrow> uuid \<Rightarrow> string \<Rightarrow> (string, json) dict \<Rightarrow> crud_db \<Rightarrow> crud_row option result \<times> crud_db"
where
  "update_by_parent C now f p v values = only_child f p v (\<lambda>w. crud_update C now w values)"

definition delete_by_parent ::
  "crud_config \<Rightarrow> datetime \<Rightarrow> string \<Rightarrow> uuid \<Rightarrow> string \<Rightarrow> crud_db \<Rightarrow> crud_row option result \<times> crud_db"
where
  "delete_by_parent C now f p v = only_child f p v (crud_delete C now)"

definition restore_by_parent ::
  "crud_config \<Rightarrow> datetime \<Rightarrow> string \<Rightarrow> uuid \<Rightarrow> string \<Rightarrow> crud_db \<Rightarrow> crud_row option result \<times> crud_db"
where
  "restore_by_parent C now f p v = only_child f p v (crud_restore C now)"

subsection \<open>Related resources\<close>

text \<open>The field of a relation reads its attribute; any other name answers no ids.\<close>

definition list_related :: "crud_config \<Rightarrow> string \<Rightarrow> string \<Rightarrow> crud_db \<Rightarrow> uuid list option result" where
  "list_related C v f db =
     map_sum id (map_option (\<lambda>r. case dict_get (cc_relations C) f of None \<Rightarrow> [] | Some m \<Rightarrow> related_ids (mm_attribute m) r))
       (crud_get v db)"

definition link_related ::
  "crud_config \<Rightarrow> string \<Rightarrow> string \<Rightarrow> string \<Rightarrow> crud_db \<Rightarrow> crud_row option result \<times> crud_db"
where
  "link_related C v f w db =
     (case crud_relation C f of Inl e \<Rightarrow> (Inl e, db) | Inr m \<Rightarrow>
      with_identifier v (\<lambda>i. with_identifier w (\<lambda>j db.
        if j \<notin> set (model_ids (mm_model m) db) then (Inr None, db)
        else crud_change C i (\<lambda>r. Inr (set_related (mm_attribute m)
               (let ids = related_ids (mm_attribute m) r in if j \<in> set ids then ids else ids @ [j]) r)) db)) db)"

definition unlink_related ::
  "crud_config \<Rightarrow> string \<Rightarrow> string \<Rightarrow> string \<Rightarrow> crud_db \<Rightarrow> crud_row option result \<times> crud_db"
where
  "unlink_related C v f w db =
     (case crud_relation C f of Inl e \<Rightarrow> (Inl e, db) | Inr m \<Rightarrow>
      with_identifier v (\<lambda>i db. case crud_find db i of None \<Rightarrow> (Inr None, db) | Some _ \<Rightarrow>
        with_identifier w (\<lambda>j. crud_change C i (\<lambda>r. Inr (set_related (mm_attribute m)
            (filter (\<lambda>u. u \<noteq> j) (related_ids (mm_attribute m) r)) r))) db) db)"

section \<open>The service in memory\<close>

text \<open>
  \<open>SignatureRequestService\<close>: a dictionary of \<open>SignatureRequestRead\<close>. The ids of a relation live in the instance beside
  its fields; a related field is none of the fields of the schema.
\<close>

record memory_item =
  mi_id :: uuid
  mi_name :: string
  mi_code :: string
  mi_created_at :: datetime
  mi_updated_at :: datetime
  mi_deleted_at :: "datetime option"
  mi_related :: "(string, uuid list) dict"

record memory_service =
  ms_items :: "(uuid, memory_item) dict"
  ms_next :: uuid

definition memory_list :: "bool \<Rightarrow> memory_service \<Rightarrow> memory_item list" where
  "memory_list include_deleted s = filter (\<lambda>r. include_deleted \<or> mi_deleted_at r = None) (dict_values (ms_items s))"

definition memory_get :: "memory_service \<Rightarrow> uuid \<Rightarrow> memory_item option" where
  "memory_get s i = dict_get (ms_items s) i"

definition memory_create :: "datetime \<Rightarrow> string \<Rightarrow> string \<Rightarrow> memory_service \<Rightarrow> memory_item \<times> memory_service" where
  "memory_create now name code s =
     (let r = \<lparr>mi_id = ms_next s, mi_name = name, mi_code = code, mi_created_at = now, mi_updated_at = now,
               mi_deleted_at = None, mi_related = []\<rparr>
      in (r, s\<lparr>ms_items := dict_set (mi_id r) r (ms_items s), ms_next := ms_next s + 1\<rparr>))"

definition memory_change :: "uuid \<Rightarrow> (memory_item \<Rightarrow> memory_item) \<Rightarrow> memory_service \<Rightarrow> memory_item option \<times> memory_service" where
  "memory_change i f s =
     (case memory_get s i of
        None \<Rightarrow> (None, s)
      | Some r \<Rightarrow> (Some (f r), s\<lparr>ms_items := dict_set i (f r) (ms_items s)\<rparr>))"

definition memory_update ::
  "datetime \<Rightarrow> uuid \<Rightarrow> string option \<Rightarrow> string option \<Rightarrow> memory_service \<Rightarrow> memory_item option \<times> memory_service"
where
  "memory_update now i name code = memory_change i (\<lambda>r. r\<lparr>mi_name := (case name of None \<Rightarrow> mi_name r | Some v \<Rightarrow> v),
     mi_code := (case code of None \<Rightarrow> mi_code r | Some v \<Rightarrow> v), mi_updated_at := now\<rparr>)"

definition memory_delete :: "datetime \<Rightarrow> uuid \<Rightarrow> memory_service \<Rightarrow> memory_item option \<times> memory_service" where
  "memory_delete now i = memory_change i (\<lambda>r. r\<lparr>mi_deleted_at := Some now, mi_updated_at := now\<rparr>)"

definition memory_restore :: "datetime \<Rightarrow> uuid \<Rightarrow> memory_service \<Rightarrow> memory_item option \<times> memory_service" where
  "memory_restore now i = memory_change i (\<lambda>r. r\<lparr>mi_deleted_at := None, mi_updated_at := now\<rparr>)"

definition memory_list_related :: "uuid \<Rightarrow> string \<Rightarrow> memory_service \<Rightarrow> uuid list option" where
  "memory_list_related i f s = map_option (\<lambda>r. dict_get_or (mi_related r) f []) (memory_get s i)"

definition memory_link ::
  "datetime \<Rightarrow> uuid \<Rightarrow> string \<Rightarrow> uuid \<Rightarrow> memory_service \<Rightarrow> memory_item option \<times> memory_service"
where
  "memory_link now i f j = memory_change i (\<lambda>r. let ids = dict_get_or (mi_related r) f [] in
     r\<lparr>mi_related := dict_set f (if j \<in> set ids then ids else ids @ [j]) (mi_related r), mi_updated_at := now\<rparr>)"

definition memory_unlink ::
  "datetime \<Rightarrow> uuid \<Rightarrow> string \<Rightarrow> uuid \<Rightarrow> memory_service \<Rightarrow> memory_item option \<times> memory_service"
where
  "memory_unlink now i f j = memory_change i (\<lambda>r.
     r\<lparr>mi_related := dict_set f (filter (\<lambda>u. u \<noteq> j) (dict_get_or (mi_related r) f [])) (mi_related r), mi_updated_at := now\<rparr>)"

text \<open>A parent field is a field of the schema or nothing; only the id is a UUID.\<close>

definition memory_child :: "string \<Rightarrow> uuid \<Rightarrow> memory_item \<Rightarrow> bool" where
  "memory_child f p r \<longleftrightarrow> f = ''id'' \<and> mi_id r = p"

definition memory_list_by_parent :: "string \<Rightarrow> uuid \<Rightarrow> bool \<Rightarrow> memory_service \<Rightarrow> memory_item list" where
  "memory_list_by_parent f p include_deleted s = filter (memory_child f p) (memory_list include_deleted s)"

definition memory_get_by_parent :: "string \<Rightarrow> uuid \<Rightarrow> uuid \<Rightarrow> memory_service \<Rightarrow> memory_item option" where
  "memory_get_by_parent f p i s =
     (case memory_get s i of None \<Rightarrow> None | Some r \<Rightarrow> if memory_child f p r then Some r else None)"

definition memory_only_child ::
  "string \<Rightarrow> uuid \<Rightarrow> uuid \<Rightarrow> (uuid \<Rightarrow> memory_service \<Rightarrow> memory_item option \<times> memory_service) \<Rightarrow> memory_service \<Rightarrow>
     memory_item option \<times> memory_service"
where
  "memory_only_child f p i g s = (if memory_get_by_parent f p i s = None then (None, s) else g i s)"

section \<open>The router\<close>

text \<open>A service that answers nothing is a 404 with the message of the router.\<close>

definition crud_found :: "string \<Rightarrow> 'a option result \<times> 's \<Rightarrow> 'a result \<times> 's" where
  "crud_found message = apfst (\<lambda>x. case x of Inl e \<Rightarrow> Inl e | Inr None \<Rightarrow> Inl (HTTPException 404 message) | Inr (Some r) \<Rightarrow> Inr r)"

definition get_resource :: "string \<Rightarrow> string \<Rightarrow> crud_db \<Rightarrow> crud_row result" where
  "get_resource message v db = fst (crud_found message (crud_get v db, db))"

definition list_resources :: "bool \<Rightarrow> crud_db \<Rightarrow> crud_row list" where
  "list_resources = crud_list"

definition create_resource :: "crud_config \<Rightarrow> datetime \<Rightarrow> (string, json) dict \<Rightarrow> crud_db \<Rightarrow> crud_row result \<times> crud_db" where
  "create_resource = crud_create"

definition update_resource ::
  "string \<Rightarrow> crud_config \<Rightarrow> datetime \<Rightarrow> string \<Rightarrow> (string, json) dict \<Rightarrow> crud_db \<Rightarrow> crud_row result \<times> crud_db"
where
  "update_resource message C now v values db = crud_found message (crud_update C now v values db)"

definition delete_resource :: "string \<Rightarrow> crud_config \<Rightarrow> datetime \<Rightarrow> string \<Rightarrow> crud_db \<Rightarrow> crud_row result \<times> crud_db" where
  "delete_resource message C now v db = crud_found message (crud_delete C now v db)"

definition restore_resource :: "string \<Rightarrow> crud_config \<Rightarrow> datetime \<Rightarrow> string \<Rightarrow> crud_db \<Rightarrow> crud_row result \<times> crud_db" where
  "restore_resource message C now v db = crud_found message (crud_restore C now v db)"

section \<open>Both services are resource services\<close>

definition answered :: "'a option result \<times> 's \<Rightarrow> 'a option \<times> 's" where
  "answered = apfst (\<lambda>x. case x of Inl e \<Rightarrow> None | Inr r \<Rightarrow> r)"

lemma crud_ok_replace:
  assumes "crud_ok C db" "crud_find db (cr_id r) = Some old" "cr_fields r = cr_fields old"
  shows "crud_ok C (replace_row r db)"
proof -
  have old: "old \<in> set (cd_rows db)" "cr_id old = cr_id r"
    using assms(2) unfolding crud_find_def by (metis (mono_tags, lifting) find_Some_iff nth_mem)+
  have same: "cr_fields x = cr_fields r" if "x \<in> set (cd_rows db)" "cr_id x = cr_id r" for x
  proof -
    have "x = old" using that old assms(1) by (auto simp: crud_ok_def distinct_map inj_on_def)
    then show ?thesis using assms(3) by simp
  qed
  have "map cr_fields (cd_rows (replace_row r db)) = map cr_fields (cd_rows db)"
    using same by (auto simp: replace_row_def table_update_def)
  moreover have "map cr_id (cd_rows (replace_row r db)) = map cr_id (cd_rows db)"
    by (auto simp: replace_row_def table_update_def)
  moreover have "cd_models (replace_row r db) = cd_models db" by (simp add: replace_row_def)
  ultimately show ?thesis using assms(1) unfolding crud_ok_def Let_def by metis
qed

lemma find_replace:
  "List.find (\<lambda>x. cr_id x = j) (table_update (\<lambda>x. cr_id x = cr_id r) (\<lambda>_. r) rows) =
     (if j = cr_id r then map_option (\<lambda>_. r) (List.find (\<lambda>x. cr_id x = j) rows) else List.find (\<lambda>x. cr_id x = j) rows)"
  by (induction rows) (auto simp: table_update_def)

lemma crud_find_replace:
  "crud_find db (cr_id r) = Some old \<Longrightarrow>
   crud_find (replace_row r db) j = (if j = cr_id r then Some r else crud_find db j)"
  by (simp add: crud_find_def replace_row_def find_replace)

lemma crud_find_set: "crud_ok C db \<Longrightarrow> crud_find db i = Some r \<longleftrightarrow> r \<in> set (cd_rows db) \<and> cr_id r = i"
  using find_by_key[of cr_id "cd_rows db"] by (auto simp: crud_ok_def Let_def crud_find_def dest: find_Some_iff_hd)

lemma set_deleted_at_answer:
  assumes "crud_ok C s" "crud_find s i = Some r"
  shows "\<exists>r' s'. answered (set_deleted_at C t i v s) = (Some r', s') \<and> crud_ok C s' \<and> cr_deleted_at r' = v \<and> cr_id r' = i \<and>
    (\<forall>j. crud_find s' j = (if j = i then Some r' else crud_find s j))"
proof -
  let ?r = "touch t r (r\<lparr>cr_deleted_at := v\<rparr>)"
  have r: "cr_id ?r = i" "cr_deleted_at ?r = v" "cr_fields ?r = cr_fields r"
    using crud_find_set[OF assms(1)] assms(2) by (auto simp: touch_def)
  have "crud_ok C (replace_row ?r s)"
    using crud_ok_replace[OF assms(1)] assms(2) r by simp
  then have "answered (set_deleted_at C t i v s) = (Some ?r, replace_row ?r s)"
    using assms(2) by (simp add: answered_def set_deleted_at_def crud_change_def crud_commit_def)
  then show ?thesis using r crud_find_replace[of s ?r] assms(2) \<open>crud_ok C (replace_row ?r s)\<close> by simp
qed

interpretation sql: resource_service crud_find crud_list "\<lambda>t i s. answered (set_deleted_at C t i (Some t) s)"
  "\<lambda>t i s. answered (set_deleted_at C t i None s)" cr_id "\<lambda>r. cr_deleted_at r \<noteq> None" "crud_ok C" for C
proof unfold_locales
  fix s r i t deleted
  assume ok: "crud_ok C s"
  show "crud_find s i = Some r \<Longrightarrow> cr_id r = i" using crud_find_set[OF ok] by simp
  show "r \<in> set (crud_list deleted s) \<longleftrightarrow> crud_find s (cr_id r) = Some r \<and> (deleted \<or> \<not> cr_deleted_at r \<noteq> None)"
    using crud_find_set[OF ok] by (auto simp: crud_list_def)
  show "crud_find s i = None \<Longrightarrow> answered (set_deleted_at C t i (Some t) s) = (None, s)"
    by (simp add: answered_def set_deleted_at_def crud_change_def)
  show "crud_find s i = Some r \<Longrightarrow> \<exists>r' s'. answered (set_deleted_at C t i (Some t) s) = (Some r', s') \<and> crud_ok C s' \<and>
      cr_deleted_at r' \<noteq> None \<and> (\<forall>j. crud_find s' j = (if j = i then Some r' else crud_find s j))"
    using set_deleted_at_answer[OF ok, of i r t "Some t"] by auto
  show "crud_find s i = Some r \<Longrightarrow> \<exists>r' s'. answered (set_deleted_at C t i None s) = (Some r', s') \<and> crud_ok C s' \<and>
      \<not> cr_deleted_at r' \<noteq> None \<and> (\<forall>j. crud_find s' j = (if j = i then Some r' else crud_find s j))"
    using set_deleted_at_answer[OF ok, of i r t None] by auto
qed

definition memory_ok :: "memory_service \<Rightarrow> bool" where
  "memory_ok s \<longleftrightarrow> distinct (map fst (ms_items s)) \<and> list_all (\<lambda>(i, r). mi_id r = i) (ms_items s)"

lemma memory_get_ok: "memory_ok s \<Longrightarrow> memory_get s i = Some r \<Longrightarrow> mi_id r = i"
  by (auto simp: memory_ok_def memory_get_def list_all_iff dest: map_of_SomeD)

lemma memory_ids_update:
  "list_all (\<lambda>(i, r). mi_id r = i) d \<Longrightarrow> mi_id r = i \<Longrightarrow> list_all (\<lambda>(i, r). mi_id r = i) (dict_set i r d)"
  by (induction d) auto

lemma memory_change_answer:
  assumes "memory_ok s" "memory_get s i = Some r" "mi_id (f r) = mi_id r"
  shows "\<exists>s'. memory_change i f s = (Some (f r), s') \<and> memory_ok s' \<and>
    (\<forall>j. memory_get s' j = (if j = i then Some (f r) else memory_get s j))"
proof -
  have "list_all (\<lambda>(i, r). mi_id r = i) (dict_set i (f r) (ms_items s))"
    using assms memory_get_ok[OF assms(1,2)]
    by (intro memory_ids_update) (simp_all add: memory_ok_def)
  moreover have "distinct (map fst (dict_set i (f r) (ms_items s)))"
    using assms(1) by (simp add: memory_ok_def distinct_update)
  ultimately show ?thesis using assms by (simp add: memory_change_def memory_ok_def memory_get_def)
qed

lemma memory_listed:
  "memory_ok s \<Longrightarrow> r \<in> set (memory_list deleted s) \<longleftrightarrow> memory_get s (mi_id r) = Some r \<and> (deleted \<or> mi_deleted_at r = None)"
  by (auto simp: memory_ok_def memory_list_def memory_get_def dict_values_def list_all_iff image_iff dest: map_of_SomeD)
    (metis map_of_is_SomeI prod.collapse snd_conv)+

interpretation memory: resource_service memory_get memory_list memory_delete memory_restore mi_id "\<lambda>r. mi_deleted_at r \<noteq> None" memory_ok
proof unfold_locales
  fix s r i t deleted
  assume ok: "memory_ok s"
  show "memory_get s i = Some r \<Longrightarrow> mi_id r = i" using memory_get_ok[OF ok] .
  show "r \<in> set (memory_list deleted s) \<longleftrightarrow> memory_get s (mi_id r) = Some r \<and> (deleted \<or> \<not> mi_deleted_at r \<noteq> None)"
    using memory_listed[OF ok] by simp
  show "memory_get s i = None \<Longrightarrow> memory_delete t i s = (None, s)"
    by (simp add: memory_delete_def memory_change_def)
  show "memory_get s i = Some r \<Longrightarrow> \<exists>r' s'. memory_delete t i s = (Some r', s') \<and> memory_ok s' \<and> mi_deleted_at r' \<noteq> None \<and>
      (\<forall>j. memory_get s' j = (if j = i then Some r' else memory_get s j))"
    unfolding memory_delete_def
    using memory_change_answer[OF ok, of i r "\<lambda>r. r\<lparr>mi_deleted_at := Some t, mi_updated_at := t\<rparr>"] by auto
  show "memory_get s i = Some r \<Longrightarrow> \<exists>r' s'. memory_restore t i s = (Some r', s') \<and> memory_ok s' \<and> \<not> mi_deleted_at r' \<noteq> None \<and>
      (\<forall>j. memory_get s' j = (if j = i then Some r' else memory_get s j))"
    unfolding memory_restore_def
    using memory_change_answer[OF ok, of i r "\<lambda>r. r\<lparr>mi_deleted_at := None, mi_updated_at := t\<rparr>"] by auto
qed

section \<open>Properties\<close>

lemma crud_found_Inr: "crud_found m x = (Inr r, s) \<longleftrightarrow> fst x = Inr (Some r) \<and> snd x = s"
  by (cases x) (auto simp: crud_found_def split: sum.splits option.splits)

lemma delete_resource_Inr:
  "crud_identifier v = Inr i \<Longrightarrow> delete_resource m C t v db = (Inr r, db') \<Longrightarrow>
     answered (set_deleted_at C t i (Some t) db) = (Some r, db')"
  by (cases "set_deleted_at C t i (Some t) db")
    (auto simp: delete_resource_def crud_found_Inr crud_delete_def with_identifier_def answered_def)

lemma restore_resource_Inr:
  "crud_identifier v = Inr i \<Longrightarrow> restore_resource m C t v db = (Inr r, db') \<Longrightarrow>
     answered (set_deleted_at C t i None db) = (Some r, db')"
  by (cases "set_deleted_at C t i None db")
    (auto simp: restore_resource_def crud_found_Inr crud_restore_def with_identifier_def answered_def)

text \<open>Deleting a resource over HTTP only marks it: it is still answered by its id, listed only with the deleted
  resources, and its restoration gives back the list of the live ones; the constraints of the table hold throughout.\<close>

theorem soft_delete_round_trip:
  assumes "crud_ok C db" "crud_identifier v = Inr i" "crud_find db i = Some r" "cr_deleted_at r = None"
    and "delete_resource m C t v db = (Inr r1, db1)" "restore_resource m C t' v db1 = (Inr r2, db2)"
  shows "get_resource m v db1 = Inr r1 \<and> cr_deleted_at r1 = Some t \<and> r1 \<in> set (crud_list True db1) \<and>
    i \<notin> cr_id ` set (crud_list False db1) \<and> get_resource m v db2 = Inr r2 \<and>
    cr_id ` set (crud_list False db2) = cr_id ` set (crud_list False db) \<and> crud_ok C db2"
proof -
  note d = delete_resource_Inr[OF assms(2,5)] and p = restore_resource_Inr[OF assms(2,6)]
  have "crud_find db1 i = Some r1" "r1 \<in> set (crud_list True db1)" "i \<notin> cr_id ` set (crud_list False db1)"
    using sql.remove_hides[OF assms(1,3) d] by auto
  moreover have "cr_deleted_at r1 = Some t"
    using set_deleted_at_answer[OF assms(1,3), of t "Some t"] d by auto
  moreover have "crud_ok C db2" "crud_find db2 i = Some r2" "cr_id ` set (crud_list False db2) = cr_id ` set (crud_list False db)"
    using sql.remove_put_back[OF assms(1,3) _ d p] assms(4) by simp_all
  ultimately show ?thesis
    using assms(2) by (simp add: get_resource_def crud_get_def crud_found_def)
qed

definition tags_config :: crud_config where
  "tags_config = \<lparr>cc_relations = [(''tag_ids'', \<lparr>mm_attribute = ''tags'', mm_model = ''tags''\<rparr>)], cc_unique = [''code''], cc_parents = []\<rparr>"

definition two_rows :: crud_db where
  "two_rows = snd (crud_create tags_config 2 [(''name'', JStr ''B''), (''code'', JStr ''b'')]
     (snd (crud_create tags_config 1 [(''name'', JStr ''A''), (''code'', JStr ''a''), (''tag_ids'', JList [JUuid 5])]
       \<lparr>cd_rows = [], cd_models = [(''tags'', [4, 5])], cd_next = 0\<rparr>)))"

theorem soft_delete_round_trip_witness:
  "\<exists>r1 db1 r2 db2. delete_resource ''No'' tags_config 7 (uuid_str 1) two_rows = (Inr r1, db1) \<and>
     restore_resource ''No'' tags_config 8 (uuid_str 1) db1 = (Inr r2, db2) \<and>
     1 \<notin> cr_id ` set (crud_list False db1) \<and> get_resource ''No'' (uuid_str 1) db1 = Inr r1"
proof -
  have ok: "crud_ok tags_config two_rows" "crud_identifier (uuid_str 1) = Inr 1"
    "case crud_find two_rows 1 of None \<Rightarrow> False | Some r \<Rightarrow> cr_deleted_at r = None"
    "case delete_resource ''No'' tags_config 7 (uuid_str 1) two_rows of (Inr r1, db1) \<Rightarrow>
       (case restore_resource ''No'' tags_config 8 (uuid_str 1) db1 of (Inr r2, db2) \<Rightarrow> True | _ \<Rightarrow> False) | _ \<Rightarrow> False"
    by code_simp+
  then obtain r r1 db1 r2 db2 where c: "crud_find two_rows 1 = Some r" "cr_deleted_at r = None"
    "delete_resource ''No'' tags_config 7 (uuid_str 1) two_rows = (Inr r1, db1)"
    "restore_resource ''No'' tags_config 8 (uuid_str 1) db1 = (Inr r2, db2)"
    by (auto split: option.splits prod.splits sum.splits)
  show ?thesis using soft_delete_round_trip[OF ok(1,2) c] c(3,4) by blast
qed

text \<open>An operation that fails leaves the tables as they were.\<close>

lemma crud_failure_atomic:
  "crud_create C now values db = (Inl e, db') \<Longrightarrow> db' = db" "crud_update C now v values db = (Inl e, db') \<Longrightarrow> db' = db"
  "link_related C v f w db = (Inl e, db') \<Longrightarrow> db' = db" "unlink_related C v f w db = (Inl e, db') \<Longrightarrow> db' = db"
  by (auto simp: crud_create_def crud_update_def link_related_def unlink_related_def with_identifier_def crud_change_def
      crud_commit_def Let_def split: sum.splits option.splits if_splits prod.splits)

text \<open>A relation given as \<open>null\<close>, which the generated schema of an update allows, is not left alone: the update raises.\<close>

lemma null_relation_raises:
  assumes "f \<in> set (map fst (cc_relations C))" "distinct (map fst values)" "dict_get values f = Some JNull"
    "crud_identifier v = Inr i" "crud_find db i = Some r"
  shows "crud_update C now v values db = (Inl AttributeError, db)"
proof -
  have "f \<notin> set (relation_fields C values)" using assms(3) by (simp add: relation_fields_def)
  then have "(f, JNull) \<in> set (snd (pop_relation_values C values))"
    using map_of_SomeD[OF assms(3)] by (simp add: pop_relation_values_def Let_def)
  then have "assign_fields C (snd (pop_relation_values C values)) x = Inl AttributeError" for x
    using assms(1) by (auto simp: assign_fields_def list_ex_iff)
  then show ?thesis
    using assms(4,5) by (cases "pop_relation_values C values") (simp add: crud_update_def with_identifier_def crud_change_def)
qed

end
