(* ===== verification/Email_Templates.thy ===== *)
theory Email_Templates
  imports Identifiers
begin

text \<open>
  \<open>shared_kernel/email_templates.py\<close>: the mails of the services, as text and as HTML. The catalogue of texts in
  four languages, the image of the QR code and the mark are arguments; characters are Latin-1, and in the
  literals a backquote stands for a double quote.
\<close>

section \<open>Texts\<close>

definition q :: "string \<Rightarrow> string" where
  "q s = map (\<lambda>c. if c = CHR 0x60 then CHR 0x22 else c) s"

abbreviation line_feed :: char where
  "line_feed \<equiv> CHR 0x0A"

definition middle_dot :: char where
  "middle_dot = CHR 0xB7"

text \<open>\<open>html.escape\<close>, with quotes.\<close>

definition escape_char :: "char \<Rightarrow> string" where
  "escape_char c =
     (if c = CHR ''&'' then ''&amp;'' else if c = CHR ''<'' then ''&lt;'' else if c = CHR ''>'' then ''&gt;''
      else if c = CHR 0x22 then ''&quot;'' else if c = CHR 0x27 then ''&#x27;'' else [c])"

definition escape :: "string \<Rightarrow> string" where
  "escape s = concat (map escape_char s)"

text \<open>\<open>s.split()\<close>: the words between white space.\<close>

fun words_from :: "string \<Rightarrow> string \<Rightarrow> string list" where
  "words_from w [] = (if w = [] then [] else [w])"
| "words_from w (c # cs) =
     (if is_space c then (if w = [] then [] else [w]) @ words_from [] cs else words_from (w @ [c]) cs)"

definition split_words :: "string \<Rightarrow> string list" where
  "split_words = words_from []"

text \<open>Splitting at an empty line.\<close>

fun blank_split :: "string \<Rightarrow> string \<Rightarrow> string list" where
  "blank_split w [] = [w]"
| "blank_split w [c] = [w @ [c]]"
| "blank_split w (c # d # cs) =
     (if c = line_feed \<and> d = line_feed then w # blank_split [] cs else blank_split (w @ [c]) (d # cs))"

text \<open>\<open>template.format(document=title)\<close>, for a template whose only field is \<open>{document}\<close>.\<close>

function format_document :: "string \<Rightarrow> string \<Rightarrow> string" where
  "format_document title [] = []"
| "format_document title (c # cs) =
     (if take 10 (c # cs) = ''{document}'' then title @ format_document title (drop 10 (c # cs))
      else c # format_document title cs)"
  by pat_completeness auto
termination by (relation "measure (length \<circ> snd)") auto

section \<open>Mails\<close>

record email_image =
  ii_content :: string
  ii_filename :: string
  ii_content_id :: string
  ii_content_type :: string

definition image_payload :: "email_image \<Rightarrow> json" where
  "image_payload i = JObj [(''content'', JStr (ii_content i)), (''filename'', JStr (ii_filename i)),
     (''content_id'', JStr (ii_content_id i)), (''content_type'', JStr (ii_content_type i))]"

record rendered_email =
  re_subject :: string
  re_text :: string
  re_html :: string
  re_images :: "email_image list"

definition email_payload :: "rendered_email \<Rightarrow> string \<Rightarrow> string \<Rightarrow> json" where
  "email_payload m recipient key = JObj [(''recipient'', JStr recipient), (''subject'', JStr (re_subject m)),
     (''content'', JStr (re_text m)), (''html'', JStr (re_html m)),
     (''inline_images'', JList (map image_payload (re_images m))), (''idempotency_key'', JStr key)]"

definition brand_mark_content_id :: string where
  "brand_mark_content_id = ''rubrica-brand-mark''"

text \<open>The base64 of the two images.\<close>

record email_assets =
  ea_mark :: string
  ea_qr :: "string \<Rightarrow> string"

definition brand_mark :: "email_assets \<Rightarrow> email_image" where
  "brand_mark A = \<lparr>ii_content = ea_mark A, ii_filename = ''rubrica-mark.png'', ii_content_id = brand_mark_content_id,
     ii_content_type = ''image/png''\<rparr>"

definition qr_code :: "email_assets \<Rightarrow> string \<Rightarrow> email_image" where
  "qr_code A v = \<lparr>ii_content = ea_qr A v, ii_filename = ''rubrica-signing-qr.png'', ii_content_id = ''rubrica-signing-qr'',
     ii_content_type = ''image/png''\<rparr>"

text \<open>The arguments of \<open>_branded_email\<close>.\<close>

record branded_email =
  be_subject :: string
  be_eyebrow :: string
  be_title :: string
  be_paragraphs :: "string list"
  be_public_url :: string
  be_greeting_name :: "string option"
  be_action :: "(string \<times> string) option"
  be_note :: "string option"
  be_qr_content_id :: "string option"
  be_images :: "email_image list"

definition given_text :: "string option \<Rightarrow> string option" where
  "given_text v = (if v = Some [] then None else v)"

text \<open>An action needs a label and an address.\<close>

definition given_action :: "branded_email \<Rightarrow> (string \<times> string) option" where
  "given_action m = (case be_action m of Some (label, url) \<Rightarrow> if label = [] \<or> url = [] then None else Some (label, url) | None \<Rightarrow> None)"

definition clean_subject :: "string \<Rightarrow> string" where
  "clean_subject s = take 160 (join '' '' (split_words s))"

definition root_url :: "branded_email \<Rightarrow> string" where
  "root_url m = rstrip_by (\<lambda>c. c = CHR ''/'') (be_public_url m)"

definition break_lines :: "string \<Rightarrow> string" where
  "break_lines s = concat (map (\<lambda>c. if c = line_feed then ''<br>'' else [c]) s)"

definition paragraphs_html :: "branded_email \<Rightarrow> string" where
  "paragraphs_html m = concat (map (\<lambda>p.
     q ''<p style=`margin:0 0 18px;color:#62494d;font-size:16px;line-height:1.65`>'' @ break_lines (escape p) @ q ''</p>'')
     (be_paragraphs m))"

definition greeting_html :: "branded_email \<Rightarrow> string" where
  "greeting_html m = (case given_text (be_greeting_name m) of
     None \<Rightarrow> []
   | Some name \<Rightarrow> q ''<p style=`margin:0 0 18px;color:#30191d;font-size:17px;font-weight:700`>Hello, '' @ escape name @ q ''.</p>'')"

definition action_html :: "branded_email \<Rightarrow> string" where
  "action_html m = (case given_action m of
     None \<Rightarrow> []
   | Some (label, url) \<Rightarrow>
       q ''<table role=`presentation` cellspacing=`0` cellpadding=`0` style=`margin:28px 0`>'' @
       q ''<tr><td style=`border-radius:999px;background:#a82035`><a href=`'' @ escape url @ q ''` '' @
       q ''style=`display:inline-block;padding:14px 24px;color:#ffffff;text-decoration:none;'' @
       q ''font-size:16px;font-weight:800`>'' @ escape label @ q ''</a></td></tr></table>'' @
       q ''<p style=`margin:0 0 18px;color:#8a7377;font-size:12px;line-height:1.55`>'' @
       q ''If the button does not work, copy and paste this address into your browser:<br>'' @
       q ''<a href=`'' @ escape url @ q ''` style=`color:#8f1d2c;word-break:break-all`>'' @ escape url @ q ''</a></p>'')"

definition qr_html :: "branded_email \<Rightarrow> string" where
  "qr_html m = (case given_text (be_qr_content_id m) of
     None \<Rightarrow> []
   | Some i \<Rightarrow>
       q ''<div style=`margin:26px 0 10px;padding:20px;border:1px solid #ead8d5;'' @
       q ''border-radius:16px;background:#fffaf8;text-align:center`>'' @
       q ''<img src=`cid:'' @ escape i @ q ''` width=`210` height=`210` '' @
       q ''alt=`QR Code for the secure signing link` style=`display:block;margin:0 auto;max-width:100%;height:auto`>'' @
       q ''<p style=`margin:10px 0 0;color:#80676b;font-size:13px`>Scan to open on your phone</p></div>'')"

definition note_html :: "branded_email \<Rightarrow> string" where
  "note_html m = (case given_text (be_note m) of
     None \<Rightarrow> []
   | Some note \<Rightarrow>
       q ''<div style=`margin-top:26px;padding:14px 16px;border-left:4px solid #a82035;'' @
       q ''background:#fff0ee;color:#6f575b;font-size:13px;line-height:1.55`>'' @ escape note @ q ''</div>'')"

text \<open>The page between the texts: from the start to the subject, to the address, to the eyebrow, to the title, to the
  contents, and to the address of the foot and its end.\<close>

definition page_start :: string where
  "page_start = join [line_feed] [
      q ''<!doctype html>'',
      q ''<html><body style=`margin:0;padding:0;background:#f6f1ef;font-family:Arial,sans-serif`>'',
      q ''<div style=`display:none;max-height:0;overflow:hidden;color:transparent`>'']"

definition page_logo :: string where
  "page_logo = join [line_feed] [
      q ''</div>'',
      q ''<table role=`presentation` width=`100%` cellspacing=`0` cellpadding=`0` style=`background:#f6f1ef`>'',
      q ''<tr><td align=`center` style=`padding:32px 14px`>'',
      q ''<table role=`presentation` width=`100%` cellspacing=`0` cellpadding=`0` style=`max-width:620px;background:#ffffff;border:1px solid #ead8d5;border-radius:22px;overflow:hidden`>'',
      q ''<tr><td style=`padding:24px 34px;background:#3b151d`>'',
      q ''<a href=`'']"

definition page_mark :: string where
  "page_mark = join [line_feed] [
      q ''` style=`display:inline-block;color:#ffffff;text-decoration:none`>'',
      q ''<table role=`presentation` cellspacing=`0` cellpadding=`0`><tr>'',
      q ''<td width=`40` height=`40` align=`center` valign=`middle` style=`width:40px;height:40px`>'',
      q ''<img src=`cid:'' @ brand_mark_content_id @ q ''` width=`40` height=`40` alt=`Rubrica` style=`display:block;width:40px;height:40px;border:0`>'',
      q ''</td>'',
      q ''<td style=`padding-left:11px;color:#ffffff;font-family:Arial,sans-serif;font-size:22px;font-weight:800;line-height:40px`>Rubrica</td>'',
      q ''</tr></table></a>'',
      q ''</td></tr>'',
      q ''<tr><td style=`padding:38px 34px 34px`>'',
      q ''<div style=`margin-bottom:12px;color:#a82035;font-size:12px;font-weight:900;letter-spacing:2px`>'']"

definition page_title :: string where
  "page_title = join [line_feed] [
      q ''</div>'',
      q ''<h1 style=`margin:0 0 24px;color:#3b151d;font-family:Georgia,serif;font-size:34px;line-height:1.15;font-weight:500`>'']"

definition page_body :: string where
  "page_body = join [line_feed] [
      q ''</h1>'',
      []]"

definition page_foot :: string where
  "page_foot = join [line_feed] [
      [],
      q ''</td></tr>'',
      q ''<tr><td style=`padding:22px 34px;border-top:1px solid #eadcda;background:#fffaf8;color:#8a7377;font-size:12px;line-height:1.6`>'',
      q ''Rubrica '' @ [middle_dot] @ q '' Secure electronic signatures<br><a href=`'']"

definition page_link :: string where
  "page_link = q ''` style=`color:#8f1d2c;text-decoration:none`>''"

definition page_end :: string where
  "page_end = join [line_feed] [
      q ''</a>'',
      q ''</td></tr></table>'',
      q ''</td></tr></table></body></html>'']"

definition email_html :: "branded_email \<Rightarrow> string" where
  "email_html m =
     (let safe_root = escape (root_url m) in
      page_start @ escape (clean_subject (be_subject m)) @ page_logo @ safe_root @ page_mark @ escape (be_eyebrow m) @
      page_title @ escape (be_title m) @ page_body @
      greeting_html m @ paragraphs_html m @ action_html m @ qr_html m @ note_html m @
      page_foot @ safe_root @ page_link @ safe_root @ page_end)"

definition email_text :: "branded_email \<Rightarrow> string" where
  "email_text m = join [line_feed, line_feed]
     ([clean_subject (be_subject m)] @
      (case given_text (be_greeting_name m) of None \<Rightarrow> [] | Some name \<Rightarrow> [''Hello, '' @ name @ ''.'']) @
      be_paragraphs m @
      (case given_action m of None \<Rightarrow> [] | Some (label, url) \<Rightarrow> [label, url]) @
      (case given_text (be_note m) of None \<Rightarrow> [] | Some note \<Rightarrow> [note]) @
      [''Rubrica '' @ [middle_dot] @ '' '' @ root_url m])"

definition branded :: "email_assets \<Rightarrow> branded_email \<Rightarrow> rendered_email" where
  "branded A m = \<lparr>re_subject = clean_subject (be_subject m), re_text = email_text m, re_html = email_html m,
     re_images = brand_mark A # be_images m\<rparr>"

section \<open>The mails of the services\<close>

text \<open>\<open>copy\<close> is the catalogue: the text of a key in a language.\<close>

definition account_email ::
  "email_assets \<Rightarrow> (locale_code \<Rightarrow> string \<Rightarrow> string) \<Rightarrow> string \<Rightarrow> string option \<Rightarrow> string \<Rightarrow> string \<Rightarrow> string \<Rightarrow> rendered_email"
where
  "account_email A copy kind name action_url loc public_url =
     (let text = (\<lambda>k. copy (normalize_locale loc) (kind @ k)) in
      branded A \<lparr>be_subject = text ''_subject'', be_eyebrow = text ''_eyebrow'', be_title = text ''_title'',
        be_paragraphs = [text ''_intro'', text ''_body''], be_public_url = public_url, be_greeting_name = name,
        be_action = Some (text ''_action'', action_url), be_note = Some (copy (normalize_locale loc) ''expiry''),
        be_qr_content_id = None, be_images = []\<rparr>)"

definition account_activation_email ::
  "email_assets \<Rightarrow> (locale_code \<Rightarrow> string \<Rightarrow> string) \<Rightarrow> string option \<Rightarrow> string \<Rightarrow> string \<Rightarrow> string \<Rightarrow> rendered_email"
where
  "account_activation_email A copy = account_email A copy ''activation''"

definition password_recovery_email ::
  "email_assets \<Rightarrow> (locale_code \<Rightarrow> string \<Rightarrow> string) \<Rightarrow> string option \<Rightarrow> string \<Rightarrow> string \<Rightarrow> string \<Rightarrow> rendered_email"
where
  "password_recovery_email A copy = account_email A copy ''recovery''"

definition signature_invitation_email ::
  "email_assets \<Rightarrow> (locale_code \<Rightarrow> string \<Rightarrow> string) \<Rightarrow> string \<Rightarrow> string \<Rightarrow> string \<Rightarrow> string \<Rightarrow> string \<Rightarrow> rendered_email"
where
  "signature_invitation_email A copy signer_name document_title signing_url loc public_url =
     (let text = copy (normalize_locale loc); qr_image = qr_code A signing_url in
      branded A \<lparr>be_subject = format_document document_title (text ''subject''), be_eyebrow = text ''eyebrow'',
        be_title = text ''title'', be_paragraphs = [format_document document_title (text ''invitation''), text ''account''],
        be_public_url = public_url, be_greeting_name = Some signer_name, be_action = Some (text ''action'', signing_url),
        be_note = Some (text ''note''), be_qr_content_id = Some (ii_content_id qr_image), be_images = [qr_image]\<rparr>)"

definition branded_message_email :: "email_assets \<Rightarrow> string \<Rightarrow> string \<Rightarrow> string \<Rightarrow> string \<Rightarrow> rendered_email" where
  "branded_message_email A subject body public_url eyebrow =
     (let parts = filter (\<lambda>p. strip p \<noteq> []) (blank_split [] body) in
      branded A \<lparr>be_subject = subject, be_eyebrow = eyebrow, be_title = subject,
        be_paragraphs = (if parts = [] then [body] else parts), be_public_url = public_url, be_greeting_name = None,
        be_action = None, be_note = None, be_qr_content_id = None, be_images = []\<rparr>)"

section \<open>Escaping\<close>

definition markup_char :: "char \<Rightarrow> bool" where
  "markup_char c \<longleftrightarrow> c \<in> {CHR ''<'', CHR ''>'', CHR 0x22, CHR 0x27}"

definition markup :: "string \<Rightarrow> string" where
  "markup s = filter markup_char s"

lemma markup_append [simp]: "markup (s @ t) = markup s @ markup t"
  by (simp add: markup_def)

lemma markup_Nil [simp]: "markup [] = []"
  by (simp add: markup_def)

lemma markup_concat: "markup (concat xs) = concat (map markup xs)"
  by (induction xs) simp_all

lemma markup_escape_char [simp]: "markup (escape_char c) = []"
  by (auto simp: markup_def markup_char_def escape_char_def)

lemma markup_escape [simp]: "markup (escape s) = []"
  by (simp add: escape_def markup_concat)

lemma markup_join: "markup (join sep xs) = join (markup sep) (map markup xs)"
  by (induction sep xs rule: join.induct) simp_all

text \<open>A line break in a paragraph is one tag; escaping keeps the line breaks.\<close>

lemma markup_break_escape:
  "markup (break_lines (escape s)) = concat (replicate (length (filter (\<lambda>c. c = line_feed) s)) ''<>'')"
proof (induction s)
  case (Cons c s)
  have "markup (break_lines (escape_char c)) = (if c = line_feed then ''<>'' else [])"
    by (auto simp: escape_char_def break_lines_def markup_def markup_char_def)
  moreover have "break_lines (escape (c # s)) = break_lines (escape_char c) @ break_lines (escape s)"
    by (simp add: escape_def break_lines_def)
  ultimately show ?case using Cons by auto
qed (simp add: escape_def break_lines_def)

text \<open>What a browser shows of an escaped text is the text.\<close>

function unescape :: "string \<Rightarrow> string" where
  "unescape [] = []"
| "unescape (c # cs) =
     (if take 5 (c # cs) = ''&amp;'' then CHR ''&'' # unescape (drop 5 (c # cs))
      else if take 4 (c # cs) = ''&lt;'' then CHR ''<'' # unescape (drop 4 (c # cs))
      else if take 4 (c # cs) = ''&gt;'' then CHR ''>'' # unescape (drop 4 (c # cs))
      else if take 6 (c # cs) = ''&quot;'' then CHR 0x22 # unescape (drop 6 (c # cs))
      else if take 6 (c # cs) = ''&#x27;'' then CHR 0x27 # unescape (drop 6 (c # cs))
      else c # unescape cs)"
  by pat_completeness auto
termination by (relation "measure length") auto

lemma unescape_char: "unescape (escape_char c @ t) = c # unescape t"
  by (auto simp: escape_char_def)

lemma unescape_escape: "unescape (escape s) = s"
  by (induction s) (simp_all add: escape_def unescape_char)

section \<open>Subjects\<close>

lemma words_from_chars: "w \<in> set (words_from v s) \<Longrightarrow> list_all (\<lambda>c. \<not> is_space c) v \<Longrightarrow> list_all (\<lambda>c. \<not> is_space c) w"
  by (induction v s rule: words_from.induct) (auto split: if_splits)

lemma set_join: "set (join sep xs) \<subseteq> set sep \<union> \<Union> (set ` set xs)"
  by (induction sep xs rule: join.induct) auto

lemma clean_subject_chars: "c \<in> set (clean_subject s) \<Longrightarrow> \<not> is_space c \<or> c = CHR '' ''"
proof -
  assume "c \<in> set (clean_subject s)"
  then have "c \<in> set (join '' '' (split_words s))" unfolding clean_subject_def by (rule in_set_takeD)
  then have "c = CHR '' '' \<or> (\<exists>w\<in>set (split_words s). c \<in> set w)" using set_join[of "'' ''" "split_words s"] by auto
  then show ?thesis using words_from_chars[of _ "[]" s] by (auto simp: split_words_def list_all_iff)
qed

section \<open>Properties\<close>

text \<open>What of a mail decides its tags: the line breaks of its paragraphs and which parts it has.\<close>

definition email_shape :: "branded_email \<Rightarrow> nat list \<times> bool \<times> bool \<times> bool \<times> bool" where
  "email_shape m = (map (\<lambda>p. length (filter (\<lambda>c. c = line_feed) p)) (be_paragraphs m), given_text (be_greeting_name m) = None,
     given_action m = None, given_text (be_qr_content_id m) = None, given_text (be_note m) = None)"

lemma paragraphs_markup:
  "markup (paragraphs_html m) = concat (map (\<lambda>n.
     markup (q ''<p style=`margin:0 0 18px;color:#62494d;font-size:16px;line-height:1.65`>'') @ concat (replicate n ''<>'') @ markup (q ''</p>''))
     (fst (email_shape m)))"
  by (simp add: paragraphs_html_def markup_concat comp_def markup_break_escape email_shape_def)

lemma parts_markup:
  assumes "email_shape m = email_shape m'"
  shows "markup (paragraphs_html m) = markup (paragraphs_html m')" "markup (greeting_html m) = markup (greeting_html m')"
    "markup (action_html m) = markup (action_html m')" "markup (qr_html m) = markup (qr_html m')"
    "markup (note_html m) = markup (note_html m')"
proof -
  note shape = assms[unfolded email_shape_def prod.inject]
  show "markup (paragraphs_html m) = markup (paragraphs_html m')" unfolding paragraphs_markup assms ..
  show "markup (greeting_html m) = markup (greeting_html m')"
    using shape by (cases "given_text (be_greeting_name m)"; cases "given_text (be_greeting_name m')") (simp_all add: greeting_html_def)
  show "markup (action_html m) = markup (action_html m')"
    using shape by (cases "given_action m"; cases "given_action m'") (auto simp: action_html_def)
  show "markup (qr_html m) = markup (qr_html m')"
    using shape by (cases "given_text (be_qr_content_id m)"; cases "given_text (be_qr_content_id m')") (simp_all add: qr_html_def)
  show "markup (note_html m) = markup (note_html m')"
    using shape by (cases "given_text (be_note m)"; cases "given_text (be_note m')") (simp_all add: note_html_def)
qed

text \<open>C39: no text puts markup into a mail: mails of the same shape (the same parts, and paragraphs with the same numbers of
  line breaks) have the same tags and quotes, whatever names, titles, addresses and messages they carry; the subject
  is one line of at most 160 characters.\<close>

theorem email_no_injection:
  assumes "email_shape m = email_shape m'"
  shows "markup (re_html (branded A m)) = markup (re_html (branded A m')) \<and>
    list_all (\<lambda>c. \<not> is_space c \<or> c = CHR '' '') (re_subject (branded A m)) \<and> length (re_subject (branded A m)) \<le> 160"
proof (intro conjI)
  show "markup (re_html (branded A m)) = markup (re_html (branded A m'))"
    by (simp add: branded_def email_html_def Let_def parts_markup[OF assms])
  show "list_all (\<lambda>c. \<not> is_space c \<or> c = CHR '' '') (re_subject (branded A m))"
    using clean_subject_chars by (auto simp: branded_def list_all_iff)
  show "length (re_subject (branded A m)) \<le> 160" by (simp add: branded_def clean_subject_def)
qed

definition plain_mail :: "string \<Rightarrow> string \<Rightarrow> branded_email" where
  "plain_mail name title = \<lparr>be_subject = title, be_eyebrow = ''E'', be_title = title, be_paragraphs = [''Sign '' @ title], be_public_url = ''https://web/'',
     be_greeting_name = Some name, be_action = Some (''Go'', ''https://web/s''), be_note = None, be_qr_content_id = None, be_images = []\<rparr>"

definition plain_assets :: email_assets where
  "plain_assets = \<lparr>ea_mark = ''m'', ea_qr = (\<lambda>_. ''q'')\<rparr>"

theorem email_no_injection_witness:
  "markup (re_html (branded plain_assets (plain_mail ''<b>Ana</b>'' ''<script src=//x>''))) = markup (re_html (branded plain_assets (plain_mail ''Ana'' ''Lease''))) \<and>
   escape ''<b>'' = ''&lt;b&gt;''"
proof -
  have shape: "email_shape (plain_mail ''<b>Ana</b>'' ''<script src=//x>'') = email_shape (plain_mail ''Ana'' ''Lease'')"
    by (simp add: email_shape_def plain_mail_def given_text_def given_action_def)
  show ?thesis
    using email_no_injection[OF shape, of plain_assets] by (simp add: escape_def escape_char_def)
qed

end
