(* ===== verification/Payment_Providers.thy ===== *)
theory Payment_Providers
  imports Billing Service_Calls
begin

text \<open>
  The payment providers behind the billing service: \<open>stripe_provider.py\<close> over the SDK of Stripe, and the local
  \<open>fake_provider.py\<close>. The calls of the SDK are fields of the environment; a call raises or answers. The state is
  what Stripe keeps that the provider changes: whether a subscription ends with its period.
\<close>

section \<open>Environment\<close>

record tax_id_object =
  to_id :: "string option"
  to_type :: "string option"
  to_value :: "string option"

text \<open>
  \<open>sv_items\<close> are the ids of the items of a subscription, \<open>sv_modify_error\<close> is the exception of setting the flag,
  if any, and \<open>sv_secret_file\<close> reads the file of the runtime secret.
\<close>

record stripe_env =
  sv_secret_key :: string
  sv_portal_configuration :: "string option"
  sv_runtime_file :: "string option"
  sv_secret_file :: "string \<Rightarrow> string result"
  sv_webhook_secret :: "string option"
  sv_customer :: "string \<Rightarrow> string \<Rightarrow> (string \<times> string) list \<Rightarrow> string result"
  sv_checkout :: "(string, json) dict \<Rightarrow> string option result"
  sv_portal :: "(string, json) dict \<Rightarrow> string option result"
  sv_items :: "string \<Rightarrow> string option list result"
  sv_modify_error :: "string \<Rightarrow> bool \<Rightarrow> exn option"
  sv_subscription :: "string \<Rightarrow> stripe_resource result"
  sv_customer_name :: "string \<Rightarrow> string option result"
  sv_tax_ids :: "string \<Rightarrow> tax_id_object list result"
  sv_event :: "bytes \<Rightarrow> string \<Rightarrow> string \<Rightarrow> stripe_event result"

type_synonym stripe_state = "(string, bool) dict"

definition cancels :: "stripe_state \<Rightarrow> string \<Rightarrow> bool" where
  "cancels st sub = dict_get_or st sub False"

definition modify_cancel :: "stripe_env \<Rightarrow> string \<Rightarrow> bool \<Rightarrow> stripe_state \<Rightarrow> unit result \<times> stripe_state" where
  "modify_cancel S sub flag st =
     (case sv_modify_error S sub flag of Some e \<Rightarrow> (Inl e, st) | None \<Rightarrow> (Inr (), dict_set sub flag st))"

section \<open>Stripe\<close>

text \<open>\<open>StripeBillingProvider()\<close> needs a key.\<close>

definition stripe_provider :: "stripe_env \<Rightarrow> unit result" where
  "stripe_provider S = (if sv_secret_key S = [] then Inl (BillingProviderError ''Stripe is not configured'') else Inr ())"

definition stripe_create_customer :: "stripe_env \<Rightarrow> string \<Rightarrow> string \<Rightarrow> (string \<times> string) list \<Rightarrow> string result" where
  "stripe_create_customer S email name metadata = sv_customer S email name metadata"

definition checkout_metadata :: "checkout_call \<Rightarrow> json" where
  "checkout_metadata c = JObj [(''tenant_id'', JStr (uuid_str (ck_tenant_id c))), (''product_code'', JStr (ck_product_code c))]"

definition checkout_parameters :: "checkout_call \<Rightarrow> (string, json) dict" where
  "checkout_parameters c =
     [(''mode'', JStr ''subscription''), (''customer'', JStr (ck_customer_id c)),
      (''line_items'', JList [JObj [(''price'', JStr (ck_price_id c)), (''quantity'', JInt 1)]]),
      (''success_url'', JStr (ck_success_url c)), (''cancel_url'', JStr (ck_cancel_url c)),
      (''client_reference_id'', JStr (uuid_str (ck_tenant_id c))),
      (''subscription_data'', JObj [(''metadata'', checkout_metadata c)]), (''metadata'', checkout_metadata c)] @
     (if ck_product_code c \<in> {''rubrica_intermediate'', ''rubrica_team''}
      then [(''tax_id_collection'', JObj [(''enabled'', JBool True)]),
            (''customer_update'', JObj [(''name'', JStr ''auto''), (''address'', JStr ''auto'')])]
      else [])"

definition session_url :: "string \<Rightarrow> string option \<Rightarrow> string result" where
  "session_url m url = (case nonempty url of None \<Rightarrow> Inl (BillingProviderError m) | Some u \<Rightarrow> Inr u)"

definition stripe_create_checkout :: "stripe_env \<Rightarrow> checkout_call \<Rightarrow> string result" where
  "stripe_create_checkout S c =
     (case sv_checkout S (checkout_parameters c) of
        Inl _ \<Rightarrow> Inl (BillingProviderError ''Stripe checkout could not be opened'')
      | Inr url \<Rightarrow> session_url ''Stripe did not return a checkout URL'' url)"

text \<open>The flow of a subscription: with a price, the change of its first item is confirmed.\<close>

definition portal_flow :: "portal_call \<Rightarrow> string \<Rightarrow> string option list \<Rightarrow> json" where
  "portal_flow c sub items =
     (let kind = (if nonempty (pc_price_id c) = None then ''subscription_update'' else ''subscription_update_confirm'');
          payload = (case nonempty (pc_price_id c) of
              None \<Rightarrow> JObj [(''subscription'', JStr sub)]
            | Some price \<Rightarrow> JObj [(''subscription'', JStr sub),
                (''items'', JList [JObj [(''id'', JStr (case hd items of None \<Rightarrow> ''None'' | Some i \<Rightarrow> i)),
                   (''price'', JStr price), (''quantity'', JInt 1)]])])
      in JObj [(''type'', JStr kind), (kind, payload), (''after_completion'', JObj [(''type'', JStr ''redirect''),
           (''redirect'', JObj [(''return_url'', JStr (case nonempty (pc_completion_url c) of None \<Rightarrow> pc_return_url c | Some u \<Rightarrow> u))])])])"

text \<open>
  The subscription first: a scheduled cancellation is taken back before the portal is opened. The answer is
  whether it was scheduled, and the flow.
\<close>

definition prepare_subscription ::
  "stripe_env \<Rightarrow> portal_call \<Rightarrow> string \<Rightarrow> stripe_state \<Rightarrow> (bool \<times> json) result \<times> stripe_state"
where
  "prepare_subscription S c sub st =
     (case sv_items S sub of
        Inl e \<Rightarrow> (Inl e, st)
      | Inr items \<Rightarrow>
          (case (if cancels st sub then modify_cancel S sub False st else (Inr (), st)) of
             (Inl e, st1) \<Rightarrow> (Inl e, st1)
           | (Inr _, st1) \<Rightarrow>
               if nonempty (pc_price_id c) \<noteq> None \<and> items = []
               then (Inl (BillingProviderError ''Stripe subscription has no changeable item''), st1)
               else (Inr (cancels st sub, portal_flow c sub items), st1)))"

definition portal_parameters :: "stripe_env \<Rightarrow> portal_call \<Rightarrow> json option \<Rightarrow> (string, json) dict" where
  "portal_parameters S c flow =
     [(''customer'', JStr (pc_customer_id c)), (''return_url'', JStr (pc_return_url c))] @
     (case nonempty (sv_portal_configuration S) of None \<Rightarrow> [] | Some i \<Rightarrow> [(''configuration'', JStr i)]) @
     (case flow of None \<Rightarrow> [] | Some f \<Rightarrow> [(''flow_data'', f)])"

definition open_portal ::
  "stripe_env \<Rightarrow> portal_call \<Rightarrow> (string \<times> bool) option \<Rightarrow> json option \<Rightarrow> stripe_state \<Rightarrow> string result \<times> stripe_state"
where
  "open_portal S c scheduled flow st =
     (case sv_portal S (portal_parameters S c flow) of
        Inr url \<Rightarrow> (session_url ''Stripe did not return a portal URL'' url, st)
      | Inl _ \<Rightarrow>
          (case scheduled of
             Some (sub, True) \<Rightarrow>
               (case modify_cancel S sub True st of
                  (Inl e, st1) \<Rightarrow> (Inl e, st1)
                | (Inr _, st1) \<Rightarrow> (Inl (BillingProviderError ''Stripe billing portal could not be opened''), st1))
           | _ \<Rightarrow> (Inl (BillingProviderError ''Stripe billing portal could not be opened''), st)))"

definition stripe_create_portal :: "stripe_env \<Rightarrow> portal_call \<Rightarrow> stripe_state \<Rightarrow> string result \<times> stripe_state" where
  "stripe_create_portal S c st =
     (case nonempty (pc_subscription_id c) of
        None \<Rightarrow> open_portal S c None None st
      | Some sub \<Rightarrow>
          (case prepare_subscription S c sub st of
             (Inl e, st1) \<Rightarrow> (Inl e, st1)
           | (Inr (scheduled, flow), st1) \<Rightarrow> open_portal S c (Some (sub, scheduled)) (Some flow) st1))"

definition stripe_retrieve_subscription :: "stripe_env \<Rightarrow> string \<Rightarrow> stripe_resource result" where
  "stripe_retrieve_subscription S sub =
     (case sv_subscription S sub of
        Inl _ \<Rightarrow> Inl (BillingProviderError ''Stripe subscription could not be synchronized'')
      | Inr r \<Rightarrow> Inr r)"

definition stripe_retrieve_identity :: "stripe_env \<Rightarrow> string \<Rightarrow> business_identity result" where
  "stripe_retrieve_identity S customer =
     (case (sv_customer_name S customer, sv_tax_ids S customer) of
        (Inr name, Inr tax_ids) \<Rightarrow>
          Inr \<lparr>bi_name = nonempty (Some (strip (case name of None \<Rightarrow> [] | Some n \<Rightarrow> n))),
               bi_tax_ids = map (\<lambda>t. \<lparr>tx_id = (case to_id t of None \<Rightarrow> [] | Some v \<Rightarrow> v),
                 tx_type = (case to_type t of None \<Rightarrow> [] | Some v \<Rightarrow> v), tx_value = (case to_value t of None \<Rightarrow> [] | Some v \<Rightarrow> v)\<rparr>) tax_ids\<rparr>
      | _ \<Rightarrow> Inl (BillingProviderError ''Stripe customer business identity could not be retrieved''))"

text \<open>
  The secret of the file, unless it is missing or empty, then that of the settings. \<open>ValueError\<close> stands for a
  file that is not UTF-8 (\<open>UnicodeDecodeError\<close>), which is not caught; the other errors are those of the system.
\<close>

definition webhook_secret :: "stripe_env \<Rightarrow> string option result" where
  "webhook_secret S =
     (case nonempty (sv_runtime_file S) of
        None \<Rightarrow> Inr (sv_webhook_secret S)
      | Some path \<Rightarrow>
          (case sv_secret_file S path of
             Inl (FileNotFoundError _) \<Rightarrow> Inr (sv_webhook_secret S)
           | Inl (ValueError m) \<Rightarrow> Inl (ValueError m)
           | Inl _ \<Rightarrow> Inl (BillingProviderError ''Stripe runtime webhook secret could not be read'')
           | Inr v \<Rightarrow> if strip v = [] then Inr (sv_webhook_secret S) else Inr (Some (strip v))))"

text \<open>\<open>sv_event\<close> raises \<open>ValueError\<close> or the error of the signature.\<close>

definition stripe_construct_event :: "stripe_env \<Rightarrow> bytes \<Rightarrow> string \<Rightarrow> stripe_event result" where
  "stripe_construct_event S payload signature =
     (case webhook_secret S of
        Inl e \<Rightarrow> Inl e
      | Inr secret \<Rightarrow>
          (case nonempty secret of
             None \<Rightarrow> Inl (BillingProviderError ''Stripe webhook is not configured'')
           | Some k \<Rightarrow> (case sv_event S payload signature k of Inl _ \<Rightarrow> Inl InvalidWebhookSignatureError | Inr e \<Rightarrow> Inr e)))"

section \<open>The local provider\<close>

definition fake_create_customer :: "uuid \<Rightarrow> string" where
  "fake_create_customer i = ''fake_customer_'' @ uuid_str i"

definition fake_create_checkout :: "checkout_call \<Rightarrow> string" where
  "fake_create_checkout c = ck_success_url c"

definition fake_create_portal :: "portal_call \<Rightarrow> string" where
  "fake_create_portal c = pc_return_url c"

definition fake_subscription :: "string \<Rightarrow> stripe_resource" where
  "fake_subscription sub =
     \<lparr>rs_id = Some sub, rs_customer = None, rs_subscription = None, rs_status = Some ''active'', rs_cancel_at_period_end = None,
      rs_cancel_at = None, rs_metadata = Some [(''product_code'', ''rubrica_base'')], rs_client_reference_id = None, rs_items = [],
      rs_current_period_start = None, rs_current_period_end = None, rs_period_start = None, rs_period_end = None,
      rs_billing_reason = None, rs_paid_at = None, rs_parent_subscription = None, rs_currency = None, rs_amount_due = None,
      rs_amount_paid = None, rs_lines = []\<rparr>"

definition fake_identity :: business_identity where
  "fake_identity = \<lparr>bi_name = None, bi_tax_ids = []\<rparr>"

text \<open>\<open>loads\<close> is \<open>json.loads\<close>; the event is the object itself.\<close>

definition fake_construct_event :: "(bytes \<Rightarrow> json result) \<Rightarrow> bytes \<Rightarrow> json result" where
  "fake_construct_event loads payload =
     (case loads payload of
        Inl e \<Rightarrow> Inl e
      | Inr (JObj d) \<Rightarrow> Inr (JObj d)
      | Inr _ \<Rightarrow> Inl (ValueError ''Fake billing event must be a JSON object''))"

section \<open>The provider of the billing service\<close>

text \<open>The environment of billing with Stripe behind it, in a state of Stripe.\<close>

definition with_stripe :: "stripe_env \<Rightarrow> stripe_state \<Rightarrow> billing_env \<Rightarrow> billing_env" where
  "with_stripe S st V = V\<lparr>
     bv_provider_error := (case stripe_provider S of Inl (BillingProviderError m) \<Rightarrow> Some m | _ \<Rightarrow> None),
     bv_create_customer := (\<lambda>email name t. stripe_create_customer S email name [(''tenant_id'', uuid_str t)]),
     bv_create_checkout := stripe_create_checkout S,
     bv_create_portal := (\<lambda>c. fst (stripe_create_portal S c st)),
     bv_retrieve_subscription := stripe_retrieve_subscription S,
     bv_retrieve_identity := stripe_retrieve_identity S,
     bv_construct_event := stripe_construct_event S\<rparr>"

section \<open>A scheduled cancellation\<close>

lemma cancels_set: "cancels (dict_set sub flag st) other = (if other = sub then flag else cancels st other)"
  by (simp add: cancels_def)

lemma modify_cancel_cancels:
  "modify_cancel S sub flag st = (r, st1) \<Longrightarrow>
   cancels st1 other = (if other = sub \<and> sv_modify_error S sub flag = None then flag else cancels st other)"
  by (auto simp: modify_cancel_def cancels_set split: option.splits)

lemma modify_cancel_result: "fst (modify_cancel S sub flag st) = Inr () \<longleftrightarrow> sv_modify_error S sub flag = None"
  by (simp add: modify_cancel_def split: option.split)

text \<open>What is needed for a flow: the items are read, and a change of price has an item to change.\<close>

definition flow_items :: "stripe_env \<Rightarrow> portal_call \<Rightarrow> string \<Rightarrow> string option list option" where
  "flow_items S c sub =
     (case sv_items S sub of
        Inl _ \<Rightarrow> None
      | Inr items \<Rightarrow> if nonempty (pc_price_id c) \<noteq> None \<and> items = [] then None else Some items)"

definition portal_refused :: "stripe_env \<Rightarrow> portal_call \<Rightarrow> string \<Rightarrow> bool" where
  "portal_refused S c sub =
     (case flow_items S c sub of
        None \<Rightarrow> False
      | Some items \<Rightarrow> (case sv_portal S (portal_parameters S c (Some (portal_flow c sub items))) of Inl _ \<Rightarrow> True | Inr _ \<Rightarrow> False))"

lemma open_portal_cancels:
  "cancels (snd (open_portal S c (Some (sub, scheduled)) flow st)) other =
     (if other = sub \<and> scheduled \<and> sv_modify_error S sub True = None \<and>
         (\<exists>e. sv_portal S (portal_parameters S c flow) = Inl e)
      then True else cancels st other)"
  by (auto simp: open_portal_def modify_cancel_def cancels_set split: sum.splits option.splits prod.splits bool.splits)

lemma create_portal_cancels:
  assumes "nonempty (pc_subscription_id c) = Some sub" and "sv_items S sub = Inr items"
  shows "cancels (snd (stripe_create_portal S c st)) other =
     (if other = sub \<and> cancels st sub \<and> sv_modify_error S sub False = None
      then portal_refused S c sub \<and> sv_modify_error S sub True = None else cancels st other)"
  using assms
  by (cases "cancels st sub"; cases "sv_modify_error S sub False"; cases "nonempty (pc_price_id c) \<noteq> None \<and> items = []";
      cases "sv_portal S (portal_parameters S c (Some (portal_flow c sub items)))")
     (auto simp: stripe_create_portal_def prepare_subscription_def open_portal_cancels modify_cancel_def cancels_set
        portal_refused_def flow_items_def)

lemma open_portal_Inr:
  "fst (open_portal S c scheduled flow st) = Inr u \<Longrightarrow> \<exists>url. sv_portal S (portal_parameters S c flow) = Inr url"
  by (auto simp: open_portal_def split: sum.splits option.splits prod.splits bool.splits)

lemma create_portal_answer:
  assumes "nonempty (pc_subscription_id c) = Some sub" and "fst (stripe_create_portal S c st) = Inr u"
  shows "\<not> portal_refused S c sub"
  using assms
  by (auto simp: stripe_create_portal_def prepare_subscription_def portal_refused_def flow_items_def
        split: sum.splits prod.splits if_splits dest!: open_portal_Inr)

lemma portal_refused_items:
  "sv_items S sub = Inr items \<Longrightarrow> portal_refused S c sub \<Longrightarrow> nonempty (pc_price_id c) \<noteq> None \<Longrightarrow> items \<noteq> []"
  by (auto simp: portal_refused_def flow_items_def)

lemma create_portal_no_item:
  assumes "nonempty (pc_subscription_id c) = Some sub" and "sv_items S sub = Inr []" and "nonempty (pc_price_id c) \<noteq> None"
    and "sv_modify_error S sub False = None"
  shows "fst (stripe_create_portal S c st) = Inl (BillingProviderError ''Stripe subscription has no changeable item'')"
  using assms by (simp add: stripe_create_portal_def prepare_subscription_def modify_cancel_def)

text \<open>C40:
  Opening the portal of a subscription takes a scheduled cancellation back before the customer has done anything:
  once the call of the portal is answered, and also when the call is never made because there is no item to change,
  the subscription renews. It is scheduled again exactly when the call of the portal fails and setting the flag again
  does not. Other subscriptions keep their flag.
\<close>

theorem portal_takes_cancellation_back:
  assumes "nonempty (pc_subscription_id c) = Some sub" and "cancels st sub"
    and "sv_items S sub = Inr items" and "sv_modify_error S sub False = None"
  shows "(\<forall>other. other \<noteq> sub \<longrightarrow> cancels (snd (stripe_create_portal S c st)) other = cancels st other) \<and>
    (cancels (snd (stripe_create_portal S c st)) sub \<longleftrightarrow> portal_refused S c sub \<and> sv_modify_error S sub True = None) \<and>
    (\<forall>u. fst (stripe_create_portal S c st) = Inr u \<longrightarrow> \<not> cancels (snd (stripe_create_portal S c st)) sub) \<and>
    (nonempty (pc_price_id c) \<noteq> None \<and> items = [] \<longrightarrow>
       fst (stripe_create_portal S c st) = Inl (BillingProviderError ''Stripe subscription has no changeable item'') \<and>
       \<not> cancels (snd (stripe_create_portal S c st)) sub)"
  using assms create_portal_answer [OF assms(1), of S st] create_portal_no_item [OF assms(1), of S st]
    portal_refused_items [of S sub items c]
  by (auto simp: create_portal_cancels)

definition demo_stripe :: stripe_env where
  "demo_stripe =
     \<lparr>sv_secret_key = ''k'', sv_portal_configuration = None, sv_runtime_file = None, sv_secret_file = (\<lambda>_. Inl AttributeError),
      sv_webhook_secret = Some ''w'', sv_customer = (\<lambda>_ _ _. Inr ''c''), sv_checkout = (\<lambda>_. Inr (Some ''u'')),
      sv_portal = (\<lambda>_. Inr (Some ''p'')), sv_items = (\<lambda>_. Inr [Some ''i'']), sv_modify_error = (\<lambda>_ _. None),
      sv_subscription = (\<lambda>_. Inr (fake_subscription ''s'')), sv_customer_name = (\<lambda>_. Inr None), sv_tax_ids = (\<lambda>_. Inr []),
      sv_event = (\<lambda>_ _ _. Inl AttributeError)\<rparr>"

definition demo_portal_call :: portal_call where
  "demo_portal_call = \<lparr>pc_customer_id = ''c'', pc_return_url = ''r'', pc_subscription_id = Some ''s'', pc_completion_url = None, pc_price_id = None\<rparr>"

theorem portal_takes_cancellation_back_witness:
  "cancels [(''s'', True)] ''s'' \<and> fst (stripe_create_portal demo_stripe demo_portal_call [(''s'', True)]) = Inr ''p'' \<and>
   \<not> cancels (snd (stripe_create_portal demo_stripe demo_portal_call [(''s'', True)])) ''s''"
proof -
  have answer: "fst (stripe_create_portal demo_stripe demo_portal_call [(''s'', True)]) = Inr ''p''" by code_simp
  have scheduled: "cancels [(''s'', True)] ''s''" by code_simp
  have call: "nonempty (pc_subscription_id demo_portal_call) = Some ''s''" by code_simp
  have stripe: "sv_items demo_stripe ''s'' = Inr [Some ''i'']" "sv_modify_error demo_stripe ''s'' False = None"
    by (simp_all add: demo_stripe_def)
  from portal_takes_cancellation_back [OF call scheduled stripe] answer scheduled show ?thesis by metis
qed

end
