(* ===== verification/Spec2Isabelle.thy ===== *)
theory Spec2Isabelle
  imports Workflow_Properties Accounts Billing_Claims Database_Claims Serpro_Claims Notification_Claims Access_Claims Event_Outbox Generic_Crud Email_Templates
    Payment_Providers
begin

text \<open>
  \<^bold>\<open>Rubrica: the verification development of its services.\<close>

  Rubrica is a multi-tenant service for electronic signatures. It runs as separate processes that call
  each other over HTTP with a service key:

  \<^item> \<^bold>\<open>core API\<close> (\<open>src/apps/core_api\<close>): tenants and teams, billing, documents, signature requests and
    the certificate signature of Serpro ID;
  \<^item> \<^bold>\<open>auth API\<close> (\<open>src/apps/auth_api\<close>): users, identity documents, sessions, multi-factor
    authentication and accounts;
  \<^item> \<^bold>\<open>notification API\<close> (\<open>src/apps/notification_api\<close>): mails, Slack and WhatsApp messages, the WhatsApp
    numbers of the tenants and the webhook of Meta;
  \<^item> \<^bold>\<open>eventing API\<close> (\<open>src/apps/eventing_api\<close>) and the \<^bold>\<open>shared kernel\<close> (\<open>src/packages/shared_kernel\<close>).

  A signature request is opened by an operator of a tenant (tenants, teams), is charged to the plan of
  the tenant (billing), freezes one version of a document (document storage, upload validation), is
  answered by the invited signers over one link (auth API for the identity), and ends with a PDF that
  carries the evidence of the signatures (signed PDF) or the certificate of the signer (Serpro ID).
\<close>

section \<open>The model\<close>

text \<open>
  The embedding is shallow. A class of rows is a record, an enumeration a datatype, an operation a
  function of the state before that gives its answer or error and the state after.

  \<^item> A method that raises gives \<open>Inl\<close> with the exception; every \<open>raise\<close>, early return and guard of the
    source is a branch of the model.
  \<^item> A database is the lists of the rows of its tables in insertion order, with its unique constraints
    and foreign keys as a predicate that a flush or a commit checks. A transaction gives back the old
    tables when its body raises or its commit is refused.
  \<^item> Redis is a dictionary of values with an optional expiry; a read takes the time of the request.
  \<^item> \<open>uuid4()\<close> draws the next number of a sequence; random tokens and the clock are arguments.
  \<^item> What is not in the repository is an argument: cryptography and digests, \<open>pypdf\<close>, \<open>reportlab\<close> and
    \<open>pyHanko\<close>, \<open>boto3\<close>, the payment provider, the answers of other services. Where a property relies on
    such code (an injective digest, fresh ids), its statement says so as a hypothesis and a witness
    shows that the hypothesis can hold.
  \<^item> Integers are Python's, so unbounded. Money is in the minor unit of the currency, as in the code.
  \<^item> Concurrency: a method that locks (\<open>FOR UPDATE\<close>, the mutex of the in-memory service) is one step. Where
    the code calls another service without a lock, the model says what others may do meanwhile:
    \<open>meanwhile\<close> in \<open>Serpro_Authorization\<close>, runs of steps in \<open>Notification_Claims\<close>.
\<close>

section \<open>The theories\<close>

text \<open>
  \<^bold>\<open>Shared.\<close> \<open>Rubrica_Prelude\<close> holds the Python values (UUIDs, times, JSON, exceptions), dictionaries in
  insertion order, string methods, tables, and the interface \<open>key_value_store\<close> with its
  interpretations. \<open>Service_Calls\<close> holds Redis (an interpretation of \<open>key_value_store\<close>), the encoding of queries and
  Python's operations on decoded JSON. \<open>Web_Guards\<close> holds the requests, the origin check and the service key.
  \<open>Access_Claims\<close> puts the auth and the core API together: the answers of the one are the parameters of the other.

  \<^bold>\<open>Core API.\<close>
  \<^item> \<open>Document_Storage\<close>: \<open>modules/document/storage.py\<close>. The interface \<open>document_store\<close> (what a put, a
    get and a discard promise), interpreted on the local backend.
  \<^item> \<open>Pdf_Validation\<close>: \<open>modules/document/pdf_validation.py\<close>. The traversal for active content against its
    reference, the reachable objects. The loop visits at most 100,000 objects, the bound of the source,
    and ends in an error beyond it.
  \<^item> \<open>Workflow_Schema\<close>, \<open>Signing_Lifecycle\<close>: the enumerations and payloads of \<open>workflow_schema.py\<close>, and the abstract
    machine of requests and signers with its safety properties; the locale \<open>signing_service\<close> is the
    refinement contract.
  \<^item> \<open>Workflow_Service\<close>, \<open>Workflow_Invariants\<close>, \<open>Workflow_Correctness\<close>, \<open>Workflow_Properties\<close>: the in-memory
    \<open>SignatureWorkflowService\<close>, its invariant, its simulation of the lifecycle, its properties.
  \<^item> \<open>Workflow_Tables\<close>, \<open>Database_Workflow\<close>, \<open>Database_Requests\<close>, \<open>Database_Signing\<close>: the database service
    (\<open>database_workflow_service.py\<close>) with its rows, clients and the store inside a transaction.
    \<open>Database_Effects\<close> says what each method may change, \<open>Database_Invariants\<close> that the invariants are kept
    and that the service interprets \<open>signing_service\<close>; \<open>Database_Demo\<close> evaluates a run;
    \<open>Database_Claims\<close> states the properties.
  \<^item> \<open>Signed_Pdf\<close>: \<open>signed_pdf.py\<close>, canonical evidence, stamps, and the texts of a stamp.
  \<^item> \<open>Serpro_Authorization\<close>, \<open>Serpro_Claims\<close>: \<open>serproid_service.py\<close>, the one-use authorisation of a certificate
    signature and what such a signature was checked against.
  \<^item> \<open>Core_State\<close>, \<open>Tenants\<close>, \<open>Team_Properties\<close>, \<open>Team_Claims\<close>: the tables of tenants, members and
    billing with the SQLAlchemy session, \<open>tenant_service.py\<close>, the contract \<open>tenant_operation\<close> and its
    interpretations, isolation, seats, administrators and identities.
  \<^item> \<open>Core_Access\<close>, \<open>Core_Routes\<close>, \<open>Team_Routes\<close>: the requests of the core API: \<open>auth_context.py\<close>, which asks the auth
    API who calls, the permission of every route, upload bodies, and the routers of documents, signature
    requests, signing links, Serpro ID, tenants and billing over their services.
  \<^item> \<open>Billing\<close>, \<open>Billing_Facts\<close>, \<open>Billing_Claims\<close>: \<open>billing_service.py\<close>, the locale \<open>meter\<close> with the two
    quotas as interpretations, the account machine and its refinement, webhooks.
  \<^item> \<open>Payment_Providers\<close>: the providers behind the billing service, Stripe over the calls of its SDK and the
    local one.

  \<^bold>\<open>Auth API.\<close>
  \<^item> \<open>Identifiers\<close>: identity documents and localisation.
  \<^item> \<open>Auth_State\<close>, \<open>Mfa\<close>, \<open>Sessions\<close>, \<open>Session_Properties\<close>, \<open>Accounts\<close>: the tables of users, one-time
    tokens and the Redis keys of sessions; \<open>mfa_service.py\<close>, \<open>session_service.py\<close>,
    \<open>access_control_service.py\<close>, \<open>account_service.py\<close> and their properties.
  \<^item> \<open>Auth_Routes\<close>, \<open>User_Routes\<close>: the requests of the auth API: sessions and cookies, Turnstile, MFA with its
    rate limits, accounts, users, and what the core API asks (\<open>/internal\<close>).

  \<^bold>\<open>Notification API.\<close>
  \<^item> \<open>Notification_State\<close>: settings, requests to other systems, rows, and operations that answer or raise.
  \<^item> \<open>Message_Delivery\<close>: \<open>providers.py\<close>, the providers, the routes that send.
  \<^item> \<open>Meta_Onboarding\<close>, \<open>Meta_Webhook\<close>: the WhatsApp connections and the webhook.
  \<^item> \<open>Notification_Facts\<close>, \<open>Notification_Demo\<close>, \<open>Notification_Claims\<close>: what operations leave alone, the
    invariants of runs, a deployment to evaluate, and the properties.

  \<^bold>\<open>Eventing API and shared kernel.\<close>
  \<^item> \<open>Event_Outbox\<close>: the table of events, its repository, registration and projections
    (\<open>modules/outbox\<close>, \<open>modules/projections\<close>).
  \<^item> \<open>Generic_Crud\<close>: \<open>persistence/crud_service.py\<close>, the in-memory \<open>signature_request_service.py\<close> with the same
    operations, and the router over either; the locale \<open>resource_service\<close> is what both promise about soft deletion.
  \<^item> \<open>Email_Templates\<close>: \<open>email_templates.py\<close>, the rendering of every mail.
\<close>

section \<open>What the theorems show\<close>

text \<open>
  \<^item> Signature workflow: both services simulate the lifecycle machine, so a completed request has the
    signature of every signer and final states stay final; history is only appended to; what is signed is the
    version that was frozen, byte for byte; a signature needs the invited identity, consent, an open
    request and a charged plan; failures leave the tables and the store as they were; outsiders are
    refused by every method.
  \<^item> Certificate signature: an authorisation is used once under every interleaving, and a stored certificate signature
    was made by a currently valid certificate of the signer's own CPF or CNPJ and validates.
  \<^item> Teams and billing: no operation on one tenant touches another; seats and quotas are exact; an
    administrator always remains; webhooks are applied once, atomically and refine the account machine.
  \<^item> Auth: reuse of a rotated refresh token ends the session; logins and MFA attempts are bounded; one-time
    tokens work once; registration is all or nothing.
  \<^item> The two APIs together: the core API admits exactly the live sessions that have MFA, with the roles of the user's
    rows and, for cookies, from the web app; the identity check of a certificate is the comparison with the stored
    documents.
  \<^item> Notifications: a delivery is made once for its key, an incoming message is published once, a number
    belongs to one tenant and only a confirmed sign-up moves it.
  \<^item> Mails and payments: no text of a mail adds markup to its page; the portal of a subscription takes a scheduled
    cancellation back. The theories of the events and of the resources show that an event is registered once, that
    projections count exactly, and that a deleted resource is hidden and can be restored.

  Some properties state behaviour that is not what the code means to do; the manifest lists them as findings
  (the empty text of Slack messages, the verification that reconnects, the late payment that reopens an
  account, the declined signer who can still sign, the revoked signer who can still download, the invited
  administrator who cannot manage, the logout that leaves the session, the portal that renews a
  cancelled subscription).
\<close>

section \<open>Not modelled\<close>

text \<open>
  \<^item> The HTTP layer below the routes: FastAPI's parsing and pydantic's validation of requests, middleware, error
    handlers, settings and start-up of the services (\<open>main.py\<close>, \<open>bootstrap\<close>, \<open>infrastructure\<close>); the contact form
    and the webhook of the fake WhatsApp provider, which keep no state of their own.
  \<^item> Output: the drawing of stamps and flags on the \<open>reportlab\<close> canvas, the catalogues of texts of the mails, the
    home page, and the cryptographic timestamps of Serpro.
  \<^item> The code generators (\<open>bootstrap/relational_domain.py\<close>, \<open>bootstrap/domain_generator.py\<close>): they write source
    text for developers and take no part in the running services.
  \<^item> Alembic migrations, tests, and the tools under \<open>src/toolbox\<close> (benchmarks, seeds, checks).
  \<^item> \<open>shared_kernel.media\<close>, which the notification API imports, is not in the repository; it is a parameter.
\<close>

end
